(* ===== verification/Prelude.thy ===== *)
theory Prelude
  imports Main "HOL-Library.List_Lexorder" "HOL-Library.Char_ord"
begin

text \<open>
  Shared vocabulary of the development: the exception-and-state monad in which the asynchronous
  TypeScript methods are written, the SQL-like operations on tables, the string functions of the
  JavaScript library that the sources use, and the collections of facts that drive the automation
  of the component theories.
\<close>

named_theorems frame "which parts of the world an operation leaves alone"
named_theorems pres "introduction rules for the preservation of a state property"

section \<open>The exception and state monad\<close>

text \<open>
  An \<open>async\<close> method either resolves with a value or rejects with an error; what it wrote to the
  database or to Redis before rejecting stays written. An action therefore returns the error or the
  value, and the new state in both cases.
\<close>

type_synonym ('s, 'e, 'a) action = "'s \<Rightarrow> ('e + 'a) \<times> 's"

definition returnM :: "'a \<Rightarrow> ('s, 'e, 'a) action" where
  "returnM x = (\<lambda>s. (Inr x, s))"

definition throwM :: "'e \<Rightarrow> ('s, 'e, 'a) action" where
  "throwM e = (\<lambda>s. (Inl e, s))"

definition bindM :: "('s, 'e, 'a) action \<Rightarrow> ('a \<Rightarrow> ('s, 'e, 'b) action) \<Rightarrow> ('s, 'e, 'b) action" where
  "bindM m f = (\<lambda>s. case m s of (Inl e, s') \<Rightarrow> (Inl e, s') | (Inr x, s') \<Rightarrow> f x s')"

definition catchM :: "('s, 'e, 'a) action \<Rightarrow> ('e \<Rightarrow> ('s, 'e, 'a) action) \<Rightarrow> ('s, 'e, 'a) action" where
  "catchM m h = (\<lambda>s. case m s of (Inl e, s') \<Rightarrow> h e s' | (Inr x, s') \<Rightarrow> (Inr x, s'))"

definition getM :: "('s \<Rightarrow> 'a) \<Rightarrow> ('s, 'e, 'a) action" where
  "getM f = (\<lambda>s. (Inr (f s), s))"

definition modifyM :: "('s \<Rightarrow> 's) \<Rightarrow> ('s, 'e, unit) action" where
  "modifyM f = (\<lambda>s. (Inr (), f s))"

definition whenM :: "bool \<Rightarrow> ('s, 'e, unit) action \<Rightarrow> ('s, 'e, unit) action" where
  "whenM b m = (if b then m else returnM ())"

definition liftE :: "'e + 'a \<Rightarrow> ('s, 'e, 'a) action" where
  "liftE r = (\<lambda>s. (r, s))"

lemmas monad_defs =
  returnM_def throwM_def bindM_def catchM_def getM_def modifyM_def whenM_def liftE_def

lemma returnM_run [simp]: "returnM x s = (Inr x, s)"
  by (simp add: returnM_def)

lemma throwM_run [simp]: "throwM e s = (Inl e, s)"
  by (simp add: throwM_def)

lemma getM_run [simp]: "getM f s = (Inr (f s), s)"
  by (simp add: getM_def)

lemma modifyM_run [simp]: "modifyM f s = (Inr (), f s)"
  by (simp add: modifyM_def)

lemma liftE_run [simp]: "liftE r s = (r, s)"
  by (simp add: liftE_def)

lemma whenM_run [simp]: "whenM b m s = (if b then m s else (Inr (), s))"
  by (simp add: whenM_def)

lemma bindM_run:
  "bindM m f s = (case m s of (Inl e, s') \<Rightarrow> (Inl e, s') | (Inr x, s') \<Rightarrow> f x s')"
  by (simp add: bindM_def)

lemma bindM_Inr [simp]: "m s = (Inr x, s') \<Longrightarrow> bindM m f s = f x s'"
  by (simp add: bindM_def)

lemma bindM_Inl [simp]: "m s = (Inl e, s') \<Longrightarrow> bindM m f s = (Inl e, s')"
  by (simp add: bindM_def)

lemma bindM_return [simp]: "bindM (returnM x) f = f x"
  by (rule ext) simp

lemma bindM_assoc: "bindM (bindM m f) g = bindM m (\<lambda>x. bindM (f x) g)"
  by (rule ext) (simp add: bindM_def split: prod.splits sum.splits)

lemma catchM_Inr [simp]: "m s = (Inr x, s') \<Longrightarrow> catchM m h s = (Inr x, s')"
  by (simp add: catchM_def)

lemma catchM_Inl [simp]: "m s = (Inl e, s') \<Longrightarrow> catchM m h s = h e s'"
  by (simp add: catchM_def)

text \<open>Inversion of a run that resolved: every step of the chain resolved.\<close>

lemma bindM_InrE [elim!]:
  assumes "bindM m f s = (Inr y, s')"
  obtains x s1 where "m s = (Inr x, s1)" and "f x s1 = (Inr y, s')"
  using assms by (auto simp: bindM_def split: prod.splits sum.splits)

lemma bindM_InlE:
  assumes "bindM m f s = (Inl e, s')"
  obtains (first) "m s = (Inl e, s')"
    | (rest) x s1 where "m s = (Inr x, s1)" and "f x s1 = (Inl e, s')"
  using assms by (auto simp: bindM_def split: prod.splits sum.splits)

subsection \<open>Preservation of a property of the state\<close>

definition preserves :: "('s \<Rightarrow> bool) \<Rightarrow> ('s, 'e, 'a) action \<Rightarrow> bool" where
  "preserves P m \<longleftrightarrow> (\<forall>s. P s \<longrightarrow> P (snd (m s)))"

lemma preservesI: "(\<And>s. P s \<Longrightarrow> P (snd (m s))) \<Longrightarrow> preserves P m"
  by (simp add: preserves_def)

lemma preservesD: "preserves P m \<Longrightarrow> m s = (r, s') \<Longrightarrow> P s \<Longrightarrow> P s'"
  by (metis preserves_def snd_conv)

lemma preserves_snd: "preserves P m \<Longrightarrow> P s \<Longrightarrow> P (snd (m s))"
  by (simp add: preserves_def)

lemma preserves_return [pres]: "preserves P (returnM x)"
  by (rule preservesI) simp

lemma preserves_throw [pres]: "preserves P (throwM e)"
  by (rule preservesI) simp

lemma preserves_get [pres]: "preserves P (getM f)"
  by (rule preservesI) simp

lemma preserves_lift [pres]: "preserves P (liftE r)"
  by (rule preservesI) simp

lemma preserves_modify: "(\<And>s. P s \<Longrightarrow> P (f s)) \<Longrightarrow> preserves P (modifyM f)"
  by (rule preservesI) simp

lemma preserves_bind [pres]:
  assumes "preserves P m" and "\<And>x. preserves P (f x)"
  shows "preserves P (bindM m f)"
proof (rule preservesI)
  fix s assume "P s"
  with assms show "P (snd (bindM m f s))"
    by (cases "m s") (auto simp: bindM_def dest: preservesD preserves_snd split: sum.splits)
qed

lemma preserves_catch [pres]:
  assumes "preserves P m" and "\<And>e. preserves P (h e)"
  shows "preserves P (catchM m h)"
proof (rule preservesI)
  fix s assume "P s"
  with assms show "P (snd (catchM m h s))"
    by (cases "m s") (auto simp: catchM_def dest: preservesD preserves_snd split: sum.splits)
qed

lemma preserves_when [pres]: "preserves P m \<Longrightarrow> preserves P (whenM b m)"
  by (simp add: preserves_def)

lemma preserves_if [pres]:
  "preserves P m \<Longrightarrow> preserves P m' \<Longrightarrow> preserves P (if b then m else m')"
  by simp

lemma preserves_option [pres]:
  "preserves P m \<Longrightarrow> (\<And>x. preserves P (f x)) \<Longrightarrow> preserves P (case opt of None \<Rightarrow> m | Some x \<Rightarrow> f x)"
  by (cases opt) auto

lemma preserves_prod [pres]:
  "(\<And>x y. preserves P (f x y)) \<Longrightarrow> preserves P (case p of (x, y) \<Rightarrow> f x y)"
  by (cases p) auto

lemma preserves_sum [pres]:
  "(\<And>x. preserves P (f x)) \<Longrightarrow> (\<And>y. preserves P (g y)) \<Longrightarrow>
   preserves P (case r of Inl x \<Rightarrow> f x | Inr y \<Rightarrow> g y)"
  by (cases r) auto

lemma preserves_let [pres]: "(\<And>x. preserves P (f x)) \<Longrightarrow> preserves P (Let v f)"
  by (simp add: Let_def)

section \<open>Tables\<close>

text \<open>
  A table is the list of its rows. \<open>SELECT \<dots> WHERE p\<close> read through \<open>rows[0] ?? null\<close> is
  \<open>List.find p\<close>; \<open>UPDATE \<dots> SET f WHERE p\<close> is \<open>update_where p f\<close>, its \<open>RETURNING\<close> rows are
  \<open>updated_rows p f\<close> and its row count is their number.
\<close>

definition update_where :: "('r \<Rightarrow> bool) \<Rightarrow> ('r \<Rightarrow> 'r) \<Rightarrow> 'r list \<Rightarrow> 'r list" where
  "update_where p f t = map (\<lambda>r. if p r then f r else r) t"

definition updated_rows :: "('r \<Rightarrow> bool) \<Rightarrow> ('r \<Rightarrow> 'r) \<Rightarrow> 'r list \<Rightarrow> 'r list" where
  "updated_rows p f t = map f (filter p t)"

definition first_row :: "'r list \<Rightarrow> 'r option" where
  "first_row t = (case t of [] \<Rightarrow> None | r # _ \<Rightarrow> Some r)"

lemma first_row_simps [simp]: "first_row [] = None" "first_row (r # t) = Some r"
  by (simp_all add: first_row_def)

lemma first_row_filter: "first_row (filter p t) = List.find p t"
  by (induction t) auto

lemma first_row_updated: "first_row (updated_rows p f t) = map_option f (List.find p t)"
  by (induction t) (auto simp: updated_rows_def)

lemma updated_rows_empty: "updated_rows p f t = [] \<longleftrightarrow> (\<forall>r \<in> set t. \<not> p r)"
  by (auto simp: updated_rows_def filter_empty_conv)

lemma update_where_Nil [simp]: "update_where p f [] = []"
  by (simp add: update_where_def)

lemma update_where_Cons [simp]:
  "update_where p f (r # t) = (if p r then f r else r) # update_where p f t"
  by (simp add: update_where_def)

lemma length_update_where [simp]: "length (update_where p f t) = length t"
  by (simp add: update_where_def)

lemma update_where_append [simp]:
  "update_where p f (t @ u) = update_where p f t @ update_where p f u"
  by (simp add: update_where_def)

lemma set_update_where:
  "r \<in> set (update_where p f t) \<longleftrightarrow> (\<exists>r0 \<in> set t. r = (if p r0 then f r0 else r0))"
  by (auto simp: update_where_def)

lemma bex_update_where [simp]:
  "(\<exists>r \<in> set (update_where p f t). q r) \<longleftrightarrow> (\<exists>r \<in> set t. q (if p r then f r else r))"
  by (auto simp: update_where_def)

lemma ball_update_where [simp]:
  "(\<forall>r \<in> set (update_where p f t). q r) \<longleftrightarrow> (\<forall>r \<in> set t. q (if p r then f r else r))"
  by (auto simp: update_where_def)

lemma update_where_none: "(\<And>r. r \<in> set t \<Longrightarrow> \<not> p r) \<Longrightarrow> update_where p f t = t"
  by (induction t) auto

text \<open>A column that no update touches keeps its values, in order: keys stay keys.\<close>

lemma map_update_where: "(\<And>r. g (f r) = g r) \<Longrightarrow> map g (update_where p f t) = map g t"
  by (induction t) auto

lemma find_update_where:
  "(\<And>r. q (f r) = q r) \<Longrightarrow>
   List.find q (update_where p f t) = map_option (\<lambda>r. if p r then f r else r) (List.find q t)"
  by (induction t) auto

lemma find_SomeD: "List.find p t = Some r \<Longrightarrow> r \<in> set t \<and> p r"
  by (auto simp: find_Some_iff)

lemma find_None_set: "List.find p t = None \<longleftrightarrow> (\<forall>r \<in> set t. \<not> p r)"
  by (auto simp: find_None_iff)

lemma find_append: "List.find p (t @ u) = (case List.find p t of None \<Rightarrow> List.find p u | Some r \<Rightarrow> Some r)"
  by (induction t) auto

lemma find_cong_set: "(\<And>r. r \<in> set t \<Longrightarrow> p r = q r) \<Longrightarrow> List.find p t = List.find q t"
  by (induction t) auto

text \<open>A key column with distinct values determines its row.\<close>

lemma distinct_key_eq:
  "distinct (map k t) \<Longrightarrow> r \<in> set t \<Longrightarrow> r' \<in> set t \<Longrightarrow> k r = k r' \<Longrightarrow> r = r'"
  by (induction t) (auto simp: image_iff)

lemma find_key:
  assumes "distinct (map k t)" and "r \<in> set t" and "k r = v"
  shows "List.find (\<lambda>x. k x = v) t = Some r"
  using assms by (induction t) auto

text \<open>
  \<open>INSERT\<close> under primary-key and UNIQUE constraints: it is refused when a stored row clashes.
\<close>

definition insert_row :: "('r \<Rightarrow> bool) \<Rightarrow> 'r \<Rightarrow> 'r list \<Rightarrow> 'r list option" where
  "insert_row clash r t = (if list_ex clash t then None else Some (t @ [r]))"

lemma insert_row_Some:
  "insert_row clash r t = Some t' \<longleftrightarrow> (\<forall>x \<in> set t. \<not> clash x) \<and> t' = t @ [r]"
  by (auto simp: insert_row_def list_ex_iff)

lemma insert_row_None: "insert_row clash r t = None \<longleftrightarrow> (\<exists>x \<in> set t. clash x)"
  by (auto simp: insert_row_def list_ex_iff)

section \<open>Strings\<close>

text \<open>
  JavaScript strings are modelled by the character lists of HOL, one \<open>char\<close> per code unit below
  256. \<open>\<backslash>s\<close> is the white space of that range.
\<close>

definition js_ws :: "char \<Rightarrow> bool" where
  "js_ws c \<longleftrightarrow> (let n = (of_char c :: nat) in n = 32 \<or> (9 \<le> n \<and> n \<le> 13) \<or> n = 160)"

definition js_digit :: "char \<Rightarrow> bool" where
  "js_digit c \<longleftrightarrow> (let n = (of_char c :: nat) in 48 \<le> n \<and> n \<le> 57)"

definition js_lower_letter :: "char \<Rightarrow> bool" where
  "js_lower_letter c \<longleftrightarrow> (let n = (of_char c :: nat) in 97 \<le> n \<and> n \<le> 122)"

definition js_upper_letter :: "char \<Rightarrow> bool" where
  "js_upper_letter c \<longleftrightarrow> (let n = (of_char c :: nat) in 65 \<le> n \<and> n \<le> 90)"

definition js_word :: "char \<Rightarrow> bool" where
  "js_word c \<longleftrightarrow> js_digit c \<or> js_lower_letter c \<or> js_upper_letter c \<or> c = CHR ''_''"

text \<open>\<open>toLowerCase\<close> on the letters of ASCII.\<close>

definition js_lower :: "string \<Rightarrow> string" where
  "js_lower = map (\<lambda>c. if js_upper_letter c then char_of ((of_char c :: nat) + 32) else c)"

text \<open>How these functions are evaluated: on the bits of a character, without arithmetic.\<close>

lemma js_ws_bits [code]:
  "js_ws (Char b0 b1 b2 b3 b4 b5 b6 b7) \<longleftrightarrow>
     \<not> b6 \<and> \<not> b4 \<and> (if b5 then \<not> b0 \<and> \<not> b1 \<and> \<not> b2 \<and> \<not> b3 else \<not> b7 \<and> b3 \<and> (if b2 then \<not> b1 else b0 \<or> b1))"
  unfolding js_ws_def Let_def
  by (cases b0; cases b1; cases b2; cases b3; cases b4; cases b5; cases b6; cases b7) simp_all

lemma js_digit_bits [code]:
  "js_digit (Char b0 b1 b2 b3 b4 b5 b6 b7) \<longleftrightarrow> \<not> b7 \<and> \<not> b6 \<and> b5 \<and> b4 \<and> \<not> (b3 \<and> (b1 \<or> b2))"
  unfolding js_digit_def Let_def
  by (cases b0; cases b1; cases b2; cases b3; cases b4; cases b5; cases b6; cases b7) simp_all

lemma js_letter_bits [code]:
  "js_lower_letter (Char b0 b1 b2 b3 b4 b5 b6 b7) \<longleftrightarrow> \<not> b7 \<and> b6 \<and> b5 \<and> (b0 \<or> b1 \<or> b2 \<or> b3 \<or> b4) \<and> \<not> (b4 \<and> b3 \<and> (b2 \<or> b1 \<and> b0))"
  "js_upper_letter (Char b0 b1 b2 b3 b4 b5 b6 b7) \<longleftrightarrow> \<not> b7 \<and> b6 \<and> \<not> b5 \<and> (b0 \<or> b1 \<or> b2 \<or> b3 \<or> b4) \<and> \<not> (b4 \<and> b3 \<and> (b2 \<or> b1 \<and> b0))"
  unfolding js_lower_letter_def js_upper_letter_def Let_def
  by (cases b0; cases b1; cases b2; cases b3; cases b4; cases b5; cases b6; cases b7; simp)+

definition lower_char :: "char \<Rightarrow> char" where
  "lower_char c = (if js_upper_letter c then (case c of Char b0 b1 b2 b3 b4 b5 b6 b7 \<Rightarrow> Char b0 b1 b2 b3 b4 True b6 b7) else c)"

lemma js_lower_bits [code]: "js_lower = map lower_char"
proof -
  have "(if js_upper_letter c then char_of ((of_char c :: nat) + 32) else c) = lower_char c" for c
  proof (cases "js_upper_letter c")
    case True
    obtain b0 b1 b2 b3 b4 b5 b6 b7 where c: "c = Char b0 b1 b2 b3 b4 b5 b6 b7" by (cases c)
    with True have "\<not> b5" by (simp add: js_letter_bits)
    then have "(of_char c :: nat) + 32 = of_char (Char b0 b1 b2 b3 b4 True b6 b7)" by (simp add: c)
    with True show ?thesis by (simp add: lower_char_def c del: of_char_Char)
  qed (simp add: lower_char_def)
  then show ?thesis by (simp add: js_lower_def fun_eq_iff)
qed

text \<open>\<open>split\<close> at every character of a class; \<open>words\<close> is \<open>split(/\<backslash>s+/).filter(Boolean)\<close>.\<close>

fun split_at :: "(char \<Rightarrow> bool) \<Rightarrow> string \<Rightarrow> string list" where
  "split_at p [] = [[]]"
| "split_at p (c # cs) =
     (if p c then [] # split_at p cs
      else (case split_at p cs of [] \<Rightarrow> [[c]] | w # ws \<Rightarrow> (c # w) # ws))"

definition words_by :: "(char \<Rightarrow> bool) \<Rightarrow> string \<Rightarrow> string list" where
  "words_by p s = filter (\<lambda>w. w \<noteq> []) (split_at p s)"

abbreviation words :: "string \<Rightarrow> string list" where
  "words \<equiv> words_by js_ws"

fun join_with :: "string \<Rightarrow> string list \<Rightarrow> string" where
  "join_with sep [] = []"
| "join_with sep [w] = w"
| "join_with sep (w # ws) = w @ sep @ join_with sep ws"

text \<open>\<open>startsWith\<close>, and the truthiness of an optional string.\<close>

definition starts_with :: "string \<Rightarrow> string \<Rightarrow> bool" where
  "starts_with pre s \<longleftrightarrow> take (length pre) s = pre"

definition truthy :: "string option \<Rightarrow> bool" where
  "truthy x \<longleftrightarrow> (case x of None \<Rightarrow> False | Some v \<Rightarrow> v \<noteq> [])"

lemma truthy_simps [simp]: "truthy None = False" "truthy (Some v) = (v \<noteq> [])"
  by (simp_all add: truthy_def)

lemma truthyE: "truthy x \<Longrightarrow> (\<And>v. x = Some v \<Longrightarrow> v \<noteq> [] \<Longrightarrow> P) \<Longrightarrow> P"
  by (cases x) auto

lemma starts_with_append [simp]: "starts_with pre (pre @ s)"
  by (simp add: starts_with_def)

lemma starts_with_iff: "starts_with pre s \<longleftrightarrow> (\<exists>t. s = pre @ t)"
  by (metis append_take_drop_id append_eq_conv_conj starts_with_def)

text \<open>Splitting and joining.\<close>

lemma split_at_no_sep: "\<forall>c \<in> set w. \<not> p c \<Longrightarrow> split_at p w = [w]"
  by (induction w) auto

lemma split_at_append_sep:
  "\<forall>c \<in> set w. \<not> p c \<Longrightarrow> p sp \<Longrightarrow> split_at p (w @ sp # rest) = w # split_at p rest"
  by (induction w) auto

lemma split_at_nonempty: "split_at p s \<noteq> []"
  by (induction s) (auto split: list.splits)

lemma split_at_class: "w \<in> set (split_at p s) \<Longrightarrow> c \<in> set w \<Longrightarrow> \<not> p c"
proof (induction s arbitrary: w)
  case (Cons d ds)
  then show ?case
    by (cases "split_at p ds") (fastforce split: if_splits)+
qed simp

lemma words_by_class: "w \<in> set (words_by p s) \<Longrightarrow> w \<noteq> [] \<and> (\<forall>c \<in> set w. \<not> p c)"
  by (auto simp: words_by_def dest: split_at_class)

lemma words_by_empty [simp]: "words_by p [] = []"
  by (simp add: words_by_def)

lemma words_by_join:
  assumes "p sp" and "\<forall>w \<in> set ws. w \<noteq> [] \<and> (\<forall>c \<in> set w. \<not> p c)"
  shows "words_by p (join_with [sp] ws) = ws"
  using assms(2)
proof (induction "[sp]" ws rule: join_with.induct)
  case (3 w v vs)
  then show ?case
    using assms(1) by (simp add: words_by_def split_at_append_sep)
qed (simp_all add: words_by_def split_at_no_sep)

lemma space_ws [simp]: "js_ws CHR '' ''"
  by (simp add: js_ws_def)

lemma words_join_words: "words (join_with '' '' (words s)) = words s"
  using words_by_join [of js_ws "CHR '' ''" "words s"] by (simp add: words_by_class)

lemma words_join_filter:
  "\<forall>w \<in> set ws. w \<in> set (words s) \<Longrightarrow> words (join_with '' '' ws) = ws"
  by (rule words_by_join) (use words_by_class in \<open>simp, fast\<close>)

end
