(* ===== verification/Errors.thy ===== *)
theory Errors
  imports Prelude
begin

text \<open>
  The error hierarchy of \<^verbatim>\<open>src/common/errors/index.ts\<close>, the other exceptions the services
  throw, and the central error middleware of \<^verbatim>\<open>src/common/middleware/error-handler.ts\<close>
  that turns them into HTTP responses.
\<close>

section \<open>JSON values\<close>

datatype jval =
    JNull
  | JBool bool
  | JNum int
  | JStr string
  | JArr "jval list"
  | JObj "(string \<times> jval) list"

definition jopt :: "string option \<Rightarrow> jval" where
  "jopt x = (case x of None \<Rightarrow> JNull | Some v \<Rightarrow> JStr v)"

section \<open>The error classes\<close>

datatype err_class =
    AppErr
  | ValidationErr
  | AuthErr
  | InvalidCredentialsErr
  | ForbiddenErr
  | NotFoundErr
  | ConflictErr
  | TooManyRequestsErr
  | UnauthorizedClientErr
  | OAuthTokenErr

text \<open>
  \<open>App\<close> carries the class (for \<open>instanceof\<close>), the HTTP status, the machine code, the message and
  the details. The other constructors are the exceptions outside the \<open>AppError\<close> hierarchy:
  the replay signal of the code repository, key-management failures, errors of the database driver
  (with the violated constraint), errors of the body parser (with their status) and any other error.
\<close>

datatype exn =
    App err_class int string string "(string \<times> jval) list option"
  | CodeReplayError string string
  | KmsError string
  | DbError string
  | HttpError int
  | JsError string

type_synonym 'a result = "exn + 'a"

definition AppError :: "int \<Rightarrow> string \<Rightarrow> string \<Rightarrow> exn" where
  "AppError statusCode code message = App AppErr statusCode code message None"

definition ValidationError :: "string \<Rightarrow> (string \<times> jval) list \<Rightarrow> exn" where
  "ValidationError message details = App ValidationErr 400 ''VALIDATION_ERROR'' message (Some details)"

definition AuthError :: "string \<Rightarrow> string \<Rightarrow> exn" where
  "AuthError message code = App AuthErr 401 code message None"

definition InvalidCredentialsError :: exn where
  "InvalidCredentialsError =
     App InvalidCredentialsErr 401 ''INVALID_CREDENTIALS'' ''Invalid credentials'' None"

definition ForbiddenError :: "string \<Rightarrow> string \<Rightarrow> exn" where
  "ForbiddenError message code = App ForbiddenErr 403 code message None"

definition NotFoundError :: "string \<Rightarrow> exn" where
  "NotFoundError resource = App NotFoundErr 404 ''NOT_FOUND'' (resource @ '' not found'') None"

definition ConflictError :: "string \<Rightarrow> exn" where
  "ConflictError message = App ConflictErr 409 ''CONFLICT'' message None"

definition TooManyRequestsError :: "int \<Rightarrow> exn" where
  "TooManyRequestsError retryAfterSeconds =
     App TooManyRequestsErr 429 ''RATE_LIMITED'' ''Too many requests''
       (Some [(''retryAfterSeconds'', JNum retryAfterSeconds)])"

definition UnauthorizedClientError :: "string \<Rightarrow> exn" where
  "UnauthorizedClientError message =
     App UnauthorizedClientErr 401 ''UNAUTHORIZED_CLIENT'' message None"

definition OAuthTokenError :: "int \<Rightarrow> string \<Rightarrow> string \<Rightarrow> exn" where
  "OAuthTokenError statusCode code description = App OAuthTokenErr statusCode code description None"

lemmas exn_defs =
  AppError_def ValidationError_def AuthError_def InvalidCredentialsError_def ForbiddenError_def
  NotFoundError_def ConflictError_def TooManyRequestsError_def UnauthorizedClientError_def
  OAuthTokenError_def

text \<open>\<open>instanceof AuthError\<close> holds for the class and its subclass, and \<open>err.code\<close> reads the code.\<close>

definition is_AuthError :: "exn \<Rightarrow> bool" where
  "is_AuthError e =
     (case e of App c _ _ _ _ \<Rightarrow> c = AuthErr \<or> c = InvalidCredentialsErr | _ \<Rightarrow> False)"

definition err_code :: "exn \<Rightarrow> string option" where
  "err_code e = (case e of App _ _ code _ _ \<Rightarrow> Some code | _ \<Rightarrow> None)"

section \<open>The error middleware\<close>

record http_response =
  hr_status :: int
  hr_body :: jval

fun errorHandler :: "exn \<Rightarrow> string \<Rightarrow> http_response" where
  "errorHandler (App _ statusCode code message details) requestId =
     \<lparr>hr_status = statusCode,
      hr_body = JObj ([(''error'', JStr code), (''message'', JStr message)]
        @ (case details of None \<Rightarrow> [] | Some d \<Rightarrow> [(''details'', JObj d)])
        @ [(''request_id'', JStr requestId)])\<rparr>"
| "errorHandler (HttpError statusCode) requestId =
     (if statusCode \<noteq> 0 \<and> statusCode < 500
      then \<lparr>hr_status = statusCode,
            hr_body = JObj [(''error'', JStr ''BAD_REQUEST''), (''message'', JStr ''Malformed request''),
                            (''request_id'', JStr requestId)]\<rparr>
      else \<lparr>hr_status = 500,
            hr_body = JObj [(''error'', JStr ''INTERNAL_ERROR''),
                            (''message'', JStr ''An internal error occurred''),
                            (''request_id'', JStr requestId)]\<rparr>)"
| "errorHandler _ requestId =
     \<lparr>hr_status = 500,
      hr_body = JObj [(''error'', JStr ''INTERNAL_ERROR''),
                      (''message'', JStr ''An internal error occurred''),
                      (''request_id'', JStr requestId)]\<rparr>"

end
