(* ===== verification/Schema.thy ===== *)
theory Schema
  imports Errors
begin

text \<open>
  The data model: the rows of the PostgreSQL tables (\<^verbatim>\<open>src/infrastructure/database/migrations\<close>
  and the row interfaces of the repositories), what the services keep in Redis, the JSON web token
  types, the external functions the services call, the configuration, and the world that the
  operations of the component theories transform. Times are milliseconds since the epoch.
\<close>

type_synonym uuid = string
type_synonym timestamp = int

section \<open>Users and roles\<close>

datatype user_status = User_active | User_pending_verification | User_locked | User_disabled

record user_row =
  u_id :: uuid
  u_email :: string
  u_password_hash :: string
  u_first_name :: "string option"
  u_last_name :: "string option"
  u_status :: user_status
  u_failed_login_count :: int
  u_locked_until :: "timestamp option"
  u_mfa_required :: bool
  u_last_login_at :: "timestamp option"
  u_password_changed_at :: timestamp
  u_created_at :: timestamp
  u_updated_at :: timestamp

record role_row =
  ro_id :: uuid
  ro_name :: string
  ro_description :: "string option"
  ro_is_system :: bool

record permission_row =
  pe_id :: uuid
  pe_name :: string

record scope_row =
  sc_id :: uuid
  sc_name :: string
  sc_description :: "string option"

section \<open>OAuth clients and authorization codes\<close>

datatype client_type = Confidential | Public

datatype auth_method = Client_secret_basic | Client_secret_post | Auth_none

datatype client_status = Client_active | Client_disabled

record client_row =
  cl_id :: uuid
  cl_client_id :: string
  cl_client_secret_hash :: "string option"
  cl_name :: string
  cl_client_type :: client_type
  cl_redirect_uris :: "string list"
  cl_allowed_scopes :: "string list"
  cl_grant_types :: "string list"
  cl_token_endpoint_auth_method :: auth_method
  cl_require_pkce :: bool
  cl_status :: client_status
  cl_created_at :: timestamp

record code_row =
  ac_id :: uuid
  ac_code_hash :: string
  ac_client_id :: uuid
  ac_user_id :: uuid
  ac_redirect_uri :: string
  ac_scope :: string
  ac_nonce :: "string option"
  ac_code_challenge :: "string option"
  ac_code_challenge_method :: "string option"
  ac_expires_at :: timestamp
  ac_consumed_at :: "timestamp option"

section \<open>Sessions and refresh tokens\<close>

datatype session_status = Session_active | Session_revoked

record session_row =
  ss_id :: uuid
  ss_user_id :: uuid
  ss_client_id :: "uuid option"
  ss_ip :: "string option"
  ss_user_agent :: "string option"
  ss_device_id :: "string option"
  ss_mfa_passed :: bool
  ss_status :: session_status
  ss_last_seen_at :: timestamp
  ss_expires_at :: timestamp
  ss_revoked_at :: "timestamp option"
  ss_revoke_reason :: "string option"

datatype token_status = Token_active | Token_rotated | Token_revoked

record refresh_row =
  rt_id :: uuid
  rt_session_id :: uuid
  rt_user_id :: uuid
  rt_client_id :: "uuid option"
  rt_token_hash :: string
  rt_family_id :: uuid
  rt_previous_token_id :: "uuid option"
  rt_scope :: string
  rt_status :: token_status
  rt_expires_at :: timestamp
  rt_rotated_at :: "timestamp option"
  rt_revoked_at :: "timestamp option"

section \<open>Second factors, mail tokens\<close>

record envelope =
  en_v :: int
  en_iv :: string
  en_ct :: string
  en_tag :: string

datatype mfa_status = Mfa_pending | Mfa_active | Mfa_disabled

record mfa_row =
  mm_id :: uuid
  mm_user_id :: uuid
  mm_secret_encrypted :: envelope
  mm_status :: mfa_status
  mm_is_primary :: bool
  mm_enrolled_at :: "timestamp option"
  mm_last_used_at :: "timestamp option"

record email_verification_row =
  ev_id :: uuid
  ev_user_id :: uuid
  ev_token_hash :: string
  ev_email :: string
  ev_expires_at :: timestamp
  ev_consumed_at :: "timestamp option"

record password_reset_row =
  pr_id :: uuid
  pr_user_id :: uuid
  pr_token_hash :: string
  pr_expires_at :: timestamp
  pr_used_at :: "timestamp option"

section \<open>Audit log, risk events, documents, mail\<close>

record audit_row =
  al_id :: uuid
  al_event_type :: string
  al_user_id :: "uuid option"
  al_client_id :: "string option"
  al_ip :: "string option"
  al_user_agent :: "string option"
  al_request_id :: "string option"
  al_metadata :: "(string \<times> jval) list"
  al_created_at :: timestamp

datatype risk_level = Risk_low | Risk_medium | Risk_high

record risk_row =
  ri_user_id :: "uuid option"
  ri_session_id :: "uuid option"
  ri_event_type :: string
  ri_level :: risk_level
  ri_score :: int
  ri_signals :: "(string \<times> string option) list"
  ri_action_taken :: string
  ri_ip :: "string option"
  ri_user_agent :: "string option"
  ri_request_id :: "string option"
  ri_created_at :: timestamp

record document_row =
  do_id :: uuid
  do_owner_id :: uuid
  do_title :: string
  do_content :: string
  do_created_at :: timestamp
  do_updated_at :: timestamp

record email_message =
  em_to :: string
  em_subject :: string
  em_text :: string
  em_html :: "string option"

text \<open>
  The providers of \<^verbatim>\<open>src/modules/email\<close>: the one of development and tests keeps what it is given, the
  other hands it to an SMTP transport with the sender of the configuration.
\<close>

record smtp_transport =
  tp_host :: string
  tp_port :: int
  tp_secure :: bool
  tp_auth :: "(string \<times> string) option"

datatype email_provider = Mock_provider | Smtp_provider smtp_transport string

section \<open>Redis contents\<close>

record mfa_challenge =
  mc_userId :: uuid
  mc_sessionId :: uuid
  mc_attempts :: int

text \<open>
  The values the services store: plain strings, the two JSON documents (the session cache and the
  MFA challenges), counters and sets of strings.
\<close>

datatype rvalue =
    RStr string
  | RSession session_row
  | RChallenge mfa_challenge
  | RCount int
  | RSet "string list"

record rentry =
  re_value :: rvalue
  re_expires :: "timestamp option"

type_synonym redis_db = "(string \<times> rentry) list"

section \<open>JSON web tokens\<close>

record jwt_header =
  jh_alg :: "string option"
  jh_kid :: "string option"
  jh_typ :: "string option"

record jwt_payload =
  jp_iss :: "string option"
  jp_sub :: "string option"
  jp_aud :: "string list"
  jp_exp :: "int option"
  jp_nbf :: "int option"
  jp_iat :: "int option"
  jp_jti :: "string option"
  jp_scope :: "string option"
  jp_roles :: "string list option"
  jp_permissions :: "string list option"
  jp_sid :: "string option"
  jp_client_id :: "string option"
  jp_amr :: "string list option"
  jp_extra :: "(string \<times> string) list"

record verify_options =
  vo_issuer :: string
  vo_audience :: string
  vo_algorithms :: "string list"
  vo_clockTolerance :: int
  vo_requiredClaims :: "string list"

record key_file =
  kf_kid :: string
  kf_createdAt :: timestamp
  kf_publicKeyPem :: string
  kf_wrappedPrivateKey :: string

section \<open>External functions\<close>

text \<open>
  The functions of packages and platform services that are not part of the repository are
  parameters: hashing (\<open>node:crypto\<close>, \<open>argon2\<close>), randomness (indexed by the number of the draw),
  one-time passwords (\<open>otplib\<close>), token signing and verification (\<open>jose\<close>, whose errors carry a
  code), authenticated encryption, URL editing, the input syntax of the database's uuid type, and the
  answer of \<open>nodemailer\<close> to a message (the message of its error when the delivery fails). \<open>mailer\<close> is the
  provider that the process was started with.
\<close>

record externals =
  sha256_hex :: "string \<Rightarrow> string"
  sha256_b64url :: "string \<Rightarrow> string"
  rand_b64url :: "nat \<Rightarrow> nat \<Rightarrow> string"
  rand_hex :: "nat \<Rightarrow> nat \<Rightarrow> string"
  rand_bytes :: "nat \<Rightarrow> nat \<Rightarrow> string"
  rand_uuid :: "nat \<Rightarrow> uuid"
  audit_uuid :: "nat \<Rightarrow> uuid"
  uuid_syntax :: "string \<Rightarrow> bool"
  argon2_hash :: "nat \<Rightarrow> string \<Rightarrow> string"
  argon2_verify :: "string \<Rightarrow> string \<Rightarrow> bool option"
  totp_generateSecret :: "nat \<Rightarrow> string"
  totp_check :: "timestamp \<Rightarrow> string \<Rightarrow> string \<Rightarrow> bool"
  totp_keyuri :: "string \<Rightarrow> string \<Rightarrow> string \<Rightarrow> string"
  qr_toDataURL :: "string \<Rightarrow> string"
  jwt_sign :: "string \<Rightarrow> jwt_header \<Rightarrow> jwt_payload \<Rightarrow> string"
  jwt_decode_header :: "string \<Rightarrow> jwt_header option"
  jwt_verify :: "string \<Rightarrow> string \<Rightarrow> verify_options \<Rightarrow> timestamp \<Rightarrow> string option + jwt_payload"
  aes_gcm_seal :: "string \<Rightarrow> string \<Rightarrow> string \<Rightarrow> string \<times> string"
  aes_gcm_open :: "string \<Rightarrow> string \<Rightarrow> string \<Rightarrow> string \<Rightarrow> string option"
  hkdf_sha256 :: "string \<Rightarrow> string \<Rightarrow> string"
  base64_encode :: "string \<Rightarrow> string"
  base64_decode :: "string \<Rightarrow> string"
  ed25519_keypair :: "nat \<Rightarrow> string \<times> string"
  iso_date :: "timestamp \<Rightarrow> string"
  url_set_params :: "string \<Rightarrow> (string \<times> string) list \<Rightarrow> string"
  nodemailer :: "nat \<Rightarrow> smtp_transport \<Rightarrow> string \<Rightarrow> email_message \<Rightarrow> string option"
  mailer :: email_provider

section \<open>Configuration and request context\<close>

datatype high_action = Action_deny | Action_mfa | Action_allow

record config =
  JWT_ISSUER :: string
  JWT_AUDIENCE :: string
  ACCESS_TOKEN_TTL :: int
  REFRESH_TOKEN_TTL :: int
  AUTHORIZATION_CODE_TTL :: int
  ID_TOKEN_TTL :: int
  SESSION_TTL :: int
  KMS_MASTER_KEY :: "string option"
  IS_PRODUCTION :: bool
  PASSWORD_MIN_LENGTH :: int
  EMAIL_VERIFICATION_TTL :: int
  PASSWORD_RESET_TTL :: int
  RATE_LIMIT_WINDOW :: int
  RATE_LIMIT_LOGIN :: int
  RATE_LIMIT_REGISTER :: int
  RATE_LIMIT_FORGOT_PASSWORD :: int
  RATE_LIMIT_TOKEN :: int
  RATE_LIMIT_AUTHORIZE :: int
  RATE_LIMIT_API :: int
  RISK_FAILED_LOGINS_THRESHOLD :: int
  RISK_HIGH_SCORE_ACTION :: high_action
  MAX_FAILED_LOGINS :: int
  LOCKOUT_MINUTES :: int
  MFA_ISSUER :: string
  MFA_CHALLENGE_TTL :: int
  GATEWAY_SHARED_SECRET :: "string option"

record request_context =
  rc_requestId :: string
  rc_ip :: "string option"
  rc_userAgent :: "string option"

section \<open>The world\<close>

record world =
  t_users :: "user_row list"
  t_roles :: "role_row list"
  t_permissions :: "permission_row list"
  t_scopes :: "scope_row list"
  t_user_roles :: "(uuid \<times> uuid) list"
  t_role_permissions :: "(uuid \<times> uuid) list"
  t_clients :: "client_row list"
  t_codes :: "code_row list"
  t_sessions :: "session_row list"
  t_refresh :: "refresh_row list"
  t_mfa :: "mfa_row list"
  t_email_verifications :: "email_verification_row list"
  t_password_resets :: "password_reset_row list"
  t_audit :: "audit_row list"
  t_risk :: "risk_row list"
  t_documents :: "document_row list"
  redis :: redis_db
  outbox :: "email_message list"
  key_files :: "key_file list"
  master_file :: "string option"
  master_cache :: "string option"
  rotate_seq :: int
  clock :: timestamp
  draws :: nat

type_synonym 'a act = "(world, exn, 'a) action"

definition nowM :: "timestamp act" where
  "nowM = getM clock"

lemma nowM_run [simp]: "nowM s = (Inr (clock s), s)"
  by (simp add: nowM_def)

lemma preserves_now [pres]: "preserves P nowM"
  by (simp add: nowM_def preserves_get)

text \<open>One call of the random generator: the result of the next draw.\<close>

definition drawM :: "(nat \<Rightarrow> 'a) \<Rightarrow> 'a act" where
  "drawM f = (\<lambda>s. (Inr (f (draws s)), s\<lparr>draws := Suc (draws s)\<rparr>))"

lemma drawM_run [simp]: "drawM f s = (Inr (f (draws s)), s\<lparr>draws := Suc (draws s)\<rparr>)"
  by (simp add: drawM_def)

lemma preserves_draw: "(\<And>s. P s \<Longrightarrow> P (s\<lparr>draws := Suc (draws s)\<rparr>)) \<Longrightarrow> preserves P (drawM f)"
  by (rule preservesI) simp

text \<open>An \<open>INSERT\<close> that a constraint may refuse, as an action on one table.\<close>

definition insertM :: "(world \<Rightarrow> 'r list) \<Rightarrow> ('r list \<Rightarrow> world \<Rightarrow> world) \<Rightarrow> ('r \<Rightarrow> bool) \<Rightarrow> 'r \<Rightarrow> string \<Rightarrow> 'r act" where
  "insertM table put clash row constraint = (\<lambda>s.
     (case insert_row clash row (table s) of
        None \<Rightarrow> (Inl (DbError constraint), s)
      | Some t \<Rightarrow> (Inr row, put t s)))"

lemma insertM_Inr:
  "insertM table put clash row c s = (Inr r, s') \<longleftrightarrow>
   (\<forall>x \<in> set (table s). \<not> clash x) \<and> r = row \<and> s' = put (table s @ [row]) s"
  by (auto simp: insertM_def insert_row_Some insert_row_None split: option.splits)

lemma insertM_ok:
  "(\<forall>x \<in> set (table s). \<not> clash x) \<Longrightarrow>
   insertM table put clash row c s = (Inr row, put (table s @ [row]) s)"
  by (simp add: insertM_Inr)

lemma preserves_insertM:
  assumes "\<And>s. P s \<Longrightarrow> (\<forall>x \<in> set (table s). \<not> clash x) \<Longrightarrow> P (put (table s @ [row]) s)"
  shows "preserves P (insertM table put clash row c)"
  by (rule preservesI) (auto simp: insertM_def insert_row_Some assms split: option.splits)

end
