(* ===== verification/Samples.thy ===== *)
theory Samples
  imports Schema
begin

text \<open>
  A concrete instance of the parameters: external functions, configuration, request context and a
  small database. The witnesses of the component theories apply the theorems to it; no theorem
  depends on it.
\<close>

definition tally :: "nat \<Rightarrow> string" where
  "tally n = replicate n (CHR ''1'')"

lemma tally_inject [simp]: "tally m = tally n \<longleftrightarrow> m = n"
  by (simp add: tally_def)

definition sample_env :: externals where
  "sample_env = \<lparr>
     sha256_hex = (\<lambda>x. ''h'' @ x),
     sha256_b64url = (\<lambda>x. ''b'' @ x),
     rand_b64url = (\<lambda>len i. ''R'' @ tally i),
     rand_hex = (\<lambda>len i. ''X'' @ tally i),
     rand_bytes = (\<lambda>len i. ''B'' @ tally i),
     rand_uuid = (\<lambda>i. ''U'' @ tally i),
     audit_uuid = (\<lambda>i. ''U'' @ tally i),
     uuid_syntax = (\<lambda>x. take 1 x = ''U''),
     argon2_hash = (\<lambda>salt p. ''$'' @ p),
     argon2_verify = (\<lambda>h p. Some (h = ''$'' @ p)),
     totp_generateSecret = (\<lambda>i. ''S'' @ tally i),
     totp_check = (\<lambda>t code secret. code = ''123456''),
     totp_keyuri = (\<lambda>email issuer secret. ''otpauth:'' @ secret),
     qr_toDataURL = (\<lambda>u. ''data:'' @ u),
     jwt_sign = (\<lambda>key header payload. ''J'' @ (case jp_jti payload of None \<Rightarrow> [] | Some j \<Rightarrow> j)),
     jwt_decode_header = (\<lambda>t. Some \<lparr>jh_alg = Some ''EdDSA'', jh_kid = Some ''k1'', jh_typ = Some ''JWT''\<rparr>),
     jwt_verify = (\<lambda>t key options now. Inl (Some ''ERR_JWT_EXPIRED'')),
     aes_gcm_seal = (\<lambda>k iv pt. (pt, ''t'' @ k)),
     aes_gcm_open = (\<lambda>k iv ct tag. if tag = ''t'' @ k then Some ct else None),
     hkdf_sha256 = (\<lambda>k info. k),
     base64_encode = (\<lambda>x. x),
     base64_decode = (\<lambda>x. x),
     ed25519_keypair = (\<lambda>i. (''pub'' @ tally i, ''priv'' @ tally i)),
     iso_date = (\<lambda>t. ''2026-01-01''),
     url_set_params = (\<lambda>u ps. u @ concat (map (\<lambda>(k, v). ''&'' @ k @ ''='' @ v) ps)),
     nodemailer = (\<lambda>i transport sender m. Some ''connect ECONNREFUSED''),
     mailer = Mock_provider\<rparr>"

text \<open>The defaults of \<^verbatim>\<open>src/config/index.ts\<close>.\<close>

definition sample_cfg :: config where
  "sample_cfg = \<lparr>
     JWT_ISSUER = ''https://auth.local'',
     JWT_AUDIENCE = ''api'',
     ACCESS_TOKEN_TTL = 900,
     REFRESH_TOKEN_TTL = 1209600,
     AUTHORIZATION_CODE_TTL = 120,
     ID_TOKEN_TTL = 3600,
     SESSION_TTL = 2592000,
     KMS_MASTER_KEY = Some (replicate 32 (CHR ''K'')),
     IS_PRODUCTION = True,
     PASSWORD_MIN_LENGTH = 12,
     EMAIL_VERIFICATION_TTL = 86400,
     PASSWORD_RESET_TTL = 1800,
     RATE_LIMIT_WINDOW = 60,
     RATE_LIMIT_LOGIN = 5,
     RATE_LIMIT_REGISTER = 3,
     RATE_LIMIT_FORGOT_PASSWORD = 3,
     RATE_LIMIT_TOKEN = 10,
     RATE_LIMIT_AUTHORIZE = 10,
     RATE_LIMIT_API = 120,
     RISK_FAILED_LOGINS_THRESHOLD = 5,
     RISK_HIGH_SCORE_ACTION = Action_mfa,
     MAX_FAILED_LOGINS = 5,
     LOCKOUT_MINUTES = 15,
     MFA_ISSUER = ''Identity Platform'',
     MFA_CHALLENGE_TTL = 300,
     GATEWAY_SHARED_SECRET = Some ''gw''\<rparr>"

definition sample_ctx :: request_context where
  "sample_ctx = \<lparr>rc_requestId = ''req-0001'', rc_ip = Some ''10.0.0.1'', rc_userAgent = Some ''UA''\<rparr>"

definition sample_user :: user_row where
  "sample_user = \<lparr>u_id = ''Ua'', u_email = ''a@x'', u_password_hash = ''$pw'',
     u_first_name = Some ''Ada'', u_last_name = None, u_status = User_active,
     u_failed_login_count = 0, u_locked_until = None, u_mfa_required = False,
     u_last_login_at = None, u_password_changed_at = 0, u_created_at = 0, u_updated_at = 0\<rparr>"

definition sample_client :: client_row where
  "sample_client = \<lparr>cl_id = ''Uc'', cl_client_id = ''cli'', cl_client_secret_hash = Some ''$sec'',
     cl_name = ''app'', cl_client_type = Confidential, cl_redirect_uris = [''https://app/cb''],
     cl_allowed_scopes = [''openid'', ''api.read''],
     cl_grant_types = [''authorization_code'', ''client_credentials''],
     cl_token_endpoint_auth_method = Client_secret_basic, cl_require_pkce = True,
     cl_status = Client_active, cl_created_at = 0\<rparr>"

definition sample_key :: key_file where
  "sample_key = \<lparr>kf_kid = ''k1'', kf_createdAt = 0, kf_publicKeyPem = ''pub'',
     kf_wrappedPrivateKey = ''1.iv.priv.t'' @ replicate 32 (CHR ''K'')\<rparr>"

definition sample_session :: session_row where
  "sample_session = \<lparr>ss_id = ''Us'', ss_user_id = ''Ua'', ss_client_id = None, ss_ip = None,
     ss_user_agent = None, ss_device_id = None, ss_mfa_passed = False, ss_status = Session_active,
     ss_last_seen_at = 0, ss_expires_at = 2592000000, ss_revoked_at = None, ss_revoke_reason = None\<rparr>"

definition sample_refresh :: refresh_row where
  "sample_refresh = \<lparr>rt_id = ''Ur'', rt_session_id = ''Us'', rt_user_id = ''Ua'', rt_client_id = None,
     rt_token_hash = ''htok'', rt_family_id = ''Uf'', rt_previous_token_id = None,
     rt_scope = ''openid api.read'', rt_status = Token_active, rt_expires_at = 1209600000,
     rt_rotated_at = None, rt_revoked_at = None\<rparr>"

definition empty_world :: world where
  "empty_world = \<lparr>t_users = [], t_roles = [], t_permissions = [], t_scopes = [], t_user_roles = [],
     t_role_permissions = [], t_clients = [], t_codes = [], t_sessions = [], t_refresh = [],
     t_mfa = [], t_email_verifications = [], t_password_resets = [], t_audit = [], t_risk = [],
     t_documents = [], redis = [], outbox = [], key_files = [], master_file = None,
     master_cache = None, rotate_seq = 0, clock = 0, draws = 0\<rparr>"

definition sample_world :: world where
  "sample_world = empty_world\<lparr>
     t_users := [sample_user],
     t_roles := [\<lparr>ro_id = ''Uu'', ro_name = ''user'', ro_description = None, ro_is_system = True\<rparr>],
     t_user_roles := [(''Ua'', ''Uu'')],
     t_clients := [sample_client],
     t_sessions := [sample_session],
     t_refresh := [sample_refresh],
     key_files := [sample_key],
     clock := 1000\<rparr>"

lemmas sample_defs =
  sample_env_def sample_cfg_def sample_ctx_def sample_user_def sample_client_def sample_key_def
  sample_session_def sample_refresh_def empty_world_def sample_world_def

end
