(* ===== verification/Js_Number.thy ===== *)
theory Js_Number
  imports Prelude
begin

text \<open>
  \<open>Number(x)\<close> and \<open>String(n)\<close> of the JavaScript library, as far as the sources use them: settings of
  the environment and numbers in query strings. Numbers are exact; doubles agree with them up to
  \<open>2^53\<close>, and beyond that the rounding of doubles is not modelled.
\<close>

section \<open>Decimal numerals\<close>

definition digit_char :: "nat \<Rightarrow> char" where
  "digit_char d = char_of (48 + d)"

fun nat_string :: "nat \<Rightarrow> string" where
  "nat_string n = (if n < 10 then [digit_char n] else nat_string (n div 10) @ [digit_char (n mod 10)])"

declare nat_string.simps [simp del]

definition int_string :: "int \<Rightarrow> string" where
  "int_string n = (if n < 0 then CHR ''-'' # nat_string (nat (- n)) else nat_string (nat n))"

definition digit_value :: "char \<Rightarrow> nat" where
  "digit_value c = (of_char c :: nat) - 48"

definition digits_value :: "string \<Rightarrow> nat" where
  "digits_value = foldl (\<lambda>n c. 10 * n + digit_value c) 0"

section \<open>Number\<close>

text \<open>\<open>Fraction\<close> is any finite value that is no integer; \<open>Infinite\<close> carries the sign (true for minus).\<close>

datatype js_num = NaN | Infinite bool | Finite int | Fraction

definition js_trim :: "string \<Rightarrow> string" where
  "js_trim x = rev (dropWhile js_ws (rev (dropWhile js_ws x)))"

definition signed :: "string \<Rightarrow> bool \<times> string" where
  "signed x = (case x of
      c # cs \<Rightarrow> if c = CHR ''-'' then (True, cs) else if c = CHR ''+'' then (False, cs) else (False, x)
    | [] \<Rightarrow> (False, []))"

text \<open>An exponent part: nothing, or \<open>e\<close> with a signed sequence of digits up to the end.\<close>

definition exponent_part :: "string \<Rightarrow> int option" where
  "exponent_part x = (case x of
      [] \<Rightarrow> Some 0
    | c # cs \<Rightarrow>
        (let (neg, ds) = signed cs in
         if (c = CHR ''e'' \<or> c = CHR ''E'') \<and> ds \<noteq> [] \<and> list_all js_digit ds
         then Some (if neg then - int (digits_value ds) else int (digits_value ds)) else None))"

text \<open>Digits, an optional fraction and an optional exponent: mantissa and power of ten.\<close>

definition decimal_literal :: "string \<Rightarrow> (nat \<times> int) option" where
  "decimal_literal x =
     (let whole = takeWhile js_digit x; rest = dropWhile js_digit x;
          dotted = (rest \<noteq> [] \<and> hd rest = CHR ''.'');
          part = (if dotted then takeWhile js_digit (tl rest) else []);
          tail = (if dotted then dropWhile js_digit (tl rest) else rest) in
      if whole = [] \<and> part = [] then None
      else map_option (\<lambda>e. (digits_value (whole @ part), e - int (length part))) (exponent_part tail))"

definition radix_digit :: "nat \<Rightarrow> char \<Rightarrow> nat option" where
  "radix_digit r c =
     (let n = (of_char c :: nat);
          d = (if 48 \<le> n \<and> n \<le> 57 then n - 48 else if 65 \<le> n \<and> n \<le> 90 then n - 55
               else if 97 \<le> n \<and> n \<le> 122 then n - 87 else r) in
      if d < r then Some d else None)"

definition radix_literal :: "nat \<Rightarrow> string \<Rightarrow> js_num" where
  "radix_literal r ds =
     (if ds = [] \<or> list_ex (\<lambda>c. radix_digit r c = None) ds then NaN
      else Finite (int (foldl (\<lambda>n c. r * n + the (radix_digit r c)) 0 ds)))"

definition radix_of :: "string \<Rightarrow> nat option" where
  "radix_of x =
     (if length x < 2 \<or> x ! 0 \<noteq> CHR ''0'' then None
      else if x ! 1 = CHR ''x'' \<or> x ! 1 = CHR ''X'' then Some 16
      else if x ! 1 = CHR ''o'' \<or> x ! 1 = CHR ''O'' then Some 8
      else if x ! 1 = CHR ''b'' \<or> x ! 1 = CHR ''B'' then Some 2 else None)"

definition scaled :: "bool \<Rightarrow> nat \<Rightarrow> int \<Rightarrow> js_num" where
  "scaled neg m e =
     (let sign = (if neg then - 1 else 1) in
      if 0 \<le> e then Finite (sign * int m * 10 ^ nat e)
      else if 10 ^ nat (- e) dvd m then Finite (sign * int (m div 10 ^ nat (- e))) else Fraction)"

definition js_Number :: "string \<Rightarrow> js_num" where
  "js_Number x =
     (let t = js_trim x in
      if t = [] then Finite 0
      else (case radix_of t of
          Some r \<Rightarrow> radix_literal r (drop 2 t)
        | None \<Rightarrow>
            (let (neg, u) = signed t in
             if u = ''Infinity'' then Infinite neg
             else (case decimal_literal u of None \<Rightarrow> NaN | Some (m, e) \<Rightarrow> scaled neg m e))))"

section \<open>Reading back what was printed\<close>

lemma of_digit_char: "d < 10 \<Longrightarrow> (of_char (digit_char d) :: nat) = 48 + d"
  by (simp add: digit_char_def)

lemma digit_char_simps [simp]: "d < 10 \<Longrightarrow> js_digit (digit_char d)" "d < 10 \<Longrightarrow> digit_value (digit_char d) = d"
  by (simp_all add: js_digit_def digit_value_def of_digit_char)

lemma nat_string_digits: "list_all js_digit (nat_string n)"
proof (induction n rule: nat_string.induct)
  case (1 n)
  then show ?case by (simp add: nat_string.simps [of n])
qed

lemma nat_string_nonempty [simp]: "nat_string n \<noteq> []"
  by (subst nat_string.simps) simp

lemma digits_value_snoc [simp]: "digits_value (ds @ [c]) = 10 * digits_value ds + digit_value c"
  by (simp add: digits_value_def)

lemma digits_value_string [simp]: "digits_value (nat_string n) = n"
proof (induction n rule: nat_string.induct)
  case (1 n)
  show ?case
  proof (cases "n < 10")
    case True
    then show ?thesis by (simp add: nat_string.simps [of n] digits_value_def)
  next
    case False
    with 1 show ?thesis by (simp add: nat_string.simps [of n])
  qed
qed

lemma digit_not_ws: "js_digit c \<Longrightarrow> \<not> js_ws c"
  by (auto simp: js_digit_def js_ws_def Let_def)

lemma digit_not_special:
  "js_digit c \<Longrightarrow> c \<noteq> CHR ''-'' \<and> c \<noteq> CHR ''+'' \<and> c \<noteq> CHR ''x'' \<and> c \<noteq> CHR ''X'' \<and> c \<noteq> CHR ''o''
     \<and> c \<noteq> CHR ''O'' \<and> c \<noteq> CHR ''b'' \<and> c \<noteq> CHR ''B'' \<and> c \<noteq> CHR ''I''"
  by (auto simp: js_digit_def)

lemma decimal_digits:
  assumes "list_all js_digit ds" and "ds \<noteq> []"
  shows "decimal_literal ds = Some (digits_value ds, 0)"
proof -
  have split: "takeWhile js_digit ds = ds" "dropWhile js_digit ds = []"
    using assms(1) by (simp_all add: list_all_iff)
  from assms(2) show ?thesis
    by (simp add: decimal_literal_def exponent_part_def Let_def split)
qed

lemma trim_id: "x \<noteq> [] \<Longrightarrow> \<not> js_ws (hd x) \<Longrightarrow> \<not> js_ws (last x) \<Longrightarrow> js_trim x = x"
proof -
  assume x: "x \<noteq> []" and first: "\<not> js_ws (hd x)" and "last": "\<not> js_ws (last x)"
  from x first have "dropWhile js_ws x = x"
    by (cases x) auto
  moreover from x "last" have "dropWhile js_ws (rev x) = rev x"
    by (cases "rev x") (auto simp: last_rev)
  ultimately show "js_trim x = x"
    by (simp add: js_trim_def)
qed

lemma radix_none: "list_all js_digit ds \<Longrightarrow> radix_of ds = None"
  using digit_not_special by (auto simp: radix_of_def list_all_length)

lemma js_Number_int: "js_Number (int_string n) = Finite n"
proof -
  let ?ds = "nat_string (nat (abs n))"
  have ds: "list_all js_digit ?ds" by (rule nat_string_digits)
  obtain d rest where shape: "?ds = d # rest" by (cases ?ds) auto
  with ds have d: "js_digit d" by simp
  have "js_digit (last ?ds)"
    using ds by (simp add: list_all_iff)
  then have ends: "\<not> js_ws (hd ?ds)" "\<not> js_ws (last ?ds)"
    using d shape by (auto dest: digit_not_ws)
  have lit: "decimal_literal ?ds = Some (nat (abs n), 0)"
    using decimal_digits [OF ds] by simp
  have word: "?ds \<noteq> ''Infinity''" "d \<noteq> CHR ''-''" "d \<noteq> CHR ''+''"
    using d digit_not_special [OF d] shape by auto
  show ?thesis
  proof (cases "n < 0")
    case True
    then have str: "int_string n = CHR ''-'' # ?ds"
      by (simp add: int_string_def)
    have "js_trim (CHR ''-'' # ?ds) = CHR ''-'' # ?ds"
      using ends by (intro trim_id) (auto simp: js_ws_def)
    moreover have "radix_of (CHR ''-'' # ?ds) = None"
      by (simp add: radix_of_def)
    ultimately show ?thesis
      using True word lit by (simp add: str js_Number_def signed_def scaled_def)
  next
    case False
    then have str: "int_string n = ?ds"
      by (simp add: int_string_def)
    have "js_trim ?ds = ?ds"
      using ends by (intro trim_id) auto
    moreover have "signed ?ds = (False, ?ds)"
      using word(2,3) by (simp add: signed_def shape)
    ultimately show ?thesis
      using False word(1) lit radix_none [OF ds] by (simp add: str js_Number_def scaled_def)
  qed
qed

end
