(* ===== verification/Keys.thy ===== *)
theory Keys
  imports Samples "HOL-Library.Product_Lexorder" Js_Number
begin

text \<open>
  \<^verbatim>\<open>src/modules/keys/local-key-provider.ts\<close>: the local key-management service. It keeps the
  wrapped signing keys as files, the master key (from the configuration, or generated in
  development) and encrypts small secrets. The lemmas show the round trips and what a key rotation
  leaves in place. A key file is stored under its key identifier; time stamps are written in a format
  whose text order is the order of time.
\<close>

section \<open>The master key\<close>

definition keys_masterKey :: "externals \<Rightarrow> config \<Rightarrow> string act" where
  "keys_masterKey env cfg =
     bindM (getM master_cache) (\<lambda>cached.
     case cached of
       Some k \<Rightarrow> returnM k
     | None \<Rightarrow>
         (let fromEnv = (case KMS_MASTER_KEY cfg of None \<Rightarrow> [] | Some v \<Rightarrow> v) in
          if js_trim fromEnv \<noteq> [] then
            (let buf = base64_decode env fromEnv in
             if length buf \<noteq> 32 then throwM (KmsError ''KMS_MASTER_KEY must be 32 bytes base64'')
             else bindM (modifyM (\<lambda>s. s\<lparr>master_cache := Some buf\<rparr>)) (\<lambda>_. returnM buf))
          else if IS_PRODUCTION cfg then throwM (KmsError ''KMS_MASTER_KEY is required in production'')
          else
            bindM (getM master_file) (\<lambda>file.
            bindM (case file of
                     Some contents \<Rightarrow> returnM contents
                   | None \<Rightarrow>
                       bindM (drawM (rand_bytes env 32)) (\<lambda>bytes.
                       bindM (modifyM (\<lambda>s. s\<lparr>master_file := Some (base64_encode env bytes)\<rparr>)) (\<lambda>_.
                       returnM (base64_encode env bytes)))) (\<lambda>contents.
            let buf = base64_decode env (js_trim contents) in
            bindM (modifyM (\<lambda>s. s\<lparr>master_cache := Some buf\<rparr>)) (\<lambda>_. returnM buf)))))"

definition keys_dataEncryptionKey :: "externals \<Rightarrow> config \<Rightarrow> string act" where
  "keys_dataEncryptionKey env cfg =
     bindM (keys_masterKey env cfg) (\<lambda>master.
     returnM (hkdf_sha256 env master ''identity-platform:data-encryption:v1''))"

section \<open>Envelope encryption\<close>

definition ENVELOPE_VERSION :: int where
  "ENVELOPE_VERSION = 1"

definition keys_encrypt :: "externals \<Rightarrow> config \<Rightarrow> string \<Rightarrow> envelope act" where
  "keys_encrypt env cfg plaintext =
     bindM (drawM (rand_bytes env 12)) (\<lambda>iv.
     bindM (keys_dataEncryptionKey env cfg) (\<lambda>key.
     let (ct, tag) = aes_gcm_seal env key iv plaintext in
     returnM \<lparr>en_v = ENVELOPE_VERSION, en_iv = base64_encode env iv, en_ct = base64_encode env ct,
              en_tag = base64_encode env tag\<rparr>))"

definition keys_decrypt :: "externals \<Rightarrow> config \<Rightarrow> envelope \<Rightarrow> string act" where
  "keys_decrypt env cfg e =
     (if en_v e \<noteq> ENVELOPE_VERSION then throwM (KmsError ''Unsupported envelope version'')
      else catchM
        (bindM (keys_dataEncryptionKey env cfg) (\<lambda>key.
         case aes_gcm_open env key (base64_decode env (en_iv e)) (base64_decode env (en_ct e))
                (base64_decode env (en_tag e)) of
           Some plain \<Rightarrow> returnM plain
         | None \<Rightarrow> throwM (JsError ''unable to authenticate data'')))
        (\<lambda>_. throwM (KmsError ''Decryption failed - data tampered or wrong master key'')))"

section \<open>Signing keys\<close>

definition dot :: "char \<Rightarrow> bool" where
  "dot c \<longleftrightarrow> c = CHR ''.''"

definition keys_wrapPrivateKey :: "externals \<Rightarrow> config \<Rightarrow> string \<Rightarrow> string act" where
  "keys_wrapPrivateKey env cfg privateKeyPem =
     bindM (drawM (rand_bytes env 12)) (\<lambda>iv.
     bindM (keys_masterKey env cfg) (\<lambda>key.
     let (ct, tag) = aes_gcm_seal env key iv privateKeyPem in
     returnM (join_with ''.'' [''1'', base64_encode env iv, base64_encode env ct, base64_encode env tag])))"

text \<open>A missing part is \<open>undefined\<close>, which \<open>Buffer.from\<close> refuses with a type error.\<close>

definition keys_unwrapPrivateKey :: "externals \<Rightarrow> config \<Rightarrow> string \<Rightarrow> string act" where
  "keys_unwrapPrivateKey env cfg wrapped =
     (case split_at dot wrapped of
        v # parts \<Rightarrow>
          if v \<noteq> ''1'' then throwM (KmsError ''Unsupported wrapped key version'')
          else
            bindM (keys_masterKey env cfg) (\<lambda>key.
            case parts of
              ivB64 # ctB64 # tagB64 # _ \<Rightarrow>
                (case aes_gcm_open env key (base64_decode env ivB64) (base64_decode env ctB64)
                        (base64_decode env tagB64) of
                   Some plain \<Rightarrow> returnM plain
                 | None \<Rightarrow> throwM (JsError ''unable to authenticate data''))
            | _ \<Rightarrow> throwM (JsError ''ERR_INVALID_ARG_TYPE''))
      | [] \<Rightarrow> throwM (KmsError ''Unsupported wrapped key version''))"

definition kid_char :: "char \<Rightarrow> bool" where
  "kid_char c \<longleftrightarrow> js_digit c \<or> js_lower_letter c \<or> js_upper_letter c \<or> c \<in> set ''._-''"

text \<open>The name of the file of a key, inside the key directory.\<close>

definition keys_keyFilePath :: "string \<Rightarrow> string act" where
  "keys_keyFilePath kid =
     (if kid = [] \<or> \<not> list_all kid_char kid then throwM (KmsError ''Invalid kid'')
      else returnM (''signing-'' @ kid @ ''.json''))"

text \<open>Newest first, by creation time and then by key identifier.\<close>

definition newest_first :: "key_file list \<Rightarrow> key_file list" where
  "newest_first files = rev (sort_key (\<lambda>f. (kf_createdAt f, kf_kid f)) files)"

definition keys_listSigningKeyFiles :: "key_file list act" where
  "keys_listSigningKeyFiles = getM (\<lambda>s. newest_first (key_files s))"

record public_key =
  pk_kid :: string
  pk_publicKeyPem :: string
  pk_createdAt :: timestamp

definition to_public_key :: "key_file \<Rightarrow> public_key" where
  "to_public_key f = \<lparr>pk_kid = kf_kid f, pk_publicKeyPem = kf_publicKeyPem f, pk_createdAt = kf_createdAt f\<rparr>"

definition keys_getPublicKey :: "string \<Rightarrow> public_key act" where
  "keys_getPublicKey kid =
     bindM keys_listSigningKeyFiles (\<lambda>files.
     case List.find (\<lambda>f. kf_kid f = kid) files of
       None \<Rightarrow> throwM (KmsError (''Unknown signing key: '' @ kid))
     | Some f \<Rightarrow> returnM (to_public_key f))"

definition keys_listPublicKeys :: "public_key list act" where
  "keys_listPublicKeys =
     bindM keys_listSigningKeyFiles (\<lambda>files.
     returnM (rev (sort_key (\<lambda>k. (pk_createdAt k, pk_kid k)) (map to_public_key files))))"

definition keys_rotateSigningKey :: "externals \<Rightarrow> config \<Rightarrow> string act" where
  "keys_rotateSigningKey env cfg =
     bindM (drawM (ed25519_keypair env)) (\<lambda>(publicKeyPem, privateKeyPem).
     bindM nowM (\<lambda>now.
     bindM (drawM (rand_hex env 2)) (\<lambda>suffix.
     let kid = ''sig-'' @ iso_date env now @ ''-'' @ take 8 (sha256_hex env publicKeyPem) @ ''-'' @ suffix in
     bindM (getM rotate_seq) (\<lambda>sq.
     bindM (modifyM (\<lambda>s. s\<lparr>rotate_seq := rotate_seq s + 1\<rparr>)) (\<lambda>_.
     bindM (keys_wrapPrivateKey env cfg privateKeyPem) (\<lambda>wrapped.
     bindM (keys_keyFilePath kid) (\<lambda>_.
     bindM (modifyM (\<lambda>s. s\<lparr>key_files := filter (\<lambda>f. kf_kid f \<noteq> kid) (key_files s) @
              [\<lparr>kf_kid = kid, kf_createdAt = now + sq, kf_publicKeyPem = publicKeyPem,
                kf_wrappedPrivateKey = wrapped\<rparr>]\<rparr>)) (\<lambda>_.
     returnM kid))))))))"

record signing_key =
  sk_kid :: string
  sk_privateKeyPem :: string
  sk_publicKeyPem :: string

text \<open>
  The recursive call after a rotation is bounded by fuel; two rounds are enough, because a rotation
  that returns leaves a key (lemma \<open>current_key_fuel\<close> below).
\<close>

fun keys_currentSigningKey_fuel :: "externals \<Rightarrow> config \<Rightarrow> nat \<Rightarrow> signing_key act" where
  "keys_currentSigningKey_fuel env cfg 0 = throwM (JsError ''Maximum call stack size exceeded'')"
| "keys_currentSigningKey_fuel env cfg (Suc n) =
     bindM keys_listSigningKeyFiles (\<lambda>files.
     case files of
       [] \<Rightarrow> bindM (keys_rotateSigningKey env cfg) (\<lambda>_. keys_currentSigningKey_fuel env cfg n)
     | current # _ \<Rightarrow>
         bindM (keys_unwrapPrivateKey env cfg (kf_wrappedPrivateKey current)) (\<lambda>priv.
         returnM \<lparr>sk_kid = kf_kid current, sk_privateKeyPem = priv, sk_publicKeyPem = kf_publicKeyPem current\<rparr>))"

definition keys_getCurrentSigningKey :: "externals \<Rightarrow> config \<Rightarrow> signing_key act" where
  "keys_getCurrentSigningKey env cfg = keys_currentSigningKey_fuel env cfg 2"

text \<open>\<^verbatim>\<open>src/modules/keys/keys.routes.ts\<close>: the published key set; public parts only.\<close>

definition jwks_route :: "(string \<times> string) list act" where
  "jwks_route =
     bindM keys_listPublicKeys (\<lambda>publicKeys.
     returnM (map (\<lambda>k. (pk_kid k, pk_publicKeyPem k)) publicKeys))"

section \<open>Runs\<close>

lemma masterKey_frame:
  assumes "keys_masterKey env cfg s = (r, s')"
  shows "key_files s' = key_files s" and "clock s' = clock s" and "rotate_seq s' = rotate_seq s"
    and "r = Inr k \<Longrightarrow> master_cache s' = Some k" and "master_cache s = Some c \<Longrightarrow> r = Inr c \<and> s' = s"
  using assms
  by (auto simp: keys_masterKey_def bindM_run Let_def split: option.splits if_splits)

lemma masterKey_cached: "master_cache s = Some k \<Longrightarrow> keys_masterKey env cfg s = (Inr k, s)"
  by (simp add: keys_masterKey_def bindM_run)

lemma masterKey_again:
  "keys_masterKey env cfg s = (Inr k, s') \<Longrightarrow> keys_masterKey env cfg s' = (Inr k, s')"
  using masterKey_frame(4) [of env cfg s "Inr k" s' k] by (simp add: masterKey_cached)

lemma masterKey_stays:
  "keys_masterKey env cfg s = (Inr k, s') \<Longrightarrow> master_cache s'' = master_cache s' \<Longrightarrow>
   keys_masterKey env cfg s'' = (Inr k, s'')"
  using masterKey_frame(4) [of env cfg s "Inr k" s' k] by (simp add: masterKey_cached)

lemma set_newest_first [simp]: "set (newest_first fs) = set fs"
  by (simp add: newest_first_def)

lemma newest_first_empty [simp]: "newest_first fs = [] \<longleftrightarrow> fs = []"
  by (metis set_newest_first set_empty)

lemma newest_first_Nil [simp]: "newest_first [] = []"
  by simp

lemma map_newest_distinct [simp]: "distinct (map kf_kid (newest_first fs)) = distinct (map kf_kid fs)"
  by (simp add: newest_first_def distinct_map rev_map inj_on_def)

lemma newest_first_hd:
  assumes "f \<in> set fs" and "\<And>g. g \<in> set fs \<Longrightarrow> g \<noteq> f \<Longrightarrow> kf_createdAt g < kf_createdAt f"
  shows "\<exists>rest. newest_first fs = f # rest"
proof -
  let ?k = "\<lambda>f. (kf_createdAt f, kf_kid f)"
  obtain g rest where rest: "newest_first fs = g # rest"
    using assms(1) by (cases "newest_first fs") auto
  then have snoc: "sort_key ?k fs = rev rest @ [g]"
    by (metis newest_first_def rev_rev_ident rev.simps(2))
  have "sorted (map ?k (rev rest @ [g]))"
    using sorted_sort_key [of ?k fs] by (simp add: snoc)
  then have max: "?k x \<le> ?k g" if "x \<in> set rest" for x
    using that by (auto simp: sorted_append)
  have mem: "set (g # rest) = set fs"
    using rest set_newest_first by metis
  have "g = f"
  proof (rule ccontr)
    assume "g \<noteq> f"
    moreover from this have "kf_createdAt g < kf_createdAt f"
      using assms(2) mem by auto
    moreover have "f \<in> set rest"
      using assms(1) mem \<open>g \<noteq> f\<close> by auto
    ultimately show False
      using max [of f] by auto
  qed
  with rest show ?thesis by blast
qed

lemma find_newest:
  assumes "distinct (map kf_kid fs)"
  shows "List.find (\<lambda>f. kf_kid f = kid) (newest_first fs) = List.find (\<lambda>f. kf_kid f = kid) fs"
proof (cases "List.find (\<lambda>f. kf_kid f = kid) fs")
  case None
  then have "List.find (\<lambda>f. kf_kid f = kid) (newest_first fs) = None"
    unfolding find_None_set by simp
  with None show ?thesis by simp
next
  case (Some f)
  then have "f \<in> set (newest_first fs)" and "kf_kid f = kid"
    by (auto dest: find_SomeD)
  then have "List.find (\<lambda>f. kf_kid f = kid) (newest_first fs) = Some f"
    by (rule find_key [rotated]) (simp add: assms)
  with Some show ?thesis by simp
qed

text \<open>What a sealing and a rotation that return have done.\<close>

lemma wrap_run:
  assumes "keys_wrapPrivateKey env cfg priv s = (Inr wrapped, s')"
  obtains key where "keys_masterKey env cfg (s\<lparr>draws := Suc (draws s)\<rparr>) = (Inr key, s')"
    and "wrapped = (let iv = rand_bytes env 12 (draws s); sealed = aes_gcm_seal env key iv priv in
        join_with ''.'' [''1'', base64_encode env iv, base64_encode env (fst sealed), base64_encode env (snd sealed)])"
  using assms by (auto simp: keys_wrapPrivateKey_def Let_def case_prod_unfold)

lemma wrap_frame:
  assumes "keys_wrapPrivateKey env cfg priv s = (Inr wrapped, s')"
  shows "key_files s' = key_files s" and "clock s' = clock s" and "rotate_seq s' = rotate_seq s"
proof -
  obtain key where "keys_masterKey env cfg (s\<lparr>draws := Suc (draws s)\<rparr>) = (Inr key, s')"
    by (rule wrap_run [OF assms])
  from masterKey_frame(1-3) [OF this]
  show "key_files s' = key_files s" and "clock s' = clock s" and "rotate_seq s' = rotate_seq s"
    by simp_all
qed

lemma encrypt_run:
  assumes "keys_encrypt env cfg plain s = (Inr e, s')"
  obtains key where "keys_masterKey env cfg (s\<lparr>draws := Suc (draws s)\<rparr>) = (Inr key, s')"
    and "e = (let k = hkdf_sha256 env key ''identity-platform:data-encryption:v1'';
        iv = rand_bytes env 12 (draws s); sealed = aes_gcm_seal env k iv plain in
        \<lparr>en_v = ENVELOPE_VERSION, en_iv = base64_encode env iv,
         en_ct = base64_encode env (fst sealed), en_tag = base64_encode env (snd sealed)\<rparr>)"
  using assms by (auto simp: keys_encrypt_def keys_dataEncryptionKey_def Let_def case_prod_unfold)

definition new_kid :: "externals \<Rightarrow> world \<Rightarrow> string" where
  "new_kid env s = ''sig-'' @ iso_date env (clock s) @ ''-''
     @ take 8 (sha256_hex env (fst (ed25519_keypair env (draws s)))) @ ''-'' @ rand_hex env 2 (Suc (draws s))"

lemma rotate_eq:
  "keys_rotateSigningKey env cfg s =
     (case keys_wrapPrivateKey env cfg (snd (ed25519_keypair env (draws s)))
             (s\<lparr>draws := Suc (Suc (draws s)), rotate_seq := rotate_seq s + 1\<rparr>) of
        (Inl e, s1) \<Rightarrow> (Inl e, s1)
      | (Inr wrapped, s1) \<Rightarrow>
          if list_all kid_char (new_kid env s) then
            (Inr (new_kid env s), s1\<lparr>key_files := filter (\<lambda>f. kf_kid f \<noteq> new_kid env s) (key_files s1) @
               [\<lparr>kf_kid = new_kid env s, kf_createdAt = clock s + rotate_seq s,
                 kf_publicKeyPem = fst (ed25519_keypair env (draws s)), kf_wrappedPrivateKey = wrapped\<rparr>]\<rparr>)
          else (Inl (KmsError ''Invalid kid''), s1))"
  unfolding keys_rotateSigningKey_def keys_keyFilePath_def case_prod_unfold Let_def
  by (simp add: bindM_run new_kid_def case_prod_unfold split: sum.splits)

lemma rotate_run:
  assumes "keys_rotateSigningKey env cfg s = (Inr kid, s')"
  obtains wrapped s0 s1 where
    "keys_wrapPrivateKey env cfg (snd (ed25519_keypair env (draws s))) s0 = (Inr wrapped, s1)"
    and "key_files s' = filter (\<lambda>f. kf_kid f \<noteq> kid) (key_files s) @
       [\<lparr>kf_kid = kid, kf_createdAt = clock s + rotate_seq s,
         kf_publicKeyPem = fst (ed25519_keypair env (draws s)), kf_wrappedPrivateKey = wrapped\<rparr>]"
    and "master_cache s' = master_cache s1"
proof -
  obtain wrapped s1 where
    wrap: "keys_wrapPrivateKey env cfg (snd (ed25519_keypair env (draws s)))
             (s\<lparr>draws := Suc (Suc (draws s)), rotate_seq := rotate_seq s + 1\<rparr>) = (Inr wrapped, s1)"
    using assms by (auto simp: rotate_eq split: prod.splits sum.splits)
  from assms wrap_frame(1) [OF wrap] show ?thesis
    by (intro that [OF wrap]) (auto simp: rotate_eq wrap split: if_splits)
qed

lemma rotate_leaves_key: "keys_rotateSigningKey env cfg s = (Inr kid, s') \<Longrightarrow> key_files s' \<noteq> []"
  by (erule rotate_run) auto

lemma current_key_nonempty:
  assumes "key_files s \<noteq> []"
  shows "keys_currentSigningKey_fuel env cfg (Suc n) s = keys_currentSigningKey_fuel env cfg 1 s"
proof -
  obtain f fs where "newest_first (key_files s) = f # fs"
    using assms newest_first_empty by (metis neq_Nil_conv)
  then show ?thesis
    by (simp add: keys_listSigningKeyFiles_def bindM_run)
qed

lemma current_key_fuel:
  assumes "2 \<le> n"
  shows "keys_currentSigningKey_fuel env cfg n s = keys_getCurrentSigningKey env cfg s"
proof -
  obtain m where n: "n = Suc (Suc m)"
    using assms by (metis add_2_eq_Suc le_Suc_ex)
  have "keys_currentSigningKey_fuel env cfg (Suc m) s' = keys_currentSigningKey_fuel env cfg 1 s'"
    if "keys_rotateSigningKey env cfg s = (Inr kid, s')" for kid s'
    using rotate_leaves_key [OF that] by (rule current_key_nonempty)
  then show ?thesis
    by (cases "keys_rotateSigningKey env cfg s")
      (auto simp: n keys_getCurrentSigningKey_def numeral_2_eq_2 keys_listSigningKeyFiles_def bindM_run
        split: list.splits sum.splits)
qed

section \<open>Round trips and rotation\<close>

text \<open>
  What the code relies on: authenticated encryption opens what it sealed, base64 decodes what it
  encoded, and no base64 text contains a dot.
\<close>

definition crypto_laws :: "externals \<Rightarrow> bool" where
  "crypto_laws env \<longleftrightarrow>
     (\<forall>k iv p. aes_gcm_open env k iv (fst (aes_gcm_seal env k iv p)) (snd (aes_gcm_seal env k iv p)) = Some p)
   \<and> (\<forall>x. base64_decode env (base64_encode env x) = x)
   \<and> (\<forall>x. CHR ''.'' \<notin> set (base64_encode env x))"

lemma wrap_unwrap:
  assumes "crypto_laws env" and "keys_wrapPrivateKey env cfg priv s = (Inr wrapped, s')"
    and "master_cache s'' = master_cache s'"
  shows "keys_unwrapPrivateKey env cfg wrapped s'' = (Inr priv, s'')"
proof -
  obtain key where key: "keys_masterKey env cfg (s\<lparr>draws := Suc (draws s)\<rparr>) = (Inr key, s')"
    and w: "wrapped = (let iv = rand_bytes env 12 (draws s); sealed = aes_gcm_seal env key iv priv in
        join_with ''.'' [''1'', base64_encode env iv, base64_encode env (fst sealed), base64_encode env (snd sealed)])"
    by (rule wrap_run [OF assms(2)])
  let ?iv = "rand_bytes env 12 (draws s)"
  have nodot: "\<forall>c \<in> set (base64_encode env x). \<not> dot c" for x
    using assms(1) by (auto simp: crypto_laws_def dot_def)
  have [simp]: "dot CHR ''.''" "\<not> dot CHR ''1''"
    by (simp_all add: dot_def)
  have split: "split_at dot wrapped = [''1'', base64_encode env ?iv,
        base64_encode env (fst (aes_gcm_seal env key ?iv priv)), base64_encode env (snd (aes_gcm_seal env key ?iv priv))]"
    using split_at_append_sep [OF nodot, of "CHR ''.''"] split_at_no_sep [OF nodot]
    by (simp add: w Let_def)
  show ?thesis
    using assms(1) masterKey_stays [OF key assms(3)]
    by (simp add: keys_unwrapPrivateKey_def split bindM_run crypto_laws_def)
qed

lemma decrypt_encrypted:
  assumes "crypto_laws env" and "keys_encrypt env cfg plain s = (Inr e, s')"
    and "master_cache s'' = master_cache s'"
  shows "keys_decrypt env cfg e s'' = (Inr plain, s'')"
proof -
  obtain master where key: "keys_masterKey env cfg (s\<lparr>draws := Suc (draws s)\<rparr>) = (Inr master, s')"
    and e: "e = (let k = hkdf_sha256 env master ''identity-platform:data-encryption:v1'';
        iv = rand_bytes env 12 (draws s); sealed = aes_gcm_seal env k iv plain in
        \<lparr>en_v = ENVELOPE_VERSION, en_iv = base64_encode env iv,
         en_ct = base64_encode env (fst sealed), en_tag = base64_encode env (snd sealed)\<rparr>)"
    by (rule encrypt_run [OF assms(2)])
  show ?thesis
    using assms(1) masterKey_stays [OF key assms(3)]
    by (simp add: keys_decrypt_def keys_dataEncryptionKey_def e Let_def bindM_run catchM_def crypto_laws_def)
qed

text \<open>
  C17: encrypted secrets can be read back. Whatever \<open>encrypt\<close> returned is decrypted to the same
  plaintext in every later state that has the same master key in memory.
\<close>

theorem envelope_roundtrip:
  assumes "crypto_laws env" and "keys_encrypt env cfg plain s = (Inr e, s')"
    and "master_cache s'' = master_cache s'"
  shows "keys_decrypt env cfg e s'' = (Inr plain, s'')"
  by (rule decrypt_encrypted [OF assms])

text \<open>A concrete coding without dots: eight digits for each character.\<close>

fun bits_of :: "char \<Rightarrow> string" where
  "bits_of (Char a b c d e f g h) = map (\<lambda>x. if x then CHR ''1'' else CHR ''0'') [a, b, c, d, e, f, g, h]"

definition bits_encode :: "string \<Rightarrow> string" where
  "bits_encode x = concat (map bits_of x)"

fun bits_decode :: "string \<Rightarrow> string" where
  "bits_decode (a # b # c # d # e # f # g # h # rest) =
     Char (a = CHR ''1'') (b = CHR ''1'') (c = CHR ''1'') (d = CHR ''1'') (e = CHR ''1'') (f = CHR ''1'')
       (g = CHR ''1'') (h = CHR ''1'') # bits_decode rest"
| "bits_decode _ = []"

lemma bits_roundtrip: "bits_decode (bits_encode x) = x"
proof (induction x)
  case (Cons c x)
  then show ?case by (cases c) (simp add: bits_encode_def)
qed (simp add: bits_encode_def)

lemma bits_no_dot: "CHR ''.'' \<notin> set (bits_encode x)"
proof (induction x)
  case (Cons c x)
  then show ?case by (cases c) (simp add: bits_encode_def)
qed (simp add: bits_encode_def)

definition codec_env :: externals where
  "codec_env = sample_env\<lparr>base64_encode := bits_encode, base64_decode := bits_decode\<rparr>"

definition codec_world :: world where
  "codec_world = sample_world\<lparr>master_cache := Some ''K'', key_files := []\<rparr>"

lemma codec_laws: "crypto_laws codec_env"
  by (simp add: crypto_laws_def codec_env_def bits_roundtrip bits_no_dot sample_env_def)

theorem envelope_roundtrip_witness:
  "\<exists>e s. keys_encrypt codec_env sample_cfg ''secret'' codec_world = (Inr e, s)
     \<and> keys_decrypt codec_env sample_cfg e s = (Inr ''secret'', s)"
proof -
  have "case keys_encrypt codec_env sample_cfg ''secret'' codec_world of (Inr _, _) \<Rightarrow> True | _ \<Rightarrow> False"
    by code_simp
  then obtain e s where run: "keys_encrypt codec_env sample_cfg ''secret'' codec_world = (Inr e, s)"
    by (auto split: prod.splits sum.splits)
  with envelope_roundtrip [OF codec_laws run, of s] show ?thesis by auto
qed

text \<open>
  A rotation adds a signing key and takes none away. The new identifier names the new public
  key, every other identifier resolves to what it resolved to before, the stored identifiers stay
  distinct, and when the new key is the newest one it is the one that signs from now on, with the
  private key of the generated pair.
\<close>

theorem signing_key_rotation:
  assumes "crypto_laws env" and "distinct (map kf_kid (key_files s))"
    and "keys_rotateSigningKey env cfg s = (Inr kid, s')"
  shows "keys_getPublicKey kid s' =
      (Inr \<lparr>pk_kid = kid, pk_publicKeyPem = fst (ed25519_keypair env (draws s)),
            pk_createdAt = clock s + rotate_seq s\<rparr>, s')
    \<and> (\<forall>k. k \<noteq> kid \<longrightarrow> fst (keys_getPublicKey k s') = fst (keys_getPublicKey k s))
    \<and> distinct (map kf_kid (key_files s'))
    \<and> ((\<forall>f \<in> set (key_files s). kf_createdAt f < clock s + rotate_seq s) \<longrightarrow>
        keys_getCurrentSigningKey env cfg s' =
          (Inr \<lparr>sk_kid = kid, sk_privateKeyPem = snd (ed25519_keypair env (draws s)),
                sk_publicKeyPem = fst (ed25519_keypair env (draws s))\<rparr>, s'))"
proof -
  obtain wrapped s0 s1 where
    wrap: "keys_wrapPrivateKey env cfg (snd (ed25519_keypair env (draws s))) s0 = (Inr wrapped, s1)"
    and files: "key_files s' = filter (\<lambda>f. kf_kid f \<noteq> kid) (key_files s) @
       [\<lparr>kf_kid = kid, kf_createdAt = clock s + rotate_seq s,
         kf_publicKeyPem = fst (ed25519_keypair env (draws s)), kf_wrappedPrivateKey = wrapped\<rparr>]"
      (is "_ = _ @ [?f]")
    and cache: "master_cache s' = master_cache s1"
    using rotate_run [OF assms(3)] by blast
  have dist: "distinct (map kf_kid (key_files s'))"
    using assms(2) by (auto simp: files distinct_map_filter)
  have "List.find (\<lambda>f. kf_kid f = kid) (newest_first (key_files s')) = Some ?f"
    by (rule find_key) (simp_all add: dist, simp add: files)
  then have new: "keys_getPublicKey kid s' =
      (Inr \<lparr>pk_kid = kid, pk_publicKeyPem = fst (ed25519_keypair env (draws s)),
            pk_createdAt = clock s + rotate_seq s\<rparr>, s')"
    by (simp add: keys_getPublicKey_def keys_listSigningKeyFiles_def bindM_run to_public_key_def)
  have "List.find (\<lambda>f. kf_kid f = k) (key_files s') = List.find (\<lambda>f. kf_kid f = k) (key_files s)" if "k \<noteq> kid" for k
  proof -
    have drop: "List.find (\<lambda>f. kf_kid f = k) (filter (\<lambda>f. kf_kid f \<noteq> kid) fs) = List.find (\<lambda>f. kf_kid f = k) fs" for fs
      by (induction fs) (use that in auto)
    show ?thesis
      using that by (cases "List.find (\<lambda>f. kf_kid f = k) (key_files s)") (simp_all add: files find_append drop)
  qed
  then have old: "fst (keys_getPublicKey k s') = fst (keys_getPublicKey k s)" if "k \<noteq> kid" for k
    using that find_newest [OF dist] find_newest [OF assms(2)]
    by (simp add: keys_getPublicKey_def keys_listSigningKeyFiles_def bindM_run split: option.splits)
  have "keys_getCurrentSigningKey env cfg s' =
          (Inr \<lparr>sk_kid = kid, sk_privateKeyPem = snd (ed25519_keypair env (draws s)),
                sk_publicKeyPem = fst (ed25519_keypair env (draws s))\<rparr>, s')"
    if "\<forall>f \<in> set (key_files s). kf_createdAt f < clock s + rotate_seq s"
  proof -
    have "\<exists>rest. newest_first (key_files s') = ?f # rest"
      by (rule newest_first_hd) (use that in \<open>auto simp: files\<close>)
    then show ?thesis
      using wrap_unwrap [OF assms(1) wrap cache]
      by (auto simp: keys_getCurrentSigningKey_def numeral_2_eq_2 keys_listSigningKeyFiles_def bindM_run)
  qed
  with new old dist show ?thesis by blast
qed

theorem signing_key_rotation_witness:
  "\<exists>kid s. keys_rotateSigningKey codec_env sample_cfg codec_world = (Inr kid, s)
     \<and> keys_getCurrentSigningKey codec_env sample_cfg s =
        (Inr \<lparr>sk_kid = kid, sk_privateKeyPem = ''priv'', sk_publicKeyPem = ''pub''\<rparr>, s)"
proof -
  have "case keys_rotateSigningKey codec_env sample_cfg codec_world of (Inr _, _) \<Rightarrow> True | _ \<Rightarrow> False"
    by code_simp
  then obtain kid s where run: "keys_rotateSigningKey codec_env sample_cfg codec_world = (Inr kid, s)"
    by (auto split: prod.splits sum.splits)
  have pair: "ed25519_keypair codec_env (draws codec_world) = (''pub'', ''priv'')"
    by code_simp
  have "distinct (map kf_kid (key_files codec_world))" and "key_files codec_world = []"
    by (simp_all add: codec_world_def)
  with signing_key_rotation [OF codec_laws this(1) run] run show ?thesis
    by (simp add: pair)
qed

end
