(* ===== verification/Redis.thy ===== *)
theory Redis
  imports Samples
begin

text \<open>
  \<^verbatim>\<open>src/infrastructure/redis/redis.service.ts\<close>: the Redis wrapper, with keys that expire. The
  locale \<open>ttl_store\<close> is the interface its clients rely on (a key read back before its deadline, gone
  after it), and the wrapper is an instance.
\<close>

section \<open>The store\<close>

definition redis_key :: "string list \<Rightarrow> string" where
  "redis_key parts = ''identity:'' @ join_with '':'' parts"

definition entry_live :: "timestamp \<Rightarrow> rentry \<Rightarrow> bool" where
  "entry_live now e \<longleftrightarrow> (case re_expires e of None \<Rightarrow> True | Some t \<Rightarrow> now < t)"

definition redis_entry :: "timestamp \<Rightarrow> redis_db \<Rightarrow> string \<Rightarrow> rentry option" where
  "redis_entry now db key =
     (case map_of db key of
        None \<Rightarrow> None
      | Some e \<Rightarrow> if entry_live now e then Some e else None)"

definition redis_put :: "string \<Rightarrow> rentry \<Rightarrow> redis_db \<Rightarrow> redis_db" where
  "redis_put key e db = (key, e) # filter (\<lambda>(k, _). k \<noteq> key) db"

definition redis_remove :: "(string \<Rightarrow> bool) \<Rightarrow> redis_db \<Rightarrow> redis_db" where
  "redis_remove p db = filter (\<lambda>(k, _). \<not> p k) db"

lemma map_of_redis_remove: "map_of (redis_remove p db) k = (if p k then None else map_of db k)"
  by (induction db) (auto simp: redis_remove_def)

lemma map_of_redis_put: "map_of (redis_put key e db) k = (if k = key then Some e else map_of db k)"
  using map_of_redis_remove [of "\<lambda>k. k = key" db k] by (simp add: redis_put_def redis_remove_def)

lemma redis_entry_put:
  "redis_entry now (redis_put key e db) k =
     (if k = key then (if entry_live now e then Some e else None) else redis_entry now db k)"
  by (simp add: redis_entry_def map_of_redis_put)

lemma redis_entry_remove:
  "redis_entry now (redis_remove p db) k = (if p k then None else redis_entry now db k)"
  by (simp add: redis_entry_def map_of_redis_remove)

lemma redis_entry_live: "redis_entry now db k = Some e \<Longrightarrow> entry_live now e"
  by (auto simp: redis_entry_def split: option.splits if_splits)

section \<open>The operations of RedisService\<close>

definition redis_get :: "string \<Rightarrow> rvalue option act" where
  "redis_get key = getM (\<lambda>s. map_option re_value (redis_entry (clock s) (redis s) key))"

text \<open>\<open>if (ttlSeconds)\<close>: no time limit when the argument is missing or zero.\<close>

definition redis_set :: "string \<Rightarrow> rvalue \<Rightarrow> int option \<Rightarrow> unit act" where
  "redis_set key val ttlSeconds = modifyM (\<lambda>s. s\<lparr>redis := redis_put key
     \<lparr>re_value = val,
      re_expires = (case ttlSeconds of None \<Rightarrow> None
        | Some t \<Rightarrow> if t \<noteq> 0 then Some (clock s + 1000 * t) else None)\<rparr> (redis s)\<rparr>)"

definition redis_getJson :: "string \<Rightarrow> rvalue option act" where
  "redis_getJson key = redis_get key"

definition redis_setJson :: "string \<Rightarrow> rvalue \<Rightarrow> int option \<Rightarrow> unit act" where
  "redis_setJson key val ttlSeconds = redis_set key val ttlSeconds"

definition redis_del :: "string \<Rightarrow> unit act" where
  "redis_del key = modifyM (\<lambda>s. s\<lparr>redis := redis_remove (\<lambda>k. k = key) (redis s)\<rparr>)"

text \<open>
  The \<open>SCAN\<close> loop visits every stored key and deletes those with the prefix; the result counts the
  ones that were still alive.
\<close>

definition redis_delByPrefix :: "string \<Rightarrow> int act" where
  "redis_delByPrefix prefix = (\<lambda>s.
     (Inr (int (length (filter (\<lambda>(k, e). starts_with prefix k \<and> entry_live (clock s) e) (redis s)))),
      s\<lparr>redis := redis_remove (starts_with prefix) (redis s)\<rparr>))"

text \<open>\<open>INCR\<close> keeps the deadline of an existing counter; a new counter has none.\<close>

definition redis_incr :: "string \<Rightarrow> int act" where
  "redis_incr key = (\<lambda>s.
     (case redis_entry (clock s) (redis s) key of
        None \<Rightarrow> (Inr 1, s\<lparr>redis := redis_put key \<lparr>re_value = RCount 1, re_expires = None\<rparr> (redis s)\<rparr>)
      | Some e \<Rightarrow>
          (case re_value e of
             RCount n \<Rightarrow> (Inr (n + 1), s\<lparr>redis := redis_put key (e\<lparr>re_value := RCount (n + 1)\<rparr>) (redis s)\<rparr>)
           | _ \<Rightarrow> (Inl (JsError ''value is not an integer''), s))))"

definition redis_expire :: "string \<Rightarrow> int \<Rightarrow> unit act" where
  "redis_expire key ttlSeconds = modifyM (\<lambda>s.
     (case redis_entry (clock s) (redis s) key of
        None \<Rightarrow> s
      | Some e \<Rightarrow> s\<lparr>redis := redis_put key (e\<lparr>re_expires := Some (clock s + 1000 * ttlSeconds)\<rparr>) (redis s)\<rparr>))"

definition redis_ttl :: "string \<Rightarrow> int act" where
  "redis_ttl key = getM (\<lambda>s.
     (case redis_entry (clock s) (redis s) key of
        None \<Rightarrow> -2
      | Some e \<Rightarrow> (case re_expires e of None \<Rightarrow> -1 | Some t \<Rightarrow> (t - clock s + 500) div 1000)))"

definition redis_incrementWindow :: "string \<Rightarrow> int \<Rightarrow> int act" where
  "redis_incrementWindow key windowSeconds =
     bindM (redis_incr key) (\<lambda>count.
     bindM (whenM (count = 1) (redis_expire key windowSeconds)) (\<lambda>_.
     returnM count))"

definition redis_setAdd :: "string \<Rightarrow> string \<Rightarrow> unit act" where
  "redis_setAdd key member = (\<lambda>s.
     (case redis_entry (clock s) (redis s) key of
        None \<Rightarrow> (Inr (), s\<lparr>redis := redis_put key \<lparr>re_value = RSet [member], re_expires = None\<rparr> (redis s)\<rparr>)
      | Some e \<Rightarrow>
          (case re_value e of
             RSet ms \<Rightarrow> (Inr (), s\<lparr>redis := redis_put key (e\<lparr>re_value := RSet (List.insert member ms)\<rparr>) (redis s)\<rparr>)
           | _ \<Rightarrow> (Inl (JsError ''WRONGTYPE''), s))))"

definition redis_setSize :: "string \<Rightarrow> int act" where
  "redis_setSize key = (\<lambda>s.
     (case redis_entry (clock s) (redis s) key of
        None \<Rightarrow> (Inr 0, s)
      | Some e \<Rightarrow>
          (case re_value e of
             RSet ms \<Rightarrow> (Inr (int (length ms)), s)
           | _ \<Rightarrow> (Inl (JsError ''WRONGTYPE''), s))))"

definition redis_setExpire :: "string \<Rightarrow> int \<Rightarrow> unit act" where
  "redis_setExpire key ttlSeconds = redis_expire key ttlSeconds"

lemmas redis_op_defs =
  redis_get_def redis_set_def redis_getJson_def redis_setJson_def redis_del_def
  redis_delByPrefix_def redis_incr_def redis_expire_def redis_ttl_def redis_incrementWindow_def
  redis_setAdd_def redis_setSize_def redis_setExpire_def

section \<open>Time\<close>

definition elapse :: "int \<Rightarrow> world \<Rightarrow> world" where
  "elapse ms s = s\<lparr>clock := clock s + ms\<rparr>"

lemma elapse_simps [simp]:
  "clock (elapse d s) = clock s + d" "redis (elapse d s) = redis s"
  by (simp_all add: elapse_def)

section \<open>The interface of a store with deadlines\<close>

locale ttl_store =
  fixes lookup :: "'k \<Rightarrow> 's \<Rightarrow> 'v option"
    and store :: "'k \<Rightarrow> 'v \<Rightarrow> int \<Rightarrow> 's \<Rightarrow> 's"
    and erase :: "'k \<Rightarrow> 's \<Rightarrow> 's"
    and wait :: "int \<Rightarrow> 's \<Rightarrow> 's"
  assumes lookup_store: "0 < ttl \<Longrightarrow> 0 \<le> d \<Longrightarrow> lookup k (wait d (store k v ttl s)) =
            (if d < 1000 * ttl then Some v else None)"
    and lookup_store_other: "k \<noteq> k' \<Longrightarrow> lookup k (store k' v ttl s) = lookup k s"
    and lookup_erase: "lookup k (erase k' s) = (if k = k' then None else lookup k s)"
    and wait_store_other: "k \<noteq> k' \<Longrightarrow> lookup k (wait d (store k' v ttl s)) = lookup k (wait d s)"
    and wait_wait: "wait d (wait d' s) = wait (d' + d) s"
    and wait_zero: "wait 0 s = s"
    and gone_stays_gone: "0 \<le> d \<Longrightarrow> lookup k s = None \<Longrightarrow> lookup k (wait d s) = None"
begin

lemma lookup_fresh: "0 < ttl \<Longrightarrow> lookup k (store k v ttl s) = Some v"
  using lookup_store [of ttl 0 k v s] by (simp add: wait_zero)

lemma kept_until_deadline:
  "0 \<le> d \<Longrightarrow> d < 1000 * ttl \<Longrightarrow> lookup k (wait d (store k v ttl s)) = Some v"
  by (simp add: lookup_store)

lemma dropped_after_deadline:
  "0 < ttl \<Longrightarrow> 1000 * ttl \<le> d \<Longrightarrow> lookup k (wait d (store k v ttl s)) = None"
  by (simp add: lookup_store)

text \<open>Another entry stored meanwhile changes neither the value nor its deadline.\<close>

lemma kept_across_other_store:
  assumes "k \<noteq> k'" and "0 \<le> d" and "d < 1000 * ttl"
  shows "lookup k (store k' v' ttl' (wait d (store k v ttl s))) = Some v"
  using assms by (simp add: lookup_store_other lookup_store)

end

definition redis_lookup :: "string \<Rightarrow> world \<Rightarrow> rvalue option" where
  "redis_lookup key s = map_option re_value (redis_entry (clock s) (redis s) key)"

definition redis_store :: "string \<Rightarrow> rvalue \<Rightarrow> int \<Rightarrow> world \<Rightarrow> world" where
  "redis_store key v ttl s = snd (redis_set key v (Some ttl) s)"

definition redis_erase :: "string \<Rightarrow> world \<Rightarrow> world" where
  "redis_erase key s = snd (redis_del key s)"

lemma redis_get_run [simp]: "redis_get key s = (Inr (redis_lookup key s), s)"
  by (simp add: redis_get_def redis_lookup_def)

lemma redis_getJson_run [simp]: "redis_getJson key s = (Inr (redis_lookup key s), s)"
  by (simp add: redis_getJson_def)

lemma redis_set_run: "redis_set key v (Some ttl) s = (Inr (), redis_store key v ttl s)"
  by (simp add: redis_store_def redis_set_def)

lemma redis_del_run: "redis_del key s = (Inr (), redis_erase key s)"
  by (simp add: redis_erase_def redis_del_def)

interpretation redis: ttl_store redis_lookup redis_store redis_erase elapse
proof
  fix ttl d :: int and k k' v s
  show "0 < ttl \<Longrightarrow> 0 \<le> d \<Longrightarrow> redis_lookup k (elapse d (redis_store k v ttl s)) =
      (if d < 1000 * ttl then Some v else None)"
    by (simp add: redis_lookup_def redis_store_def redis_set_def redis_entry_put entry_live_def elapse_def)
  show "k \<noteq> k' \<Longrightarrow> redis_lookup k (redis_store k' v ttl s) = redis_lookup k s"
    by (simp add: redis_lookup_def redis_store_def redis_set_def redis_entry_put)
  show "redis_lookup k (redis_erase k' s) = (if k = k' then None else redis_lookup k s)"
    by (simp add: redis_lookup_def redis_erase_def redis_del_def redis_entry_remove)
  show "k \<noteq> k' \<Longrightarrow> redis_lookup k (elapse d (redis_store k' v ttl s)) = redis_lookup k (elapse d s)"
    by (simp add: redis_lookup_def redis_store_def redis_set_def redis_entry_put elapse_def)
  fix d'
  show "elapse d (elapse d' s) = elapse (d' + d) s"
    by (simp add: elapse_def)
  show "elapse 0 s = s"
    by (simp add: elapse_def)
  show "0 \<le> d \<Longrightarrow> redis_lookup k s = None \<Longrightarrow> redis_lookup k (elapse d s) = None"
    by (auto simp: redis_lookup_def redis_entry_def entry_live_def elapse_def
        split: option.splits if_splits)
qed

text \<open>What the other fields of the world are after a Redis write.\<close>

lemma redis_store_frame [simp]:
  "clock (redis_store k v t s) = clock s" "draws (redis_store k v t s) = draws s"
  "t_users (redis_store k v t s) = t_users s" "t_sessions (redis_store k v t s) = t_sessions s"
  "t_refresh (redis_store k v t s) = t_refresh s" "t_mfa (redis_store k v t s) = t_mfa s"
  "t_audit (redis_store k v t s) = t_audit s" "t_codes (redis_store k v t s) = t_codes s"
  "t_clients (redis_store k v t s) = t_clients s" "key_files (redis_store k v t s) = key_files s"
  by (simp_all add: redis_store_def redis_set_def)

lemma redis_erase_frame [simp]:
  "clock (redis_erase k s) = clock s" "draws (redis_erase k s) = draws s"
  "t_users (redis_erase k s) = t_users s" "t_sessions (redis_erase k s) = t_sessions s"
  "t_refresh (redis_erase k s) = t_refresh s" "t_mfa (redis_erase k s) = t_mfa s"
  "t_audit (redis_erase k s) = t_audit s" "t_codes (redis_erase k s) = t_codes s"
  "t_clients (redis_erase k s) = t_clients s" "key_files (redis_erase k s) = key_files s"
  by (simp_all add: redis_erase_def redis_del_def)

end
