(* ===== verification/Access_Tokens.thy ===== *)
theory Access_Tokens
  imports Keys Redis
begin

text \<open>
  \<^verbatim>\<open>src/modules/tokens/jwt.service.ts\<close> (signing and verification of access and ID tokens),
  \<^verbatim>\<open>src/modules/tokens/token-revocation.ts\<close> (the denylist of revoked token identifiers) and the
  guards of \<^verbatim>\<open>src/common/guards\<close>.
\<close>

section \<open>Signing\<close>

record access_token_input =
  ai_sub :: string
  ai_scope :: string
  ai_roles :: "string list"
  ai_permissions :: "string list"
  ai_sid :: "string option"
  ai_client_id :: "string option"
  ai_amr :: "string list option"

record issued_token =
  it_token :: string
  it_jti :: string
  it_expiresAt :: timestamp
  it_issuedAt :: timestamp

definition epoch_seconds :: "timestamp \<Rightarrow> int" where
  "epoch_seconds ms = ms div 1000"

definition nonempty :: "'a list \<Rightarrow> 'a list option" where
  "nonempty xs = (if xs = [] then None else Some xs)"

definition truthy_str :: "string option \<Rightarrow> string option" where
  "truthy_str x = (if truthy x then x else None)"

definition access_payload :: "config \<Rightarrow> access_token_input \<Rightarrow> int \<Rightarrow> int \<Rightarrow> string \<Rightarrow> jwt_payload" where
  "access_payload cfg inp now ttl jti =
     \<lparr>jp_iss = Some (JWT_ISSUER cfg), jp_sub = Some (ai_sub inp), jp_aud = [JWT_AUDIENCE cfg],
      jp_exp = Some (now + ttl), jp_nbf = Some now, jp_iat = Some now, jp_jti = Some jti,
      jp_scope = Some (ai_scope inp), jp_roles = nonempty (ai_roles inp),
      jp_permissions = nonempty (ai_permissions inp), jp_sid = truthy_str (ai_sid inp),
      jp_client_id = truthy_str (ai_client_id inp), jp_amr = ai_amr inp, jp_extra = []\<rparr>"

definition token_header :: "string \<Rightarrow> jwt_header" where
  "token_header kid = \<lparr>jh_alg = Some ''EdDSA'', jh_kid = Some kid, jh_typ = Some ''JWT''\<rparr>"

definition signAccessToken :: "externals \<Rightarrow> config \<Rightarrow> access_token_input \<Rightarrow> int option \<Rightarrow> issued_token act" where
  "signAccessToken env cfg inp ttlOverrideSeconds =
     bindM (keys_getCurrentSigningKey env cfg) (\<lambda>key.
     let ttl = (case ttlOverrideSeconds of Some t \<Rightarrow> t | None \<Rightarrow> ACCESS_TOKEN_TTL cfg) in
     bindM nowM (\<lambda>now_ms.
     let now = epoch_seconds now_ms in
     bindM (drawM (rand_uuid env)) (\<lambda>jti.
     returnM \<lparr>it_token = jwt_sign env (sk_privateKeyPem key) (token_header (sk_kid key)) (access_payload cfg inp now ttl jti),
              it_jti = jti, it_expiresAt = (now + ttl) * 1000, it_issuedAt = now * 1000\<rparr>)))"

definition id_payload :: "config \<Rightarrow> (string \<times> string) list \<Rightarrow> string \<Rightarrow> string \<Rightarrow> int \<Rightarrow> int \<Rightarrow> jwt_payload" where
  "id_payload cfg extraClaims audience subject now ttl =
     \<lparr>jp_iss = Some (JWT_ISSUER cfg), jp_sub = Some subject, jp_aud = [audience],
      jp_exp = Some (now + ttl), jp_nbf = Some now, jp_iat = Some now, jp_jti = None,
      jp_scope = None, jp_roles = None, jp_permissions = None, jp_sid = None,
      jp_client_id = None, jp_amr = None, jp_extra = extraClaims\<rparr>"

definition signIdToken ::
  "externals \<Rightarrow> config \<Rightarrow> (string \<times> string) list \<Rightarrow> string \<Rightarrow> string \<Rightarrow> int \<Rightarrow> string act" where
  "signIdToken env cfg extraClaims audience subject ttlSeconds =
     bindM (keys_getCurrentSigningKey env cfg) (\<lambda>key.
     bindM nowM (\<lambda>now_ms.
     returnM (jwt_sign env (sk_privateKeyPem key) (token_header (sk_kid key))
       (id_payload cfg extraClaims audience subject (epoch_seconds now_ms) ttlSeconds))))"

section \<open>The denylist\<close>

definition jti_key :: "string \<Rightarrow> string" where
  "jti_key jti = redis_key [''jti'', ''revoked'', jti]"

text \<open>\<open>Math.max(1, Math.ceil(exp - now/1000))\<close> with the clock in milliseconds.\<close>

definition revocation_ttl :: "int \<Rightarrow> timestamp \<Rightarrow> int" where
  "revocation_ttl exp now = max 1 ((1000 * exp - now + 999) div 1000)"

definition revokeUntil :: "string \<Rightarrow> int \<Rightarrow> unit act" where
  "revokeUntil jti expiresAtEpochSeconds =
     bindM nowM (\<lambda>now. redis_set (jti_key jti) (RStr ''1'') (Some (revocation_ttl expiresAtEpochSeconds now)))"

definition isRevoked :: "string \<Rightarrow> bool act" where
  "isRevoked jti = bindM (redis_get (jti_key jti)) (\<lambda>v. returnM (v = Some (RStr ''1'')))"

section \<open>Verification\<close>

text \<open>An error of the token library is a \<open>JsError\<close> carrying its code.\<close>

definition mapJoseError :: "exn \<Rightarrow> exn" where
  "mapJoseError err =
     (case err of
        App _ _ _ _ _ \<Rightarrow> err
      | KmsError m \<Rightarrow> AuthError m ''KMS_ERROR''
      | JsError code \<Rightarrow>
          if code = ''ERR_JWT_EXPIRED'' then AuthError ''Token expired'' ''TOKEN_EXPIRED''
          else if code = ''ERR_JWS_SIGNATURE_VERIFICATION_FAILED'' \<or> code = ''ERR_JWS_VERIFICATION_FAILED''
          then AuthError ''Invalid token signature'' ''INVALID_TOKEN_SIGNATURE''
          else if code = ''ERR_JWT_CLAIM_VALIDATION_FAILED'' then AuthError ''Invalid token claims'' ''INVALID_TOKEN_CLAIMS''
          else if code = ''ERR_JWT_MALFORMED'' then AuthError ''Malformed token'' ''MALFORMED_TOKEN''
          else AuthError ''Invalid token'' ''INVALID_TOKEN''
      | _ \<Rightarrow> AuthError ''Invalid token'' ''INVALID_TOKEN'')"

definition access_options :: "config \<Rightarrow> verify_options" where
  "access_options cfg =
     \<lparr>vo_issuer = JWT_ISSUER cfg, vo_audience = JWT_AUDIENCE cfg, vo_algorithms = [''EdDSA''],
      vo_clockTolerance = 5,
      vo_requiredClaims = [''iss'', ''sub'', ''aud'', ''exp'', ''iat'', ''jti'']\<rparr>"

definition decodeProtectedHeaderSafe :: "externals \<Rightarrow> string \<Rightarrow> jwt_header act" where
  "decodeProtectedHeaderSafe env token =
     (case jwt_decode_header env token of
        Some h \<Rightarrow> returnM h
      | None \<Rightarrow> throwM (AuthError ''Malformed token'' ''MALFORMED_TOKEN''))"

definition jose_verify :: "externals \<Rightarrow> string \<Rightarrow> string \<Rightarrow> verify_options \<Rightarrow> jwt_payload act" where
  "jose_verify env token publicKeyPem options =
     bindM nowM (\<lambda>now.
     case jwt_verify env token publicKeyPem options now of
       Inl code \<Rightarrow> throwM (JsError (case code of None \<Rightarrow> [] | Some c \<Rightarrow> c))
     | Inr payload \<Rightarrow> returnM payload)"

definition select_key :: "string option \<Rightarrow> public_key option act" where
  "select_key kid =
     (if truthy kid then bindM (keys_getPublicKey (the kid)) (\<lambda>k. returnM (Some k))
      else bindM keys_listPublicKeys (\<lambda>ks. returnM (first_row ks)))"

definition verifyAccessToken :: "externals \<Rightarrow> config \<Rightarrow> string \<Rightarrow> jwt_payload act" where
  "verifyAccessToken env cfg token =
     catchM
       (bindM (decodeProtectedHeaderSafe env token) (\<lambda>header.
        if jh_alg header \<noteq> Some ''EdDSA''
        then throwM (AuthError ''Unsupported token algorithm'' ''UNSUPPORTED_TOKEN_ALG'')
        else
          bindM (select_key (jh_kid header)) (\<lambda>signing.
          case signing of
            None \<Rightarrow> throwM (AuthError ''Unknown signing key'' ''UNKNOWN_SIGNING_KEY'')
          | Some key \<Rightarrow>
              bindM (jose_verify env token (pk_publicKeyPem key) (access_options cfg)) (\<lambda>payload.
              bindM (if truthy (jp_jti payload) then isRevoked (the (jp_jti payload)) else returnM False) (\<lambda>revoked.
              if revoked then throwM (AuthError ''Token has been revoked'' ''TOKEN_REVOKED'')
              else returnM payload)))))
       (\<lambda>err. throwM (mapJoseError err))"

section \<open>Guards\<close>

record auth_user =
  au_sub :: string
  au_scope :: string
  au_roles :: "string list option"
  au_permissions :: "string list option"
  au_sid :: "string option"
  au_client_id :: "string option"
  au_jti :: string

text \<open>\<open>sub\<close> is a required claim of the verification, so the empty default is never used.\<close>

definition to_auth_user :: "jwt_payload \<Rightarrow> auth_user" where
  "to_auth_user p =
     \<lparr>au_sub = (case jp_sub p of Some v \<Rightarrow> v | None \<Rightarrow> []),
      au_scope = (case jp_scope p of Some v \<Rightarrow> v | None \<Rightarrow> []),
      au_roles = jp_roles p, au_permissions = jp_permissions p, au_sid = jp_sid p,
      au_client_id = jp_client_id p, au_jti = (case jp_jti p of Some v \<Rightarrow> v | None \<Rightarrow> [])\<rparr>"

definition bearer :: "string option \<Rightarrow> string option" where
  "bearer header = (case header of
      None \<Rightarrow> None
    | Some h \<Rightarrow> if starts_with ''Bearer '' h then Some (drop 7 h) else None)"

definition authenticate :: "externals \<Rightarrow> config \<Rightarrow> string option \<Rightarrow> auth_user act" where
  "authenticate env cfg header =
     (case bearer header of
        None \<Rightarrow> throwM (AuthError ''Authentication required'' ''AUTH_REQUIRED'')
      | Some token \<Rightarrow> bindM (verifyAccessToken env cfg token) (\<lambda>payload. returnM (to_auth_user payload)))"

definition maybeAuthenticate :: "externals \<Rightarrow> config \<Rightarrow> string option \<Rightarrow> auth_user option act" where
  "maybeAuthenticate env cfg header =
     (case bearer header of
        None \<Rightarrow> returnM None
      | Some _ \<Rightarrow> bindM (authenticate env cfg header) (\<lambda>u. returnM (Some u)))"

definition tokenPermissions :: "auth_user \<Rightarrow> string list" where
  "tokenPermissions user = words (au_scope user)"

definition requirePermission :: "string list \<Rightarrow> auth_user option \<Rightarrow> unit result" where
  "requirePermission permissions user =
     (case user of
        None \<Rightarrow> Inl (ForbiddenError ''Authentication required'' ''FORBIDDEN'')
      | Some u \<Rightarrow>
          (let granted = (case au_permissions u of None \<Rightarrow> [] | Some ps \<Rightarrow> ps) @ tokenPermissions u in
           if list_all (\<lambda>p. p \<in> set granted) permissions then Inr ()
           else Inl (ForbiddenError (''Missing required permission(s): '' @ join_with '', '' permissions) ''MISSING_PERMISSION'')))"

definition requireScope :: "string list \<Rightarrow> auth_user option \<Rightarrow> unit result" where
  "requireScope scopes user =
     (case user of
        None \<Rightarrow> Inl (ForbiddenError ''Authentication required'' ''FORBIDDEN'')
      | Some u \<Rightarrow>
          if list_ex (\<lambda>sc. sc \<in> set (tokenPermissions u)) scopes then Inr ()
          else Inl (ForbiddenError (''Missing required scope(s): '' @ join_with '', '' scopes) ''INSUFFICIENT_SCOPE''))"

section \<open>What the token library promises\<close>

text \<open>
  The checks of \<open>jwtVerify\<close> on the claims, as its documentation states them: issuer and audience
  match, the required claims are there, and with the clock tolerance the token is neither expired
  nor used before its time.
\<close>

definition claim_present :: "jwt_payload \<Rightarrow> string \<Rightarrow> bool" where
  "claim_present p c \<longleftrightarrow>
     (if c = ''iss'' then jp_iss p \<noteq> None else if c = ''sub'' then jp_sub p \<noteq> None
      else if c = ''aud'' then jp_aud p \<noteq> [] else if c = ''exp'' then jp_exp p \<noteq> None
      else if c = ''iat'' then jp_iat p \<noteq> None else if c = ''jti'' then jp_jti p \<noteq> None
      else if c = ''scope'' then jp_scope p \<noteq> None else c \<in> set (map fst (jp_extra p)))"

definition claims_ok :: "verify_options \<Rightarrow> timestamp \<Rightarrow> jwt_payload \<Rightarrow> bool" where
  "claims_ok options now p \<longleftrightarrow>
     jp_iss p = Some (vo_issuer options) \<and> vo_audience options \<in> set (jp_aud p)
   \<and> list_all (claim_present p) (vo_requiredClaims options)
   \<and> (case jp_exp p of None \<Rightarrow> True | Some e \<Rightarrow> epoch_seconds now - vo_clockTolerance options < e)
   \<and> (case jp_nbf p of None \<Rightarrow> True | Some b \<Rightarrow> b \<le> epoch_seconds now + vo_clockTolerance options)"

text \<open>Only tokens with valid claims are accepted.\<close>

definition jose_sound :: "externals \<Rightarrow> bool" where
  "jose_sound env \<longleftrightarrow>
     (\<forall>token key options now p. jwt_verify env token key options now = Inr p \<longrightarrow> claims_ok options now p)"

text \<open>A token signed with the private key of a pair is accepted under its public key.\<close>

definition jose_accepts :: "externals \<Rightarrow> string \<Rightarrow> string \<Rightarrow> jwt_header \<Rightarrow> jwt_payload \<Rightarrow> bool" where
  "jose_accepts env priv pub h p \<longleftrightarrow>
     jwt_decode_header env (jwt_sign env priv h p) = Some h
   \<and> (\<forall>options now. claims_ok options now p \<longrightarrow> jh_alg h \<in> Some ` set (vo_algorithms options) \<longrightarrow>
        jwt_verify env (jwt_sign env priv h p) pub options now = Inr p)"

section \<open>Runs\<close>

lemma isRevoked_run [simp]: "isRevoked jti s = (Inr (redis_lookup (jti_key jti) s = Some (RStr ''1'')), s)"
  by (simp add: isRevoked_def bindM_run)

lemma revokeUntil_run:
  "revokeUntil jti exp s = (Inr (), redis_store (jti_key jti) (RStr ''1'') (revocation_ttl exp (clock s)) s)"
  by (simp add: revokeUntil_def bindM_run redis_set_run)

lemma getPublicKey_state: "keys_getPublicKey kid s = (r, s') \<Longrightarrow> s' = s"
  by (auto simp: keys_getPublicKey_def keys_listSigningKeyFiles_def bindM_run split: option.splits)

lemma select_key_state: "select_key kid s = (r, s') \<Longrightarrow> s' = s"
  by (auto simp: select_key_def bindM_run keys_listPublicKeys_def keys_listSigningKeyFiles_def
      dest: getPublicKey_state split: prod.splits sum.splits if_splits)

text \<open>Verification reads the world and changes nothing.\<close>

lemma verify_body:
  assumes "verifyAccessToken env cfg token s = (r, s')"
  shows "s' = s"
proof -
  have "snd (verifyAccessToken env cfg token s) = s"
    using select_key_state [of _ s]
    by (auto simp: verifyAccessToken_def catchM_def bindM_run decodeProtectedHeaderSafe_def jose_verify_def
        split: option.splits sum.splits prod.splits)
  with assms show ?thesis by simp
qed

lemma verify_Inr:
  assumes "verifyAccessToken env cfg token s = (Inr p, s')"
  obtains header key where "jwt_decode_header env token = Some header" and "jh_alg header = Some ''EdDSA''"
    and "select_key (jh_kid header) s = (Inr (Some key), s)"
    and "jwt_verify env token (pk_publicKeyPem key) (access_options cfg) (clock s) = Inr p"
    and "truthy (jp_jti p) \<longrightarrow> redis_lookup (jti_key (the (jp_jti p))) s \<noteq> Some (RStr ''1'')"
  using assms select_key_state [of _ s]
  by (auto simp: verifyAccessToken_def catchM_def bindM_run decodeProtectedHeaderSafe_def jose_verify_def
      split: option.splits sum.splits prod.splits if_splits) metis+

lemma verify_accepts:
  assumes "jose_accepts env priv pub (token_header kid) p" and "kid \<noteq> []"
    and "keys_getPublicKey kid s = (Inr key, s)" and "pk_publicKeyPem key = pub"
    and "claims_ok (access_options cfg) (clock s) p"
    and "truthy (jp_jti p) \<Longrightarrow> redis_lookup (jti_key (the (jp_jti p))) s \<noteq> Some (RStr ''1'')"
  shows "verifyAccessToken env cfg (jwt_sign env priv (token_header kid) p) s = (Inr p, s)"
  using assms
  by (simp add: verifyAccessToken_def catchM_def bindM_run decodeProtectedHeaderSafe_def jose_verify_def
      jose_accepts_def token_header_def select_key_def access_options_def)

lemma sign_run:
  assumes "keys_getCurrentSigningKey env cfg s = (Inr key, s1)"
  shows "signAccessToken env cfg inp ttl s =
    (let now = epoch_seconds (clock s1);
         t = (case ttl of Some t \<Rightarrow> t | None \<Rightarrow> ACCESS_TOKEN_TTL cfg);
         jti = rand_uuid env (draws s1)
     in (Inr \<lparr>it_token = jwt_sign env (sk_privateKeyPem key) (token_header (sk_kid key)) (access_payload cfg inp now t jti),
              it_jti = jti, it_expiresAt = (now + t) * 1000, it_issuedAt = now * 1000\<rparr>,
         s1\<lparr>draws := Suc (draws s1)\<rparr>))"
  using assms by (simp add: signAccessToken_def bindM_run Let_def)

section \<open>Properties\<close>

text \<open>A library instance for the witnesses: one token, with the claims checked.\<close>

definition demo_input :: access_token_input where
  "demo_input = \<lparr>ai_sub = ''Ua'', ai_scope = ''openid api.read'', ai_roles = [''user''],
     ai_permissions = [], ai_sid = Some ''Us'', ai_client_id = None, ai_amr = Some [''pwd'']\<rparr>"

definition demo_payload :: jwt_payload where
  "demo_payload = access_payload sample_cfg demo_input 1 900 ''U''"

definition demo_env :: externals where
  "demo_env = sample_env\<lparr>jwt_verify := (\<lambda>token key options now.
     if claims_ok options now demo_payload then Inr demo_payload else Inl (Some ''ERR_JWT_EXPIRED''))\<rparr>"

lemma demo_sound: "jose_sound demo_env"
  by (simp add: jose_sound_def demo_env_def)

lemma demo_accepts: "jose_accepts demo_env priv pub (token_header ''k1'') demo_payload"
  by (simp add: jose_accepts_def demo_env_def sample_env_def token_header_def)

lemma demo_key: "keys_getPublicKey ''k1'' s = (Inr \<lparr>pk_kid = ''k1'', pk_publicKeyPem = ''pub'', pk_createdAt = 0\<rparr>, s)"
  if "key_files s = [sample_key]"
  using that by (simp add: keys_getPublicKey_def keys_listSigningKeyFiles_def bindM_run newest_first_def
      to_public_key_def sample_key_def)

text \<open>
  C9: an access token that was issued is accepted, with the claims it was issued for, as long as its
  key is listed, it is not revoked and it has not expired (up to the tolerance).
\<close>

theorem access_token_roundtrip:
  assumes "keys_getCurrentSigningKey env cfg s = (Inr key, s1)" and "sk_kid key \<noteq> []"
    and "signAccessToken env cfg inp ttl s = (Inr t, s2)"
    and "p = access_payload cfg inp (it_issuedAt t div 1000) ((it_expiresAt t - it_issuedAt t) div 1000) (it_jti t)"
    and "jose_accepts env (sk_privateKeyPem key) (sk_publicKeyPem key) (token_header (sk_kid key)) p"
    and "keys_getPublicKey (sk_kid key) s3 = (Inr pk, s3)" and "pk_publicKeyPem pk = sk_publicKeyPem key"
    and "it_issuedAt t \<le> clock s3" and "clock s3 < it_expiresAt t + 5000"
    and "redis_lookup (jti_key (it_jti t)) s3 = None"
  shows "verifyAccessToken env cfg (it_token t) s3 = (Inr p, s3)
    \<and> jp_sub p = Some (ai_sub inp) \<and> jp_scope p = Some (ai_scope inp) \<and> jp_jti p = Some (it_jti t)
    \<and> jp_permissions p = nonempty (ai_permissions inp) \<and> jp_roles p = nonempty (ai_roles inp)
    \<and> 1000 * the (jp_exp p) = it_expiresAt t"
proof -
  let ?now = "epoch_seconds (clock s1)"
  let ?ttl = "case ttl of Some t \<Rightarrow> t | None \<Rightarrow> ACCESS_TOKEN_TTL cfg"
  have t: "t = \<lparr>it_token = jwt_sign env (sk_privateKeyPem key) (token_header (sk_kid key))
        (access_payload cfg inp ?now ?ttl (rand_uuid env (draws s1))),
      it_jti = rand_uuid env (draws s1), it_expiresAt = (?now + ?ttl) * 1000, it_issuedAt = ?now * 1000\<rparr>"
    using assms(3) by (simp add: sign_run [OF assms(1)] Let_def)
  have "((?now + ?ttl) * 1000 - ?now * 1000) div 1000 = ?ttl"
    by (simp flip: left_diff_distrib)
  then have p: "p = access_payload cfg inp ?now ?ttl (rand_uuid env (draws s1))"
    by (simp add: assms(4) t)
  have "epoch_seconds (clock s3) - 5 < ?now + ?ttl" and "?now \<le> epoch_seconds (clock s3)"
    using assms(8,9) by (simp_all add: t epoch_seconds_def)
  then have ok: "claims_ok (access_options cfg) (clock s3) p"
    by (simp add: p claims_ok_def access_options_def access_payload_def claim_present_def)
  have jti: "jp_jti p = Some (it_jti t)" and token: "it_token t = jwt_sign env (sk_privateKeyPem key) (token_header (sk_kid key)) p"
    by (simp_all add: p t access_payload_def)
  have "verifyAccessToken env cfg (it_token t) s3 = (Inr p, s3)"
    unfolding token by (rule verify_accepts [OF assms(5,2,6,7) ok]) (simp add: jti assms(10))
  then show ?thesis
    by (simp add: p t access_payload_def)
qed

theorem access_token_roundtrip_witness:
  "\<exists>t s. signAccessToken demo_env sample_cfg demo_input None sample_world = (Inr t, s)
     \<and> verifyAccessToken demo_env sample_cfg (it_token t) (elapse 800000 s) = (Inr demo_payload, elapse 800000 s)"
proof -
  have "case keys_getCurrentSigningKey demo_env sample_cfg sample_world of
      (Inr k, s) \<Rightarrow> sk_kid k = ''k1'' \<and> sk_publicKeyPem k = ''pub'' | _ \<Rightarrow> False"
    by code_simp
  then obtain key s1 where key: "keys_getCurrentSigningKey demo_env sample_cfg sample_world = (Inr key, s1)"
    and kid: "sk_kid key = ''k1''" "sk_publicKeyPem key = ''pub''"
    by (auto split: prod.splits sum.splits)
  have "case signAccessToken demo_env sample_cfg demo_input None sample_world of
      (Inr t, s) \<Rightarrow> it_issuedAt t = 1000 \<and> it_expiresAt t = 901000 \<and> it_jti t = ''U'' \<and> clock s = 1000
        \<and> redis s = [] \<and> key_files s = [sample_key] | _ \<Rightarrow> False"
    by code_simp
  then obtain t s where t: "signAccessToken demo_env sample_cfg demo_input None sample_world = (Inr t, s)"
    and it: "it_issuedAt t = 1000" "it_expiresAt t = 901000" "it_jti t = ''U''"
      "clock s = 1000" "redis s = []" "key_files s = [sample_key]"
    by (auto split: prod.splits sum.splits)
  have "verifyAccessToken demo_env sample_cfg (it_token t) (elapse 800000 s) = (Inr demo_payload, elapse 800000 s)"
    using access_token_roundtrip [OF key _ t, of demo_payload "elapse 800000 s"] it kid
      demo_key [of "elapse 800000 s"] demo_accepts
    by (simp add: demo_payload_def elapse_def redis_lookup_def redis_entry_def)
  with t show ?thesis by blast
qed

text \<open>
  C6: what an accepted token is. Verification that returns claims has changed nothing; the token
  names the EdDSA algorithm and was checked against a listed key, its issuer, audience, subject and
  identifier are there, it has not expired beyond the tolerance, and its identifier is not revoked.
\<close>

theorem verify_sound:
  assumes "jose_sound env" and "verifyAccessToken env cfg token s = (Inr p, s')"
  shows "s' = s
    \<and> (\<exists>header key. jwt_decode_header env token = Some header \<and> jh_alg header = Some ''EdDSA''
        \<and> select_key (jh_kid header) s = (Inr (Some key), s)
        \<and> jwt_verify env token (pk_publicKeyPem key) (access_options cfg) (clock s) = Inr p)
    \<and> jp_iss p = Some (JWT_ISSUER cfg) \<and> JWT_AUDIENCE cfg \<in> set (jp_aud p)
    \<and> jp_sub p \<noteq> None \<and> jp_jti p \<noteq> None
    \<and> (\<exists>e. jp_exp p = Some e \<and> epoch_seconds (clock s) < e + 5)
    \<and> (truthy (jp_jti p) \<longrightarrow> fst (isRevoked (the (jp_jti p)) s) = Inr False)"
proof -
  obtain header key where h: "jwt_decode_header env token = Some header" "jh_alg header = Some ''EdDSA''"
      "select_key (jh_kid header) s = (Inr (Some key), s)"
      "jwt_verify env token (pk_publicKeyPem key) (access_options cfg) (clock s) = Inr p"
    and nr: "truthy (jp_jti p) \<longrightarrow> redis_lookup (jti_key (the (jp_jti p))) s \<noteq> Some (RStr ''1'')"
    by (rule verify_Inr [OF assms(2)])
  have ok: "claims_ok (access_options cfg) (clock s) p"
    using assms(1) h(4) by (auto simp: jose_sound_def)
  have "jp_exp p \<noteq> None"
    using ok by (simp add: claims_ok_def access_options_def claim_present_def)
  then obtain e where e: "jp_exp p = Some e" by blast
  show ?thesis
    using verify_body [OF assms(2)] h nr ok e
    by (auto simp: claims_ok_def access_options_def claim_present_def)
qed

theorem verify_sound_witness:
  "\<exists>e. jp_exp demo_payload = Some e \<and> epoch_seconds 1000 < e + 5"
proof -
  have "verifyAccessToken demo_env sample_cfg ''J'' sample_world = (Inr demo_payload, sample_world)"
  proof -
    have "claims_ok (access_options sample_cfg) (clock sample_world) demo_payload"
      by code_simp
    then show ?thesis
      using demo_key [of sample_world]
      by (simp add: verifyAccessToken_def catchM_def bindM_run decodeProtectedHeaderSafe_def jose_verify_def
          demo_env_def sample_env_def select_key_def sample_world_def empty_world_def redis_lookup_def redis_entry_def)
  qed
  from verify_sound [OF demo_sound this] show ?thesis
    by (simp add: sample_world_def)
qed

lemma verify_refused:
  assumes "verifyAccessToken env cfg token s = (Inl e, s')"
  shows "\<exists>code m. e = AuthError m code"
proof -
  have thrown: "\<exists>code m. mapJoseError x = AuthError m code"
    if "(\<exists>code m. x = AuthError m code) \<or> (\<exists>m. x = KmsError m) \<or> (\<exists>c. x = JsError c)" for x
    using that by (auto simp: mapJoseError_def exn_defs)
  have sel: "\<exists>m. x = KmsError m" if "select_key kid s = (Inl x, s1)" for kid x s1
    using that by (auto simp: select_key_def bindM_run keys_getPublicKey_def keys_listPublicKeys_def
        keys_listSigningKeyFiles_def split: if_splits option.splits)
  show ?thesis
    using assms
    by (auto simp: verifyAccessToken_def catchM_def bindM_run decodeProtectedHeaderSafe_def jose_verify_def
        split: option.splits sum.splits prod.splits if_splits dest!: sel intro!: thrown)
qed

text \<open>
  A rejected token is a 401. Whatever goes wrong in a verification, malformed input, an unknown
  key, a bad signature, bad claims or a revoked token, the caller gets an \<open>AuthError\<close>, never an error
  of the key service or of the token library, and nothing has changed.
\<close>

theorem verify_error_is_401:
  assumes "verifyAccessToken env cfg token s = (Inl e, s')"
  shows "s' = s \<and> (\<exists>code m. e = AuthError m code)"
  using verify_body [OF assms] verify_refused [OF assms] by blast

theorem verify_error_is_401_witness:
  "\<exists>code m. fst (verifyAccessToken sample_env sample_cfg ''J'' sample_world) = Inl (AuthError m code)"
proof -
  have "case verifyAccessToken sample_env sample_cfg ''J'' sample_world of (Inl _, _) \<Rightarrow> True | _ \<Rightarrow> False"
    by code_simp
  then obtain e s where "verifyAccessToken sample_env sample_cfg ''J'' sample_world = (Inl e, s)"
    by (auto split: prod.splits sum.splits)
  with verify_error_is_401 [OF this] show ?thesis by auto
qed

text \<open>
  C18: a revoked token is refused until it expires. After \<open>revokeUntil\<close>, at every time before the
  token's expiry (and at least for a second), no token that carries the revoked identifier is
  accepted, whatever else its claims say.
\<close>

theorem revoked_token_refused:
  assumes "revokeUntil jti exp s = (Inr (), s1)" and "jti \<noteq> []"
    and "0 \<le> d" and "clock s + d < 1000 * exp \<or> d < 1000"
    and "verifyAccessToken env cfg token (elapse d s1) = (Inr p, s2)"
  shows "jp_jti p \<noteq> Some jti"
proof
  assume jti: "jp_jti p = Some jti"
  have s1: "s1 = redis_store (jti_key jti) (RStr ''1'') (revocation_ttl exp (clock s)) s"
    using assms(1) by (simp add: revokeUntil_run)
  have "0 < revocation_ttl exp (clock s)" and "d < 1000 * revocation_ttl exp (clock s)"
    using assms(3,4) by (auto simp: revocation_ttl_def)
  then have "redis_lookup (jti_key jti) (elapse d s1) = Some (RStr ''1'')"
    unfolding s1 by (intro redis.kept_until_deadline assms(3))
  moreover have "redis_lookup (jti_key jti) (elapse d s1) \<noteq> Some (RStr ''1'')"
    using verify_Inr [OF assms(5)] jti assms(2) by (metis option.sel truthy_simps(2))
  ultimately show False by simp
qed

theorem revoked_token_refused_witness:
  "fst (verifyAccessToken demo_env sample_cfg ''J''
      (elapse 800000 (snd (revokeUntil ''U'' 901 sample_world)))) \<noteq> Inr demo_payload"
proof
  let ?s = "elapse 800000 (snd (revokeUntil ''U'' 901 sample_world))"
  assume "fst (verifyAccessToken demo_env sample_cfg ''J'' ?s) = Inr demo_payload"
  then have "verifyAccessToken demo_env sample_cfg ''J'' ?s = (Inr demo_payload, snd (verifyAccessToken demo_env sample_cfg ''J'' ?s))"
    by (metis prod.collapse)
  from revoked_token_refused [OF _ _ _ _ this, of "''U''" 901 sample_world] show False
    by (simp add: revokeUntil_run demo_payload_def access_payload_def sample_world_def)
qed

text \<open>
  The denylist ends before the tolerance does. The entry of a revoked identifier lives until the
  expiry, rounded up to a second, but verification accepts a token up to five seconds after its
  expiry: in between a revoked token is accepted again.
\<close>

theorem revoked_token_revives:
  assumes "jose_accepts env priv pub (token_header kid) p" and "kid \<noteq> []"
    and "keys_getPublicKey kid s = (Inr key, s)" and "pk_publicKeyPem key = pub"
    and "claims_ok (access_options cfg) (clock s) p"
    and "jp_jti p = Some jti" and "jp_exp p = Some exp" and "clock s < 1000 * exp"
    and "1000 * exp + 1000 \<le> clock s + d" and "clock s + d < 1000 * exp + 5000"
  shows "verifyAccessToken env cfg (jwt_sign env priv (token_header kid) p) (elapse d (snd (revokeUntil jti exp s)))
     = (Inr p, elapse d (snd (revokeUntil jti exp s)))"
proof (rule verify_accepts [OF assms(1,2) _ assms(4)])
  let ?s = "elapse d (snd (revokeUntil jti exp s))"
  have files: "key_files ?s = key_files s" and clk: "clock ?s = clock s + d"
    by (simp_all add: revokeUntil_run elapse_def)
  show "keys_getPublicKey kid ?s = (Inr key, ?s)"
    using assms(3) by (auto simp: keys_getPublicKey_def keys_listSigningKeyFiles_def bindM_run files split: option.splits)
  have "epoch_seconds (clock s + d) - 5 < exp" and "epoch_seconds (clock s) \<le> epoch_seconds (clock s + d)"
    using assms(8,9,10) by (simp_all add: epoch_seconds_def zdiv_mono1)
  then show "claims_ok (access_options cfg) (clock ?s) p"
    using assms(5,7) by (auto simp: claims_ok_def revokeUntil_run access_options_def split: option.splits)
  have "1000 * revocation_ttl exp (clock s) \<le> d" and "0 < revocation_ttl exp (clock s)"
    using assms(8,9) by (auto simp: revocation_ttl_def max_def)
  then have "redis_lookup (jti_key jti) ?s = None"
    by (simp add: revokeUntil_run redis.dropped_after_deadline)
  then show "redis_lookup (jti_key (the (jp_jti p))) ?s \<noteq> Some (RStr ''1'')"
    by (simp add: assms(6))
qed

theorem revoked_token_revives_witness:
  "verifyAccessToken demo_env sample_cfg (jwt_sign demo_env ''priv'' (token_header ''k1'') demo_payload)
     (elapse 902000 (snd (revokeUntil ''U'' 901 sample_world)))
   = (Inr demo_payload, elapse 902000 (snd (revokeUntil ''U'' 901 sample_world)))"
proof (rule revoked_token_revives [OF demo_accepts _ demo_key])
  show "claims_ok (access_options sample_cfg) (clock sample_world) demo_payload"
    by code_simp
qed (simp_all add: sample_world_def empty_world_def demo_payload_def access_payload_def)

text \<open>
  The permission guard lets a request pass exactly when there is an identity and every required
  permission is one of its token's permissions or a word of its scope; the scope guard exactly when
  one of the listed scopes is a word of its scope. Every refusal is a 403.
\<close>

theorem guards_spec:
  "(requirePermission ps u = Inr () \<longleftrightarrow>
      (\<exists>a. u = Some a \<and> (\<forall>p \<in> set ps. p \<in> set (words (au_scope a)) \<or> (\<exists>gs. au_permissions a = Some gs \<and> p \<in> set gs))))
   \<and> (requireScope scs u = Inr () \<longleftrightarrow> (\<exists>a. u = Some a \<and> (\<exists>sc \<in> set scs. sc \<in> set (words (au_scope a)))))
   \<and> (\<forall>e. requirePermission ps u = Inl e \<or> requireScope scs u = Inl e \<longrightarrow> hr_status (errorHandler e rid) = 403)"
  by (cases u)
    (auto simp: requirePermission_def requireScope_def tokenPermissions_def Let_def list_all_iff list_ex_iff
      exn_defs split: option.splits if_splits)

theorem guards_spec_witness:
  "\<not> (\<exists>a. to_auth_user demo_payload = a \<and> requirePermission [''users:read''] (Some a) = Inr ())"
  using guards_spec [of "[''users:read'']" "Some (to_auth_user demo_payload)" "[]" "[]"]
  by (simp add: to_auth_user_def demo_payload_def access_payload_def demo_input_def nonempty_def words_by_def js_ws_def)

end
