(* ===== verification/Session_Store.thy ===== *)
theory Session_Store
  imports Redis
begin

text \<open>
  \<^verbatim>\<open>src/modules/sessions/session.repository.ts\<close>: the sessions table with its Redis cache. The
  lemmas show that the cache is transparent for the session status and that a revocation is visible
  to the next look-up whatever the cache holds.
\<close>

definition sess_key :: "uuid \<Rightarrow> string" where
  "sess_key uid = redis_key [''sess'', uid]"

section \<open>Operations\<close>

record session_params =
  sp_userId :: uuid
  sp_clientId :: "uuid option"
  sp_ip :: "string option"
  sp_userAgent :: "string option"
  sp_deviceId :: "string option"
  sp_mfaPassed :: bool
  sp_ttlSeconds :: int

definition sessions_create :: "externals \<Rightarrow> session_params \<Rightarrow> session_row act" where
  "sessions_create env params =
     bindM nowM (\<lambda>now.
     bindM (drawM (rand_uuid env)) (\<lambda>new_id.
     insertM t_sessions (\<lambda>t s. s\<lparr>t_sessions := t\<rparr>) (\<lambda>r. ss_id r = new_id)
       \<lparr>ss_id = new_id, ss_user_id = sp_userId params, ss_client_id = sp_clientId params,
        ss_ip = sp_ip params, ss_user_agent = sp_userAgent params, ss_device_id = sp_deviceId params,
        ss_mfa_passed = sp_mfaPassed params, ss_status = Session_active, ss_last_seen_at = now,
        ss_expires_at = now + 1000 * sp_ttlSeconds params, ss_revoked_at = None,
        ss_revoke_reason = None\<rparr>
       ''sessions_pkey''))"

definition session_in :: "world \<Rightarrow> uuid \<Rightarrow> session_row option" where
  "session_in s uid = List.find (\<lambda>r. ss_id r = uid) (t_sessions s)"

definition sessions_loadFresh :: "uuid \<Rightarrow> session_row option act" where
  "sessions_loadFresh uid =
     bindM (getM (\<lambda>s. session_in s uid)) (\<lambda>row.
     bindM (case row of None \<Rightarrow> returnM () | Some r \<Rightarrow> redis_setJson (sess_key uid) (RSession r) (Some 300)) (\<lambda>_.
     returnM row))"

definition sessions_findById :: "uuid \<Rightarrow> session_row option act" where
  "sessions_findById uid =
     bindM (redis_getJson (sess_key uid)) (\<lambda>cached.
     case cached of
       Some (RSession c) \<Rightarrow>
         if ss_status c \<noteq> Session_active then returnM (Some c)
         else
           bindM (sessions_loadFresh uid) (\<lambda>fresh.
           case fresh of
             None \<Rightarrow> bindM (redis_del (sess_key uid)) (\<lambda>_. returnM None)
           | Some r \<Rightarrow> returnM (Some r))
     | _ \<Rightarrow> sessions_loadFresh uid)"

definition sessions_touch :: "uuid \<Rightarrow> unit act" where
  "sessions_touch uid = modifyM (\<lambda>s.
     s\<lparr>t_sessions := update_where (\<lambda>r. ss_id r = uid) (\<lambda>r. r\<lparr>ss_last_seen_at := clock s\<rparr>) (t_sessions s)\<rparr>)"

definition revoke_session :: "timestamp \<Rightarrow> string \<Rightarrow> session_row \<Rightarrow> session_row" where
  "revoke_session now reason r =
     r\<lparr>ss_status := Session_revoked, ss_revoked_at := Some now, ss_revoke_reason := Some reason\<rparr>"

definition revoke_refresh :: "timestamp \<Rightarrow> refresh_row \<Rightarrow> refresh_row" where
  "revoke_refresh now r = r\<lparr>rt_status := Token_revoked, rt_revoked_at := Some now\<rparr>"

lemma revoke_session_simps [simp]:
  "ss_id (revoke_session now reason r) = ss_id r"
  "ss_user_id (revoke_session now reason r) = ss_user_id r"
  "ss_status (revoke_session now reason r) = Session_revoked"
  "ss_mfa_passed (revoke_session now reason r) = ss_mfa_passed r"
  by (simp_all add: revoke_session_def)

lemma revoke_refresh_simps [simp]:
  "rt_id (revoke_refresh now r) = rt_id r" "rt_token_hash (revoke_refresh now r) = rt_token_hash r"
  "rt_session_id (revoke_refresh now r) = rt_session_id r" "rt_user_id (revoke_refresh now r) = rt_user_id r"
  "rt_family_id (revoke_refresh now r) = rt_family_id r" "rt_client_id (revoke_refresh now r) = rt_client_id r"
  "rt_status (revoke_refresh now r) = Token_revoked"
  by (simp_all add: revoke_refresh_def)

definition sessions_revoke :: "uuid \<Rightarrow> string \<Rightarrow> unit act" where
  "sessions_revoke uid reason =
     bindM (modifyM (\<lambda>s. s\<lparr>t_sessions := update_where (\<lambda>r. ss_id r = uid \<and> ss_status r = Session_active)
              (revoke_session (clock s) reason) (t_sessions s)\<rparr>)) (\<lambda>_.
     bindM (modifyM (\<lambda>s. s\<lparr>t_refresh := update_where (\<lambda>r. rt_session_id r = uid \<and> rt_status r = Token_active)
              (revoke_refresh (clock s)) (t_refresh s)\<rparr>)) (\<lambda>_.
     redis_del (sess_key uid)))"

definition sessions_revokeAllForUser :: "uuid \<Rightarrow> string \<Rightarrow> int act" where
  "sessions_revokeAllForUser userId reason =
     bindM (getM (\<lambda>s. length (filter (\<lambda>r. ss_user_id r = userId \<and> ss_status r = Session_active) (t_sessions s)))) (\<lambda>n.
     bindM (modifyM (\<lambda>s. s\<lparr>t_sessions := update_where (\<lambda>r. ss_user_id r = userId \<and> ss_status r = Session_active)
              (revoke_session (clock s) reason) (t_sessions s)\<rparr>)) (\<lambda>_.
     bindM (modifyM (\<lambda>s. s\<lparr>t_refresh := update_where
              (\<lambda>r. rt_user_id r = userId \<and> rt_status r \<in> {Token_active, Token_rotated})
              (revoke_refresh (clock s)) (t_refresh s)\<rparr>)) (\<lambda>_.
     bindM (redis_delByPrefix (redis_key [''sess''] @ '':'')) (\<lambda>_.
     returnM (int n)))))"

section \<open>Running the operations\<close>

lemma loadFresh_run:
  "sessions_loadFresh uid s =
     (Inr (session_in s uid),
      case session_in s uid of None \<Rightarrow> s | Some r \<Rightarrow> redis_store (sess_key uid) (RSession r) 300 s)"
  by (simp add: sessions_loadFresh_def redis_setJson_def redis_set_run bindM_def split: option.splits)

lemma findById_run:
  "sessions_findById uid s =
     (case redis_lookup (sess_key uid) s of
        Some (RSession c) \<Rightarrow>
          if ss_status c \<noteq> Session_active then (Inr (Some c), s)
          else (case session_in s uid of
                  None \<Rightarrow> (Inr None, redis_erase (sess_key uid) s)
                | Some r \<Rightarrow> (Inr (Some r), redis_store (sess_key uid) (RSession r) 300 s))
      | _ \<Rightarrow> sessions_loadFresh uid s)"
  by (simp add: sessions_findById_def bindM_def loadFresh_run redis_del_run
      split: option.splits rvalue.splits)

text \<open>A look-up writes nothing but the cache.\<close>

lemma findById_frame:
  assumes "sessions_findById uid s = (r, s')"
  shows "t_sessions s' = t_sessions s" and "t_refresh s' = t_refresh s" and "t_users s' = t_users s"
    and "clock s' = clock s" and "draws s' = draws s" and "key_files s' = key_files s"
  using assms by (auto simp: findById_run loadFresh_run split: option.splits rvalue.splits if_splits)

definition revoked_sessions :: "(session_row \<Rightarrow> bool) \<Rightarrow> string \<Rightarrow> world \<Rightarrow> session_row list" where
  "revoked_sessions p reason s =
     update_where (\<lambda>r. p r \<and> ss_status r = Session_active) (revoke_session (clock s) reason) (t_sessions s)"

lemma revoke_run:
  "sessions_revoke uid reason s =
     (Inr (), redis_erase (sess_key uid) (s\<lparr>
        t_sessions := revoked_sessions (\<lambda>r. ss_id r = uid) reason s,
        t_refresh := update_where (\<lambda>r. rt_session_id r = uid \<and> rt_status r = Token_active)
          (revoke_refresh (clock s)) (t_refresh s)\<rparr>))"
  by (simp add: sessions_revoke_def redis_del_run bindM_def revoked_sessions_def)

lemma session_in_revoked:
  "List.find (\<lambda>r. ss_id r = uid) (revoked_sessions p reason s) =
     map_option (\<lambda>r. if p r \<and> ss_status r = Session_active then revoke_session (clock s) reason r else r)
       (session_in s uid)"
  unfolding revoked_sessions_def session_in_def by (rule find_update_where) simp

section \<open>The cache\<close>

text \<open>
  What the cache may hold: documents of the session they are filed under; one that is not active
  belongs to a session that is revoked in the table.
\<close>

definition cache_ok :: "world \<Rightarrow> bool" where
  "cache_ok s \<longleftrightarrow> (\<forall>uid c. redis_lookup (sess_key uid) s = Some (RSession c) \<longrightarrow>
     (ss_status c \<noteq> Session_active \<longrightarrow> map_option ss_status (session_in s uid) = Some Session_revoked))"

lemma sess_key_inject [simp]: "sess_key a = sess_key b \<longleftrightarrow> a = b"
  by (simp add: sess_key_def redis_key_def)

lemma session_in_frame [simp]:
  "session_in (redis_store k v t s) uid = session_in s uid"
  "session_in (redis_erase k s) uid = session_in s uid"
  by (simp_all add: session_in_def)

lemma session_lookup_fresh [simp]: "redis_lookup k (redis_store k v 300 s) = Some v"
  by (rule redis.lookup_fresh) simp

lemma loadFresh_cache_ok: "cache_ok s \<Longrightarrow> cache_ok (snd (sessions_loadFresh uid s))"
proof -
  assume ok: "cache_ok s"
  have "cache_ok (redis_store (sess_key uid) (RSession r) 300 s)" if "session_in s uid = Some r" for r
    unfolding cache_ok_def
  proof (intro allI impI)
    fix v c
    assume c: "redis_lookup (sess_key v) (redis_store (sess_key uid) (RSession r) 300 s) = Some (RSession c)"
      and st: "ss_status c \<noteq> Session_active"
    show "map_option ss_status (session_in (redis_store (sess_key uid) (RSession r) 300 s) v) = Some Session_revoked"
    proof (cases "v = uid")
      case True
      with c st that show ?thesis by (cases "ss_status c") simp_all
    next
      case False
      with c have "redis_lookup (sess_key v) s = Some (RSession c)"
        by (simp add: redis.lookup_store_other)
      with ok st show ?thesis by (simp add: cache_ok_def)
    qed
  qed
  with ok show ?thesis
    by (simp add: loadFresh_run split: option.splits)
qed

lemma findById_cache_ok: "cache_ok s \<Longrightarrow> cache_ok (snd (sessions_findById uid s))"
proof -
  assume ok: "cache_ok s"
  then have "cache_ok (redis_erase k s)" for k
    by (simp add: cache_ok_def redis.lookup_erase)
  with ok loadFresh_cache_ok [OF ok, of uid] show ?thesis
    by (auto simp: findById_run loadFresh_run split: option.splits rvalue.splits)
qed

lemma redis_lookup_tables [simp]:
  "redis_lookup k (s\<lparr>t_sessions := a, t_refresh := b\<rparr>) = redis_lookup k s"
  by (simp add: redis_lookup_def)

lemma revoked_stays_revoked:
  "map_option ss_status (session_in s uid) = Some Session_revoked \<Longrightarrow>
   map_option ss_status (List.find (\<lambda>r. ss_id r = uid) (revoked_sessions p reason s)) = Some Session_revoked"
  by (cases "session_in s uid") (simp_all add: session_in_revoked)

lemma revoke_cache_ok: "cache_ok s \<Longrightarrow> cache_ok (snd (sessions_revoke uid reason s))"
proof -
  assume ok: "cache_ok s"
  show ?thesis
    unfolding cache_ok_def
  proof (intro allI impI)
    fix v c
    assume c: "redis_lookup (sess_key v) (snd (sessions_revoke uid reason s)) = Some (RSession c)"
      and st: "ss_status c \<noteq> Session_active"
    from c have "redis_lookup (sess_key v) s = Some (RSession c)"
      by (simp add: revoke_run redis.lookup_erase split: if_splits)
    with ok st have "map_option ss_status (session_in s v) = Some Session_revoked"
      by (simp add: cache_ok_def)
    then show "map_option ss_status (session_in (snd (sessions_revoke uid reason s)) v) = Some Session_revoked"
      unfolding revoke_run by (simp add: session_in_def [where s = "_\<lparr>t_sessions := _, t_refresh := _\<rparr>"]
          revoked_stays_revoked)
  qed
qed

text \<open>
  C16: the session cache is transparent. With a coherent cache, looking a session up gives exactly the
  status the table holds (and nothing exactly when the table has no such session), and leaves the
  tables as they were and the cache coherent.
\<close>

theorem session_cache_transparent:
  assumes "cache_ok s" and "sessions_findById uid s = (r, s')"
  shows "\<exists>row. r = Inr row \<and> map_option ss_status row = map_option ss_status (session_in s uid)
     \<and> t_sessions s' = t_sessions s \<and> t_refresh s' = t_refresh s \<and> cache_ok s'"
proof -
  have "cache_ok s'"
    using findById_cache_ok [OF assms(1), of uid] assms(2) by simp
  moreover have "ss_status c = Session_revoked \<and> map_option ss_status (session_in s uid) = Some Session_revoked"
    if "redis_lookup (sess_key uid) s = Some (RSession c)" and "ss_status c \<noteq> Session_active" for c
    using assms(1) that by (cases "ss_status c") (simp_all add: cache_ok_def)
  ultimately show ?thesis
    using assms(2) findById_frame [OF assms(2)]
    by (auto simp: findById_run loadFresh_run split: option.splits rvalue.splits if_splits)
qed

definition cached_world :: world where
  "cached_world = snd (sessions_loadFresh ''Us'' sample_world)"

lemma cached_world_ok: "cache_ok cached_world"
  unfolding cached_world_def
  by (rule loadFresh_cache_ok) (simp add: cache_ok_def redis_lookup_def redis_entry_def sample_world_def empty_world_def)

theorem session_cache_transparent_witness:
  "map_option ss_status (session_in (snd (sessions_findById ''Us'' cached_world)) ''Us'') = Some Session_active
   \<and> cache_ok (snd (sessions_findById ''Us'' cached_world))"
proof -
  obtain r s' where run: "sessions_findById ''Us'' cached_world = (r, s')"
    by (cases "sessions_findById ''Us'' cached_world")
  have "map_option ss_status (session_in cached_world ''Us'') = Some Session_active"
    by code_simp
  with session_cache_transparent [OF cached_world_ok run] show ?thesis
    by (auto simp: run session_in_def)
qed

text \<open>
  A revoked session is dead at once. Whatever the cache held, after \<open>revoke\<close> no look-up of that
  session gives an active one, none of its refresh tokens is active, and no other session or token
  has changed.
\<close>

theorem session_revoke_effective:
  assumes "sessions_revoke uid reason s = (r, s')"
  shows "r = Inr ()
    \<and> (\<forall>row s''. sessions_findById uid s' = (Inr (Some row), s'') \<longrightarrow> ss_status row = Session_revoked)
    \<and> (\<forall>t \<in> set (t_refresh s'). rt_session_id t = uid \<longrightarrow> rt_status t \<noteq> Token_active)
    \<and> filter (\<lambda>x. ss_id x \<noteq> uid) (t_sessions s') = filter (\<lambda>x. ss_id x \<noteq> uid) (t_sessions s)
    \<and> filter (\<lambda>t. rt_session_id t \<noteq> uid) (t_refresh s') = filter (\<lambda>t. rt_session_id t \<noteq> uid) (t_refresh s)"
proof -
  have keep_s: "filter (\<lambda>x. ss_id x \<noteq> uid) (update_where (\<lambda>r. ss_id r = uid \<and> ss_status r = Session_active)
      (revoke_session now reason) t) = filter (\<lambda>x. ss_id x \<noteq> uid) t" for now t
    by (induction t) auto
  have keep_t: "filter (\<lambda>x. rt_session_id x \<noteq> uid) (update_where (\<lambda>r. rt_session_id r = uid \<and> rt_status r = Token_active)
      (revoke_refresh now) t) = filter (\<lambda>x. rt_session_id x \<noteq> uid) t" for now t
    by (induction t) auto
  have "r = Inr ()" and s': "s' = redis_erase (sess_key uid) (s\<lparr>
        t_sessions := revoked_sessions (\<lambda>r. ss_id r = uid) reason s,
        t_refresh := update_where (\<lambda>r. rt_session_id r = uid \<and> rt_status r = Token_active)
          (revoke_refresh (clock s)) (t_refresh s)\<rparr>)"
    using assms by (simp_all add: revoke_run)
  moreover have "ss_status row = Session_revoked"
    if "sessions_findById uid s' = (Inr (Some row), s'')" for row s''
  proof -
    have gone: "redis_lookup (sess_key uid) s' = None"
      by (simp add: s' redis.lookup_erase)
    have "session_in s' uid = Some row"
      using that by (simp add: findById_run gone loadFresh_run)
    then have "map_option (\<lambda>r. if ss_id r = uid \<and> ss_status r = Session_active then revoke_session (clock s) reason r else r)
        (session_in s uid) = Some row"
      by (simp add: s' session_in_def [where s = "_\<lparr>t_sessions := _, t_refresh := _\<rparr>"] session_in_revoked)
    then obtain r0 where r0: "session_in s uid = Some r0"
      and row: "row = (if ss_id r0 = uid \<and> ss_status r0 = Session_active
                       then revoke_session (clock s) reason r0 else r0)"
      by auto
    from r0 have "ss_id r0 = uid"
      by (auto simp: session_in_def dest: find_SomeD)
    with row show ?thesis
      by (cases "ss_status r0") simp_all
  qed
  ultimately show ?thesis
    by (auto simp: revoked_sessions_def keep_s keep_t)
qed

theorem session_revoke_effective_witness:
  "\<exists>row s''. sessions_findById ''Us'' (snd (sessions_revoke ''Us'' ''logout'' cached_world)) = (Inr (Some row), s'')
     \<and> ss_status row = Session_revoked"
proof -
  let ?s = "snd (sessions_revoke ''Us'' ''logout'' cached_world)"
  have "case sessions_findById ''Us'' ?s of (Inr (Some _), _) \<Rightarrow> True | _ \<Rightarrow> False"
    by code_simp
  then obtain row s'' where run: "sessions_findById ''Us'' ?s = (Inr (Some row), s'')"
    by (auto split: prod.splits sum.splits option.splits)
  with session_revoke_effective [OF prod.collapse [symmetric], of "''Us''" "''logout''" cached_world]
  show ?thesis by blast
qed

end
