(* ===== verification/Audit_Log.thy ===== *)
theory Audit_Log
  imports Redis
begin

text \<open>
  The audit log: \<^verbatim>\<open>src/modules/audit/audit.service.ts\<close> and
  \<^verbatim>\<open>src/modules/audit/postgres-audit-sink.ts\<close> (redaction of credential-like metadata, the
  default sink that writes the \<open>audit_logs\<close> table and swallows its errors).
\<close>

record audit_event =
  ae_event_type :: string
  ae_user_id :: "string option"
  ae_client_id :: "string option"
  ae_ip :: "string option"
  ae_user_agent :: "string option"
  ae_request_id :: "string option"
  ae_metadata :: "(string \<times> jval) list"

section \<open>Redaction\<close>

fun contains :: "string \<Rightarrow> string \<Rightarrow> bool" where
  "contains sub [] = (sub = [])"
| "contains sub (c # cs) = (starts_with sub (c # cs) \<or> contains sub cs)"

definition redacted_patterns :: "string list" where
  "redacted_patterns = [''password'', ''secret'', ''token'', ''authorization'', ''cookie'', ''code_verifier'']"

text \<open>The case-insensitive test \<open>REDACTED_KEYS.test(key)\<close>.\<close>

definition redacted_key :: "string \<Rightarrow> bool" where
  "redacted_key key \<longleftrightarrow> list_ex (\<lambda>p. contains p (js_lower key)) redacted_patterns"

definition sanitizeMetadata :: "(string \<times> jval) list \<Rightarrow> (string \<times> jval) list" where
  "sanitizeMetadata metadata =
     map (\<lambda>(key, val). (key, if redacted_key key then JStr ''[REDACTED]'' else val)) metadata"

section \<open>Recording\<close>

text \<open>
  \<open>record\<close> sanitizes the event and hands it to the default sink, which sanitizes it again and inserts
  the row. A value that is no uuid makes the database refuse the row (the \<open>user_id\<close> column is of
  type uuid); the sink logs that error and returns, so the caller never sees it.
\<close>

definition audit_write :: "externals \<Rightarrow> audit_event \<Rightarrow> unit act" where
  "audit_write env event = modifyM (\<lambda>s.
     if (case ae_user_id event of None \<Rightarrow> True | Some u \<Rightarrow> uuid_syntax env u)
     then s\<lparr>t_audit := t_audit s @
       [\<lparr>al_id = audit_uuid env (length (t_audit s)), al_event_type = ae_event_type event, al_user_id = ae_user_id event,
         al_client_id = ae_client_id event, al_ip = ae_ip event,
         al_user_agent = ae_user_agent event, al_request_id = ae_request_id event,
         al_metadata = sanitizeMetadata (ae_metadata event), al_created_at = clock s\<rparr>]\<rparr>
     else s)"

definition audit_record :: "externals \<Rightarrow> audit_event \<Rightarrow> unit act" where
  "audit_record env event =
     (let enriched = event\<lparr>ae_metadata := sanitizeMetadata (ae_metadata event)\<rparr>
      in audit_write env enriched)"

text \<open>Events as the services build them.\<close>

definition ctx_event :: "string \<Rightarrow> request_context \<Rightarrow> audit_event" where
  "ctx_event ty ctx = \<lparr>ae_event_type = ty, ae_user_id = None, ae_client_id = None, ae_ip = rc_ip ctx,
     ae_user_agent = None, ae_request_id = Some (rc_requestId ctx), ae_metadata = []\<rparr>"

definition with_agent :: "request_context \<Rightarrow> audit_event \<Rightarrow> audit_event" where
  "with_agent ctx e = e\<lparr>ae_user_agent := rc_userAgent ctx\<rparr>"

definition for_user :: "string \<Rightarrow> audit_event \<Rightarrow> audit_event" where
  "for_user u e = e\<lparr>ae_user_id := Some u\<rparr>"

definition for_client :: "string \<Rightarrow> audit_event \<Rightarrow> audit_event" where
  "for_client c e = e\<lparr>ae_client_id := Some c\<rparr>"

definition with_meta :: "(string \<times> jval) list \<Rightarrow> audit_event \<Rightarrow> audit_event" where
  "with_meta m e = e\<lparr>ae_metadata := m\<rparr>"

lemmas event_defs = ctx_event_def with_agent_def for_user_def for_client_def with_meta_def

text \<open>The state after recording; every other part of the world is untouched, and it never rejects.\<close>

definition audited :: "externals \<Rightarrow> audit_event \<Rightarrow> world \<Rightarrow> world" where
  "audited env event s = snd (audit_record env event s)"

lemma audit_record_run [simp]: "audit_record env event s = (Inr (), audited env event s)"
  by (simp add: audited_def audit_record_def audit_write_def Let_def)

lemma audited_cases:
  "audited env event s = s \<or> (\<exists>r. audited env event s = s\<lparr>t_audit := t_audit s @ [r]\<rparr>)"
  by (auto simp: audited_def audit_record_def audit_write_def Let_def)

lemma audited_frame [simp]:
  "t_users (audited env e s) = t_users s" "t_roles (audited env e s) = t_roles s"
  "t_permissions (audited env e s) = t_permissions s" "t_scopes (audited env e s) = t_scopes s"
  "t_user_roles (audited env e s) = t_user_roles s"
  "t_role_permissions (audited env e s) = t_role_permissions s"
  "t_clients (audited env e s) = t_clients s" "t_codes (audited env e s) = t_codes s"
  "t_sessions (audited env e s) = t_sessions s" "t_refresh (audited env e s) = t_refresh s"
  "t_mfa (audited env e s) = t_mfa s"
  "t_email_verifications (audited env e s) = t_email_verifications s"
  "t_password_resets (audited env e s) = t_password_resets s" "t_risk (audited env e s) = t_risk s"
  "t_documents (audited env e s) = t_documents s" "redis (audited env e s) = redis s"
  "outbox (audited env e s) = outbox s" "key_files (audited env e s) = key_files s"
  "master_file (audited env e s) = master_file s" "master_cache (audited env e s) = master_cache s"
  "rotate_seq (audited env e s) = rotate_seq s" "clock (audited env e s) = clock s"
  "draws (audited env e s) = draws s"
  using audited_cases [of env e s] by auto

lemma audited_redis_lookup [simp]: "redis_lookup key (audited env e s) = redis_lookup key s"
  by (simp add: redis_lookup_def)

lemma preserves_audit:
  "(\<And>s r. P s \<Longrightarrow> P (s\<lparr>t_audit := t_audit s @ [r]\<rparr>)) \<Longrightarrow> preserves P (audit_record env event)"
  unfolding preserves_def using audited_cases [of env event] by (metis audit_record_run snd_conv)

section \<open>What is persisted\<close>

lemma sanitize_idem: "sanitizeMetadata (sanitizeMetadata m) = sanitizeMetadata m"
  by (auto simp: sanitizeMetadata_def)

lemma contains_iff: "contains p x \<longleftrightarrow> (\<exists>a b. x = a @ p @ b)"
proof (induction x)
  case (Cons c x)
  have "(\<exists>a b. c # x = a @ p @ b) \<longleftrightarrow> starts_with p (c # x) \<or> (\<exists>a b. x = a @ p @ b)"
    by (auto simp: starts_with_iff Cons_eq_append_conv)
  with Cons show ?case by simp
qed simp

text \<open>
  C22: no credential-like key of an audit event reaches the log with its value. When an event is persisted, the new
  row has the entries of the event in their order; under every key of the metadata that has, in upper or lower case, one
  of the six words in it there is the marker, and under every other key the value of the event. Only the keys of the
  metadata itself are looked at: an object below another key is stored as it is.
\<close>

theorem audit_redacts:
  assumes "t_audit (snd (audit_record env event s)) = t_audit s @ [row]"
  shows "list_all2 (\<lambda>(k, v) (k', v'). k' = k \<and>
      v' = (if \<exists>p \<in> {''password'', ''secret'', ''token'', ''authorization'', ''cookie'', ''code_verifier''}. \<exists>a b. js_lower k = a @ p @ b
            then JStr ''[REDACTED]'' else v))
    (ae_metadata event) (al_metadata row)"
proof -
  have "al_metadata row = sanitizeMetadata (ae_metadata event)"
    using assms
    by (auto simp: audited_def audit_record_def audit_write_def Let_def sanitize_idem split: if_splits)
  moreover have "redacted_key k \<longleftrightarrow>
      (\<exists>p \<in> {''password'', ''secret'', ''token'', ''authorization'', ''cookie'', ''code_verifier''}. \<exists>a b. js_lower k = a @ p @ b)" for k
    by (simp add: redacted_key_def redacted_patterns_def contains_iff)
  ultimately show ?thesis
    by (simp add: sanitizeMetadata_def list_all2_map2 list.rel_refl case_prod_beta)
qed

definition sample_event :: audit_event where
  "sample_event = with_meta [(''reason'', JStr ''x''), (''Refresh_Token'', JStr ''abc'')]
     (ctx_event ''USER_LOGIN_FAILED'' sample_ctx)"

theorem audit_redacts_witness:
  "map_of (al_metadata (last (t_audit (snd (audit_record sample_env sample_event empty_world)))))
     ''Refresh_Token'' = Some (JStr ''[REDACTED]'')"
proof -
  let ?s = "snd (audit_record sample_env sample_event empty_world)"
  have row: "t_audit ?s = t_audit empty_world @ [last (t_audit ?s)]"
    by (simp add: audited_def audit_record_def audit_write_def Let_def sample_event_def event_defs
        sample_ctx_def empty_world_def)
  have "js_lower ''Refresh_Token'' = ''refresh_'' @ ''token'' @ []"
    by code_simp
  then have "\<exists>p \<in> {''password'', ''secret'', ''token'', ''authorization'', ''cookie'', ''code_verifier''}. \<exists>a b. js_lower ''Refresh_Token'' = a @ p @ b"
    by blast
  then show ?thesis
    using audit_redacts [OF row] by (auto simp: sample_event_def with_meta_def list_all2_Cons1)
qed

end
