(* ===== verification/Mfa.thy ===== *)
theory Mfa
  imports Session_Store Keys Audit_Log
begin

text \<open>
  \<^verbatim>\<open>src/modules/mfa/mfa.service.ts\<close>: TOTP enrolment and the login challenge kept in Redis. The
  lemmas bound the number of codes that are checked against one challenge and say what a successful
  check needs and changes.
\<close>

section \<open>Operations\<close>

definition mfa_challengeKey :: "string \<Rightarrow> string" where
  "mfa_challengeKey cid = redis_key [''mfa'', ''challenge'', cid]"

definition uuid_param :: "externals \<Rightarrow> string \<Rightarrow> unit act" where
  "uuid_param env v = (if uuid_syntax env v then returnM () else throwM (DbError ''invalid input syntax for type uuid''))"

definition mfa_method_in :: "world \<Rightarrow> uuid \<Rightarrow> mfa_status \<Rightarrow> mfa_row option" where
  "mfa_method_in s userId status = List.find (\<lambda>m. mm_user_id m = userId \<and> mm_status m = status) (t_mfa s)"

definition mfa_getActiveMethod :: "externals \<Rightarrow> uuid \<Rightarrow> mfa_row option act" where
  "mfa_getActiveMethod env userId = bindM (uuid_param env userId) (\<lambda>_. getM (\<lambda>s. mfa_method_in s userId Mfa_active))"

definition mfa_getPendingMethod :: "externals \<Rightarrow> uuid \<Rightarrow> mfa_row option act" where
  "mfa_getPendingMethod env userId = bindM (uuid_param env userId) (\<lambda>_. getM (\<lambda>s. mfa_method_in s userId Mfa_pending))"

definition mfa_hasActiveMethod :: "externals \<Rightarrow> uuid \<Rightarrow> bool act" where
  "mfa_hasActiveMethod env userId = bindM (mfa_getActiveMethod env userId) (\<lambda>m. returnM (m \<noteq> None))"

definition mfa_decryptSecret :: "externals \<Rightarrow> config \<Rightarrow> envelope \<Rightarrow> string act" where
  "mfa_decryptSecret env cfg stored = keys_decrypt env cfg stored"

record enrollment =
  en_otpauth_url :: string
  en_qr_data_url :: string

definition upsert_mfa :: "uuid \<Rightarrow> uuid \<Rightarrow> envelope \<Rightarrow> mfa_row list \<Rightarrow> mfa_row list" where
  "upsert_mfa new_id userId encrypted t =
     (if \<exists>m \<in> set t. mm_user_id m = userId
      then update_where (\<lambda>m. mm_user_id m = userId)
             (\<lambda>m. m\<lparr>mm_secret_encrypted := encrypted, mm_status := Mfa_pending, mm_enrolled_at := None,
                    mm_last_used_at := None\<rparr>) t
      else t @ [\<lparr>mm_id = new_id, mm_user_id = userId, mm_secret_encrypted = encrypted, mm_status = Mfa_pending,
                 mm_is_primary = False, mm_enrolled_at = None, mm_last_used_at = None\<rparr>])"

definition mfa_beginEnroll :: "externals \<Rightarrow> config \<Rightarrow> uuid \<Rightarrow> string \<Rightarrow> enrollment act" where
  "mfa_beginEnroll env cfg userId email =
     bindM (drawM (totp_generateSecret env)) (\<lambda>secret.
     bindM (keys_encrypt env cfg secret) (\<lambda>encrypted.
     bindM (uuid_param env userId) (\<lambda>_.
     bindM (drawM (rand_uuid env)) (\<lambda>new_id.
     bindM (modifyM (\<lambda>s. s\<lparr>t_mfa := upsert_mfa new_id userId encrypted (t_mfa s)\<rparr>)) (\<lambda>_.
     let otpauthUrl = totp_keyuri env email (MFA_ISSUER cfg) secret in
     returnM \<lparr>en_otpauth_url = otpauthUrl, en_qr_data_url = qr_toDataURL env otpauthUrl\<rparr>)))))"

definition totp_checkM :: "externals \<Rightarrow> string \<Rightarrow> string \<Rightarrow> bool act" where
  "totp_checkM env code secret = bindM nowM (\<lambda>now. returnM (totp_check env now code secret))"

definition mfa_setRequired :: "uuid \<Rightarrow> bool \<Rightarrow> unit act" where
  "mfa_setRequired userId b = modifyM (\<lambda>s.
     s\<lparr>t_users := update_where (\<lambda>u. u_id u = userId) (\<lambda>u. u\<lparr>u_mfa_required := b\<rparr>) (t_users s)\<rparr>)"

definition mfa_confirmEnroll :: "externals \<Rightarrow> config \<Rightarrow> uuid \<Rightarrow> string \<Rightarrow> unit act" where
  "mfa_confirmEnroll env cfg userId code =
     bindM (mfa_getPendingMethod env userId) (\<lambda>meth.
     case meth of
       None \<Rightarrow> throwM (AuthError ''No pending MFA enrollment'' ''MFA_NOT_ENROLLING'')
     | Some m \<Rightarrow>
         bindM (mfa_decryptSecret env cfg (mm_secret_encrypted m)) (\<lambda>secret.
         bindM (totp_checkM env code secret) (\<lambda>good.
         if \<not> good then throwM (AuthError ''Invalid MFA code'' ''INVALID_MFA_CODE'')
         else
           bindM (modifyM (\<lambda>s. s\<lparr>t_mfa := update_where (\<lambda>m. mm_user_id m = userId)
                    (\<lambda>m. m\<lparr>mm_status := Mfa_active, mm_enrolled_at := Some (clock s), mm_is_primary := True\<rparr>) (t_mfa s)\<rparr>)) (\<lambda>_.
           mfa_setRequired userId True))))"

definition mfa_getEmailForUser :: "externals \<Rightarrow> uuid \<Rightarrow> string act" where
  "mfa_getEmailForUser env userId =
     bindM (uuid_param env userId) (\<lambda>_.
     bindM (getM (\<lambda>s. List.find (\<lambda>u. u_id u = userId) (t_users s))) (\<lambda>row.
     case row of
       None \<Rightarrow> throwM (AuthError ''User not found'' ''USER_NOT_FOUND'')
     | Some u \<Rightarrow> returnM (u_email u)))"

definition mfa_createLoginChallenge :: "externals \<Rightarrow> config \<Rightarrow> uuid \<Rightarrow> uuid \<Rightarrow> string act" where
  "mfa_createLoginChallenge env cfg userId sessionId =
     bindM (drawM (rand_uuid env)) (\<lambda>challengeId.
     bindM (redis_setJson (mfa_challengeKey challengeId)
              (RChallenge \<lparr>mc_userId = userId, mc_sessionId = sessionId, mc_attempts = 0\<rparr>)
              (Some (MFA_CHALLENGE_TTL cfg))) (\<lambda>_.
     returnM challengeId))"

text \<open>
  The stored value under a challenge key is always a challenge; any other value would be read as a
  JSON value without the fields and is treated as no challenge.
\<close>

definition mfa_verifyLoginChallenge :: "externals \<Rightarrow> config \<Rightarrow> string \<Rightarrow> string \<Rightarrow> uuid act" where
  "mfa_verifyLoginChallenge env cfg challengeId code =
     (let key = mfa_challengeKey challengeId in
      bindM (redis_getJson key) (\<lambda>stored.
      case stored of
        Some (RChallenge challenge) \<Rightarrow>
          if 3 \<le> mc_attempts challenge then
            bindM (redis_del key) (\<lambda>_. throwM (AuthError ''Too many MFA attempts'' ''MFA_ATTEMPTS_EXCEEDED''))
          else
            bindM (mfa_getActiveMethod env (mc_userId challenge)) (\<lambda>meth.
            bindM (case meth of
                     None \<Rightarrow> returnM None
                   | Some m \<Rightarrow> bindM (mfa_decryptSecret env cfg (mm_secret_encrypted m)) (\<lambda>x. returnM (Some x))) (\<lambda>secret.
            bindM (if truthy secret then totp_checkM env code (the secret) else returnM False) (\<lambda>good.
            if \<not> good then
              bindM (redis_setJson key (RChallenge (challenge\<lparr>mc_attempts := mc_attempts challenge + 1\<rparr>))
                       (Some (MFA_CHALLENGE_TTL cfg))) (\<lambda>_.
              throwM (AuthError ''Invalid MFA code'' ''INVALID_MFA_CODE''))
            else
              bindM (modifyM (\<lambda>s. s\<lparr>t_sessions := update_where (\<lambda>r. ss_id r = mc_sessionId challenge)
                       (\<lambda>r. r\<lparr>ss_mfa_passed := True\<rparr>) (t_sessions s)\<rparr>)) (\<lambda>_.
              bindM (modifyM (\<lambda>s. s\<lparr>t_mfa := update_where (\<lambda>m. mm_id m = mm_id (the meth))
                       (\<lambda>m. m\<lparr>mm_last_used_at := Some (clock s)\<rparr>) (t_mfa s)\<rparr>)) (\<lambda>_.
              bindM (redis_del key) (\<lambda>_.
              returnM (mc_sessionId challenge)))))))
      | _ \<Rightarrow> throwM (AuthError ''Invalid or expired MFA challenge'' ''INVALID_MFA_CHALLENGE'')))"

definition mfa_disable :: "externals \<Rightarrow> config \<Rightarrow> uuid \<Rightarrow> string \<Rightarrow> unit act" where
  "mfa_disable env cfg userId code =
     bindM (mfa_getActiveMethod env userId) (\<lambda>meth.
     case meth of
       None \<Rightarrow> throwM (AuthError ''MFA is not enabled'' ''MFA_NOT_ENABLED'')
     | Some m \<Rightarrow>
         bindM (mfa_decryptSecret env cfg (mm_secret_encrypted m)) (\<lambda>secret.
         bindM (totp_checkM env code secret) (\<lambda>good.
         if \<not> good then throwM (AuthError ''Invalid MFA code'' ''INVALID_MFA_CODE'')
         else
           bindM (modifyM (\<lambda>s. s\<lparr>t_mfa := update_where (\<lambda>x. mm_id x = mm_id m)
                    (\<lambda>x. x\<lparr>mm_status := Mfa_disabled\<rparr>) (t_mfa s)\<rparr>)) (\<lambda>_.
           mfa_setRequired userId False))))"

section \<open>Runs\<close>

lemma masterKey_run:
  obtains r m f d where "keys_masterKey env cfg s = (r, s\<lparr>master_cache := m, master_file := f, draws := d\<rparr>)"
proof -
  have "\<exists>r m f d. keys_masterKey env cfg s = (r, s\<lparr>master_cache := m, master_file := f, draws := d\<rparr>)"
    by (cases s) (auto simp: keys_masterKey_def bindM_run Let_def split: option.splits)
  with that show ?thesis by blast
qed

text \<open>Decryption changes at most what the key service keeps.\<close>

lemma decrypt_frame:
  assumes "keys_decrypt env cfg e s = (r, s')"
  shows "redis s' = redis s" and "clock s' = clock s" and "t_mfa s' = t_mfa s" and "t_users s' = t_users s"
    and "t_sessions s' = t_sessions s" and "t_refresh s' = t_refresh s" and "t_audit s' = t_audit s"
    and "t_codes s' = t_codes s" and "key_files s' = key_files s"
proof -
  obtain k m f d where run: "keys_masterKey env cfg s = (k, s\<lparr>master_cache := m, master_file := f, draws := d\<rparr>)"
    by (rule masterKey_run)
  have "s' = s \<or> s' = s\<lparr>master_cache := m, master_file := f, draws := d\<rparr>"
    using assms by (auto simp: keys_decrypt_def keys_dataEncryptionKey_def catchM_def bindM_run run
        split: sum.splits option.splits if_splits)
  then show "redis s' = redis s" and "clock s' = clock s" and "t_mfa s' = t_mfa s" and "t_users s' = t_users s"
    and "t_sessions s' = t_sessions s" and "t_refresh s' = t_refresh s" and "t_audit s' = t_audit s"
    and "t_codes s' = t_codes s" and "key_files s' = key_files s"
    by auto
qed

lemma decrypt_error: "keys_decrypt env cfg e s = (Inl x, s') \<Longrightarrow> \<exists>m. x = KmsError m"
  by (auto simp: keys_decrypt_def catchM_def split: if_splits prod.splits sum.splits)

lemma getActiveMethod_run:
  "mfa_getActiveMethod env userId s =
     (if uuid_syntax env userId then (Inr (mfa_method_in s userId Mfa_active), s)
      else (Inl (DbError ''invalid input syntax for type uuid''), s))"
  by (simp add: mfa_getActiveMethod_def uuid_param_def bindM_run)

text \<open>A check of a code: the only two results that tell the caller whether a code was right.\<close>

definition code_checked :: "exn + uuid \<Rightarrow> bool" where
  "code_checked r \<longleftrightarrow> (case r of Inr _ \<Rightarrow> True | Inl e \<Rightarrow> e = AuthError ''Invalid MFA code'' ''INVALID_MFA_CODE'')"

lemma verify_challenge_cases:
  assumes "mfa_verifyLoginChallenge env cfg cid code s = (r, s')"
  obtains (refused) "\<not> code_checked r" "redis s' = redis s" "clock s' = clock s" "t_sessions s' = t_sessions s"
    | (exceeded) "\<not> code_checked r" "s' = redis_erase (mfa_challengeKey cid) s"
    | (wrong) c s1 where "r = Inl (AuthError ''Invalid MFA code'' ''INVALID_MFA_CODE'')"
        "redis_lookup (mfa_challengeKey cid) s = Some (RChallenge c)" "mc_attempts c < 3"
        "s' = redis_store (mfa_challengeKey cid) (RChallenge (c\<lparr>mc_attempts := mc_attempts c + 1\<rparr>)) (MFA_CHALLENGE_TTL cfg) s1"
        "t_sessions s1 = t_sessions s"
    | (right) c m secret s1 where "r = Inr (mc_sessionId c)"
        "redis_lookup (mfa_challengeKey cid) s = Some (RChallenge c)" "mc_attempts c < 3"
        "mfa_method_in s (mc_userId c) Mfa_active = Some m"
        "keys_decrypt env cfg (mm_secret_encrypted m) s = (Inr secret, s1)"
        "totp_check env (clock s) code secret"
        "s' = redis_erase (mfa_challengeKey cid) (s1\<lparr>
           t_sessions := update_where (\<lambda>r. ss_id r = mc_sessionId c) (\<lambda>r. r\<lparr>ss_mfa_passed := True\<rparr>) (t_sessions s),
           t_mfa := update_where (\<lambda>x. mm_id x = mm_id m) (\<lambda>x. x\<lparr>mm_last_used_at := Some (clock s)\<rparr>) (t_mfa s)\<rparr>)"
proof (cases "redis_lookup (mfa_challengeKey cid) s")
  case None
  with assms show ?thesis
    by (intro refused) (auto simp: mfa_verifyLoginChallenge_def Let_def bindM_run code_checked_def exn_defs)
next
  case (Some v)
  show ?thesis
  proof (cases v)
    case (RChallenge c)
    note look = Some [unfolded RChallenge]
    show ?thesis
    proof (cases "3 \<le> mc_attempts c \<or> \<not> uuid_syntax env (mc_userId c)")
      case True
      with assms look show ?thesis
        by (cases "3 \<le> mc_attempts c")
          (auto simp: mfa_verifyLoginChallenge_def Let_def bindM_run redis_del_run getActiveMethod_run
            code_checked_def exn_defs intro: refused exceeded)
    next
      case False
      show ?thesis
      proof (cases "mfa_method_in s (mc_userId c) Mfa_active")
        case None
        with assms look False show ?thesis
          by (intro wrong [of c s]) (auto simp: mfa_verifyLoginChallenge_def Let_def bindM_run
              getActiveMethod_run redis_setJson_def redis_set_run)
      next
        case (Some m)
        obtain x s1 where dec: "keys_decrypt env cfg (mm_secret_encrypted m) s = (x, s1)"
          by (cases "keys_decrypt env cfg (mm_secret_encrypted m) s")
        note frame = decrypt_frame [OF dec]
        show ?thesis
        proof (cases x)
          case (Inl e)
          with assms look False Some dec decrypt_error [of env cfg _ s e s1] frame show ?thesis
            by (intro refused) (auto simp: mfa_verifyLoginChallenge_def Let_def bindM_run
                getActiveMethod_run mfa_decryptSecret_def code_checked_def exn_defs)
        next
          case (Inr secret)
          show ?thesis
          proof (cases "secret \<noteq> [] \<and> totp_check env (clock s) code secret")
            case True
            with assms look False Some dec Inr frame show ?thesis
              by (intro right [of c m secret s1]) (simp_all add: mfa_verifyLoginChallenge_def Let_def bindM_run
                  getActiveMethod_run mfa_decryptSecret_def totp_checkM_def redis_del_run)
          next
            case False
            with assms look \<open>\<not> (3 \<le> mc_attempts c \<or> \<not> uuid_syntax env (mc_userId c))\<close> Some dec Inr frame
            show ?thesis
              by (intro wrong [of c s1]) (auto simp: mfa_verifyLoginChallenge_def Let_def bindM_run
                  getActiveMethod_run mfa_decryptSecret_def totp_checkM_def redis_setJson_def redis_set_run
                  split: if_splits)
          qed
        qed
      qed
    qed
  qed (use assms Some in \<open>auto simp: mfa_verifyLoginChallenge_def Let_def bindM_run code_checked_def exn_defs intro: refused\<close>)
qed

section \<open>The attempt bound\<close>

text \<open>How many more codes the stored challenge allows.\<close>

definition mfa_budget :: "string \<Rightarrow> world \<Rightarrow> nat" where
  "mfa_budget cid s = (case redis_lookup (mfa_challengeKey cid) s of
      Some (RChallenge c) \<Rightarrow> nat (3 - mc_attempts c)
    | _ \<Rightarrow> 0)"

lemma lookup_stored: "redis_lookup k (redis_store k v ttl s) \<in> {Some v, None}"
  by (simp add: redis_lookup_def redis_store_def redis_set_def redis_entry_put)

lemma budget_step:
  assumes "mfa_verifyLoginChallenge env cfg cid code s = (r, s')"
  shows "mfa_budget cid s' + (if code_checked r then 1 else 0) \<le> mfa_budget cid s"
    and "r = Inr sid \<Longrightarrow> mfa_budget cid s' = 0"
proof -
  have "mfa_budget cid s' + (if code_checked r then 1 else 0) \<le> mfa_budget cid s
    \<and> (r = Inr sid \<longrightarrow> mfa_budget cid s' = 0)"
    using assms
  proof (cases rule: verify_challenge_cases)
    case refused
    then show ?thesis
      by (auto simp: mfa_budget_def redis_lookup_def code_checked_def)
  next
    case exceeded
    then show ?thesis
      by (auto simp: mfa_budget_def redis.lookup_erase)
  next
    case (wrong c s1)
    then show ?thesis
      using lookup_stored [of "mfa_challengeKey cid" "RChallenge (c\<lparr>mc_attempts := mc_attempts c + 1\<rparr>)" "MFA_CHALLENGE_TTL cfg" s1]
      by (auto simp: mfa_budget_def code_checked_def)
  next
    case (right c m secret s1)
    then show ?thesis
      by (simp add: mfa_budget_def redis.lookup_erase code_checked_def)
  qed
  then show "mfa_budget cid s' + (if code_checked r then 1 else 0) \<le> mfa_budget cid s"
    and "r = Inr sid \<Longrightarrow> mfa_budget cid s' = 0"
    by blast+
qed

lemma budget_elapse: "0 \<le> d \<Longrightarrow> mfa_budget cid (elapse d s) \<le> mfa_budget cid s"
  by (auto simp: mfa_budget_def redis_lookup_def redis_entry_def entry_live_def elapse_def
      split: option.splits rvalue.splits)

text \<open>A sequence of attempts against one challenge: the time before each and the code.\<close>

fun challenge_run ::
  "externals \<Rightarrow> config \<Rightarrow> string \<Rightarrow> (int \<times> string) list \<Rightarrow> world \<Rightarrow> (exn + uuid) list" where
  "challenge_run env cfg cid [] s = []"
| "challenge_run env cfg cid ((d, code) # es) s =
     (let (r, s') = mfa_verifyLoginChallenge env cfg cid code (elapse d s)
      in r # challenge_run env cfg cid es s')"

definition accepted :: "exn + uuid \<Rightarrow> bool" where
  "accepted r \<longleftrightarrow> (case r of Inr _ \<Rightarrow> True | Inl _ \<Rightarrow> False)"

lemma accepted_simps [simp]: "accepted (Inr x)" "\<not> accepted (Inl e)"
  by (simp_all add: accepted_def)

lemma challenge_run_budget:
  assumes "\<forall>(d, code) \<in> set es. 0 \<le> d"
  shows "length (filter code_checked (challenge_run env cfg cid es s)) \<le> mfa_budget cid s"
  using assms
proof (induction es arbitrary: s)
  case (Cons e es)
  obtain d code where e: "e = (d, code)" by (cases e)
  obtain r s' where run: "mfa_verifyLoginChallenge env cfg cid code (elapse d s) = (r, s')"
    by (cases "mfa_verifyLoginChallenge env cfg cid code (elapse d s)")
  have "length (filter code_checked (challenge_run env cfg cid es s')) \<le> mfa_budget cid s'"
    using Cons by simp
  with budget_step(1) [OF run] budget_elapse [of d cid s] Cons.prems show ?case
    by (auto simp: e run split: if_splits)
qed simp

lemma challenge_run_accepts:
  assumes "\<forall>(d, code) \<in> set es. 0 \<le> d"
  shows "length (filter accepted (challenge_run env cfg cid es s)) \<le> 1"
  using assms
proof (induction es arbitrary: s)
  case (Cons e es)
  obtain d code where e: "e = (d, code)" by (cases e)
  obtain r s' where run: "mfa_verifyLoginChallenge env cfg cid code (elapse d s) = (r, s')"
    by (cases "mfa_verifyLoginChallenge env cfg cid code (elapse d s)")
  show ?case
  proof (cases r)
    case (Inl x)
    with Cons show ?thesis by (simp add: e run)
  next
    case (Inr sid)
    then have "mfa_budget cid s' = 0"
      using budget_step(2) [OF run] by simp
    then have "filter code_checked (challenge_run env cfg cid es s') = []"
      using challenge_run_budget [of es env cfg cid s'] Cons.prems by simp
    moreover have "filter accepted rs = filter accepted (filter code_checked rs)" for rs
      by (induction rs) (auto simp: accepted_def code_checked_def split: sum.splits)
    ultimately have "filter accepted (challenge_run env cfg cid es s') = []"
      by (metis filter.simps(1))
    then show ?thesis by (simp add: e run Inr)
  qed
qed simp

text \<open>
  C8: of attempts that are made one after another, at most three are checked against one login challenge. Whatever
  codes are presented in sequence, each after the answer to the one before and at whatever times, at most three of
  them find out whether their code is right, and at most one is accepted. Attempts that overlap are not bounded by
  this: \<open>Overlaps\<close> shows what happens to them.
\<close>

theorem mfa_attempt_bound:
  assumes "mfa_createLoginChallenge env cfg userId sessionId s = (Inr cid, s1)"
    and "\<forall>(d, code) \<in> set es. 0 \<le> d"
  shows "length (filter code_checked (challenge_run env cfg cid es s1)) \<le> 3
    \<and> length (filter accepted (challenge_run env cfg cid es s1)) \<le> 1"
proof -
  let ?v = "RChallenge \<lparr>mc_userId = userId, mc_sessionId = sessionId, mc_attempts = 0\<rparr>"
  have "s1 = redis_store (mfa_challengeKey cid) ?v (MFA_CHALLENGE_TTL cfg) (s\<lparr>draws := Suc (draws s)\<rparr>)"
    using assms(1) by (auto simp: mfa_createLoginChallenge_def redis_setJson_def redis_set_run)
  then have "redis_lookup (mfa_challengeKey cid) s1 \<in> {Some ?v, None}"
    using lookup_stored by simp
  then have "mfa_budget cid s1 \<le> 3"
    by (auto simp: mfa_budget_def)
  then show ?thesis
    using challenge_run_budget [OF assms(2), of env cfg cid s1] challenge_run_accepts [OF assms(2)] by simp
qed

definition sample_mfa :: mfa_row where
  "sample_mfa = \<lparr>mm_id = ''Um'', mm_user_id = ''Ua'',
     mm_secret_encrypted = \<lparr>en_v = 1, en_iv = ''i'', en_ct = ''totpsecret'', en_tag = ''t'' @ replicate 32 (CHR ''K'')\<rparr>,
     mm_status = Mfa_active, mm_is_primary = True, mm_enrolled_at = Some 0, mm_last_used_at = None\<rparr>"

definition mfa_world :: world where
  "mfa_world = sample_world\<lparr>t_mfa := [sample_mfa]\<rparr>"

theorem mfa_attempt_bound_witness:
  "\<exists>cid s. mfa_createLoginChallenge sample_env sample_cfg ''Ua'' ''Us'' mfa_world = (Inr cid, s)
    \<and> length (filter code_checked (challenge_run sample_env sample_cfg cid
        [(1, ''000000''), (1, ''111111''), (1, ''222222''), (1, ''123456'')] s)) = 3
    \<and> length (filter accepted (challenge_run sample_env sample_cfg cid
        [(1, ''000000''), (1, ''111111''), (1, ''222222''), (1, ''123456'')] s)) \<le> 1"
proof -
  let ?es = "[(1, ''000000''), (1, ''111111''), (1, ''222222''), (1, ''123456'')] :: (int \<times> string) list"
  have "case mfa_createLoginChallenge sample_env sample_cfg ''Ua'' ''Us'' mfa_world of
      (Inr cid, s) \<Rightarrow> length (filter code_checked (challenge_run sample_env sample_cfg cid ?es s)) = 3 | _ \<Rightarrow> False"
    by code_simp
  then obtain cid s where run: "mfa_createLoginChallenge sample_env sample_cfg ''Ua'' ''Us'' mfa_world = (Inr cid, s)"
    and three: "length (filter code_checked (challenge_run sample_env sample_cfg cid ?es s)) = 3"
    by (auto split: prod.splits sum.splits)
  from mfa_attempt_bound [OF run, of ?es] three run show ?thesis by auto
qed

text \<open>
  What a passed challenge proves and does. The challenge was stored and had attempts left, its
  user has an active method, and the code is right for the secret in it at this time; afterwards the
  challenge is gone, every row of its session is marked as passed and all other sessions are as before.
\<close>

theorem mfa_challenge_success:
  assumes "mfa_verifyLoginChallenge env cfg cid code s = (Inr sid, s')"
  shows "\<exists>c m secret. redis_lookup (mfa_challengeKey cid) s = Some (RChallenge c)
    \<and> mc_sessionId c = sid \<and> mc_attempts c < 3 \<and> mfa_method_in s (mc_userId c) Mfa_active = Some m
    \<and> fst (keys_decrypt env cfg (mm_secret_encrypted m) s) = Inr secret \<and> totp_check env (clock s) code secret
    \<and> redis_lookup (mfa_challengeKey cid) s' = None
    \<and> t_sessions s' = map (\<lambda>r. if ss_id r = sid then r\<lparr>ss_mfa_passed := True\<rparr> else r) (t_sessions s)"
  using assms
proof (cases rule: verify_challenge_cases)
  case (right c m secret s1)
  then show ?thesis
    by (intro exI [of _ c] exI [of _ m] exI [of _ secret]) (simp add: redis.lookup_erase update_where_def)
qed (simp_all add: code_checked_def)

definition challenged_world :: world where
  "challenged_world = mfa_world\<lparr>redis := [(mfa_challengeKey ''Ux'',
     \<lparr>re_value = RChallenge \<lparr>mc_userId = ''Ua'', mc_sessionId = ''Us'', mc_attempts = 2\<rparr>, re_expires = Some 301000\<rparr>)]\<rparr>"

theorem mfa_challenge_success_witness:
  "\<exists>s. mfa_verifyLoginChallenge sample_env sample_cfg ''Ux'' ''123456'' challenged_world = (Inr ''Us'', s)
     \<and> redis_lookup (mfa_challengeKey ''Ux'') s = None"
proof -
  have "case mfa_verifyLoginChallenge sample_env sample_cfg ''Ux'' ''123456'' challenged_world of
      (Inr sid, _) \<Rightarrow> sid = ''Us'' | _ \<Rightarrow> False"
    by code_simp
  then obtain s where run: "mfa_verifyLoginChallenge sample_env sample_cfg ''Ux'' ''123456'' challenged_world = (Inr ''Us'', s)"
    by (auto split: prod.splits sum.splits)
  from mfa_challenge_success [OF run] run show ?thesis by auto
qed

lemma encrypt_frame:
  assumes "keys_encrypt env cfg plain s = (r, s')"
  shows "t_mfa s' = t_mfa s" and "t_users s' = t_users s"
proof -
  obtain k m f d where run: "keys_masterKey env cfg (s\<lparr>draws := Suc (draws s)\<rparr>)
      = (k, (s\<lparr>draws := Suc (draws s)\<rparr>)\<lparr>master_cache := m, master_file := f, draws := d\<rparr>)"
    by (rule masterKey_run)
  have "t_mfa s' = t_mfa s \<and> t_users s' = t_users s"
    using assms by (cases k) (auto simp: keys_encrypt_def keys_dataEncryptionKey_def bindM_run run case_prod_unfold Let_def)
  then show "t_mfa s' = t_mfa s" and "t_users s' = t_users s"
    by auto
qed

text \<open>
  Starting an enrolment switches an active second factor off. No code of the old device is asked
  for: after \<open>beginEnroll\<close> returns, the user has no active method (so the next login asks for no
  second factor), although the account is still marked as one that requires it.
\<close>

theorem mfa_enroll_drops_active:
  assumes "mfa_beginEnroll env cfg userId email s = (Inr e, s')" and "uuid_syntax env userId"
  shows "mfa_hasActiveMethod env userId s' = (Inr False, s') \<and> t_users s' = t_users s"
proof -
  have upsert: "mfa_method_in (w\<lparr>t_mfa := upsert_mfa i userId enc (t_mfa w)\<rparr>) userId Mfa_active = None" for w i enc
    by (auto simp: mfa_method_in_def upsert_mfa_def find_None_set)
  obtain enc s1 i d where "keys_encrypt env cfg (totp_generateSecret env (draws s)) (s\<lparr>draws := Suc (draws s)\<rparr>) = (Inr enc, s1)"
    and s': "s' = s1\<lparr>draws := d, t_mfa := upsert_mfa i userId enc (t_mfa s1)\<rparr>"
    using assms by (auto simp: mfa_beginEnroll_def uuid_param_def Let_def)
  then have "mfa_method_in s' userId Mfa_active = None" and "t_users s' = t_users s"
    using encrypt_frame upsert [where w = "s1\<lparr>draws := d\<rparr>"] by (auto simp: s')
  then show ?thesis
    by (simp add: mfa_hasActiveMethod_def getActiveMethod_run assms(2) bindM_run)
qed

lemma uuid_syntax_sample: "uuid_syntax sample_env u \<longleftrightarrow> take 1 u = ''U''"
  by (simp add: sample_env_def)

theorem mfa_enroll_drops_active_witness:
  "fst (mfa_hasActiveMethod sample_env ''Ua'' mfa_world) = Inr True
   \<and> fst (mfa_hasActiveMethod sample_env ''Ua'' (snd (mfa_beginEnroll sample_env sample_cfg ''Ua'' ''a@x'' mfa_world))) = Inr False"
proof
  show "fst (mfa_hasActiveMethod sample_env ''Ua'' mfa_world) = Inr True"
    by code_simp
  have "case mfa_beginEnroll sample_env sample_cfg ''Ua'' ''a@x'' mfa_world of (Inr _, _) \<Rightarrow> True | _ \<Rightarrow> False"
    by code_simp
  then obtain e s where run: "mfa_beginEnroll sample_env sample_cfg ''Ua'' ''a@x'' mfa_world = (Inr e, s)"
    by (auto split: prod.splits sum.splits)
  from mfa_enroll_drops_active [OF run]
  show "fst (mfa_hasActiveMethod sample_env ''Ua'' (snd (mfa_beginEnroll sample_env sample_cfg ''Ua'' ''a@x'' mfa_world))) = Inr False"
    by (simp add: run uuid_syntax_sample)
qed

end
