(* ===== verification/Passwords.thy ===== *)
theory Passwords
  imports Samples
begin

text \<open>
  \<^verbatim>\<open>src/modules/users/password.service.ts\<close>: the password policy with its messages, hashing and
  verification. Argon2id itself is an external function.
\<close>

section \<open>Printing numbers\<close>

text \<open>\<open>String(n)\<close> for an integer.\<close>

fun decimal :: "nat \<Rightarrow> string" where
  "decimal n = (if n < 10 then [char_of (48 + n)] else decimal (n div 10) @ [char_of (48 + n mod 10)])"

declare decimal.simps [simp del]

definition js_number :: "int \<Rightarrow> string" where
  "js_number i = (if i < 0 then ''-'' @ decimal (nat (- i)) else decimal (nat i))"

section \<open>Hashing\<close>

definition hashPassword :: "externals \<Rightarrow> string \<Rightarrow> string act" where
  "hashPassword env plain = drawM (\<lambda>i. argon2_hash env i plain)"

text \<open>A hash that Argon2 cannot parse makes \<open>argon2.verify\<close> throw, which counts as a failed login.\<close>

definition verifyPassword :: "externals \<Rightarrow> string \<Rightarrow> string \<Rightarrow> bool" where
  "verifyPassword env h plain = (case argon2_verify env h plain of None \<Rightarrow> False | Some b \<Rightarrow> b)"

section \<open>The policy\<close>

definition COMMON_PASSWORDS :: "string list" where
  "COMMON_PASSWORDS =
     [''password'', ''password1'', ''password123'', ''12345678'', ''123456789'', ''1234567890'',
      ''qwerty123'', ''qwertyuiop'', ''letmein123'', ''welcome123'', ''admin123456'', ''iloveyou1'',
      ''sunshine1'', ''princess1'', ''football1'', ''abc123456'']"

text \<open>\<open>errors.password ??= ''; errors.password += msg\<close>.\<close>

definition add_error :: "bool \<Rightarrow> string \<Rightarrow> string option \<Rightarrow> string option" where
  "add_error cond msg err =
     (if cond then Some ((case err of None \<Rightarrow> [] | Some m \<Rightarrow> m) @ msg) else err)"

definition edge_ws :: "string \<Rightarrow> bool" where
  "edge_ws p \<longleftrightarrow> p \<noteq> [] \<and> (js_ws (hd p) \<or> js_ws (last p))"

definition password_error :: "config \<Rightarrow> string \<Rightarrow> string option" where
  "password_error cfg password =
     (let minLength = PASSWORD_MIN_LENGTH cfg;
          e1 = (if int (length password) < minLength
                then Some (''Must be at least '' @ js_number minLength @ '' characters'') else None);
          e2 = add_error (\<not> list_ex js_lower_letter password) '' Must contain a lowercase letter.'' e1;
          e3 = add_error (\<not> list_ex js_upper_letter password) '' Must contain an uppercase letter.'' e2;
          e4 = add_error (\<not> list_ex js_digit password) '' Must contain a digit.'' e3;
          e5 = add_error (edge_ws password) '' Must not start or end with whitespace.'' e4
      in if js_lower password \<in> set COMMON_PASSWORDS then Some ''This password is too common.'' else e5)"

definition checkPasswordPolicy :: "config \<Rightarrow> string \<Rightarrow> unit act" where
  "checkPasswordPolicy cfg password =
     (case password_error cfg password of
        None \<Rightarrow> returnM ()
      | Some msg \<Rightarrow>
          throwM (ValidationError ''Password does not meet the policy'' [(''password'', JStr msg)]))"

lemma add_error_None [simp]: "add_error cond msg err = None \<longleftrightarrow> \<not> cond \<and> err = None"
  by (simp add: add_error_def)

lemma checkPasswordPolicy_run:
  "checkPasswordPolicy cfg p s =
     (case password_error cfg p of None \<Rightarrow> (Inr (), s)
      | Some msg \<Rightarrow> (Inl (ValidationError ''Password does not meet the policy'' [(''password'', JStr msg)]), s))"
  by (simp add: checkPasswordPolicy_def split: option.splits)

lemma checkPasswordPolicy_Inr [simp]:
  "checkPasswordPolicy cfg p s = (Inr u, s') \<longleftrightarrow> password_error cfg p = None \<and> s' = s"
  by (auto simp: checkPasswordPolicy_run split: option.splits)

lemma preserves_checkPasswordPolicy [pres]: "preserves P (checkPasswordPolicy cfg p)"
  by (rule preservesI) (simp add: checkPasswordPolicy_run split: option.splits)

text \<open>
  The policy accepts a password exactly when it is long enough, has a lower-case letter, an
  upper-case letter and a digit, has no white space at its ends and is not a listed common password;
  otherwise it rejects with a 400 \<open>VALIDATION_ERROR\<close>, and it never changes the state.
\<close>

theorem password_policy_spec:
  "checkPasswordPolicy cfg p s =
     (if PASSWORD_MIN_LENGTH cfg \<le> int (length p) \<and> (\<exists>c \<in> set p. js_lower_letter c)
         \<and> (\<exists>c \<in> set p. js_upper_letter c) \<and> (\<exists>c \<in> set p. js_digit c)
         \<and> (p = [] \<or> \<not> js_ws (hd p) \<and> \<not> js_ws (last p)) \<and> js_lower p \<notin> set COMMON_PASSWORDS
      then (Inr (), s)
      else (Inl (ValidationError ''Password does not meet the policy''
              [(''password'', JStr (the (password_error cfg p)))]), s))"
proof -
  have "password_error cfg p = None \<longleftrightarrow>
      PASSWORD_MIN_LENGTH cfg \<le> int (length p) \<and> (\<exists>c \<in> set p. js_lower_letter c)
      \<and> (\<exists>c \<in> set p. js_upper_letter c) \<and> (\<exists>c \<in> set p. js_digit c)
      \<and> (p = [] \<or> \<not> js_ws (hd p) \<and> \<not> js_ws (last p)) \<and> js_lower p \<notin> set COMMON_PASSWORDS"
    by (auto simp: password_error_def Let_def list_ex_iff edge_ws_def)
  then show ?thesis
    by (cases "password_error cfg p") (auto simp: checkPasswordPolicy_run)
qed

end
