(* ===== verification/Risk.thy ===== *)
theory Risk
  imports Redis Passwords
begin

text \<open>
  \<^verbatim>\<open>src/modules/risk/rules-risk.engine.ts\<close> and
  \<^verbatim>\<open>src/modules/risk/risk-event.repository.ts\<close>: the rule-based scoring of a login and the record
  of its evaluation.
\<close>

record risk_input =
  rk_userId :: uuid
  rk_ip :: "string option"
  rk_userAgent :: "string option"
  rk_knownDevice :: bool

record risk_evaluation =
  rv_level :: risk_level
  rv_score :: int
  rv_signals :: "(string \<times> string option) list"

definition deviceFingerprint :: "externals \<Rightarrow> string \<Rightarrow> string" where
  "deviceFingerprint env userAgent = take 16 (sha256_hex env userAgent)"

text \<open>
  \<open>Number(\<dots> ?? '0')\<close> of the stored counter: a missing one is 0, a counter is its value, and any other
  text that is no digit string is not a number (which compares as false).
\<close>

definition stored_number :: "rvalue option \<Rightarrow> int option" where
  "stored_number v = (case v of
      None \<Rightarrow> Some 0
    | Some (RCount n) \<Rightarrow> Some n
    | Some (RStr t) \<Rightarrow>
        if list_all js_digit t then Some (foldl (\<lambda>a c. 10 * a + (int (of_char c) - 48)) 0 t) else None
    | _ \<Rightarrow> None)"

definition ip_prefix :: "string \<Rightarrow> string" where
  "ip_prefix ip = join_with ''.'' (take 2 (split_at (\<lambda>c. c = CHR ''.'') ip))"

definition failed_key :: "uuid \<Rightarrow> string" where
  "failed_key userId = redis_key [''risk'', ''failed'', userId]"

definition ips_key :: "uuid \<Rightarrow> string" where
  "ips_key userId = redis_key [''risk'', ''ips'', userId]"

definition geo_key :: "externals \<Rightarrow> uuid \<Rightarrow> string \<Rightarrow> string" where
  "geo_key env userId userAgent = redis_key [''risk'', ''geo'', userId, deviceFingerprint env userAgent]"

definition risk_level_of :: "int \<Rightarrow> risk_level" where
  "risk_level_of score = (if 50 \<le> score then Risk_high else if 20 \<le> score then Risk_medium else Risk_low)"

text \<open>The four rules; each yields its points and its signals.\<close>

definition rule_failed_logins :: "config \<Rightarrow> uuid \<Rightarrow> (int \<times> (string \<times> string option) list) act" where
  "rule_failed_logins cfg userId =
     bindM (redis_get (failed_key userId)) (\<lambda>v.
     returnM (case stored_number v of
        Some n \<Rightarrow> if RISK_FAILED_LOGINS_THRESHOLD cfg \<le> n
          then (30, [(''failed_logins'', Some (js_number n @ '' recent failures''))]) else (0, [])
      | None \<Rightarrow> (0, [])))"

definition rule_ip_frequency :: "uuid \<Rightarrow> string option \<Rightarrow> (int \<times> (string \<times> string option) list) act" where
  "rule_ip_frequency userId ip =
     (if truthy ip then
        bindM (redis_setAdd (ips_key userId) (the ip)) (\<lambda>_.
        bindM (redis_setExpire (ips_key userId) 3600) (\<lambda>_.
        bindM (redis_setSize (ips_key userId)) (\<lambda>ipCount.
        returnM (if 5 \<le> ipCount then (20, [(''ip_frequency'', Some (js_number ipCount @ '' distinct IPs in 1h''))])
                 else (0, [])))))
      else returnM (0, []))"

definition rule_new_device :: "bool \<Rightarrow> int \<times> (string \<times> string option) list" where
  "rule_new_device knownDevice = (if \<not> knownDevice then (15, [(''new_device'', None)]) else (0, []))"

definition rule_travel ::
  "externals \<Rightarrow> uuid \<Rightarrow> string option \<Rightarrow> string option \<Rightarrow> (int \<times> (string \<times> string option) list) act" where
  "rule_travel env userId ip userAgent =
     (if truthy ip \<and> truthy userAgent then
        (let seenKey = geo_key env userId (the userAgent); currentPrefix = ip_prefix (the ip) in
         bindM (redis_get seenKey) (\<lambda>lastPrefix.
         bindM (redis_set seenKey (RStr currentPrefix) (Some 300)) (\<lambda>_.
         returnM (case lastPrefix of
            Some (RStr p) \<Rightarrow>
              if p \<noteq> [] \<and> p \<noteq> currentPrefix
              then (25, [(''impossible_travel_placeholder'', Some (''ip-prefix '' @ p @ '' -> '' @ currentPrefix))])
              else (0, [])
          | _ \<Rightarrow> (0, [])))))
      else returnM (0, []))"

definition evaluateLogin :: "externals \<Rightarrow> config \<Rightarrow> risk_input \<Rightarrow> risk_evaluation act" where
  "evaluateLogin env cfg inp =
     bindM (rule_failed_logins cfg (rk_userId inp)) (\<lambda>(p1, s1).
     bindM (rule_ip_frequency (rk_userId inp) (rk_ip inp)) (\<lambda>(p2, s2).
     let (p3, s3) = rule_new_device (rk_knownDevice inp) in
     bindM (rule_travel env (rk_userId inp) (rk_ip inp) (rk_userAgent inp)) (\<lambda>(p4, s4).
     let score = p1 + p2 + p3 + p4 in
     returnM \<lparr>rv_level = risk_level_of score, rv_score = score, rv_signals = s1 @ s2 @ s3 @ s4\<rparr>)))"

definition action_name :: "high_action \<Rightarrow> string" where
  "action_name a = (case a of Action_deny \<Rightarrow> ''deny'' | Action_mfa \<Rightarrow> ''mfa'' | Action_allow \<Rightarrow> ''allow'')"

definition riskEvents_record :: "uuid \<Rightarrow> string \<Rightarrow> risk_evaluation \<Rightarrow> high_action \<Rightarrow> request_context \<Rightarrow> unit act" where
  "riskEvents_record userId eventType evaluation actionTaken ctx = modifyM (\<lambda>s.
     s\<lparr>t_risk := t_risk s @
       [\<lparr>ri_user_id = Some userId, ri_session_id = None, ri_event_type = eventType,
         ri_level = rv_level evaluation, ri_score = rv_score evaluation, ri_signals = rv_signals evaluation,
         ri_action_taken = action_name actionTaken, ri_ip = rc_ip ctx, ri_user_agent = rc_userAgent ctx,
         ri_request_id = Some (rc_requestId ctx), ri_created_at = clock s\<rparr>]\<rparr>)"

section \<open>What an evaluation leaves alone\<close>

lemma redis_op_frame:
  "\<exists>db. snd (redis_setAdd k m s) = s\<lparr>redis := db\<rparr>"
  "\<exists>db. snd (redis_setExpire k t s) = s\<lparr>redis := db\<rparr>"
  "\<exists>db. snd (redis_setSize k s) = s\<lparr>redis := db\<rparr>"
  "\<exists>db. snd (redis_set k v ttl s) = s\<lparr>redis := db\<rparr>"
  by (cases s, auto simp: redis_setAdd_def redis_setExpire_def redis_expire_def redis_setSize_def redis_set_def
      split: option.splits rvalue.splits)+

definition only_redis :: "'a act \<Rightarrow> bool" where
  "only_redis m \<longleftrightarrow> (\<forall>s. \<exists>db. snd (m s) = s\<lparr>redis := db\<rparr>)"

lemma only_redis_bind: "only_redis m \<Longrightarrow> (\<And>x. only_redis (f x)) \<Longrightarrow> only_redis (bindM m f)"
  unfolding only_redis_def
proof
  fix s assume m: "\<forall>s. \<exists>db. snd (m s) = s\<lparr>redis := db\<rparr>" and f: "\<And>x. \<forall>s. \<exists>db. snd (f x s) = s\<lparr>redis := db\<rparr>"
  obtain r s1 where run: "m s = (r, s1)" by (cases "m s")
  then obtain db where s1: "s1 = s\<lparr>redis := db\<rparr>" using m [rule_format, of s] by auto
  show "\<exists>db. snd (bindM m f s) = s\<lparr>redis := db\<rparr>"
  proof (cases r)
    case (Inl e)
    then show ?thesis by (auto simp: bindM_run run s1)
  next
    case (Inr x)
    then show ?thesis using f [of x, rule_format, of s1] by (auto simp: bindM_run run s1)
  qed
qed

lemma same_redis: "\<exists>db. s = s\<lparr>redis := db\<rparr>" for s :: world
  by (rule exI [of _ "redis s"]) (cases s, simp)

lemma only_redis_basic:
  "only_redis (returnM x)" "only_redis (redis_get k)" "only_redis (redis_set k v ttl)"
  "only_redis (redis_setAdd k m)" "only_redis (redis_setExpire k t)" "only_redis (redis_setSize k)"
  using redis_op_frame same_redis by (auto simp: only_redis_def)

lemma evaluateLogin_frame:
  assumes "evaluateLogin env cfg inp s = (r, s')"
  obtains db where "s' = s\<lparr>redis := db\<rparr>"
proof -
  have "only_redis (evaluateLogin env cfg inp)"
    unfolding evaluateLogin_def rule_failed_logins_def rule_ip_frequency_def rule_travel_def Let_def case_prod_unfold
    by (intro only_redis_bind only_redis_basic) (auto intro!: only_redis_bind only_redis_basic)
  with that assms show ?thesis
    unfolding only_redis_def by (metis snd_conv)
qed

section \<open>The score\<close>

lemma rule_points:
  "rule_failed_logins cfg u s = (Inr (p, sg), s') \<Longrightarrow> p \<in> {0, 30}"
  "rule_ip_frequency u ip s = (Inr (p, sg), s') \<Longrightarrow> p \<in> {0, 20}"
  "rule_new_device b = (p, sg) \<Longrightarrow> p \<in> {0, 15}"
  "rule_travel env u ip ua s = (Inr (p, sg), s') \<Longrightarrow> p \<in> {0, 25}"
  by (auto simp: rule_failed_logins_def rule_ip_frequency_def rule_new_device_def rule_travel_def Let_def
      split: if_splits option.splits rvalue.splits)


lemma evaluateLogin_run:
  assumes "evaluateLogin env cfg inp s = (Inr ev, s')"
  obtains p1 g1 p2 g2 p3 g3 p4 g4 s1 s2 s3 where
    "rule_failed_logins cfg (rk_userId inp) s = (Inr (p1, g1), s1)"
    "rule_ip_frequency (rk_userId inp) (rk_ip inp) s1 = (Inr (p2, g2), s2)"
    "rule_new_device (rk_knownDevice inp) = (p3, g3)"
    "rule_travel env (rk_userId inp) (rk_ip inp) (rk_userAgent inp) s2 = (Inr (p4, g4), s3)"
    "ev = \<lparr>rv_level = risk_level_of (p1 + p2 + p3 + p4), rv_score = p1 + p2 + p3 + p4,
           rv_signals = g1 @ g2 @ g3 @ g4\<rparr>"
  using assms by (cases "rule_new_device (rk_knownDevice inp)") (auto simp: evaluateLogin_def Let_def case_prod_unfold)

text \<open>
  Without the failure counter a login is high risk only when every other rule fires. If the
  user has no stored failure counter, the score is between 0 and 60, and a high level means that
  the address frequency, the new device and the change of address prefix are all reported.
\<close>

theorem risk_high_needs_all:
  assumes "evaluateLogin env cfg inp s = (Inr ev, s')" and "redis_lookup (failed_key (rk_userId inp)) s = None"
    and "0 < RISK_FAILED_LOGINS_THRESHOLD cfg"
  shows "0 \<le> rv_score ev \<and> rv_score ev \<le> 60 \<and> rv_level ev = risk_level_of (rv_score ev)
    \<and> (rv_level ev = Risk_high \<longrightarrow>
        map fst (rv_signals ev) = [''ip_frequency'', ''new_device'', ''impossible_travel_placeholder''])"
proof -
  obtain p1 g1 p2 g2 p3 g3 p4 g4 s1 s2 s3 where
    r1: "rule_failed_logins cfg (rk_userId inp) s = (Inr (p1, g1), s1)" and
    r2: "rule_ip_frequency (rk_userId inp) (rk_ip inp) s1 = (Inr (p2, g2), s2)" and
    r3: "rule_new_device (rk_knownDevice inp) = (p3, g3)" and
    r4: "rule_travel env (rk_userId inp) (rk_ip inp) (rk_userAgent inp) s2 = (Inr (p4, g4), s3)" and
    ev: "ev = \<lparr>rv_level = risk_level_of (p1 + p2 + p3 + p4), rv_score = p1 + p2 + p3 + p4,
           rv_signals = g1 @ g2 @ g3 @ g4\<rparr>"
    by (rule evaluateLogin_run [OF assms(1)])
  have one: "p1 = 0" "g1 = []"
    using r1 assms(2,3) by (auto simp: rule_failed_logins_def stored_number_def bindM_run)
  have "p2 = 0 \<or> p2 = 20 \<and> map fst g2 = [''ip_frequency'']"
    using r2 by (auto simp: rule_ip_frequency_def split: if_splits)
  moreover have "p3 = 0 \<or> p3 = 15 \<and> map fst g3 = [''new_device'']"
    using r3 by (auto simp: rule_new_device_def split: if_splits)
  moreover have "p4 = 0 \<or> p4 = 25 \<and> map fst g4 = [''impossible_travel_placeholder'']"
    using r4 by (auto simp: rule_travel_def Let_def split: if_splits option.splits rvalue.splits)
  ultimately show ?thesis
    by (auto simp: ev one risk_level_of_def)
qed

definition risky_world :: world where
  "risky_world = sample_world\<lparr>redis :=
     [(ips_key ''Ua'', \<lparr>re_value = RSet [''1.1.1.1'', ''1.1.1.2'', ''1.1.1.3'', ''1.1.1.4''], re_expires = None\<rparr>),
      (geo_key sample_env ''Ua'' ''UA'', \<lparr>re_value = RStr ''1.1'', re_expires = Some 200000\<rparr>)]\<rparr>"

definition risky_input :: risk_input where
  "risky_input = \<lparr>rk_userId = ''Ua'', rk_ip = Some ''10.0.0.1'', rk_userAgent = Some ''UA'', rk_knownDevice = False\<rparr>"

theorem risk_high_needs_all_witness:
  "\<exists>ev s. evaluateLogin sample_env sample_cfg risky_input risky_world = (Inr ev, s) \<and> rv_level ev = Risk_high
     \<and> map fst (rv_signals ev) = [''ip_frequency'', ''new_device'', ''impossible_travel_placeholder'']"
proof -
  have "case evaluateLogin sample_env sample_cfg risky_input risky_world of
      (Inr ev, _) \<Rightarrow> rv_level ev = Risk_high | _ \<Rightarrow> False"
    by code_simp
  then obtain ev s where run: "evaluateLogin sample_env sample_cfg risky_input risky_world = (Inr ev, s)"
    and high: "rv_level ev = Risk_high"
    by (auto split: prod.splits sum.splits)
  have "redis_lookup (failed_key (rk_userId risky_input)) risky_world = None"
    and "0 < RISK_FAILED_LOGINS_THRESHOLD sample_cfg"
    by code_simp+
  from risk_high_needs_all [OF run this] run high show ?thesis by auto
qed

end
