(* ===== verification/Frames.thy ===== *)
theory Frames
  imports Access_Tokens Mfa Risk Session_Store
begin

text \<open>
  What the auxiliary operations (Redis, audit log, key service, token signing, risk rules) leave
  alone: the core tables and the clock. The rules in \<open>pres\<close> let the proofs about the services skip
  over these operations.
\<close>

definition core :: "world \<Rightarrow> user_row list \<times> session_row list \<times> refresh_row list \<times> mfa_row list
    \<times> client_row list \<times> code_row list \<times> password_reset_row list \<times> (uuid \<times> uuid) list \<times> role_row list \<times> timestamp" where
  "core s = (t_users s, t_sessions s, t_refresh s, t_mfa s, t_clients s, t_codes s, t_password_resets s,
             t_user_roles s, t_roles s, clock s)"

definition keeps_core :: "'a act \<Rightarrow> bool" where
  "keeps_core m \<longleftrightarrow> (\<forall>T. preserves (\<lambda>s. core s = T) m)"

lemma keeps_coreD: "keeps_core m \<Longrightarrow> m s = (r, s') \<Longrightarrow> core s' = core s"
proof -
  assume "keeps_core m" and run: "m s = (r, s')"
  then have "preserves (\<lambda>x. core x = core s) m"
    unfolding keeps_core_def by blast
  from preservesD [OF this run] show ?thesis by blast
qed

lemma coreD:
  assumes "core s' = core s"
  shows "t_users s' = t_users s" and "t_sessions s' = t_sessions s" and "t_refresh s' = t_refresh s"
    and "t_mfa s' = t_mfa s" and "t_clients s' = t_clients s" and "t_codes s' = t_codes s"
    and "t_password_resets s' = t_password_resets s" and "t_user_roles s' = t_user_roles s"
    and "t_roles s' = t_roles s" and "clock s' = clock s"
  using assms by (simp_all add: core_def)

lemma keeps_coreI: "(\<And>s. core (snd (m s)) = core s) \<Longrightarrow> keeps_core m"
  by (simp add: keeps_core_def preserves_def)

lemma keeps_core_bind [pres]: "keeps_core m \<Longrightarrow> (\<And>x. keeps_core (f x)) \<Longrightarrow> keeps_core (bindM m f)"
  unfolding keeps_core_def by (blast intro: preserves_bind)

lemma keeps_core_catch [pres]: "keeps_core m \<Longrightarrow> (\<And>e. keeps_core (h e)) \<Longrightarrow> keeps_core (catchM m h)"
  unfolding keeps_core_def by (blast intro: preserves_catch)

lemma keeps_core_basic [pres]:
  "keeps_core (returnM x)" "keeps_core (throwM e)" "keeps_core (getM f)" "keeps_core nowM" "keeps_core (liftE r)"
  by (simp_all add: keeps_core_def pres)

lemma keeps_core_when [pres]: "keeps_core m \<Longrightarrow> keeps_core (whenM b m)"
  by (simp add: keeps_core_def preserves_when)

lemma keeps_core_if [pres]: "keeps_core m \<Longrightarrow> keeps_core m' \<Longrightarrow> keeps_core (if b then m else m')"
  by simp

lemma keeps_core_option [pres]:
  "keeps_core m \<Longrightarrow> (\<And>x. keeps_core (f x)) \<Longrightarrow> keeps_core (case opt of None \<Rightarrow> m | Some x \<Rightarrow> f x)"
  by (cases opt) auto

lemma keeps_core_prod [pres]: "(\<And>x y. keeps_core (f x y)) \<Longrightarrow> keeps_core (case p of (x, y) \<Rightarrow> f x y)"
  by (cases p) auto

lemma keeps_core_list [pres]:
  "keeps_core m \<Longrightarrow> (\<And>x xs. keeps_core (f x xs)) \<Longrightarrow> keeps_core (case ys of [] \<Rightarrow> m | x # xs \<Rightarrow> f x xs)"
  by (cases ys) auto

lemma keeps_core_sum [pres]:
  "(\<And>x. keeps_core (f x)) \<Longrightarrow> (\<And>y. keeps_core (g y)) \<Longrightarrow> keeps_core (case r of Inl x \<Rightarrow> f x | Inr y \<Rightarrow> g y)"
  by (cases r) auto

lemma keeps_core_let [pres]: "(\<And>x. keeps_core (f x)) \<Longrightarrow> keeps_core (Let v f)"
  by simp

lemma keeps_core_modify: "(\<And>s. core (f s) = core s) \<Longrightarrow> keeps_core (modifyM f)"
  by (simp add: keeps_core_def preserves_def)

section \<open>The auxiliary operations\<close>

lemma keeps_core_draw [pres]: "keeps_core (drawM f)"
  by (rule keeps_coreI) (simp add: core_def)

lemma keeps_core_redis [pres]:
  "keeps_core (redis_get k)" "keeps_core (redis_getJson k)" "keeps_core (redis_set k v t)"
  "keeps_core (redis_setJson k v t)" "keeps_core (redis_del k)" "keeps_core (redis_delByPrefix p)"
  "keeps_core (redis_setAdd k m)" "keeps_core (redis_setSize k)" "keeps_core (redis_setExpire k t')"
  by (rule keeps_coreI, auto simp: core_def redis_op_defs split: option.splits rvalue.splits)+

lemma keeps_core_audit [pres]: "keeps_core (audit_record env e)"
  by (rule keeps_coreI) (simp add: core_def)

lemma keeps_core_riskEvents [pres]: "keeps_core (riskEvents_record u t ev a ctx)"
  by (rule keeps_coreI) (simp add: core_def riskEvents_record_def)

lemma keeps_core_evaluate [pres]: "keeps_core (evaluateLogin env cfg inp)"
proof (rule keeps_coreI)
  fix s
  obtain r s' where run: "evaluateLogin env cfg inp s = (r, s')"
    by (cases "evaluateLogin env cfg inp s")
  then obtain db where "s' = s\<lparr>redis := db\<rparr>"
    by (rule evaluateLogin_frame)
  with run show "core (snd (evaluateLogin env cfg inp s)) = core s"
    by (simp add: core_def)
qed

lemma keeps_core_masterKey [pres]: "keeps_core (keys_masterKey env cfg)"
proof (rule keeps_coreI)
  fix s
  obtain r m f d where "keys_masterKey env cfg s = (r, s\<lparr>master_cache := m, master_file := f, draws := d\<rparr>)"
    by (rule masterKey_run)
  then show "core (snd (keys_masterKey env cfg s)) = core s"
    by (simp add: core_def)
qed

lemma keeps_core_keys [pres]:
  "keeps_core (keys_encrypt env cfg x)" "keeps_core (keys_decrypt env cfg y)"
  "keeps_core (keys_wrapPrivateKey env cfg x)" "keeps_core (keys_unwrapPrivateKey env cfg x)"
  "keeps_core (keys_keyFilePath x)" "keeps_core keys_listSigningKeyFiles"
  unfolding keys_encrypt_def keys_decrypt_def keys_dataEncryptionKey_def keys_wrapPrivateKey_def
    keys_unwrapPrivateKey_def keys_keyFilePath_def keys_listSigningKeyFiles_def Let_def
  by (intro pres)+

lemma keeps_core_rotate [pres]: "keeps_core (keys_rotateSigningKey env cfg)"
  unfolding keys_rotateSigningKey_def Let_def
  by (intro pres keeps_core_modify) (simp_all add: core_def)

lemma keeps_core_current [pres]: "keeps_core (keys_getCurrentSigningKey env cfg)"
proof -
  have "keeps_core (keys_currentSigningKey_fuel env cfg n)" for n
  proof (induction n)
    case (Suc n)
    then show ?case by (simp, intro pres) simp_all
  next
    case 0
    show ?case by (simp only: keys_currentSigningKey_fuel.simps) (rule pres)
  qed
  then show ?thesis by (simp add: keys_getCurrentSigningKey_def)
qed

lemma keeps_core_sign [pres]:
  "keeps_core (signAccessToken env cfg inp ttl)" "keeps_core (signIdToken env cfg cs a sub t)"
  unfolding signAccessToken_def signIdToken_def Let_def by (intro pres)+

lemma keeps_core_challenge [pres]: "keeps_core (mfa_createLoginChallenge env cfg u sid)"
  unfolding mfa_createLoginChallenge_def by (intro pres)

lemma keeps_core_hasMfa [pres]: "keeps_core (mfa_hasActiveMethod env u)"
  unfolding mfa_hasActiveMethod_def mfa_getActiveMethod_def uuid_param_def by (intro pres)

section \<open>Random numbers\<close>

text \<open>The worlds that differ at most in the random numbers drawn.\<close>

definition drawn :: "world \<Rightarrow> world \<Rightarrow> bool" where
  "drawn s s' \<longleftrightarrow> (\<exists>n. s' = s\<lparr>draws := n\<rparr>)"

lemma drawnI [simp]: "drawn s (s\<lparr>draws := n\<rparr>)"
  by (auto simp: drawn_def)

lemma drawn_refl [simp]: "drawn s s"
  using drawnI [of s "draws s"] by simp

lemma drawn_trans: "drawn s s' \<Longrightarrow> drawn s' s'' \<Longrightarrow> drawn s s''"
  by (auto simp: drawn_def)

lemma drawn_simps [simp]: "drawn s s1 \<Longrightarrow> t_documents s1 = t_documents s" "drawn s s1 \<Longrightarrow> clock s1 = clock s"
  by (auto simp: drawn_def)

end
