(* ===== verification/Clients.thy ===== *)
theory Clients
  imports Frames
begin

text \<open>
  OAuth clients: \<^verbatim>\<open>src/modules/clients/client.repository.ts\<close> (with the PKCE helpers) and the
  administration routes of \<^verbatim>\<open>src/modules/clients/clients.routes.ts\<close>. Request bodies are modelled
  after their schema validation, as records of the validated types.
\<close>

section \<open>ClientRepository\<close>

record client_params =
  cp_name :: string
  cp_clientType :: client_type
  cp_redirectUris :: "string list"
  cp_allowedScopes :: "string list"
  cp_grantTypes :: "string list"
  cp_requirePkce :: bool
  cp_tokenEndpointAuthMethod :: auth_method

definition clients_newClientId :: "externals \<Rightarrow> string act" where
  "clients_newClientId env = bindM (drawM (rand_hex env 8)) (\<lambda>x. returnM (''cli_'' @ x))"

definition clients_newClientSecret :: "externals \<Rightarrow> string act" where
  "clients_newClientSecret env = bindM (drawM (rand_b64url env 32)) (\<lambda>x. returnM (''cst_'' @ x))"

definition clients_findByClientId :: "string \<Rightarrow> client_row option act" where
  "clients_findByClientId clientId = getM (\<lambda>s. List.find (\<lambda>c. cl_client_id c = clientId) (t_clients s))"

definition clients_create :: "externals \<Rightarrow> client_params \<Rightarrow> (client_row \<times> string option) act" where
  "clients_create env params =
     bindM (clients_newClientId env) (\<lambda>clientId.
     bindM (if cp_clientType params = Confidential
            then bindM (clients_newClientSecret env) (\<lambda>x. returnM (Some x)) else returnM None) (\<lambda>secret.
     bindM (case secret of
              Some x \<Rightarrow> bindM (drawM (\<lambda>i. argon2_hash env i x)) (\<lambda>h. returnM (Some h))
            | None \<Rightarrow> returnM None) (\<lambda>secretHash.
     bindM nowM (\<lambda>now.
     bindM (drawM (rand_uuid env)) (\<lambda>new_id.
     bindM (insertM t_clients (\<lambda>t s. s\<lparr>t_clients := t\<rparr>) (\<lambda>c. cl_id c = new_id \<or> cl_client_id c = clientId)
       \<lparr>cl_id = new_id, cl_client_id = clientId, cl_client_secret_hash = secretHash, cl_name = cp_name params,
        cl_client_type = cp_clientType params, cl_redirect_uris = cp_redirectUris params,
        cl_allowed_scopes = cp_allowedScopes params, cl_grant_types = cp_grantTypes params,
        cl_token_endpoint_auth_method = cp_tokenEndpointAuthMethod params,
        cl_require_pkce = cp_requirePkce params, cl_status = Client_active, cl_created_at = now\<rparr>
       ''oauth_clients_unique'') (\<lambda>row.
     returnM (row, secret)))))))"

definition clients_rotateSecret :: "externals \<Rightarrow> uuid \<Rightarrow> string act" where
  "clients_rotateSecret env uid =
     bindM (clients_newClientSecret env) (\<lambda>secret.
     bindM (drawM (\<lambda>i. argon2_hash env i secret)) (\<lambda>h.
     bindM (modifyM (\<lambda>s. s\<lparr>t_clients := update_where (\<lambda>c. cl_id c = uid)
              (\<lambda>c. c\<lparr>cl_client_secret_hash := Some h\<rparr>) (t_clients s)\<rparr>)) (\<lambda>_.
     returnM secret)))"

text \<open>A stored hash that is malformed makes the hashing library throw.\<close>

definition clients_verifySecret :: "externals \<Rightarrow> client_row \<Rightarrow> string \<Rightarrow> bool act" where
  "clients_verifySecret env row presentedSecret =
     (if \<not> truthy (cl_client_secret_hash row) then returnM False
      else (case argon2_verify env (the (cl_client_secret_hash row)) presentedSecret of
              Some b \<Rightarrow> returnM b
            | None \<Rightarrow> throwM (JsError ''argon2'')))"

definition clients_setStatus :: "uuid \<Rightarrow> client_status \<Rightarrow> unit act" where
  "clients_setStatus uid status = modifyM (\<lambda>s.
     s\<lparr>t_clients := update_where (\<lambda>c. cl_id c = uid) (\<lambda>c. c\<lparr>cl_status := status\<rparr>) (t_clients s)\<rparr>)"

definition clients_list :: "client_row list act" where
  "clients_list = getM (\<lambda>s. rev (sort_key cl_created_at (t_clients s)))"

section \<open>PKCE\<close>

definition pkce_challengeFromVerifier :: "externals \<Rightarrow> string \<Rightarrow> string" where
  "pkce_challengeFromVerifier env verifier = sha256_b64url env verifier"

definition pkce_matches :: "externals \<Rightarrow> string \<Rightarrow> string \<Rightarrow> string option \<Rightarrow> bool" where
  "pkce_matches env verifier storedChallenge meth =
     (if meth = Some ''S256'' then pkce_challengeFromVerifier env verifier = storedChallenge
      else if meth = Some ''plain'' then verifier = storedChallenge
      else False)"

section \<open>Administration routes\<close>

record route_ctx =
  rq_requestId :: string
  rq_ip :: "string option"

definition ok_json :: "int \<Rightarrow> (string \<times> jval) list \<Rightarrow> http_response act" where
  "ok_json code fs = returnM \<lparr>hr_status = code, hr_body = JObj fs\<rparr>"

text \<open>\<open>authenticate\<close> and then \<open>requirePermission\<close> in front of a handler.\<close>

definition guarded ::
  "externals \<Rightarrow> config \<Rightarrow> string option \<Rightarrow> string list \<Rightarrow> (auth_user \<Rightarrow> http_response act) \<Rightarrow> http_response act" where
  "guarded env cfg header permissions h =
     bindM (authenticate env cfg header) (\<lambda>user.
     bindM (liftE (requirePermission permissions (Some user))) (\<lambda>_.
     h user))"

definition admin_event :: "string \<Rightarrow> auth_user \<Rightarrow> route_ctx \<Rightarrow> (string \<times> jval) list \<Rightarrow> audit_event" where
  "admin_event ty user rq meta =
     \<lparr>ae_event_type = ty, ae_user_id = Some (au_sub user), ae_client_id = None, ae_ip = None,
      ae_user_agent = None, ae_request_id = Some (rq_requestId rq), ae_metadata = meta\<rparr>"

definition client_type_name :: "client_type \<Rightarrow> string" where
  "client_type_name t = (case t of Confidential \<Rightarrow> ''confidential'' | Public \<Rightarrow> ''public'')"

definition auth_method_name :: "auth_method \<Rightarrow> string" where
  "auth_method_name m = (case m of Client_secret_basic \<Rightarrow> ''client_secret_basic''
     | Client_secret_post \<Rightarrow> ''client_secret_post'' | Auth_none \<Rightarrow> ''none'')"

definition client_status_name :: "client_status \<Rightarrow> string" where
  "client_status_name t = (case t of Client_active \<Rightarrow> ''active'' | Client_disabled \<Rightarrow> ''disabled'')"

definition client_public_fields :: "client_row \<Rightarrow> (string \<times> jval) list" where
  "client_public_fields c =
     [(''id'', JStr (cl_id c)), (''client_id'', JStr (cl_client_id c)), (''name'', JStr (cl_name c)),
      (''client_type'', JStr (client_type_name (cl_client_type c))),
      (''redirect_uris'', JArr (map JStr (cl_redirect_uris c))),
      (''allowed_scopes'', JArr (map JStr (cl_allowed_scopes c))),
      (''grant_types'', JArr (map JStr (cl_grant_types c))),
      (''token_endpoint_auth_method'', JStr (auth_method_name (cl_token_endpoint_auth_method c))),
      (''require_pkce'', JBool (cl_require_pkce c)),
      (''status'', JStr (client_status_name (cl_status c)))]"

text \<open>\<open>RETURNING *\<close>: the whole row, hash included.\<close>

definition client_row_fields :: "client_row \<Rightarrow> (string \<times> jval) list" where
  "client_row_fields c = client_public_fields c @
     [(''client_secret_hash'', jopt (cl_client_secret_hash c)), (''created_at'', JNum (cl_created_at c))]"

definition clients_list_route :: "externals \<Rightarrow> config \<Rightarrow> string option \<Rightarrow> http_response act" where
  "clients_list_route env cfg header = guarded env cfg header [''clients:read''] (\<lambda>_.
     bindM clients_list (\<lambda>cs.
     ok_json 200 [(''clients'', JArr (map (\<lambda>c. JObj (client_public_fields c)) cs))]))"

record client_body =
  cb_name :: string
  cb_client_type :: client_type
  cb_redirect_uris :: "string list"
  cb_allowed_scopes :: "string list"
  cb_grant_types :: "string list"
  cb_token_endpoint_auth_method :: auth_method

definition clients_create_route ::
  "externals \<Rightarrow> config \<Rightarrow> string option \<Rightarrow> client_body \<Rightarrow> route_ctx \<Rightarrow> http_response act" where
  "clients_create_route env cfg header body rq = guarded env cfg header [''clients:write''] (\<lambda>user.
     let meth = (if cb_client_type body = Public then Auth_none else cb_token_endpoint_auth_method body) in
     if cb_client_type body = Confidential
        \<and> list_ex (\<lambda>g. g = ''client_credentials'' \<and> \<not> list_all (starts_with ''api.'') (cb_allowed_scopes body)) (cb_grant_types body)
     then ok_json 400 [(''error'', JStr ''VALIDATION_ERROR''),
            (''message'', JStr ''client_credentials clients may only request api.* scopes'')]
     else
       bindM (clients_create env \<lparr>cp_name = cb_name body, cp_clientType = cb_client_type body,
                cp_redirectUris = cb_redirect_uris body, cp_allowedScopes = cb_allowed_scopes body,
                cp_grantTypes = cb_grant_types body, cp_requirePkce = True, cp_tokenEndpointAuthMethod = meth\<rparr>) (\<lambda>(row, secret).
       bindM (audit_record env (admin_event ''CLIENT_CREATED'' user rq
                [(''client_id'', JStr (cl_client_id row)), (''client_type'', JStr (client_type_name (cb_client_type body)))])) (\<lambda>_.
       ok_json 201 ((''client'', JObj (client_row_fields row))
         # (case secret of None \<Rightarrow> [] | Some x \<Rightarrow> [(''client_secret'', JStr x)])))))"

definition clients_rotate_route ::
  "externals \<Rightarrow> config \<Rightarrow> string option \<Rightarrow> uuid \<Rightarrow> route_ctx \<Rightarrow> http_response act" where
  "clients_rotate_route env cfg header uid rq = guarded env cfg header [''clients:write''] (\<lambda>user.
     bindM (clients_rotateSecret env uid) (\<lambda>secret.
     bindM (audit_record env (admin_event ''CLIENT_SECRET_ROTATED'' user rq [(''target_client_db_id'', JStr uid)])) (\<lambda>_.
     ok_json 201 [(''client_secret'', JStr secret)])))"

definition clients_status_route ::
  "externals \<Rightarrow> config \<Rightarrow> string option \<Rightarrow> uuid \<Rightarrow> string option \<Rightarrow> route_ctx \<Rightarrow> http_response act" where
  "clients_status_route env cfg header uid status rq = guarded env cfg header [''clients:write''] (\<lambda>user.
     if status \<noteq> Some ''active'' \<and> status \<noteq> Some ''disabled''
     then ok_json 400 [(''error'', JStr ''VALIDATION_ERROR''), (''message'', JStr ''status must be active|disabled'')]
     else
       bindM (clients_setStatus uid (if status = Some ''disabled'' then Client_disabled else Client_active)) (\<lambda>_.
       bindM (audit_record env (admin_event (if status = Some ''disabled'' then ''CLIENT_DISABLED'' else ''CLIENT_UPDATED'')
                user rq [(''target_client_db_id'', JStr uid), (''status'', jopt status)])) (\<lambda>_.
       ok_json 200 [(''status'', jopt status)])))"

section \<open>What the guard ensures\<close>

lemma authenticate_state: "authenticate env cfg header s = (r, s') \<Longrightarrow> s' = s"
  by (cases "bearer header")
    (auto simp: authenticate_def bindM_run dest: verify_body split: prod.splits sum.splits)

lemma guarded_run:
  assumes "guarded env cfg header permissions h s = (r, s')"
  obtains (refused) e where "r = Inl e" and "s' = s"
    | (passed) user where "authenticate env cfg header s = (Inr user, s)"
        and "requirePermission permissions (Some user) = Inr ()" and "h user s = (r, s')"
proof (cases "authenticate env cfg header s")
  case (Pair a s1)
  note st = authenticate_state [OF Pair]
  show ?thesis
  proof (cases a)
    case (Inl e)
    with assms Pair st show ?thesis by (intro refused) (auto simp: guarded_def bindM_run)
  next
    case (Inr user)
    show ?thesis
    proof (cases "requirePermission permissions (Some user)")
      case (Inl e)
      with assms Pair st Inr show ?thesis by (intro refused) (auto simp: guarded_def bindM_run)
    next
      case Inr': (Inr u)
      with assms Pair st Inr show ?thesis by (intro passed [of user]) (auto simp: guarded_def bindM_run)
    qed
  qed
qed

end
