(* ===== verification/Single_Use.thy ===== *)
theory Single_Use
  imports Samples
begin

text \<open>
  The contract shared by everything that may be consumed once: verification and reset tokens,
  authorization codes, refresh tokens. A provider consumes a key in a state and either yields a
  record or not; \<open>spent\<close> says that a key has been consumed. The locale proves once that in any
  sequence of consumptions, interleaved with other steps of the system that leave spent keys spent,
  each key yields at most once.
\<close>

datatype ('k, 's) use_event = Consume 'k | Other "'s \<Rightarrow> 's"

text \<open>The keys that yielded a record, in order, and the final state.\<close>

fun use_run ::
  "('k \<Rightarrow> 's \<Rightarrow> 'r option \<times> 's) \<Rightarrow> ('k, 's) use_event list \<Rightarrow> 's \<Rightarrow> 'k list \<times> 's" where
  "use_run consume [] s = ([], s)"
| "use_run consume (Consume k # es) s =
     (let (r, s1) = consume k s; (ks, s2) = use_run consume es s1
      in (if r = None then ks else k # ks, s2))"
| "use_run consume (Other f # es) s = use_run consume es (f s)"

text \<open>A step of the rest of the system that keeps the provider's invariant and its spent keys.\<close>

definition quiet :: "('s \<Rightarrow> bool) \<Rightarrow> ('k \<Rightarrow> 's \<Rightarrow> bool) \<Rightarrow> ('s \<Rightarrow> 's) \<Rightarrow> bool" where
  "quiet ok spent f \<longleftrightarrow> (\<forall>s. ok s \<longrightarrow> ok (f s) \<and> (\<forall>k. spent k s \<longrightarrow> spent k (f s)))"

fun quiet_event :: "('s \<Rightarrow> bool) \<Rightarrow> ('k \<Rightarrow> 's \<Rightarrow> bool) \<Rightarrow> ('k, 's) use_event \<Rightarrow> bool" where
  "quiet_event ok spent (Consume k) = True"
| "quiet_event ok spent (Other f) = quiet ok spent f"

lemma quietD: "quiet ok spent f \<Longrightarrow> ok s \<Longrightarrow> ok (f s)"
  "quiet ok spent f \<Longrightarrow> ok s \<Longrightarrow> spent k s \<Longrightarrow> spent k (f s)"
  by (auto simp: quiet_def)

locale single_use =
  fixes consume :: "'k \<Rightarrow> 's \<Rightarrow> 'r option \<times> 's"
    and spent :: "'k \<Rightarrow> 's \<Rightarrow> bool"
    and ok :: "'s \<Rightarrow> bool"
  assumes consume_ok: "ok s \<Longrightarrow> ok (snd (consume k s))"
    and consume_spends: "ok s \<Longrightarrow> consume k s = (Some r, s') \<Longrightarrow> spent k s'"
    and spent_refused: "ok s \<Longrightarrow> spent k s \<Longrightarrow> fst (consume k s) = None"
    and spent_stays: "ok s \<Longrightarrow> spent k s \<Longrightarrow> spent k (snd (consume k' s))"
begin

lemma spent_never_yields:
  assumes "ok s" and "spent k s" and "list_all (quiet_event ok spent) es"
  shows "k \<notin> set (fst (use_run consume es s))"
  using assms
proof (induction es arbitrary: s)
  case Nil
  then show ?case by simp
next
  case (Cons e es)
  show ?case
  proof (cases e)
    case (Consume k')
    obtain r s1 where run: "consume k' s = (r, s1)"
      by (cases "consume k' s")
    have "ok s1" and "spent k s1"
      using consume_ok [of s k'] spent_stays [of s k k'] Cons.prems run by simp_all
    then have rest: "k \<notin> set (fst (use_run consume es s1))"
      using Cons.IH Cons.prems by simp
    have "r = None" if "k' = k"
      using spent_refused [of s k] Cons.prems run that by simp
    with rest show ?thesis
      by (auto simp: Consume run Let_def split: prod.splits)
  next
    case (Other f)
    with Cons.prems have "quiet ok spent f" by simp
    then have "ok (f s)" and "spent k (f s)"
      using Cons.prems by (simp_all add: quietD)
    then show ?thesis
      using Cons.IH Cons.prems Other by simp
  qed
qed

lemma yields_at_most_once:
  assumes "ok s" and "list_all (quiet_event ok spent) es"
  shows "distinct (fst (use_run consume es s))"
  using assms
proof (induction es arbitrary: s)
  case Nil
  then show ?case by simp
next
  case (Cons e es)
  show ?case
  proof (cases e)
    case (Consume k)
    obtain r s1 where run: "consume k s = (r, s1)"
      by (cases "consume k s")
    have ok1: "ok s1"
      using consume_ok [of s k] Cons.prems run by simp
    then have dist: "distinct (fst (use_run consume es s1))"
      using Cons.IH Cons.prems by simp
    have "k \<notin> set (fst (use_run consume es s1))" if "r \<noteq> None"
      using that consume_spends [of s k] Cons.prems run ok1
      by (intro spent_never_yields) auto
    with dist show ?thesis
      by (auto simp: Consume run Let_def split: prod.splits)
  next
    case (Other f)
    with Cons.prems have "ok (f s)"
      using quietD(1) [of ok spent f s] by simp
    then show ?thesis
      using Cons.IH Cons.prems Other by simp
  qed
qed

end

text \<open>An action that may reject, seen as a provider: a rejection yields no record.\<close>

definition yields :: "('e + 'a) \<times> 's \<Rightarrow> 'a option \<times> 's" where
  "yields p = (case p of (Inl e, s) \<Rightarrow> (None, s) | (Inr x, s) \<Rightarrow> (Some x, s))"

lemma yields_simps [simp]:
  "yields (Inl e, s) = (None, s)" "yields (Inr x, s) = (Some x, s)"
  by (simp_all add: yields_def)

lemma snd_yields [simp]: "snd (yields p) = snd p"
  by (auto simp: yields_def split: prod.splits sum.splits)

lemma yields_Some: "yields p = (Some x, s) \<longleftrightarrow> p = (Inr x, s)"
  by (auto simp: yields_def split: prod.splits sum.splits)

lemma fst_yields_None: "fst (yields p) = None \<longleftrightarrow> (\<exists>e. fst p = Inl e)"
  by (auto simp: yields_def split: prod.splits sum.splits)

end
