(* ===== verification/Users.thy ===== *)
theory Users
  imports Audit_Log Passwords Single_Use
begin

text \<open>
  Accounts: \<^verbatim>\<open>src/modules/users/user.repository.ts\<close>,
  \<^verbatim>\<open>src/modules/users/email-token.service.ts\<close> and
  \<^verbatim>\<open>src/modules/users/user.service.ts\<close> (registration, e-mail verification).
\<close>

section \<open>UserRepository\<close>

text \<open>Equality of the \<open>CITEXT\<close> type of the e-mail column.\<close>

definition citext_eq :: "string \<Rightarrow> string \<Rightarrow> bool" where
  "citext_eq a b \<longleftrightarrow> js_lower a = js_lower b"

definition users_create :: "externals \<Rightarrow> string \<Rightarrow> string \<Rightarrow> string option \<Rightarrow> string option \<Rightarrow> user_row act" where
  "users_create env email passwordHash firstName lastName =
     bindM nowM (\<lambda>now.
     bindM (drawM (rand_uuid env)) (\<lambda>new_id.
     insertM t_users (\<lambda>t s. s\<lparr>t_users := t\<rparr>)
       (\<lambda>u. u_id u = new_id \<or> citext_eq (u_email u) (js_lower email))
       \<lparr>u_id = new_id, u_email = js_lower email, u_password_hash = passwordHash,
        u_first_name = firstName, u_last_name = lastName, u_status = User_pending_verification,
        u_failed_login_count = 0, u_locked_until = None, u_mfa_required = False,
        u_last_login_at = None, u_password_changed_at = now, u_created_at = now, u_updated_at = now\<rparr>
       ''users_unique''))"

definition users_findByEmail :: "string \<Rightarrow> user_row option act" where
  "users_findByEmail email =
     getM (\<lambda>s. List.find (\<lambda>u. citext_eq (u_email u) (js_lower email)) (t_users s))"

text \<open>A parameter that is no uuid makes the database reject the query.\<close>

definition users_findById :: "externals \<Rightarrow> string \<Rightarrow> user_row option act" where
  "users_findById env uid =
     (if uuid_syntax env uid then getM (\<lambda>s. List.find (\<lambda>u. u_id u = uid) (t_users s))
      else throwM (DbError ''invalid input syntax for type uuid''))"

definition users_update :: "uuid \<Rightarrow> (timestamp \<Rightarrow> user_row \<Rightarrow> user_row) \<Rightarrow> unit act" where
  "users_update uid f = modifyM (\<lambda>s.
     s\<lparr>t_users := update_where (\<lambda>u. u_id u = uid) (\<lambda>u. (f (clock s) u)\<lparr>u_updated_at := clock s\<rparr>) (t_users s)\<rparr>)"

definition users_updateProfile :: "uuid \<Rightarrow> string option \<Rightarrow> string option \<Rightarrow> unit act" where
  "users_updateProfile uid firstName lastName =
     users_update uid (\<lambda>now u. u\<lparr>u_first_name := firstName, u_last_name := lastName\<rparr>)"

definition users_markVerified :: "uuid \<Rightarrow> unit act" where
  "users_markVerified uid = modifyM (\<lambda>s.
     s\<lparr>t_users := update_where (\<lambda>u. u_id u = uid \<and> u_status u = User_pending_verification)
        (\<lambda>u. u\<lparr>u_status := User_active, u_updated_at := clock s\<rparr>) (t_users s)\<rparr>)"

definition users_setStatus :: "uuid \<Rightarrow> user_status \<Rightarrow> unit act" where
  "users_setStatus uid status = users_update uid (\<lambda>now u. u\<lparr>u_status := status\<rparr>)"

definition users_recordFailedLogin :: "uuid \<Rightarrow> unit act" where
  "users_recordFailedLogin uid =
     users_update uid (\<lambda>now u. u\<lparr>u_failed_login_count := u_failed_login_count u + 1\<rparr>)"

definition users_lockUntil :: "uuid \<Rightarrow> timestamp \<Rightarrow> unit act" where
  "users_lockUntil uid until = modifyM (\<lambda>s.
     s\<lparr>t_users := update_where
        (\<lambda>u. u_id u = uid \<and> (case u_locked_until u of None \<Rightarrow> True | Some t \<Rightarrow> t < until))
        (\<lambda>u. u\<lparr>u_locked_until := Some until, u_status := User_locked, u_updated_at := clock s\<rparr>)
        (t_users s)\<rparr>)"

definition users_clearLockAndFailures :: "uuid \<Rightarrow> unit act" where
  "users_clearLockAndFailures uid =
     users_update uid (\<lambda>now u. u\<lparr>u_failed_login_count := 0, u_locked_until := None,
       u_status := (if u_status u = User_locked then User_active else u_status u)\<rparr>)"

definition users_setLastLogin :: "uuid \<Rightarrow> unit act" where
  "users_setLastLogin uid = users_update uid (\<lambda>now u. u\<lparr>u_last_login_at := Some now\<rparr>)"

definition users_updatePasswordHash :: "uuid \<Rightarrow> string \<Rightarrow> unit act" where
  "users_updatePasswordHash uid passwordHash =
     users_update uid (\<lambda>now u. u\<lparr>u_password_hash := passwordHash, u_password_changed_at := now,
       u_failed_login_count := 0, u_locked_until := None\<rparr>)"

definition users_rolesOf :: "uuid \<Rightarrow> string list act" where
  "users_rolesOf userId = getM (\<lambda>s.
     sort [ro_name r. r \<leftarrow> t_roles s, ur \<leftarrow> t_user_roles s, snd ur = ro_id r \<and> fst ur = userId])"

definition users_addRole :: "uuid \<Rightarrow> string \<Rightarrow> unit act" where
  "users_addRole userId roleName = modifyM (\<lambda>s.
     s\<lparr>t_user_roles := t_user_roles s @
        [(userId, ro_id r). r \<leftarrow> t_roles s, ro_name r = roleName \<and> (userId, ro_id r) \<notin> set (t_user_roles s)]\<rparr>)"

definition users_permissionsOf :: "uuid \<Rightarrow> string list act" where
  "users_permissionsOf userId = getM (\<lambda>s.
     sort (remdups [pe_name p. p \<leftarrow> t_permissions s, rp \<leftarrow> t_role_permissions s, ur \<leftarrow> t_user_roles s,
       snd rp = pe_id p \<and> snd ur = fst rp \<and> fst ur = userId]))"

lemmas users_defs =
  users_updateProfile_def users_markVerified_def users_setStatus_def users_recordFailedLogin_def
  users_lockUntil_def users_clearLockAndFailures_def users_setLastLogin_def
  users_updatePasswordHash_def users_update_def

text \<open>A user's permissions are exactly those that one of their roles grants, in order, without repetition.\<close>

lemma permissionsOf_spec:
  "\<exists>ps. users_permissionsOf userId s = (Inr ps, s) \<and> sorted ps \<and> distinct ps \<and>
     (\<forall>name. name \<in> set ps \<longleftrightarrow>
        (\<exists>p \<in> set (t_permissions s). \<exists>role. pe_name p = name \<and> (role, pe_id p) \<in> set (t_role_permissions s)
           \<and> (userId, role) \<in> set (t_user_roles s)))"
  by (auto simp: users_permissionsOf_def) force+

section \<open>EmailTokenService\<close>

definition emailToken_hash :: "externals \<Rightarrow> string \<Rightarrow> string" where
  "emailToken_hash env token = sha256_hex env token"

definition emailToken_new :: "externals \<Rightarrow> string act" where
  "emailToken_new env = drawM (rand_b64url env 32)"

definition issueEmailVerification :: "externals \<Rightarrow> config \<Rightarrow> uuid \<Rightarrow> string \<Rightarrow> string act" where
  "issueEmailVerification env cfg userId email =
     bindM (emailToken_new env) (\<lambda>token.
     bindM nowM (\<lambda>now.
     bindM (drawM (rand_uuid env)) (\<lambda>new_id.
     bindM (insertM t_email_verifications (\<lambda>t s. s\<lparr>t_email_verifications := t\<rparr>)
       (\<lambda>r. ev_id r = new_id \<or> ev_token_hash r = emailToken_hash env token)
       \<lparr>ev_id = new_id, ev_user_id = userId, ev_token_hash = emailToken_hash env token,
        ev_email = js_lower email, ev_expires_at = now + 1000 * EMAIL_VERIFICATION_TTL cfg,
        ev_consumed_at = None\<rparr> ''email_verifications_unique'') (\<lambda>_.
     returnM token))))"

definition consumeEmailVerification :: "externals \<Rightarrow> string \<Rightarrow> uuid option act" where
  "consumeEmailVerification env token = (\<lambda>s.
     let p = (\<lambda>r. ev_token_hash r = emailToken_hash env token \<and> ev_consumed_at r = None
                \<and> clock s < ev_expires_at r);
         f = (\<lambda>r. r\<lparr>ev_consumed_at := Some (clock s)\<rparr>)
     in (Inr (map_option ev_user_id (first_row (updated_rows p f (t_email_verifications s)))),
         s\<lparr>t_email_verifications := update_where p f (t_email_verifications s)\<rparr>))"

definition issuePasswordReset :: "externals \<Rightarrow> config \<Rightarrow> uuid \<Rightarrow> string act" where
  "issuePasswordReset env cfg userId =
     bindM (emailToken_new env) (\<lambda>token.
     bindM nowM (\<lambda>now.
     bindM (drawM (rand_uuid env)) (\<lambda>new_id.
     bindM (insertM t_password_resets (\<lambda>t s. s\<lparr>t_password_resets := t\<rparr>)
       (\<lambda>r. pr_id r = new_id \<or> pr_token_hash r = emailToken_hash env token)
       \<lparr>pr_id = new_id, pr_user_id = userId, pr_token_hash = emailToken_hash env token,
        pr_expires_at = now + 1000 * PASSWORD_RESET_TTL cfg, pr_used_at = None\<rparr>
       ''password_reset_tokens_unique'') (\<lambda>_.
     returnM token))))"

definition consumePasswordReset :: "externals \<Rightarrow> string \<Rightarrow> uuid option act" where
  "consumePasswordReset env token = (\<lambda>s.
     let p = (\<lambda>r. pr_token_hash r = emailToken_hash env token \<and> pr_used_at r = None
                \<and> clock s < pr_expires_at r);
         f = (\<lambda>r. r\<lparr>pr_used_at := Some (clock s)\<rparr>)
     in (Inr (map_option pr_user_id (first_row (updated_rows p f (t_password_resets s)))),
         s\<lparr>t_password_resets := update_where p f (t_password_resets s)\<rparr>))"

text \<open>Both consumers as providers of the single-use contract.\<close>

definition flat_yield :: "(exn + 'a option) \<times> world \<Rightarrow> 'a option \<times> world" where
  "flat_yield p = (case p of (Inl e, s) \<Rightarrow> (None, s) | (Inr x, s) \<Rightarrow> (x, s))"

definition verification_spent :: "externals \<Rightarrow> string \<Rightarrow> world \<Rightarrow> bool" where
  "verification_spent env token s \<longleftrightarrow>
     (\<exists>r \<in> set (t_email_verifications s). ev_token_hash r = emailToken_hash env token \<and> ev_consumed_at r \<noteq> None)"

definition verification_ok :: "world \<Rightarrow> bool" where
  "verification_ok s \<longleftrightarrow> distinct (map ev_token_hash (t_email_verifications s))"

definition reset_spent :: "externals \<Rightarrow> string \<Rightarrow> world \<Rightarrow> bool" where
  "reset_spent env token s \<longleftrightarrow>
     (\<exists>r \<in> set (t_password_resets s). pr_token_hash r = emailToken_hash env token \<and> pr_used_at r \<noteq> None)"

definition reset_ok :: "world \<Rightarrow> bool" where
  "reset_ok s \<longleftrightarrow> distinct (map pr_token_hash (t_password_resets s))"

lemma verification_ok_key:
  "verification_ok s \<Longrightarrow> r \<in> set (t_email_verifications s) \<Longrightarrow> r' \<in> set (t_email_verifications s) \<Longrightarrow>
   ev_token_hash r = ev_token_hash r' \<Longrightarrow> r = r'"
  unfolding verification_ok_def by (rule distinct_key_eq)

lemma reset_ok_key:
  "reset_ok s \<Longrightarrow> r \<in> set (t_password_resets s) \<Longrightarrow> r' \<in> set (t_password_resets s) \<Longrightarrow>
   pr_token_hash r = pr_token_hash r' \<Longrightarrow> r = r'"
  unfolding reset_ok_def by (rule distinct_key_eq)

lemma verification_spent_update:
  assumes "verification_spent env k s"
    and "\<And>r. ev_token_hash (f r) = ev_token_hash r" and "\<And>r. ev_consumed_at r \<noteq> None \<Longrightarrow> ev_consumed_at (f r) \<noteq> None"
  shows "verification_spent env k (s\<lparr>t_email_verifications := update_where p f (t_email_verifications s)\<rparr>)"
proof -
  obtain r where "r \<in> set (t_email_verifications s)" and "ev_token_hash r = emailToken_hash env k" and "ev_consumed_at r \<noteq> None"
    using assms(1) by (auto simp: verification_spent_def)
  then show ?thesis
    using assms(2,3) unfolding verification_spent_def by (simp add: bexI [of _ r])
qed

interpretation verification: single_use "\<lambda>token s. flat_yield (consumeEmailVerification env token s)"
  "verification_spent env" verification_ok
proof
  fix s k k' r s'
  assume ok: "verification_ok s"
  show "verification_ok (snd (flat_yield (consumeEmailVerification env k s)))"
    using ok by (simp add: flat_yield_def consumeEmailVerification_def verification_ok_def Let_def map_update_where)
  show "flat_yield (consumeEmailVerification env k s) = (Some r, s') \<Longrightarrow> verification_spent env k s'"
    by (auto simp: flat_yield_def consumeEmailVerification_def verification_spent_def Let_def
        first_row_updated dest!: find_SomeD) blast
  assume spent: "verification_spent env k s"
  then obtain r0 where r0: "r0 \<in> set (t_email_verifications s)"
      "ev_token_hash r0 = emailToken_hash env k" "ev_consumed_at r0 \<noteq> None"
    by (auto simp: verification_spent_def)
  have "ev_consumed_at r \<noteq> None" if "r \<in> set (t_email_verifications s)" and "ev_token_hash r = emailToken_hash env k" for r
    using verification_ok_key [OF ok that(1) r0(1)] that r0 by simp
  then show "fst (flat_yield (consumeEmailVerification env k s)) = None"
    by (auto simp: flat_yield_def consumeEmailVerification_def Let_def first_row_updated find_None_set)
  show "verification_spent env k (snd (flat_yield (consumeEmailVerification env k' s)))"
    unfolding flat_yield_def consumeEmailVerification_def Let_def
    by (simp, rule verification_spent_update [OF spent]) simp_all
qed

lemma reset_spent_update:
  assumes "reset_spent env k s"
    and "\<And>r. pr_token_hash (f r) = pr_token_hash r" and "\<And>r. pr_used_at r \<noteq> None \<Longrightarrow> pr_used_at (f r) \<noteq> None"
  shows "reset_spent env k (s\<lparr>t_password_resets := update_where p f (t_password_resets s)\<rparr>)"
proof -
  obtain r where "r \<in> set (t_password_resets s)" and "pr_token_hash r = emailToken_hash env k" and "pr_used_at r \<noteq> None"
    using assms(1) by (auto simp: reset_spent_def)
  then show ?thesis
    using assms(2,3) unfolding reset_spent_def by (simp add: bexI [of _ r])
qed

interpretation reset: single_use "\<lambda>token s. flat_yield (consumePasswordReset env token s)"
  "reset_spent env" reset_ok
proof
  fix s k k' r s'
  assume ok: "reset_ok s"
  show "reset_ok (snd (flat_yield (consumePasswordReset env k s)))"
    using ok by (simp add: flat_yield_def consumePasswordReset_def reset_ok_def Let_def map_update_where)
  show "flat_yield (consumePasswordReset env k s) = (Some r, s') \<Longrightarrow> reset_spent env k s'"
    by (auto simp: flat_yield_def consumePasswordReset_def reset_spent_def Let_def
        first_row_updated dest!: find_SomeD) blast
  assume spent: "reset_spent env k s"
  then obtain r0 where r0: "r0 \<in> set (t_password_resets s)"
      "pr_token_hash r0 = emailToken_hash env k" "pr_used_at r0 \<noteq> None"
    by (auto simp: reset_spent_def)
  have "pr_used_at r \<noteq> None" if "r \<in> set (t_password_resets s)" and "pr_token_hash r = emailToken_hash env k" for r
    using reset_ok_key [OF ok that(1) r0(1)] that r0 by simp
  then show "fst (flat_yield (consumePasswordReset env k s)) = None"
    by (auto simp: flat_yield_def consumePasswordReset_def Let_def first_row_updated find_None_set)
  show "reset_spent env k (snd (flat_yield (consumePasswordReset env k' s)))"
    unfolding flat_yield_def consumePasswordReset_def Let_def
    by (simp, rule reset_spent_update [OF spent]) simp_all
qed

text \<open>
  A password reset token works at most once. In every sequence of reset attempts, mixed with any
  other steps that keep token hashes unique and used tokens used, no token is accepted twice.
\<close>

theorem password_reset_single_use:
  assumes "reset_ok s" and "list_all (quiet_event reset_ok (reset_spent env)) es"
  shows "distinct (fst (use_run (\<lambda>token s. flat_yield (consumePasswordReset env token s)) es s))"
  using assms by (rule reset.yields_at_most_once)

definition sample_reset :: password_reset_row where
  "sample_reset = \<lparr>pr_id = ''Up'', pr_user_id = ''Ua'', pr_token_hash = ''hreset'',
     pr_expires_at = 1800000, pr_used_at = None\<rparr>"

lemma quiet_elapse_reset: "quiet reset_ok (reset_spent env) (elapse d)"
  by (simp add: quiet_def reset_ok_def reset_spent_def elapse_def)

theorem password_reset_single_use_witness:
  "fst (use_run (\<lambda>token s. flat_yield (consumePasswordReset sample_env token s))
     [Consume ''reset'', Other (elapse 5), Consume ''reset'']
     (sample_world\<lparr>t_password_resets := [sample_reset]\<rparr>)) = [''reset''] \<and>
   distinct (fst (use_run (\<lambda>token s. flat_yield (consumePasswordReset sample_env token s))
     [Consume ''reset'', Other (elapse 5), Consume ''reset'']
     (sample_world\<lparr>t_password_resets := [sample_reset]\<rparr>)))"
proof
  let ?s = "sample_world\<lparr>t_password_resets := [sample_reset]\<rparr>"
  show "distinct (fst (use_run (\<lambda>token s. flat_yield (consumePasswordReset sample_env token s))
     [Consume ''reset'', Other (elapse 5), Consume ''reset''] ?s))"
    by (rule password_reset_single_use) (simp_all add: reset_ok_def quiet_elapse_reset)
  show "fst (use_run (\<lambda>token s. flat_yield (consumePasswordReset sample_env token s))
     [Consume ''reset'', Other (elapse 5), Consume ''reset''] ?s) = [''reset'']"
    by code_simp
qed

section \<open>UserService\<close>

record public_user =
  pu_id :: uuid
  pu_email :: string
  pu_first_name :: "string option"
  pu_last_name :: "string option"
  pu_status :: user_status
  pu_mfa_required :: bool
  pu_created_at :: timestamp

definition toPublicUser :: "user_row \<Rightarrow> public_user" where
  "toPublicUser row = \<lparr>pu_id = u_id row, pu_email = u_email row, pu_first_name = u_first_name row,
     pu_last_name = u_last_name row, pu_status = u_status row, pu_mfa_required = u_mfa_required row,
     pu_created_at = u_created_at row\<rparr>"

record register_input =
  ri_email :: string
  ri_password :: string
  ri_first_name :: "string option"
  ri_last_name :: "string option"

text \<open>
  \<open>send\<close> of the two e-mail providers; \<open>outbox\<close> holds the captured and the delivered messages. A delivery
  that fails rejects, and nothing above catches it.
\<close>

definition captured :: "email_message \<Rightarrow> unit act" where
  "captured m = modifyM (\<lambda>s. s\<lparr>outbox := outbox s @ [m]\<rparr>)"

definition send_mail :: "externals \<Rightarrow> email_message \<Rightarrow> unit act" where
  "send_mail env m = (case mailer env of
      Mock_provider \<Rightarrow> captured m
    | Smtp_provider transport sender \<Rightarrow>
        bindM (drawM (\<lambda>i. nodemailer env i transport sender m)) (\<lambda>failure.
        case failure of Some e \<Rightarrow> throwM (JsError e) | None \<Rightarrow> captured m))"

text \<open>\<open>email.split('@')[1]\<close>.\<close>

definition email_domain :: "string \<Rightarrow> jval" where
  "email_domain email =
     (case split_at (\<lambda>c. c = CHR ''@'') email of _ # d # _ \<Rightarrow> JStr d | _ \<Rightarrow> JNull)"

definition nl2 :: string where
  "nl2 = [CHR 0x0A, CHR 0x0A]"

definition verification_mail :: "string \<Rightarrow> string \<Rightarrow> email_message" where
  "verification_mail to token = \<lparr>em_to = to, em_subject = ''Verify your email address'',
     em_text = ''Welcome! Verify your email with this token:'' @ nl2 @ token @ nl2
       @ ''POST it to /auth/verify-email within 24 hours.'',
     em_html = Some (''<p>Welcome!</p><p>Verify your email by posting this token to <code>/auth/verify-email</code>:</p><pre>''
       @ token @ ''</pre>'')\<rparr>"

definition userService_register ::
  "externals \<Rightarrow> config \<Rightarrow> register_input \<Rightarrow> request_context \<Rightarrow> public_user act" where
  "userService_register env cfg inp ctx =
     bindM (checkPasswordPolicy cfg (ri_password inp)) (\<lambda>_.
     bindM (users_findByEmail (ri_email inp)) (\<lambda>existing.
     if existing \<noteq> None then throwM (ConflictError ''Email is already registered'') else
     bindM (hashPassword env (ri_password inp)) (\<lambda>passwordHash.
     bindM (users_create env (ri_email inp) passwordHash (ri_first_name inp) (ri_last_name inp)) (\<lambda>user.
     bindM (users_addRole (u_id user) ''user'') (\<lambda>_.
     bindM (audit_record env (with_meta [(''email_domain'', email_domain (u_email user))]
              (for_user (u_id user) (with_agent ctx (ctx_event ''USER_REGISTERED'' ctx))))) (\<lambda>_.
     bindM (issueEmailVerification env cfg (u_id user) (u_email user)) (\<lambda>token.
     bindM (send_mail env (verification_mail (u_email user) token)) (\<lambda>_.
     returnM (toPublicUser user)))))))))"

definition userService_verifyEmail :: "externals \<Rightarrow> string \<Rightarrow> request_context \<Rightarrow> unit act" where
  "userService_verifyEmail env token ctx =
     bindM (consumeEmailVerification env token) (\<lambda>consumed.
     case consumed of
       None \<Rightarrow> throwM (ConflictError ''Invalid or expired verification token'')
     | Some userId \<Rightarrow>
         bindM (users_markVerified userId) (\<lambda>_.
         audit_record env (for_user userId (ctx_event ''USER_EMAIL_VERIFIED'' ctx))))"

definition userService_getById :: "externals \<Rightarrow> string \<Rightarrow> public_user option act" where
  "userService_getById env uid =
     bindM (users_findById env uid) (\<lambda>row. returnM (map_option toPublicUser row))"

end
