(* ===== verification/Refresh_Tokens.thy ===== *)
theory Refresh_Tokens
  imports Session_Store Single_Use
begin

text \<open>
  \<^verbatim>\<open>src/modules/tokens/refresh-token.service.ts\<close>: opaque refresh tokens that rotate at every use.
  The lemmas give the run of every branch; the properties are single use, linear families (at most
  one active token), and what the presentation of a spent token destroys.
\<close>

section \<open>Operations\<close>

record refresh_params =
  rp_sessionId :: uuid
  rp_userId :: uuid
  rp_clientId :: "uuid option"
  rp_scope :: string
  rp_familyId :: "uuid option"
  rp_previousTokenId :: "uuid option"

record consumed_refresh =
  cr_row :: refresh_row
  cr_nextToken :: string
  cr_expiresAt :: timestamp

definition refresh_hash :: "externals \<Rightarrow> string \<Rightarrow> string" where
  "refresh_hash env token = sha256_hex env token"

definition refresh_issue :: "externals \<Rightarrow> config \<Rightarrow> refresh_params \<Rightarrow> (string \<times> timestamp) act" where
  "refresh_issue env cfg params =
     bindM (drawM (rand_b64url env 32)) (\<lambda>token.
     bindM (case rp_familyId params of Some f \<Rightarrow> returnM f | None \<Rightarrow> drawM (rand_uuid env)) (\<lambda>family.
     bindM nowM (\<lambda>now.
     bindM (drawM (rand_uuid env)) (\<lambda>new_id.
     bindM (insertM t_refresh (\<lambda>t s. s\<lparr>t_refresh := t\<rparr>)
       (\<lambda>r. rt_id r = new_id \<or> rt_token_hash r = refresh_hash env token)
       \<lparr>rt_id = new_id, rt_session_id = rp_sessionId params, rt_user_id = rp_userId params,
        rt_client_id = rp_clientId params, rt_token_hash = refresh_hash env token, rt_family_id = family,
        rt_previous_token_id = rp_previousTokenId params, rt_scope = rp_scope params,
        rt_status = Token_active, rt_expires_at = now + 1000 * REFRESH_TOKEN_TTL cfg,
        rt_rotated_at = None, rt_revoked_at = None\<rparr>
       ''refresh_tokens_unique'') (\<lambda>_.
     returnM (token, now + 1000 * REFRESH_TOKEN_TTL cfg))))))"

definition refresh_revokeWhere :: "(refresh_row \<Rightarrow> bool) \<Rightarrow> unit act" where
  "refresh_revokeWhere p = modifyM (\<lambda>s.
     s\<lparr>t_refresh := update_where (\<lambda>r. p r \<and> rt_status r \<in> {Token_active, Token_rotated})
        (revoke_refresh (clock s)) (t_refresh s)\<rparr>)"

definition refresh_handleReuseOrInvalid :: "string \<Rightarrow> unit act" where
  "refresh_handleReuseOrInvalid tokenHash =
     bindM (getM (\<lambda>s. List.find (\<lambda>r. rt_token_hash r = tokenHash) (t_refresh s))) (\<lambda>known.
     case known of
       Some knownRow \<Rightarrow>
         bindM (refresh_revokeWhere (\<lambda>r. rt_family_id r = rt_family_id knownRow)) (\<lambda>_.
         bindM (modifyM (\<lambda>s. s\<lparr>t_sessions := update_where
                  (\<lambda>r. ss_id r = rt_session_id knownRow \<and> ss_status r = Session_active)
                  (revoke_session (clock s) ''refresh_token_reuse'') (t_sessions s)\<rparr>)) (\<lambda>_.
         throwM (AppError 401 ''REFRESH_TOKEN_REUSE'' ''Refresh token reuse detected - session revoked'')))
     | None \<Rightarrow> returnM ())"

definition usable_refresh :: "timestamp \<Rightarrow> string \<Rightarrow> refresh_row \<Rightarrow> bool" where
  "usable_refresh now tokenHash r \<longleftrightarrow>
     rt_token_hash r = tokenHash \<and> rt_status r = Token_active \<and> now < rt_expires_at r"

definition rotate_refresh :: "timestamp \<Rightarrow> refresh_row \<Rightarrow> refresh_row" where
  "rotate_refresh now r = r\<lparr>rt_status := Token_rotated, rt_rotated_at := Some now\<rparr>"

definition refresh_rotate :: "string \<Rightarrow> refresh_row option act" where
  "refresh_rotate tokenHash = (\<lambda>s.
     (Inr (first_row (updated_rows (usable_refresh (clock s) tokenHash) (rotate_refresh (clock s)) (t_refresh s))),
      s\<lparr>t_refresh := update_where (usable_refresh (clock s) tokenHash) (rotate_refresh (clock s)) (t_refresh s)\<rparr>))"

definition refresh_consume :: "externals \<Rightarrow> config \<Rightarrow> string \<Rightarrow> consumed_refresh act" where
  "refresh_consume env cfg token =
     (let tokenHash = refresh_hash env token in
      bindM (refresh_rotate tokenHash) (\<lambda>row.
      case row of
        None \<Rightarrow>
          bindM (refresh_handleReuseOrInvalid tokenHash) (\<lambda>_.
          throwM (AuthError ''Invalid refresh token'' ''INVALID_REFRESH_TOKEN''))
      | Some r \<Rightarrow>
          bindM (refresh_issue env cfg
            \<lparr>rp_sessionId = rt_session_id r, rp_userId = rt_user_id r, rp_clientId = rt_client_id r,
             rp_scope = rt_scope r, rp_familyId = Some (rt_family_id r), rp_previousTokenId = Some (rt_id r)\<rparr>)
            (\<lambda>(nextToken, expiresAt).
          returnM \<lparr>cr_row = r, cr_nextToken = nextToken, cr_expiresAt = expiresAt\<rparr>)))"

definition refresh_revokeByToken :: "externals \<Rightarrow> string \<Rightarrow> bool act" where
  "refresh_revokeByToken env token =
     (let p = (\<lambda>r. rt_token_hash r = refresh_hash env token) in
      bindM (getM (\<lambda>s. length (filter (\<lambda>r. p r \<and> rt_status r \<in> {Token_active, Token_rotated}) (t_refresh s)))) (\<lambda>n.
      bindM (refresh_revokeWhere p) (\<lambda>_.
      returnM (0 < n))))"

definition refresh_revokeFamily :: "uuid \<Rightarrow> unit act" where
  "refresh_revokeFamily familyId = refresh_revokeWhere (\<lambda>r. rt_family_id r = familyId)"

section \<open>Running the operations\<close>

lemma rotate_refresh_simps [simp]:
  "rt_id (rotate_refresh now r) = rt_id r" "rt_token_hash (rotate_refresh now r) = rt_token_hash r"
  "rt_session_id (rotate_refresh now r) = rt_session_id r" "rt_user_id (rotate_refresh now r) = rt_user_id r"
  "rt_family_id (rotate_refresh now r) = rt_family_id r" "rt_client_id (rotate_refresh now r) = rt_client_id r"
  "rt_scope (rotate_refresh now r) = rt_scope r" "rt_status (rotate_refresh now r) = Token_rotated"
  "rt_expires_at (rotate_refresh now r) = rt_expires_at r"
  by (simp_all add: rotate_refresh_def)

text \<open>The row that follows a rotated one, and the table after the rotation.\<close>

definition successor :: "externals \<Rightarrow> config \<Rightarrow> world \<Rightarrow> refresh_row \<Rightarrow> refresh_row" where
  "successor env cfg s r =
     \<lparr>rt_id = rand_uuid env (Suc (draws s)), rt_session_id = rt_session_id r, rt_user_id = rt_user_id r,
      rt_client_id = rt_client_id r, rt_token_hash = refresh_hash env (rand_b64url env 32 (draws s)),
      rt_family_id = rt_family_id r, rt_previous_token_id = Some (rt_id r), rt_scope = rt_scope r,
      rt_status = Token_active, rt_expires_at = clock s + 1000 * REFRESH_TOKEN_TTL cfg,
      rt_rotated_at = None, rt_revoked_at = None\<rparr>"

definition rotated_table :: "externals \<Rightarrow> string \<Rightarrow> world \<Rightarrow> refresh_row list" where
  "rotated_table env token s =
     update_where (usable_refresh (clock s) (refresh_hash env token)) (rotate_refresh (clock s)) (t_refresh s)"

definition theft_response :: "refresh_row \<Rightarrow> world \<Rightarrow> world" where
  "theft_response r s = s\<lparr>
     t_refresh := update_where (\<lambda>x. rt_family_id x = rt_family_id r \<and> rt_status x \<in> {Token_active, Token_rotated})
        (revoke_refresh (clock s)) (t_refresh s),
     t_sessions := update_where (\<lambda>x. ss_id x = rt_session_id r \<and> ss_status x = Session_active)
        (revoke_session (clock s) ''refresh_token_reuse'') (t_sessions s)\<rparr>"

lemma rotate_none:
  assumes "List.find (usable_refresh (clock s) h) (t_refresh s) = None"
  shows "refresh_rotate h s = (Inr None, s)"
proof -
  have "\<not> usable_refresh (clock s) h r" if "r \<in> set (t_refresh s)" for r
    using assms that by (simp add: find_None_set)
  then have "update_where (usable_refresh (clock s) h) f (t_refresh s) = t_refresh s" for f
    by (rule update_where_none)
  with assms show ?thesis
    by (simp add: refresh_rotate_def first_row_updated)
qed

lemma consume_known:
  assumes "List.find (usable_refresh (clock s) (refresh_hash env token)) (t_refresh s) = None"
    and "List.find (\<lambda>r. rt_token_hash r = refresh_hash env token) (t_refresh s) = Some r"
  shows "refresh_consume env cfg token s =
    (Inl (AppError 401 ''REFRESH_TOKEN_REUSE'' ''Refresh token reuse detected - session revoked''),
     theft_response r s)"
  using assms(2) rotate_none [OF assms(1)]
  by (simp add: refresh_consume_def refresh_handleReuseOrInvalid_def refresh_revokeWhere_def bindM_run Let_def
      theft_response_def)

lemma consume_unknown:
  assumes "List.find (\<lambda>r. rt_token_hash r = refresh_hash env token) (t_refresh s) = None"
  shows "refresh_consume env cfg token s =
    (Inl (AuthError ''Invalid refresh token'' ''INVALID_REFRESH_TOKEN''), s)"
proof -
  have "List.find (usable_refresh (clock s) (refresh_hash env token)) (t_refresh s) = None"
    using assms by (auto simp: find_None_set usable_refresh_def)
  from rotate_none [OF this] assms show ?thesis
    by (simp add: refresh_consume_def refresh_handleReuseOrInvalid_def bindM_run Let_def)
qed

lemma consume_usable:
  assumes "List.find (usable_refresh (clock s) (refresh_hash env token)) (t_refresh s) = Some r"
  shows "refresh_consume env cfg token s =
    (if \<exists>x \<in> set (t_refresh s). rt_id x = rand_uuid env (Suc (draws s))
          \<or> rt_token_hash x = refresh_hash env (rand_b64url env 32 (draws s))
     then (Inl (DbError ''refresh_tokens_unique''),
           s\<lparr>t_refresh := rotated_table env token s, draws := Suc (Suc (draws s))\<rparr>)
     else (Inr \<lparr>cr_row = rotate_refresh (clock s) r, cr_nextToken = rand_b64url env 32 (draws s),
                cr_expiresAt = clock s + 1000 * REFRESH_TOKEN_TTL cfg\<rparr>,
           s\<lparr>t_refresh := rotated_table env token s @ [successor env cfg s r], draws := Suc (Suc (draws s))\<rparr>))"
proof -
  have "refresh_rotate (refresh_hash env token) s =
      (Inr (Some (rotate_refresh (clock s) r)), s\<lparr>t_refresh := rotated_table env token s\<rparr>)"
    using assms by (simp add: refresh_rotate_def first_row_updated rotated_table_def)
  then show ?thesis
    by (simp add: refresh_consume_def refresh_issue_def bindM_run Let_def insertM_def insert_row_def list_ex_iff
        rotated_table_def successor_def if_distrib [of "\<lambda>x. x \<or> _"] cong: if_cong)
qed

text \<open>The three outcomes of a consumption, for the proofs by cases.\<close>

lemma consume_cases:
  obtains (unknown) "List.find (\<lambda>r. rt_token_hash r = refresh_hash env token) (t_refresh s) = None"
      "refresh_consume env cfg token s = (Inl (AuthError ''Invalid refresh token'' ''INVALID_REFRESH_TOKEN''), s)"
    | (theft) r where "List.find (\<lambda>r. rt_token_hash r = refresh_hash env token) (t_refresh s) = Some r"
      "refresh_consume env cfg token s =
        (Inl (AppError 401 ''REFRESH_TOKEN_REUSE'' ''Refresh token reuse detected - session revoked''),
         theft_response r s)"
    | (clash) r where "List.find (usable_refresh (clock s) (refresh_hash env token)) (t_refresh s) = Some r"
      "refresh_consume env cfg token s = (Inl (DbError ''refresh_tokens_unique''),
           s\<lparr>t_refresh := rotated_table env token s, draws := Suc (Suc (draws s))\<rparr>)"
    | (rotate) r where "List.find (usable_refresh (clock s) (refresh_hash env token)) (t_refresh s) = Some r"
      "\<forall>x \<in> set (t_refresh s). rt_id x \<noteq> rand_uuid env (Suc (draws s))
          \<and> rt_token_hash x \<noteq> refresh_hash env (rand_b64url env 32 (draws s))"
      "refresh_consume env cfg token s =
        (Inr \<lparr>cr_row = rotate_refresh (clock s) r, cr_nextToken = rand_b64url env 32 (draws s),
              cr_expiresAt = clock s + 1000 * REFRESH_TOKEN_TTL cfg\<rparr>,
         s\<lparr>t_refresh := rotated_table env token s @ [successor env cfg s r], draws := Suc (Suc (draws s))\<rparr>)"
proof (cases "List.find (usable_refresh (clock s) (refresh_hash env token)) (t_refresh s)")
  case None
  show ?thesis
  proof (cases "List.find (\<lambda>r. rt_token_hash r = refresh_hash env token) (t_refresh s)")
    case None
    show ?thesis by (rule unknown [OF None consume_unknown [OF None]])
  next
    case (Some r)
    show ?thesis by (rule theft [OF Some consume_known [OF None Some]])
  qed
next
  case (Some r)
  show ?thesis
  proof (cases "\<exists>x \<in> set (t_refresh s). rt_id x = rand_uuid env (Suc (draws s))
          \<or> rt_token_hash x = refresh_hash env (rand_b64url env 32 (draws s))")
    case True
    then show ?thesis using clash [OF Some] consume_usable [OF Some, of cfg] by simp
  next
    case False
    then show ?thesis using rotate [OF Some] consume_usable [OF Some, of cfg] by simp
  qed
qed

section \<open>Invariants of the token table\<close>

definition refresh_keys_ok :: "world \<Rightarrow> bool" where
  "refresh_keys_ok s \<longleftrightarrow> distinct (map rt_token_hash (t_refresh s))"

text \<open>A family is linear: at most one of its tokens is active.\<close>

definition families_linear :: "world \<Rightarrow> bool" where
  "families_linear s \<longleftrightarrow>
     (\<forall>r \<in> set (t_refresh s). \<forall>x \<in> set (t_refresh s). rt_status r = Token_active \<longrightarrow>
        rt_status x = Token_active \<longrightarrow> rt_family_id r = rt_family_id x \<longrightarrow> r = x)"

definition refresh_spent :: "externals \<Rightarrow> string \<Rightarrow> world \<Rightarrow> bool" where
  "refresh_spent env token s \<longleftrightarrow>
     (\<exists>r \<in> set (t_refresh s). rt_token_hash r = refresh_hash env token \<and> rt_status r \<noteq> Token_active)"

lemma refresh_key_eq:
  "refresh_keys_ok s \<Longrightarrow> r \<in> set (t_refresh s) \<Longrightarrow> r' \<in> set (t_refresh s) \<Longrightarrow>
   rt_token_hash r = rt_token_hash r' \<Longrightarrow> r = r'"
  unfolding refresh_keys_ok_def by (rule distinct_key_eq)

lemma theft_hashes [simp]: "map rt_token_hash (t_refresh (theft_response r s)) = map rt_token_hash (t_refresh s)"
  by (simp add: theft_response_def map_update_where)

lemma rotated_hashes [simp]: "map rt_token_hash (rotated_table env token s) = map rt_token_hash (t_refresh s)"
  by (simp add: rotated_table_def map_update_where)

lemma consume_keys_ok:
  "refresh_keys_ok s \<Longrightarrow> refresh_keys_ok (snd (refresh_consume env cfg token s))"
  by (rule consume_cases [of env token s cfg])
    (auto simp: refresh_keys_ok_def successor_def rotated_table_def map_update_where)

lemma spent_rotated:
  "refresh_spent env k s \<Longrightarrow> \<exists>r \<in> set (rotated_table env token s). rt_token_hash r = refresh_hash env k \<and> rt_status r \<noteq> Token_active"
  by (auto simp: refresh_spent_def rotated_table_def intro!: bexI)

lemma spent_theft: "refresh_spent env k s \<Longrightarrow> refresh_spent env k (theft_response r s)"
  by (auto simp: refresh_spent_def theft_response_def intro!: bexI)

lemma consume_spent_stays:
  "refresh_spent env k s \<Longrightarrow> refresh_spent env k (snd (refresh_consume env cfg token s))"
  by (rule consume_cases [of env token s cfg])
    (use spent_rotated [of env k s token] spent_theft [of env k s] in \<open>auto simp: refresh_spent_def\<close>)

lemma rotated_spent:
  assumes "List.find (usable_refresh (clock s) (refresh_hash env token)) (t_refresh s) = Some r"
  shows "\<exists>x \<in> set (rotated_table env token s). rt_token_hash x = refresh_hash env token \<and> rt_status x \<noteq> Token_active"
  using find_SomeD [OF assms]
  by (auto simp: rotated_table_def usable_refresh_def intro!: bexI [of _ r])

lemma consume_spends:
  assumes "refresh_consume env cfg token s = (Inr c, s')"
  shows "refresh_spent env token s'"
proof (cases rule: consume_cases [of env token s cfg])
  case (rotate r)
  with assms rotated_spent [OF rotate(1)] show ?thesis
    by (auto simp: refresh_spent_def)
qed (use assms in auto)

lemma spent_not_usable:
  assumes "refresh_keys_ok s" and "refresh_spent env token s"
  shows "List.find (usable_refresh (clock s) (refresh_hash env token)) (t_refresh s) = None"
proof -
  obtain r0 where r0: "r0 \<in> set (t_refresh s)" "rt_token_hash r0 = refresh_hash env token" "rt_status r0 \<noteq> Token_active"
    using assms(2) by (auto simp: refresh_spent_def)
  have "\<not> usable_refresh (clock s) (refresh_hash env token) r" if "r \<in> set (t_refresh s)" for r
    using refresh_key_eq [OF assms(1) that r0(1)] r0 by (auto simp: usable_refresh_def)
  then show ?thesis
    by (simp add: find_None_set)
qed

lemma spent_known:
  assumes "refresh_keys_ok s" and "refresh_spent env token s"
  obtains r where "r \<in> set (t_refresh s)" and "rt_token_hash r = refresh_hash env token"
    and "refresh_consume env cfg token s =
      (Inl (AppError 401 ''REFRESH_TOKEN_REUSE'' ''Refresh token reuse detected - session revoked''),
       theft_response r s)"
proof -
  obtain r0 where "r0 \<in> set (t_refresh s)" "rt_token_hash r0 = refresh_hash env token"
    using assms(2) by (auto simp: refresh_spent_def)
  then obtain r where r: "List.find (\<lambda>r. rt_token_hash r = refresh_hash env token) (t_refresh s) = Some r"
    by (cases "List.find (\<lambda>r. rt_token_hash r = refresh_hash env token) (t_refresh s)")
      (auto simp: find_None_set)
  then have "r \<in> set (t_refresh s)" and "rt_token_hash r = refresh_hash env token"
    by (auto dest: find_SomeD)
  then show ?thesis
    by (rule that) (rule consume_known [OF spent_not_usable [OF assms] r])
qed

interpretation refresh: single_use "\<lambda>token s. yields (refresh_consume env cfg token s)"
  "refresh_spent env" refresh_keys_ok
proof
  fix s k k' r s'
  assume ok: "refresh_keys_ok s"
  then show "refresh_keys_ok (snd (yields (refresh_consume env cfg k s)))"
    by (simp add: consume_keys_ok)
  show "yields (refresh_consume env cfg k s) = (Some r, s') \<Longrightarrow> refresh_spent env k s'"
    by (simp add: yields_Some consume_spends)
  assume spent: "refresh_spent env k s"
  show "fst (yields (refresh_consume env cfg k s)) = None"
    by (rule spent_known [OF ok spent, of cfg]) simp
  show "refresh_spent env k (snd (yields (refresh_consume env cfg k' s)))"
    using spent by (simp add: consume_spent_stays)
qed

section \<open>Properties\<close>

text \<open>
  A refresh token can be used once. In every sequence of uses, mixed with other steps that keep
  token hashes unique and used tokens unusable, no token is accepted twice.
\<close>

theorem refresh_single_use:
  assumes "refresh_keys_ok s" and "list_all (quiet_event refresh_keys_ok (refresh_spent env)) es"
  shows "distinct (fst (use_run (\<lambda>token s. yields (refresh_consume env cfg token s)) es s))"
  using assms by (rule refresh.yields_at_most_once)

lemma quiet_elapse_refresh: "quiet refresh_keys_ok (refresh_spent env) (elapse d)"
  by (simp add: quiet_def refresh_keys_ok_def refresh_spent_def elapse_def)

theorem refresh_single_use_witness:
  "fst (use_run (\<lambda>token s. yields (refresh_consume sample_env sample_cfg token s))
     [Consume ''tok'', Other (elapse 5), Consume ''tok''] sample_world) = [''tok''] \<and>
   distinct (fst (use_run (\<lambda>token s. yields (refresh_consume sample_env sample_cfg token s))
     [Consume ''tok'', Other (elapse 5), Consume ''tok''] sample_world))"
proof
  show "distinct (fst (use_run (\<lambda>token s. yields (refresh_consume sample_env sample_cfg token s))
     [Consume ''tok'', Other (elapse 5), Consume ''tok''] sample_world))"
    by (rule refresh_single_use)
      (simp_all add: quiet_elapse_refresh refresh_keys_ok_def sample_world_def empty_world_def)
  show "fst (use_run (\<lambda>token s. yields (refresh_consume sample_env sample_cfg token s))
     [Consume ''tok'', Other (elapse 5), Consume ''tok''] sample_world) = [''tok'']"
    by code_simp
qed

lemma consume_success:
  assumes "refresh_keys_ok s" and "refresh_consume env cfg token s = (Inr c, s')"
  shows "\<exists>r new. r \<in> set (t_refresh s) \<and> rt_token_hash r = refresh_hash env token
    \<and> rt_status r = Token_active \<and> clock s < rt_expires_at r
    \<and> cr_row c = rotate_refresh (clock s) r
    \<and> t_refresh s' = map (\<lambda>x. if x = r then rotate_refresh (clock s) r else x) (t_refresh s) @ [new]
    \<and> rt_token_hash new = refresh_hash env (cr_nextToken c) \<and> rt_status new = Token_active
    \<and> rt_family_id new = rt_family_id r \<and> rt_session_id new = rt_session_id r
    \<and> rt_user_id new = rt_user_id r \<and> rt_client_id new = rt_client_id r \<and> rt_scope new = rt_scope r
    \<and> rt_previous_token_id new = Some (rt_id r)
    \<and> rt_expires_at new = clock s + 1000 * REFRESH_TOKEN_TTL cfg \<and> cr_expiresAt c = rt_expires_at new
    \<and> t_sessions s' = t_sessions s"
proof (cases rule: consume_cases [of env token s cfg])
  case (rotate r)
  then have r: "r \<in> set (t_refresh s)" "usable_refresh (clock s) (refresh_hash env token) r"
    by (auto dest: find_SomeD)
  have "usable_refresh (clock s) (refresh_hash env token) x \<longleftrightarrow> x = r" if "x \<in> set (t_refresh s)" for x
    using refresh_key_eq [OF assms(1) that r(1)] r(2) by (auto simp: usable_refresh_def)
  then have "rotated_table env token s = map (\<lambda>x. if x = r then rotate_refresh (clock s) r else x) (t_refresh s)"
    by (simp add: rotated_table_def update_where_def)
  with rotate assms r show ?thesis
    by (intro exI [of _ r] exI [of _ "successor env cfg s r"])
      (simp add: usable_refresh_def successor_def)
qed (use assms in auto)

text \<open>
  What a use of a valid token gives. The presented token was active and not expired and is
  rotated; its successor is stored, active, in the same family, for the same session, user, client and
  scope, points back to it and lives for the configured time; every other token is as it was.
\<close>

theorem refresh_rotation:
  assumes "refresh_keys_ok s" and "refresh_consume env cfg token s = (Inr c, s')"
  shows "\<exists>r new. r \<in> set (t_refresh s) \<and> rt_token_hash r = refresh_hash env token
    \<and> rt_status r = Token_active \<and> clock s < rt_expires_at r
    \<and> cr_row c = rotate_refresh (clock s) r
    \<and> t_refresh s' = map (\<lambda>x. if x = r then rotate_refresh (clock s) r else x) (t_refresh s) @ [new]
    \<and> rt_token_hash new = refresh_hash env (cr_nextToken c) \<and> rt_status new = Token_active
    \<and> rt_family_id new = rt_family_id r \<and> rt_session_id new = rt_session_id r
    \<and> rt_user_id new = rt_user_id r \<and> rt_client_id new = rt_client_id r \<and> rt_scope new = rt_scope r
    \<and> rt_previous_token_id new = Some (rt_id r)
    \<and> rt_expires_at new = clock s + 1000 * REFRESH_TOKEN_TTL cfg \<and> cr_expiresAt c = rt_expires_at new
    \<and> t_sessions s' = t_sessions s"
  by (rule consume_success [OF assms])

theorem refresh_rotation_witness:
  "\<exists>r. rt_token_hash r = refresh_hash sample_env ''tok'' \<and> rt_status r = Token_active
     \<and> r \<in> set (t_refresh sample_world)"
proof -
  obtain c s' where run: "refresh_consume sample_env sample_cfg ''tok'' sample_world = (Inr c, s')"
  proof -
    have "case refresh_consume sample_env sample_cfg ''tok'' sample_world of (Inr _, _) \<Rightarrow> True | _ \<Rightarrow> False"
      by code_simp
    with that show ?thesis by (auto split: prod.splits sum.splits)
  qed
  have "refresh_keys_ok sample_world"
    by code_simp
  from refresh_rotation [OF this run] show ?thesis by blast
qed

lemma theft_tokens:
  assumes "x \<in> set (t_refresh (theft_response r s))" and "rt_family_id x = rt_family_id r"
  shows "rt_status x = Token_revoked"
proof -
  obtain y where "x = (if rt_family_id y = rt_family_id r \<and> rt_status y \<in> {Token_active, Token_rotated}
      then revoke_refresh (clock s) y else y)"
    using assms(1) by (auto simp: theft_response_def set_update_where)
  with assms(2) show ?thesis
    by (cases "rt_status y") (simp_all split: if_splits)
qed

lemma theft_sessions:
  assumes "x \<in> set (t_sessions (theft_response r s))" and "ss_id x = rt_session_id r"
  shows "ss_status x = Session_revoked"
proof -
  obtain y where "x = (if ss_id y = rt_session_id r \<and> ss_status y = Session_active
      then revoke_session (clock s) ''refresh_token_reuse'' y else y)"
    using assms(1) by (auto simp: theft_response_def set_update_where)
  with assms(2) show ?thesis
    by (cases "ss_status y") (simp_all split: if_splits)
qed

lemma filter_update_where:
  "(\<And>x. p x \<Longrightarrow> \<not> q x \<and> \<not> q (f x)) \<Longrightarrow> filter q (update_where p f t) = filter q t"
  by (induction t) auto

lemma theft_keeps:
  "filter (\<lambda>x. rt_family_id x \<noteq> rt_family_id r) (t_refresh (theft_response r s))
     = filter (\<lambda>x. rt_family_id x \<noteq> rt_family_id r) (t_refresh s)"
  "filter (\<lambda>x. ss_id x \<noteq> rt_session_id r) (t_sessions (theft_response r s))
     = filter (\<lambda>x. ss_id x \<noteq> rt_session_id r) (t_sessions s)"
  unfolding theft_response_def by (simp_all, (rule filter_update_where, simp)+)

lemma theft_frame:
  "theft_response r s = s\<lparr>t_refresh := t_refresh (theft_response r s), t_sessions := t_sessions (theft_response r s)\<rparr>"
  "map rt_id (t_refresh (theft_response r s)) = map rt_id (t_refresh s)"
  "map ss_id (t_sessions (theft_response r s)) = map ss_id (t_sessions s)"
  by (simp_all add: theft_response_def map_update_where)

text \<open>
  C2: presenting a spent token is treated as theft. The request is refused with
  \<open>REFRESH_TOKEN_REUSE\<close>; afterwards no token of the family is usable, the session of the token is not
  active, and nothing else has changed: no row is added or removed, the tokens of other families and all other
  sessions are as they were, and so is every other table, Redis (with its cached sessions) and the rest of the world.
\<close>

theorem refresh_reuse_kills_family:
  assumes "refresh_keys_ok s" and "refresh_spent env token s"
  shows "\<exists>r s'. r \<in> set (t_refresh s) \<and> rt_token_hash r = refresh_hash env token
    \<and> refresh_consume env cfg token s =
        (Inl (AppError 401 ''REFRESH_TOKEN_REUSE'' ''Refresh token reuse detected - session revoked''), s')
    \<and> (\<forall>x \<in> set (t_refresh s'). rt_family_id x = rt_family_id r \<longrightarrow> rt_status x = Token_revoked)
    \<and> (\<forall>x \<in> set (t_sessions s'). ss_id x = rt_session_id r \<longrightarrow> ss_status x = Session_revoked)
    \<and> filter (\<lambda>x. rt_family_id x \<noteq> rt_family_id r) (t_refresh s')
        = filter (\<lambda>x. rt_family_id x \<noteq> rt_family_id r) (t_refresh s)
    \<and> filter (\<lambda>x. ss_id x \<noteq> rt_session_id r) (t_sessions s')
        = filter (\<lambda>x. ss_id x \<noteq> rt_session_id r) (t_sessions s)
    \<and> map rt_id (t_refresh s') = map rt_id (t_refresh s) \<and> map ss_id (t_sessions s') = map ss_id (t_sessions s)
    \<and> s' = s\<lparr>t_refresh := t_refresh s', t_sessions := t_sessions s'\<rparr>"
proof -
  obtain r where r: "r \<in> set (t_refresh s)" "rt_token_hash r = refresh_hash env token"
    and run: "refresh_consume env cfg token s =
      (Inl (AppError 401 ''REFRESH_TOKEN_REUSE'' ''Refresh token reuse detected - session revoked''),
       theft_response r s)"
    by (rule spent_known [OF assms, of cfg])
  show ?thesis
    by (intro exI [of _ r] exI [of _ "theft_response r s"] conjI r run ballI impI theft_tokens theft_sessions theft_keeps theft_frame)
qed

theorem refresh_reuse_kills_family_witness:
  "fst (refresh_consume sample_env sample_cfg ''tok''
      (sample_world\<lparr>t_refresh := [sample_refresh\<lparr>rt_status := Token_rotated\<rparr>]\<rparr>)) =
    Inl (AppError 401 ''REFRESH_TOKEN_REUSE'' ''Refresh token reuse detected - session revoked'')"
proof -
  let ?s = "sample_world\<lparr>t_refresh := [sample_refresh\<lparr>rt_status := Token_rotated\<rparr>]\<rparr>"
  have "refresh_keys_ok ?s" and "refresh_spent sample_env ''tok'' ?s"
    by code_simp+
  from refresh_reuse_kills_family [OF this, of sample_cfg] show ?thesis by auto
qed

text \<open>
  A stolen chain dies as a whole. If a token is used and, any time later, presented once more,
  then the successor that was handed out at the first use is refused as well.
\<close>

theorem refresh_replay_kills_successor:
  assumes "refresh_keys_ok s" and "refresh_consume env cfg token s = (Inr c, s1)"
    and "refresh_consume env cfg token (elapse d s1) = (res, s2)"
  shows "\<exists>e e' s3. res = Inl e \<and> err_code e = Some ''REFRESH_TOKEN_REUSE''
    \<and> refresh_consume env cfg (cr_nextToken c) (elapse d' s2) = (Inl e', s3)
    \<and> err_code e' = Some ''REFRESH_TOKEN_REUSE''"
proof -
  let ?s1 = "elapse d s1"
  have ok1: "refresh_keys_ok ?s1" and spent1: "refresh_spent env token ?s1"
    using consume_keys_ok [OF assms(1), of env cfg token] consume_spends [OF assms(2)] assms(2)
      quietD [OF quiet_elapse_refresh] by auto
  obtain r new where r: "r \<in> set (t_refresh s)" "rt_token_hash r = refresh_hash env token"
    and s1: "t_refresh s1 = map (\<lambda>x. if x = r then rotate_refresh (clock s) r else x) (t_refresh s) @ [new]"
    and new: "rt_token_hash new = refresh_hash env (cr_nextToken c)" "rt_family_id new = rt_family_id r"
    using consume_success [OF assms(1,2)] by blast
  obtain r' where r': "r' \<in> set (t_refresh ?s1)" "rt_token_hash r' = refresh_hash env token"
    and run: "refresh_consume env cfg token ?s1 =
      (Inl (AppError 401 ''REFRESH_TOKEN_REUSE'' ''Refresh token reuse detected - session revoked''),
       theft_response r' ?s1)"
    by (rule spent_known [OF ok1 spent1, of cfg])
  have "rotate_refresh (clock s) r \<in> set (t_refresh ?s1)"
    using r by (simp add: s1 elapse_def)
  from refresh_key_eq [OF ok1 r'(1) this] r r' have "rt_family_id new = rt_family_id r'"
    by (simp add: new)
  moreover have "new \<in> set (t_refresh ?s1)"
    by (simp add: s1 elapse_def)
  ultimately have "refresh_spent env (cr_nextToken c) (theft_response r' ?s1)"
    by (cases "rt_status new") (auto simp: refresh_spent_def theft_response_def new intro!: bexI [of _ new])
  then have "refresh_spent env (cr_nextToken c) (elapse d' s2)" and "refresh_keys_ok (elapse d' s2)"
    using run assms(3) consume_keys_ok [OF ok1, of env cfg token] quietD [OF quiet_elapse_refresh] by auto
  from this(2,1) show ?thesis
    by (rule spent_known [where cfg = cfg]) (use run assms(3) in \<open>auto simp: err_code_def AppError_def\<close>)
qed

theorem refresh_replay_kills_successor_witness:
  "\<exists>e s3. refresh_consume sample_env sample_cfg ''R''
      (elapse 7 (snd (refresh_consume sample_env sample_cfg ''tok''
        (elapse 5 (snd (refresh_consume sample_env sample_cfg ''tok'' sample_world)))))) = (Inl e, s3)
     \<and> err_code e = Some ''REFRESH_TOKEN_REUSE''"
proof -
  obtain c s1 where run: "refresh_consume sample_env sample_cfg ''tok'' sample_world = (Inr c, s1)"
    and next_tok: "cr_nextToken c = ''R''"
  proof -
    have "case refresh_consume sample_env sample_cfg ''tok'' sample_world of
        (Inr c, _) \<Rightarrow> cr_nextToken c = ''R'' | _ \<Rightarrow> False"
      by code_simp
    with that show ?thesis by (auto split: prod.splits sum.splits)
  qed
  have "refresh_keys_ok sample_world"
    by code_simp
  from refresh_replay_kills_successor [OF this run prod.collapse [symmetric], of 5 7] show ?thesis
    by (auto simp: run next_tok)
qed

lemma no_other_active:
  assumes "refresh_keys_ok s" and "families_linear s"
    and "List.find (usable_refresh (clock s) (refresh_hash env token)) (t_refresh s) = Some r"
    and "x \<in> set (rotated_table env token s)" and "rt_status x = Token_active"
  shows "rt_family_id x \<noteq> rt_family_id r \<and> x \<in> set (t_refresh s)"
proof -
  obtain y where y: "y \<in> set (t_refresh s)"
    and x: "x = (if usable_refresh (clock s) (refresh_hash env token) y then rotate_refresh (clock s) y else y)"
    using assms(4) by (auto simp: rotated_table_def set_update_where)
  from x assms(5) have "x = y" and nu: "\<not> usable_refresh (clock s) (refresh_hash env token) y"
    by (auto split: if_splits)
  moreover have "r \<in> set (t_refresh s)" and "usable_refresh (clock s) (refresh_hash env token) r"
    using find_SomeD [OF assms(3)] by simp_all
  ultimately show ?thesis
    using assms(2,5) y unfolding families_linear_def usable_refresh_def by metis
qed

text \<open>
  Token families are linear. Whatever token is presented, and whatever comes of it, a table in
  which each family has at most one active token is left so; revoking a token or a family keeps it.
\<close>

theorem refresh_families_linear:
  assumes "refresh_keys_ok s" and "families_linear s"
  shows "families_linear (snd (refresh_consume env cfg token s))
    \<and> families_linear (snd (refresh_revokeByToken env token s))
    \<and> families_linear (snd (refresh_revokeFamily family s))"
proof -
  have upd: "families_linear (s\<lparr>t_refresh := update_where p (revoke_refresh now) (t_refresh s), t_sessions := u\<rparr>)"
    and upd': "families_linear (s\<lparr>t_refresh := update_where p (revoke_refresh now) (t_refresh s)\<rparr>)" for p now u
    using assms(2) by (auto simp: families_linear_def)
  have "families_linear (snd (refresh_consume env cfg token s))"
  proof (cases rule: consume_cases [of env token s cfg])
    case unknown
    with assms(2) show ?thesis by simp
  next
    case (theft r)
    then show ?thesis by (simp add: theft_response_def upd)
  next
    case (clash r)
    from no_other_active [OF assms clash(1)] assms(2) show ?thesis
      unfolding clash by (simp add: families_linear_def)
  next
    case (rotate r)
    have other: "rt_family_id r \<noteq> rt_family_id x" "x \<in> set (t_refresh s)"
      if "x \<in> set (rotated_table env token s)" "rt_status x = Token_active" for x
      using no_other_active [OF assms rotate(1) that] by auto
    have same: "x = y" if "x \<in> set (t_refresh s)" "y \<in> set (t_refresh s)" "rt_status x = Token_active"
        "rt_status y = Token_active" "rt_family_id x = rt_family_id y" for x y
      using assms(2) that unfolding families_linear_def by blast
    have fam: "rt_family_id (successor env cfg s r) = rt_family_id r"
      by (simp add: successor_def)
    show ?thesis
      unfolding rotate snd_conv families_linear_def
      by (auto simp: fam dest: other intro: same)
  qed
  then show ?thesis
    by (simp add: refresh_revokeByToken_def refresh_revokeFamily_def refresh_revokeWhere_def bindM_run Let_def upd')
qed

theorem refresh_families_linear_witness:
  "families_linear (snd (refresh_consume sample_env sample_cfg ''tok'' sample_world))"
proof -
  have "refresh_keys_ok sample_world" and "families_linear sample_world"
    by code_simp+
  from refresh_families_linear [OF this, of sample_env sample_cfg "''tok''"] show ?thesis by simp
qed

end
