(* ===== verification/OAuth.thy ===== *)
theory OAuth
  imports Clients Users Refresh_Tokens
begin

text \<open>
  The OAuth 2.0 core: \<^verbatim>\<open>src/modules/oauth/authorization-code.repository.ts\<close> and
  \<^verbatim>\<open>src/modules/oauth/oauth.service.ts\<close> (authorization endpoint, the three grants of the token
  endpoint, introspection, revocation).
\<close>

section \<open>AuthorizationCodeRepository\<close>

definition code_hash_of :: "externals \<Rightarrow> string \<Rightarrow> string" where
  "code_hash_of env code = sha256_hex env code"

record code_params =
  op_clientId :: string
  op_userId :: uuid
  op_redirectUri :: string
  op_scope :: string
  op_nonce :: "string option"
  op_codeChallenge :: "string option"
  op_codeChallengeMethod :: "string option"
  op_ttlSeconds :: int

definition codes_issue :: "externals \<Rightarrow> code_params \<Rightarrow> string act" where
  "codes_issue env params =
     bindM (drawM (rand_b64url env 32)) (\<lambda>code.
     bindM (getM (\<lambda>s. List.find (\<lambda>c. cl_client_id c = op_clientId params) (t_clients s))) (\<lambda>client.
     case client of
       None \<Rightarrow> throwM (DbError ''authorization_codes_client_id_not_null'')
     | Some c \<Rightarrow>
         bindM nowM (\<lambda>now.
         bindM (drawM (rand_uuid env)) (\<lambda>new_id.
         bindM (insertM t_codes (\<lambda>t s. s\<lparr>t_codes := t\<rparr>)
           (\<lambda>r. ac_id r = new_id \<or> ac_code_hash r = code_hash_of env code)
           \<lparr>ac_id = new_id, ac_code_hash = code_hash_of env code, ac_client_id = cl_id c,
            ac_user_id = op_userId params, ac_redirect_uri = op_redirectUri params, ac_scope = op_scope params,
            ac_nonce = op_nonce params, ac_code_challenge = op_codeChallenge params,
            ac_code_challenge_method = op_codeChallengeMethod params,
            ac_expires_at = now + 1000 * op_ttlSeconds params, ac_consumed_at = None\<rparr>
           ''authorization_codes_unique'') (\<lambda>_.
         returnM code)))))"

text \<open>The join with the clients table; \<open>client_ref\<close> is the public identifier of the client.\<close>

definition code_lookup :: "externals \<Rightarrow> string \<Rightarrow> world \<Rightarrow> (code_row \<times> string) option" where
  "code_lookup env code s =
     (case List.find (\<lambda>r. ac_code_hash r = code_hash_of env code) (t_codes s) of
        None \<Rightarrow> None
      | Some row \<Rightarrow>
          (case List.find (\<lambda>c. cl_id c = ac_client_id row) (t_clients s) of
             None \<Rightarrow> None
           | Some c \<Rightarrow> Some (row, cl_client_id c)))"

definition codes_peek :: "externals \<Rightarrow> string \<Rightarrow> string \<Rightarrow> string \<Rightarrow> code_row option act" where
  "codes_peek env code clientId redirectUri =
     bindM (getM (code_lookup env code)) (\<lambda>found.
     bindM nowM (\<lambda>now.
     case found of
       None \<Rightarrow> returnM None
     | Some (row, client_ref) \<Rightarrow>
         if client_ref \<noteq> clientId \<or> ac_redirect_uri row \<noteq> redirectUri then returnM None
         else if ac_consumed_at row \<noteq> None then throwM (CodeReplayError (ac_user_id row) client_ref)
         else if ac_expires_at row < now then returnM None
         else returnM (Some row)))"

definition codes_consume :: "externals \<Rightarrow> string \<Rightarrow> string \<Rightarrow> string \<Rightarrow> code_row option act" where
  "codes_consume env code clientId redirectUri =
     bindM (getM (code_lookup env code)) (\<lambda>found.
     bindM nowM (\<lambda>now.
     case found of
       None \<Rightarrow> returnM None
     | Some (row, client_ref) \<Rightarrow>
         if client_ref \<noteq> clientId \<or> ac_redirect_uri row \<noteq> redirectUri then returnM None
         else if ac_consumed_at row \<noteq> None then throwM (CodeReplayError (ac_user_id row) client_ref)
         else if ac_expires_at row < now then returnM None
         else
           (let p = (\<lambda>r. ac_id r = ac_id row \<and> ac_consumed_at r = None);
                f = (\<lambda>r. r\<lparr>ac_consumed_at := Some now\<rparr>) in
            bindM (getM (\<lambda>s. first_row (updated_rows p f (t_codes s)))) (\<lambda>updated.
            bindM (modifyM (\<lambda>s. s\<lparr>t_codes := update_where p f (t_codes s)\<rparr>)) (\<lambda>_.
            case updated of
              None \<Rightarrow> throwM (CodeReplayError (ac_user_id row) client_ref)
            | Some r \<Rightarrow> returnM (Some r))))))"

definition codes_revokeTokensForReplay :: "uuid \<Rightarrow> string \<Rightarrow> unit act" where
  "codes_revokeTokensForReplay userId clientRef = modifyM (\<lambda>s.
     s\<lparr>t_refresh := update_where (\<lambda>r. rt_user_id r = userId
          \<and> (\<exists>c \<in> set (t_clients s). cl_client_id c = clientRef \<and> rt_client_id r = Some (cl_id c))
          \<and> rt_status r \<in> {Token_active, Token_rotated}) (revoke_refresh (clock s)) (t_refresh s)\<rparr>)"

section \<open>The authorization endpoint\<close>

record authorize_input =
  az_client_id :: string
  az_redirect_uri :: string
  az_scope :: string
  az_nonce :: "string option"
  az_code_challenge :: string
  az_code_challenge_method :: string

definition oauth_fail :: "string \<Rightarrow> string \<Rightarrow> 'a act" where
  "oauth_fail code description = throwM (OAuthTokenError 400 code description)"

definition denied_event :: "string option \<Rightarrow> string \<Rightarrow> string \<Rightarrow> request_context \<Rightarrow> audit_event" where
  "denied_event userId reason clientId ctx =
     with_meta [(''reason'', JStr reason), (''client_id'', JStr clientId)]
       ((ctx_event ''AUTHORIZATION_DENIED'' ctx)\<lparr>ae_user_id := userId\<rparr>)"

definition challenge_ok :: "string \<Rightarrow> bool" where
  "challenge_ok c \<longleftrightarrow> 43 \<le> length c \<and> length c \<le> 128 \<and> list_all (\<lambda>x. js_word x \<or> x = CHR ''-'') c"

definition state_ok :: "string \<Rightarrow> bool" where
  "state_ok st \<longleftrightarrow> 1 \<le> length st \<and> length st \<le> 512
     \<and> list_all (\<lambda>x. js_upper_letter x \<or> js_lower_letter x \<or> js_digit x \<or> x \<in> set ''-_.~'') st"

definition oauth_authorize ::
  "externals \<Rightarrow> config \<Rightarrow> authorize_input \<Rightarrow> string option \<Rightarrow> string option \<Rightarrow> request_context \<Rightarrow> string act" where
  "oauth_authorize env cfg inp authenticatedUserId state ctx =
     bindM (clients_findByClientId (az_client_id inp)) (\<lambda>found.
     case found of
       None \<Rightarrow> oauth_fail ''invalid_client'' ''Unknown client''
     | Some client \<Rightarrow>
       if cl_status client \<noteq> Client_active then
         bindM (audit_record env (denied_event authenticatedUserId ''client_disabled'' (az_client_id inp) ctx)) (\<lambda>_.
         oauth_fail ''unauthorized_client'' ''Client is disabled'')
       else if az_redirect_uri inp \<notin> set (cl_redirect_uris client) then
         bindM (audit_record env (denied_event authenticatedUserId ''redirect_uri_mismatch'' (az_client_id inp) ctx)) (\<lambda>_.
         oauth_fail ''invalid_request'' ''redirect_uri is not registered for this client'')
       else if \<not> list_all (\<lambda>sc. sc \<in> set (cl_allowed_scopes client)) (words (az_scope inp)) then
         oauth_fail ''invalid_scope'' ''Requested scope exceeds what the client is allowed''
       else if az_code_challenge_method inp = ''plain'' \<and> cl_require_pkce client then
         oauth_fail ''invalid_request'' ''Only S256 code_challenge_method is allowed''
       else if \<not> challenge_ok (az_code_challenge inp) then
         oauth_fail ''invalid_request'' ''Malformed code_challenge''
       else if \<not> truthy authenticatedUserId then
         throwM (OAuthTokenError 401 ''login_required'' ''User authentication required'')
       else
         bindM (users_findById env (the authenticatedUserId)) (\<lambda>user.
         if (case user of None \<Rightarrow> True | Some u \<Rightarrow> u_status u \<noteq> User_active) then
           throwM (ForbiddenError ''User account is not active'' ''USER_INACTIVE'')
         else
           bindM (codes_issue env \<lparr>op_clientId = az_client_id inp, op_userId = the authenticatedUserId,
                    op_redirectUri = az_redirect_uri inp, op_scope = az_scope inp, op_nonce = az_nonce inp,
                    op_codeChallenge = Some (az_code_challenge inp),
                    op_codeChallengeMethod = Some (az_code_challenge_method inp),
                    op_ttlSeconds = AUTHORIZATION_CODE_TTL cfg\<rparr>) (\<lambda>code.
           bindM (audit_record env (with_meta [(''client_id'', JStr (az_client_id inp)), (''scope'', JStr (az_scope inp))]
                    (for_user (the authenticatedUserId) (ctx_event ''AUTHORIZATION_GRANTED'' ctx)))) (\<lambda>_.
           returnM (url_set_params env (az_redirect_uri inp) ((''code'', code)
             # (case state of Some st \<Rightarrow> if state_ok st then [(''state'', st)] else [] | None \<Rightarrow> [])))))))"

section \<open>The token endpoint\<close>

record token_form =
  tf_grant_type :: string
  tf_code :: "string option"
  tf_redirect_uri :: "string option"
  tf_client_id :: "string option"
  tf_client_secret :: "string option"
  tf_code_verifier :: "string option"
  tf_scope :: "string option"
  tf_refresh_token :: "string option"

record token_response =
  tr_access_token :: string
  tr_expires_in :: int
  tr_refresh_token :: "string option"
  tr_scope :: string
  tr_id_token :: "string option"

definition oauth_recordClientAuthFailure :: "externals \<Rightarrow> uuid \<Rightarrow> request_context \<Rightarrow> unit act" where
  "oauth_recordClientAuthFailure env clientDbId ctx =
     audit_record env (with_meta [(''reason'', JStr ''client_auth_failed''), (''grant'', JStr ''unknown'')]
       (for_client clientDbId (ctx_event ''USER_LOGIN_FAILED'' ctx)))"

definition oauth_handleCodeReplay :: "externals \<Rightarrow> uuid \<Rightarrow> string \<Rightarrow> request_context \<Rightarrow> unit act" where
  "oauth_handleCodeReplay env userId clientRef ctx =
     bindM (codes_revokeTokensForReplay userId clientRef) (\<lambda>_.
     audit_record env (with_meta [(''kind'', JStr ''authorization_code_replay'')]
       (for_client clientRef (for_user userId (ctx_event ''REFRESH_TOKEN_REUSE_DETECTED'' ctx)))))"

text \<open>The client authentication of the user grants.\<close>

definition oauth_clientAuth :: "externals \<Rightarrow> client_row \<Rightarrow> string option \<Rightarrow> request_context \<Rightarrow> unit act" where
  "oauth_clientAuth env client presentedSecret ctx =
     (if cl_client_type client = Confidential then
        bindM (if truthy presentedSecret then clients_verifySecret env client (the presentedSecret) else returnM False) (\<lambda>good.
        if good then returnM ()
        else
          bindM (oauth_recordClientAuthFailure env (cl_id client) ctx) (\<lambda>_.
          throwM (OAuthTokenError 401 ''invalid_client'' ''Invalid client credentials'')))
      else if truthy presentedSecret then oauth_fail ''invalid_request'' ''Public clients must not authenticate''
      else returnM ())"

definition oauth_id_claims :: "user_row option \<Rightarrow> string \<Rightarrow> string option \<Rightarrow> (string \<times> string) list" where
  "oauth_id_claims user scope nonce =
     (let claim = (\<lambda>name v. case v of None \<Rightarrow> [] | Some x \<Rightarrow> [(name, x)]) in
      (if truthy nonce then claim ''nonce'' nonce else [])
      @ (if contains ''email'' scope then claim ''email'' (map_option u_email user) else [])
      @ (if contains ''profile'' scope then
           claim ''given_name'' (Option.bind user u_first_name) @ claim ''family_name'' (Option.bind user u_last_name)
         else []))"

definition oauth_issueUserTokens ::
  "externals \<Rightarrow> config \<Rightarrow> uuid \<Rightarrow> client_row \<Rightarrow> string \<Rightarrow> string option \<Rightarrow> request_context \<Rightarrow> token_response act" where
  "oauth_issueUserTokens env cfg userId client scope nonce ctx =
     bindM (users_rolesOf userId) (\<lambda>roles.
     bindM (users_permissionsOf userId) (\<lambda>permissions.
     bindM (sessions_create env \<lparr>sp_userId = userId, sp_clientId = Some (cl_id client), sp_ip = rc_ip ctx,
              sp_userAgent = rc_userAgent ctx, sp_deviceId = None, sp_mfaPassed = True,
              sp_ttlSeconds = SESSION_TTL cfg\<rparr>) (\<lambda>session.
     bindM (signAccessToken env cfg \<lparr>ai_sub = userId, ai_scope = scope, ai_roles = roles,
              ai_permissions = permissions, ai_sid = Some (ss_id session), ai_client_id = Some (cl_client_id client),
              ai_amr = Some [''oauth'']\<rparr> None) (\<lambda>signed.
     bindM (refresh_issue env cfg \<lparr>rp_sessionId = ss_id session, rp_userId = userId,
              rp_clientId = Some (cl_id client), rp_scope = scope, rp_familyId = None, rp_previousTokenId = None\<rparr>) (\<lambda>(token, expires).
     bindM (if contains ''openid'' scope then
              bindM (users_findById env userId) (\<lambda>user.
              bindM (signIdToken env cfg (oauth_id_claims user scope nonce) (cl_client_id client) userId (ID_TOKEN_TTL cfg)) (\<lambda>t.
              returnM (Some t)))
            else returnM None) (\<lambda>idToken.
     bindM (audit_record env (with_meta [(''grant'', JStr ''authorization_code''), (''scope'', JStr scope)]
              (for_client (cl_id client) (for_user userId (ctx_event ''TOKEN_ISSUED'' ctx))))) (\<lambda>_.
     bindM nowM (\<lambda>now.
     returnM \<lparr>tr_access_token = it_token signed, tr_expires_in = (it_expiresAt signed - now) div 1000,
              tr_refresh_token = Some token, tr_scope = scope, tr_id_token = idToken\<rparr>))))))))"

definition oauth_onReplay :: "externals \<Rightarrow> request_context \<Rightarrow> code_row option act \<Rightarrow> code_row option act" where
  "oauth_onReplay env ctx m = catchM m (\<lambda>err.
     case err of
       CodeReplayError userId clientRef \<Rightarrow>
         bindM (oauth_handleCodeReplay env userId clientRef ctx) (\<lambda>_.
         oauth_fail ''invalid_grant'' ''Authorization code replay detected - issued tokens revoked'')
     | _ \<Rightarrow> throwM err)"

definition oauth_grantCode ::
  "externals \<Rightarrow> config \<Rightarrow> token_form \<Rightarrow> client_row \<Rightarrow> string \<Rightarrow> string option \<Rightarrow> request_context \<Rightarrow> token_response act" where
  "oauth_grantCode env cfg form client clientId presentedSecret ctx =
     (if \<not> truthy (tf_code form) then oauth_fail ''invalid_request'' ''code is required''
      else if \<not> truthy (tf_redirect_uri form) then oauth_fail ''invalid_request'' ''redirect_uri is required''
      else if \<not> truthy (tf_code_verifier form) then oauth_fail ''invalid_request'' ''PKCE code_verifier is required''
      else
        bindM (oauth_clientAuth env client presentedSecret ctx) (\<lambda>_.
        bindM (oauth_onReplay env ctx (codes_peek env (the (tf_code form)) clientId (the (tf_redirect_uri form)))) (\<lambda>peeked.
        case peeked of
          None \<Rightarrow> oauth_fail ''invalid_grant'' ''Invalid or expired authorization code''
        | Some pk \<Rightarrow>
            if \<not> truthy (ac_code_challenge pk) then oauth_fail ''invalid_grant'' ''Code was issued without PKCE''
            else if \<not> pkce_matches env (the (tf_code_verifier form)) (the (ac_code_challenge pk)) (ac_code_challenge_method pk)
            then oauth_fail ''invalid_grant'' ''PKCE verification failed''
            else
              bindM (oauth_onReplay env ctx (codes_consume env (the (tf_code form)) clientId (the (tf_redirect_uri form)))) (\<lambda>codeRow.
              case codeRow of
                None \<Rightarrow> oauth_fail ''invalid_grant'' ''Invalid or expired authorization code''
              | Some row \<Rightarrow> oauth_issueUserTokens env cfg (ac_user_id row) client (ac_scope row) (ac_nonce row) ctx))))"

definition words_opt :: "string option \<Rightarrow> string list" where
  "words_opt x = (case x of None \<Rightarrow> [] | Some v \<Rightarrow> words v)"

definition oauth_grantRefresh ::
  "externals \<Rightarrow> config \<Rightarrow> token_form \<Rightarrow> client_row \<Rightarrow> string option \<Rightarrow> request_context \<Rightarrow> token_response act" where
  "oauth_grantRefresh env cfg form client presentedSecret ctx =
     (if \<not> truthy (tf_refresh_token form) then oauth_fail ''invalid_request'' ''refresh_token is required''
      else
        (let presented = the (tf_refresh_token form) in
        bindM (oauth_clientAuth env client presentedSecret ctx) (\<lambda>_.
        bindM (catchM (refresh_consume env cfg presented) (\<lambda>err.
                 if is_AuthError err \<and> err_code err = Some ''REFRESH_TOKEN_REUSE'' then
                   bindM (audit_record env (with_meta [(''kind'', JStr ''oauth_refresh_reuse''), (''client_id'', JStr (cl_client_id client))]
                            (ctx_event ''REFRESH_TOKEN_REUSE_DETECTED'' ctx))) (\<lambda>_.
                   throwM (OAuthTokenError 401 ''invalid_grant'' ''Refresh token reuse detected - chain revoked''))
                 else if is_AuthError err \<and> err_code err = Some ''INVALID_REFRESH_TOKEN'' then
                   throwM (OAuthTokenError 401 ''invalid_grant'' ''Invalid or expired refresh token'')
                 else throwM err)) (\<lambda>consumed.
        let row = cr_row consumed in
        if rt_client_id row \<noteq> Some (cl_id client) then
          bindM (refresh_revokeByToken env presented) (\<lambda>_.
          bindM (audit_record env (with_meta [(''kind'', JStr ''client_mismatch'')]
                   (for_user (rt_user_id row) (ctx_event ''REFRESH_TOKEN_REUSE_DETECTED'' ctx)))) (\<lambda>_.
          throwM (OAuthTokenError 401 ''invalid_grant'' ''Token was not issued to this client'')))
        else
          bindM (sessions_findById (rt_session_id row)) (\<lambda>found.
          if (case found of None \<Rightarrow> True | Some session \<Rightarrow> ss_status session \<noteq> Session_active) then
            bindM (refresh_revokeFamily (rt_family_id row)) (\<lambda>_.
            throwM (OAuthTokenError 401 ''invalid_grant'' ''Session is no longer active''))
          else
            (let originalScopes = words (rt_scope row); requested = words_opt (tf_scope form) in
             if list_ex (\<lambda>sc. sc \<notin> set originalScopes) requested then
               oauth_fail ''invalid_scope'' ''Scope exceeds original grant''
             else
               (let scope = (if requested \<noteq> [] then join_with '' '' requested else rt_scope row) in
                bindM (users_rolesOf (rt_user_id row)) (\<lambda>roles.
                bindM (users_permissionsOf (rt_user_id row)) (\<lambda>permissions.
                bindM (signAccessToken env cfg \<lparr>ai_sub = rt_user_id row, ai_scope = scope, ai_roles = roles,
                         ai_permissions = permissions, ai_sid = Some (rt_session_id row),
                         ai_client_id = Some (cl_client_id client), ai_amr = Some [''oauth'']\<rparr> None) (\<lambda>signed.
                bindM (audit_record env (with_meta [(''grant'', JStr ''refresh_token''), (''scope'', JStr scope)]
                         (for_client (cl_id client) (for_user (rt_user_id row) (ctx_event ''TOKEN_ISSUED'' ctx))))) (\<lambda>_.
                bindM nowM (\<lambda>now.
                returnM \<lparr>tr_access_token = it_token signed, tr_expires_in = (it_expiresAt signed - now) div 1000,
                         tr_refresh_token = Some (cr_nextToken consumed), tr_scope = scope, tr_id_token = None\<rparr>))))))))))))"

definition oauth_grantClient ::
  "externals \<Rightarrow> config \<Rightarrow> token_form \<Rightarrow> client_row \<Rightarrow> string option \<Rightarrow> request_context \<Rightarrow> token_response act" where
  "oauth_grantClient env cfg form client presentedSecret ctx =
     (if cl_client_type client = Public then
        throwM (OAuthTokenError 401 ''unauthorized_client'' ''Public clients cannot use client_credentials'')
      else if cl_token_endpoint_auth_method client = Auth_none then
        throwM (OAuthTokenError 401 ''unauthorized_client'' ''This client is not configured for secret authentication'')
      else
        bindM (if truthy presentedSecret then clients_verifySecret env client (the presentedSecret) else returnM False) (\<lambda>good.
        if \<not> good then
          bindM (oauth_recordClientAuthFailure env (cl_id client) ctx) (\<lambda>_.
          throwM (OAuthTokenError 401 ''invalid_client'' ''Invalid client credentials''))
        else if ''client_credentials'' \<notin> set (cl_grant_types client) then
          throwM (OAuthTokenError 401 ''unauthorized_client'' ''Grant type not allowed for this client'')
        else
          (let requested = words_opt (tf_scope form) in
           if requested = [] then oauth_fail ''invalid_scope'' ''scope is required''
           else if \<not> list_all (\<lambda>sc. sc \<in> set (cl_allowed_scopes client)) requested then
             oauth_fail ''invalid_scope'' ''Requested scope exceeds allowance''
           else
             (let scope = join_with '' '' requested in
              bindM (signAccessToken env cfg \<lparr>ai_sub = cl_client_id client, ai_scope = scope, ai_roles = [''service''],
                       ai_permissions = [], ai_sid = None, ai_client_id = Some (cl_client_id client),
                       ai_amr = Some [''client_secret'']\<rparr> None) (\<lambda>signed.
              bindM (audit_record env (with_meta [(''grant'', JStr ''client_credentials''), (''scope'', JStr scope)]
                       (for_client (cl_id client) (ctx_event ''TOKEN_ISSUED'' ctx)))) (\<lambda>_.
              bindM nowM (\<lambda>now.
              returnM \<lparr>tr_access_token = it_token signed, tr_expires_in = (it_expiresAt signed - now) div 1000,
                       tr_refresh_token = None, tr_scope = scope, tr_id_token = None\<rparr>)))))))"

definition oauth_token ::
  "externals \<Rightarrow> config \<Rightarrow> token_form \<Rightarrow> (string \<times> string) option \<Rightarrow> request_context \<Rightarrow> token_response act" where
  "oauth_token env cfg form basicAuth ctx =
     (let clientId = (case basicAuth of Some (c, _) \<Rightarrow> Some c | None \<Rightarrow> tf_client_id form);
          presentedSecret = (case basicAuth of Some (_, x) \<Rightarrow> Some x | None \<Rightarrow> tf_client_secret form) in
      if \<not> truthy clientId then throwM (OAuthTokenError 401 ''invalid_client'' ''Client authentication required'')
      else
        bindM (clients_findByClientId (the clientId)) (\<lambda>found.
        case found of
          None \<Rightarrow> throwM (OAuthTokenError 401 ''invalid_client'' ''Invalid client'')
        | Some client \<Rightarrow>
            if cl_status client \<noteq> Client_active
            then throwM (OAuthTokenError 401 ''invalid_client'' ''Invalid client'')
            else if tf_grant_type form = ''authorization_code''
            then oauth_grantCode env cfg form client (the clientId) presentedSecret ctx
            else if tf_grant_type form = ''refresh_token'' then oauth_grantRefresh env cfg form client presentedSecret ctx
            else if tf_grant_type form = ''client_credentials'' then oauth_grantClient env cfg form client presentedSecret ctx
            else oauth_fail ''unsupported_grant_type'' ''Unsupported grant_type''))"

section \<open>Introspection and revocation\<close>

text \<open>\<open>None\<close> is \<open>{ active: false }\<close>; otherwise the claims shown.\<close>

record introspection =
  ix_sub :: "string option"
  ix_scope :: "string option"
  ix_exp :: "int option"
  ix_iat :: "int option"
  ix_aud :: "string option"
  ix_iss :: "string option"
  ix_jti :: "string option"
  ix_client_id :: "string option"

definition oauth_introspect :: "externals \<Rightarrow> config \<Rightarrow> string \<Rightarrow> introspection option act" where
  "oauth_introspect env cfg token =
     catchM (bindM (verifyAccessToken env cfg token) (\<lambda>p.
       returnM (Some \<lparr>ix_sub = jp_sub p, ix_scope = jp_scope p, ix_exp = jp_exp p, ix_iat = jp_iat p,
                      ix_aud = first_row (jp_aud p), ix_iss = jp_iss p, ix_jti = jp_jti p,
                      ix_client_id = jp_client_id p\<rparr>)))
       (\<lambda>_. returnM None)"

definition oauth_revoke :: "externals \<Rightarrow> config \<Rightarrow> string \<Rightarrow> request_context \<Rightarrow> unit act" where
  "oauth_revoke env cfg token ctx =
     bindM (refresh_revokeByToken env token) (\<lambda>wasRefresh.
     if wasRefresh then
       audit_record env (with_meta [(''kind'', JStr ''refresh_token'')] (ctx_event ''TOKEN_REVOKED'' ctx))
     else
       catchM
         (bindM (verifyAccessToken env cfg token) (\<lambda>payload.
          bindM (whenM (truthy (jp_sid payload)) (sessions_revoke (the (jp_sid payload)) ''token_revocation'')) (\<lambda>_.
          bindM (whenM (truthy (jp_jti payload) \<and> jp_exp payload \<noteq> None \<and> jp_exp payload \<noteq> Some 0)
                   (revokeUntil (the (jp_jti payload)) (the (jp_exp payload)))) (\<lambda>_.
          audit_record env (with_meta [(''kind'', JStr ''access_token'')]
            ((ctx_event ''TOKEN_REVOKED'' ctx)\<lparr>ae_user_id := jp_sub payload\<rparr>))))))
         (\<lambda>_. returnM ()))"

section \<open>Runs\<close>

lemma oauth_fail_run [simp]: "oauth_fail c d s = (Inl (OAuthTokenError 400 c d), s)"
  by (simp add: oauth_fail_def)

lemma verifySecret_run:
  "clients_verifySecret env row sec s = (Inr b, s') \<Longrightarrow>
   s' = s \<and> (b \<longrightarrow> truthy (cl_client_secret_hash row) \<and> argon2_verify env (the (cl_client_secret_hash row)) sec = Some True)"
  by (auto simp: clients_verifySecret_def split: if_splits option.splits)

definition client_authenticated :: "externals \<Rightarrow> client_row \<Rightarrow> string option \<Rightarrow> bool" where
  "client_authenticated env client sec \<longleftrightarrow>
     (if cl_client_type client = Confidential
      then truthy sec \<and> truthy (cl_client_secret_hash client)
        \<and> argon2_verify env (the (cl_client_secret_hash client)) (the sec) = Some True
      else \<not> truthy sec)"

lemma clientAuth_Inr:
  assumes "oauth_clientAuth env client sec ctx s = (Inr u, s1)"
  shows "s1 = s" and "client_authenticated env client sec"
  using assms verifySecret_run
  by (auto simp: oauth_clientAuth_def client_authenticated_def split: if_splits)

lemma clientAuth_ok:
  "client_authenticated env client sec \<Longrightarrow> oauth_clientAuth env client sec ctx s = (Inr (), s)"
  by (auto simp: oauth_clientAuth_def client_authenticated_def clients_verifySecret_def bindM_run split: if_splits)

lemma onReplay_Inr: "oauth_onReplay env ctx m s = (Inr x, s1) \<Longrightarrow> m s = (Inr x, s1)"
  by (auto simp: oauth_onReplay_def catchM_def bindM_run split: prod.splits sum.splits exn.splits)

text \<open>The checks that \<open>peek\<close> and \<open>consume\<close> share.\<close>

definition code_valid :: "externals \<Rightarrow> string \<Rightarrow> string \<Rightarrow> string \<Rightarrow> world \<Rightarrow> code_row \<Rightarrow> bool" where
  "code_valid env code clientId redirectUri s row \<longleftrightarrow>
     code_lookup env code s = Some (row, clientId) \<and> ac_redirect_uri row = redirectUri
   \<and> ac_consumed_at row = None \<and> clock s \<le> ac_expires_at row"

lemma peek_Some:
  assumes "codes_peek env code clientId redirectUri s = (Inr (Some row), s1)"
  shows "s1 = s" and "code_valid env code clientId redirectUri s row"
  using assms by (auto simp: codes_peek_def code_valid_def bindM_run split: option.splits if_splits)

lemma code_lookup_set: "code_lookup env code s = Some (row, ref) \<Longrightarrow> row \<in> set (t_codes s) \<and> ac_code_hash row = code_hash_of env code"
  by (auto simp: code_lookup_def dest: find_SomeD split: option.splits)

definition consume_code :: "timestamp \<Rightarrow> code_row \<Rightarrow> code_row" where
  "consume_code now r = r\<lparr>ac_consumed_at := Some now\<rparr>"

lemma consume_code_simps [simp]:
  "ac_id (consume_code now r) = ac_id r" "ac_code_hash (consume_code now r) = ac_code_hash r"
  "ac_client_id (consume_code now r) = ac_client_id r" "ac_user_id (consume_code now r) = ac_user_id r"
  "ac_scope (consume_code now r) = ac_scope r" "ac_nonce (consume_code now r) = ac_nonce r"
  "ac_redirect_uri (consume_code now r) = ac_redirect_uri r" "ac_consumed_at (consume_code now r) = Some now"
  by (simp_all add: consume_code_def)

definition consumed_codes :: "code_row \<Rightarrow> world \<Rightarrow> code_row list" where
  "consumed_codes row s =
     update_where (\<lambda>r. ac_id r = ac_id row \<and> ac_consumed_at r = None) (consume_code (clock s)) (t_codes s)"

definition codes_ok :: "world \<Rightarrow> bool" where
  "codes_ok s \<longleftrightarrow> distinct (map ac_code_hash (t_codes s)) \<and> distinct (map ac_id (t_codes s))"

lemma codes_ok_keys:
  assumes "codes_ok s" and "r \<in> set (t_codes s)" and "r' \<in> set (t_codes s)"
  shows "ac_code_hash r = ac_code_hash r' \<Longrightarrow> r = r'" and "ac_id r = ac_id r' \<Longrightarrow> r = r'"
  using assms distinct_key_eq [of ac_code_hash "t_codes s" r r'] distinct_key_eq [of ac_id "t_codes s" r r']
  by (simp_all add: codes_ok_def)

lemma consume_eq:
  "codes_consume env code clientId redirectUri s =
    (case code_lookup env code s of
       None \<Rightarrow> (Inr None, s)
     | Some (row, client_ref) \<Rightarrow>
         if client_ref \<noteq> clientId \<or> ac_redirect_uri row \<noteq> redirectUri then (Inr None, s)
         else if ac_consumed_at row \<noteq> None then (Inl (CodeReplayError (ac_user_id row) client_ref), s)
         else if ac_expires_at row < clock s then (Inr None, s)
         else
           (case List.find (\<lambda>r. ac_id r = ac_id row \<and> ac_consumed_at r = None) (t_codes s) of
              None \<Rightarrow> (Inl (CodeReplayError (ac_user_id row) client_ref), s\<lparr>t_codes := consumed_codes row s\<rparr>)
            | Some r \<Rightarrow> (Inr (Some (consume_code (clock s) r)), s\<lparr>t_codes := consumed_codes row s\<rparr>)))"
  by (auto simp: codes_consume_def bindM_run Let_def first_row_updated consumed_codes_def consume_code_def [abs_def]
      split: option.splits)

lemma consume_Some:
  assumes "codes_ok s" and "codes_consume env code clientId redirectUri s = (Inr (Some r), s1)"
  obtains row where "code_valid env code clientId redirectUri s row" and "r = consume_code (clock s) row"
    and "s1 = s\<lparr>t_codes := consumed_codes row s\<rparr>"
proof -
  obtain row where valid: "code_valid env code clientId redirectUri s row"
    and rest: "(case List.find (\<lambda>r. ac_id r = ac_id row \<and> ac_consumed_at r = None) (t_codes s) of
              None \<Rightarrow> (Inl (CodeReplayError (ac_user_id row) clientId), s\<lparr>t_codes := consumed_codes row s\<rparr>)
            | Some r \<Rightarrow> (Inr (Some (consume_code (clock s) r)), s\<lparr>t_codes := consumed_codes row s\<rparr>)) = (Inr (Some r), s1)"
    using assms(2) by (auto simp: consume_eq code_valid_def split: option.splits if_splits)
  then obtain r0 where r0: "List.find (\<lambda>r. ac_id r = ac_id row \<and> ac_consumed_at r = None) (t_codes s) = Some r0"
    and r: "r = consume_code (clock s) r0" and s1: "s1 = s\<lparr>t_codes := consumed_codes row s\<rparr>"
    by (auto split: option.splits)
  have "r0 = row"
    using codes_ok_keys(2) [OF assms(1)] find_SomeD [OF r0] valid code_lookup_set by (auto simp: code_valid_def)
  with that [OF valid _ s1] r show ?thesis by simp
qed

definition code_spent :: "externals \<Rightarrow> string \<Rightarrow> world \<Rightarrow> bool" where
  "code_spent env code s \<longleftrightarrow>
     (\<exists>r \<in> set (t_codes s). ac_code_hash r = code_hash_of env code \<and> ac_consumed_at r \<noteq> None)"

lemma spent_consumed_codes:
  "code_spent env k s \<Longrightarrow> code_spent env k (s\<lparr>t_codes := consumed_codes row s\<rparr>)"
  by (auto simp: code_spent_def consumed_codes_def intro!: bexI)

lemma valid_consumed_spent:
  "code_valid env code c u s row \<Longrightarrow> code_spent env code (s\<lparr>t_codes := consumed_codes row s\<rparr>)"
  using code_lookup_set [of env code s row c]
  by (auto simp: code_spent_def consumed_codes_def code_valid_def intro!: bexI [of _ row])

text \<open>
  The code repository as a provider of the single-use contract. Each code is presented with some
  client and redirect URI, given by an arbitrary function.
\<close>

interpretation auth_code: single_use
  "\<lambda>code s. flat_yield (codes_consume env code (fst (bnd code)) (snd (bnd code)) s)" "code_spent env" codes_ok
proof
  fix s k k' r s'
  assume ok: "codes_ok s"
  show "codes_ok (snd (flat_yield (codes_consume env k (fst (bnd k)) (snd (bnd k)) s)))"
    using ok by (auto simp: flat_yield_def consume_eq codes_ok_def consumed_codes_def map_update_where
        split: option.splits if_splits)
  show "flat_yield (codes_consume env k (fst (bnd k)) (snd (bnd k)) s) = (Some r, s') \<Longrightarrow> code_spent env k s'"
  proof -
    assume "flat_yield (codes_consume env k (fst (bnd k)) (snd (bnd k)) s) = (Some r, s')"
    then have "codes_consume env k (fst (bnd k)) (snd (bnd k)) s = (Inr (Some r), s')"
      by (auto simp: flat_yield_def split: prod.splits sum.splits)
    then show ?thesis
      by (rule consume_Some [OF ok]) (simp add: valid_consumed_spent)
  qed
  assume spent: "code_spent env k s"
  then obtain r0 where r0: "r0 \<in> set (t_codes s)" "ac_code_hash r0 = code_hash_of env k" "ac_consumed_at r0 \<noteq> None"
    unfolding code_spent_def by blast
  have "ac_consumed_at row \<noteq> None" if "code_lookup env k s = Some (row, ref)" for row ref
  proof -
    have "row = r0"
      by (rule codes_ok_keys(1) [OF ok _ r0(1)]) (simp_all add: code_lookup_set [OF that] r0(2))
    with r0(3) show ?thesis by simp
  qed
  then show "fst (flat_yield (codes_consume env k (fst (bnd k)) (snd (bnd k)) s)) = None"
    by (auto simp: flat_yield_def consume_eq split: option.splits)
  show "code_spent env k (snd (flat_yield (codes_consume env k' (fst (bnd k')) (snd (bnd k')) s)))"
    using spent spent_consumed_codes
    by (auto simp: flat_yield_def consume_eq split: option.splits if_splits)
qed

end
