(* ===== verification/Js_Division.thy ===== *)
theory Js_Division
  imports Passwords
begin

text \<open>
  \<open>String(a / b)\<close> of JavaScript for integers: the quotient is rounded to the nearest double, and the text
  is the shortest decimal numeral that is read back as that double. The mail of
  \<^verbatim>\<open>src/modules/auth/auth.service.ts\<close> shows a life time in minutes this way.
\<close>

section \<open>Rounding to a double\<close>

function bit_length :: "int \<Rightarrow> int" where
  "bit_length n = (if n \<le> 0 then 0 else 1 + bit_length (n div 2))"
  by auto
termination
  by (relation "measure nat") auto

declare bit_length.simps [simp del]

text \<open>The integer nearest to \<open>p / q\<close>, the even one of two.\<close>

definition half_even :: "int \<Rightarrow> int \<Rightarrow> int" where
  "half_even p q = (let d = p div q; r = p mod q in if q < 2 * r \<or> q = 2 * r \<and> odd d then d + 1 else d)"

text \<open>Numerator and denominator of \<open>p / q\<close> divided by a power of \<open>b\<close>.\<close>

definition over_power :: "int \<Rightarrow> int \<Rightarrow> int \<Rightarrow> int \<Rightarrow> int \<times> int" where
  "over_power b p q e = (if 0 \<le> e then (p, q * b ^ nat e) else (p * b ^ nat (- e), q))"

text \<open>The double nearest to \<open>p / q\<close>: a mantissa of 53 bits and a power of two.\<close>

definition nearest_double :: "int \<Rightarrow> int \<Rightarrow> int \<times> int" where
  "nearest_double p q =
     (let e0 = bit_length p - bit_length q - 52;
          e = (case over_power 2 p q e0 of (a, b) \<Rightarrow> if a < 2 ^ 52 * b then e0 - 1 else e0);
          m = (case over_power 2 p q e of (a, b) \<Rightarrow> half_even a b) in
      if m = 2 ^ 53 then (2 ^ 52, e + 1) else (m, e))"

section \<open>The shortest numeral\<close>

function int_numeral :: "int \<Rightarrow> string" where
  "int_numeral n = (if n < 10 then [char_of (48 + n)] else int_numeral (n div 10) @ [char_of (48 + n mod 10)])"
  by auto
termination
  by (relation "measure nat") auto

function leading_zeros :: "int \<Rightarrow> int \<Rightarrow> int" where
  "leading_zeros p q = (if p \<le> 0 \<or> q \<le> 10 * p then 0 else 1 + leading_zeros (10 * p) q)"
  by auto
termination
  by (relation "measure (\<lambda>(p, q). nat (q - p))") auto

declare int_numeral.simps [simp del] leading_zeros.simps [simp del]

text \<open>The \<open>n\<close> for which \<open>p / q\<close> is at least ten to the power of \<open>n - 1\<close> and less than ten to the power of \<open>n\<close>.\<close>

definition decimal_point :: "int \<Rightarrow> int \<Rightarrow> int" where
  "decimal_point p q = (if q \<le> p then int (length (int_numeral (p div q))) else - leading_zeros p q)"

text \<open>
  With \<open>k\<close> digits or more, which are returned with the power of ten of the last one: seventeen always tell a
  double from all others.
\<close>

fun shortest :: "nat \<Rightarrow> int \<times> int \<Rightarrow> int \<Rightarrow> int \<Rightarrow> int \<Rightarrow> int \<Rightarrow> int \<times> int" where
  "shortest 0 x p q n k = (case over_power 10 p q (n - k) of (a, b) \<Rightarrow> half_even a b, n - k)"
| "shortest (Suc fuel) x p q n k =
     (let ds = (case over_power 10 p q (n - k) of (a, b) \<Rightarrow> half_even a b) in
      if (case over_power 10 ds 1 (k - n) of (a, b) \<Rightarrow> nearest_double a b) = x then (ds, n - k)
      else shortest fuel x p q n (k + 1))"

text \<open>A power of ten may be rounded up to: its zeros are no digits.\<close>

definition strip_zeros :: "string \<Rightarrow> string" where
  "strip_zeros ds = rev (dropWhile (\<lambda>c. c = CHR ''0'') (rev ds))"

definition numeral_text :: "string \<Rightarrow> int \<Rightarrow> string" where
  "numeral_text ds n =
     (let k = int (length ds) in
      if k \<le> n \<and> n \<le> 21 then ds @ replicate (nat (n - k)) (CHR ''0'')
      else if 0 < n \<and> n \<le> 21 then take (nat n) ds @ ''.'' @ drop (nat n) ds
      else if - 6 < n \<and> n \<le> 0 then ''0.'' @ replicate (nat (- n)) (CHR ''0'') @ ds
      else take 1 ds @ (if k = 1 then [] else ''.'' @ drop 1 ds) @ ''e'' @ (if n - 1 < 0 then ''-'' else ''+'')
        @ int_numeral \<bar>n - 1\<bar>)"

definition js_divide :: "int \<Rightarrow> int \<Rightarrow> string" where
  "js_divide a b =
     (if a = 0 then ''0''
      else
        (let x = nearest_double \<bar>a\<bar> b;
             (p, q) = over_power 2 (fst x) 1 (- snd x);
             (digits, e) = shortest 16 x p q (decimal_point p q) 1;
             ds = int_numeral digits in
         (if a < 0 then ''-'' else []) @ numeral_text (strip_zeros ds) (int (length ds) + e)))"

lemma js_divide_examples:
  "js_divide 1800 60 = ''30''" "js_divide 90 60 = ''1.5''" "js_divide 100 60 = ''1.6666666666666667''"
  "js_divide 1 60 = ''0.016666666666666666''" "js_divide (- 1000) 60 = ''-16.666666666666668''"
  by code_simp+

end
