(* ===== verification/Auth.thy ===== *)
theory Auth
  imports Users Refresh_Tokens Frames Js_Division
begin

text \<open>
  \<^verbatim>\<open>src/modules/auth/auth.service.ts\<close>: login, completion of the second factor, refresh, logout,
  profile and password reset, composed of the operations of the other services. The lemmas at the end
  state what a login needs, what it issues, and which accounts pass its gates.
\<close>

section \<open>Results\<close>

record login_success =
  ls_access_token :: string
  ls_expires_in :: int
  ls_refresh_token :: string
  ls_refresh_expires_at :: timestamp
  ls_scope :: string
  ls_roles :: "string list"
  ls_user_id :: uuid
  ls_user_email :: string
  ls_user_status :: "user_status option"

datatype login_result = Login_success login_success | Login_mfa_required string

section \<open>Issuing tokens\<close>

definition defaultScopeForRoles :: "string list \<Rightarrow> string" where
  "defaultScopeForRoles roles =
     join_with '' '' ([''openid'', ''profile'', ''email'', ''api.read'']
       @ (if ''admin'' \<in> set roles then [''api.write''] else []))"

definition expires_in :: "timestamp \<Rightarrow> timestamp \<Rightarrow> int" where
  "expires_in expiresAt now = (expiresAt - now) div 1000"

definition jstrs :: "string list \<Rightarrow> jval" where
  "jstrs xs = JArr (map JStr xs)"

definition auth_issueSessionTokensForSession ::
  "externals \<Rightarrow> config \<Rightarrow> uuid \<Rightarrow> uuid \<Rightarrow> string list \<Rightarrow> request_context \<Rightarrow> login_success act" where
  "auth_issueSessionTokensForSession env cfg sessionId userId amr ctx =
     bindM (users_findById env userId) (\<lambda>found.
     case found of
       None \<Rightarrow> throwM (AuthError ''User not found'' ''USER_NOT_FOUND'')
     | Some user \<Rightarrow>
         bindM (users_rolesOf userId) (\<lambda>roles.
         bindM (users_permissionsOf userId) (\<lambda>permissions.
         let scope = defaultScopeForRoles roles in
         bindM (signAccessToken env cfg \<lparr>ai_sub = userId, ai_scope = scope, ai_roles = roles,
                  ai_permissions = permissions, ai_sid = Some sessionId, ai_client_id = None, ai_amr = Some amr\<rparr> None) (\<lambda>signed.
         bindM (refresh_issue env cfg \<lparr>rp_sessionId = sessionId, rp_userId = userId, rp_clientId = None,
                  rp_scope = scope, rp_familyId = None, rp_previousTokenId = None\<rparr>) (\<lambda>(refresh_token, refresh_expires).
         bindM (users_setLastLogin userId) (\<lambda>_.
         bindM (users_clearLockAndFailures userId) (\<lambda>_.
         bindM (audit_record env (with_meta [(''session_id'', JStr sessionId), (''amr'', jstrs amr)]
                  (for_user userId (with_agent ctx (ctx_event ''USER_LOGIN_SUCCESS'' ctx))))) (\<lambda>_.
         bindM (audit_record env (with_meta [(''kind'', JStr ''access+refresh''), (''session_id'', JStr sessionId)]
                  (for_user userId (ctx_event ''TOKEN_ISSUED'' ctx)))) (\<lambda>_.
         bindM nowM (\<lambda>now.
         returnM \<lparr>ls_access_token = it_token signed, ls_expires_in = expires_in (it_expiresAt signed) now,
                  ls_refresh_token = refresh_token, ls_refresh_expires_at = refresh_expires, ls_scope = scope,
                  ls_roles = roles, ls_user_id = u_id user, ls_user_email = u_email user,
                  ls_user_status = Some (u_status user)\<rparr>))))))))))"

definition new_session :: "externals \<Rightarrow> config \<Rightarrow> uuid \<Rightarrow> request_context \<Rightarrow> bool \<Rightarrow> session_row act" where
  "new_session env cfg userId ctx mfaPassed =
     sessions_create env \<lparr>sp_userId = userId, sp_clientId = None, sp_ip = rc_ip ctx, sp_userAgent = rc_userAgent ctx,
       sp_deviceId = Some (deviceFingerprint env (case rc_userAgent ctx of Some a \<Rightarrow> a | None \<Rightarrow> [])),
       sp_mfaPassed = mfaPassed, sp_ttlSeconds = SESSION_TTL cfg\<rparr>"

definition auth_issueSessionTokens ::
  "externals \<Rightarrow> config \<Rightarrow> uuid \<Rightarrow> request_context \<Rightarrow> string list \<Rightarrow> login_success act" where
  "auth_issueSessionTokens env cfg userId ctx amr =
     bindM (new_session env cfg userId ctx (''mfa'' \<in> set amr)) (\<lambda>session.
     auth_issueSessionTokensForSession env cfg (ss_id session) userId amr ctx)"

definition device_key :: "externals \<Rightarrow> uuid \<Rightarrow> string \<Rightarrow> string" where
  "device_key env userId userAgent = redis_key [''risk'', ''device'', userId, deviceFingerprint env userAgent]"

definition auth_isKnownDevice :: "externals \<Rightarrow> uuid \<Rightarrow> request_context \<Rightarrow> bool act" where
  "auth_isKnownDevice env userId ctx =
     (if \<not> truthy (rc_userAgent ctx) \<or> \<not> truthy (rc_ip ctx) then returnM False
      else
        (let key = device_key env userId (the (rc_userAgent ctx)) in
         bindM (redis_get key) (\<lambda>seen.
         if seen = None \<or> seen = Some (RStr []) then
           bindM (redis_set key (RStr (the (rc_ip ctx))) (Some (60 * 60 * 24 * 30))) (\<lambda>_. returnM False)
         else returnM True)))"

section \<open>Login\<close>

definition signals_json :: "(string \<times> string option) list \<Rightarrow> jval" where
  "signals_json sgs = JArr (map (\<lambda>(n, d). JObj ((''signal'', JStr n)
     # (case d of None \<Rightarrow> [] | Some x \<Rightarrow> [(''detail'', JStr x)]))) sgs)"

definition login_failed :: "externals \<Rightarrow> config \<Rightarrow> user_row \<Rightarrow> request_context \<Rightarrow> unit act" where
  "login_failed env cfg user ctx =
     bindM (users_recordFailedLogin (u_id user)) (\<lambda>_.
     let failures = u_failed_login_count user + 1 in
     bindM (whenM (MAX_FAILED_LOGINS cfg \<le> failures)
       (bindM nowM (\<lambda>now.
        bindM (users_lockUntil (u_id user) (now + LOCKOUT_MINUTES cfg * 60000)) (\<lambda>_.
        audit_record env (with_meta [(''failures'', JNum failures)]
          (for_user (u_id user) (with_agent ctx (ctx_event ''USER_LOCKED'' ctx)))))))) (\<lambda>_.
     audit_record env (with_meta [(''reason'', JStr ''bad_password''), (''failures'', JNum failures)]
       (for_user (u_id user) (with_agent ctx (ctx_event ''USER_LOGIN_FAILED'' ctx))))))"

definition login_risk :: "externals \<Rightarrow> config \<Rightarrow> user_row \<Rightarrow> request_context \<Rightarrow> high_action act" where
  "login_risk env cfg user ctx =
     bindM (auth_isKnownDevice env (u_id user) ctx) (\<lambda>knownDevice.
     bindM (evaluateLogin env cfg \<lparr>rk_userId = u_id user, rk_ip = rc_ip ctx, rk_userAgent = rc_userAgent ctx,
              rk_knownDevice = knownDevice\<rparr>) (\<lambda>evaluation.
     let action = (if rv_level evaluation = Risk_high then RISK_HIGH_SCORE_ACTION cfg else Action_allow) in
     bindM (whenM (rv_level evaluation = Risk_high \<or> rv_level evaluation = Risk_medium)
       (audit_record env (with_meta [(''score'', JNum (rv_score evaluation)), (''signals'', signals_json (rv_signals evaluation))]
          (for_user (u_id user) (with_agent ctx (ctx_event ''SUSPICIOUS_LOGIN'' ctx)))))) (\<lambda>_.
     bindM (riskEvents_record (u_id user) ''login'' evaluation action ctx) (\<lambda>_.
     returnM action))))"

definition login_gate :: "timestamp \<Rightarrow> user_row \<Rightarrow> exn option" where
  "login_gate now user =
     (if u_status user = User_disabled then Some (ForbiddenError ''Account is disabled'' ''ACCOUNT_DISABLED'')
      else (case u_locked_until user of
          Some t \<Rightarrow> if now < t then Some (AppError 423 ''ACCOUNT_LOCKED'' ''Account temporarily locked'') else None
        | None \<Rightarrow> None))"

text \<open>Lines 129 to 191 of the source: what follows once the account and its password are accepted.\<close>

definition login_continue :: "externals \<Rightarrow> config \<Rightarrow> user_row \<Rightarrow> request_context \<Rightarrow> login_result act" where
  "login_continue env cfg user ctx =
     bindM (login_risk env cfg user ctx) (\<lambda>action.
     if action = Action_deny then
       bindM (audit_record env (with_meta [(''reason'', JStr ''high_risk_login'')]
         (for_user (u_id user) (ctx_event ''AUTHORIZATION_DENIED'' ctx)))) (\<lambda>_.
       throwM (AppError 403 ''RISK_DENIED'' ''Login denied due to suspicious activity''))
     else
       bindM (mfa_hasActiveMethod env (u_id user)) (\<lambda>hasMfa.
       if hasMfa \<or> action = Action_mfa then
         if \<not> hasMfa \<and> action = Action_mfa then
           throwM (AppError 403 ''MFA_ENROLLMENT_REQUIRED''
             ''Additional verification is required. Enroll a second factor first.'')
         else
           bindM (new_session env cfg (u_id user) ctx False) (\<lambda>session.
           bindM (mfa_createLoginChallenge env cfg (u_id user) (ss_id session)) (\<lambda>challengeId.
           returnM (Login_mfa_required challengeId)))
       else
         bindM (auth_issueSessionTokens env cfg (u_id user) ctx [''pwd'']) (\<lambda>r.
         returnM (Login_success r))))"

definition auth_login :: "externals \<Rightarrow> config \<Rightarrow> string \<Rightarrow> string \<Rightarrow> request_context \<Rightarrow> login_result act" where
  "auth_login env cfg email password ctx =
     bindM (users_findByEmail email) (\<lambda>found.
     case found of
       None \<Rightarrow>
         bindM (audit_record env (with_meta [(''reason'', JStr ''unknown_email'')]
           (with_agent ctx (ctx_event ''USER_LOGIN_FAILED'' ctx)))) (\<lambda>_.
         throwM InvalidCredentialsError)
     | Some user \<Rightarrow>
         bindM nowM (\<lambda>now.
         case login_gate now user of
           Some e \<Rightarrow> throwM e
         | None \<Rightarrow>
             if \<not> verifyPassword env (u_password_hash user) password then
               bindM (login_failed env cfg user ctx) (\<lambda>_. throwM InvalidCredentialsError)
             else if u_status user = User_pending_verification then
               throwM (AuthError ''Email address not verified'' ''EMAIL_NOT_VERIFIED'')
             else login_continue env cfg user ctx))"

section \<open>Second factor, refresh, logout\<close>

definition auth_completeMfaChallenge ::
  "externals \<Rightarrow> config \<Rightarrow> string \<Rightarrow> string \<Rightarrow> request_context \<Rightarrow> login_success act" where
  "auth_completeMfaChallenge env cfg challengeId code ctx =
     bindM (mfa_verifyLoginChallenge env cfg challengeId code) (\<lambda>sessionId.
     bindM (sessions_findById sessionId) (\<lambda>found.
     case found of
       None \<Rightarrow> throwM (AuthError ''Session no longer valid'' ''SESSION_INVALID'')
     | Some session \<Rightarrow>
         if ss_status session \<noteq> Session_active
         then throwM (AuthError ''Session no longer valid'' ''SESSION_INVALID'')
         else
           bindM (audit_record env (for_user (ss_user_id session) (ctx_event ''MFA_CHALLENGE_SUCCEEDED'' ctx))) (\<lambda>_.
           auth_issueSessionTokensForSession env cfg (ss_id session) (ss_user_id session) [''pwd'', ''mfa''] ctx)))"

definition auth_refresh :: "externals \<Rightarrow> config \<Rightarrow> string \<Rightarrow> request_context \<Rightarrow> login_success act" where
  "auth_refresh env cfg refreshToken ctx =
     catchM
       (bindM (refresh_consume env cfg refreshToken) (\<lambda>c.
        let row = cr_row c in
        bindM (sessions_findById (rt_session_id row)) (\<lambda>found.
        bindM (case found of
                 Some session \<Rightarrow> if ss_status session = Session_active then returnM session
                   else bindM (refresh_revokeFamily (rt_family_id row)) (\<lambda>_. throwM (AuthError ''Session revoked'' ''SESSION_REVOKED''))
               | None \<Rightarrow> bindM (refresh_revokeFamily (rt_family_id row)) (\<lambda>_. throwM (AuthError ''Session revoked'' ''SESSION_REVOKED''))) (\<lambda>session.
        bindM (users_rolesOf (rt_user_id row)) (\<lambda>roles.
        bindM (users_permissionsOf (rt_user_id row)) (\<lambda>permissions.
        let amr = (if ss_mfa_passed session then [''pwd'', ''mfa''] else [''pwd'']) in
        bindM (signAccessToken env cfg \<lparr>ai_sub = rt_user_id row, ai_scope = rt_scope row, ai_roles = roles,
                 ai_permissions = permissions, ai_sid = Some (ss_id session), ai_client_id = rt_client_id row,
                 ai_amr = Some amr\<rparr> None) (\<lambda>signed.
        bindM (sessions_touch (ss_id session)) (\<lambda>_.
        bindM (audit_record env (with_meta [(''session_id'', JStr (ss_id session))]
                 ((for_user (rt_user_id row) (ctx_event ''TOKEN_REFRESHED'' ctx))\<lparr>ae_client_id := rt_client_id row\<rparr>))) (\<lambda>_.
        bindM nowM (\<lambda>now.
        returnM \<lparr>ls_access_token = it_token signed, ls_expires_in = expires_in (it_expiresAt signed) now,
                 ls_refresh_token = cr_nextToken c, ls_refresh_expires_at = cr_expiresAt c, ls_scope = rt_scope row,
                 ls_roles = roles, ls_user_id = rt_user_id row, ls_user_email = [], ls_user_status = None\<rparr>))))))))))
       (\<lambda>err.
          bindM (whenM (err_code err = Some ''REFRESH_TOKEN_REUSE'')
            (audit_record env (ctx_event ''REFRESH_TOKEN_REUSE_DETECTED'' ctx))) (\<lambda>_.
          throwM err))"

definition auth_logout ::
  "externals \<Rightarrow> uuid \<Rightarrow> uuid option \<Rightarrow> bool \<Rightarrow> string option \<Rightarrow> request_context \<Rightarrow> int act" where
  "auth_logout env userId sessionId allSessions refreshToken ctx =
     (if allSessions then
        bindM (sessions_revokeAllForUser userId ''logout_all'') (\<lambda>count.
        bindM (audit_record env (with_meta [(''scope'', JStr ''all_sessions''), (''revoked_sessions'', JNum count)]
                 (for_user userId (ctx_event ''USER_LOGOUT'' ctx)))) (\<lambda>_.
        returnM count))
      else
        bindM (whenM (truthy sessionId) (sessions_revoke (the sessionId) ''logout'')) (\<lambda>_.
        bindM (whenM (truthy refreshToken) (bindM (refresh_revokeByToken env (the refreshToken)) (\<lambda>_. returnM ()))) (\<lambda>_.
        bindM (audit_record env (with_meta [(''scope'', JStr (if truthy sessionId then ''current_session'' else ''token_only''))]
                 (for_user userId (ctx_event ''USER_LOGOUT'' ctx)))) (\<lambda>_.
        returnM (if truthy sessionId then 1 else 0)))))"

section \<open>Profile and password reset\<close>

record profile =
  pf_id :: uuid
  pf_email :: string
  pf_first_name :: "string option"
  pf_last_name :: "string option"
  pf_status :: user_status
  pf_roles :: "string list"
  pf_permissions :: "string list"
  pf_mfa_enabled :: bool

definition auth_me :: "externals \<Rightarrow> string \<Rightarrow> profile act" where
  "auth_me env userId =
     bindM (users_findById env userId) (\<lambda>found.
     case found of
       None \<Rightarrow> throwM (AuthError ''User not found'' ''USER_NOT_FOUND'')
     | Some user \<Rightarrow>
         bindM (users_rolesOf userId) (\<lambda>roles.
         bindM (users_permissionsOf userId) (\<lambda>permissions.
         bindM (mfa_hasActiveMethod env userId) (\<lambda>mfaEnabled.
         returnM \<lparr>pf_id = u_id user, pf_email = u_email user, pf_first_name = u_first_name user,
                  pf_last_name = u_last_name user, pf_status = u_status user, pf_roles = roles,
                  pf_permissions = permissions, pf_mfa_enabled = mfaEnabled\<rparr>))))"

definition reset_mail :: "config \<Rightarrow> string \<Rightarrow> string \<Rightarrow> email_message" where
  "reset_mail cfg to token = \<lparr>em_to = to, em_subject = ''Reset your password'',
     em_text = ''Use this token to reset your password:'' @ nl2 @ token @ nl2
       @ ''Expires in '' @ js_divide (PASSWORD_RESET_TTL cfg) 60 @ '' minutes.'', em_html = None\<rparr>"

definition auth_forgotPassword :: "externals \<Rightarrow> config \<Rightarrow> string \<Rightarrow> request_context \<Rightarrow> unit act" where
  "auth_forgotPassword env cfg email ctx =
     bindM (users_findByEmail email) (\<lambda>found.
     case found of
       Some user \<Rightarrow>
         if u_status user \<noteq> User_disabled then
           bindM (issuePasswordReset env cfg (u_id user)) (\<lambda>token.
           bindM (send_mail env (reset_mail cfg (u_email user) token)) (\<lambda>_.
           audit_record env (for_user (u_id user) (with_agent ctx (ctx_event ''PASSWORD_RESET_REQUESTED'' ctx)))))
         else returnM ()
     | None \<Rightarrow> returnM ())"

definition auth_resetPassword ::
  "externals \<Rightarrow> config \<Rightarrow> string \<Rightarrow> string \<Rightarrow> request_context \<Rightarrow> unit act" where
  "auth_resetPassword env cfg token newPassword ctx =
     bindM (checkPasswordPolicy cfg newPassword) (\<lambda>_.
     bindM (consumePasswordReset env token) (\<lambda>consumed.
     case consumed of
       None \<Rightarrow> throwM (AppError 400 ''INVALID_RESET_TOKEN'' ''Invalid or expired reset token'')
     | Some userId \<Rightarrow>
         bindM (hashPassword env newPassword) (\<lambda>passwordHash.
         bindM (users_updatePasswordHash userId passwordHash) (\<lambda>_.
         bindM (sessions_revokeAllForUser userId ''password_reset'') (\<lambda>_.
         bindM (audit_record env (for_user userId (ctx_event ''PASSWORD_RESET_COMPLETED'' ctx))) (\<lambda>_.
         audit_record env (with_meta [(''via'', JStr ''reset_token'')] (for_user userId (ctx_event ''PASSWORD_CHANGED'' ctx)))))))))"

section \<open>Runs\<close>

lemma keeps_core_login_risk: "keeps_core (login_risk env cfg user ctx)"
  unfolding login_risk_def auth_isKnownDevice_def Let_def by (intro pres)

lemma new_session_run:
  assumes "new_session env cfg userId ctx mfa s = (Inr row, s')"
  shows "t_sessions s' = t_sessions s @ [row]" and "ss_user_id row = userId" and "ss_status row = Session_active"
    and "ss_mfa_passed row = mfa" and "\<forall>r \<in> set (t_sessions s). ss_id r \<noteq> ss_id row"
    and "t_users s' = t_users s" and "t_refresh s' = t_refresh s" and "t_mfa s' = t_mfa s" and "clock s' = clock s"
  using assms by (auto simp: new_session_def sessions_create_def insertM_Inr)

definition issue_family :: "externals \<Rightarrow> refresh_params \<Rightarrow> world \<Rightarrow> uuid" where
  "issue_family env params s = (case rp_familyId params of Some f \<Rightarrow> f | None \<Rightarrow> rand_uuid env (Suc (draws s)))"

definition issue_draws :: "refresh_params \<Rightarrow> world \<Rightarrow> nat" where
  "issue_draws params s = (if rp_familyId params = None then Suc (Suc (draws s)) else Suc (draws s))"

definition issued_row :: "externals \<Rightarrow> config \<Rightarrow> refresh_params \<Rightarrow> world \<Rightarrow> refresh_row" where
  "issued_row env cfg params s =
     \<lparr>rt_id = rand_uuid env (issue_draws params s), rt_session_id = rp_sessionId params, rt_user_id = rp_userId params,
      rt_client_id = rp_clientId params, rt_token_hash = refresh_hash env (rand_b64url env 32 (draws s)),
      rt_family_id = issue_family env params s, rt_previous_token_id = rp_previousTokenId params,
      rt_scope = rp_scope params, rt_status = Token_active,
      rt_expires_at = clock s + 1000 * REFRESH_TOKEN_TTL cfg, rt_rotated_at = None, rt_revoked_at = None\<rparr>"

lemma refresh_issue_eq:
  "refresh_issue env cfg params s =
    (if \<exists>x \<in> set (t_refresh s). rt_id x = rt_id (issued_row env cfg params s)
          \<or> rt_token_hash x = rt_token_hash (issued_row env cfg params s)
     then (Inl (DbError ''refresh_tokens_unique''), s\<lparr>draws := Suc (issue_draws params s)\<rparr>)
     else (Inr (rand_b64url env 32 (draws s), clock s + 1000 * REFRESH_TOKEN_TTL cfg),
           s\<lparr>t_refresh := t_refresh s @ [issued_row env cfg params s], draws := Suc (issue_draws params s)\<rparr>))"
  by (cases "rp_familyId params")
    (simp_all add: refresh_issue_def bindM_run insertM_def insert_row_def list_ex_iff issued_row_def issue_draws_def
      issue_family_def)

lemma refresh_issue_run:
  assumes "refresh_issue env cfg params s = (Inr (token, expires), s')"
  shows "t_refresh s' = t_refresh s @ [issued_row env cfg params s]"
    and "token = rand_b64url env 32 (draws s)" and "expires = clock s + 1000 * REFRESH_TOKEN_TTL cfg"
    and "t_users s' = t_users s" and "t_sessions s' = t_sessions s" and "t_mfa s' = t_mfa s" and "clock s' = clock s"
  using assms by (simp_all add: refresh_issue_eq split: if_splits) auto

lemma issue_for_session_run:
  assumes "auth_issueSessionTokensForSession env cfg sid userId amr ctx s = (Inr ls, s')"
  obtains row where "t_refresh s' = t_refresh s @ [row]"
    and "rt_token_hash row = refresh_hash env (ls_refresh_token ls)" and "rt_status row = Token_active"
    and "rt_session_id row = sid" and "rt_user_id row = userId" and "rt_scope row = ls_scope ls"
    and "ls_user_id ls = userId" and "t_sessions s' = t_sessions s"
    and "Inr (ls_roles ls) = fst (users_rolesOf userId s)" and "ls_scope ls = defaultScopeForRoles (ls_roles ls)"
proof -
  obtain roles permissions signed token expires s1 s2 where
    roles: "users_rolesOf userId s = (Inr roles, s)" and
    sign: "signAccessToken env cfg \<lparr>ai_sub = userId, ai_scope = defaultScopeForRoles roles, ai_roles = roles,
       ai_permissions = permissions, ai_sid = Some sid, ai_client_id = None, ai_amr = Some amr\<rparr> None s = (Inr signed, s1)" and
    issue: "refresh_issue env cfg \<lparr>rp_sessionId = sid, rp_userId = userId, rp_clientId = None,
       rp_scope = defaultScopeForRoles roles, rp_familyId = None, rp_previousTokenId = None\<rparr> s1 = (Inr (token, expires), s2)" and
    ls: "ls_refresh_token ls = token" "ls_user_id ls = userId" "ls_scope ls = defaultScopeForRoles roles" "ls_roles ls = roles" and
    s': "t_refresh s' = t_refresh s2" "t_sessions s' = t_sessions s2"
    using assms
    by (auto simp: auth_issueSessionTokensForSession_def users_findById_def users_rolesOf_def users_permissionsOf_def
        users_setLastLogin_def users_clearLockAndFailures_def users_update_def Let_def
        split: option.splits if_splits dest!: find_SomeD)
  have core: "core s1 = core s"
    by (rule keeps_coreD [OF keeps_core_sign(1) sign])
  show ?thesis
    by (rule that) (simp_all add: ls s' roles coreD [OF core] refresh_issue_run [OF issue] issued_row_def, simp_all)
qed

lemma issue_tokens_run:
  assumes "auth_issueSessionTokens env cfg userId ctx amr s = (Inr ls, s')"
  obtains session row where "t_sessions s' = t_sessions s @ [session]" and "ss_user_id session = userId"
    and "ss_status session = Session_active" and "ss_mfa_passed session = (''mfa'' \<in> set amr)"
    and "t_refresh s' = t_refresh s @ [row]"
    and "rt_token_hash row = refresh_hash env (ls_refresh_token ls)" and "rt_status row = Token_active"
    and "rt_session_id row = ss_id session" and "rt_user_id row = userId" and "ls_user_id ls = userId"
proof -
  obtain session s1 where new: "new_session env cfg userId ctx (''mfa'' \<in> set amr) s = (Inr session, s1)"
    and rest: "auth_issueSessionTokensForSession env cfg (ss_id session) userId amr ctx s1 = (Inr ls, s')"
    using assms by (auto simp: auth_issueSessionTokens_def)
  show ?thesis
    by (rule issue_for_session_run [OF rest], rule that) (simp_all add: new_session_run [OF new])
qed

lemma login_found:
  assumes "users_findByEmail email s = (Inr (Some user), s)"
    and "login_gate (clock s) user = None" and "verifyPassword env (u_password_hash user) password"
    and "u_status user \<noteq> User_pending_verification"
  shows "auth_login env cfg email password ctx s = login_continue env cfg user ctx s"
  using assms by (simp add: auth_login_def bindM_run)

lemma findByEmail_run: "users_findByEmail email s = (Inr (List.find (\<lambda>u. citext_eq (u_email u) (js_lower email)) (t_users s)), s)"
  by (simp add: users_findByEmail_def)

lemma login_Inr:
  assumes "auth_login env cfg email password ctx s = (Inr r, s')"
  obtains user where "List.find (\<lambda>u. citext_eq (u_email u) (js_lower email)) (t_users s) = Some user"
    and "login_gate (clock s) user = None" and "verifyPassword env (u_password_hash user) password"
    and "u_status user \<noteq> User_pending_verification"
proof -
  obtain user where found: "List.find (\<lambda>u. citext_eq (u_email u) (js_lower email)) (t_users s) = Some user"
    using assms by (cases "List.find (\<lambda>u. citext_eq (u_email u) (js_lower email)) (t_users s)")
      (auto simp: auth_login_def findByEmail_run bindM_run)
  moreover have "login_gate (clock s) user = None"
    using assms by (cases "login_gate (clock s) user") (simp_all add: auth_login_def findByEmail_run bindM_run found)
  moreover from this have "verifyPassword env (u_password_hash user) password"
    using assms by (cases "verifyPassword env (u_password_hash user) password")
      (auto simp: auth_login_def findByEmail_run bindM_run found split: prod.splits sum.splits)
  moreover from calculation have "u_status user \<noteq> User_pending_verification"
    using assms by (cases "u_status user = User_pending_verification")
      (auto simp: auth_login_def findByEmail_run bindM_run)
  ultimately show ?thesis by (rule that)
qed

lemma gate_None:
  "login_gate now user = None \<longleftrightarrow> u_status user \<noteq> User_disabled \<and> (\<forall>t. u_locked_until user = Some t \<longrightarrow> t \<le> now)"
  by (auto simp: login_gate_def split: option.splits)

lemma hasActive_run:
  assumes "mfa_hasActiveMethod env uid s = (Inr b, s')"
  shows "s' = s" and "b \<longleftrightarrow> mfa_method_in s uid Mfa_active \<noteq> None"
  using assms by (auto simp: mfa_hasActiveMethod_def getActiveMethod_run bindM_run split: if_splits)

section \<open>Properties\<close>

text \<open>
  C3: what a successful login needs and gives. The account exists, is neither disabled nor waiting for
  verification nor locked at this time, and the password matches. Tokens come only when the account
  has no active second factor: then a new active session of the account is stored with one new active
  refresh token that belongs to it. With an active second factor the session is stored as not passed,
  and no token is issued.
\<close>

theorem login_sound:
  assumes "auth_login env cfg email password ctx s = (Inr r, s')"
  shows "\<exists>user session. List.find (\<lambda>u. citext_eq (u_email u) (js_lower email)) (t_users s) = Some user
    \<and> u_status user \<in> {User_active, User_locked} \<and> (\<forall>t. u_locked_until user = Some t \<longrightarrow> t \<le> clock s)
    \<and> verifyPassword env (u_password_hash user) password
    \<and> t_sessions s' = t_sessions s @ [session] \<and> ss_user_id session = u_id user
    \<and> ss_status session = Session_active \<and> \<not> ss_mfa_passed session
    \<and> (case r of
         Login_success ls \<Rightarrow> mfa_method_in s (u_id user) Mfa_active = None \<and> ls_user_id ls = u_id user
           \<and> (\<exists>row. t_refresh s' = t_refresh s @ [row] \<and> rt_token_hash row = refresh_hash env (ls_refresh_token ls)
                \<and> rt_status row = Token_active \<and> rt_session_id row = ss_id session \<and> rt_user_id row = u_id user)
       | Login_mfa_required cid \<Rightarrow> mfa_method_in s (u_id user) Mfa_active \<noteq> None \<and> t_refresh s' = t_refresh s)"
proof -
  obtain user where found: "List.find (\<lambda>u. citext_eq (u_email u) (js_lower email)) (t_users s) = Some user"
    and gate: "login_gate (clock s) user = None" and pw: "verifyPassword env (u_password_hash user) password"
    and pending: "u_status user \<noteq> User_pending_verification"
    by (rule login_Inr [OF assms])
  have status: "u_status user \<in> {User_active, User_locked}"
    using gate pending by (cases "u_status user") (auto simp: gate_None)
  note run = assms [unfolded login_found [OF findByEmail_run [of email s, unfolded found] gate pw pending] login_continue_def]
  obtain action s1 where risk: "login_risk env cfg user ctx s = (Inr action, s1)"
    using run by (cases "login_risk env cfg user ctx s") (auto simp: bindM_run split: sum.splits)
  have not_deny: "action \<noteq> Action_deny"
    using run by (auto simp: bindM_run risk split: prod.splits sum.splits)
  obtain has s2 where has: "mfa_hasActiveMethod env (u_id user) s1 = (Inr has, s2)"
    using run not_deny by (cases "mfa_hasActiveMethod env (u_id user) s1") (auto simp: bindM_run risk split: sum.splits)
  have s2: "s2 = s1" and has_iff: "has \<longleftrightarrow> mfa_method_in s1 (u_id user) Mfa_active \<noteq> None"
    using hasActive_run [OF has] by auto
  note core = coreD [OF keeps_coreD [OF keeps_core_login_risk risk]]
  have mfa: "mfa_method_in s1 u st = mfa_method_in s u st" for u st
    by (simp add: mfa_method_in_def core)
  show ?thesis
  proof (cases has)
    case True
    then obtain session cid s3 where new: "new_session env cfg (u_id user) ctx False s1 = (Inr session, s3)"
      and chal: "mfa_createLoginChallenge env cfg (u_id user) (ss_id session) s3 = (Inr cid, s')"
      and r: "r = Login_mfa_required cid"
      using run not_deny by (auto simp: risk has s2 split: if_splits)
    note core3 = coreD [OF keeps_coreD [OF keeps_core_challenge chal]]
    show ?thesis
      using found status pw gate True has_iff
      by (intro exI [of _ user] exI [of _ session])
        (simp add: r gate_None mfa new_session_run [OF new] core core3)
  next
    case False
    with run not_deny have "action \<noteq> Action_mfa"
      by (auto simp: risk has s2 bindM_run split: if_splits)
    with run not_deny False obtain ls where iss: "auth_issueSessionTokens env cfg (u_id user) ctx [''pwd''] s1 = (Inr ls, s')"
      and r: "r = Login_success ls"
      by (auto simp: risk has s2 split: if_splits)
    obtain session row where "t_sessions s' = t_sessions s1 @ [session]" "ss_user_id session = u_id user"
      "ss_status session = Session_active" "ss_mfa_passed session = (''mfa'' \<in> set [''pwd''])"
      "t_refresh s' = t_refresh s1 @ [row]"
      "rt_token_hash row = refresh_hash env (ls_refresh_token ls)" "rt_status row = Token_active"
      "rt_session_id row = ss_id session" "rt_user_id row = u_id user" "ls_user_id ls = u_id user"
      by (rule issue_tokens_run [OF iss])
    then show ?thesis
      using found status pw gate False has_iff
      by (intro exI [of _ user] exI [of _ session]) (simp add: r gate_None mfa core)
  qed
qed

theorem login_sound_witness:
  "\<exists>ls s. auth_login sample_env sample_cfg ''A@x'' ''pw'' sample_ctx sample_world = (Inr (Login_success ls), s)
     \<and> length (t_sessions s) = 2"
proof -
  have "case auth_login sample_env sample_cfg ''A@x'' ''pw'' sample_ctx sample_world of
      (Inr (Login_success _), _) \<Rightarrow> True | _ \<Rightarrow> False"
    by code_simp
  then obtain ls s where run: "auth_login sample_env sample_cfg ''A@x'' ''pw'' sample_ctx sample_world = (Inr (Login_success ls), s)"
    by (auto split: prod.splits sum.splits login_result.splits)
  moreover have "length (t_sessions sample_world) = 1"
    by (simp add: sample_world_def)
  ultimately show ?thesis
    using login_sound [OF run] by auto
qed

subsection \<open>Lockout\<close>

definition failed_user :: "config \<Rightarrow> timestamp \<Rightarrow> user_row \<Rightarrow> user_row \<Rightarrow> user_row" where
  "failed_user cfg now user u =
     (if u_id u = u_id user
      then u\<lparr>u_failed_login_count := u_failed_login_count u + 1, u_updated_at := now,
             u_locked_until := Some (now + LOCKOUT_MINUTES cfg * 60000), u_status := User_locked\<rparr>
      else u)"

lemma login_failed_run:
  assumes "MAX_FAILED_LOGINS cfg \<le> u_failed_login_count user + 1"
  shows "t_users (snd (login_failed env cfg user ctx s)) =
       update_where (\<lambda>u. u_id u = u_id user \<and>
          (case u_locked_until u of None \<Rightarrow> True | Some t \<Rightarrow> t < clock s + LOCKOUT_MINUTES cfg * 60000))
        (\<lambda>u. u\<lparr>u_locked_until := Some (clock s + LOCKOUT_MINUTES cfg * 60000), u_status := User_locked, u_updated_at := clock s\<rparr>)
        (update_where (\<lambda>u. u_id u = u_id user)
          (\<lambda>u. u\<lparr>u_failed_login_count := u_failed_login_count u + 1, u_updated_at := clock s\<rparr>) (t_users s))"
    and "clock (snd (login_failed env cfg user ctx s)) = clock s"
    and "fst (login_failed env cfg user ctx s) = Inr ()"
  using assms
  by (simp_all add: login_failed_def users_recordFailedLogin_def users_update_def users_lockUntil_def bindM_run Let_def
      cong: option.case_cong)

text \<open>The account after a failed attempt that reaches the limit.\<close>

lemma locked_user:
  assumes "List.find (\<lambda>u. citext_eq (u_email u) (js_lower email)) (t_users s) = Some user"
    and "login_gate (clock s) user = None" and "\<not> verifyPassword env (u_password_hash user) password"
    and "MAX_FAILED_LOGINS cfg \<le> u_failed_login_count user + 1" and "0 < LOCKOUT_MINUTES cfg"
    and "auth_login env cfg email password ctx s = (r, s')"
  shows "r = Inl InvalidCredentialsError"
    and "users_findByEmail email (elapse d s') = (Inr (Some (failed_user cfg (clock s) user user)), elapse d s')"
    and "clock s' = clock s"
proof -
  have s': "s' = snd (login_failed env cfg user ctx s)" and r: "r = Inl InvalidCredentialsError"
    using assms(1-3,6) login_failed_run(3) [OF assms(4), of env ctx s]
    by (auto simp: auth_login_def findByEmail_run bindM_run split: prod.splits sum.splits)
  show "r = Inl InvalidCredentialsError" and "clock s' = clock s"
    by (simp_all add: r s' login_failed_run [OF assms(4)])
  have "u_locked_until user = None \<or> (\<exists>t. u_locked_until user = Some t \<and> t < clock s + LOCKOUT_MINUTES cfg * 60000)"
    using assms(2,5) by (cases "u_locked_until user") (force simp: gate_None)+
  moreover have users: "t_users (elapse d s') = t_users (snd (login_failed env cfg user ctx s))"
    by (simp add: s' elapse_def)
  ultimately show "users_findByEmail email (elapse d s') = (Inr (Some (failed_user cfg (clock s) user user)), elapse d s')"
    by (auto simp: findByEmail_run users login_failed_run(1) [OF assms(4)] find_update_where assms(1) failed_user_def)
qed

text \<open>
  C12: too many wrong passwords lock the account. The attempt that reaches the limit is answered like
  any wrong password, and from then on, until the lockout time is over, every login to the account is
  refused as locked, even with the right password.
\<close>

theorem login_lockout:
  assumes "List.find (\<lambda>u. citext_eq (u_email u) (js_lower email)) (t_users s) = Some user"
    and "login_gate (clock s) user = None" and "\<not> verifyPassword env (u_password_hash user) password"
    and "MAX_FAILED_LOGINS cfg \<le> u_failed_login_count user + 1"
    and "auth_login env cfg email password ctx s = (r, s')"
    and "0 \<le> d" and "d < LOCKOUT_MINUTES cfg * 60000"
  shows "r = Inl InvalidCredentialsError
    \<and> auth_login env cfg email password' ctx' (elapse d s') =
        (Inl (AppError 423 ''ACCOUNT_LOCKED'' ''Account temporarily locked''), elapse d s')"
proof -
  have "0 < LOCKOUT_MINUTES cfg"
    using assms(6,7) by simp
  note lk = locked_user [OF assms(1-4) this assms(5)]
  have "login_gate (clock (elapse d s')) (failed_user cfg (clock s) user user)
      = Some (AppError 423 ''ACCOUNT_LOCKED'' ''Account temporarily locked'')"
    using assms(7) by (simp add: login_gate_def failed_user_def lk(3))
  then show ?thesis
    using lk(1) by (simp add: auth_login_def bindM_run lk(2))
qed

definition nearly_locked :: user_row where
  "nearly_locked = sample_user\<lparr>u_failed_login_count := 4\<rparr>"

theorem login_lockout_witness:
  "fst (auth_login sample_env sample_cfg ''a@x'' ''pw'' sample_ctx
      (elapse 60000 (snd (auth_login sample_env sample_cfg ''a@x'' ''no'' sample_ctx (sample_world\<lparr>t_users := [nearly_locked]\<rparr>)))))
   = Inl (AppError 423 ''ACCOUNT_LOCKED'' ''Account temporarily locked'')"
proof -
  let ?s = "sample_world\<lparr>t_users := [nearly_locked]\<rparr>"
  have "List.find (\<lambda>u. citext_eq (u_email u) (js_lower ''a@x'')) (t_users ?s) = Some nearly_locked"
    and "login_gate (clock ?s) nearly_locked = None" and "\<not> verifyPassword sample_env (u_password_hash nearly_locked) ''no''"
    and "MAX_FAILED_LOGINS sample_cfg \<le> u_failed_login_count nearly_locked + 1"
    by code_simp+
  from login_lockout [OF this prod.collapse [symmetric], of 60000] show ?thesis
    by (simp add: sample_cfg_def)
qed

text \<open>
  A lockout forgets that the address was never verified. An account that is waiting for the
  verification of its address is refused with \<open>EMAIL_NOT_VERIFIED\<close> although the password is right; once
  it has been locked by wrong passwords and the lockout time is over, the same login passes that gate.
\<close>

theorem lockout_bypasses_verification:
  assumes "List.find (\<lambda>u. citext_eq (u_email u) (js_lower email)) (t_users s) = Some user"
    and "u_status user = User_pending_verification" and "login_gate (clock s) user = None"
    and "\<not> verifyPassword env (u_password_hash user) wrong" and "verifyPassword env (u_password_hash user) right"
    and "MAX_FAILED_LOGINS cfg \<le> u_failed_login_count user + 1" and "0 < LOCKOUT_MINUTES cfg"
    and "auth_login env cfg email wrong ctx s = (r, s')" and "LOCKOUT_MINUTES cfg * 60000 \<le> d"
  shows "auth_login env cfg email right ctx s = (Inl (AuthError ''Email address not verified'' ''EMAIL_NOT_VERIFIED''), s)
    \<and> (\<exists>user'. u_id user' = u_id user \<and> u_status user' = User_locked
          \<and> auth_login env cfg email right ctx (elapse d s') = login_continue env cfg user' ctx (elapse d s'))"
proof -
  let ?u = "failed_user cfg (clock s) user user"
  let ?s = "elapse d s'"
  note lk = locked_user [OF assms(1,3,4,6,7,8)]
  have first: "auth_login env cfg email right ctx s = (Inl (AuthError ''Email address not verified'' ''EMAIL_NOT_VERIFIED''), s)"
    using assms(1,2,3,5) by (simp add: auth_login_def findByEmail_run bindM_run)
  have gate: "login_gate (clock ?s) ?u = None" and pw: "verifyPassword env (u_password_hash ?u) right"
    and st: "u_status ?u \<noteq> User_pending_verification" and uid: "u_id ?u = u_id user"
    using assms(5,9) by (simp_all add: gate_None failed_user_def lk(3))
  have "u_status ?u = User_locked"
    by (simp add: failed_user_def)
  with first login_found [OF lk(2) gate pw st] uid show ?thesis by blast
qed

theorem lockout_bypasses_verification_witness:
  "\<exists>ls s. auth_login sample_env sample_cfg ''a@x'' ''pw'' sample_ctx
       (elapse 900000 (snd (auth_login sample_env sample_cfg ''a@x'' ''no'' sample_ctx
          (sample_world\<lparr>t_users := [nearly_locked\<lparr>u_status := User_pending_verification\<rparr>]\<rparr>)))) = (Inr (Login_success ls), s)
     \<and> map u_status (t_users s) = [User_active]
     \<and> fst (auth_login sample_env sample_cfg ''a@x'' ''pw'' sample_ctx
          (sample_world\<lparr>t_users := [nearly_locked\<lparr>u_status := User_pending_verification\<rparr>]\<rparr>))
        = Inl (AuthError ''Email address not verified'' ''EMAIL_NOT_VERIFIED'')"
proof -
  let ?u = "nearly_locked\<lparr>u_status := User_pending_verification\<rparr>"
  let ?s = "sample_world\<lparr>t_users := [?u]\<rparr>"
  have "case auth_login sample_env sample_cfg ''a@x'' ''pw'' sample_ctx
       (elapse 900000 (snd (auth_login sample_env sample_cfg ''a@x'' ''no'' sample_ctx ?s))) of
      (Inr (Login_success ls), s) \<Rightarrow> map u_status (t_users s) = [User_active] | _ \<Rightarrow> False"
    by code_simp
  moreover have "List.find (\<lambda>u. citext_eq (u_email u) (js_lower ''a@x'')) (t_users ?s) = Some ?u"
    and "u_status ?u = User_pending_verification" and "login_gate (clock ?s) ?u = None"
    and "\<not> verifyPassword sample_env (u_password_hash ?u) ''no''" and "verifyPassword sample_env (u_password_hash ?u) ''pw''"
    and "MAX_FAILED_LOGINS sample_cfg \<le> u_failed_login_count ?u + 1" and "0 < LOCKOUT_MINUTES sample_cfg"
    by code_simp+
  note bypass = lockout_bypasses_verification [OF this prod.collapse [symmetric], of 900000 sample_ctx]
  have "LOCKOUT_MINUTES sample_cfg * 60000 \<le> 900000"
    by code_simp
  with bypass have "fst (auth_login sample_env sample_cfg ''a@x'' ''pw'' sample_ctx ?s)
      = Inl (AuthError ''Email address not verified'' ''EMAIL_NOT_VERIFIED'')"
    by simp
  ultimately show ?thesis
    by (auto split: prod.splits sum.splits login_result.splits)
qed

subsection \<open>Password reset and logout\<close>

lemma revokeAll_run:
  "sessions_revokeAllForUser userId reason s =
     (Inr (int (length (filter (\<lambda>r. ss_user_id r = userId \<and> ss_status r = Session_active) (t_sessions s)))),
      s\<lparr>t_sessions := revoked_sessions (\<lambda>r. ss_user_id r = userId) reason s,
        t_refresh := update_where (\<lambda>r. rt_user_id r = userId \<and> rt_status r \<in> {Token_active, Token_rotated})
              (revoke_refresh (clock s)) (t_refresh s),
        redis := redis_remove (starts_with (redis_key [''sess''] @ '':'')) (redis s)\<rparr>)"
  by (simp add: sessions_revokeAllForUser_def redis_delByPrefix_def bindM_run revoked_sessions_def)

lemma revoked_sessions_status:
  assumes "r \<in> set (revoked_sessions p reason s)" and "\<And>x. p (revoke_session (clock s) reason x) = p x" and "p r"
  shows "ss_status r = Session_revoked"
proof -
  obtain x where "r = (if p x \<and> ss_status x = Session_active then revoke_session (clock s) reason x else x)"
    using assms(1) by (auto simp: revoked_sessions_def set_update_where)
  with assms(2,3) show ?thesis
    by (cases "ss_status x") (auto split: if_splits)
qed

lemma revoked_refresh_status:
  assumes "t \<in> set (update_where (\<lambda>r. p r \<and> rt_status r \<in> {Token_active, Token_rotated}) (revoke_refresh now) ts)"
    and "\<And>x. p (revoke_refresh now x) = p x" and "p t"
  shows "rt_status t = Token_revoked"
proof -
  obtain x where "t = (if p x \<and> rt_status x \<in> {Token_active, Token_rotated} then revoke_refresh now x else x)"
    using assms(1) by (auto simp: set_update_where)
  with assms(2,3) show ?thesis
    by (cases "rt_status x") (auto split: if_splits)
qed

lemma consumePasswordReset_Some:
  assumes "consumePasswordReset env token s = (Inr (Some uid), s1)"
  obtains row where "row \<in> set (t_password_resets s)" and "pr_token_hash row = emailToken_hash env token"
    and "pr_used_at row = None" and "clock s < pr_expires_at row" and "pr_user_id row = uid"
    and "s1 = s\<lparr>t_password_resets := update_where (\<lambda>r. pr_token_hash r = emailToken_hash env token \<and> pr_used_at r = None
                \<and> clock s < pr_expires_at r) (\<lambda>r. r\<lparr>pr_used_at := Some (clock s)\<rparr>) (t_password_resets s)\<rparr>"
  using assms by (auto simp: consumePasswordReset_def Let_def first_row_updated dest!: find_SomeD)

lemma policy_run: "checkPasswordPolicy cfg pw s = (Inr (), s1) \<Longrightarrow> s1 = s"
  by (auto simp: checkPasswordPolicy_def split: option.splits)

text \<open>
  C13: a password reset ends everything the account had. The token was issued for the account, unused
  and not expired, and is used now; the account has the hash of the new password, no session of it is
  active and every refresh token of it is revoked. The rows of all other accounts, their sessions and refresh
  tokens, and all other reset tokens are untouched, and nothing else changes but the audit log, the cache
  in Redis and the random numbers drawn.
\<close>

theorem password_reset_revokes:
  assumes "auth_resetPassword env cfg token newPassword ctx s = (Inr (), s')"
  shows "\<exists>row. row \<in> set (t_password_resets s) \<and> pr_token_hash row = emailToken_hash env token
    \<and> pr_used_at row = None \<and> clock s < pr_expires_at row
    \<and> (\<forall>u \<in> set (t_users s'). u_id u = pr_user_id row \<longrightarrow> u_password_hash u = argon2_hash env (draws s) newPassword)
    \<and> (\<forall>r \<in> set (t_sessions s'). ss_user_id r = pr_user_id row \<longrightarrow> ss_status r = Session_revoked)
    \<and> (\<forall>t \<in> set (t_refresh s'). rt_user_id t = pr_user_id row \<longrightarrow> rt_status t = Token_revoked)
    \<and> filter (\<lambda>u. u_id u \<noteq> pr_user_id row) (t_users s') = filter (\<lambda>u. u_id u \<noteq> pr_user_id row) (t_users s)
    \<and> filter (\<lambda>r. ss_user_id r \<noteq> pr_user_id row) (t_sessions s') = filter (\<lambda>r. ss_user_id r \<noteq> pr_user_id row) (t_sessions s)
    \<and> filter (\<lambda>t. rt_user_id t \<noteq> pr_user_id row) (t_refresh s') = filter (\<lambda>t. rt_user_id t \<noteq> pr_user_id row) (t_refresh s)
    \<and> (\<forall>p \<in> set (t_password_resets s'). pr_token_hash p = emailToken_hash env token \<longrightarrow> pr_used_at p \<noteq> None \<or> pr_expires_at p \<le> clock s)
    \<and> filter (\<lambda>p. pr_token_hash p \<noteq> emailToken_hash env token) (t_password_resets s')
        = filter (\<lambda>p. pr_token_hash p \<noteq> emailToken_hash env token) (t_password_resets s)
    \<and> s' = s\<lparr>t_users := t_users s', t_sessions := t_sessions s', t_refresh := t_refresh s', t_password_resets := t_password_resets s',
          t_audit := t_audit s', redis := redis s', draws := draws s'\<rparr>"
proof -
  obtain uid s1 where cons: "consumePasswordReset env token s = (Inr (Some uid), s1)"
    and rest: "bindM (hashPassword env newPassword) (\<lambda>passwordHash.
         bindM (users_updatePasswordHash uid passwordHash) (\<lambda>_.
         bindM (sessions_revokeAllForUser uid ''password_reset'') (\<lambda>_.
         bindM (audit_record env (for_user uid (ctx_event ''PASSWORD_RESET_COMPLETED'' ctx))) (\<lambda>_.
         audit_record env (with_meta [(''via'', JStr ''reset_token'')] (for_user uid (ctx_event ''PASSWORD_CHANGED'' ctx))))))) s1
      = (Inr (), s')"
    using assms by (auto simp: auth_resetPassword_def dest!: policy_run split: option.splits)
  obtain row where row: "row \<in> set (t_password_resets s)" "pr_token_hash row = emailToken_hash env token"
      "pr_used_at row = None" "clock s < pr_expires_at row" "pr_user_id row = uid"
    and s1: "s1 = s\<lparr>t_password_resets := update_where (\<lambda>r. pr_token_hash r = emailToken_hash env token \<and> pr_used_at r = None
                \<and> clock s < pr_expires_at r) (\<lambda>r. r\<lparr>pr_used_at := Some (clock s)\<rparr>) (t_password_resets s)\<rparr>"
    by (rule consumePasswordReset_Some [OF cons])
  let ?h = "argon2_hash env (draws s) newPassword"
  let ?f = "\<lambda>u. u\<lparr>u_password_hash := ?h, u_password_changed_at := clock s, u_failed_login_count := 0,
      u_locked_until := None, u_updated_at := clock s\<rparr>"
  have users: "t_users s' = update_where (\<lambda>u. u_id u = uid) ?f (t_users s)"
    and sessions: "t_sessions s' = revoked_sessions (\<lambda>r. ss_user_id r = uid) ''password_reset'' s"
    and tokens: "t_refresh s' = update_where (\<lambda>r. rt_user_id r = uid \<and> rt_status r \<in> {Token_active, Token_rotated})
              (revoke_refresh (clock s)) (t_refresh s)"
    and resets: "t_password_resets s' = update_where (\<lambda>r. pr_token_hash r = emailToken_hash env token \<and> pr_used_at r = None
                \<and> clock s < pr_expires_at r) (\<lambda>r. r\<lparr>pr_used_at := Some (clock s)\<rparr>) (t_password_resets s)"
    and frame: "s' = s\<lparr>t_users := t_users s', t_sessions := t_sessions s', t_refresh := t_refresh s', t_password_resets := t_password_resets s',
          t_audit := t_audit s', redis := redis s', draws := draws s'\<rparr>"
    using rest by (auto simp: hashPassword_def users_updatePasswordHash_def users_update_def revokeAll_run s1
        revoked_sessions_def bindM_run intro!: world.equality)
  have "filter (\<lambda>u. u_id u \<noteq> uid) (t_users s') = filter (\<lambda>u. u_id u \<noteq> uid) (t_users s)"
    unfolding users by (rule filter_update_where) simp
  moreover have "filter (\<lambda>r. ss_user_id r \<noteq> uid) (t_sessions s') = filter (\<lambda>r. ss_user_id r \<noteq> uid) (t_sessions s)"
    unfolding sessions revoked_sessions_def by (rule filter_update_where) simp
  moreover have "filter (\<lambda>t. rt_user_id t \<noteq> uid) (t_refresh s') = filter (\<lambda>t. rt_user_id t \<noteq> uid) (t_refresh s)"
    unfolding tokens by (rule filter_update_where) simp
  moreover have "filter (\<lambda>p. pr_token_hash p \<noteq> emailToken_hash env token) (t_password_resets s')
      = filter (\<lambda>p. pr_token_hash p \<noteq> emailToken_hash env token) (t_password_resets s)"
    unfolding resets by (rule filter_update_where) simp
  moreover have "\<forall>p \<in> set (t_password_resets s'). pr_token_hash p = emailToken_hash env token \<longrightarrow> pr_used_at p \<noteq> None \<or> pr_expires_at p \<le> clock s"
    by (auto simp: resets set_update_where)
  moreover have "\<forall>u \<in> set (t_users s'). u_id u = uid \<longrightarrow> u_password_hash u = ?h"
    by (auto simp: users set_update_where)
  moreover have "\<forall>r \<in> set (t_sessions s'). ss_user_id r = uid \<longrightarrow> ss_status r = Session_revoked"
    using revoked_sessions_status [where p = "\<lambda>r. ss_user_id r = uid"] by (simp add: sessions)
  moreover have "\<forall>t \<in> set (t_refresh s'). rt_user_id t = uid \<longrightarrow> rt_status t = Token_revoked"
    unfolding tokens
    by (intro ballI impI, rule revoked_refresh_status [where p = "\<lambda>r. rt_user_id r = uid"]) simp_all
  ultimately show ?thesis
    using row frame by blast
qed

theorem password_reset_revokes_witness:
  "\<exists>t \<in> set (t_refresh (snd (auth_resetPassword sample_env sample_cfg ''reset'' ''Long-enough-1'' sample_ctx
      (sample_world\<lparr>t_password_resets := [sample_reset]\<rparr>)))). rt_user_id t = ''Ua'' \<and> rt_status t = Token_revoked"
proof -
  let ?s = "sample_world\<lparr>t_password_resets := [sample_reset]\<rparr>"
  let ?r = "auth_resetPassword sample_env sample_cfg ''reset'' ''Long-enough-1'' sample_ctx ?s"
  have "case ?r of (Inr _, _) \<Rightarrow> True | _ \<Rightarrow> False"
    by code_simp
  then obtain s' where run: "?r = (Inr (), s')"
    by (auto split: prod.splits sum.splits)
  have "\<exists>t \<in> set (t_refresh (snd ?r)). rt_user_id t = ''Ua''"
    by code_simp
  moreover have "pr_user_id sample_reset = ''Ua''"
    by (simp add: sample_reset_def)
  ultimately show ?thesis
    using password_reset_revokes [OF run] unfolding run snd_conv by auto
qed

lemma auth_refresh_refused:
  assumes "refresh_consume env cfg token s = (Inl e, s1)"
  shows "fst (auth_refresh env cfg token ctx s) = Inl e"
  using assms by (simp add: auth_refresh_def catchM_def bindM_run)

lemma logout_run:
  assumes "auth_logout env userId (Some sid) False presented ctx s = (Inr n, s1)" and "sid \<noteq> []"
  obtains p where "t_refresh s1 = update_where p (revoke_refresh (clock s))
      (update_where (\<lambda>r. rt_session_id r = sid \<and> rt_status r = Token_active) (revoke_refresh (clock s)) (t_refresh s))"
    and "t_sessions s1 = revoked_sessions (\<lambda>r. ss_id r = sid) ''logout'' s"
    and "redis s1 = redis_remove (\<lambda>k. k = sess_key sid) (redis s)"
proof (cases "truthy presented")
  case True
  show ?thesis
    using assms True
    by (intro that [of "\<lambda>r. rt_token_hash r = refresh_hash env (the presented) \<and> rt_status r \<in> {Token_active, Token_rotated}"])
      (auto simp: auth_logout_def revoke_run bindM_run refresh_revokeByToken_def refresh_revokeWhere_def Let_def
        redis_erase_def redis_del_def)
next
  case False
  show ?thesis
    using assms False
    by (intro that [of "\<lambda>_. False"])
      (auto simp: auth_logout_def revoke_run bindM_run redis_erase_def redis_del_def update_where_none)
qed

text \<open>A table in which only revocations happened: positions keep their keys, nothing becomes active.\<close>

lemma revocations_keep:
  assumes "t \<in> set ts"
  shows "\<exists>x \<in> set (update_where p (revoke_refresh now) (update_where q (revoke_refresh now) ts)).
    rt_token_hash x = rt_token_hash t \<and> rt_session_id x = rt_session_id t \<and> (q t \<longrightarrow> rt_status x \<noteq> Token_active)
      \<and> (rt_status t \<noteq> Token_active \<longrightarrow> rt_status x \<noteq> Token_active)"
proof -
  let ?y = "if q t then revoke_refresh now t else t"
  have "(if p ?y then revoke_refresh now ?y else ?y)
      \<in> set (update_where p (revoke_refresh now) (update_where q (revoke_refresh now) ts))"
    using assms by (auto simp: update_where_def)
  then show ?thesis
    by (rule bexI [rotated]) auto
qed

text \<open>
  A logged-out session is over. After the logout of a session, at any later time, the session is
  found revoked or not at all, and no refresh token that belonged to it is accepted.
\<close>

theorem logout_ends_session:
  assumes "refresh_keys_ok s" and "auth_logout env userId (Some sid) False presented ctx s = (Inr n, s1)" and "sid \<noteq> []"
    and "t \<in> set (t_refresh s)" and "rt_session_id t = sid" and "rt_token_hash t = refresh_hash env token" and "0 \<le> d"
  shows "(\<forall>row s2. sessions_findById sid (elapse d s1) = (Inr (Some row), s2) \<longrightarrow> ss_status row = Session_revoked)
    \<and> (\<exists>e. fst (auth_refresh env cfg token ctx' (elapse d s1)) = Inl e)"
proof -
  obtain p where tok: "t_refresh s1 = update_where p (revoke_refresh (clock s))
      (update_where (\<lambda>r. rt_session_id r = sid \<and> rt_status r = Token_active) (revoke_refresh (clock s)) (t_refresh s))"
    and sess: "t_sessions s1 = revoked_sessions (\<lambda>r. ss_id r = sid) ''logout'' s"
    and red: "redis s1 = redis_remove (\<lambda>k. k = sess_key sid) (redis s)"
    by (rule logout_run [OF assms(2,3)])
  obtain x where "x \<in> set (t_refresh s1)" and "rt_token_hash x = refresh_hash env token" and "rt_status x \<noteq> Token_active"
  proof -
    from revocations_keep [OF assms(4), of p "clock s" "\<lambda>r. rt_session_id r = sid \<and> rt_status r = Token_active", folded tok]
    obtain x where "x \<in> set (t_refresh s1)" and "rt_token_hash x = rt_token_hash t"
      and "(rt_session_id t = sid \<and> rt_status t = Token_active \<longrightarrow> rt_status x \<noteq> Token_active)"
      and "(rt_status t \<noteq> Token_active \<longrightarrow> rt_status x \<noteq> Token_active)"
      by (elim bexE conjE)
    with assms(5,6) that show ?thesis by (cases "rt_status t = Token_active") simp_all
  qed
  then have sp: "refresh_spent env token (elapse d s1)"
    unfolding refresh_spent_def by (intro bexI [of _ x]) (simp_all add: elapse_def)
  have ok: "refresh_keys_ok (elapse d s1)"
    using assms(1) by (simp add: refresh_keys_ok_def elapse_def tok map_update_where)
  have "\<exists>e s2. refresh_consume env cfg token (elapse d s1) = (Inl e, s2)"
    by (rule spent_known [OF ok sp, of cfg]) blast
  then have refused: "\<exists>e. fst (auth_refresh env cfg token ctx' (elapse d s1)) = Inl e"
    using auth_refresh_refused by blast
  have "redis_lookup (sess_key sid) s1 = None"
    by (simp add: redis_lookup_def red redis_entry_remove)
  then have gone: "redis_lookup (sess_key sid) (elapse d s1) = None"
    by (rule redis.gone_stays_gone [OF assms(7)])
  have "ss_status row = Session_revoked" if "sessions_findById sid (elapse d s1) = (Inr (Some row), s2)" for row s2
  proof -
    have "session_in (elapse d s1) sid = Some row"
      using that by (simp add: findById_run gone loadFresh_run)
    then have "row \<in> set (revoked_sessions (\<lambda>r. ss_id r = sid) ''logout'' s)" and "ss_id row = sid"
      by (auto simp: session_in_def elapse_def sess dest: find_SomeD)
    then show ?thesis
      by (intro revoked_sessions_status [where p = "\<lambda>r. ss_id r = sid"]) simp_all
  qed
  with refused show ?thesis by blast
qed

theorem logout_ends_session_witness:
  "\<exists>e. fst (auth_refresh sample_env sample_cfg ''tok'' sample_ctx
      (elapse 5 (snd (auth_logout sample_env ''Ua'' (Some ''Us'') False None sample_ctx sample_world)))) = Inl e"
proof -
  have "case auth_logout sample_env ''Ua'' (Some ''Us'') False None sample_ctx sample_world of (Inr _, _) \<Rightarrow> True | _ \<Rightarrow> False"
    by code_simp
  then obtain n s1 where run: "auth_logout sample_env ''Ua'' (Some ''Us'') False None sample_ctx sample_world = (Inr n, s1)"
    by (auto split: prod.splits sum.splits)
  have "refresh_keys_ok sample_world" and "rt_session_id sample_refresh = ''Us''"
    and "rt_token_hash sample_refresh = refresh_hash sample_env ''tok''"
    by code_simp+
  moreover have "sample_refresh \<in> set (t_refresh sample_world)"
    by (simp add: sample_world_def)
  ultimately show ?thesis
    using logout_ends_session [OF _ run, of sample_refresh "''tok''" 5 sample_cfg sample_ctx] by (simp add: run)
qed

end
