(* ===== verification/OAuth_Flow.thy ===== *)
theory OAuth_Flow
  imports OAuth Auth
begin

text \<open>
  What the OAuth endpoints guarantee: the authorization endpoint hands a code only to a registered
  redirect URI of an active client, the token endpoint exchanges it once and only for the client, the
  redirect URI and the PKCE verifier it is bound to, a replayed code revokes what it gave, and the
  refresh grant never widens the scope.
\<close>

lemma elapse_tables [simp]:
  "t_clients (elapse d s) = t_clients s" "t_codes (elapse d s) = t_codes s" "t_refresh (elapse d s) = t_refresh s"
  by (simp_all add: elapse_def)

section \<open>The client of a token request\<close>

definition token_client_id :: "token_form \<Rightarrow> (string \<times> string) option \<Rightarrow> string option" where
  "token_client_id form basicAuth = (case basicAuth of Some (c, _) \<Rightarrow> Some c | None \<Rightarrow> tf_client_id form)"

definition token_secret :: "token_form \<Rightarrow> (string \<times> string) option \<Rightarrow> string option" where
  "token_secret form basicAuth = (case basicAuth of Some (_, x) \<Rightarrow> Some x | None \<Rightarrow> tf_client_secret form)"

text \<open>The active, authenticated client that a token request of a user grant comes from.\<close>

definition token_client ::
  "externals \<Rightarrow> token_form \<Rightarrow> (string \<times> string) option \<Rightarrow> world \<Rightarrow> client_row \<Rightarrow> bool" where
  "token_client env form basicAuth s client \<longleftrightarrow>
     truthy (token_client_id form basicAuth)
   \<and> List.find (\<lambda>c. cl_client_id c = the (token_client_id form basicAuth)) (t_clients s) = Some client
   \<and> cl_status client = Client_active
   \<and> client_authenticated env client (token_secret form basicAuth)"

lemma token_eq:
  assumes "truthy (token_client_id form basicAuth)"
    and "List.find (\<lambda>c. cl_client_id c = the (token_client_id form basicAuth)) (t_clients s) = Some client"
    and "cl_status client = Client_active"
  shows "oauth_token env cfg form basicAuth ctx s =
    (if tf_grant_type form = ''authorization_code''
     then oauth_grantCode env cfg form client (the (token_client_id form basicAuth)) (token_secret form basicAuth) ctx s
     else if tf_grant_type form = ''refresh_token'' then oauth_grantRefresh env cfg form client (token_secret form basicAuth) ctx s
     else if tf_grant_type form = ''client_credentials'' then oauth_grantClient env cfg form client (token_secret form basicAuth) ctx s
     else oauth_fail ''unsupported_grant_type'' ''Unsupported grant_type'' s)"
  using assms
  by (simp add: oauth_token_def token_client_id_def token_secret_def clients_findByClientId_def bindM_run Let_def)

lemma token_Inr:
  assumes "oauth_token env cfg form basicAuth ctx s = (Inr resp, s')"
  obtains client where "truthy (token_client_id form basicAuth)"
    and "List.find (\<lambda>c. cl_client_id c = the (token_client_id form basicAuth)) (t_clients s) = Some client"
    and "cl_status client = Client_active"
proof -
  have "truthy (token_client_id form basicAuth)"
    using assms by (auto simp: oauth_token_def token_client_id_def Let_def split: if_splits)
  moreover from this obtain client where
    "List.find (\<lambda>c. cl_client_id c = the (token_client_id form basicAuth)) (t_clients s) = Some client"
    and "cl_status client = Client_active"
    using assms
    by (auto simp: oauth_token_def token_client_id_def clients_findByClientId_def Let_def bindM_run
        split: if_splits option.splits)
  ultimately show ?thesis by (rule that)
qed

section \<open>The tokens of a user grant\<close>

lemma keeps_core_id_token:
  "keeps_core (if b then bindM (users_findById env u) (\<lambda>user. bindM (signIdToken env cfg (f user) a sub t) (\<lambda>x. returnM (Some x)))
     else returnM None)"
  unfolding users_findById_def by (intro pres)

lemma core_codes:
  assumes "refresh_issue env cfg params s = (Inr r, s')"
  shows "t_codes s' = t_codes s" and "t_clients s' = t_clients s"
  using assms by (simp_all add: refresh_issue_eq split: if_splits) auto

lemma issueUserTokens_run:
  assumes "oauth_issueUserTokens env cfg userId client scope nonce ctx s = (Inr resp, s')"
  obtains session row token where "t_sessions s' = t_sessions s @ [session]" and "ss_user_id session = userId"
    and "ss_client_id session = Some (cl_id client)" and "ss_status session = Session_active"
    and "t_refresh s' = t_refresh s @ [row]" and "tr_refresh_token resp = Some token"
    and "rt_token_hash row = refresh_hash env token" and "rt_status row = Token_active"
    and "rt_session_id row = ss_id session" and "rt_user_id row = userId" and "rt_client_id row = Some (cl_id client)"
    and "rt_scope row = scope" and "tr_scope resp = scope"
    and "t_codes s' = t_codes s" and "t_clients s' = t_clients s" and "clock s' = clock s"
proof -
  let ?params = "\<lambda>session. \<lparr>rp_sessionId = ss_id session, rp_userId = userId,
       rp_clientId = Some (cl_id client), rp_scope = scope, rp_familyId = None, rp_previousTokenId = None\<rparr>"
  obtain roles permissions session signed token expires idt s1 s2 s3 s4 where
    new: "sessions_create env \<lparr>sp_userId = userId, sp_clientId = Some (cl_id client), sp_ip = rc_ip ctx,
              sp_userAgent = rc_userAgent ctx, sp_deviceId = None, sp_mfaPassed = True,
              sp_ttlSeconds = SESSION_TTL cfg\<rparr> s = (Inr session, s1)" and
    sign: "signAccessToken env cfg \<lparr>ai_sub = userId, ai_scope = scope, ai_roles = roles,
              ai_permissions = permissions, ai_sid = Some (ss_id session), ai_client_id = Some (cl_client_id client),
              ai_amr = Some [''oauth'']\<rparr> None s1 = (Inr signed, s2)" and
    issue: "refresh_issue env cfg (?params session) s2 = (Inr (token, expires), s3)" and
    idt: "(if contains ''openid'' scope then
              bindM (users_findById env userId) (\<lambda>user.
              bindM (signIdToken env cfg (oauth_id_claims user scope nonce) (cl_client_id client) userId (ID_TOKEN_TTL cfg)) (\<lambda>t.
              returnM (Some t)))
            else returnM None) s3 = (Inr idt, s4)" and
    resp: "tr_refresh_token resp = Some token" "tr_scope resp = scope" and
    s': "t_refresh s' = t_refresh s4" "t_sessions s' = t_sessions s4" "t_codes s' = t_codes s4" "t_clients s' = t_clients s4"
      "clock s' = clock s4"
    using assms
    by (auto simp: oauth_issueUserTokens_def users_rolesOf_def users_permissionsOf_def simp del: whenM_run)
  note c2 = coreD [OF keeps_coreD [OF keeps_core_sign(1) sign]]
  note c4 = coreD [OF keeps_coreD [OF keeps_core_id_token idt]]
  have s1: "t_sessions s1 = t_sessions s @ [session]" "ss_user_id session = userId"
    "ss_client_id session = Some (cl_id client)" "ss_status session = Session_active" "t_refresh s1 = t_refresh s"
    "t_codes s1 = t_codes s" "t_clients s1 = t_clients s" "clock s1 = clock s"
    using new by (auto simp: sessions_create_def insertM_Inr)
  show ?thesis
    by (rule that [of session "issued_row env cfg (?params session) s2" token])
      (simp_all add: s' c4 refresh_issue_run [OF issue] core_codes [OF issue] c2 s1 resp issued_row_def)
qed

section \<open>Properties of the authorization endpoint\<close>

text \<open>What the authorization and the token endpoint leave alone, while they draw numbers.\<close>

definition settled :: "world \<Rightarrow> world \<Rightarrow> bool" where
  "settled s0 s \<longleftrightarrow> t_users s = t_users s0 \<and> t_clients s = t_clients s0 \<and> redis s = redis s0
     \<and> key_files s = key_files s0 \<and> master_cache s = master_cache s0 \<and> draws s0 \<le> draws s"

text \<open>The row that is stored for the code.\<close>

definition granted_row :: "externals \<Rightarrow> config \<Rightarrow> authorize_input \<Rightarrow> uuid \<Rightarrow> client_row \<Rightarrow> uuid \<Rightarrow> world \<Rightarrow> code_row" where
  "granted_row env cfg inp uid client rid s =
     \<lparr>ac_id = rid, ac_code_hash = code_hash_of env (rand_b64url env 32 (draws s)), ac_client_id = cl_id client,
      ac_user_id = uid, ac_redirect_uri = az_redirect_uri inp, ac_scope = az_scope inp, ac_nonce = az_nonce inp,
      ac_code_challenge = Some (az_code_challenge inp), ac_code_challenge_method = Some (az_code_challenge_method inp),
      ac_expires_at = clock s + 1000 * AUTHORIZATION_CODE_TTL cfg, ac_consumed_at = None\<rparr>"

lemma granted_row_fields:
  "ac_code_hash (granted_row env cfg inp uid client rid s) = code_hash_of env (rand_b64url env 32 (draws s))"
  "ac_client_id (granted_row env cfg inp uid client rid s) = cl_id client" "ac_user_id (granted_row env cfg inp uid client rid s) = uid"
  "ac_redirect_uri (granted_row env cfg inp uid client rid s) = az_redirect_uri inp"
  "ac_scope (granted_row env cfg inp uid client rid s) = az_scope inp"
  "ac_code_challenge (granted_row env cfg inp uid client rid s) = Some (az_code_challenge inp)"
  "ac_code_challenge_method (granted_row env cfg inp uid client rid s) = Some (az_code_challenge_method inp)"
  "ac_expires_at (granted_row env cfg inp uid client rid s) = clock s + 1000 * AUTHORIZATION_CODE_TTL cfg"
  "ac_consumed_at (granted_row env cfg inp uid client rid s) = None"
  by (simp_all add: granted_row_def)

lemma granted_run:
  assumes "oauth_authorize env cfg inp (Some uid) state ctx s = (Inr url, s1)"
  obtains client user row where "List.find (\<lambda>c. cl_client_id c = az_client_id inp) (t_clients s) = Some client"
    and "cl_status client = Client_active" and "az_redirect_uri inp \<in> set (cl_redirect_uris client)"
    and "set (words (az_scope inp)) \<subseteq> set (cl_allowed_scopes client)"
    and "\<not> (az_code_challenge_method inp = ''plain'' \<and> cl_require_pkce client)" and "challenge_ok (az_code_challenge inp)"
    and "uuid_syntax env uid" and "List.find (\<lambda>u. u_id u = uid) (t_users s) = Some user" and "u_status user = User_active"
    and "t_codes s1 = t_codes s @ [row]" and "\<forall>r \<in> set (t_codes s). ac_id r \<noteq> ac_id row \<and> ac_code_hash r \<noteq> ac_code_hash row"
    and "row = granted_row env cfg inp uid client (ac_id row) s"
    and "settled s s1" and "clock s1 = clock s" and "t_sessions s1 = t_sessions s" and "t_refresh s1 = t_refresh s"
    and "\<exists>params. url = url_set_params env (az_redirect_uri inp) ((''code'', rand_b64url env 32 (draws s)) # params)"
proof -
  obtain client where client: "List.find (\<lambda>c. cl_client_id c = az_client_id inp) (t_clients s) = Some client"
    using assms by (cases "List.find (\<lambda>c. cl_client_id c = az_client_id inp) (t_clients s)")
      (auto simp: oauth_authorize_def clients_findByClientId_def bindM_run)
  note run = assms [unfolded oauth_authorize_def clients_findByClientId_def bindM_run getM_run client]
  have checks: "cl_status client = Client_active" "az_redirect_uri inp \<in> set (cl_redirect_uris client)"
      "list_all (\<lambda>sc. sc \<in> set (cl_allowed_scopes client)) (words (az_scope inp))"
      "\<not> (az_code_challenge_method inp = ''plain'' \<and> cl_require_pkce client)" "challenge_ok (az_code_challenge inp)"
      "truthy (Some uid)"
    using run by (simp_all split: if_splits)
  have uuid: "uuid_syntax env uid"
    using run checks by (simp add: users_findById_def split: if_splits)
  then obtain user where user: "List.find (\<lambda>x. u_id x = uid) (t_users s) = Some user" and act: "u_status user = User_active"
    using run checks by (auto simp: users_findById_def split: option.splits if_splits)
  have scopes: "set (words (az_scope inp)) \<subseteq> set (cl_allowed_scopes client)"
    using checks(3) by (auto simp: list_all_iff)
  show thesis
    by (rule that [OF client checks(1,2) scopes checks(4,5) uuid user act])
      (use run checks uuid user act client in \<open>auto simp: users_findById_def codes_issue_def insertM_Inr bindM_run settled_def granted_row_def
        split: sum.splits prod.splits\<close>)
qed


text \<open>
  C10: the authorization endpoint is no open redirector and hands out no code without a login. It
  redirects only to a URI that the active client registered, for scopes the client may ask for, with
  a well-formed challenge and no plain challenge where PKCE is required, and for an active user. The one
  new code is stored hashed, unused, bound to the client, the user, the redirect URI, the scope and the
  challenge, and lives for the configured time; the redirect carries it.
\<close>

theorem oauth_authorize_sound:
  assumes "oauth_authorize env cfg inp userId state ctx s = (Inr url, s')"
  shows "\<exists>client user code row params.
      List.find (\<lambda>c. cl_client_id c = az_client_id inp) (t_clients s) = Some client
    \<and> cl_status client = Client_active \<and> az_redirect_uri inp \<in> set (cl_redirect_uris client)
    \<and> set (words (az_scope inp)) \<subseteq> set (cl_allowed_scopes client)
    \<and> \<not> (az_code_challenge_method inp = ''plain'' \<and> cl_require_pkce client) \<and> challenge_ok (az_code_challenge inp)
    \<and> user \<in> set (t_users s) \<and> userId = Some (u_id user) \<and> u_status user = User_active
    \<and> t_codes s' = t_codes s @ [row] \<and> ac_code_hash row = code_hash_of env code
    \<and> ac_client_id row = cl_id client \<and> ac_user_id row = u_id user \<and> ac_redirect_uri row = az_redirect_uri inp
    \<and> ac_scope row = az_scope inp \<and> ac_code_challenge row = Some (az_code_challenge inp)
    \<and> ac_code_challenge_method row = Some (az_code_challenge_method inp)
    \<and> ac_expires_at row = clock s + 1000 * AUTHORIZATION_CODE_TTL cfg \<and> ac_consumed_at row = None
    \<and> url = url_set_params env (az_redirect_uri inp) ((''code'', code) # params)"
proof -
  obtain u where u: "userId = Some u"
    using assms by (cases userId) (auto simp: oauth_authorize_def bindM_run clients_findByClientId_def split: option.splits if_splits)
  let ?code = "rand_b64url env 32 (draws s)"
  obtain client user row params where client: "List.find (\<lambda>c. cl_client_id c = az_client_id inp) (t_clients s) = Some client"
      "cl_status client = Client_active" "az_redirect_uri inp \<in> set (cl_redirect_uris client)"
      "set (words (az_scope inp)) \<subseteq> set (cl_allowed_scopes client)"
      "\<not> (az_code_challenge_method inp = ''plain'' \<and> cl_require_pkce client)" "challenge_ok (az_code_challenge inp)"
    and user: "List.find (\<lambda>x. u_id x = u) (t_users s) = Some user" "u_status user = User_active"
    and codes: "t_codes s' = t_codes s @ [row]" and row: "row = granted_row env cfg inp u client (ac_id row) s"
    and url: "url = url_set_params env (az_redirect_uri inp) ((''code'', ?code) # params)"
    by (rule granted_run [OF assms [unfolded u]]) blast
  show ?thesis
    using client find_SomeD [OF user(1)] user(2) codes granted_row_fields [of env cfg inp u client "ac_id row" s, folded row]
    by (intro exI [of _ client] exI [of _ user] exI [of _ ?code] exI [of _ row] exI [of _ params] conjI) (simp_all add: u url)
qed

text \<open>A PKCE request of the sample client; the verifier has the length the standard asks for.\<close>

definition sample_verifier :: string where
  "sample_verifier = replicate 43 (CHR ''v'')"

definition sample_authorize :: authorize_input where
  "sample_authorize = \<lparr>az_client_id = ''cli'', az_redirect_uri = ''https://app/cb'', az_scope = ''openid api.read'',
     az_nonce = None, az_code_challenge = ''b'' @ sample_verifier, az_code_challenge_method = ''S256''\<rparr>"

theorem oauth_authorize_sound_witness:
  "\<exists>row. t_codes (snd (oauth_authorize sample_env sample_cfg sample_authorize (Some ''Ua'') None sample_ctx sample_world)) = [row]
     \<and> ac_user_id row = ''Ua'' \<and> ac_consumed_at row = None"
proof -
  have "case oauth_authorize sample_env sample_cfg sample_authorize (Some ''Ua'') None sample_ctx sample_world of
      (Inr _, _) \<Rightarrow> True | _ \<Rightarrow> False"
    by code_simp
  then obtain url s' where
    run: "oauth_authorize sample_env sample_cfg sample_authorize (Some ''Ua'') None sample_ctx sample_world = (Inr url, s')"
    by (auto split: prod.splits sum.splits)
  have "t_codes sample_world = []"
    by (simp add: sample_world_def empty_world_def)
  with oauth_authorize_sound [OF run] show ?thesis
    by (auto simp: run)
qed

section \<open>Properties of the code grant\<close>

lemma grantCode_Inr:
  assumes "codes_ok s" and "oauth_grantCode env cfg form client clientId sec ctx s = (Inr resp, s')"
  obtains row where "client_authenticated env client sec"
    and "code_valid env (the (tf_code form)) clientId (the (tf_redirect_uri form)) s row"
    and "pkce_matches env (the (tf_code_verifier form)) (the (ac_code_challenge row)) (ac_code_challenge_method row)"
    and "truthy (ac_code_challenge row)"
    and "oauth_issueUserTokens env cfg (ac_user_id row) client (ac_scope row) (ac_nonce row) ctx
           (s\<lparr>t_codes := consumed_codes row s\<rparr>) = (Inr resp, s')"
    and "truthy (tf_code form)" and "truthy (tf_redirect_uri form)" and "truthy (tf_code_verifier form)"
proof -
  have form: "truthy (tf_code form)" "truthy (tf_redirect_uri form)" "truthy (tf_code_verifier form)"
    using assms(2) by (auto simp: oauth_grantCode_def split: if_splits)
  obtain u s1 where auth: "oauth_clientAuth env client sec ctx s = (Inr u, s1)"
    using assms(2) form by (auto simp: oauth_grantCode_def)
  note auth' = clientAuth_Inr [OF auth]
  obtain peeked s2 where peek: "oauth_onReplay env ctx (codes_peek env (the (tf_code form)) clientId (the (tf_redirect_uri form))) s
      = (Inr (Some peeked), s2)"
    using assms(2) form auth auth'(1) by (auto simp: oauth_grantCode_def split: option.splits)
  have s2: "s2 = s" and valid: "code_valid env (the (tf_code form)) clientId (the (tf_redirect_uri form)) s peeked"
    using peek_Some [OF onReplay_Inr [OF peek]] by simp_all
  have pkce: "pkce_matches env (the (tf_code_verifier form)) (the (ac_code_challenge peeked)) (ac_code_challenge_method peeked)"
    "truthy (ac_code_challenge peeked)"
    using assms(2) form auth auth'(1) peek s2 by (auto simp: oauth_grantCode_def split: if_splits)
  obtain r s3 where cons: "oauth_onReplay env ctx (codes_consume env (the (tf_code form)) clientId (the (tf_redirect_uri form))) s
      = (Inr (Some r), s3)"
    and issue: "oauth_issueUserTokens env cfg (ac_user_id r) client (ac_scope r) (ac_nonce r) ctx s3 = (Inr resp, s')"
    using assms(2) form auth auth'(1) peek s2 pkce by (auto simp: oauth_grantCode_def split: option.splits)
  obtain row where row: "code_valid env (the (tf_code form)) clientId (the (tf_redirect_uri form)) s row"
    "r = consume_code (clock s) row" "s3 = s\<lparr>t_codes := consumed_codes row s\<rparr>"
    by (rule consume_Some [OF assms(1) onReplay_Inr [OF cons]])
  have "peeked = row"
    using valid row(1) by (simp add: code_valid_def)
  then show ?thesis
    by (intro that [of row] auth'(2) row(1) form) (use pkce issue row in simp_all)
qed

text \<open>
  C1: what an exchange of an authorization code needs and gives. The client is active and has
  authenticated (or is public and presents no secret), the code is known, unused, not expired and
  bound to this client and this redirect URI, and the verifier answers its challenge. Afterwards the
  code is spent, and one new active session and one new active refresh token are stored, for the user,
  the client and the scope of the code and nothing else.
\<close>

theorem code_exchange_sound:
  assumes "codes_ok s" and "oauth_token env cfg form basicAuth ctx s = (Inr resp, s')"
    and "tf_grant_type form = ''authorization_code''"
  shows "\<exists>client row session token rt. token_client env form basicAuth s client
    \<and> code_valid env (the (tf_code form)) (the (token_client_id form basicAuth)) (the (tf_redirect_uri form)) s row
    \<and> truthy (ac_code_challenge row)
    \<and> pkce_matches env (the (tf_code_verifier form)) (the (ac_code_challenge row)) (ac_code_challenge_method row)
    \<and> code_spent env (the (tf_code form)) s'
    \<and> t_sessions s' = t_sessions s @ [session] \<and> ss_user_id session = ac_user_id row
    \<and> ss_client_id session = Some (cl_id client) \<and> ss_status session = Session_active
    \<and> t_refresh s' = t_refresh s @ [rt] \<and> tr_refresh_token resp = Some token
    \<and> rt_token_hash rt = refresh_hash env token \<and> rt_status rt = Token_active
    \<and> rt_session_id rt = ss_id session \<and> rt_user_id rt = ac_user_id row
    \<and> rt_client_id rt = Some (cl_id client) \<and> rt_scope rt = ac_scope row \<and> tr_scope resp = ac_scope row"
proof -
  obtain client where cl: "truthy (token_client_id form basicAuth)"
    "List.find (\<lambda>c. cl_client_id c = the (token_client_id form basicAuth)) (t_clients s) = Some client"
    "cl_status client = Client_active"
    by (rule token_Inr [OF assms(2)])
  have grant: "oauth_grantCode env cfg form client (the (token_client_id form basicAuth)) (token_secret form basicAuth) ctx s
      = (Inr resp, s')"
    using assms(2,3) token_eq [OF cl, of env cfg ctx] by simp
  obtain row where auth: "client_authenticated env client (token_secret form basicAuth)"
    and row: "code_valid env (the (tf_code form)) (the (token_client_id form basicAuth)) (the (tf_redirect_uri form)) s row"
    and pkce: "pkce_matches env (the (tf_code_verifier form)) (the (ac_code_challenge row)) (ac_code_challenge_method row)"
      "truthy (ac_code_challenge row)"
    and issue: "oauth_issueUserTokens env cfg (ac_user_id row) client (ac_scope row) (ac_nonce row) ctx
           (s\<lparr>t_codes := consumed_codes row s\<rparr>) = (Inr resp, s')"
    by (rule grantCode_Inr [OF assms(1) grant])
  obtain session rt token where new: "t_sessions s' = t_sessions s @ [session]" "ss_user_id session = ac_user_id row"
    "ss_client_id session = Some (cl_id client)" "ss_status session = Session_active"
    "t_refresh s' = t_refresh s @ [rt]" "tr_refresh_token resp = Some token"
    "rt_token_hash rt = refresh_hash env token" "rt_status rt = Token_active"
    "rt_session_id rt = ss_id session" "rt_user_id rt = ac_user_id row" "rt_client_id rt = Some (cl_id client)"
    "rt_scope rt = ac_scope row" "tr_scope resp = ac_scope row" and codes: "t_codes s' = consumed_codes row s"
    by (rule issueUserTokens_run [OF issue]) simp
  have "code_spent env (the (tf_code form)) s'"
    using valid_consumed_spent [OF row] by (simp add: code_spent_def codes)
  moreover have "token_client env form basicAuth s client"
    using cl auth by (simp add: token_client_def)
  ultimately show ?thesis
    using row pkce new by blast
qed

definition sample_code :: code_row where
  "sample_code = \<lparr>ac_id = ''Uk'', ac_code_hash = ''hcode'', ac_client_id = ''Uc'', ac_user_id = ''Ua'',
     ac_redirect_uri = ''https://app/cb'', ac_scope = ''openid api.read'', ac_nonce = None,
     ac_code_challenge = Some (''b'' @ sample_verifier), ac_code_challenge_method = Some ''S256'',
     ac_expires_at = 120000, ac_consumed_at = None\<rparr>"

definition code_world :: world where
  "code_world = sample_world\<lparr>t_codes := [sample_code]\<rparr>"

definition code_form :: token_form where
  "code_form = \<lparr>tf_grant_type = ''authorization_code'', tf_code = Some ''code'', tf_redirect_uri = Some ''https://app/cb'',
     tf_client_id = None, tf_client_secret = None, tf_code_verifier = Some sample_verifier, tf_scope = None,
     tf_refresh_token = None\<rparr>"

lemma code_world_ok: "codes_ok code_world"
  by code_simp

lemma code_world_run:
  obtains resp s' where "oauth_token sample_env sample_cfg code_form (Some (''cli'', ''sec'')) sample_ctx code_world = (Inr resp, s')"
proof -
  have "case oauth_token sample_env sample_cfg code_form (Some (''cli'', ''sec'')) sample_ctx code_world of
      (Inr _, _) \<Rightarrow> True | _ \<Rightarrow> False"
    by code_simp
  with that show ?thesis by (auto split: prod.splits sum.splits)
qed

lemma code_form_grant: "tf_grant_type code_form = ''authorization_code''"
  by (simp add: code_form_def)

theorem code_exchange_sound_witness:
  "code_spent sample_env ''code''
     (snd (oauth_token sample_env sample_cfg code_form (Some (''cli'', ''sec'')) sample_ctx code_world))"
proof -
  obtain resp s' where run: "oauth_token sample_env sample_cfg code_form (Some (''cli'', ''sec'')) sample_ctx code_world = (Inr resp, s')"
    by (rule code_world_run)
  have "tf_code code_form = Some ''code''"
    by (simp add: code_form_def)
  with code_exchange_sound [OF code_world_ok run code_form_grant] show ?thesis
    by (auto simp: run)
qed

text \<open>
  An authorization code can be exchanged once. In every sequence of exchanges of codes, each with
  whatever client and redirect URI, mixed with other steps that keep the keys of the table unique and
  used codes used, no code yields twice.
\<close>

theorem auth_code_single_use:
  assumes "codes_ok s" and "list_all (quiet_event codes_ok (code_spent env)) es"
  shows "distinct (fst (use_run
     (\<lambda>code s. flat_yield (codes_consume env code (fst (bnd code)) (snd (bnd code)) s)) es s))"
  using assms by (rule auth_code.yields_at_most_once)

lemma quiet_elapse_codes: "quiet codes_ok (code_spent env) (elapse d)"
  by (simp add: quiet_def codes_ok_def code_spent_def elapse_def)

theorem auth_code_single_use_witness:
  "fst (use_run (\<lambda>code s. flat_yield (codes_consume sample_env code
        (fst ((\<lambda>_. (''cli'', ''https://app/cb'')) code)) (snd ((\<lambda>_. (''cli'', ''https://app/cb'')) code)) s))
     [Consume ''code'', Other (elapse 5), Consume ''code''] code_world) = [''code''] \<and>
   distinct (fst (use_run (\<lambda>code s. flat_yield (codes_consume sample_env code
        (fst ((\<lambda>_. (''cli'', ''https://app/cb'')) code)) (snd ((\<lambda>_. (''cli'', ''https://app/cb'')) code)) s))
     [Consume ''code'', Other (elapse 5), Consume ''code''] code_world))"
proof
  show "distinct (fst (use_run (\<lambda>code s. flat_yield (codes_consume sample_env code
        (fst ((\<lambda>_. (''cli'', ''https://app/cb'')) code)) (snd ((\<lambda>_. (''cli'', ''https://app/cb'')) code)) s))
     [Consume ''code'', Other (elapse 5), Consume ''code''] code_world))"
    by (rule auth_code_single_use) (simp_all add: quiet_elapse_codes code_world_ok)
  show "fst (use_run (\<lambda>code s. flat_yield (codes_consume sample_env code
        (fst ((\<lambda>_. (''cli'', ''https://app/cb'')) code)) (snd ((\<lambda>_. (''cli'', ''https://app/cb'')) code)) s))
     [Consume ''code'', Other (elapse 5), Consume ''code''] code_world) = [''code'']"
    by code_simp
qed

text \<open>A replayed code.\<close>

lemma lookup_consumed:
  assumes "code_lookup env code s = Some (row, ref)" and "ac_consumed_at row = None"
    and "t_codes s' = consumed_codes row s" and "t_clients s' = t_clients s"
  shows "code_lookup env code s' = Some (consume_code (clock s) row, ref)"
proof -
  have "List.find (\<lambda>r. ac_code_hash r = code_hash_of env code) (t_codes s) = Some row"
    using assms(1) by (auto simp: code_lookup_def split: option.splits)
  then have "List.find (\<lambda>r. ac_code_hash r = code_hash_of env code) (t_codes s') = Some (consume_code (clock s) row)"
    unfolding assms(3) consumed_codes_def by (subst find_update_where) (simp_all add: assms(2))
  then show ?thesis
    using assms(1) by (auto simp: code_lookup_def assms(4) split: option.splits)
qed

text \<open>A code that was used already: the request is answered as a replay, or refused for another reason.\<close>

lemma second_presentation:
  assumes "code_lookup env code s = Some (row, cid)" and "ac_consumed_at row \<noteq> None"
    and "tf_grant_type form = ''authorization_code''" and "tf_code form = Some code" and "code \<noteq> []"
    and run: "oauth_token env cfg form basicAuth ctx s = (r, s')"
  obtains (replay) client where "token_client_id form basicAuth = Some cid" "token_client env form basicAuth s client"
      "truthy (tf_redirect_uri form)" "the (tf_redirect_uri form) = ac_redirect_uri row" "truthy (tf_code_verifier form)"
    | (refused) e a where "r = Inl e" "s' = s\<lparr>t_audit := a\<rparr>"
      "\<not> (token_client_id form basicAuth = Some cid \<and> (\<exists>client. token_client env form basicAuth s client)
         \<and> truthy (tf_redirect_uri form) \<and> the (tf_redirect_uri form) = ac_redirect_uri row \<and> truthy (tf_code_verifier form))"
proof -
  let ?id = "token_client_id form basicAuth" and ?secret = "token_secret form basicAuth" and ?uri = "the (tf_redirect_uri form)"
  show thesis
  proof (cases "\<exists>client. truthy ?id \<and> List.find (\<lambda>c. cl_client_id c = the ?id) (t_clients s) = Some client \<and> cl_status client = Client_active")
    case False
    then obtain e where "r = Inl e" "s' = s"
      using run by (auto simp: oauth_token_def token_client_id_def clients_findByClientId_def Let_def bindM_run split: if_splits option.splits)
    with False show thesis by (intro refused [of e "t_audit s"]) (auto simp: token_client_def)
  next
    case True
    then obtain client where cl: "truthy ?id" "List.find (\<lambda>c. cl_client_id c = the ?id) (t_clients s) = Some client" "cl_status client = Client_active"
      by blast
    have grant: "oauth_grantCode env cfg form client (the ?id) ?secret ctx s = (r, s')"
      using run assms(3) token_eq [OF cl, of env cfg ctx] by simp
    show thesis
    proof (cases "truthy (tf_redirect_uri form) \<and> truthy (tf_code_verifier form) \<and> client_authenticated env client ?secret")
      case False
      have "\<exists>e s1. oauth_clientAuth env client ?secret ctx s = (Inl e, s1) \<and> s1 = s\<lparr>t_audit := t_audit s1\<rparr>" if "\<not> client_authenticated env client ?secret"
      proof (cases "oauth_clientAuth env client ?secret ctx s")
        case (Pair a s1)
        with that clientAuth_Inr(2) obtain e where "a = Inl e" by (cases a) blast+
        moreover have "s1 = s\<lparr>t_audit := t_audit s1\<rparr>"
          using Pair by (auto simp: oauth_clientAuth_def oauth_recordClientAuthFailure_def clients_verifySecret_def
              split: if_splits option.splits intro!: world.equality)
        ultimately show ?thesis using Pair by blast
      qed
      with False grant assms(4,5) obtain e where "r = Inl e" "s' = s\<lparr>t_audit := t_audit s'\<rparr>"
        by (cases "client_authenticated env client ?secret") (auto simp: oauth_grantCode_def bindM_run split: if_splits)
      with False cl(2) show thesis by (intro refused [of e "t_audit s'"]) (auto simp: token_client_def)
    next
      case form: True
      then have client: "token_client env form basicAuth s client" using cl by (simp add: token_client_def)
      show thesis
      proof (cases "the ?id = cid \<and> ?uri = ac_redirect_uri row")
        case True
        then show thesis using form client cl(1) by (intro replay [of client]) (cases ?id; simp)+
      next
        case False
        then have "codes_peek env code (the ?id) ?uri s = (Inr None, s)"
          using assms(1) by (auto simp: codes_peek_def bindM_run)
        then have "r = Inl (OAuthTokenError 400 ''invalid_grant'' ''Invalid or expired authorization code'')" "s' = s"
          using grant form assms(4,5) clientAuth_ok [of env client ?secret ctx s]
          by (simp_all add: oauth_grantCode_def bindM_run oauth_onReplay_def catchM_def)
        with False show thesis by (intro refused [of _ "t_audit s"]) auto
      qed
    qed
  qed
qed
lemma token_replay:
  assumes "token_client env form basicAuth s client" and "tf_grant_type form = ''authorization_code''"
    and "truthy (tf_code form)" and "truthy (tf_redirect_uri form)" and "truthy (tf_code_verifier form)"
    and "code_lookup env (the (tf_code form)) s = Some (row, the (token_client_id form basicAuth))"
    and "ac_redirect_uri row = the (tf_redirect_uri form)" and "ac_consumed_at row \<noteq> None"
  obtains s' where "oauth_token env cfg form basicAuth ctx s = (Inl (OAuthTokenError 400 ''invalid_grant''
        ''Authorization code replay detected - issued tokens revoked''), s')"
    and "t_refresh s' = update_where (\<lambda>r. rt_user_id r = ac_user_id row
          \<and> (\<exists>c \<in> set (t_clients s). cl_client_id c = the (token_client_id form basicAuth) \<and> rt_client_id r = Some (cl_id c))
          \<and> rt_status r \<in> {Token_active, Token_rotated}) (revoke_refresh (clock s)) (t_refresh s)"
    and "s' = s\<lparr>t_refresh := t_refresh s', t_audit := t_audit s'\<rparr>"
proof -
  have tok: "oauth_token env cfg form basicAuth ctx s =
      oauth_grantCode env cfg form client (the (token_client_id form basicAuth)) (token_secret form basicAuth) ctx s"
    using assms(1,2) by (simp add: token_client_def token_eq)
  let ?cid = "the (token_client_id form basicAuth)"
  let ?peek = "codes_peek env (the (tf_code form)) ?cid (the (tf_redirect_uri form))"
  obtain s' where handle: "oauth_handleCodeReplay env (ac_user_id row) ?cid ctx s = (Inr (), s')"
    and table: "t_refresh s' = update_where (\<lambda>r. rt_user_id r = ac_user_id row
          \<and> (\<exists>c \<in> set (t_clients s). cl_client_id c = ?cid \<and> rt_client_id r = Some (cl_id c))
          \<and> rt_status r \<in> {Token_active, Token_rotated}) (revoke_refresh (clock s)) (t_refresh s)"
    by (simp add: oauth_handleCodeReplay_def codes_revokeTokensForReplay_def bindM_run)
  have frame: "s' = s\<lparr>t_refresh := t_refresh s', t_audit := t_audit s'\<rparr>"
    using handle by (auto simp: oauth_handleCodeReplay_def codes_revokeTokensForReplay_def bindM_run intro!: world.equality)
  have peek: "?peek s = (Inl (CodeReplayError (ac_user_id row) ?cid), s)"
    using assms(6-8) by (simp add: codes_peek_def bindM_run)
  have auth: "oauth_clientAuth env client (token_secret form basicAuth) ctx s = (Inr (), s)"
    using assms(1) by (simp add: token_client_def clientAuth_ok)
  have onr: "oauth_onReplay env ctx ?peek s = (Inl (OAuthTokenError 400 ''invalid_grant''
        ''Authorization code replay detected - issued tokens revoked''), s')"
    by (simp add: oauth_onReplay_def catchM_def bindM_run peek handle)
  have "oauth_token env cfg form basicAuth ctx s = (Inl (OAuthTokenError 400 ''invalid_grant''
        ''Authorization code replay detected - issued tokens revoked''), s')"
    unfolding tok oauth_grantCode_def using assms(3-5) by (simp add: bindM_run auth onr)
  from this table frame show ?thesis by (rule that)
qed

text \<open>What the revocation for a replay does to the tokens of a user with a client.\<close>

lemma replay_revokes:
  assumes "t_refresh s = update_where (\<lambda>r. rt_user_id r = uid \<and> (\<exists>c \<in> set cs. cl_client_id c = cid \<and> rt_client_id r = Some (cl_id c))
      \<and> rt_status r \<in> {Token_active, Token_rotated}) (revoke_refresh now) ts"
    and "\<exists>c \<in> set cs. cl_client_id c = cid \<and> client = cl_id c"
  shows "t \<in> set (t_refresh s) \<Longrightarrow> rt_user_id t = uid \<Longrightarrow> rt_client_id t = Some client \<Longrightarrow> rt_status t = Token_revoked"
    and "\<lbrakk>rt \<in> set ts; rt_token_hash rt = refresh_hash env token; rt_user_id rt = uid; rt_client_id rt = Some client; rt_status rt = Token_active\<rbrakk>
      \<Longrightarrow> refresh_spent env token s"
proof -
  assume t: "t \<in> set (t_refresh s)" "rt_user_id t = uid" "rt_client_id t = Some client"
  obtain y where "t = (if rt_user_id y = uid \<and> (\<exists>c \<in> set cs. cl_client_id c = cid \<and> rt_client_id y = Some (cl_id c))
      \<and> rt_status y \<in> {Token_active, Token_rotated} then revoke_refresh now y else y)"
    by (rule bexE [OF t(1) [unfolded assms(1) set_update_where]])
  then show "rt_status t = Token_revoked"
    by (cases "rt_status y") (use t(2,3) assms(2) in \<open>simp_all split: if_splits\<close>)
next
  assume "rt \<in> set ts" "rt_token_hash rt = refresh_hash env token" "rt_user_id rt = uid" "rt_client_id rt = Some client" "rt_status rt = Token_active"
  then show "refresh_spent env token s"
    unfolding refresh_spent_def assms(1) bex_update_where using assms(2) by (intro bexI [of _ rt]) auto
qed
text \<open>What an exchange leaves: the code is found as used, and one new refresh token is stored.\<close>

lemma exchange_run:
  assumes "codes_ok s" and "oauth_token env cfg form basicAuth ctx s = (Inr resp, s1)" and "tf_grant_type form = ''authorization_code''"
  obtains client row rt token where "token_client env form basicAuth s client"
    and "code_valid env (the (tf_code form)) (the (token_client_id form basicAuth)) (the (tf_redirect_uri form)) s row"
    and "truthy (tf_code form)" and "truthy (tf_redirect_uri form)"
    and "\<And>d. code_lookup env (the (tf_code form)) (elapse d s1)
           = Some (consume_code (clock s) row, the (token_client_id form basicAuth))"
    and "t_clients s1 = t_clients s" and "rt \<in> set (t_refresh s1)" and "tr_refresh_token resp = Some token"
    and "rt_token_hash rt = refresh_hash env token" and "rt_user_id rt = ac_user_id row"
    and "rt_client_id rt = Some (cl_id client)" and "rt_status rt = Token_active"
proof -
  let ?cid = "the (token_client_id form basicAuth)"
  obtain client where cl: "truthy (token_client_id form basicAuth)"
    "List.find (\<lambda>c. cl_client_id c = ?cid) (t_clients s) = Some client" "cl_status client = Client_active"
    by (rule token_Inr [OF assms(2)])
  have grant: "oauth_grantCode env cfg form client ?cid (token_secret form basicAuth) ctx s = (Inr resp, s1)"
    using assms(2,3) token_eq [OF cl, of env cfg ctx] by simp
  obtain row where auth: "client_authenticated env client (token_secret form basicAuth)"
    and row: "code_valid env (the (tf_code form)) ?cid (the (tf_redirect_uri form)) s row"
    and issue: "oauth_issueUserTokens env cfg (ac_user_id row) client (ac_scope row) (ac_nonce row) ctx
           (s\<lparr>t_codes := consumed_codes row s\<rparr>) = (Inr resp, s1)"
    and form: "truthy (tf_code form)" "truthy (tf_redirect_uri form)"
    by (rule grantCode_Inr [OF assms(1) grant])
  obtain rt token where new: "t_refresh s1 = t_refresh s @ [rt]" "tr_refresh_token resp = Some token"
    "rt_token_hash rt = refresh_hash env token" "rt_user_id rt = ac_user_id row" "rt_client_id rt = Some (cl_id client)"
    "rt_status rt = Token_active"
    and codes: "t_codes s1 = consumed_codes row s" and clients: "t_clients s1 = t_clients s"
    by (rule issueUserTokens_run [OF issue]) simp
  have lookup: "code_lookup env (the (tf_code form)) (elapse d s1) = Some (consume_code (clock s) row, ?cid)" for d
    by (rule lookup_consumed [of env _ s]) (use row codes clients in \<open>simp_all add: code_valid_def elapse_def\<close>)
  show thesis
    by (rule that [of client row rt token, OF _ row form lookup clients _ new(2-6)]) (use cl auth new(1) in \<open>simp_all add: token_client_def\<close>)
qed

text \<open>
  C5: a used authorization code never works again, and replaying it takes back what it gave. When a code that was
  exchanged is presented again, at any later time, by whoever and with whatever form, the request is refused, and
  nothing but refresh tokens and the audit log changes. If the client is the authenticated client of the exchange,
  the redirect URI is the same and there is a verifier, right or wrong, the answer tells of the replay, every refresh
  token that the user has with this client is revoked, the one handed out at the exchange included, and the tokens of
  other users are not touched. In all other cases, another redirect URI among them, no refresh token changes.
\<close>

theorem code_replay_revokes:
  assumes "codes_ok s" and "oauth_token env cfg form basicAuth ctx s = (Inr resp, s1)"
    and "tf_grant_type form = ''authorization_code''" and "tf_grant_type form' = ''authorization_code''" and "tf_code form' = tf_code form"
  shows "\<exists>client row err s2. token_client env form basicAuth s client
    \<and> code_valid env (the (tf_code form)) (the (token_client_id form basicAuth)) (the (tf_redirect_uri form)) s row
    \<and> oauth_token env cfg form' basicAuth' ctx' (elapse d s1) = (Inl err, s2)
    \<and> s2 = (elapse d s1)\<lparr>t_refresh := t_refresh s2, t_audit := t_audit s2\<rparr>
    \<and> (if token_client_id form' basicAuth' = token_client_id form basicAuth \<and> token_client env form' basicAuth' s1 client
          \<and> tf_redirect_uri form' = tf_redirect_uri form \<and> truthy (tf_code_verifier form')
       then err = OAuthTokenError 400 ''invalid_grant'' ''Authorization code replay detected - issued tokens revoked''
         \<and> (\<forall>t \<in> set (t_refresh s2). rt_user_id t = ac_user_id row \<and> rt_client_id t = Some (cl_id client) \<longrightarrow> rt_status t = Token_revoked)
         \<and> (\<exists>token. tr_refresh_token resp = Some token \<and> refresh_spent env token s2)
         \<and> filter (\<lambda>t. rt_user_id t \<noteq> ac_user_id row) (t_refresh s2) = filter (\<lambda>t. rt_user_id t \<noteq> ac_user_id row) (t_refresh s1)
       else t_refresh s2 = t_refresh s1)"
proof -
  let ?cid = "the (token_client_id form basicAuth)" and ?code = "the (tf_code form)" and ?s = "elapse d s1"
  obtain client row rt token where client: "token_client env form basicAuth s client"
    and row: "code_valid env ?code ?cid (the (tf_redirect_uri form)) s row"
    and form: "truthy (tf_code form)" "truthy (tf_redirect_uri form)"
    and lookup: "code_lookup env ?code ?s = Some (consume_code (clock s) row, ?cid)"
    and clients: "t_clients s1 = t_clients s" and new: "rt \<in> set (t_refresh s1)" "tr_refresh_token resp = Some token"
      "rt_token_hash rt = refresh_hash env token" "rt_user_id rt = ac_user_id row" "rt_client_id rt = Some (cl_id client)" "rt_status rt = Token_active"
    by (rule exchange_run [OF assms(1-3)]) blast
  have cl: "truthy (token_client_id form basicAuth)" "List.find (\<lambda>c. cl_client_id c = ?cid) (t_clients s) = Some client"
    using client by (simp_all add: token_client_def)
  have code': "tf_code form' = Some ?code" "?code \<noteq> []" and uri: "ac_redirect_uri row = the (tf_redirect_uri form)"
    using assms(5) form(1) row by (cases "tf_code form"; simp add: code_valid_def)+
  have here: "token_client env form' basicAuth' ?s c = token_client env form' basicAuth' s1 c" for c by (simp add: token_client_def)
  obtain r s2 where run: "oauth_token env cfg form' basicAuth' ctx' ?s = (r, s2)" by fastforce
  show ?thesis
  proof (cases rule: second_presentation [OF lookup _ assms(4) code' run])
    case 1
    then show ?case by simp
  next
    case (2 client')
    have same: "client' = client" "token_client_id form' basicAuth' = token_client_id form basicAuth" "tf_redirect_uri form' = tf_redirect_uri form"
      using 2(1-4) cl form(2) clients uri by (simp_all add: token_client_def) (auto elim!: truthyE)
    obtain s2' where replay: "oauth_token env cfg form' basicAuth' ctx' ?s =
        (Inl (OAuthTokenError 400 ''invalid_grant'' ''Authorization code replay detected - issued tokens revoked''), s2')"
      and tok: "t_refresh s2' = update_where (\<lambda>r. rt_user_id r = ac_user_id (consume_code (clock s) row)
          \<and> (\<exists>c \<in> set (t_clients ?s). cl_client_id c = the (token_client_id form' basicAuth') \<and> rt_client_id r = Some (cl_id c))
          \<and> rt_status r \<in> {Token_active, Token_rotated}) (revoke_refresh (clock ?s)) (t_refresh ?s)"
      and frame: "s2' = ?s\<lparr>t_refresh := t_refresh s2', t_audit := t_audit s2'\<rparr>"
      by (rule token_replay [OF 2(2) assms(4), of "consume_code (clock s) row"]) (use 2 code' lookup same uri in simp_all)
    note tok = tok [unfolded same consume_code_simps elapse_tables clients]
    have known: "\<exists>c \<in> set (t_clients s). cl_client_id c = ?cid \<and> cl_id client = cl_id c"
      using find_SomeD [OF cl(2)] by blast
    have "refresh_spent env token s2'"
      by (rule replay_revokes(2) [OF tok known, of rt]) (simp_all add: new)
    moreover have "filter (\<lambda>t. rt_user_id t \<noteq> ac_user_id row) (t_refresh s2') = filter (\<lambda>t. rt_user_id t \<noteq> ac_user_id row) (t_refresh s1)"
      unfolding tok by (rule filter_update_where) simp
    ultimately show ?thesis
      using client row replay frame replay_revokes(1) [OF tok known] new(2) same 2(2,5) here
      by (intro exI [of _ client] exI [of _ row] exI [of _ "OAuthTokenError 400 ''invalid_grant''
        ''Authorization code replay detected - issued tokens revoked''"] exI [of _ s2'] conjI) simp_all
  next
    case (3 e a)
    have "\<not> (token_client_id form' basicAuth' = token_client_id form basicAuth \<and> token_client env form' basicAuth' s1 client
          \<and> tf_redirect_uri form' = tf_redirect_uri form \<and> truthy (tf_code_verifier form'))"
      using 3(3) cl(1) form(2) uri by (auto simp: here elim!: truthyE)
    moreover have "t_refresh s2 = t_refresh s1" by (simp add: 3(2))
    moreover have "oauth_token env cfg form' basicAuth' ctx' ?s = (Inl e, s2)" using run 3(1) by simp
    moreover have "s2 = ?s\<lparr>t_refresh := t_refresh s2, t_audit := t_audit s2\<rparr>"
      by (simp add: 3(2))
    ultimately show ?thesis
      using client row by (intro exI [of _ client] exI [of _ row] exI [of _ e] exI [of _ s2] conjI) (assumption | simp only: if_False)+
  qed
qed

definition guess_form :: token_form where
  "guess_form = code_form\<lparr>tf_code_verifier := Some ''guess''\<rparr>"

theorem code_replay_revokes_witness:
  "\<exists>token s2. oauth_token sample_env sample_cfg guess_form (Some (''cli'', ''sec'')) sample_ctx
      (elapse 7 (snd (oauth_token sample_env sample_cfg code_form (Some (''cli'', ''sec'')) sample_ctx code_world))) =
      (Inl (OAuthTokenError 400 ''invalid_grant'' ''Authorization code replay detected - issued tokens revoked''), s2)
    \<and> refresh_spent sample_env token s2"
proof -
  obtain resp s1 where run: "oauth_token sample_env sample_cfg code_form (Some (''cli'', ''sec'')) sample_ctx code_world = (Inr resp, s1)"
    by (rule code_world_run)
  have client: "token_client sample_env guess_form (Some (''cli'', ''sec'')) s1 client \<longleftrightarrow> token_client sample_env code_form (Some (''cli'', ''sec'')) code_world client" for client
    by (rule exchange_run [OF code_world_ok run code_form_grant]) (simp add: token_client_def token_client_id_def token_secret_def)
  have form: "tf_grant_type guess_form = ''authorization_code''" "tf_code guess_form = tf_code code_form"
    "token_client_id guess_form (Some (''cli'', ''sec'')) = token_client_id code_form (Some (''cli'', ''sec''))"
    "tf_redirect_uri guess_form = tf_redirect_uri code_form" "truthy (tf_code_verifier guess_form)"
    by code_simp+
  from code_replay_revokes [OF code_world_ok run code_form_grant form(1,2), of "Some (''cli'', ''sec'')" sample_ctx 7] show ?thesis
    by (simp add: run client form(3-5) cong: conj_cong) blast
qed

section \<open>Properties of the refresh grant\<close>

lemma core_cache: "core (redis_store k v t s) = core s" "core (redis_erase k s) = core s"
  by (simp_all add: core_def redis_op_defs redis_store_def redis_erase_def)

lemma findById_core: "sessions_findById uid s = (r, s') \<Longrightarrow> core s' = core s"
  by (auto simp: findById_run loadFresh_run core_cache split: option.splits rvalue.splits if_splits)

lemma findById_active:
  assumes "sessions_findById uid s = (Inr (Some session), s')" and "ss_status session = Session_active"
  shows "session_in s uid = Some session"
  using assms by (auto simp: findById_run loadFresh_run split: option.splits rvalue.splits if_splits)

lemma grantRefresh_eq:
  assumes "tf_refresh_token form = Some token" and "token \<noteq> []" and "client_authenticated env client sec"
    and "refresh_consume env cfg token s = (Inr c, s1)" and "rt_client_id (cr_row c) = Some (cl_id client)"
    and "sessions_findById (rt_session_id (cr_row c)) s1 = (Inr (Some session), s2)" and "ss_status session = Session_active"
    and "set (words_opt (tf_scope form)) \<subseteq> set (words (rt_scope (cr_row c)))"
  shows "oauth_grantRefresh env cfg form client sec ctx s =
    (let row = cr_row c; requested = words_opt (tf_scope form);
         scope = (if requested \<noteq> [] then join_with '' '' requested else rt_scope row) in
                bindM (users_rolesOf (rt_user_id row)) (\<lambda>roles.
                bindM (users_permissionsOf (rt_user_id row)) (\<lambda>permissions.
                bindM (signAccessToken env cfg \<lparr>ai_sub = rt_user_id row, ai_scope = scope, ai_roles = roles,
                         ai_permissions = permissions, ai_sid = Some (rt_session_id row),
                         ai_client_id = Some (cl_client_id client), ai_amr = Some [''oauth'']\<rparr> None) (\<lambda>signed.
                bindM (audit_record env (with_meta [(''grant'', JStr ''refresh_token''), (''scope'', JStr scope)]
                         (for_client (cl_id client) (for_user (rt_user_id row) (ctx_event ''TOKEN_ISSUED'' ctx))))) (\<lambda>_.
                bindM nowM (\<lambda>now.
                returnM \<lparr>tr_access_token = it_token signed, tr_expires_in = (it_expiresAt signed - now) div 1000,
                         tr_refresh_token = Some (cr_nextToken c), tr_scope = scope, tr_id_token = None\<rparr>))))) s2)"
proof -
  have "\<not> list_ex (\<lambda>sc. sc \<notin> set (words (rt_scope (cr_row c)))) (words_opt (tf_scope form))"
    using assms(8) by (auto simp: list_ex_iff)
  then show ?thesis
    using assms(1,2,5-7) clientAuth_ok [OF assms(3), of ctx s]
    by (simp add: oauth_grantRefresh_def bindM_run catchM_def assms(4) Let_def)
qed

lemma grantRefresh_Inr:
  assumes "oauth_grantRefresh env cfg form client sec ctx s = (Inr resp, s')"
  obtains token c s1 session s2 where "tf_refresh_token form = Some token" and "token \<noteq> []"
    and "client_authenticated env client sec" and "refresh_consume env cfg token s = (Inr c, s1)"
    and "rt_client_id (cr_row c) = Some (cl_id client)"
    and "sessions_findById (rt_session_id (cr_row c)) s1 = (Inr (Some session), s2)" and "ss_status session = Session_active"
    and "set (words_opt (tf_scope form)) \<subseteq> set (words (rt_scope (cr_row c)))"
proof -
  obtain token where token: "tf_refresh_token form = Some token" "token \<noteq> []"
    using assms by (cases "tf_refresh_token form") (auto simp: oauth_grantRefresh_def split: if_splits)
  note run = assms [unfolded oauth_grantRefresh_def Let_def token truthy_simps option.sel]
  obtain u s0 where auth: "oauth_clientAuth env client sec ctx s = (Inr u, s0)"
    using run token by (auto simp only: if_False simp_thms elim!: bindM_InrE)
  note auth' = clientAuth_Inr [OF auth]
  obtain c s1 where cons: "refresh_consume env cfg token s = (Inr c, s1)"
    using run token auth auth'(1)
    by (cases "refresh_consume env cfg token s") (auto simp: bindM_run catchM_def split: sum.splits if_splits)
  have cid: "rt_client_id (cr_row c) = Some (cl_id client)"
    using run token auth auth'(1) cons by (auto simp: bindM_run catchM_def split: if_splits prod.splits sum.splits)
  obtain found s2 where found: "sessions_findById (rt_session_id (cr_row c)) s1 = (Inr found, s2)"
    using run token auth auth'(1) cons cid
    by (cases "sessions_findById (rt_session_id (cr_row c)) s1") (auto simp: bindM_run catchM_def split: sum.splits)
  obtain session where session: "found = Some session" "ss_status session = Session_active"
    using run token auth auth'(1) cons cid found
    by (cases found) (auto simp: bindM_run catchM_def split: if_splits prod.splits sum.splits)
  have "\<not> list_ex (\<lambda>sc. sc \<notin> set (words (rt_scope (cr_row c)))) (words_opt (tf_scope form))"
    using run token auth auth'(1) cons cid found session by (auto simp: bindM_run catchM_def)
  then have "set (words_opt (tf_scope form)) \<subseteq> set (words (rt_scope (cr_row c)))"
    by (auto simp: list_ex_iff)
  with token auth'(2) cons cid found session show ?thesis
    by (intro that [of token c s1 session s2]) simp_all
qed

text \<open>
  C14: the refresh grant never gives more than was granted. The client is active, authenticated and the
  one the token was issued to; the token was active and not expired and is rotated; its session is
  active in the table; the scope of the response is a subset of the original scope; and the new
  refresh token carries the original scope, session, user and client.
\<close>

theorem oauth_refresh_sound:
  assumes "refresh_keys_ok s" and "oauth_token env cfg form basicAuth ctx s = (Inr resp, s')"
    and "tf_grant_type form = ''refresh_token''"
  shows "\<exists>client token r new next session. token_client env form basicAuth s client \<and> tf_refresh_token form = Some token
    \<and> r \<in> set (t_refresh s) \<and> rt_token_hash r = refresh_hash env token \<and> rt_status r = Token_active
    \<and> clock s < rt_expires_at r \<and> rt_client_id r = Some (cl_id client)
    \<and> session_in s (rt_session_id r) = Some session \<and> ss_status session = Session_active
    \<and> set (words (tr_scope resp)) \<subseteq> set (words (rt_scope r))
    \<and> t_refresh s' = map (\<lambda>x. if x = r then rotate_refresh (clock s) r else x) (t_refresh s) @ [new]
    \<and> tr_refresh_token resp = Some next \<and> rt_token_hash new = refresh_hash env next \<and> rt_status new = Token_active
    \<and> rt_scope new = rt_scope r \<and> rt_session_id new = rt_session_id r \<and> rt_user_id new = rt_user_id r
    \<and> rt_client_id new = rt_client_id r \<and> t_sessions s' = t_sessions s"
proof -
  obtain client where cl: "truthy (token_client_id form basicAuth)"
    "List.find (\<lambda>c. cl_client_id c = the (token_client_id form basicAuth)) (t_clients s) = Some client"
    "cl_status client = Client_active"
    by (rule token_Inr [OF assms(2)])
  have grant: "oauth_grantRefresh env cfg form client (token_secret form basicAuth) ctx s = (Inr resp, s')"
    using assms(2,3) token_eq [OF cl, of env cfg ctx] by simp
  obtain token c s1 session s2 where tok: "tf_refresh_token form = Some token" "token \<noteq> []"
    and auth: "client_authenticated env client (token_secret form basicAuth)"
    and cons: "refresh_consume env cfg token s = (Inr c, s1)"
    and cid: "rt_client_id (cr_row c) = Some (cl_id client)"
    and found: "sessions_findById (rt_session_id (cr_row c)) s1 = (Inr (Some session), s2)" "ss_status session = Session_active"
    and scopes: "set (words_opt (tf_scope form)) \<subseteq> set (words (rt_scope (cr_row c)))"
    by (rule grantRefresh_Inr [OF grant])
  obtain r new where r: "r \<in> set (t_refresh s)" "rt_token_hash r = refresh_hash env token" "rt_status r = Token_active"
      "clock s < rt_expires_at r" and row: "cr_row c = rotate_refresh (clock s) r"
    and table: "t_refresh s1 = map (\<lambda>x. if x = r then rotate_refresh (clock s) r else x) (t_refresh s) @ [new]"
    and new: "rt_token_hash new = refresh_hash env (cr_nextToken c)" "rt_status new = Token_active"
      "rt_session_id new = rt_session_id r" "rt_user_id new = rt_user_id r" "rt_client_id new = rt_client_id r"
      "rt_scope new = rt_scope r"
    and sess: "t_sessions s1 = t_sessions s"
    using consume_success [OF assms(1) cons] by blast
  have in_table: "session_in s (rt_session_id r) = Some session"
    using findById_active [OF found] by (simp add: row session_in_def sess)
  define scope where "scope = (if words_opt (tf_scope form) \<noteq> [] then join_with '' '' (words_opt (tf_scope form)) else rt_scope r)"
  from grant [unfolded grantRefresh_eq [OF tok auth cons cid found scopes] Let_def row rotate_refresh_simps, folded scope_def]
  obtain inp signed s3 where sign: "signAccessToken env cfg inp None s2 = (Inr signed, s3)"
    and resp: "tr_refresh_token resp = Some (cr_nextToken c)" "tr_scope resp = scope"
    and s': "t_refresh s' = t_refresh s3" "t_sessions s' = t_sessions s3"
    by (auto simp: users_rolesOf_def users_permissionsOf_def)
  note c2 = coreD [OF findById_core [OF found(1)]] and c3 = coreD [OF keeps_coreD [OF keeps_core_sign(1) sign]]
  have "words (join_with '' '' (words v)) = words v" for v
    by (rule words_join_words)
  then have "set (words scope) \<subseteq> set (words (rt_scope r))"
    using scopes by (auto simp: scope_def words_opt_def row split: option.splits)
  then show ?thesis
    using cl auth tok r cid in_table found(2) table new sess
    by (intro exI [of _ client] exI [of _ token] exI [of _ r] exI [of _ new] exI [of _ "cr_nextToken c"] exI [of _ session] conjI)
      (simp_all add: token_client_def row resp s' c2 c3)
qed

definition refresh_form :: token_form where
  "refresh_form = \<lparr>tf_grant_type = ''refresh_token'', tf_code = None, tf_redirect_uri = None, tf_client_id = Some ''cli'',
     tf_client_secret = Some ''sec'', tf_code_verifier = None, tf_scope = Some ''api.read'', tf_refresh_token = Some ''tok''\<rparr>"

definition refresh_world :: world where
  "refresh_world = sample_world\<lparr>t_refresh := [sample_refresh\<lparr>rt_client_id := Some ''Uc''\<rparr>]\<rparr>"

theorem oauth_refresh_sound_witness:
  "map rt_status (t_refresh (snd (oauth_token sample_env sample_cfg refresh_form None sample_ctx refresh_world)))
     = [Token_rotated, Token_active]"
proof -
  have "case oauth_token sample_env sample_cfg refresh_form None sample_ctx refresh_world of (Inr _, _) \<Rightarrow> True | _ \<Rightarrow> False"
    by code_simp
  then obtain resp s' where run: "oauth_token sample_env sample_cfg refresh_form None sample_ctx refresh_world = (Inr resp, s')"
    by (auto split: prod.splits sum.splits)
  have "refresh_keys_ok refresh_world" and "tf_grant_type refresh_form = ''refresh_token''"
    by code_simp+
  moreover have "t_refresh refresh_world = [sample_refresh\<lparr>rt_client_id := Some ''Uc''\<rparr>]"
    by (simp add: refresh_world_def)
  ultimately show ?thesis
    using oauth_refresh_sound [OF _ run] by (auto simp: run)
qed

text \<open>
  A replayed refresh token at the token endpoint does not get the answer that the endpoint prepares
  for it. The service raises the general error and not \<open>AuthError\<close>, so the handler for it does not
  run: the client sees \<open>REFRESH_TOKEN_REUSE\<close> instead of \<open>invalid_grant\<close>, and no row is added to the audit
  log, although the chain and the session are revoked.
\<close>

theorem oauth_reuse_not_recorded:
  assumes "refresh_keys_ok s" and "token_client env form basicAuth s client"
    and "tf_grant_type form = ''refresh_token''" and "tf_refresh_token form = Some token" and "token \<noteq> []"
    and "refresh_spent env token s"
  shows "\<exists>r s'. oauth_token env cfg form basicAuth ctx s =
      (Inl (AppError 401 ''REFRESH_TOKEN_REUSE'' ''Refresh token reuse detected - session revoked''), s')
    \<and> r \<in> set (t_refresh s) \<and> rt_token_hash r = refresh_hash env token \<and> s' = theft_response r s \<and> t_audit s' = t_audit s"
proof -
  obtain r where r: "r \<in> set (t_refresh s)" "rt_token_hash r = refresh_hash env token"
    and run: "refresh_consume env cfg token s =
      (Inl (AppError 401 ''REFRESH_TOKEN_REUSE'' ''Refresh token reuse detected - session revoked''), theft_response r s)"
    by (rule spent_known [OF assms(1,6), of cfg])
  have auth: "oauth_clientAuth env client (token_secret form basicAuth) ctx s = (Inr (), s)"
    using assms(2) by (simp add: token_client_def clientAuth_ok)
  have "oauth_grantRefresh env cfg form client (token_secret form basicAuth) ctx s =
      (Inl (AppError 401 ''REFRESH_TOKEN_REUSE'' ''Refresh token reuse detected - session revoked''), theft_response r s)"
    using assms(4,5) by (simp add: oauth_grantRefresh_def bindM_run auth catchM_def run Let_def is_AuthError_def AppError_def)
  then have "oauth_token env cfg form basicAuth ctx s =
      (Inl (AppError 401 ''REFRESH_TOKEN_REUSE'' ''Refresh token reuse detected - session revoked''), theft_response r s)"
    using assms(2,3) by (simp add: token_client_def token_eq)
  with r show ?thesis
    by (intro exI [of _ r] exI [of _ "theft_response r s"]) (simp add: theft_response_def)
qed

theorem oauth_reuse_not_recorded_witness:
  "t_audit (snd (oauth_token sample_env sample_cfg refresh_form None sample_ctx
      (refresh_world\<lparr>t_refresh := [sample_refresh\<lparr>rt_client_id := Some ''Uc'', rt_status := Token_rotated\<rparr>]\<rparr>))) = []"
proof -
  let ?s = "refresh_world\<lparr>t_refresh := [sample_refresh\<lparr>rt_client_id := Some ''Uc'', rt_status := Token_rotated\<rparr>]\<rparr>"
  have "refresh_keys_ok ?s" and "refresh_spent sample_env ''tok'' ?s" and "tf_grant_type refresh_form = ''refresh_token''"
    and "tf_refresh_token refresh_form = Some ''tok''"
    by code_simp+
  moreover have "token_client sample_env refresh_form None ?s sample_client"
    by (simp add: token_client_def refresh_form_def token_client_id_def token_secret_def refresh_world_def sample_world_def
        sample_client_def client_authenticated_def sample_env_def)
  ultimately show ?thesis
    using oauth_reuse_not_recorded [of ?s sample_env refresh_form None sample_client "''tok''" sample_cfg sample_ctx]
    by (auto simp: refresh_world_def sample_world_def empty_world_def)
qed

end
