(* ===== verification/Rbac.thy ===== *)
theory Rbac
  imports Clients Users
begin

text \<open>
  Roles and permissions: \<^verbatim>\<open>src/modules/roles/rbac.repository.ts\<close> and the administration routes of
  \<^verbatim>\<open>src/modules/roles/admin.routes.ts\<close>. Parameters and bodies are modelled after their schema
  validation.
\<close>

section \<open>RbacRepository\<close>

definition rbac_listRoles :: "role_row list act" where
  "rbac_listRoles = getM (\<lambda>s. sort_key ro_name (t_roles s))"

definition rbac_listPermissions :: "string list act" where
  "rbac_listPermissions = getM (\<lambda>s. sort (map pe_name (t_permissions s)))"

definition rbac_listScopes :: "(string \<times> string option) list act" where
  "rbac_listScopes = getM (\<lambda>s. map (\<lambda>r. (sc_name r, sc_description r)) (sort_key sc_name (t_scopes s)))"

definition rbac_rolePermissionNames :: "uuid \<Rightarrow> string list act" where
  "rbac_rolePermissionNames roleId = getM (\<lambda>s.
     sort [pe_name p. p \<leftarrow> t_permissions s, rp \<leftarrow> t_role_permissions s, snd rp = pe_id p \<and> fst rp = roleId])"

text \<open>
  A transaction: when a query of the body is refused, what the body wrote is rolled back. The only
  query that can be refused is the insertion of rows for a role or a user that does not exist.
\<close>

definition rbac_setRolePermissions :: "uuid \<Rightarrow> string list \<Rightarrow> unit act" where
  "rbac_setRolePermissions roleId permissionNames = (\<lambda>s.
     let kept = filter (\<lambda>rp. fst rp \<noteq> roleId) (t_role_permissions s);
         new = [(roleId, pe_id p). p \<leftarrow> t_permissions s, pe_name p \<in> set permissionNames]
     in if permissionNames = [] then (Inr (), s\<lparr>t_role_permissions := kept\<rparr>)
        else if new \<noteq> [] \<and> \<not> list_ex (\<lambda>r. ro_id r = roleId) (t_roles s)
        then (Inl (DbError ''role_permissions_role_id_fkey''), s)
        else (Inr (), s\<lparr>t_role_permissions := kept @ new\<rparr>))"

definition rbac_userRoleIds :: "uuid \<Rightarrow> uuid list act" where
  "rbac_userRoleIds userId = getM (\<lambda>s. map snd (filter (\<lambda>ur. fst ur = userId) (t_user_roles s)))"

definition rbac_setUserRoles :: "uuid \<Rightarrow> string list \<Rightarrow> unit act" where
  "rbac_setUserRoles userId roleNames = (\<lambda>s.
     let kept = filter (\<lambda>ur. fst ur \<noteq> userId) (t_user_roles s);
         new = [(userId, ro_id r). r \<leftarrow> t_roles s, ro_name r \<in> set roleNames]
     in if roleNames = [] then (Inr (), s\<lparr>t_user_roles := kept\<rparr>)
        else if new \<noteq> [] \<and> \<not> list_ex (\<lambda>u. u_id u = userId) (t_users s)
        then (Inl (DbError ''user_roles_user_id_fkey''), s)
        else (Inr (), s\<lparr>t_user_roles := kept @ new\<rparr>))"

record user_listing =
  ul_id :: uuid
  ul_email :: string
  ul_status :: user_status
  ul_created_at :: timestamp
  ul_roles :: "string list"

definition rbac_listUsers :: "int \<Rightarrow> int \<Rightarrow> user_listing list act" where
  "rbac_listUsers limit offset = getM (\<lambda>s.
     map (\<lambda>u. \<lparr>ul_id = u_id u, ul_email = u_email u, ul_status = u_status u, ul_created_at = u_created_at u,
               ul_roles = [ro_name r. ur \<leftarrow> t_user_roles s, fst ur = u_id u, r \<leftarrow> t_roles s, ro_id r = snd ur]\<rparr>)
       (take (nat limit) (drop (nat offset) (rev (sort_key u_created_at (t_users s))))))"

definition rbac_setUserStatus :: "uuid \<Rightarrow> bool \<Rightarrow> unit act" where
  "rbac_setUserStatus userId disabled = modifyM (\<lambda>s.
     s\<lparr>t_users := update_where (\<lambda>u. u_id u = userId)
        (\<lambda>u. u\<lparr>u_status := (if disabled then User_disabled else User_active), u_updated_at := clock s\<rparr>) (t_users s)\<rparr>)"

text \<open>A negative limit is refused by the database.\<close>

definition rbac_listAuditEvents :: "int \<Rightarrow> string option \<Rightarrow> audit_row list act" where
  "rbac_listAuditEvents limit eventType =
     (if limit < 0 then throwM (DbError ''LIMIT must not be negative'')
      else getM (\<lambda>s. take (nat limit) (rev (sort_key al_created_at
        (filter (\<lambda>r. truthy eventType \<longrightarrow> al_event_type r = the eventType) (t_audit s))))))"

section \<open>Administration routes\<close>

definition jstrings :: "string list \<Rightarrow> jval" where
  "jstrings xs = JArr (map JStr xs)"

definition role_json :: "role_row \<Rightarrow> string list \<Rightarrow> jval" where
  "role_json r permissions = JObj [(''id'', JStr (ro_id r)), (''name'', JStr (ro_name r)),
     (''description'', jopt (ro_description r)), (''is_system'', JBool (ro_is_system r)),
     (''permissions'', jstrings permissions)]"

fun collect_permissions :: "role_row list \<Rightarrow> jval list act" where
  "collect_permissions [] = returnM []"
| "collect_permissions (r # rs) =
     bindM (rbac_rolePermissionNames (ro_id r)) (\<lambda>ps.
     bindM (collect_permissions rs) (\<lambda>rest. returnM (role_json r ps # rest)))"

definition admin_roles_route :: "externals \<Rightarrow> config \<Rightarrow> string option \<Rightarrow> http_response act" where
  "admin_roles_route env cfg header = guarded env cfg header [''roles:read''] (\<lambda>_.
     bindM rbac_listRoles (\<lambda>roles.
     bindM (collect_permissions roles) (\<lambda>withPermissions.
     ok_json 200 [(''roles'', JArr withPermissions)])))"

definition admin_setRolePermissions_route ::
  "externals \<Rightarrow> config \<Rightarrow> string option \<Rightarrow> uuid \<Rightarrow> string list \<Rightarrow> route_ctx \<Rightarrow> http_response act" where
  "admin_setRolePermissions_route env cfg header roleId permissions rq = guarded env cfg header [''roles:write''] (\<lambda>user.
     bindM (rbac_setRolePermissions roleId permissions) (\<lambda>_.
     bindM (audit_record env (admin_event ''ROLE_PERMISSIONS_UPDATED'' user rq [(''role_id'', JStr roleId)])) (\<lambda>_.
     ok_json 200 [(''status'', JStr ''updated'')])))"

definition admin_permissions_route :: "externals \<Rightarrow> config \<Rightarrow> string option \<Rightarrow> http_response act" where
  "admin_permissions_route env cfg header = guarded env cfg header [''roles:read''] (\<lambda>_.
     bindM rbac_listPermissions (\<lambda>ps.
     ok_json 200 [(''permissions'', JArr (map (\<lambda>n. JObj [(''name'', JStr n)]) ps))]))"

definition admin_scopes_route :: "externals \<Rightarrow> config \<Rightarrow> string option \<Rightarrow> http_response act" where
  "admin_scopes_route env cfg header = guarded env cfg header [''roles:read''] (\<lambda>_.
     bindM rbac_listScopes (\<lambda>ss.
     ok_json 200 [(''scopes'', JArr (map (\<lambda>(n, d). JObj [(''name'', JStr n), (''description'', jopt d)]) ss))]))"

definition user_status_name :: "user_status \<Rightarrow> string" where
  "user_status_name t = (case t of User_active \<Rightarrow> ''active'' | User_pending_verification \<Rightarrow> ''pending_verification''
     | User_locked \<Rightarrow> ''locked'' | User_disabled \<Rightarrow> ''disabled'')"

definition listing_json :: "user_listing \<Rightarrow> jval" where
  "listing_json u = JObj [(''id'', JStr (ul_id u)), (''email'', JStr (ul_email u)),
     (''status'', JStr (user_status_name (ul_status u))), (''created_at'', JNum (ul_created_at u)),
     (''roles'', jstrings (ul_roles u))]"

definition admin_users_route :: "externals \<Rightarrow> config \<Rightarrow> string option \<Rightarrow> int \<Rightarrow> int \<Rightarrow> http_response act" where
  "admin_users_route env cfg header limit offset = guarded env cfg header [''users:read''] (\<lambda>_.
     bindM (rbac_listUsers limit offset) (\<lambda>us.
     ok_json 200 [(''users'', JArr (map listing_json us)), (''limit'', JNum limit), (''offset'', JNum offset)]))"

definition admin_setUserRoles_route ::
  "externals \<Rightarrow> config \<Rightarrow> string option \<Rightarrow> uuid \<Rightarrow> string list \<Rightarrow> route_ctx \<Rightarrow> http_response act" where
  "admin_setUserRoles_route env cfg header userId roles rq = guarded env cfg header [''users:write''] (\<lambda>user.
     bindM (rbac_setUserRoles userId roles) (\<lambda>_.
     bindM (audit_record env (admin_event ''USER_ROLES_UPDATED'' user rq
              [(''target_user_id'', JStr userId), (''roles'', jstrings roles)])) (\<lambda>_.
     ok_json 200 [(''status'', JStr ''updated'')])))"

definition admin_setUserStatus_route ::
  "externals \<Rightarrow> config \<Rightarrow> string option \<Rightarrow> uuid \<Rightarrow> bool \<Rightarrow> route_ctx \<Rightarrow> http_response act" where
  "admin_setUserStatus_route env cfg header userId disabled rq = guarded env cfg header [''users:write''] (\<lambda>user.
     bindM (rbac_setUserStatus userId disabled) (\<lambda>_.
     bindM (audit_record env (admin_event (if disabled then ''USER_DISABLED'' else ''USER_ENABLED'') user rq
              [(''target_user_id'', JStr userId)])) (\<lambda>_.
     ok_json 200 [(''status'', JStr ''updated'')])))"

text \<open>\<open>Number(\<dots>)\<close> of the query value: \<open>None\<close> when it is missing or no number.\<close>

definition audit_limit :: "int option \<Rightarrow> int" where
  "audit_limit q = min (case q of None \<Rightarrow> 50 | Some n \<Rightarrow> if n = 0 then 50 else n) 200"

definition audit_json :: "audit_row \<Rightarrow> jval" where
  "audit_json r = JObj [(''id'', JStr (al_id r)), (''event_type'', JStr (al_event_type r)), (''user_id'', jopt (al_user_id r)),
     (''client_id'', jopt (al_client_id r)), (''ip'', jopt (al_ip r)), (''user_agent'', jopt (al_user_agent r)),
     (''request_id'', jopt (al_request_id r)), (''metadata'', JObj (al_metadata r)), (''created_at'', JNum (al_created_at r))]"

definition admin_audit_route ::
  "externals \<Rightarrow> config \<Rightarrow> string option \<Rightarrow> int option \<Rightarrow> string option \<Rightarrow> http_response act" where
  "admin_audit_route env cfg header limit eventType = guarded env cfg header [''audit:read''] (\<lambda>_.
     bindM (rbac_listAuditEvents (audit_limit limit) eventType) (\<lambda>events.
     ok_json 200 [(''events'', JArr (map audit_json events)), (''limit'', JNum (audit_limit limit))]))"

section \<open>Properties\<close>

lemma setUserRoles_run:
  assumes "rbac_setUserRoles userId roleNames s = (Inr u, s')"
  shows "s' = s\<lparr>t_user_roles := filter (\<lambda>ur. fst ur \<noteq> userId) (t_user_roles s)
    @ [(userId, ro_id r). r \<leftarrow> t_roles s, ro_name r \<in> set roleNames]\<rparr>"
  using assms by (auto simp: rbac_setUserRoles_def Let_def split: if_splits)

text \<open>
  Setting the roles of a user decides the permissions of the next tokens. After the route's update
  the permissions looked up for the user are exactly those that a role of the given names grants, in
  order and without repetition, and those of every other user are what they were.
\<close>

theorem user_roles_decide_permissions:
  assumes "rbac_setUserRoles userId roleNames s = (Inr (), s')"
  shows "(\<exists>ps. users_permissionsOf userId s' = (Inr ps, s') \<and> sorted ps \<and> distinct ps \<and>
      (\<forall>name. name \<in> set ps \<longleftrightarrow>
        (\<exists>p \<in> set (t_permissions s). \<exists>r \<in> set (t_roles s). pe_name p = name \<and> ro_name r \<in> set roleNames
           \<and> (ro_id r, pe_id p) \<in> set (t_role_permissions s))))
    \<and> (\<forall>v. v \<noteq> userId \<longrightarrow> fst (users_permissionsOf v s') = fst (users_permissionsOf v s))"
proof
  note s' = setUserRoles_run [OF assms]
  have rows: "(x, role) \<in> set (t_user_roles s') \<longleftrightarrow>
      (if x = userId then \<exists>r \<in> set (t_roles s). ro_id r = role \<and> ro_name r \<in> set roleNames
       else (x, role) \<in> set (t_user_roles s))" for x role
    by (auto simp: s')
  have same: "t_permissions s' = t_permissions s" "t_role_permissions s' = t_role_permissions s"
    by (simp_all add: s')
  obtain ps where ps: "users_permissionsOf userId s' = (Inr ps, s')" "sorted ps" "distinct ps"
    and names: "\<forall>name. name \<in> set ps \<longleftrightarrow>
        (\<exists>p \<in> set (t_permissions s'). \<exists>role. pe_name p = name \<and> (role, pe_id p) \<in> set (t_role_permissions s')
           \<and> (userId, role) \<in> set (t_user_roles s'))"
    using permissionsOf_spec [of userId s'] by blast
  show "\<exists>ps. users_permissionsOf userId s' = (Inr ps, s') \<and> sorted ps \<and> distinct ps \<and>
      (\<forall>name. name \<in> set ps \<longleftrightarrow>
        (\<exists>p \<in> set (t_permissions s). \<exists>r \<in> set (t_roles s). pe_name p = name \<and> ro_name r \<in> set roleNames
           \<and> (ro_id r, pe_id p) \<in> set (t_role_permissions s)))"
    using ps names by (intro exI [of _ ps]) (auto simp: rows same)
  show "\<forall>v. v \<noteq> userId \<longrightarrow> fst (users_permissionsOf v s') = fst (users_permissionsOf v s)"
  proof (intro allI impI)
    fix v
    assume other: "v \<noteq> userId"
    obtain ps' where ps': "users_permissionsOf v s' = (Inr ps', s')" "sorted ps'" "distinct ps'"
      and names': "\<forall>name. name \<in> set ps' \<longleftrightarrow>
          (\<exists>p \<in> set (t_permissions s'). \<exists>role. pe_name p = name \<and> (role, pe_id p) \<in> set (t_role_permissions s')
             \<and> (v, role) \<in> set (t_user_roles s'))"
      using permissionsOf_spec [of v s'] by blast
    obtain ps0 where ps0: "users_permissionsOf v s = (Inr ps0, s)" "sorted ps0" "distinct ps0"
      and names0: "\<forall>name. name \<in> set ps0 \<longleftrightarrow>
          (\<exists>p \<in> set (t_permissions s). \<exists>role. pe_name p = name \<and> (role, pe_id p) \<in> set (t_role_permissions s)
             \<and> (v, role) \<in> set (t_user_roles s))"
      using permissionsOf_spec [of v s] by blast
    have "set ps' = set ps0"
      using names' names0 other by (auto simp: rows same)
    with ps' ps0 have "ps' = ps0"
      by (simp add: sorted_distinct_set_unique)
    with ps' ps0 show "fst (users_permissionsOf v s') = fst (users_permissionsOf v s)"
      by simp
  qed
qed

definition rbac_world :: world where
  "rbac_world = sample_world\<lparr>
     t_roles := [\<lparr>ro_id = ''Uu'', ro_name = ''user'', ro_description = None, ro_is_system = True\<rparr>,
                 \<lparr>ro_id = ''Ux'', ro_name = ''admin'', ro_description = None, ro_is_system = True\<rparr>],
     t_permissions := [\<lparr>pe_id = ''Up'', pe_name = ''users:read''\<rparr>],
     t_role_permissions := [(''Ux'', ''Up'')]\<rparr>"

theorem user_roles_decide_permissions_witness:
  "\<exists>ps. fst (users_permissionsOf ''Ua'' (snd (rbac_setUserRoles ''Ua'' [''admin''] rbac_world))) = Inr ps
     \<and> ''users:read'' \<in> set ps"
proof -
  have "case rbac_setUserRoles ''Ua'' [''admin''] rbac_world of (Inr _, _) \<Rightarrow> True | _ \<Rightarrow> False"
    by code_simp
  then obtain s' where run: "rbac_setUserRoles ''Ua'' [''admin''] rbac_world = (Inr (), s')"
    by (auto split: prod.splits sum.splits)
  have "\<exists>p \<in> set (t_permissions rbac_world). \<exists>r \<in> set (t_roles rbac_world). pe_name p = ''users:read''
      \<and> ro_name r \<in> set [''admin''] \<and> (ro_id r, pe_id p) \<in> set (t_role_permissions rbac_world)"
    by code_simp
  with user_roles_decide_permissions [OF run] show ?thesis
    unfolding run snd_conv by (metis fst_conv)
qed

end
