(* ===== verification/Rate_Limit.thy ===== *)
theory Rate_Limit
  imports Redis
begin

text \<open>
  \<^verbatim>\<open>src/modules/rate-limit/rate-limit.middleware.ts\<close>: the fixed-window rate limiter, its
  behaviour on one request, and on the requests of a whole window.
\<close>

record rate_limit_options =
  ro_limit :: int
  ro_windowSeconds :: int
  ro_bucket :: string

text \<open>
  The middleware lets the request through with the two header values (limit and remaining), or
  passes \<open>TooManyRequestsError\<close> on. \<open>identity\<close> is what the key resolver or \<open>req.ip ?? 'unknown'\<close> gave.
\<close>

definition rateLimitMiddleware :: "rate_limit_options \<Rightarrow> string \<Rightarrow> (int \<times> int) act" where
  "rateLimitMiddleware opts identity =
     (let key = redis_key [''rl'', ro_bucket opts, identity] in
      bindM (redis_incrementWindow key (ro_windowSeconds opts)) (\<lambda>count.
      let remaining = max 0 (ro_limit opts - count) in
      if count > ro_limit opts then
        bindM (redis_ttl key) (\<lambda>ttl.
        let retry = (if ttl > 0 then ttl else ro_windowSeconds opts) in
        throwM (TooManyRequestsError retry))
      else returnM (ro_limit opts, remaining)))"

definition rate_key :: "rate_limit_options \<Rightarrow> string \<Rightarrow> string" where
  "rate_key opts identity = redis_key [''rl'', ro_bucket opts, identity]"

section \<open>One request\<close>

text \<open>The counter of the current window: absent, or a number with a deadline.\<close>

definition window_count :: "string \<Rightarrow> int \<Rightarrow> timestamp \<Rightarrow> world \<Rightarrow> bool" where
  "window_count key n deadline s \<longleftrightarrow>
     redis_entry (clock s) (redis s) key = Some \<lparr>re_value = RCount n, re_expires = Some deadline\<rparr>"

lemma window_count_live: "window_count key n deadline s \<Longrightarrow> clock s < deadline"
  by (auto simp: window_count_def entry_live_def dest: redis_entry_live)

lemma window_count_elapse:
  "window_count key n deadline s \<Longrightarrow> 0 \<le> d \<Longrightarrow> clock s + d < deadline \<Longrightarrow>
   window_count key n deadline (elapse d s)"
  by (auto simp: window_count_def redis_entry_def entry_live_def split: option.splits if_splits)

lemma incrementWindow_first:
  assumes "redis_lookup key s = None" and "0 < w"
  obtains s' where "redis_incrementWindow key w s = (Inr 1, s')"
    and "window_count key 1 (clock s + 1000 * w) s'" and "clock s' = clock s"
proof -
  from assms(1) have none: "redis_entry (clock s) (redis s) key = None"
    by (simp add: redis_lookup_def)
  let ?s1 = "s\<lparr>redis := redis_put key \<lparr>re_value = RCount 1, re_expires = None\<rparr> (redis s)\<rparr>"
  have incr: "redis_incr key s = (Inr 1, ?s1)"
    by (simp add: redis_incr_def none)
  show thesis
    by (rule that [of "snd (redis_incrementWindow key w s)"])
       (simp_all add: redis_incrementWindow_def incr redis_expire_def redis_entry_put
          entry_live_def window_count_def assms(2))
qed

lemma incrementWindow_next:
  assumes "window_count key n deadline s" and "n \<noteq> 0"
  obtains s' where "redis_incrementWindow key w s = (Inr (n + 1), s')"
    and "window_count key (n + 1) deadline s'" and "clock s' = clock s"
  by (rule that [of "snd (redis_incrementWindow key w s)"])
     (use assms window_count_live [OF assms(1)] in
       \<open>simp_all add: redis_incrementWindow_def redis_incr_def window_count_def redis_entry_put
          entry_live_def bindM_def whenM_def returnM_def\<close>)

definition passed :: "exn + 'a \<Rightarrow> bool" where
  "passed r \<longleftrightarrow> (case r of Inl _ \<Rightarrow> False | Inr _ \<Rightarrow> True)"

lemma passed_simps [simp]: "passed (Inr x)" "\<not> passed (Inl e)"
  by (simp_all add: passed_def)

lemma rate_limit_state:
  assumes "redis_incrementWindow (rate_key opts ident) (ro_windowSeconds opts) s = (Inr n, s')"
  shows "snd (rateLimitMiddleware opts ident s) = s'"
    and "passed (fst (rateLimitMiddleware opts ident s)) \<longleftrightarrow> n \<le> ro_limit opts"
  using assms
  by (auto simp: rateLimitMiddleware_def rate_key_def bindM_def Let_def redis_ttl_def)

section \<open>The requests of one window\<close>

text \<open>Requests of one identity, each after a delay in milliseconds.\<close>

fun request_run :: "rate_limit_options \<Rightarrow> string \<Rightarrow> int list \<Rightarrow> world \<Rightarrow> bool list \<times> world" where
  "request_run opts ident [] s = ([], s)"
| "request_run opts ident (d # ds) s =
     (let (r, s1) = rateLimitMiddleware opts ident (elapse d s);
          (rs, s2) = request_run opts ident ds s1
      in (passed r # rs, s2))"

lemma request_run_Cons:
  "fst (request_run opts ident (d # ds) s) =
     passed (fst (rateLimitMiddleware opts ident (elapse d s))) #
     fst (request_run opts ident ds (snd (rateLimitMiddleware opts ident (elapse d s))))"
  by (simp add: Let_def split: prod.splits)

lemma map_count_Suc:
  "map (\<lambda>i. k + int i < L) [0..<Suc n] = (k < L) # map (\<lambda>i. k + 1 + int i < L) [0..<n]"
  by (simp add: upt_conv_Cons map_Suc_upt [symmetric] comp_def algebra_simps del: upt_Suc)

lemma request_run_window:
  assumes "window_count (rate_key opts ident) n deadline s" and "0 < n"
    and "\<forall>d \<in> set ds. 0 \<le> d" and "clock s + sum_list ds < deadline"
  shows "fst (request_run opts ident ds s) =
         map (\<lambda>i. n + int i < ro_limit opts) [0..<length ds]"
  using assms
proof (induction ds arbitrary: n s)
  case Nil
  then show ?case by simp
next
  case (Cons d ds)
  let ?key = "rate_key opts ident"
  have d: "0 \<le> d" and "0 \<le> sum_list ds"
    using Cons.prems(3) by (auto intro: sum_list_nonneg)
  with Cons.prems(4) have "clock s + d < deadline" by simp
  with Cons.prems(1) d have "window_count ?key n deadline (elapse d s)"
    by (rule window_count_elapse)
  moreover have "n \<noteq> 0"
    using Cons.prems(2) by simp
  ultimately obtain s' where inc: "redis_incrementWindow ?key (ro_windowSeconds opts) (elapse d s) = (Inr (n + 1), s')"
    and wc: "window_count ?key (n + 1) deadline s'" and clk: "clock s' = clock (elapse d s)"
    by (rule incrementWindow_next)
  have rest: "fst (request_run opts ident ds s') =
      map (\<lambda>i. n + 1 + int i < ro_limit opts) [0..<length ds]"
    by (rule Cons.IH [OF wc]) (use clk Cons.prems in simp_all)
  show ?case
    unfolding request_run_Cons rate_limit_state [OF inc] rest
    by (simp add: map_count_Suc del: upt_Suc) (simp add: add1_zle_eq)
qed

text \<open>
  C21: in one window the limiter lets exactly the first \<open>limit\<close> requests of an identity through.
  Starting from a fresh window, the requests that arrive before its deadline pass exactly when
  their number in the window is at most the limit.
\<close>

theorem rate_limit_window:
  assumes "redis_lookup (rate_key opts ident) s = None"
    and "0 < ro_windowSeconds opts"
    and "\<forall>d \<in> set ds. 0 \<le> d" and "sum_list ds < 1000 * ro_windowSeconds opts"
  shows "fst (request_run opts ident (0 # ds) s) =
         map (\<lambda>i. int i < ro_limit opts) [0..<Suc (length ds)]"
proof -
  let ?key = "rate_key opts ident"
  have zero: "elapse 0 s = s"
    by (rule redis.wait_zero)
  obtain s' where inc: "redis_incrementWindow ?key (ro_windowSeconds opts) s = (Inr 1, s')"
    and wc: "window_count ?key 1 (clock s + 1000 * ro_windowSeconds opts) s'"
    and clk: "clock s' = clock s"
    using assms(1,2) by (rule incrementWindow_first)
  have rest: "fst (request_run opts ident ds s') =
      map (\<lambda>i. 1 + int i < ro_limit opts) [0..<length ds]"
    using wc clk assms by (intro request_run_window) auto
  show ?thesis
    unfolding request_run_Cons zero rate_limit_state [OF inc] rest
    using map_count_Suc [of 0 "ro_limit opts" "length ds"] by (simp del: upt_Suc) linarith
qed

definition sample_limit :: rate_limit_options where
  "sample_limit = \<lparr>ro_limit = 2, ro_windowSeconds = 60, ro_bucket = ''login''\<rparr>"

theorem rate_limit_window_witness:
  "fst (request_run sample_limit ''10.0.0.1'' (0 # [10, 20, 30]) empty_world) = [True, True, False, False]"
proof -
  have none: "redis_lookup (rate_key sample_limit ''10.0.0.1'') empty_world = None"
    by (simp add: redis_lookup_def redis_entry_def empty_world_def)
  have "fst (request_run sample_limit ''10.0.0.1'' (0 # [10, 20, 30]) empty_world) =
      map (\<lambda>i. int i < ro_limit sample_limit) [0..<Suc (length [10, 20, 30 :: int])]"
    by (rule rate_limit_window [OF none]) (simp_all add: sample_limit_def)
  then show ?thesis
    by (simp add: sample_limit_def upt_rec)
qed

text \<open>
  The window ends. Whatever the counter of a window was, once its deadline has passed the next
  request of the identity is counted as the first of a new window and passes, for a limit of at
  least one.
\<close>

theorem rate_limit_reset:
  assumes "window_count (rate_key opts ident) n deadline s"
    and "0 < ro_windowSeconds opts" and "1 \<le> ro_limit opts"
    and "deadline \<le> clock s + d"
  shows "passed (fst (rateLimitMiddleware opts ident (elapse d s)))"
proof -
  have "redis_lookup (rate_key opts ident) (elapse d s) = None"
    using assms(1,4)
    by (auto simp: redis_lookup_def window_count_def redis_entry_def entry_live_def
        split: option.splits if_splits)
  then obtain s' where
    "redis_incrementWindow (rate_key opts ident) (ro_windowSeconds opts) (elapse d s) = (Inr 1, s')"
    using assms(2) by (rule incrementWindow_first)
  then show ?thesis
    using assms(3) by (simp add: rate_limit_state)
qed

theorem rate_limit_reset_witness:
  "passed (fst (rateLimitMiddleware sample_limit ''10.0.0.1''
     (elapse 60000 (snd (request_run sample_limit ''10.0.0.1'' [0, 0, 0] empty_world)))))"
proof -
  have "window_count (rate_key sample_limit ''10.0.0.1'') 3 60000
      (snd (request_run sample_limit ''10.0.0.1'' [0, 0, 0] empty_world))"
    by code_simp
  then show ?thesis
    by (rule rate_limit_reset) (simp_all add: sample_limit_def, code_simp)
qed

end
