(* ===== verification/Gateway.thy ===== *)
theory Gateway
  imports Access_Tokens Rate_Limit
begin

text \<open>
  The API gateway: \<^verbatim>\<open>src/modules/gateway/remote-token-verifier.ts\<close>,
  \<^verbatim>\<open>src/modules/gateway/gateway.middlewares.ts\<close> and the request pipeline of
  \<^verbatim>\<open>src/modules/gateway/gateway.factory.ts\<close> up to the request that is forwarded. The check of a token
  against the published key set (the \<open>jose\<close> package and the fetch of the set) is the argument
  \<open>remote\<close>. Header names are lower case, as Node presents them.
\<close>

type_synonym headers = "(string \<times> string) list"

definition header_of :: "string \<Rightarrow> headers \<Rightarrow> string option" where
  "header_of name hs = map_of hs name"

definition set_header :: "string \<Rightarrow> string \<Rightarrow> headers \<Rightarrow> headers" where
  "set_header name v hs = (name, v) # filter (\<lambda>h. fst h \<noteq> name) hs"

definition drop_headers :: "string list \<Rightarrow> headers \<Rightarrow> headers" where
  "drop_headers names hs = filter (\<lambda>h. fst h \<notin> set names) hs"

section \<open>RemoteTokenVerifier\<close>

type_synonym remote_check = "string \<Rightarrow> verify_options \<Rightarrow> timestamp \<Rightarrow> string option + jwt_payload"

definition remote_options :: "config \<Rightarrow> verify_options" where
  "remote_options cfg = \<lparr>vo_issuer = JWT_ISSUER cfg, vo_audience = JWT_AUDIENCE cfg, vo_algorithms = [''EdDSA''],
     vo_clockTolerance = 5,
     vo_requiredClaims = [''iss'', ''sub'', ''aud'', ''exp'', ''iat'', ''jti'', ''scope'']\<rparr>"

definition remote_error :: "string option \<Rightarrow> exn" where
  "remote_error code =
     (if code = Some ''ERR_JWT_EXPIRED'' then AuthError ''Token expired'' ''TOKEN_EXPIRED''
      else if code = Some ''ERR_JWKS_NO_MATCHING_KEY'' \<or> code = Some ''ERR_JWKS_MULTIPLE_MATCHING_KEYS''
      then AuthError ''Unknown signing key'' ''UNKNOWN_SIGNING_KEY''
      else AuthError ''Invalid access token'' ''INVALID_TOKEN'')"

definition remote_verify :: "remote_check \<Rightarrow> config \<Rightarrow> string \<Rightarrow> jwt_payload act" where
  "remote_verify remote cfg token =
     bindM nowM (\<lambda>now.
     case remote token (remote_options cfg) now of
       Inl code \<Rightarrow> throwM (remote_error code)
     | Inr payload \<Rightarrow>
         bindM (if truthy (jp_jti payload) then isRevoked (the (jp_jti payload)) else returnM False) (\<lambda>revoked.
         if revoked then throwM (AuthError ''Token has been revoked'' ''TOKEN_REVOKED'')
         else returnM payload))"

section \<open>Edge middlewares\<close>

definition bearerToken :: "headers \<Rightarrow> string option" where
  "bearerToken hs =
     (case header_of ''authorization'' hs of
        None \<Rightarrow> None
      | Some h \<Rightarrow> if \<not> starts_with ''Bearer '' h then None
          else (let token = js_trim (drop 7 h) in if token \<noteq> [] then Some token else None))"

definition js_string :: "string option \<Rightarrow> string" where
  "js_string x = (case x of Some v \<Rightarrow> v | None \<Rightarrow> ''undefined'')"

definition remote_user :: "jwt_payload \<Rightarrow> auth_user" where
  "remote_user p =
     \<lparr>au_sub = js_string (jp_sub p), au_scope = (case jp_scope p of Some v \<Rightarrow> v | None \<Rightarrow> []),
      au_roles = Some (case jp_roles p of Some v \<Rightarrow> v | None \<Rightarrow> []),
      au_permissions = Some (case jp_permissions p of Some v \<Rightarrow> v | None \<Rightarrow> []),
      au_sid = jp_sid p, au_client_id = jp_client_id p, au_jti = js_string (jp_jti p)\<rparr>"

definition authenticateRemote :: "remote_check \<Rightarrow> config \<Rightarrow> headers \<Rightarrow> auth_user act" where
  "authenticateRemote remote cfg hs =
     (case bearerToken hs of
        None \<Rightarrow> throwM (AppError 401 ''MISSING_TOKEN'' ''Authorization header required'')
      | Some token \<Rightarrow> bindM (remote_verify remote cfg token) (\<lambda>payload. returnM (remote_user payload)))"

definition requireScopes :: "string list \<Rightarrow> auth_user option \<Rightarrow> unit result" where
  "requireScopes anyOf user =
     (case user of
        None \<Rightarrow> Inl (AppError 401 ''MISSING_TOKEN'' ''Authentication required'')
      | Some u \<Rightarrow>
          if list_ex (\<lambda>sc. sc \<in> set (words (au_scope u))) anyOf then Inr ()
          else Inl (AppError 403 ''INSUFFICIENT_SCOPE'' (''Requires one of scopes: '' @ join_with '', '' anyOf)))"

section \<open>The gateway\<close>

definition PROTECTED_HEADERS :: "string list" where
  "PROTECTED_HEADERS = [''x-user-id'', ''x-user-scopes'', ''x-user-roles'', ''x-client-id'', ''x-token-sid'']"

text \<open>
  The headers the proxy sends upstream. The request object has no \<open>id\<close> (the correlation middleware
  stores \<open>requestId\<close>), so \<open>X-Request-Id\<close> is what the client sent, if anything.
\<close>

definition proxy_headers :: "config \<Rightarrow> auth_user \<Rightarrow> headers \<Rightarrow> headers" where
  "proxy_headers cfg user hs =
     (let h1 = set_header ''x-user-id'' (au_sub user) hs;
          h2 = set_header ''x-user-scopes'' (au_scope user) h1;
          h3 = set_header ''x-user-roles'' (join_with '','' (case au_roles user of Some r \<Rightarrow> r | None \<Rightarrow> [])) h2;
          h4 = (if truthy (au_sid user) then set_header ''x-token-sid'' (the (au_sid user)) h3 else h3);
          h5 = (if truthy (au_client_id user) then set_header ''x-client-id'' (the (au_client_id user)) h4 else h4)
      in if truthy (GATEWAY_SHARED_SECRET cfg)
         then set_header ''x-internal-secret'' (the (GATEWAY_SHARED_SECRET cfg)) h5 else h5)"

text \<open>
  A request to \<^verbatim>\<open>/api/v1\<close>: rate limit by address, removal of the identity headers, authentication,
  scope check; the result is the list of headers of the forwarded request.
\<close>

definition gateway_limit :: "config \<Rightarrow> rate_limit_options" where
  "gateway_limit cfg = \<lparr>ro_limit = RATE_LIMIT_API cfg, ro_windowSeconds = RATE_LIMIT_WINDOW cfg, ro_bucket = ''gw''\<rparr>"

definition gateway_forward :: "remote_check \<Rightarrow> config \<Rightarrow> string option \<Rightarrow> headers \<Rightarrow> headers act" where
  "gateway_forward remote cfg ip hs =
     bindM (rateLimitMiddleware (gateway_limit cfg) (case ip of Some a \<Rightarrow> a | None \<Rightarrow> ''unknown'')) (\<lambda>_.
     let inbound = drop_headers PROTECTED_HEADERS hs in
     bindM (authenticateRemote remote cfg inbound) (\<lambda>user.
     bindM (liftE (requireScopes [''api.read''] (Some user))) (\<lambda>_.
     returnM (proxy_headers cfg user inbound))))"

section \<open>Headers\<close>

lemma map_of_filter_key: "map_of (filter (\<lambda>h. p (fst h)) hs) name = (if p name then map_of hs name else None)"
  by (induction hs) auto

lemma header_set [simp]: "header_of name (set_header name' v hs) = (if name = name' then Some v else header_of name hs)"
  using map_of_filter_key [of "\<lambda>n. n \<noteq> name'" hs name] by (auto simp: header_of_def set_header_def)

lemma header_drop [simp]: "header_of name (drop_headers names hs) = (if name \<in> set names then None else header_of name hs)"
  using map_of_filter_key [of "\<lambda>n. n \<notin> set names" hs name] by (auto simp: header_of_def drop_headers_def)

lemma remote_verify_Inr:
  assumes "remote_verify remote cfg token s = (Inr payload, s')"
  shows "s' = s" and "remote token (remote_options cfg) (clock s) = Inr payload"
    and "truthy (jp_jti payload) \<longrightarrow> redis_lookup (jti_key (the (jp_jti payload))) s \<noteq> Some (RStr ''1'')"
  using assms by (auto simp: remote_verify_def bindM_run split: sum.splits if_splits)

text \<open>What a request that is forwarded went through.\<close>

lemma forward_Inr:
  assumes "gateway_forward remote cfg ip hs s = (Inr out, s')"
  obtains token payload s1 where "bearerToken (drop_headers PROTECTED_HEADERS hs) = Some token"
    and "clock s1 = clock s" and "s' = s1"
    and "remote token (remote_options cfg) (clock s) = Inr payload"
    and "truthy (jp_jti payload) \<longrightarrow> redis_lookup (jti_key (the (jp_jti payload))) s1 \<noteq> Some (RStr ''1'')"
    and "''api.read'' \<in> set (words (au_scope (remote_user payload)))"
    and "out = proxy_headers cfg (remote_user payload) (drop_headers PROTECTED_HEADERS hs)"
proof -
  obtain lim s1 where lim: "rateLimitMiddleware (gateway_limit cfg) (case ip of Some a \<Rightarrow> a | None \<Rightarrow> ''unknown'') s = (Inr lim, s1)"
    and rest: "(let inbound = drop_headers PROTECTED_HEADERS hs in
     bindM (authenticateRemote remote cfg inbound) (\<lambda>user.
     bindM (liftE (requireScopes [''api.read''] (Some user))) (\<lambda>_.
     returnM (proxy_headers cfg user inbound)))) s1 = (Inr out, s')"
    using assms unfolding gateway_forward_def by (rule bindM_InrE)
  have clock: "clock s1 = clock s"
    using lim by (auto simp: rateLimitMiddleware_def Let_def redis_incrementWindow_def redis_incr_def redis_expire_def redis_ttl_def
        bindM_run split: if_splits option.splits rvalue.splits prod.splits sum.splits)
  obtain token where tok: "bearerToken (drop_headers PROTECTED_HEADERS hs) = Some token"
    using rest by (cases "bearerToken (drop_headers PROTECTED_HEADERS hs)") (auto simp: authenticateRemote_def Let_def bindM_run)
  obtain payload s2 where ver: "remote_verify remote cfg token s1 = (Inr payload, s2)"
    and ok: "requireScopes [''api.read''] (Some (remote_user payload)) = Inr ()" and s2: "s' = s2"
    and out: "out = proxy_headers cfg (remote_user payload) (drop_headers PROTECTED_HEADERS hs)"
    using rest tok by (auto simp: authenticateRemote_def Let_def)
  note v = remote_verify_Inr [OF ver]
  show ?thesis
    by (rule that [of token s1 payload])
      (use tok clock s2 v ok out in \<open>auto simp: requireScopes_def split: if_splits\<close>)
qed

end
