(* ===== verification/Resource.thy ===== *)
theory Resource
  imports Gateway Clients
begin

text \<open>
  The resource API behind the gateway: \<^verbatim>\<open>src/modules/resources/resource.middlewares.ts\<close>,
  \<^verbatim>\<open>src/modules/resources/document.repository.ts\<close>, \<^verbatim>\<open>src/modules/resources/documents.routes.ts\<close> and
  the order of the checks in \<^verbatim>\<open>src/modules/resources/resource.factory.ts\<close>. Together with the gateway's
  theory it shows that the identity the documents are served to is the one of the verified token.
\<close>

section \<open>Middlewares\<close>

record resource_identity =
  rid_userId :: "string option"
  rid_clientId :: "string option"
  rid_scopes :: "string list"
  rid_roles :: "string list"
  rid_requestId :: "string option"

definition requireGatewaySecret :: "config \<Rightarrow> headers \<Rightarrow> unit result" where
  "requireGatewaySecret cfg hs =
     (if \<not> truthy (GATEWAY_SHARED_SECRET cfg) then Inr ()
      else if header_of ''x-internal-secret'' hs \<noteq> GATEWAY_SHARED_SECRET cfg
      then Inl (AppError 403 ''FORBIDDEN_ORIGIN'' ''Direct access to resource API is not allowed'')
      else Inr ())"

definition hex_digit :: "char \<Rightarrow> bool" where
  "hex_digit c \<longleftrightarrow> js_digit c \<or> (let n = (of_char c :: nat) in (65 \<le> n \<and> n \<le> 70) \<or> (97 \<le> n \<and> n \<le> 102))"

definition UUID_RE :: "string \<Rightarrow> bool" where
  "UUID_RE x \<longleftrightarrow> length x = 36
     \<and> list_all (\<lambda>i. if i \<in> {8, 13, 18, 23} then x ! i = CHR ''-'' else hex_digit (x ! i)) [0..<36]"

definition asString :: "string option \<Rightarrow> string option" where
  "asString v = (case v of None \<Rightarrow> None | Some x \<Rightarrow> if x \<noteq> [] then Some x else None)"

definition csv_sep :: "char \<Rightarrow> bool" where
  "csv_sep c \<longleftrightarrow> js_ws c \<or> c = CHR '',''"

definition splitCsvOrSpace :: "string option \<Rightarrow> string list" where
  "splitCsvOrSpace v = (case v of None \<Rightarrow> [] | Some x \<Rightarrow> words_by csv_sep x)"

definition requireIdentity :: "headers \<Rightarrow> resource_identity result" where
  "requireIdentity hs =
     (let rawUserId = asString (header_of ''x-user-id'' hs);
          clientId = asString (header_of ''x-client-id'' hs);
          userId = (case rawUserId of Some u \<Rightarrow> if UUID_RE u then Some u else None | None \<Rightarrow> None) in
      if userId = None \<and> clientId = None
      then Inl (AppError 401 ''NO_IDENTITY'' ''Request must traverse the gateway'')
      else Inr \<lparr>rid_userId = userId, rid_clientId = clientId,
                rid_scopes = splitCsvOrSpace (asString (header_of ''x-user-scopes'' hs)),
                rid_roles = splitCsvOrSpace (asString (header_of ''x-user-roles'' hs)),
                rid_requestId = asString (header_of ''x-request-id'' hs)\<rparr>)"

definition requireResourceScope :: "string list \<Rightarrow> resource_identity option \<Rightarrow> unit result" where
  "requireResourceScope anyOf identity =
     (case identity of
        None \<Rightarrow> Inl (AppError 401 ''NO_IDENTITY'' ''Request must traverse the gateway'')
      | Some i \<Rightarrow>
          if list_ex (\<lambda>sc. sc \<in> set (rid_scopes i)) anyOf then Inr ()
          else Inl (AppError 403 ''INSUFFICIENT_SCOPE'' (''Requires one of scopes: '' @ join_with '', '' anyOf)))"

section \<open>DocumentRepository\<close>

text \<open>The database stores uuids in lower case and reads parameters in either case.\<close>

definition documents_create :: "externals \<Rightarrow> uuid \<Rightarrow> string \<Rightarrow> string option \<Rightarrow> document_row act" where
  "documents_create env ownerId title content =
     bindM nowM (\<lambda>now.
     bindM (drawM (rand_uuid env)) (\<lambda>new_id.
     bindM (getM (\<lambda>s. list_ex (\<lambda>u. u_id u = js_lower ownerId) (t_users s))) (\<lambda>known.
     if \<not> known then throwM (DbError ''documents_owner_id_fkey'')
     else insertM t_documents (\<lambda>t s. s\<lparr>t_documents := t\<rparr>) (\<lambda>d. do_id d = new_id)
       \<lparr>do_id = new_id, do_owner_id = js_lower ownerId, do_title = title,
        do_content = (case content of Some c \<Rightarrow> c | None \<Rightarrow> []), do_created_at = now, do_updated_at = now\<rparr>
       ''documents_pkey'')))"

definition newest_documents :: "(document_row \<Rightarrow> bool) \<Rightarrow> nat \<Rightarrow> nat \<Rightarrow> world \<Rightarrow> document_row list" where
  "newest_documents p limit offset s =
     take limit (drop offset (rev (sort_key do_created_at (filter p (t_documents s)))))"

definition documents_listByOwner :: "uuid \<Rightarrow> document_row list act" where
  "documents_listByOwner ownerId = getM (newest_documents (\<lambda>d. do_owner_id d = js_lower ownerId) 50 0)"

definition documents_listAll :: "document_row list act" where
  "documents_listAll = getM (newest_documents (\<lambda>d. True) 50 0)"

definition documents_findById :: "uuid \<Rightarrow> document_row option act" where
  "documents_findById uid = getM (\<lambda>s. List.find (\<lambda>d. do_id d = js_lower uid) (t_documents s))"

definition documents_remove :: "uuid \<Rightarrow> bool act" where
  "documents_remove uid =
     bindM (getM (\<lambda>s. list_ex (\<lambda>d. do_id d = js_lower uid) (t_documents s))) (\<lambda>found.
     bindM (modifyM (\<lambda>s. s\<lparr>t_documents := filter (\<lambda>d. do_id d \<noteq> js_lower uid) (t_documents s)\<rparr>)) (\<lambda>_.
     returnM found))"

section \<open>Routes\<close>

definition identity_json :: "resource_identity \<Rightarrow> (string \<times> jval) list" where
  "identity_json i =
     (let opt = (\<lambda>name v. case v of None \<Rightarrow> [] | Some x \<Rightarrow> [(name, JStr x)]) in
      opt ''userId'' (rid_userId i) @ opt ''clientId'' (rid_clientId i)
      @ [(''scopes'', JArr (map JStr (rid_scopes i))), (''roles'', JArr (map JStr (rid_roles i)))]
      @ opt ''requestId'' (rid_requestId i))"

definition document_json :: "document_row \<Rightarrow> jval" where
  "document_json r = JObj [(''id'', JStr (do_id r)), (''owner_id'', JStr (do_owner_id r)),
     (''title'', JStr (do_title r)), (''content'', JStr (do_content r)),
     (''created_at'', JNum (do_created_at r)), (''updated_at'', JNum (do_updated_at r))]"

definition documents_list_route :: "resource_identity \<Rightarrow> http_response act" where
  "documents_list_route me =
     bindM (liftE (requireResourceScope [''api.read''] (Some me))) (\<lambda>_.
     bindM (case rid_userId me of Some u \<Rightarrow> documents_listByOwner u | None \<Rightarrow> documents_listAll) (\<lambda>rows.
     ok_json 200 [(''data'', JArr (map document_json rows))]))"

definition documents_create_route ::
  "externals \<Rightarrow> resource_identity \<Rightarrow> string \<Rightarrow> string option \<Rightarrow> http_response act" where
  "documents_create_route env me title content =
     bindM (liftE (requireResourceScope [''api.write''] (Some me))) (\<lambda>_.
     case rid_userId me of
       None \<Rightarrow> throwM (AppError 403 ''SERVICE_FORBIDDEN'' ''Service clients cannot create documents'')
     | Some u \<Rightarrow>
         bindM (documents_create env u title content) (\<lambda>row.
         ok_json 201 [(''id'', JStr (do_id row)), (''title'', JStr (do_title row)), (''created_at'', JNum (do_created_at row))]))"

definition documents_delete_route :: "resource_identity \<Rightarrow> string \<Rightarrow> http_response act" where
  "documents_delete_route me uid =
     bindM (liftE (requireResourceScope [''api.write''] (Some me))) (\<lambda>_.
     if \<not> UUID_RE uid then throwM (AppError 400 ''VALIDATION_ERROR'' ''Invalid document id'')
     else
       bindM (documents_findById uid) (\<lambda>found.
       case found of
         None \<Rightarrow> throwM (AppError 404 ''NOT_FOUND'' ''Document not found'')
       | Some row \<Rightarrow>
           if rid_userId me \<noteq> None \<and> Some (do_owner_id row) \<noteq> rid_userId me
           then throwM (AppError 404 ''NOT_FOUND'' ''Document not found'')
           else
             (let isAdmin = ''admin'' \<in> set (rid_roles me) in
              if rid_userId me \<noteq> None \<and> \<not> isAdmin
              then throwM (AppError 403 ''FORBIDDEN'' ''Only the owner or an admin can delete'')
              else
                bindM (documents_remove uid) (\<lambda>_.
                returnM \<lparr>hr_status = 204, hr_body = JNull\<rparr>))))"

datatype resource_request =
    GetMe
  | GetDocuments
  | PostDocument string "string option"
  | DeleteDocument string

fun resource_route :: "externals \<Rightarrow> resource_identity \<Rightarrow> resource_request \<Rightarrow> http_response act" where
  "resource_route env me GetMe = ok_json 200 (identity_json me)"
| "resource_route env me GetDocuments = documents_list_route me"
| "resource_route env me (PostDocument title content) = documents_create_route env me title content"
| "resource_route env me (DeleteDocument uid) = documents_delete_route me uid"

definition resource_api :: "externals \<Rightarrow> config \<Rightarrow> headers \<Rightarrow> resource_request \<Rightarrow> http_response act" where
  "resource_api env cfg hs req =
     bindM (liftE (requireGatewaySecret cfg hs)) (\<lambda>_.
     bindM (liftE (requireIdentity hs)) (\<lambda>me.
     resource_route env me req))"

section \<open>The identity of a request\<close>

text \<open>What the claims of a verified token say about the caller; only the correlation id is the client's.\<close>

definition claims_identity :: "jwt_payload \<Rightarrow> string option \<Rightarrow> resource_identity result" where
  "claims_identity payload requestId =
     (let user = remote_user payload;
          userId = (if UUID_RE (au_sub user) then Some (au_sub user) else None);
          clientId = asString (au_client_id user) in
      if userId = None \<and> clientId = None
      then Inl (AppError 401 ''NO_IDENTITY'' ''Request must traverse the gateway'')
      else Inr \<lparr>rid_userId = userId, rid_clientId = clientId, rid_scopes = words_by csv_sep (au_scope user),
                rid_roles = words_by csv_sep (join_with '','' (the (au_roles user))),
                rid_requestId = asString requestId\<rparr>)"

lemma asString_simps [simp]: "asString None = None" "asString (Some []) = None" "v \<noteq> [] \<Longrightarrow> asString (Some v) = Some v"
  by (simp_all add: asString_def)

lemma split_asString: "splitCsvOrSpace (asString (Some x)) = words_by csv_sep x"
  by (simp add: splitCsvOrSpace_def asString_def)

lemma asString_truthy: "asString v = (if truthy v then v else None)"
  by (cases v) (auto simp: asString_def)

lemma UUID_RE_nonempty: "UUID_RE x \<Longrightarrow> x \<noteq> []"
  by (auto simp: UUID_RE_def)

lemma proxied_headers:
  assumes "out = proxy_headers cfg user (drop_headers PROTECTED_HEADERS hs)"
  shows "header_of ''x-user-id'' out = Some (au_sub user)"
    and "header_of ''x-user-scopes'' out = Some (au_scope user)"
    and "header_of ''x-user-roles'' out = Some (join_with '','' (case au_roles user of Some r \<Rightarrow> r | None \<Rightarrow> []))"
    and "header_of ''x-client-id'' out = (if truthy (au_client_id user) then au_client_id user else None)"
    and "header_of ''x-request-id'' out = header_of ''x-request-id'' hs"
    and "truthy (GATEWAY_SHARED_SECRET cfg) \<Longrightarrow> header_of ''x-internal-secret'' out = GATEWAY_SHARED_SECRET cfg"
  using assms by (auto simp: proxy_headers_def Let_def PROTECTED_HEADERS_def truthy_def split: option.splits)

lemma proxied_identity:
  "requireIdentity (proxy_headers cfg (remote_user payload) (drop_headers PROTECTED_HEADERS hs))
     = claims_identity payload (header_of ''x-request-id'' hs)"
proof -
  have "au_roles (remote_user payload) \<noteq> None"
    by (simp add: remote_user_def)
  then obtain roles where roles: "au_roles (remote_user payload) = Some roles" by blast
  have uid: "(case asString (Some x) of Some u \<Rightarrow> if UUID_RE u then Some u else None | None \<Rightarrow> None)
      = (if UUID_RE x then Some x else None)" for x
    using UUID_RE_nonempty [of x] by (cases "x = []") auto
  have cid: "asString (if truthy v then v else None) = asString v" for v
    by (simp add: asString_truthy)
  show ?thesis
    unfolding requireIdentity_def claims_identity_def Let_def proxied_headers [OF refl] roles option.case option.sel
      uid cid split_asString ..
qed

text \<open>
  C7: the identity behind the gateway is the one of the verified token. Whatever headers the client
  sends, a request is forwarded only with a bearer token that the key set vouches for, that is not
  revoked and whose scope includes \<open>api.read\<close>; the forwarded request carries the proof of origin, and
  the identity that the resource API reads from it is a function of the token's claims alone (but for
  the correlation id).
\<close>

theorem gateway_identity_trusted:
  assumes "gateway_forward remote cfg ip hs s = (Inr out, s')"
  shows "\<exists>token payload. bearerToken hs = Some token
    \<and> remote token (remote_options cfg) (clock s) = Inr payload
    \<and> (truthy (jp_jti payload) \<longrightarrow> redis_lookup (jti_key (the (jp_jti payload))) s' \<noteq> Some (RStr ''1''))
    \<and> ''api.read'' \<in> set (words (au_scope (remote_user payload)))
    \<and> requireGatewaySecret cfg out = Inr ()
    \<and> requireIdentity out = claims_identity payload (header_of ''x-request-id'' hs)"
proof -
  obtain token payload where tok: "bearerToken (drop_headers PROTECTED_HEADERS hs) = Some token"
    and remote: "remote token (remote_options cfg) (clock s) = Inr payload"
    and jti: "truthy (jp_jti payload) \<longrightarrow> redis_lookup (jti_key (the (jp_jti payload))) s' \<noteq> Some (RStr ''1'')"
    and scope: "''api.read'' \<in> set (words (au_scope (remote_user payload)))"
    and out: "out = proxy_headers cfg (remote_user payload) (drop_headers PROTECTED_HEADERS hs)"
    by (rule forward_Inr [OF assms]) blast
  have "bearerToken hs = Some token"
    using tok by (simp add: bearerToken_def PROTECTED_HEADERS_def)
  moreover have "requireGatewaySecret cfg out = Inr ()"
    using proxied_headers(6) [OF out] by (simp add: requireGatewaySecret_def)
  moreover have "requireIdentity out = claims_identity payload (header_of ''x-request-id'' hs)"
    unfolding out by (rule proxied_identity)
  ultimately show ?thesis
    using remote jti scope by blast
qed

definition sample_uuid :: string where
  "sample_uuid = ''0123abcd-0000-4000-8000-00000000000f''"

definition sample_claims :: jwt_payload where
  "sample_claims = \<lparr>jp_iss = Some ''https://auth.local'', jp_sub = Some sample_uuid, jp_aud = [''api''], jp_exp = Some 900,
     jp_nbf = None, jp_iat = Some 0, jp_jti = Some ''j1'', jp_scope = Some ''openid api.read api.write'',
     jp_roles = Some [''user'', ''admin''], jp_permissions = Some [], jp_sid = Some ''Us'', jp_client_id = None,
     jp_amr = None, jp_extra = []\<rparr>"

definition sample_remote :: remote_check where
  "sample_remote = (\<lambda>token opts now. if token = ''good'' then Inr sample_claims else Inl (Some ''ERR_JWS_INVALID''))"

definition forging_headers :: headers where
  "forging_headers = [(''authorization'', ''Bearer good''), (''x-user-id'', ''victim''), (''x-user-roles'', ''root''),
     (''x-client-id'', ''forged'')]"

theorem gateway_identity_trusted_witness:
  "\<exists>out s'. gateway_forward sample_remote sample_cfg (Some ''10.0.0.1'') forging_headers sample_world = (Inr out, s')
     \<and> requireIdentity out = claims_identity sample_claims None"
proof -
  have "case gateway_forward sample_remote sample_cfg (Some ''10.0.0.1'') forging_headers sample_world of (Inr _, _) \<Rightarrow> True | _ \<Rightarrow> False"
    by code_simp
  then obtain out s' where
    run: "gateway_forward sample_remote sample_cfg (Some ''10.0.0.1'') forging_headers sample_world = (Inr out, s')"
    by (auto split: prod.splits sum.splits)
  have "header_of ''x-request-id'' forging_headers = None"
    by (simp add: forging_headers_def header_of_def)
  with gateway_identity_trusted [OF run] run show ?thesis
    by (auto simp: sample_remote_def split: if_splits)
qed

section \<open>Documents\<close>

lemma resource_api_Inr:
  assumes "resource_api env cfg hs req s = (Inr resp, s')"
  obtains me where "requireGatewaySecret cfg hs = Inr ()" and "requireIdentity hs = Inr me"
    and "resource_route env me req s = (Inr resp, s')"
  using assms by (auto simp: resource_api_def)

lemma delete_Inr:
  assumes "documents_delete_route me uid s = (Inr resp, s')"
  obtains row where "''api.write'' \<in> set (rid_scopes me)" and "UUID_RE uid" and "row \<in> set (t_documents s)"
    and "do_id row = js_lower uid" and "\<And>u. rid_userId me = Some u \<Longrightarrow> do_owner_id row = u \<and> ''admin'' \<in> set (rid_roles me)"
    and "s' = s\<lparr>t_documents := filter (\<lambda>d. do_id d \<noteq> js_lower uid) (t_documents s)\<rparr>" and "hr_status resp = 204"
proof -
  have scope: "''api.write'' \<in> set (rid_scopes me)"
    using assms by (auto simp: documents_delete_route_def requireResourceScope_def bindM_run split: if_splits)
  have re: "UUID_RE uid"
    using assms by (auto simp: documents_delete_route_def bindM_run split: if_splits sum.splits)
  obtain row where row: "List.find (\<lambda>d. do_id d = js_lower uid) (t_documents s) = Some row"
    using assms re by (cases "List.find (\<lambda>d. do_id d = js_lower uid) (t_documents s)")
      (auto simp: documents_delete_route_def documents_findById_def bindM_run split: sum.splits)
  have own: "rid_userId me = None \<or> (Some (do_owner_id row) = rid_userId me \<and> ''admin'' \<in> set (rid_roles me))"
    using assms re row
    by (auto simp: documents_delete_route_def documents_findById_def bindM_run Let_def split: sum.splits if_splits)
  have "s' = s\<lparr>t_documents := filter (\<lambda>d. do_id d \<noteq> js_lower uid) (t_documents s)\<rparr>" and "hr_status resp = 204"
    using assms re row own
    by (auto simp: documents_delete_route_def documents_findById_def documents_remove_def bindM_run Let_def
        split: sum.splits if_splits)
  with scope re row own show ?thesis
    by (intro that [of row]) (auto dest: find_SomeD)
qed

lemma newest_subset: "set (newest_documents p limit offset s) \<subseteq> {d \<in> set (t_documents s). p d}"
  unfolding newest_documents_def by (rule subset_trans [OF set_take_subset], rule subset_trans [OF set_drop_subset]) auto

lemma create_Inr:
  assumes "documents_create_route env me title content s = (Inr resp, s')"
  shows "\<exists>u row. rid_userId me = Some u \<and> do_owner_id row = js_lower u \<and> t_documents s' = t_documents s @ [row]"
proof -
  obtain u where u: "rid_userId me = Some u"
    using assms by (cases "rid_userId me") (auto simp: documents_create_route_def)
  then obtain row s1 where create: "documents_create env u title content s = (Inr row, s1)" and "s' = s1"
    using assms by (auto simp: documents_create_route_def ok_json_def)
  moreover have "do_owner_id row = js_lower u" and "t_documents s1 = t_documents s @ [row]"
    using create by (auto simp: documents_create_def insertM_Inr split: if_splits)
  ultimately show ?thesis
    using u by blast
qed

lemma filter_filter_id: "(\<And>d. d \<in> set ds \<Longrightarrow> q d \<Longrightarrow> p d) \<Longrightarrow> filter q (filter p ds) = filter q ds"
  by (induction ds) auto

text \<open>
  C15: a user sees and changes only their own documents. Whatever request of a user the resource API
  answers, the request carried the proof of origin, the documents of all other owners are what they
  were, in the same order, and a listing shows documents of this user only.
\<close>

theorem documents_isolated:
  assumes "resource_api env cfg hs req s = (Inr resp, s')" and "requireIdentity hs = Inr me"
    and "rid_userId me = Some u" and "js_lower u = u" and "distinct (map do_id (t_documents s))"
  shows "requireGatewaySecret cfg hs = Inr ()
    \<and> filter (\<lambda>d. do_owner_id d \<noteq> u) (t_documents s') = filter (\<lambda>d. do_owner_id d \<noteq> u) (t_documents s)
    \<and> (req = GetDocuments \<longrightarrow> (\<exists>rows. hr_body resp = JObj [(''data'', JArr (map document_json rows))]
         \<and> (\<forall>d \<in> set rows. d \<in> set (t_documents s) \<and> do_owner_id d = u)))"
proof -
  have secret: "requireGatewaySecret cfg hs = Inr ()" and run: "resource_route env me req s = (Inr resp, s')"
    by (rule resource_api_Inr [OF assms(1)], use assms(2) in simp)+
  have others: "filter (\<lambda>d. do_owner_id d \<noteq> u) (t_documents s') = filter (\<lambda>d. do_owner_id d \<noteq> u) (t_documents s)"
  proof (cases req)
    case GetMe
    with run show ?thesis by (auto simp: ok_json_def)
  next
    case GetDocuments
    with run assms(3) show ?thesis
      by (auto simp: documents_list_route_def documents_listByOwner_def ok_json_def)
  next
    case (PostDocument title content)
    with run have "documents_create_route env me title content s = (Inr resp, s')" by simp
    then obtain row where "do_owner_id row = js_lower u" and "t_documents s' = t_documents s @ [row]"
      using create_Inr assms(3) by fastforce
    then show ?thesis
      using assms(4) by simp
  next
    case (DeleteDocument uid)
    with run have del: "documents_delete_route me uid s = (Inr resp, s')" by simp
    obtain row where row: "row \<in> set (t_documents s)" "do_id row = js_lower uid" "do_owner_id row = u"
      and s': "s' = s\<lparr>t_documents := filter (\<lambda>d. do_id d \<noteq> js_lower uid) (t_documents s)\<rparr>"
      by (rule delete_Inr [OF del]) (use assms(3) in simp)
    have "do_id d \<noteq> js_lower uid" if "d \<in> set (t_documents s)" "do_owner_id d \<noteq> u" for d
      using distinct_key_eq [OF assms(5) that(1) row(1)] that(2) row(2,3) by auto
    then have "filter (\<lambda>d. do_owner_id d \<noteq> u) (filter (\<lambda>d. do_id d \<noteq> js_lower uid) (t_documents s))
        = filter (\<lambda>d. do_owner_id d \<noteq> u) (t_documents s)"
      by (rule filter_filter_id)
    then show ?thesis
      unfolding s' by simp
  qed
  have listed: "\<exists>rows. hr_body resp = JObj [(''data'', JArr (map document_json rows))]
         \<and> (\<forall>d \<in> set rows. d \<in> set (t_documents s) \<and> do_owner_id d = u)" if "req = GetDocuments"
  proof -
    let ?rows = "newest_documents (\<lambda>d. do_owner_id d = js_lower u) 50 0 s"
    have "hr_body resp = JObj [(''data'', JArr (map document_json ?rows))]"
      using run assms(3) that by (auto simp: documents_list_route_def documents_listByOwner_def ok_json_def)
    moreover have "\<forall>d \<in> set ?rows. d \<in> set (t_documents s) \<and> do_owner_id d = u"
      using newest_subset [of "\<lambda>d. do_owner_id d = js_lower u" 50 0 s] assms(4) by auto
    ultimately show ?thesis by blast
  qed
  show ?thesis
    using secret others listed by blast
qed

definition doc_of :: "string \<Rightarrow> uuid \<Rightarrow> document_row" where
  "doc_of owner uid = \<lparr>do_id = uid, do_owner_id = owner, do_title = ''t'', do_content = ''c'', do_created_at = 0, do_updated_at = 0\<rparr>"

definition doc_world :: world where
  "doc_world = sample_world\<lparr>t_documents := [doc_of sample_uuid sample_uuid, doc_of ''Ua'' ''U2'']\<rparr>"

definition user_headers :: headers where
  "user_headers = [(''x-internal-secret'', ''gw''), (''x-user-id'', sample_uuid), (''x-user-scopes'', ''api.read api.write''),
     (''x-user-roles'', ''user,admin'')]"

definition user_identity :: resource_identity where
  "user_identity = \<lparr>rid_userId = Some sample_uuid, rid_clientId = None, rid_scopes = [''api.read'', ''api.write''],
     rid_roles = [''user'', ''admin''], rid_requestId = None\<rparr>"

lemma user_headers_identity: "requireIdentity user_headers = Inr user_identity"
  by code_simp

theorem documents_isolated_witness:
  "\<exists>resp s'. resource_api sample_env sample_cfg user_headers (DeleteDocument sample_uuid) doc_world = (Inr resp, s')
     \<and> filter (\<lambda>d. do_owner_id d \<noteq> sample_uuid) (t_documents s') = [doc_of ''Ua'' ''U2'']"
proof -
  have "case resource_api sample_env sample_cfg user_headers (DeleteDocument sample_uuid) doc_world of (Inr _, _) \<Rightarrow> True | _ \<Rightarrow> False"
    by code_simp
  then obtain resp s' where run: "resource_api sample_env sample_cfg user_headers (DeleteDocument sample_uuid) doc_world = (Inr resp, s')"
    by (auto split: prod.splits sum.splits)
  have "rid_userId user_identity = Some sample_uuid" and "js_lower sample_uuid = sample_uuid"
    and "distinct (map do_id (t_documents doc_world))"
    by code_simp+
  moreover have "filter (\<lambda>d. do_owner_id d \<noteq> sample_uuid) (t_documents doc_world) = [doc_of ''Ua'' ''U2'']"
    by (simp add: doc_world_def doc_of_def sample_uuid_def)
  ultimately show ?thesis
    using documents_isolated [OF run user_headers_identity] run by auto
qed

text \<open>
  Who may delete a document. A deletion that is answered needs the scope \<open>api.write\<close> and a
  well-formed identifier of a stored document; a user must own it and be an administrator as well;
  exactly the rows of that identifier are removed.
\<close>

theorem document_delete_rules:
  assumes "resource_api env cfg hs (DeleteDocument uid) s = (Inr resp, s')"
  shows "\<exists>me row. requireIdentity hs = Inr me \<and> ''api.write'' \<in> set (rid_scopes me) \<and> UUID_RE uid
    \<and> row \<in> set (t_documents s) \<and> do_id row = js_lower uid
    \<and> (rid_userId me = None \<or> (rid_userId me = Some (do_owner_id row) \<and> ''admin'' \<in> set (rid_roles me)))
    \<and> s' = s\<lparr>t_documents := filter (\<lambda>d. do_id d \<noteq> js_lower uid) (t_documents s)\<rparr> \<and> hr_status resp = 204"
proof -
  obtain me where me: "requireIdentity hs = Inr me" and "resource_route env me (DeleteDocument uid) s = (Inr resp, s')"
    by (rule resource_api_Inr [OF assms])
  then have del: "documents_delete_route me uid s = (Inr resp, s')" by simp
  obtain row where row: "''api.write'' \<in> set (rid_scopes me)" "UUID_RE uid" "row \<in> set (t_documents s)"
    "do_id row = js_lower uid" and own: "\<And>u. rid_userId me = Some u \<Longrightarrow> do_owner_id row = u \<and> ''admin'' \<in> set (rid_roles me)"
    and s': "s' = s\<lparr>t_documents := filter (\<lambda>d. do_id d \<noteq> js_lower uid) (t_documents s)\<rparr>" "hr_status resp = 204"
    by (rule delete_Inr [OF del]) blast
  have "rid_userId me = None \<or> (rid_userId me = Some (do_owner_id row) \<and> ''admin'' \<in> set (rid_roles me))"
    using own by (cases "rid_userId me") auto
  with me row s' show ?thesis by blast
qed

theorem document_delete_rules_witness:
  "\<exists>resp s'. resource_api sample_env sample_cfg user_headers (DeleteDocument sample_uuid) doc_world = (Inr resp, s')
     \<and> hr_status resp = 204"
proof -
  have "case resource_api sample_env sample_cfg user_headers (DeleteDocument sample_uuid) doc_world of (Inr _, _) \<Rightarrow> True | _ \<Rightarrow> False"
    by code_simp
  then obtain resp s' where run: "resource_api sample_env sample_cfg user_headers (DeleteDocument sample_uuid) doc_world = (Inr resp, s')"
    by (auto split: prod.splits sum.splits)
  with document_delete_rules [OF run] show ?thesis by blast
qed

text \<open>
  A service client needs neither ownership nor a role: with the write scope it deletes any document,
  although it may not create one.
\<close>

lemma service_deletes_any:
  assumes "requireGatewaySecret cfg hs = Inr ()" and "requireIdentity hs = Inr me" and "rid_userId me = None"
    and "''api.write'' \<in> set (rid_scopes me)" and "UUID_RE uid" and "row \<in> set (t_documents s)" and "do_id row = js_lower uid"
  shows "resource_api env cfg hs (DeleteDocument uid) s
    = (Inr \<lparr>hr_status = 204, hr_body = JNull\<rparr>, s\<lparr>t_documents := filter (\<lambda>d. do_id d \<noteq> js_lower uid) (t_documents s)\<rparr>)"
proof -
  obtain r where "List.find (\<lambda>d. do_id d = js_lower uid) (t_documents s) = Some r"
    using assms(6,7) by (cases "List.find (\<lambda>d. do_id d = js_lower uid) (t_documents s)") (auto simp: find_None_set)
  then show ?thesis
    using assms by (simp add: resource_api_def bindM_run documents_delete_route_def requireResourceScope_def
        documents_findById_def documents_remove_def Let_def)
qed

end
