(* ===== verification/World_Invariant.thy ===== *)
theory World_Invariant
  imports OAuth_Flow Rbac Resource
begin

text \<open>
  What no operation of the system undoes. The interface of a system invariant: a property of the
  world that depends on five tables only (refresh tokens, authorization codes, sessions, password
  reset tokens, the audit log) and survives the few ways in which the code writes them. The locale
  proves, operation by operation, that every such property is preserved by all services; the
  interpretations at the end show that spent tokens, consumed codes, used reset tokens, revoked
  sessions and audit rows stay what they are.
\<close>

section \<open>The interface\<close>

definition tables :: "world \<Rightarrow> refresh_row list \<times> code_row list \<times> session_row list \<times> password_reset_row list \<times> audit_row list" where
  "tables s = (t_refresh s, t_codes s, t_sessions s, t_password_resets s, t_audit s)"

text \<open>The updates that the code makes to rows: keys are kept, and nothing comes back to life.\<close>

definition refresh_step :: "(refresh_row \<Rightarrow> refresh_row) \<Rightarrow> bool" where
  "refresh_step f \<longleftrightarrow> (\<forall>r. rt_id (f r) = rt_id r \<and> rt_token_hash (f r) = rt_token_hash r
     \<and> (rt_status r \<noteq> Token_active \<longrightarrow> rt_status (f r) \<noteq> Token_active))"

definition code_step :: "(code_row \<Rightarrow> code_row) \<Rightarrow> bool" where
  "code_step f \<longleftrightarrow> (\<forall>r. ac_id (f r) = ac_id r \<and> ac_code_hash (f r) = ac_code_hash r
     \<and> (ac_consumed_at r \<noteq> None \<longrightarrow> ac_consumed_at (f r) \<noteq> None))"

definition session_step :: "(session_row \<Rightarrow> session_row) \<Rightarrow> bool" where
  "session_step f \<longleftrightarrow> (\<forall>r. ss_id (f r) = ss_id r \<and> (ss_status r = Session_revoked \<longrightarrow> ss_status (f r) = Session_revoked))"

definition reset_step :: "(password_reset_row \<Rightarrow> password_reset_row) \<Rightarrow> bool" where
  "reset_step f \<longleftrightarrow> (\<forall>r. pr_token_hash (f r) = pr_token_hash r \<and> (pr_used_at r \<noteq> None \<longrightarrow> pr_used_at (f r) \<noteq> None))"

lemma row_steps [pres]:
  "session_step (\<lambda>r. if p r then revoke_session now reason r else r)"
  "session_step (\<lambda>r. if p r then r\<lparr>ss_last_seen_at := now\<rparr> else r)"
  "session_step (\<lambda>r. if p r then r\<lparr>ss_mfa_passed := True\<rparr> else r)"
  "refresh_step (\<lambda>r. if q r then revoke_refresh now r else r)"
  "refresh_step (\<lambda>r. if q r then rotate_refresh now r else r)"
  "code_step (\<lambda>r. if c r then r\<lparr>ac_consumed_at := Some now\<rparr> else r)"
  "reset_step (\<lambda>r. if w r then r\<lparr>pr_used_at := Some now\<rparr> else r)"
  by (simp_all add: session_step_def refresh_step_def code_step_def reset_step_def)

lemma tables_same [pres]:
  "tables (s\<lparr>t_users := u\<rparr>) = tables s" "tables (s\<lparr>t_mfa := m\<rparr>) = tables s" "tables (s\<lparr>outbox := mails\<rparr>) = tables s"
  "tables (s\<lparr>t_user_roles := ur\<rparr>) = tables s" "tables (s\<lparr>t_role_permissions := rp\<rparr>) = tables s"
  "tables (s\<lparr>t_clients := cl\<rparr>) = tables s" "tables (s\<lparr>t_documents := docs\<rparr>) = tables s"
  "tables (s\<lparr>t_risk := rs\<rparr>) = tables s" "tables (s\<lparr>clock := t\<rparr>) = tables s"
  by (simp_all add: tables_def)

locale world_invariant =
  fixes P :: "world \<Rightarrow> bool"
  assumes frame: "tables s' = tables s \<Longrightarrow> P s \<Longrightarrow> P s'"
    and audit_append: "P s \<Longrightarrow> P (s\<lparr>t_audit := t_audit s @ [a]\<rparr>)"
    and refresh_insert: "P s \<Longrightarrow> \<forall>x \<in> set (t_refresh s). rt_id x \<noteq> rt_id r \<and> rt_token_hash x \<noteq> rt_token_hash r
           \<Longrightarrow> P (s\<lparr>t_refresh := t_refresh s @ [r]\<rparr>)"
    and refresh_update: "P s \<Longrightarrow> refresh_step f \<Longrightarrow> P (s\<lparr>t_refresh := map f (t_refresh s)\<rparr>)"
    and code_insert: "P s \<Longrightarrow> \<forall>x \<in> set (t_codes s). ac_id x \<noteq> ac_id c \<and> ac_code_hash x \<noteq> ac_code_hash c
           \<Longrightarrow> P (s\<lparr>t_codes := t_codes s @ [c]\<rparr>)"
    and code_update: "P s \<Longrightarrow> code_step g \<Longrightarrow> P (s\<lparr>t_codes := map g (t_codes s)\<rparr>)"
    and session_insert: "P s \<Longrightarrow> \<forall>x \<in> set (t_sessions s). ss_id x \<noteq> ss_id q \<Longrightarrow> P (s\<lparr>t_sessions := t_sessions s @ [q]\<rparr>)"
    and session_update: "P s \<Longrightarrow> session_step h \<Longrightarrow> P (s\<lparr>t_sessions := map h (t_sessions s)\<rparr>)"
    and reset_insert: "P s \<Longrightarrow> \<forall>x \<in> set (t_password_resets s). pr_token_hash x \<noteq> pr_token_hash w
           \<Longrightarrow> P (s\<lparr>t_password_resets := t_password_resets s @ [w]\<rparr>)"
    and reset_update: "P s \<Longrightarrow> reset_step k \<Longrightarrow> P (s\<lparr>t_password_resets := map k (t_password_resets s)\<rparr>)"
begin

lemma inert: "(\<And>s. tables (snd (m s)) = tables s) \<Longrightarrow> preserves P m"
  using frame by (intro preservesI) blast

lemma inert_modify: "(\<And>s. tables (f s) = tables s) \<Longrightarrow> preserves P (modifyM f)"
  by (rule inert) simp

lemma update_refresh:
  "refresh_step (\<lambda>r. if p r then f r else r) \<Longrightarrow> P s \<Longrightarrow> P (s\<lparr>t_refresh := update_where p f (t_refresh s)\<rparr>)"
  unfolding update_where_def by (rule refresh_update)

lemma update_codes:
  "code_step (\<lambda>r. if p r then f r else r) \<Longrightarrow> P s \<Longrightarrow> P (s\<lparr>t_codes := update_where p f (t_codes s)\<rparr>)"
  unfolding update_where_def by (rule code_update)

lemma update_sessions:
  "session_step (\<lambda>r. if p r then f r else r) \<Longrightarrow> P s \<Longrightarrow> P (s\<lparr>t_sessions := update_where p f (t_sessions s)\<rparr>)"
  unfolding update_where_def by (rule session_update)

lemma update_resets:
  "reset_step (\<lambda>r. if p r then f r else r) \<Longrightarrow> P s \<Longrightarrow> P (s\<lparr>t_password_resets := update_where p f (t_password_resets s)\<rparr>)"
  unfolding update_where_def by (rule reset_update)

lemma rvalue_case [pres]:
  "(\<And>x. preserves P (f1 x)) \<Longrightarrow> (\<And>x. preserves P (f2 x)) \<Longrightarrow> (\<And>x. preserves P (f3 x)) \<Longrightarrow>
   (\<And>x. preserves P (f4 x)) \<Longrightarrow> (\<And>x. preserves P (f5 x)) \<Longrightarrow>
   preserves P (case v of RStr x \<Rightarrow> f1 x | RSession x \<Rightarrow> f2 x | RChallenge x \<Rightarrow> f3 x | RCount x \<Rightarrow> f4 x | RSet x \<Rightarrow> f5 x)"
  by (cases v) auto

lemma list_case [pres]:
  "preserves P m \<Longrightarrow> (\<And>x xs. preserves P (f x xs)) \<Longrightarrow> preserves P (case ys of [] \<Rightarrow> m | x # xs \<Rightarrow> f x xs)"
  by (cases ys) auto

lemma exn_case [pres]:
  "(\<And>a b c d e. preserves P (f1 a b c d e)) \<Longrightarrow> (\<And>a b. preserves P (f2 a b)) \<Longrightarrow> (\<And>a. preserves P (f3 a)) \<Longrightarrow>
   (\<And>a. preserves P (f4 a)) \<Longrightarrow> (\<And>a. preserves P (f5 a)) \<Longrightarrow> (\<And>a. preserves P (f6 a)) \<Longrightarrow>
   preserves P (case v of App a b c d e \<Rightarrow> f1 a b c d e | CodeReplayError a b \<Rightarrow> f2 a b | KmsError a \<Rightarrow> f3 a
     | DbError a \<Rightarrow> f4 a | HttpError a \<Rightarrow> f5 a | JsError a \<Rightarrow> f6 a)"
  by (cases v) auto

subsection \<open>Auxiliary services\<close>

lemma pres_draw [pres]: "preserves P (drawM f)"
  by (rule inert) (simp add: tables_def)

lemma pres_audit [pres]: "preserves P (audit_record env e)"
  by (rule preserves_audit) (rule audit_append)

lemma pres_redis [pres]:
  "preserves P (redis_get key)" "preserves P (redis_getJson key)" "preserves P (redis_set key v t)"
  "preserves P (redis_setJson key v t)" "preserves P (redis_del key)" "preserves P (redis_delByPrefix pre)"
  "preserves P (redis_setAdd key mem)" "preserves P (redis_setSize key)" "preserves P (redis_setExpire key n)"
  "preserves P (redis_incr key)" "preserves P (redis_expire key n)" "preserves P (redis_ttl key)"
  by (rule inert, auto simp: tables_def redis_op_defs redis_incr_def redis_expire_def redis_ttl_def
      split: option.splits rvalue.splits)+

lemma pres_rate_limit [pres]: "preserves P (rateLimitMiddleware opts who)"
  unfolding rateLimitMiddleware_def redis_incrementWindow_def Let_def by (intro pres)

lemma pres_masterKey [pres]: "preserves P (keys_masterKey env cfg)"
proof (rule inert)
  fix s
  obtain r m f d where "keys_masterKey env cfg s = (r, s\<lparr>master_cache := m, master_file := f, draws := d\<rparr>)"
    by (rule masterKey_run)
  then show "tables (snd (keys_masterKey env cfg s)) = tables s"
    by (simp add: tables_def)
qed

lemma pres_keys [pres]:
  "preserves P (keys_encrypt env cfg x)" "preserves P (keys_decrypt env cfg y)"
  "preserves P (keys_wrapPrivateKey env cfg x)" "preserves P (keys_unwrapPrivateKey env cfg x)"
  "preserves P (keys_keyFilePath x)" "preserves P keys_listSigningKeyFiles" "preserves P (keys_getPublicKey kid)"
  "preserves P keys_listPublicKeys"
  unfolding keys_encrypt_def keys_decrypt_def keys_dataEncryptionKey_def keys_wrapPrivateKey_def
    keys_unwrapPrivateKey_def keys_keyFilePath_def keys_listSigningKeyFiles_def keys_getPublicKey_def
    keys_listPublicKeys_def Let_def
  by (intro pres)+

lemma pres_rotate [pres]: "preserves P (keys_rotateSigningKey env cfg)"
  unfolding keys_rotateSigningKey_def Let_def
  by (intro pres inert_modify) (simp_all add: tables_def)

lemma pres_current [pres]: "preserves P (keys_getCurrentSigningKey env cfg)"
proof -
  have "preserves P (keys_currentSigningKey_fuel env cfg n)" for n
  proof (induction n)
    case (Suc n)
    then show ?case by (simp, intro pres) simp_all
  next
    case 0
    show ?case by (simp only: keys_currentSigningKey_fuel.simps) (rule pres)
  qed
  then show ?thesis by (simp add: keys_getCurrentSigningKey_def)
qed

lemma pres_tokens [pres]:
  "preserves P (signAccessToken env cfg inp ttl)" "preserves P (signIdToken env cfg cs a sub t)"
  "preserves P (revokeUntil jti e)" "preserves P (isRevoked jti)" "preserves P (verifyAccessToken env cfg token)"
  "preserves P (authenticate env cfg header)"
  unfolding signAccessToken_def signIdToken_def revokeUntil_def isRevoked_def verifyAccessToken_def authenticate_def
    decodeProtectedHeaderSafe_def jose_verify_def select_key_def Let_def
  by (intro pres)+

lemma pres_risk [pres]:
  "preserves P (evaluateLogin env cfg rk)" "preserves P (riskEvents_record u t ev a ctx)"
proof -
  show "preserves P (evaluateLogin env cfg rk)"
    unfolding evaluateLogin_def rule_failed_logins_def rule_ip_frequency_def rule_travel_def Let_def by (intro pres)
  show "preserves P (riskEvents_record u t ev a ctx)"
    unfolding riskEvents_record_def by (rule inert_modify) (simp add: tables_def)
qed

subsection \<open>Accounts\<close>

lemma pres_users_update [pres]: "preserves P (users_update uid f)"
  unfolding users_update_def by (rule inert_modify) (simp add: tables_def)

lemma pres_users [pres]:
  "preserves P (users_findById env uid)" "preserves P (users_findByEmail e)" "preserves P (users_rolesOf uid)"
  "preserves P (users_permissionsOf uid)" "preserves P (users_markVerified uid)" "preserves P (users_setStatus uid st)"
  "preserves P (users_recordFailedLogin uid)" "preserves P (users_lockUntil uid t)"
  "preserves P (users_clearLockAndFailures uid)" "preserves P (users_setLastLogin uid)"
  "preserves P (users_updatePasswordHash uid h)" "preserves P (users_addRole uid role)"
  "preserves P (users_create env e h a b)"
  unfolding users_findById_def users_findByEmail_def users_rolesOf_def users_permissionsOf_def users_markVerified_def
    users_setStatus_def users_recordFailedLogin_def users_lockUntil_def users_clearLockAndFailures_def
    users_setLastLogin_def users_updatePasswordHash_def users_addRole_def users_create_def
  by (intro pres inert_modify preserves_insertM, (erule frame [rotated], rule pres)?)+

lemma pres_passwords [pres]: "preserves P (checkPasswordPolicy cfg pw)" "preserves P (hashPassword env pw)"
  by (rule inert, simp add: checkPasswordPolicy_def hashPassword_def tables_def split: option.splits)+

lemma pres_mail [pres]: "preserves P (send_mail env m)"
proof -
  have "preserves P (captured m)" unfolding captured_def by (rule inert_modify) (simp add: tables_def)
  then show ?thesis unfolding send_mail_def by (cases "mailer env") (auto intro!: pres split: option.split)
qed

lemma pres_email_tokens [pres]:
  "preserves P (issueEmailVerification env cfg uid e)" "preserves P (consumeEmailVerification env token)"
proof -
  show "preserves P (issueEmailVerification env cfg uid e)"
    unfolding issueEmailVerification_def emailToken_new_def
    by (intro pres preserves_insertM) (auto intro: frame simp: tables_def)
  show "preserves P (consumeEmailVerification env token)"
    by (rule inert) (simp add: consumeEmailVerification_def tables_def Let_def)
qed

lemma pres_issuePasswordReset [pres]: "preserves P (issuePasswordReset env cfg uid)"
  unfolding issuePasswordReset_def emailToken_new_def
  by (intro pres preserves_insertM reset_insert) auto

lemma pres_consumePasswordReset [pres]: "preserves P (consumePasswordReset env token)"
  by (rule preservesI) (auto simp: consumePasswordReset_def Let_def reset_step_def intro!: update_resets)

lemma pres_userService [pres]:
  "preserves P (userService_register env cfg inp ctx)" "preserves P (userService_verifyEmail env token ctx)"
  unfolding userService_register_def userService_verifyEmail_def by (intro pres)+

subsection \<open>Sessions and refresh tokens\<close>

lemma pres_sessions_create [pres]: "preserves P (sessions_create env params)"
  unfolding sessions_create_def by (intro pres preserves_insertM session_insert) auto

lemma pres_session_update: "(\<And>s. session_step (\<lambda>r. if p s r then f s r else r)) \<Longrightarrow>
    preserves P (modifyM (\<lambda>s. s\<lparr>t_sessions := update_where (p s) (f s) (t_sessions s)\<rparr>))"
  by (rule preserves_modify) (rule update_sessions)

lemma pres_refresh_update: "(\<And>s. refresh_step (\<lambda>r. if p s r then f s r else r)) \<Longrightarrow>
    preserves P (modifyM (\<lambda>s. s\<lparr>t_refresh := update_where (p s) (f s) (t_refresh s)\<rparr>))"
  by (rule preserves_modify) (rule update_refresh)

lemma pres_sessions [pres]:
  "preserves P (sessions_findById uid)" "preserves P (sessions_touch uid)" "preserves P (sessions_revoke uid reason)"
  "preserves P (sessions_revokeAllForUser uid reason)"
  unfolding sessions_findById_def sessions_loadFresh_def sessions_touch_def sessions_revoke_def sessions_revokeAllForUser_def
  by (intro pres pres_session_update pres_refresh_update)+

lemma pres_revokeWhere [pres]: "preserves P (refresh_revokeWhere p)"
  unfolding refresh_revokeWhere_def by (intro pres_refresh_update pres)

lemma pres_refresh_rotate [pres]: "preserves P (refresh_rotate h)"
  by (rule preservesI) (auto simp: refresh_rotate_def refresh_step_def intro!: update_refresh)

lemma pres_refresh_issue [pres]: "preserves P (refresh_issue env cfg params)"
  unfolding refresh_issue_def by (intro pres preserves_insertM refresh_insert) auto

lemma pres_refresh [pres]:
  "preserves P (refresh_consume env cfg token)" "preserves P (refresh_revokeByToken env token)"
  "preserves P (refresh_revokeFamily fam)"
  unfolding refresh_consume_def refresh_handleReuseOrInvalid_def refresh_revokeByToken_def refresh_revokeFamily_def Let_def
  by (intro pres pres_session_update)+

subsection \<open>Second factor and login\<close>

lemma pres_mfa [pres]:
  "preserves P (mfa_hasActiveMethod env uid)" "preserves P (mfa_getActiveMethod env uid)" "preserves P (mfa_getPendingMethod env uid)"
  "preserves P (mfa_beginEnroll env cfg uid e)" "preserves P (mfa_confirmEnroll env cfg uid code)"
  "preserves P (mfa_getEmailForUser env uid)" "preserves P (mfa_createLoginChallenge env cfg uid sid)"
  "preserves P (mfa_disable env cfg uid code)"
  unfolding mfa_hasActiveMethod_def mfa_getActiveMethod_def mfa_getPendingMethod_def mfa_beginEnroll_def mfa_confirmEnroll_def
    mfa_getEmailForUser_def mfa_createLoginChallenge_def mfa_disable_def uuid_param_def mfa_decryptSecret_def totp_checkM_def
    mfa_setRequired_def Let_def
  by (intro pres inert_modify)+

lemma pres_mfa_verify [pres]: "preserves P (mfa_verifyLoginChallenge env cfg cid code)"
  unfolding mfa_verifyLoginChallenge_def mfa_decryptSecret_def totp_checkM_def Let_def
  by (intro pres pres_session_update inert_modify)

lemma pres_login_parts [pres]:
  "preserves P (login_failed env cfg user ctx)" "preserves P (login_risk env cfg user ctx)"
  "preserves P (new_session env cfg uid ctx b)" "preserves P (auth_issueSessionTokensForSession env cfg sid uid amr ctx)"
  unfolding login_failed_def login_risk_def auth_isKnownDevice_def new_session_def auth_issueSessionTokensForSession_def Let_def
  by (intro pres)+

lemma pres_auth [pres]:
  "preserves P (auth_login env cfg e pw ctx)" "preserves P (auth_completeMfaChallenge env cfg cid code ctx)"
  "preserves P (auth_refresh env cfg token ctx)" "preserves P (auth_logout env uid sid every token' ctx)"
  "preserves P (auth_me env uid)" "preserves P (auth_forgotPassword env cfg e ctx)"
  "preserves P (auth_resetPassword env cfg token pw ctx)"
  unfolding auth_login_def login_continue_def auth_issueSessionTokens_def auth_completeMfaChallenge_def auth_refresh_def
    auth_logout_def auth_me_def auth_forgotPassword_def auth_resetPassword_def Let_def
  by (intro pres)+

subsection \<open>OAuth\<close>

lemma pres_clients [pres]:
  "preserves P (clients_findByClientId c)" "preserves P (clients_verifySecret env row sec)"
  "preserves P (clients_rotateSecret env uid)" "preserves P (clients_setStatus uid st)" "preserves P clients_list"
  unfolding clients_findByClientId_def clients_verifySecret_def clients_rotateSecret_def clients_newClientSecret_def
    clients_setStatus_def clients_list_def
  by (intro pres inert_modify)+

lemma pres_clients_create [pres]: "preserves P (clients_create env params)"
  unfolding clients_create_def clients_newClientId_def clients_newClientSecret_def
  by (intro pres preserves_insertM) (auto intro: frame simp: tables_def)

lemma pres_codes_issue [pres]: "preserves P (codes_issue env params)"
  unfolding codes_issue_def by (intro pres preserves_insertM code_insert) auto

lemma pres_code_update: "(\<And>s. code_step (\<lambda>r. if p s r then f s r else r)) \<Longrightarrow>
    preserves P (modifyM (\<lambda>s. s\<lparr>t_codes := update_where (p s) (f s) (t_codes s)\<rparr>))"
  by (rule preserves_modify) (rule update_codes)

lemma pres_codes [pres]:
  "preserves P (codes_peek env code c u)" "preserves P (codes_consume env code c u)"
  "preserves P (codes_revokeTokensForReplay uid c)"
proof -
  show "preserves P (codes_peek env code c u)"
    unfolding codes_peek_def by (intro pres)
  show "preserves P (codes_consume env code c u)"
    unfolding codes_consume_def Let_def by (intro pres pres_code_update)
  show "preserves P (codes_revokeTokensForReplay uid c)"
    by (rule preservesI) (auto simp: codes_revokeTokensForReplay_def refresh_step_def intro!: update_refresh)
qed

lemma pres_oauth_fail [pres]: "preserves P (oauth_fail c d)"
  unfolding oauth_fail_def by (rule pres)

lemma pres_oauth_parts [pres]:
  "preserves P (oauth_clientAuth env client sec ctx)" "preserves P (oauth_handleCodeReplay env uid c ctx)"
  "preserves P (oauth_issueUserTokens env cfg uid client scope nonce ctx)"
  unfolding oauth_clientAuth_def oauth_recordClientAuthFailure_def oauth_handleCodeReplay_def oauth_issueUserTokens_def
  by (intro pres)+

lemma pres_onReplay [pres]: "preserves P m \<Longrightarrow> preserves P (oauth_onReplay env ctx m)"
  unfolding oauth_onReplay_def by (intro pres)

lemma pres_grants [pres]:
  "preserves P (oauth_grantCode env cfg form client cid sec ctx)" "preserves P (oauth_grantRefresh env cfg form client sec ctx)"
  "preserves P (oauth_grantClient env cfg form client sec ctx)"
  unfolding oauth_grantCode_def oauth_grantRefresh_def oauth_grantClient_def oauth_recordClientAuthFailure_def Let_def
  by (intro pres)+

lemma pres_oauth [pres]:
  "preserves P (oauth_authorize env cfg az uid state ctx)" "preserves P (oauth_token env cfg form basic ctx)"
  "preserves P (oauth_introspect env cfg token)" "preserves P (oauth_revoke env cfg token ctx)"
  unfolding oauth_authorize_def oauth_token_def oauth_introspect_def oauth_revoke_def Let_def
  by (intro pres)+

subsection \<open>Administration, gateway and documents\<close>

lemma pres_ok_json [pres]: "preserves P (ok_json code fs)"
  unfolding ok_json_def by (rule pres)

lemma pres_guarded [pres]: "(\<And>u. preserves P (h u)) \<Longrightarrow> preserves P (guarded env cfg header permissions h)"
  unfolding guarded_def by (intro pres)

lemma pres_client_routes [pres]:
  "preserves P (clients_create_route env cfg header body rq)" "preserves P (clients_rotate_route env cfg header uid rq)"
  "preserves P (clients_status_route env cfg header uid status rq)" "preserves P (clients_list_route env cfg header)"
  unfolding clients_create_route_def clients_rotate_route_def clients_status_route_def clients_list_route_def Let_def
  by (intro pres)+

lemma pres_rbac [pres]:
  "preserves P (rbac_setRolePermissions role names)" "preserves P (rbac_setUserRoles uid names)"
  "preserves P (rbac_setUserStatus uid b)"
  by (rule inert, simp add: rbac_setRolePermissions_def rbac_setUserRoles_def rbac_setUserStatus_def tables_def Let_def)+

lemma pres_rbac_reads [pres]:
  "preserves P rbac_listRoles" "preserves P rbac_listPermissions" "preserves P rbac_listScopes"
  "preserves P (rbac_rolePermissionNames role)" "preserves P (rbac_listUsers limit offset)"
  unfolding rbac_listRoles_def rbac_listPermissions_def rbac_listScopes_def rbac_rolePermissionNames_def rbac_listUsers_def
  by (intro pres)+

lemma pres_listAuditEvents [pres]: "preserves P (rbac_listAuditEvents limit eventType)"
  unfolding rbac_listAuditEvents_def by (intro pres)

lemma pres_collect [pres]: "preserves P (collect_permissions rs)"
  by (induction rs; simp only: collect_permissions.simps; intro pres)

lemma pres_admin_reads [pres]:
  "preserves P (admin_roles_route env cfg header)" "preserves P (admin_permissions_route env cfg header)"
  "preserves P (admin_scopes_route env cfg header)" "preserves P (admin_users_route env cfg header limit offset)"
  "preserves P (admin_audit_route env cfg header n eventType)"
  unfolding admin_roles_route_def admin_permissions_route_def admin_scopes_route_def admin_users_route_def admin_audit_route_def
  by (intro pres)+

lemma pres_admin_routes [pres]:
  "preserves P (admin_setRolePermissions_route env cfg header role names rq)"
  "preserves P (admin_setUserRoles_route env cfg header uid names rq)"
  "preserves P (admin_setUserStatus_route env cfg header uid b rq)"
  unfolding admin_setRolePermissions_route_def admin_setUserRoles_route_def admin_setUserStatus_route_def
  by (intro pres)+

lemma pres_documents [pres]:
  "preserves P (documents_create env owner title content)" "preserves P (documents_remove uid)"
  "preserves P (documents_findById uid)" "preserves P (documents_listByOwner owner)" "preserves P documents_listAll"
proof -
  show "preserves P (documents_create env owner title content)"
    unfolding documents_create_def by (intro pres preserves_insertM) (auto intro: frame simp: tables_def)
  show "preserves P (documents_remove uid)"
    unfolding documents_remove_def by (intro pres inert_modify)
qed (simp_all add: documents_findById_def documents_listByOwner_def documents_listAll_def preserves_get)

lemma pres_resource_api [pres]: "preserves P (resource_api env cfg hs req)"
  unfolding resource_api_def
  by (cases req)
    (simp_all only: resource_route.simps documents_list_route_def documents_create_route_def documents_delete_route_def Let_def,
      (intro pres)+)

lemma pres_gateway [pres]: "preserves P (gateway_forward remote cfg ip hs)"
  unfolding gateway_forward_def authenticateRemote_def remote_verify_def Let_def by (intro pres)

lemma elapse_invariant: "P s \<Longrightarrow> P (elapse d s)"
  by (erule frame [rotated]) (simp add: elapse_def tables_def)

end

section \<open>Interpretations\<close>

text \<open>
  The invariants themselves. Each pairs the uniqueness of the keys of a table (as the constraints of
  the database keep it) with a set of keys that are used up.
\<close>

definition session_dead :: "uuid \<Rightarrow> world \<Rightarrow> bool" where
  "session_dead uid s \<longleftrightarrow> (\<exists>r \<in> set (t_sessions s). ss_id r = uid \<and> ss_status r = Session_revoked)"

definition sessions_ok :: "world \<Rightarrow> bool" where
  "sessions_ok s \<longleftrightarrow> distinct (map ss_id (t_sessions s))"

definition refresh_used :: "string set \<Rightarrow> world \<Rightarrow> bool" where
  "refresh_used H s \<longleftrightarrow> distinct (map rt_token_hash (t_refresh s))
     \<and> (\<forall>h \<in> H. \<exists>r \<in> set (t_refresh s). rt_token_hash r = h \<and> rt_status r \<noteq> Token_active)"

definition codes_used :: "string set \<Rightarrow> world \<Rightarrow> bool" where
  "codes_used H s \<longleftrightarrow> distinct (map ac_code_hash (t_codes s)) \<and> distinct (map ac_id (t_codes s))
     \<and> (\<forall>h \<in> H. \<exists>r \<in> set (t_codes s). ac_code_hash r = h \<and> ac_consumed_at r \<noteq> None)"

definition resets_used :: "string set \<Rightarrow> world \<Rightarrow> bool" where
  "resets_used H s \<longleftrightarrow> distinct (map pr_token_hash (t_password_resets s))
     \<and> (\<forall>h \<in> H. \<exists>r \<in> set (t_password_resets s). pr_token_hash r = h \<and> pr_used_at r \<noteq> None)"

definition sessions_dead :: "uuid set \<Rightarrow> world \<Rightarrow> bool" where
  "sessions_dead D s \<longleftrightarrow> sessions_ok s \<and> (\<forall>uid \<in> D. session_dead uid s)"

definition audit_extends :: "audit_row list \<Rightarrow> world \<Rightarrow> bool" where
  "audit_extends rows s \<longleftrightarrow> (\<exists>more. t_audit s = rows @ more)"

interpretation refresh_inv: world_invariant "refresh_used H"
proof
  fix s f
  assume "refresh_used H s" and "refresh_step f"
  then show "refresh_used H (s\<lparr>t_refresh := map f (t_refresh s)\<rparr>)"
    unfolding refresh_used_def by (fastforce simp: refresh_step_def comp_def)
qed (auto simp: refresh_used_def tables_def)

interpretation code_inv: world_invariant "codes_used H"
proof
  fix s g
  assume "codes_used H s" and "code_step g"
  then show "codes_used H (s\<lparr>t_codes := map g (t_codes s)\<rparr>)"
    unfolding codes_used_def by (fastforce simp: code_step_def comp_def)
qed (auto simp: codes_used_def tables_def)

interpretation reset_inv: world_invariant "resets_used H"
proof
  fix s k
  assume "resets_used H s" and "reset_step k"
  then show "resets_used H (s\<lparr>t_password_resets := map k (t_password_resets s)\<rparr>)"
    unfolding resets_used_def by (fastforce simp: reset_step_def comp_def)
qed (auto simp: resets_used_def tables_def)

interpretation session_inv: world_invariant "sessions_dead D"
proof
  fix s h
  assume "sessions_dead D s" and "session_step h"
  then show "sessions_dead D (s\<lparr>t_sessions := map h (t_sessions s)\<rparr>)"
    unfolding sessions_dead_def sessions_ok_def session_dead_def by (fastforce simp: session_step_def comp_def)
qed (auto simp: sessions_dead_def sessions_ok_def session_dead_def tables_def)

interpretation audit_inv: world_invariant "audit_extends rows"
proof
  fix s a
  assume "audit_extends rows s"
  then show "audit_extends rows (s\<lparr>t_audit := t_audit s @ [a]\<rparr>)"
    by (auto simp: audit_extends_def)
qed (auto simp: audit_extends_def tables_def)

end
