(* ===== verification/Zod.thy ===== *)
theory Zod
  imports Js_Number Errors
begin

text \<open>
  Schema validation: what the sources use of the \<open>zod\<close> library, by its documented behaviour, and the
  middleware of \<^verbatim>\<open>src/common/validation/validate.ts\<close>. The syntax checks of the library (e-mail,
  uuid, URL) and the wording of its messages are parameters.
\<close>

section \<open>Issues and schemas\<close>

datatype zod_kind =
    Invalid_type | Invalid_enum | Invalid_literal | Invalid_union
  | Not_integer | Not_finite | Too_small int | Too_big int | Invalid_string | Unrecognized_keys

text \<open>An issue: the path to the offending value, its kind and the message given in the schema, if any.\<close>

datatype zod_issue = Issue (issue_path: "string list") (issue_kind: zod_kind) (issue_custom: "string option")

record zod =
  zod_email :: "string \<Rightarrow> bool"
  zod_uuid :: "string \<Rightarrow> bool"
  zod_url :: "string \<Rightarrow> bool"
  zod_message :: "zod_issue \<Rightarrow> string"

type_synonym 'a parsed = "zod_issue list + 'a"

text \<open>A schema reads a JSON value; \<open>None\<close> is \<open>undefined\<close>.\<close>

type_synonym 'a schema = "jval option \<Rightarrow> 'a parsed"

definition fails :: "zod_kind \<Rightarrow> 'a parsed" where
  "fails k = Inl [Issue [] k None]"

definition z_checks :: "('a \<Rightarrow> zod_issue list) \<Rightarrow> 'a \<Rightarrow> 'a parsed" where
  "z_checks checks x = (case checks x of [] \<Rightarrow> Inr x | is \<Rightarrow> Inl is)"

text \<open>\<open>z.string()\<close> with its transformations, which come first in every schema of the sources, and its checks.\<close>

definition z_string :: "(string \<Rightarrow> string) \<Rightarrow> (string \<Rightarrow> zod_issue list) \<Rightarrow> string schema" where
  "z_string f checks v = (case v of Some (JStr x) \<Rightarrow> z_checks checks (f x) | _ \<Rightarrow> fails Invalid_type)"

definition check :: "zod_kind \<Rightarrow> string option \<Rightarrow> bool \<Rightarrow> zod_issue list" where
  "check k message ok = (if ok then [] else [Issue [] k message])"

definition min_length :: "nat \<Rightarrow> 'a list \<Rightarrow> zod_issue list" where
  "min_length n x = check (Too_small (int n)) None (n \<le> length x)"

definition max_length :: "nat \<Rightarrow> 'a list \<Rightarrow> zod_issue list" where
  "max_length n x = check (Too_big (int n)) None (length x \<le> n)"

definition z_optional :: "'a schema \<Rightarrow> 'a option schema" where
  "z_optional sch v = (case v of None \<Rightarrow> Inr None | Some _ \<Rightarrow> map_sum id Some (sch v))"

text \<open>A default takes the place of a missing value and is read by the schema as well.\<close>

definition z_default :: "jval \<Rightarrow> 'a schema \<Rightarrow> 'a schema" where
  "z_default d sch v = sch (Some (case v of None \<Rightarrow> d | Some x \<Rightarrow> x))"

definition z_boolean :: "bool schema" where
  "z_boolean v = (case v of Some (JBool b) \<Rightarrow> Inr b | _ \<Rightarrow> fails Invalid_type)"

definition z_enum :: "(string \<times> 'a) list \<Rightarrow> 'a schema" where
  "z_enum names v = (case v of
      Some (JStr x) \<Rightarrow> (case map_of names x of Some a \<Rightarrow> Inr a | None \<Rightarrow> fails Invalid_enum)
    | _ \<Rightarrow> fails Invalid_type)"

definition z_literal :: "string \<Rightarrow> unit schema" where
  "z_literal x v = (if v = Some (JStr x) then Inr () else fails Invalid_literal)"

text \<open>Issues of a component, under its name or index.\<close>

definition under :: "string \<Rightarrow> 'a parsed \<Rightarrow> 'a parsed" where
  "under name r = map_sum (map (\<lambda>i. Issue (name # issue_path i) (issue_kind i) (issue_custom i))) id r"

definition z_field :: "string \<Rightarrow> 'a schema \<Rightarrow> (string \<times> jval) list \<Rightarrow> 'a parsed" where
  "z_field name sch fs = under name (sch (map_of fs name))"

text \<open>The parts of an object or an array are all checked, and their issues collected in order.\<close>

definition z_ap :: "('a \<Rightarrow> 'b) parsed \<Rightarrow> 'a parsed \<Rightarrow> 'b parsed" where
  "z_ap f x = (case f of
      Inl is \<Rightarrow> (case x of Inl js \<Rightarrow> Inl (is @ js) | Inr _ \<Rightarrow> Inl is)
    | Inr g \<Rightarrow> map_sum id g x)"

fun z_elements :: "'a schema \<Rightarrow> nat \<Rightarrow> jval list \<Rightarrow> 'a list parsed" where
  "z_elements sch n [] = Inr []"
| "z_elements sch n (v # vs) = z_ap (map_sum id Cons (under (nat_string n) (sch (Some v)))) (z_elements sch (Suc n) vs)"

definition z_array :: "'a schema \<Rightarrow> (jval list \<Rightarrow> zod_issue list) \<Rightarrow> 'a list schema" where
  "z_array sch checks v = (case v of
      Some (JArr vs) \<Rightarrow>
        (case checks vs of
           [] \<Rightarrow> z_elements sch 0 vs
         | is \<Rightarrow> (case z_elements sch 0 vs of Inl js \<Rightarrow> Inl (is @ js) | Inr _ \<Rightarrow> Inl is))
    | _ \<Rightarrow> fails Invalid_type)"

text \<open>\<open>z.object\<close> drops unknown keys; with \<open>strict()\<close> they are an issue.\<close>

definition z_object :: "((string \<times> jval) list \<Rightarrow> 'a parsed) \<Rightarrow> 'a schema" where
  "z_object parse v = (case v of Some (JObj fs) \<Rightarrow> parse fs | _ \<Rightarrow> fails Invalid_type)"

definition z_strict :: "string list \<Rightarrow> ((string \<times> jval) list \<Rightarrow> 'a parsed) \<Rightarrow> (string \<times> jval) list \<Rightarrow> 'a parsed" where
  "z_strict keys parse fs =
     z_ap (z_ap (Inr (\<lambda>_ x. x)) (if list_all (\<lambda>(k, _). k \<in> set keys) fs then Inr () else fails Unrecognized_keys)) (parse fs)"

text \<open>
  \<open>a.or(b)\<close>: the first alternative that accepts; otherwise the issues of the first one that failed only
  in checks of a value of the right type; otherwise one issue of the union.
\<close>

definition is_check :: "zod_issue \<Rightarrow> bool" where
  "is_check i \<longleftrightarrow> issue_kind i \<notin> {Invalid_type, Invalid_enum, Invalid_literal, Invalid_union}"

definition z_or :: "'a schema \<Rightarrow> 'a schema \<Rightarrow> 'a schema" where
  "z_or a b v = (case a v of
      Inr x \<Rightarrow> Inr x
    | Inl is \<Rightarrow> (case b v of
          Inr y \<Rightarrow> Inr y
        | Inl js \<Rightarrow> if list_all is_check is then Inl is else if list_all is_check js then Inl js else fails Invalid_union))"

text \<open>\<open>z.coerce.number().int()\<close> on the values a query string can have, with its bounds.\<close>

definition number_of :: "jval \<Rightarrow> js_num" where
  "number_of v = (case v of
      JStr x \<Rightarrow> js_Number x
    | JNum n \<Rightarrow> Finite n
    | JBool b \<Rightarrow> Finite (if b then 1 else 0)
    | JNull \<Rightarrow> Finite 0
    | JArr [JStr x] \<Rightarrow> js_Number x
    | JArr [] \<Rightarrow> Finite 0
    | _ \<Rightarrow> NaN)"

definition z_coerce_int :: "(int \<Rightarrow> zod_issue list) \<Rightarrow> int schema" where
  "z_coerce_int checks v = (case v of
      None \<Rightarrow> fails Invalid_type
    | Some j \<Rightarrow> (case number_of j of
          Finite n \<Rightarrow> z_checks checks n
        | NaN \<Rightarrow> fails Invalid_type
        | Fraction \<Rightarrow> fails Not_integer
        | Infinite _ \<Rightarrow> fails Not_integer))"

definition at_least :: "int \<Rightarrow> int \<Rightarrow> zod_issue list" where
  "at_least k n = check (Too_small k) None (k \<le> n)"

definition at_most :: "int \<Rightarrow> int \<Rightarrow> zod_issue list" where
  "at_most k n = check (Too_big k) None (n \<le> k)"

section \<open>The middleware\<close>

definition message_of :: "zod \<Rightarrow> zod_issue \<Rightarrow> string" where
  "message_of z i = (case issue_custom i of Some m \<Rightarrow> m | None \<Rightarrow> zod_message z i)"

definition detail_key :: "zod_issue \<Rightarrow> string" where
  "detail_key i = (let key = join_with ''.'' (issue_path i) in if key = [] then ''_root'' else key)"

text \<open>The first non-empty message of each key.\<close>

fun details_of :: "zod \<Rightarrow> zod_issue list \<Rightarrow> (string \<times> string) list \<Rightarrow> (string \<times> string) list" where
  "details_of z [] ds = ds"
| "details_of z (i # is) ds =
     (let key = detail_key i in
      details_of z is (case map_of ds key of
          None \<Rightarrow> ds @ [(key, message_of z i)]
        | Some m \<Rightarrow> if m = [] then map (\<lambda>(k, x). if k = key then (k, message_of z i) else (k, x)) ds else ds))"

definition validationError :: "zod \<Rightarrow> zod_issue list \<Rightarrow> exn" where
  "validationError z is =
     ValidationError ''Validation failed'' (map (\<lambda>(k, m). (k, JStr m)) (details_of z is []))"

definition validate :: "zod \<Rightarrow> 'a parsed \<Rightarrow> 'a result" where
  "validate z r = map_sum (validationError z) id r"

section \<open>Accepting\<close>

lemma map_sum_Inr [simp]: "map_sum f g r = Inr y \<longleftrightarrow> (\<exists>x. r = Inr x \<and> y = g x)"
  by (cases r) auto

lemma z_ap_Inr [simp]: "z_ap f x = Inr y \<longleftrightarrow> (\<exists>g a. f = Inr g \<and> x = Inr a \<and> y = g a)"
  by (cases f; cases x) (auto simp: z_ap_def)

lemma under_Inr [simp]: "under name r = Inr x \<longleftrightarrow> r = Inr x"
  by (auto simp: under_def)

lemma z_checks_Inr [simp]: "z_checks checks x = Inr y \<longleftrightarrow> checks x = [] \<and> y = x"
  by (auto simp: z_checks_def split: list.splits)

lemma fails_Inr [simp]: "fails k \<noteq> Inr x"
  by (simp add: fails_def)

lemma check_Nil [simp]: "check k m ok = [] \<longleftrightarrow> ok"
  by (simp add: check_def)

lemma z_string_Inr: "z_string f checks v = Inr y \<longleftrightarrow> (\<exists>x. v = Some (JStr x) \<and> y = f x \<and> checks y = [])"
  by (auto simp: z_string_def split: option.splits jval.splits)

lemma z_optional_Inr: "z_optional sch v = Inr y \<longleftrightarrow> (v = None \<and> y = None) \<or> (v \<noteq> None \<and> (\<exists>x. sch v = Inr x \<and> y = Some x))"
  by (auto simp: z_optional_def split: option.splits)

lemma z_enum_Inr: "z_enum names v = Inr a \<longleftrightarrow> (\<exists>x. v = Some (JStr x) \<and> map_of names x = Some a)"
  by (auto simp: z_enum_def split: option.splits jval.splits)

lemma z_object_Inr: "z_object parse v = Inr x \<longleftrightarrow> (\<exists>fs. v = Some (JObj fs) \<and> parse fs = Inr x)"
  by (auto simp: z_object_def split: option.splits jval.splits)

lemma z_or_Inr: "z_or a b v = Inr x \<longleftrightarrow> a v = Inr x \<or> ((\<nexists>y. a v = Inr y) \<and> b v = Inr x)"
  by (auto simp: z_or_def split: sum.splits)

lemmas z_accepts = z_string_Inr z_optional_Inr z_enum_Inr z_object_Inr z_or_Inr z_field_def

lemma validate_Inr [simp]: "validate z r = Inr x \<longleftrightarrow> r = Inr x"
  by (auto simp: validate_def)

section \<open>A sample library\<close>

definition sample_zod :: zod where
  "sample_zod = \<lparr>zod_email = (\<lambda>x. CHR ''@'' \<in> set x), zod_uuid = (\<lambda>x. take 1 x = ''U''), zod_url = starts_with ''http'',
     zod_message = (\<lambda>i. ''Invalid'')\<rparr>"

end
