(* ===== verification/Routes.thy ===== *)
theory Routes
  imports Auth OAuth Rate_Limit
begin

text \<open>
  The HTTP handlers in front of the services: \<^verbatim>\<open>src/modules/auth/auth.routes.ts\<close>,
  \<^verbatim>\<open>src/modules/mfa/mfa.routes.ts\<close>, \<^verbatim>\<open>src/modules/oauth/oauth.routes.ts\<close>,
  \<^verbatim>\<open>src/modules/oauth/oidc.routes.ts\<close> and \<^verbatim>\<open>src/modules/oauth/discovery.routes.ts\<close>. Bodies and
  queries are records of the validated types; \<open>header\<close> is the Authorization header.
\<close>

section \<open>Authentication routes\<close>

definition route_limit :: "config \<Rightarrow> string \<Rightarrow> int \<Rightarrow> string option \<Rightarrow> unit act" where
  "route_limit cfg bucket n ip =
     bindM (rateLimitMiddleware \<lparr>ro_limit = n, ro_windowSeconds = RATE_LIMIT_WINDOW cfg, ro_bucket = bucket\<rparr>
              (case ip of Some a \<Rightarrow> a | None \<Rightarrow> ''unknown'')) (\<lambda>_. returnM ())"

definition status_name :: "user_status \<Rightarrow> string" where
  "status_name t = (case t of User_active \<Rightarrow> ''active'' | User_pending_verification \<Rightarrow> ''pending_verification''
     | User_locked \<Rightarrow> ''locked'' | User_disabled \<Rightarrow> ''disabled'')"

definition public_user_json :: "public_user \<Rightarrow> jval" where
  "public_user_json u = JObj [(''id'', JStr (pu_id u)), (''email'', JStr (pu_email u)), (''first_name'', jopt (pu_first_name u)),
     (''last_name'', jopt (pu_last_name u)), (''status'', JStr (status_name (pu_status u))),
     (''mfa_required'', JBool (pu_mfa_required u)), (''created_at'', JNum (pu_created_at u))]"

definition register_route :: "externals \<Rightarrow> config \<Rightarrow> register_input \<Rightarrow> request_context \<Rightarrow> http_response act" where
  "register_route env cfg body ctx =
     bindM (route_limit cfg ''register'' (RATE_LIMIT_REGISTER cfg) (rc_ip ctx)) (\<lambda>_.
     bindM (userService_register env cfg body ctx) (\<lambda>user.
     ok_json 201 [(''user'', public_user_json user)]))"

definition verifyEmail_route :: "externals \<Rightarrow> string \<Rightarrow> request_context \<Rightarrow> http_response act" where
  "verifyEmail_route env token ctx =
     bindM (userService_verifyEmail env token ctx) (\<lambda>_.
     ok_json 200 [(''status'', JStr ''verified'')])"

text \<open>The token fields that every token response of these routes has.\<close>

definition token_fields :: "login_success \<Rightarrow> (string \<times> jval) list" where
  "token_fields r = [(''access_token'', JStr (ls_access_token r)), (''token_type'', JStr ''Bearer''),
     (''expires_in'', JNum (ls_expires_in r)), (''refresh_token'', JStr (ls_refresh_token r))]"

definition login_route :: "externals \<Rightarrow> config \<Rightarrow> string \<Rightarrow> string \<Rightarrow> request_context \<Rightarrow> http_response act" where
  "login_route env cfg email password ctx =
     bindM (route_limit cfg ''login'' (RATE_LIMIT_LOGIN cfg) (rc_ip ctx)) (\<lambda>_.
     bindM (auth_login env cfg email password ctx) (\<lambda>result.
     case result of
       Login_mfa_required cid \<Rightarrow> ok_json 200 [(''outcome'', JStr ''mfa_required''), (''mfa_required'', JBool True),
         (''mfa_challenge_id'', JStr cid)]
     | Login_success r \<Rightarrow> ok_json 200 (token_fields r @
         [(''refresh_expires_at'', JNum (ls_refresh_expires_at r)), (''scope'', JStr (ls_scope r)),
          (''roles'', jstrs (ls_roles r)),
          (''user'', JObj ([(''id'', JStr (ls_user_id r)), (''email'', JStr (ls_user_email r))]
             @ (case ls_user_status r of None \<Rightarrow> [] | Some t \<Rightarrow> [(''status'', JStr (status_name t))])))])))"

definition refresh_route :: "externals \<Rightarrow> config \<Rightarrow> string \<Rightarrow> request_context \<Rightarrow> http_response act" where
  "refresh_route env cfg refresh_token ctx =
     bindM (route_limit cfg ''token'' (RATE_LIMIT_TOKEN cfg) (rc_ip ctx)) (\<lambda>_.
     bindM (auth_refresh env cfg refresh_token ctx) (\<lambda>r.
     ok_json 200 (token_fields r @ [(''scope'', JStr (ls_scope r))])))"

definition logout_route ::
  "externals \<Rightarrow> config \<Rightarrow> string option \<Rightarrow> string option \<Rightarrow> bool \<Rightarrow> request_context \<Rightarrow> http_response act" where
  "logout_route env cfg header refresh_token all_sessions ctx =
     bindM (authenticate env cfg header) (\<lambda>user.
     bindM (auth_logout env (au_sub user) (au_sid user) all_sessions refresh_token ctx) (\<lambda>n.
     ok_json 200 [(''status'', JStr ''logged_out''), (''revoked_sessions'', JNum n)]))"

definition forgotPassword_route :: "externals \<Rightarrow> config \<Rightarrow> string \<Rightarrow> request_context \<Rightarrow> http_response act" where
  "forgotPassword_route env cfg email ctx =
     bindM (route_limit cfg ''forgot-password'' (RATE_LIMIT_FORGOT_PASSWORD cfg) (rc_ip ctx)) (\<lambda>_.
     bindM (auth_forgotPassword env cfg email ctx) (\<lambda>_.
     ok_json 202 [(''status'', JStr ''accepted'')]))"

definition resetPassword_route ::
  "externals \<Rightarrow> config \<Rightarrow> string \<Rightarrow> string \<Rightarrow> request_context \<Rightarrow> http_response act" where
  "resetPassword_route env cfg token password ctx =
     bindM (auth_resetPassword env cfg token password ctx) (\<lambda>_.
     ok_json 200 [(''status'', JStr ''password_reset'')])"

definition me_route :: "externals \<Rightarrow> config \<Rightarrow> string option \<Rightarrow> http_response act" where
  "me_route env cfg header =
     bindM (authenticate env cfg header) (\<lambda>user.
     bindM (auth_me env (au_sub user)) (\<lambda>p.
     ok_json 200 [(''id'', JStr (pf_id p)), (''email'', JStr (pf_email p)), (''first_name'', jopt (pf_first_name p)),
       (''last_name'', jopt (pf_last_name p)), (''status'', JStr (status_name (pf_status p))),
       (''roles'', jstrs (pf_roles p)), (''permissions'', jstrs (pf_permissions p)), (''mfa_enabled'', JBool (pf_mfa_enabled p))]))"

section \<open>Second-factor routes\<close>

text \<open>These handlers put the address and the correlation id into the audit event, not the agent.\<close>

definition mfaEnroll_route :: "externals \<Rightarrow> config \<Rightarrow> string option \<Rightarrow> request_context \<Rightarrow> http_response act" where
  "mfaEnroll_route env cfg header ctx =
     bindM (authenticate env cfg header) (\<lambda>user.
     bindM (mfa_getEmailForUser env (au_sub user)) (\<lambda>email.
     bindM (mfa_beginEnroll env cfg (au_sub user) email) (\<lambda>e.
     bindM (audit_record env (for_user (au_sub user) (ctx_event ''MFA_ENROLL_STARTED'' ctx))) (\<lambda>_.
     ok_json 201 [(''otpauth_url'', JStr (en_otpauth_url e)), (''qr_data_url'', JStr (en_qr_data_url e))]))))"

datatype mfa_verify_body = Login_challenge string string | Enrollment_code string

definition mfaVerify_route ::
  "externals \<Rightarrow> config \<Rightarrow> string option \<Rightarrow> mfa_verify_body \<Rightarrow> request_context \<Rightarrow> http_response act" where
  "mfaVerify_route env cfg header body ctx =
     bindM (maybeAuthenticate env cfg header) (\<lambda>user.
     case body of
       Login_challenge cid code \<Rightarrow>
         bindM (auth_completeMfaChallenge env cfg cid code ctx) (\<lambda>r.
         ok_json 200 (token_fields r @ [(''scope'', JStr (ls_scope r)), (''roles'', jstrs (ls_roles r))]))
     | Enrollment_code code \<Rightarrow>
         (case user of
            None \<Rightarrow> ok_json 401 [(''error'', JStr ''AUTH_REQUIRED''), (''message'', JStr ''Authentication required'')]
          | Some u \<Rightarrow>
              bindM (mfa_confirmEnroll env cfg (au_sub u) code) (\<lambda>_.
              bindM (audit_record env (for_user (au_sub u) (ctx_event ''MFA_ENABLED'' ctx))) (\<lambda>_.
              ok_json 200 [(''status'', JStr ''mfa_enabled'')]))))"

definition mfaDisable_route :: "externals \<Rightarrow> config \<Rightarrow> string option \<Rightarrow> string \<Rightarrow> request_context \<Rightarrow> http_response act" where
  "mfaDisable_route env cfg header code ctx =
     bindM (authenticate env cfg header) (\<lambda>user.
     bindM (mfa_disable env cfg (au_sub user) code) (\<lambda>_.
     bindM (audit_record env (for_user (au_sub user) (ctx_event ''MFA_DISABLED'' ctx))) (\<lambda>_.
     ok_json 200 [(''status'', JStr ''mfa_disabled'')])))"

section \<open>OAuth routes\<close>

record authorize_query =
  aq_client_id :: string
  aq_redirect_uri :: string
  aq_scope :: string
  aq_state :: "string option"
  aq_nonce :: "string option"
  aq_code_challenge :: "string option"
  aq_code_challenge_method :: string

text \<open>The schema admits only \<open>response_type=code\<close>.\<close>

definition authorize_route ::
  "externals \<Rightarrow> config \<Rightarrow> string option \<Rightarrow> authorize_query \<Rightarrow> request_context \<Rightarrow> http_response act" where
  "authorize_route env cfg header q ctx =
     bindM (route_limit cfg ''authorize'' (RATE_LIMIT_AUTHORIZE cfg) (rc_ip ctx)) (\<lambda>_.
     bindM (maybeAuthenticate env cfg header) (\<lambda>user.
     if \<not> truthy (aq_code_challenge q) then
       ok_json 400 [(''error'', JStr ''invalid_request''),
         (''error_description'', JStr ''response_type=code and PKCE code_challenge are required'')]
     else
       bindM (oauth_authorize env cfg
         \<lparr>az_client_id = aq_client_id q, az_redirect_uri = aq_redirect_uri q, az_scope = aq_scope q, az_nonce = aq_nonce q,
          az_code_challenge = the (aq_code_challenge q), az_code_challenge_method = aq_code_challenge_method q\<rparr>
         (map_option au_sub user) (aq_state q) ctx) (\<lambda>redirect.
       ok_json 200 ((''code_url'', JStr redirect)
         # (if truthy (aq_state q) then [(''state'', JStr (the (aq_state q)))] else [])))))"

text \<open>
  \<open>decodeURIComponent\<close> on the characters below 256: an escape is one byte, or the two bytes of the
  UTF-8 form; a malformed escape throws.
\<close>

definition hex_value :: "char \<Rightarrow> nat option" where
  "hex_value c = (let n = (of_char c :: nat) in
     if 48 \<le> n \<and> n \<le> 57 then Some (n - 48) else if 65 \<le> n \<and> n \<le> 70 then Some (n - 55)
     else if 97 \<le> n \<and> n \<le> 102 then Some (n - 87) else None)"

definition hex_byte :: "char \<Rightarrow> char \<Rightarrow> nat option" where
  "hex_byte a b = (case (hex_value a, hex_value b) of (Some x, Some y) \<Rightarrow> Some (16 * x + y) | _ \<Rightarrow> None)"

fun percent_bytes :: "string \<Rightarrow> (nat + char) list option" where
  "percent_bytes [] = Some []"
| "percent_bytes (c # cs) =
     (if c \<noteq> CHR ''%'' then map_option (Cons (Inr c)) (percent_bytes cs)
      else (case cs of
          a # b # rest \<Rightarrow> (case hex_byte a b of None \<Rightarrow> None | Some n \<Rightarrow> map_option (Cons (Inl n)) (percent_bytes rest))
        | _ \<Rightarrow> None))"

fun utf8_chars :: "(nat + char) list \<Rightarrow> string option" where
  "utf8_chars [] = Some []"
| "utf8_chars (Inr c # rest) = map_option (Cons c) (utf8_chars rest)"
| "utf8_chars [Inl n] = (if n < 128 then Some [char_of n] else None)"
| "utf8_chars (Inl n # Inr c # rest) = (if n < 128 then map_option (Cons (char_of n)) (utf8_chars (Inr c # rest)) else None)"
| "utf8_chars (Inl n # Inl m # rest) =
     (if n < 128 then map_option (Cons (char_of n)) (utf8_chars (Inl m # rest))
      else if n \<in> {194, 195} \<and> 128 \<le> m \<and> m < 192
      then map_option (Cons (char_of (64 * (n - 192) + (m - 128)))) (utf8_chars rest)
      else None)"

definition decodeURIComponent :: "string \<Rightarrow> string option" where
  "decodeURIComponent x = Option.bind (percent_bytes x) utf8_chars"

definition parseBasicAuth :: "externals \<Rightarrow> string option \<Rightarrow> (string \<times> string) option" where
  "parseBasicAuth env header =
     (case header of
        None \<Rightarrow> None
      | Some h \<Rightarrow>
          if \<not> starts_with ''Basic '' h then None
          else
            (let decoded = base64_decode env (drop 6 h); user = takeWhile (\<lambda>c. c \<noteq> CHR '':'') decoded in
             if length user = length decoded \<or> user = [] then None
             else (case (decodeURIComponent user, decodeURIComponent (drop (Suc (length user)) decoded)) of
                 (Some c, Some x) \<Rightarrow> Some (c, x)
               | _ \<Rightarrow> None)))"

text \<open>A form that the schema refuses is \<open>None\<close>.\<close>

definition parseForm :: "'a option \<Rightarrow> 'a act" where
  "parseForm form = (case form of None \<Rightarrow> throwM (AppError 400 ''INVALID_REQUEST'' ''Malformed form body'') | Some f \<Rightarrow> returnM f)"

definition token_json :: "token_response \<Rightarrow> (string \<times> jval) list" where
  "token_json r = [(''access_token'', JStr (tr_access_token r)), (''token_type'', JStr ''Bearer''),
     (''expires_in'', JNum (tr_expires_in r))]
     @ (case tr_refresh_token r of None \<Rightarrow> [] | Some t \<Rightarrow> [(''refresh_token'', JStr t)])
     @ [(''scope'', JStr (tr_scope r))]
     @ (case tr_id_token r of None \<Rightarrow> [] | Some t \<Rightarrow> [(''id_token'', JStr t)])"

definition token_route ::
  "externals \<Rightarrow> config \<Rightarrow> string option \<Rightarrow> token_form option \<Rightarrow> request_context \<Rightarrow> http_response act" where
  "token_route env cfg header body ctx =
     bindM (route_limit cfg ''token-client'' (RATE_LIMIT_TOKEN cfg)
       (case parseBasicAuth env header of Some (c, _) \<Rightarrow> Some c | None \<Rightarrow> rc_ip ctx)) (\<lambda>_.
     bindM (parseForm body) (\<lambda>form.
     bindM (oauth_token env cfg form (parseBasicAuth env header) ctx) (\<lambda>r.
     ok_json 200 (token_json r))))"

definition introspection_json :: "introspection option \<Rightarrow> (string \<times> jval) list" where
  "introspection_json ix = (case ix of
      None \<Rightarrow> [(''active'', JBool False)]
    | Some i \<Rightarrow>
        (let opt = (\<lambda>name v. case v of None \<Rightarrow> [] | Some x \<Rightarrow> [(name, JStr x)]);
             num = (\<lambda>name v. case v of None \<Rightarrow> [] | Some x \<Rightarrow> [(name, JNum x)]) in
         [(''active'', JBool True)] @ opt ''sub'' (ix_sub i) @ opt ''scope'' (ix_scope i) @ num ''exp'' (ix_exp i)
         @ num ''iat'' (ix_iat i) @ opt ''aud'' (ix_aud i) @ opt ''iss'' (ix_iss i) @ opt ''jti'' (ix_jti i)
         @ [(''token_type'', JStr ''access_token'')] @ opt ''client_id'' (ix_client_id i)))"

definition invalid_client :: "string \<Rightarrow> http_response act" where
  "invalid_client description =
     ok_json 401 [(''error'', JStr ''invalid_client''), (''error_description'', JStr description)]"

definition introspect_route ::
  "externals \<Rightarrow> config \<Rightarrow> string option \<Rightarrow> string option \<Rightarrow> request_context \<Rightarrow> http_response act" where
  "introspect_route env cfg header body ctx =
     bindM (parseForm body) (\<lambda>token.
     case parseBasicAuth env header of
       None \<Rightarrow> invalid_client ''Client authentication required''
     | Some (clientId, clientSecret) \<Rightarrow>
         bindM (clients_findByClientId clientId) (\<lambda>found.
         bindM (case found of None \<Rightarrow> returnM False | Some client \<Rightarrow> clients_verifySecret env client clientSecret) (\<lambda>good.
         if \<not> good then
           bindM (audit_record env (with_meta [(''reason'', JStr ''client_auth_failed'')]
             (ctx_event ''INTROSPECTION_DENIED'' ctx))) (\<lambda>_.
           invalid_client ''Invalid client credentials'')
         else
           bindM (oauth_introspect env cfg token) (\<lambda>ix.
           ok_json 200 (introspection_json ix)))))"

definition revoke_route :: "externals \<Rightarrow> config \<Rightarrow> string option \<Rightarrow> request_context \<Rightarrow> http_response act" where
  "revoke_route env cfg body ctx =
     bindM (parseForm body) (\<lambda>token.
     bindM (oauth_revoke env cfg token ctx) (\<lambda>_.
     ok_json 200 [(''revoked'', JBool True)]))"

section \<open>OpenID Connect routes\<close>

definition userinfo_claims :: "string list \<Rightarrow> user_row \<Rightarrow> (string \<times> jval) list" where
  "userinfo_claims scopes row =
     (let opt = (\<lambda>name v. case v of None \<Rightarrow> [] | Some x \<Rightarrow> [(name, JStr x)]) in
      [(''sub'', JStr (u_id row))]
      @ (if ''email'' \<in> set scopes then [(''email'', JStr (u_email row)), (''email_verified'', JBool (u_status row = User_active))]
         else [])
      @ (if ''profile'' \<in> set scopes
         then opt ''given_name'' (u_first_name row) @ opt ''family_name'' (u_last_name row)
           @ [(''preferred_username'', JStr (takeWhile (\<lambda>c. c \<noteq> CHR ''@'') (u_email row)))]
         else []))"

definition userinfo_route :: "externals \<Rightarrow> config \<Rightarrow> string option \<Rightarrow> http_response act" where
  "userinfo_route env cfg header =
     bindM (authenticate env cfg header) (\<lambda>user.
     if ''openid'' \<notin> set (split_at js_ws (au_scope user)) then
       ok_json 403 [(''error'', JStr ''insufficient_scope''), (''error_description'', JStr ''openid scope required'')]
     else
       bindM (users_findById env (au_sub user)) (\<lambda>found.
       case found of
         None \<Rightarrow> ok_json 404 [(''error'', JStr ''not_found'')]
       | Some row \<Rightarrow> ok_json 200 (userinfo_claims (split_at js_ws (au_scope user)) row)))"

definition discovery_route :: "config \<Rightarrow> http_response act" where
  "discovery_route cfg =
     (let iss = JWT_ISSUER cfg; issuer = (if iss \<noteq> [] \<and> last iss = CHR ''/'' then butlast iss else iss) in
      ok_json 200
        [(''issuer'', JStr issuer), (''authorization_endpoint'', JStr (issuer @ ''/oauth/authorize'')),
         (''token_endpoint'', JStr (issuer @ ''/oauth/token'')), (''userinfo_endpoint'', JStr (issuer @ ''/userinfo'')),
         (''jwks_uri'', JStr (issuer @ ''/.well-known/jwks.json'')),
         (''introspection_endpoint'', JStr (issuer @ ''/oauth/introspect'')),
         (''revocation_endpoint'', JStr (issuer @ ''/oauth/revoke'')),
         (''response_types_supported'', jstrs [''code'']),
         (''grant_types_supported'', jstrs [''authorization_code'', ''client_credentials'', ''refresh_token'']),
         (''subject_types_supported'', jstrs [''public'']),
         (''id_token_signing_alg_values_supported'', jstrs [''EdDSA'']),
         (''scopes_supported'', jstrs [''openid'', ''profile'', ''email'', ''offline_access'', ''api.read'', ''api.write'']),
         (''token_endpoint_auth_methods_supported'', jstrs [''client_secret_basic'', ''client_secret_post'', ''none'']),
         (''code_challenge_methods_supported'', jstrs [''S256'']),
         (''claims_supported'', jstrs [''sub'', ''iss'', ''aud'', ''exp'', ''iat'', ''email'', ''given_name'', ''family_name''])])"

section \<open>The response a client sees\<close>

definition respond :: "http_response act \<Rightarrow> string \<Rightarrow> world \<Rightarrow> http_response \<times> world" where
  "respond m requestId s = (case m s of (Inl e, s') \<Rightarrow> (errorHandler e requestId, s') | (Inr r, s') \<Rightarrow> (r, s'))"

end
