(* ===== verification/Schemas.thy ===== *)
theory Schemas
  imports Zod Routes Rbac
begin

text \<open>
  The request schemas: \<^verbatim>\<open>src/modules/auth/auth.schemas.ts\<close>, \<^verbatim>\<open>src/modules/mfa/mfa.schemas.ts\<close>,
  \<^verbatim>\<open>src/modules/oauth/oauth.schemas.ts\<close>, \<^verbatim>\<open>src/modules/roles/rbac.schemas.ts\<close>, the schema of a new client
  (\<^verbatim>\<open>src/modules/clients/clients.routes.ts\<close>) and of a new document
  (\<^verbatim>\<open>src/modules/resources/documents.routes.ts\<close>). Each one yields the argument of its route.
\<close>

section \<open>Strings\<close>

text \<open>\<open>z.string()\<close> with length checks, and \<open>z.string().trim().toLowerCase().email()\<close>.\<close>

definition z_text :: "(string \<Rightarrow> zod_issue list) \<Rightarrow> string schema" where
  "z_text = z_string id"

definition z_email_address :: "zod \<Rightarrow> string option \<Rightarrow> string schema" where
  "z_email_address z message = z_string (\<lambda>x. js_lower (js_trim x)) (\<lambda>x. check Invalid_string message (zod_email z x))"

definition z_person_name :: "string schema" where
  "z_person_name = z_string js_trim (\<lambda>x. min_length 1 x @ max_length 100 x)"

definition z_uuid :: "zod \<Rightarrow> string schema" where
  "z_uuid z = z_text (\<lambda>x. check Invalid_string None (zod_uuid z x))"

definition z_url :: "zod \<Rightarrow> string schema" where
  "z_url z = z_text (\<lambda>x. check Invalid_string None (zod_url z x))"

text \<open>\<open>/^\<backslash>d{6}$/\<close>.\<close>

definition six_digits :: "string \<Rightarrow> bool" where
  "six_digits x \<longleftrightarrow> length x = 6 \<and> list_all js_digit x"

definition z_code :: "string schema" where
  "z_code = z_text (\<lambda>x. check Invalid_string (Some ''Must be a 6-digit code'') (six_digits x))"

section \<open>Authentication\<close>

definition registerSchema :: "zod \<Rightarrow> register_input schema" where
  "registerSchema z = z_object (\<lambda>fs.
     z_ap (z_ap (z_ap (z_ap (Inr (\<lambda>e p f l. \<lparr>ri_email = e, ri_password = p, ri_first_name = f, ri_last_name = l\<rparr>))
       (z_field ''email'' (z_email_address z (Some ''Must be a valid email'')) fs))
       (z_field ''password'' (z_text (\<lambda>x. check (Too_small 1) (Some ''Password is required'') (1 \<le> length x))) fs))
       (z_field ''first_name'' (z_optional z_person_name) fs))
       (z_field ''last_name'' (z_optional z_person_name) fs))"

definition loginSchema :: "zod \<Rightarrow> (string \<times> string) schema" where
  "loginSchema z = z_object (\<lambda>fs. z_ap (z_ap (Inr Pair)
     (z_field ''email'' (z_email_address z None) fs)) (z_field ''password'' (z_text (min_length 1)) fs))"

definition refreshSchema :: "string schema" where
  "refreshSchema = z_object (z_field ''refresh_token'' (z_text (min_length 32)))"

definition logoutSchema :: "(string option \<times> bool option) schema" where
  "logoutSchema = z_object (\<lambda>fs. z_ap (z_ap (Inr Pair)
     (z_field ''refresh_token'' (z_optional (z_text (min_length 32))) fs))
     (z_field ''all_sessions'' (z_optional z_boolean) fs))"

definition verifyEmailSchema :: "string schema" where
  "verifyEmailSchema = z_object (z_field ''token'' (z_text (min_length 20)))"

definition forgotPasswordSchema :: "zod \<Rightarrow> string schema" where
  "forgotPasswordSchema z = z_object (z_field ''email'' (z_email_address z None))"

definition resetPasswordSchema :: "(string \<times> string) schema" where
  "resetPasswordSchema = z_object (\<lambda>fs. z_ap (z_ap (Inr Pair)
     (z_field ''token'' (z_text (min_length 20)) fs)) (z_field ''password'' (z_text (min_length 1)) fs))"

section \<open>Second factor\<close>

definition mfaEnrollSchema :: "unit schema" where
  "mfaEnrollSchema = z_object (z_strict [] (\<lambda>_. Inr ()))"

definition mfaVerifyEnrollSchema :: "string schema" where
  "mfaVerifyEnrollSchema = z_object (z_field ''code'' z_code)"

definition mfaLoginVerifySchema :: "zod \<Rightarrow> (string \<times> string) schema" where
  "mfaLoginVerifySchema z = z_object (\<lambda>fs. z_ap (z_ap (Inr Pair)
     (z_field ''mfa_challenge_id'' (z_uuid z) fs)) (z_field ''code'' z_code fs))"

definition mfaDisableSchema :: "string schema" where
  "mfaDisableSchema = z_object (z_field ''code'' z_code)"

text \<open>The body of \<open>/mfa/verify\<close>; the handler tells the two forms apart by the key that is left.\<close>

definition mfaVerifySchema :: "zod \<Rightarrow> mfa_verify_body schema" where
  "mfaVerifySchema z = z_or (\<lambda>v. map_sum id (\<lambda>(c, x). Login_challenge c x) (mfaLoginVerifySchema z v))
     (\<lambda>v. map_sum id Enrollment_code (mfaVerifyEnrollSchema v))"

section \<open>OAuth\<close>

definition authorizeQuerySchema :: "zod \<Rightarrow> authorize_query schema" where
  "authorizeQuerySchema z = z_object (\<lambda>fs.
     z_ap (z_ap (z_ap (z_ap (z_ap (z_ap (z_ap (z_ap
       (Inr (\<lambda>_ c u sc st n ch m. \<lparr>aq_client_id = c, aq_redirect_uri = u, aq_scope = sc, aq_state = st, aq_nonce = n,
              aq_code_challenge = ch, aq_code_challenge_method = m\<rparr>))
       (z_field ''response_type'' (z_literal ''code'') fs))
       (z_field ''client_id'' (z_text (min_length 4)) fs))
       (z_field ''redirect_uri'' (z_url z) fs))
       (z_field ''scope'' (z_default (JStr ''openid'') (z_text (\<lambda>_. []))) fs))
       (z_field ''state'' (z_optional (z_text (max_length 512))) fs))
       (z_field ''nonce'' (z_optional (z_text (max_length 512))) fs))
       (z_field ''code_challenge'' (z_optional (z_text (\<lambda>x. min_length 43 x @ max_length 128 x))) fs))
       (z_field ''code_challenge_method'' (z_default (JStr ''S256'') (z_enum [(''S256'', ''S256''), (''plain'', ''plain'')])) fs))"

definition tokenFormSchema :: "token_form schema" where
  "tokenFormSchema = z_object (\<lambda>fs.
     z_ap (z_ap (z_ap (z_ap (z_ap (z_ap (z_ap (z_ap
       (Inr (\<lambda>g c u i x v sc r. \<lparr>tf_grant_type = g, tf_code = c, tf_redirect_uri = u, tf_client_id = i, tf_client_secret = x,
              tf_code_verifier = v, tf_scope = sc, tf_refresh_token = r\<rparr>))
       (z_field ''grant_type'' (z_enum [(''authorization_code'', ''authorization_code''),
          (''client_credentials'', ''client_credentials''), (''refresh_token'', ''refresh_token'')]) fs))
       (z_field ''code'' (z_optional (z_text (\<lambda>_. []))) fs))
       (z_field ''redirect_uri'' (z_optional (z_text (\<lambda>_. []))) fs))
       (z_field ''client_id'' (z_optional (z_text (\<lambda>_. []))) fs))
       (z_field ''client_secret'' (z_optional (z_text (\<lambda>_. []))) fs))
       (z_field ''code_verifier'' (z_optional (z_text (\<lambda>x. min_length 43 x @ max_length 128 x))) fs))
       (z_field ''scope'' (z_optional (z_text (\<lambda>_. []))) fs))
       (z_field ''refresh_token'' (z_optional (z_text (min_length 10))) fs))"

definition introspectFormSchema :: "string schema" where
  "introspectFormSchema = z_object (z_field ''token'' (z_text (min_length 10)))"

definition revokeFormSchema :: "string schema" where
  "revokeFormSchema = z_object (z_field ''token'' (z_text (min_length 10)))"

section \<open>Administration\<close>

definition idParamSchema :: "zod \<Rightarrow> string schema" where
  "idParamSchema z = z_object (z_field ''id'' (z_uuid z))"

definition listUsersQuerySchema :: "(int \<times> int) schema" where
  "listUsersQuerySchema = z_object (\<lambda>fs. z_ap (z_ap (Inr Pair)
     (z_field ''limit'' (z_default (JNum 25) (z_coerce_int (\<lambda>n. at_least 1 n @ at_most 100 n))) fs))
     (z_field ''offset'' (z_default (JNum 0) (z_coerce_int (at_least 0))) fs))"

definition word_of :: "string \<Rightarrow> string \<Rightarrow> bool" where
  "word_of extra x \<longleftrightarrow> x \<noteq> [] \<and> list_all (\<lambda>c. js_lower_letter c \<or> c \<in> set extra) x"

definition setUserRolesSchema :: "string list schema" where
  "setUserRolesSchema = z_object (z_field ''roles''
     (z_array (z_text (\<lambda>x. check Invalid_string None (word_of ''_-'' x))) (max_length 10)))"

definition setUserStatusSchema :: "bool schema" where
  "setUserStatusSchema = z_object (z_field ''status'' (z_enum [(''active'', False), (''disabled'', True)]))"

definition setRolePermissionsSchema :: "string list schema" where
  "setRolePermissionsSchema = z_object (z_field ''permissions''
     (z_array (z_text (\<lambda>x. check Invalid_string None (word_of ''_.:-'' x))) (max_length 50)))"

definition createClientSchema :: "zod \<Rightarrow> client_body schema" where
  "createClientSchema z = z_object (\<lambda>fs.
     z_ap (z_ap (z_ap (z_ap (z_ap (z_ap
       (Inr (\<lambda>n t u sc g m. \<lparr>cb_name = n, cb_client_type = t, cb_redirect_uris = u, cb_allowed_scopes = sc, cb_grant_types = g,
              cb_token_endpoint_auth_method = m\<rparr>))
       (z_field ''name'' (z_string js_trim (\<lambda>x. min_length 3 x @ max_length 100 x)) fs))
       (z_field ''client_type'' (z_enum [(''confidential'', Confidential), (''public'', Public)]) fs))
       (z_field ''redirect_uris'' (z_array (z_url z) (max_length 10)) fs))
       (z_field ''allowed_scopes'' (z_array
          (z_text (\<lambda>x. check Invalid_string None (x \<noteq> [] \<and> list_all (\<lambda>c. js_word c \<or> c = CHR ''.'') x)))
          (\<lambda>vs. min_length 1 vs @ max_length 20 vs)) fs))
       (z_field ''grant_types'' (z_array (z_enum [(''authorization_code'', ''authorization_code''),
          (''client_credentials'', ''client_credentials'')]) (min_length 1)) fs))
       (z_field ''token_endpoint_auth_method'' (z_enum [(''client_secret_basic'', Client_secret_basic),
          (''client_secret_post'', Client_secret_post), (''none'', Auth_none)]) fs))"

section \<open>Documents\<close>

definition createDocumentSchema :: "(string \<times> string option) schema" where
  "createDocumentSchema = z_object (\<lambda>fs. z_ap (z_ap (Inr Pair)
     (z_field ''title'' (z_text (\<lambda>x. min_length 1 x @ max_length 200 x)) fs))
     (z_field ''content'' (z_optional (z_text (max_length 50000))) fs))"

end
