(* ===== verification/App.thy ===== *)
theory App
  imports Schemas Resource
begin

text \<open>
  The servers as functions from HTTP requests to responses: the correlation id
  (\<^verbatim>\<open>src/common/middleware/request-id.ts\<close>), the composition of the authentication server
  (\<^verbatim>\<open>src/app.factory.ts\<close>: body parsing, the routers under their paths, validation in front of the
  handlers, 404 and error handler at the end), the gateway in front of the resource API
  (\<^verbatim>\<open>src/modules/gateway/gateway.factory.ts\<close>, \<^verbatim>\<open>src/modules/resources/resource.factory.ts\<close>) and the
  health probes (\<^verbatim>\<open>src/modules/health/health.routes.ts\<close>).
\<close>

section \<open>Requests\<close>

text \<open>
  The body as the parsers of the framework leave it: nothing, a JSON value or a form (an object of
  strings), the bytes of an octet stream, or the status of a parser error.
\<close>

datatype http_body = No_body | Parsed jval | Octets string | Unparsable int

record http_request =
  hq_method :: string
  hq_path :: string
  hq_query :: "(string \<times> jval) list"
  hq_headers :: headers
  hq_ip :: "string option"
  hq_body :: http_body

text \<open>What the process environment adds: the validation library, the liveness of the stores, JWK export, and
  the parsed text of \<^verbatim>\<open>docs/openapi.yaml\<close>.\<close>

record platform =
  pl_zod :: zod
  pl_up :: "string \<Rightarrow> bool"
  pl_jwk :: "string \<Rightarrow> (string \<times> jval) list"
  pl_openapi :: jval

definition body_of :: "http_request \<Rightarrow> jval" where
  "body_of rq = (case hq_body rq of Parsed v \<Rightarrow> v | _ \<Rightarrow> JObj [])"

definition auth_header :: "http_request \<Rightarrow> string option" where
  "auth_header rq = header_of ''authorization'' (hq_headers rq)"

section \<open>The correlation id\<close>

definition request_id_char :: "char \<Rightarrow> bool" where
  "request_id_char c \<longleftrightarrow> js_lower_letter c \<or> js_upper_letter c \<or> js_digit c \<or> c \<in> set ''-_.''"

definition request_id_ok :: "string \<Rightarrow> bool" where
  "request_id_ok x \<longleftrightarrow> 8 \<le> length x \<and> length x \<le> 64 \<and> list_all request_id_char x"

definition requestIdMiddleware :: "externals \<Rightarrow> http_request \<Rightarrow> string act" where
  "requestIdMiddleware env rq =
     (case header_of ''x-request-id'' (hq_headers rq) of
        Some x \<Rightarrow> if request_id_ok x then returnM x else drawM (rand_uuid env)
      | None \<Rightarrow> drawM (rand_uuid env))"

definition requestContext :: "string \<Rightarrow> http_request \<Rightarrow> request_context" where
  "requestContext requestId rq =
     \<lparr>rc_requestId = requestId, rc_ip = hq_ip rq, rc_userAgent = header_of ''user-agent'' (hq_headers rq)\<rparr>"

definition routeContext :: "request_context \<Rightarrow> route_ctx" where
  "routeContext ctx = \<lparr>rq_requestId = rc_requestId ctx, rq_ip = rc_ip ctx\<rparr>"

section \<open>Paths\<close>

text \<open>Express compares the literal parts without regard to case and ignores one slash at the end.\<close>

datatype seg = Lit string | Var

definition path_segments :: "string \<Rightarrow> string list" where
  "path_segments path =
     (let parts = tl (split_at (\<lambda>c. c = CHR ''/'') path) in
      if parts \<noteq> [] \<and> last parts = [] then butlast parts else parts)"

fun match_path :: "seg list \<Rightarrow> string list \<Rightarrow> string list option" where
  "match_path [] [] = Some []"
| "match_path (Lit x # ps) (y # ys) = (if js_lower x = js_lower y then match_path ps ys else None)"
| "match_path (Var # ps) (y # ys) = (if y = [] then None else map_option (Cons y) (match_path ps ys))"
| "match_path _ _ = None"

type_synonym 'h route_table = "(string \<times> seg list \<times> 'h) list"

fun find_route :: "'h route_table \<Rightarrow> string \<Rightarrow> string list \<Rightarrow> ('h \<times> string list) option" where
  "find_route [] m path = None"
| "find_route ((m', pat, h) # rs) m path =
     (if m = m' then (case match_path pat path of Some ps \<Rightarrow> Some (h, ps) | None \<Rightarrow> find_route rs m path)
      else find_route rs m path)"

section \<open>Validation in front of the handlers\<close>

type_synonym handler = "http_request \<Rightarrow> request_context \<Rightarrow> string list \<Rightarrow> http_response act"

definition with_body :: "platform \<Rightarrow> 'a schema \<Rightarrow> http_request \<Rightarrow> ('a \<Rightarrow> http_response act) \<Rightarrow> http_response act" where
  "with_body pl sch rq k = bindM (liftE (validate (pl_zod pl) (sch (Some (body_of rq))))) k"

definition with_query :: "platform \<Rightarrow> 'a schema \<Rightarrow> http_request \<Rightarrow> ('a \<Rightarrow> http_response act) \<Rightarrow> http_response act" where
  "with_query pl sch rq k = bindM (liftE (validate (pl_zod pl) (sch (Some (JObj (hq_query rq)))))) k"

definition with_id :: "platform \<Rightarrow> string list \<Rightarrow> (uuid \<Rightarrow> http_response act) \<Rightarrow> http_response act" where
  "with_id pl params k =
     bindM (liftE (validate (pl_zod pl) (idParamSchema (pl_zod pl) (Some (JObj [(''id'', JStr (hd params))]))))) k"

text \<open>
  The guards that stand in front of the validation. They only read, so that the route's own guard
  finds the same afterwards.
\<close>

definition authenticated :: "externals \<Rightarrow> config \<Rightarrow> http_request \<Rightarrow> http_response act \<Rightarrow> http_response act" where
  "authenticated env cfg rq m = bindM (authenticate env cfg (auth_header rq)) (\<lambda>_. m)"

definition permitted :: "externals \<Rightarrow> config \<Rightarrow> string list \<Rightarrow> http_request \<Rightarrow> http_response act \<Rightarrow> http_response act" where
  "permitted env cfg ps rq m = guarded env cfg (auth_header rq) ps (\<lambda>_. m)"

section \<open>Form bodies of the OAuth endpoints\<close>

text \<open>
  An octet stream is read as a form: pairs separated by \<open>&\<close>, a plus sign for a blank, escapes decoded (a
  malformed one stays). Only \<open>/oauth/token\<close> has the parser for octet streams.
\<close>

fun lenient_bytes :: "string \<Rightarrow> (nat + char) list" where
  "lenient_bytes [] = []"
| "lenient_bytes (c # cs) =
     (if c = CHR ''+'' then Inr (CHR '' '') # lenient_bytes cs
      else if c = CHR ''%'' then
        (case cs of
           a # b # rest \<Rightarrow> (case hex_byte a b of None \<Rightarrow> Inr c # lenient_bytes cs | Some n \<Rightarrow> Inl n # lenient_bytes rest)
         | _ \<Rightarrow> Inr c # lenient_bytes cs)
      else Inr c # lenient_bytes cs)"

definition form_text :: "string \<Rightarrow> string" where
  "form_text x = (case utf8_chars (lenient_bytes x) of Some y \<Rightarrow> y | None \<Rightarrow> x)"

definition form_pairs :: "string \<Rightarrow> (string \<times> string) list" where
  "form_pairs x =
     map (\<lambda>w. (form_text (takeWhile (\<lambda>c. c \<noteq> CHR ''='') w), form_text (drop 1 (dropWhile (\<lambda>c. c \<noteq> CHR ''='') w))))
       (words_by (\<lambda>c. c = CHR ''&'') x)"

text \<open>\<open>Object.fromEntries\<close> keeps the last value of a name.\<close>

definition form_body :: "bool \<Rightarrow> http_request \<Rightarrow> jval" where
  "form_body octets rq = (case hq_body rq of
      Octets x \<Rightarrow> if octets then JObj (rev (map (\<lambda>(k, v). (k, JStr v)) (form_pairs x))) else JObj []
    | _ \<Rightarrow> body_of rq)"

definition safe_parse :: "'a schema \<Rightarrow> jval \<Rightarrow> 'a option" where
  "safe_parse sch v = (case sch (Some v) of Inr x \<Rightarrow> Some x | Inl _ \<Rightarrow> None)"

section \<open>The routers of the authentication server\<close>

definition auth_router :: "platform \<Rightarrow> externals \<Rightarrow> config \<Rightarrow> handler route_table" where
  "auth_router pl env cfg = [
     (''POST'', [Lit ''auth'', Lit ''register''], \<lambda>rq ctx ps. with_body pl (registerSchema (pl_zod pl)) rq (\<lambda>b. register_route env cfg b ctx)),
     (''POST'', [Lit ''auth'', Lit ''verify-email''], \<lambda>rq ctx ps. with_body pl verifyEmailSchema rq (\<lambda>t. verifyEmail_route env t ctx)),
     (''POST'', [Lit ''auth'', Lit ''login''], \<lambda>rq ctx ps. with_body pl (loginSchema (pl_zod pl)) rq (\<lambda>(e, p). login_route env cfg e p ctx)),
     (''POST'', [Lit ''auth'', Lit ''refresh''], \<lambda>rq ctx ps. with_body pl refreshSchema rq (\<lambda>t. refresh_route env cfg t ctx)),
     (''POST'', [Lit ''auth'', Lit ''logout''], \<lambda>rq ctx ps. authenticated env cfg rq (with_body pl logoutSchema rq
        (\<lambda>(t, every). logout_route env cfg (auth_header rq) t (every = Some True) ctx))),
     (''POST'', [Lit ''auth'', Lit ''forgot-password''], \<lambda>rq ctx ps. with_body pl (forgotPasswordSchema (pl_zod pl)) rq
        (\<lambda>e. forgotPassword_route env cfg e ctx)),
     (''POST'', [Lit ''auth'', Lit ''reset-password''], \<lambda>rq ctx ps. with_body pl resetPasswordSchema rq
        (\<lambda>(t, p). resetPassword_route env cfg t p ctx)),
     (''GET'', [Lit ''auth'', Lit ''me''], \<lambda>rq ctx ps. me_route env cfg (auth_header rq))]"

definition mfa_router :: "platform \<Rightarrow> externals \<Rightarrow> config \<Rightarrow> handler route_table" where
  "mfa_router pl env cfg = [
     (''POST'', [Lit ''mfa'', Lit ''enroll''], \<lambda>rq ctx ps. authenticated env cfg rq (with_body pl mfaEnrollSchema rq
        (\<lambda>_. mfaEnroll_route env cfg (auth_header rq) ctx))),
     (''POST'', [Lit ''mfa'', Lit ''verify''], \<lambda>rq ctx ps. bindM (maybeAuthenticate env cfg (auth_header rq)) (\<lambda>_.
        with_body pl (mfaVerifySchema (pl_zod pl)) rq (\<lambda>b. mfaVerify_route env cfg (auth_header rq) b ctx))),
     (''POST'', [Lit ''mfa'', Lit ''disable''], \<lambda>rq ctx ps. authenticated env cfg rq (with_body pl mfaDisableSchema rq
        (\<lambda>code. mfaDisable_route env cfg (auth_header rq) code ctx)))]"

text \<open>\<open>Number(limit ?? 50) || 50\<close>, at most 200; a value that is no integer makes the database refuse the query.\<close>

definition audit_limit_query :: "http_request \<Rightarrow> int option result" where
  "audit_limit_query rq = (case map_of (hq_query rq) ''limit'' of
      None \<Rightarrow> Inr None
    | Some v \<Rightarrow> (case number_of v of
          Finite n \<Rightarrow> Inr (Some n)
        | NaN \<Rightarrow> Inr None
        | Infinite False \<Rightarrow> Inr (Some 200)
        | _ \<Rightarrow> Inl (DbError ''LIMIT must be an integer'')))"

definition query_text :: "string \<Rightarrow> http_request \<Rightarrow> string option" where
  "query_text name rq = (case map_of (hq_query rq) name of Some (JStr x) \<Rightarrow> Some x | _ \<Rightarrow> None)"

definition admin_router :: "platform \<Rightarrow> externals \<Rightarrow> config \<Rightarrow> handler route_table" where
  "admin_router pl env cfg = [
     (''GET'', [Lit ''admin'', Lit ''roles''], \<lambda>rq ctx ps. admin_roles_route env cfg (auth_header rq)),
     (''PUT'', [Lit ''admin'', Lit ''roles'', Var, Lit ''permissions''], \<lambda>rq ctx ps.
        permitted env cfg [''roles:write''] rq (with_body pl setRolePermissionsSchema rq (\<lambda>names. with_id pl ps (\<lambda>role.
        admin_setRolePermissions_route env cfg (auth_header rq) role names (routeContext ctx))))),
     (''GET'', [Lit ''admin'', Lit ''permissions''], \<lambda>rq ctx ps. admin_permissions_route env cfg (auth_header rq)),
     (''GET'', [Lit ''admin'', Lit ''scopes''], \<lambda>rq ctx ps. admin_scopes_route env cfg (auth_header rq)),
     (''GET'', [Lit ''admin'', Lit ''users''], \<lambda>rq ctx ps. permitted env cfg [''users:read''] rq
        (with_query pl listUsersQuerySchema rq (\<lambda>(limit, offset). admin_users_route env cfg (auth_header rq) limit offset))),
     (''PUT'', [Lit ''admin'', Lit ''users'', Var, Lit ''roles''], \<lambda>rq ctx ps.
        permitted env cfg [''users:write''] rq (with_body pl setUserRolesSchema rq (\<lambda>names. with_id pl ps (\<lambda>uid.
        admin_setUserRoles_route env cfg (auth_header rq) uid names (routeContext ctx))))),
     (''PUT'', [Lit ''admin'', Lit ''users'', Var, Lit ''status''], \<lambda>rq ctx ps.
        permitted env cfg [''users:write''] rq (with_body pl setUserStatusSchema rq (\<lambda>disabled. with_id pl ps (\<lambda>uid.
        admin_setUserStatus_route env cfg (auth_header rq) uid disabled (routeContext ctx))))),
     (''GET'', [Lit ''admin'', Lit ''audit''], \<lambda>rq ctx ps. permitted env cfg [''audit:read''] rq
        (bindM (liftE (audit_limit_query rq)) (\<lambda>limit.
        admin_audit_route env cfg (auth_header rq) limit (query_text ''event_type'' rq))))]"

definition clients_router :: "platform \<Rightarrow> externals \<Rightarrow> config \<Rightarrow> handler route_table" where
  "clients_router pl env cfg = [
     (''GET'', [Lit ''admin'', Lit ''clients''], \<lambda>rq ctx ps. clients_list_route env cfg (auth_header rq)),
     (''POST'', [Lit ''admin'', Lit ''clients''], \<lambda>rq ctx ps. permitted env cfg [''clients:write''] rq
        (with_body pl (createClientSchema (pl_zod pl)) rq (\<lambda>b.
        clients_create_route env cfg (auth_header rq) b (routeContext ctx)))),
     (''POST'', [Lit ''admin'', Lit ''clients'', Var, Lit ''rotate-secret''], \<lambda>rq ctx ps.
        permitted env cfg [''clients:write''] rq (with_id pl ps (\<lambda>uid.
        clients_rotate_route env cfg (auth_header rq) uid (routeContext ctx)))),
     (''PUT'', [Lit ''admin'', Lit ''clients'', Var, Lit ''status''], \<lambda>rq ctx ps.
        permitted env cfg [''clients:write''] rq (with_id pl ps (\<lambda>uid.
        clients_status_route env cfg (auth_header rq) uid
          (case body_of rq of JObj fs \<Rightarrow> (case map_of fs ''status'' of Some (JStr x) \<Rightarrow> Some x | _ \<Rightarrow> None) | _ \<Rightarrow> None)
          (routeContext ctx))))]"

text \<open>The rate limit and the optional identity come before the schema of the query.\<close>

definition oauth_router :: "platform \<Rightarrow> externals \<Rightarrow> config \<Rightarrow> handler route_table" where
  "oauth_router pl env cfg = [
     (''GET'', [Lit ''oauth'', Lit ''authorize''], \<lambda>rq ctx ps.
        (case validate (pl_zod pl) (authorizeQuerySchema (pl_zod pl) (Some (JObj (hq_query rq)))) of
           Inr q \<Rightarrow> authorize_route env cfg (auth_header rq) q ctx
         | Inl e \<Rightarrow>
             bindM (route_limit cfg ''authorize'' (RATE_LIMIT_AUTHORIZE cfg) (rc_ip ctx)) (\<lambda>_.
             bindM (maybeAuthenticate env cfg (auth_header rq)) (\<lambda>_. throwM e)))),
     (''POST'', [Lit ''oauth'', Lit ''token''], \<lambda>rq ctx ps.
        token_route env cfg (auth_header rq) (safe_parse tokenFormSchema (form_body True rq)) ctx),
     (''POST'', [Lit ''oauth'', Lit ''introspect''], \<lambda>rq ctx ps.
        introspect_route env cfg (auth_header rq) (safe_parse introspectFormSchema (form_body False rq)) ctx),
     (''POST'', [Lit ''oauth'', Lit ''revoke''], \<lambda>rq ctx ps.
        revoke_route env cfg (safe_parse revokeFormSchema (form_body False rq)) ctx)]"

text \<open>The probes: the readiness of the key service reads (and may create) the signing key.\<close>

definition health_ready :: "platform \<Rightarrow> externals \<Rightarrow> config \<Rightarrow> http_response act" where
  "health_ready pl env cfg =
     bindM (catchM (bindM (keys_getCurrentSigningKey env cfg) (\<lambda>_. returnM True)) (\<lambda>_. returnM False)) (\<lambda>kms.
     let results = [(''postgres'', pl_up pl ''postgres''), (''redis'', pl_up pl ''redis''), (''kms'', kms)];
         failed = list_ex (\<lambda>(_, ok). \<not> ok) results in
     ok_json (if failed then 503 else 200)
       [(''status'', JStr (if failed then ''degraded'' else ''ok'')),
        (''dependencies'', JObj (map (\<lambda>(n, ok). (n, JStr (if ok then ''ok'' else ''unavailable''))) results))])"

definition jwks_http :: "platform \<Rightarrow> http_response act" where
  "jwks_http pl =
     bindM jwks_route (\<lambda>keys.
     ok_json 200 [(''keys'', JArr (map (\<lambda>(kid, pem). JObj (pl_jwk pl pem
       @ [(''kid'', JStr kid), (''alg'', JStr ''EdDSA''), (''use'', JStr ''sig'')])) keys))])"

definition auth_routes :: "platform \<Rightarrow> externals \<Rightarrow> config \<Rightarrow> handler route_table" where
  "auth_routes pl env cfg =
     [(''GET'', [Lit ''.well-known'', Lit ''jwks.json''], \<lambda>rq ctx ps. jwks_http pl)]
     @ auth_router pl env cfg @ mfa_router pl env cfg @ admin_router pl env cfg @ clients_router pl env cfg
     @ oauth_router pl env cfg
     @ [(''GET'', [Lit ''.well-known'', Lit ''openid-configuration''], \<lambda>rq ctx ps. discovery_route cfg),
        (''GET'', [Lit ''userinfo''], \<lambda>rq ctx ps. userinfo_route env cfg (auth_header rq)),
        (''GET'', [Lit ''openapi.json''], \<lambda>rq ctx ps. returnM \<lparr>hr_status = 200, hr_body = pl_openapi pl\<rparr>),
        (''GET'', [Lit ''health'', Lit ''live''], \<lambda>rq ctx ps. ok_json 200 [(''status'', JStr ''ok'')]),
        (''GET'', [Lit ''health'', Lit ''ready''], \<lambda>rq ctx ps. health_ready pl env cfg)]"

section \<open>Servers\<close>

definition notFoundHandler :: "http_response act" where
  "notFoundHandler = ok_json 404 [(''error'', JStr ''NOT_FOUND''), (''message'', JStr ''Route not found'')]"

text \<open>A route for \<open>GET\<close> also takes \<open>HEAD\<close>; the body, which Node then does not send, stays in the response here.\<close>

definition route_method :: "http_request \<Rightarrow> string" where
  "route_method rq = (if hq_method rq = ''HEAD'' then ''GET'' else hq_method rq)"

lemma route_method_same [simp]: "hq_method rq \<noteq> ''HEAD'' \<Longrightarrow> route_method rq = hq_method rq"
  by (simp add: route_method_def)

definition dispatch :: "handler route_table \<Rightarrow> handler" where
  "dispatch table rq ctx ps = (case hq_body rq of
      Unparsable code \<Rightarrow> throwM (HttpError code)
    | _ \<Rightarrow> (case find_route table (route_method rq) (path_segments (hq_path rq)) of
          None \<Rightarrow> notFoundHandler
        | Some (h, raw) \<Rightarrow>
            if list_ex (\<lambda>x. decodeURIComponent x = None) raw then throwM (HttpError 400)
            else h rq ctx (map (\<lambda>x. the (decodeURIComponent x)) raw)))"

definition serve :: "externals \<Rightarrow> (string \<Rightarrow> http_response act) \<Rightarrow> http_request \<Rightarrow> world \<Rightarrow> http_response \<times> world" where
  "serve env m rq s = (case requestIdMiddleware env rq s of
      (Inl e, s1) \<Rightarrow> (errorHandler e [], s1)
    | (Inr requestId, s1) \<Rightarrow> respond (m requestId) requestId s1)"

text \<open>\<open>cors\<close> answers every \<open>OPTIONS\<close> request before anything else sees it; only its headers depend on the origin.\<close>

definition cors_preflight :: http_response where
  "cors_preflight = \<lparr>hr_status = 204, hr_body = JNull\<rparr>"

definition auth_server :: "platform \<Rightarrow> externals \<Rightarrow> config \<Rightarrow> http_request \<Rightarrow> world \<Rightarrow> http_response \<times> world" where
  "auth_server pl env cfg rq =
     (if hq_method rq = ''OPTIONS'' then Pair cors_preflight
      else serve env (\<lambda>requestId. dispatch (auth_routes pl env cfg) rq (requestContext requestId rq) []) rq)"

text \<open>The resource API: liveness first, then the proof of origin, the identity, and the documents router.\<close>

definition documents_router :: "platform \<Rightarrow> externals \<Rightarrow> resource_identity \<Rightarrow> handler route_table" where
  "documents_router pl env me = [
     (''GET'', [Lit ''api'', Lit ''v1'', Lit ''me''], \<lambda>rq ctx ps. resource_route env me GetMe),
     (''GET'', [Lit ''api'', Lit ''v1'', Lit ''documents''], \<lambda>rq ctx ps. resource_route env me GetDocuments),
     (''POST'', [Lit ''api'', Lit ''v1'', Lit ''documents''], \<lambda>rq ctx ps.
        bindM (liftE (requireResourceScope [''api.write''] (Some me))) (\<lambda>_.
        with_body pl createDocumentSchema rq (\<lambda>(t, c). resource_route env me (PostDocument t c)))),
     (''DELETE'', [Lit ''api'', Lit ''v1'', Lit ''documents'', Var], \<lambda>rq ctx ps.
        resource_route env me (DeleteDocument (hd ps)))]"

definition under_api :: "http_request \<Rightarrow> bool" where
  "under_api rq \<longleftrightarrow> map js_lower (take 2 (path_segments (hq_path rq))) = [''api'', ''v1'']"

definition resource_handler :: "platform \<Rightarrow> externals \<Rightarrow> config \<Rightarrow> http_request \<Rightarrow> request_context \<Rightarrow> http_response act" where
  "resource_handler pl env cfg rq ctx = (case hq_body rq of
      Unparsable code \<Rightarrow> throwM (HttpError code)
    | _ \<Rightarrow>
      if route_method rq = ''GET'' \<and> map js_lower (path_segments (hq_path rq)) = [''health''] then
        ok_json 200 [(''status'', JStr ''ok''), (''service'', JStr ''resource-api'')]
      else
        bindM (liftE (requireGatewaySecret cfg (hq_headers rq))) (\<lambda>_.
        if \<not> under_api rq then notFoundHandler
        else
          bindM (liftE (requireIdentity (hq_headers rq))) (\<lambda>me.
          dispatch (documents_router pl env me) rq ctx [])))"

definition resource_server :: "platform \<Rightarrow> externals \<Rightarrow> config \<Rightarrow> http_request \<Rightarrow> world \<Rightarrow> http_response \<times> world" where
  "resource_server pl env cfg rq = serve env (\<lambda>requestId. resource_handler pl env cfg rq (requestContext requestId rq)) rq"

text \<open>The gateway: the rate limit for everything, then liveness, then the protected traffic.\<close>

definition gateway_handler :: "remote_check \<Rightarrow> platform \<Rightarrow> externals \<Rightarrow> config \<Rightarrow> http_request \<Rightarrow> http_response act" where
  "gateway_handler remote pl env cfg rq =
     (if under_api rq then
        bindM (gateway_forward remote cfg (hq_ip rq) (hq_headers rq)) (\<lambda>out.
        (\<lambda>s. case resource_server pl env cfg (rq\<lparr>hq_headers := out\<rparr>) s of (resp, s') \<Rightarrow> (Inr resp, s')))
      else
        bindM (rateLimitMiddleware (gateway_limit cfg) (case hq_ip rq of Some a \<Rightarrow> a | None \<Rightarrow> ''unknown'')) (\<lambda>_.
        if route_method rq = ''GET'' \<and> map js_lower (path_segments (hq_path rq)) = [''healthz''] then
          ok_json 200 [(''status'', JStr ''ok''), (''service'', JStr ''api-gateway'')]
        else notFoundHandler))"

definition gateway_server :: "remote_check \<Rightarrow> platform \<Rightarrow> externals \<Rightarrow> config \<Rightarrow> http_request \<Rightarrow> world \<Rightarrow> http_response \<times> world" where
  "gateway_server remote pl env cfg rq = serve env (\<lambda>_. gateway_handler remote pl env cfg rq) rq"

end
