(* ===== verification/System.thy ===== *)
theory System
  imports World_Invariant App
begin

text \<open>
  The system as a state machine: one step is the passing of time, an HTTP request to the
  authentication server, the gateway or the resource API (any method, path, headers and body), or a
  rotation of the signing key. The properties hold along every sequence of steps.
\<close>

section \<open>Steps\<close>

inductive step :: "externals \<Rightarrow> config \<Rightarrow> world \<Rightarrow> world \<Rightarrow> bool" for env cfg where
  time: "0 \<le> d \<Longrightarrow> step env cfg s (elapse d s)"
| auth: "step env cfg s (snd (auth_server pl env cfg rq s))"
| gateway: "step env cfg s (snd (gateway_server remote pl env cfg rq s))"
| resource: "step env cfg s (snd (resource_server pl env cfg rq s))"
| rotation: "step env cfg s (snd (keys_rotateSigningKey env cfg s))"

inductive_cases stepE: "step env cfg s s'"

definition reachable :: "externals \<Rightarrow> config \<Rightarrow> world \<Rightarrow> world \<Rightarrow> bool" where
  "reachable env cfg = (step env cfg)\<^sup>*\<^sup>*"

section \<open>Invariants along a run\<close>

lemma find_route_in: "find_route table m path = Some (h, ps) \<Longrightarrow> \<exists>m' pat. (m', pat, h) \<in> set table"
  by (induction table m path rule: find_route.induct) (auto split: if_splits option.splits)

context world_invariant
begin

lemma pres_maybeAuthenticate [pres]: "preserves P (maybeAuthenticate env cfg header)"
  unfolding maybeAuthenticate_def by (intro pres)

lemma pres_route_limit [pres]: "preserves P (route_limit cfg bucket n ip)"
  unfolding route_limit_def by (intro pres)

lemma pres_parseForm [pres]: "preserves P (parseForm form)"
  unfolding parseForm_def by (intro pres)

lemma mfa_body_case [pres]:
  "(\<And>a b. preserves P (f a b)) \<Longrightarrow> (\<And>a. preserves P (g a)) \<Longrightarrow>
   preserves P (case body of Login_challenge a b \<Rightarrow> f a b | Enrollment_code a \<Rightarrow> g a)"
  by (cases body) auto

lemma login_case [pres]:
  "(\<And>a. preserves P (f a)) \<Longrightarrow> (\<And>a. preserves P (g a)) \<Longrightarrow>
   preserves P (case r of Login_success a \<Rightarrow> f a | Login_mfa_required a \<Rightarrow> g a)"
  by (cases r) auto

lemma pres_auth_handlers [pres]:
  "preserves P (register_route env cfg b ctx)" "preserves P (verifyEmail_route env token ctx)"
  "preserves P (login_route env cfg email password ctx)" "preserves P (refresh_route env cfg token ctx)"
  "preserves P (logout_route env cfg header t every ctx)" "preserves P (forgotPassword_route env cfg email ctx)"
  "preserves P (resetPassword_route env cfg token password ctx)" "preserves P (me_route env cfg header)"
  unfolding register_route_def verifyEmail_route_def login_route_def refresh_route_def logout_route_def
    forgotPassword_route_def resetPassword_route_def me_route_def
  by (intro pres)+

lemma pres_mfa_handlers [pres]:
  "preserves P (mfaEnroll_route env cfg header ctx)" "preserves P (mfaVerify_route env cfg header body ctx)"
  "preserves P (mfaDisable_route env cfg header code ctx)"
  unfolding mfaEnroll_route_def mfaVerify_route_def mfaDisable_route_def
  by (intro pres)+

lemma pres_oauth_handlers [pres]:
  "preserves P (authorize_route env cfg header q ctx)" "preserves P (token_route env cfg header form ctx)"
  "preserves P (introspect_route env cfg header t ctx)" "preserves P (revoke_route env cfg t ctx)"
  "preserves P (userinfo_route env cfg header)" "preserves P (discovery_route cfg)"
  unfolding authorize_route_def token_route_def introspect_route_def invalid_client_def revoke_route_def userinfo_route_def
    discovery_route_def Let_def
  by (intro pres)+

lemma pres_health [pres]: "preserves P (health_ready pl env cfg)"
  unfolding health_ready_def Let_def by (intro pres)

lemma pres_jwks [pres]: "preserves P (jwks_http pl)"
  unfolding jwks_http_def jwks_route_def by (intro pres)

lemma pres_guards [pres]:
  "(\<And>x. preserves P (k x)) \<Longrightarrow> preserves P (with_body pl sch rq k)"
  "(\<And>x. preserves P (k x)) \<Longrightarrow> preserves P (with_query pl sch rq k)"
  "(\<And>x. preserves P (k' x)) \<Longrightarrow> preserves P (with_id pl params k')"
  "preserves P m \<Longrightarrow> preserves P (authenticated env cfg rq m)"
  "preserves P m \<Longrightarrow> preserves P (permitted env cfg ps rq m)"
  unfolding with_body_def with_query_def with_id_def authenticated_def permitted_def
  by (intro pres; assumption)+

lemma pres_auth_routes: "(m, pat, h) \<in> set (auth_routes pl env cfg) \<Longrightarrow> preserves P (h rq ctx ps)"
  unfolding auth_routes_def auth_router_def mfa_router_def admin_router_def clients_router_def oauth_router_def
  by (simp, elim disjE; clarsimp; intro pres)

lemma pres_notFound [pres]: "preserves P notFoundHandler"
  unfolding notFoundHandler_def by (intro pres)

lemma pres_dispatch:
  assumes "\<And>m pat h rq ctx ps. (m, pat, h) \<in> set table \<Longrightarrow> preserves P (h rq ctx ps)"
  shows "preserves P (dispatch table rq ctx ps)"
  unfolding dispatch_def
  by (auto intro!: pres assms dest!: find_route_in split: http_body.split option.split prod.split)

lemma pres_resource_route [pres]: "preserves P (resource_route env me req)"
  by (cases req)
    (simp_all only: resource_route.simps documents_list_route_def documents_create_route_def documents_delete_route_def Let_def,
      (intro pres)+)

lemma pres_documents_router: "(m, pat, h) \<in> set (documents_router pl env me) \<Longrightarrow> preserves P (h rq ctx ps)"
  by (simp only: documents_router_def list.set insert_iff empty_iff prod.inject simp_thms, elim disjE conjE; hypsubst; intro pres)

lemma serve_invariant: "(\<And>i. preserves P (m i)) \<Longrightarrow> P s \<Longrightarrow> P (snd (serve env m rq s))"
proof -
  assume m: "\<And>i. preserves P (m i)" and s: "P s"
  have "preserves P (requestIdMiddleware env rq)"
    unfolding requestIdMiddleware_def by (intro pres)
  then have "P (snd (requestIdMiddleware env rq s))"
    using s by (rule preserves_snd)
  then show "P (snd (serve env m rq s))"
    unfolding serve_def respond_def by (fastforce split: prod.split sum.split dest: preservesD [OF m])
qed

lemma auth_server_invariant: "P s \<Longrightarrow> P (snd (auth_server pl env cfg rq s))"
proof (cases "hq_method rq = ''OPTIONS''")
  case False
  then show "P s \<Longrightarrow> P (snd (auth_server pl env cfg rq s))"
    unfolding auth_server_def by simp (intro serve_invariant pres_dispatch, rule pres_auth_routes)
qed (simp add: auth_server_def)

lemma pres_resource_handler: "preserves P (resource_handler pl env cfg rq ctx)"
  unfolding resource_handler_def
  by (cases "hq_body rq"; simp only: http_body.case; intro pres pres_dispatch; erule pres_documents_router)

lemma resource_server_invariant: "P s \<Longrightarrow> P (snd (resource_server pl env cfg rq s))"
  unfolding resource_server_def by (intro serve_invariant pres_resource_handler)

lemma pres_gateway_handler: "preserves P (gateway_handler remote pl env cfg rq)"
proof -
  have "preserves P (\<lambda>s. case resource_server pl env cfg rq' s of (resp, s') \<Rightarrow> (Inr resp, s'))" for rq'
    by (rule preservesI) (simp add: resource_server_invariant split_beta)
  then show ?thesis
    unfolding gateway_handler_def by (intro pres)
qed

lemma gateway_server_invariant: "P s \<Longrightarrow> P (snd (gateway_server remote pl env cfg rq s))"
  unfolding gateway_server_def by (intro serve_invariant pres_gateway_handler)

lemma step_invariant: "step env cfg s s' \<Longrightarrow> P s \<Longrightarrow> P s'"
  by (erule stepE) (auto intro: elapse_invariant auth_server_invariant gateway_server_invariant
      resource_server_invariant preserves_snd pres_rotate)

lemma reachable_invariant: "reachable env cfg s s' \<Longrightarrow> P s \<Longrightarrow> P s'"
  unfolding reachable_def by (induction rule: rtranclp_induct) (auto intro: step_invariant)

end

lemma spent_refresh_iff: "refresh_keys_ok s \<and> refresh_spent env token s \<longleftrightarrow> refresh_used {refresh_hash env token} s"
  by (simp add: refresh_keys_ok_def refresh_spent_def refresh_used_def)

lemma spent_code_iff: "codes_ok s \<and> code_spent env code s \<longleftrightarrow> codes_used {code_hash_of env code} s"
  by (auto simp: codes_ok_def code_spent_def codes_used_def)

lemma spent_reset_iff: "reset_ok s \<and> reset_spent env token s \<longleftrightarrow> resets_used {emailToken_hash env token} s"
  by (simp add: reset_ok_def reset_spent_def resets_used_def)

lemma dead_session_iff: "sessions_ok s \<and> session_dead uid s \<longleftrightarrow> sessions_dead {uid} s"
  by (simp add: sessions_dead_def)

lemma spent_refresh_reachable:
  assumes "reachable env' cfg s s'" and "refresh_keys_ok s" and "refresh_spent env token s"
  shows "refresh_keys_ok s'" and "refresh_spent env token s'"
  using refresh_inv.reachable_invariant [OF assms(1), of "{refresh_hash env token}"] assms(2,3)
  by (simp_all flip: spent_refresh_iff)

lemma dead_session_reachable:
  assumes "reachable env' cfg s s'" and "sessions_ok s" and "session_dead uid s"
  shows "sessions_ok s'" and "session_dead uid s'"
  using session_inv.reachable_invariant [OF assms(1), of "{uid}"] assms(2,3)
  by (simp_all flip: dead_session_iff)

lemma audit_reachable:
  assumes "reachable env cfg s s'"
  shows "\<exists>rows. t_audit s' = t_audit s @ rows"
proof -
  have "audit_extends (t_audit s) s"
    by (simp add: audit_extends_def)
  from audit_inv.reachable_invariant [OF assms this] show ?thesis
    by (simp add: audit_extends_def)
qed

section \<open>Properties\<close>

text \<open>
  C4: what is used up stays used up. Along every run of the system a spent refresh token stays spent,
  an exchanged code stays exchanged, a used reset token stays used, a revoked session stays revoked,
  the keys of these tables stay unique, and the audit log only grows at its end.
\<close>

theorem nothing_comes_back:
  assumes "reachable env cfg s s'"
  shows "(refresh_keys_ok s \<and> refresh_spent env token s \<longrightarrow> refresh_keys_ok s' \<and> refresh_spent env token s')
    \<and> (codes_ok s \<and> code_spent env code s \<longrightarrow> codes_ok s' \<and> code_spent env code s')
    \<and> (reset_ok s \<and> reset_spent env reset_token s \<longrightarrow> reset_ok s' \<and> reset_spent env reset_token s')
    \<and> (sessions_ok s \<and> session_dead uid s \<longrightarrow> sessions_ok s' \<and> session_dead uid s')
    \<and> (\<exists>rows. t_audit s' = t_audit s @ rows)"
  unfolding spent_refresh_iff spent_code_iff spent_reset_iff dead_session_iff
  using refresh_inv.reachable_invariant [OF assms] code_inv.reachable_invariant [OF assms]
    reset_inv.reachable_invariant [OF assms] session_inv.reachable_invariant [OF assms] audit_reachable [OF assms]
  by simp

lemma step_reachable: "step env cfg s s' \<Longrightarrow> reachable env cfg s s'"
  unfolding reachable_def by (rule r_into_rtranclp)

lemma reachable_step: "reachable env cfg s s' \<Longrightarrow> step env cfg s' s'' \<Longrightarrow> reachable env cfg s s''"
  unfolding reachable_def by (rule rtranclp.rtrancl_into_rtrancl)

text \<open>A run: a login, some time, and the refresh of another token, as requests to the server.\<close>

definition sample_platform :: platform where
  "sample_platform = \<lparr>pl_zod = sample_zod, pl_up = (\<lambda>_. True), pl_jwk = (\<lambda>_. []), pl_openapi = JObj []\<rparr>"

definition json_post :: "string \<Rightarrow> (string \<times> jval) list \<Rightarrow> http_request" where
  "json_post path parts = \<lparr>hq_method = ''POST'', hq_path = path, hq_query = [],
     hq_headers = [(''x-request-id'', ''req-0001'')], hq_ip = Some ''10.0.0.1'', hq_body = Parsed (JObj parts)\<rparr>"

definition login_request :: http_request where
  "login_request = json_post ''/auth/login'' [(''email'', JStr '' A@x''), (''password'', JStr ''pw'')]"

definition refresh_request :: http_request where
  "refresh_request = json_post ''/auth/refresh'' [(''refresh_token'', JStr (replicate 32 (CHR ''r'')))]"

definition run_world :: "world \<Rightarrow> world" where
  "run_world s = snd (auth_server sample_platform sample_env sample_cfg refresh_request
     (elapse 5 (snd (auth_server sample_platform sample_env sample_cfg login_request s))))"

lemma run_reachable: "reachable sample_env sample_cfg s (run_world s)"
  unfolding run_world_def
  by (rule reachable_step [OF reachable_step [OF step_reachable [OF step.auth] step.time] step.auth]) simp

text \<open>A world in which a token, a code, a reset token and a session are used up.\<close>

definition used_world :: world where
  "used_world = snd (sessions_revoke ''Us'' ''logout'' (snd (consumePasswordReset sample_env ''reset''
     (snd (codes_consume sample_env ''code'' ''cli'' ''https://app/cb''
     (snd (refresh_consume sample_env sample_cfg ''tok'' (code_world\<lparr>t_password_resets := [sample_reset]\<rparr>))))))))"

theorem nothing_comes_back_witness:
  "refresh_spent sample_env ''tok'' (run_world used_world) \<and> code_spent sample_env ''code'' (run_world used_world)
   \<and> reset_spent sample_env ''reset'' (run_world used_world) \<and> session_dead ''Us'' (run_world used_world)
   \<and> (\<exists>rows. t_audit (run_world used_world) = t_audit used_world @ rows)"
proof -
  have "refresh_keys_ok used_world" "refresh_spent sample_env ''tok'' used_world" "codes_ok used_world"
      "code_spent sample_env ''code'' used_world" "reset_ok used_world" "reset_spent sample_env ''reset'' used_world"
      "sessions_ok used_world" "session_dead ''Us'' used_world"
    by code_simp+
  with nothing_comes_back [OF run_reachable [of used_world], of "''tok''" "''code''" "''reset''" "''Us''"]
  show ?thesis by blast
qed

text \<open>
  A used refresh token is refused for ever. After a token was accepted once, and whatever the
  system does then, in every state it reaches the token is refused with \<open>REFRESH_TOKEN_REUSE\<close> by the
  login service, and no request to the token endpoint that presents it succeeds.
\<close>

theorem used_refresh_token_refused:
  assumes "refresh_keys_ok s" and "refresh_consume env cfg token s = (Inr c, s1)" and "reachable env cfg s1 s2"
  shows "(\<exists>e. fst (auth_refresh env cfg token ctx s2) = Inl e \<and> err_code e = Some ''REFRESH_TOKEN_REUSE'')
    \<and> (tf_grant_type form = ''refresh_token'' \<and> tf_refresh_token form = Some token \<longrightarrow>
         (\<exists>e. fst (oauth_token env cfg form basicAuth ctx s2) = Inl e))"
proof -
  have "refresh_keys_ok s1" and "refresh_spent env token s1"
    using consume_keys_ok [OF assms(1), of env cfg token] consume_spends [OF assms(2)] assms(2) by simp_all
  then have ok: "refresh_keys_ok s2" and spent: "refresh_spent env token s2"
    using spent_refresh_reachable [OF assms(3)] by blast+
  obtain r where run: "refresh_consume env cfg token s2 =
      (Inl (AppError 401 ''REFRESH_TOKEN_REUSE'' ''Refresh token reuse detected - session revoked''), theft_response r s2)"
    by (rule spent_known [OF ok spent, of cfg])
  have "\<exists>e. fst (oauth_token env cfg form basicAuth ctx s2) = Inl e"
    if gt: "tf_grant_type form = ''refresh_token''" and presented: "tf_refresh_token form = Some token"
  proof (rule ccontr)
    assume "\<nexists>e. fst (oauth_token env cfg form basicAuth ctx s2) = Inl e"
    then obtain resp s3 where res: "oauth_token env cfg form basicAuth ctx s2 = (Inr resp, s3)"
      by (cases "oauth_token env cfg form basicAuth ctx s2") (metis fst_conv old.sum.exhaust)
    obtain client where cl: "truthy (token_client_id form basicAuth)"
      "List.find (\<lambda>c. cl_client_id c = the (token_client_id form basicAuth)) (t_clients s2) = Some client"
      "cl_status client = Client_active"
      by (rule token_Inr [OF res])
    have grant: "oauth_grantRefresh env cfg form client (token_secret form basicAuth) ctx s2 = (Inr resp, s3)"
      using res gt token_eq [OF cl, of env cfg ctx] by simp
    obtain c' s1' where "refresh_consume env cfg token s2 = (Inr c', s1')"
      by (rule grantRefresh_Inr [OF grant]) (use presented in simp)
    with run show False by simp
  qed
  moreover have "fst (auth_refresh env cfg token ctx s2) =
      Inl (AppError 401 ''REFRESH_TOKEN_REUSE'' ''Refresh token reuse detected - session revoked'')"
    by (rule auth_refresh_refused [OF run])
  ultimately show ?thesis
    by (simp add: AppError_def err_code_def)
qed

theorem used_refresh_token_refused_witness:
  "\<exists>e. fst (auth_refresh sample_env sample_cfg ''tok'' sample_ctx
      (run_world (snd (refresh_consume sample_env sample_cfg ''tok'' sample_world)))) = Inl e
     \<and> err_code e = Some ''REFRESH_TOKEN_REUSE''"
proof -
  have "case refresh_consume sample_env sample_cfg ''tok'' sample_world of (Inr _, _) \<Rightarrow> True | _ \<Rightarrow> False"
    by code_simp
  then obtain c s1 where run: "refresh_consume sample_env sample_cfg ''tok'' sample_world = (Inr c, s1)"
    by (auto split: prod.splits sum.splits)
  have "refresh_keys_ok sample_world"
    by code_simp
  from used_refresh_token_refused [OF this run run_reachable, of sample_ctx undefined None] show ?thesis
    by (simp add: run)
qed

text \<open>
  A revoked session is dead for good. After the revocation of a stored session, whatever the system
  does then and whatever the cache holds, no look-up of the session in any state it reaches gives an
  active one.
\<close>

theorem revoked_session_stays_dead:
  assumes "sessions_ok s" and "r \<in> set (t_sessions s)" and "ss_id r = uid"
    and "reachable env cfg (snd (sessions_revoke uid reason s)) s2"
    and "sessions_findById uid s2 = (Inr (Some row), s3)"
  shows "ss_status row = Session_revoked"
proof -
  let ?s1 = "snd (sessions_revoke uid reason s)"
  let ?r = "if ss_id r = uid \<and> ss_status r = Session_active then revoke_session (clock s) reason r else r"
  have sess: "t_sessions ?s1 = revoked_sessions (\<lambda>r. ss_id r = uid) reason s"
    by (simp add: revoke_run redis_erase_def redis_del_def)
  have "?r \<in> set (t_sessions ?s1)"
    using assms(2) by (auto simp: sess revoked_sessions_def update_where_def)
  moreover have "ss_id ?r = uid" and "ss_status ?r = Session_revoked"
    using assms(3) by (cases "ss_status r"; simp)+
  ultimately have "session_dead uid ?s1"
    unfolding session_dead_def by blast
  moreover have "sessions_ok ?s1"
    using assms(1) by (simp add: sessions_ok_def sess revoked_sessions_def map_update_where)
  ultimately have ok: "sessions_ok s2" and dead: "session_dead uid s2"
    using dead_session_reachable [OF assms(4)] by blast+
  show ?thesis
  proof (rule ccontr)
    assume "ss_status row \<noteq> Session_revoked"
    then have active: "ss_status row = Session_active"
      by (cases "ss_status row") simp_all
    from findById_active [OF assms(5) active] have "row \<in> set (t_sessions s2)" and "ss_id row = uid"
      by (auto simp: session_in_def dest: find_SomeD)
    then show False
      using dead active distinct_key_eq [OF ok [unfolded sessions_ok_def]] unfolding session_dead_def by fastforce
  qed
qed

theorem revoked_session_stays_dead_witness:
  "\<exists>row. fst (sessions_findById ''Us'' (run_world (snd (sessions_revoke ''Us'' ''admin'' sample_world)))) = Inr (Some row)
     \<and> ss_status row = Session_revoked"
proof -
  let ?s2 = "run_world (snd (sessions_revoke ''Us'' ''admin'' sample_world))"
  have "case sessions_findById ''Us'' ?s2 of (Inr (Some _), _) \<Rightarrow> True | _ \<Rightarrow> False"
    by code_simp
  then obtain row s3 where run: "sessions_findById ''Us'' ?s2 = (Inr (Some row), s3)"
    by (auto split: prod.splits sum.splits option.splits)
  have "sessions_ok sample_world" and "ss_id sample_session = ''Us''"
    by code_simp+
  moreover have "sample_session \<in> set (t_sessions sample_world)"
    by (simp add: sample_world_def)
  ultimately have "ss_status row = Session_revoked"
    using revoked_session_stays_dead [OF _ _ _ run_reachable run] by blast
  with run show ?thesis by simp
qed

end
