(* ===== verification/Config.thy ===== *)
theory Config
  imports Zod Schema
begin

text \<open>
  The configuration of the services, \<^verbatim>\<open>src/config/index.ts\<close>: the schema of the environment variables,
  their defaults and conversions, and \<open>loadConfig\<close> with its cache. The record \<open>config\<close> holds the
  settings that the services read; \<open>app_config\<close> extends it by all others.
\<close>

section \<open>The settings\<close>

record app_config = config +
  NODE_ENV :: string
  PORT :: int
  GATEWAY_PORT :: int
  FRONTEND_PORT :: int
  LOG_LEVEL :: string
  DATABASE_URL :: string
  DATABASE_POOL_MAX :: int
  REDIS_URL :: string
  KMS_PROVIDER :: string
  KMS_KEY_DIR :: string
  BCRYPT_ROUNDS :: int
  EMAIL_PROVIDER :: string
  SMTP_HOST :: "string option"
  SMTP_PORT :: int
  SMTP_USER :: "string option"
  SMTP_PASSWORD :: "string option"
  SMTP_FROM :: string
  EMAIL_SECURE :: bool
  CORS_ORIGINS :: string
  TRUST_PROXY :: bool
  COOKIE_DOMAIN :: "string option"
  RISK_LOCKOUT_MINUTES :: int
  AUTH_SERVER_URL :: string
  RESOURCE_API_URL :: string
  RESOURCE_PORT :: int
  PUBLIC_AUTH_BASE :: string
  PUBLIC_API_BASE :: string
  ADMIN_EMAIL :: string
  ADMIN_PASSWORD :: "string option"
  corsOriginsList :: "string list"
  isTest :: bool

section \<open>The schema\<close>

text \<open>
  \<open>int(d)\<close> and \<open>bool(d)\<close>: an unset or empty variable is the default; a number goes through \<open>Number\<close> and
  must be a finite integer; a flag is set by \<open>true\<close> or \<open>1\<close>.
\<close>

definition env_int :: "int \<Rightarrow> int schema" where
  "env_int d v = (case v of
      None \<Rightarrow> Inr d
    | Some (JStr x) \<Rightarrow>
        if x = [] then Inr d
        else (case js_Number x of
            Finite n \<Rightarrow> Inr n
          | NaN \<Rightarrow> fails Invalid_type
          | Fraction \<Rightarrow> fails Not_integer
          | Infinite _ \<Rightarrow> Inl [Issue [] Not_integer None, Issue [] Not_finite None])
    | _ \<Rightarrow> fails Invalid_type)"

definition env_bool :: "bool \<Rightarrow> bool schema" where
  "env_bool d v = (case v of
      None \<Rightarrow> Inr d
    | Some (JStr x) \<Rightarrow> Inr (if x = [] then d else x = ''true'' \<or> x = ''1'')
    | _ \<Rightarrow> fails Invalid_type)"

definition issues_of :: "'a parsed \<Rightarrow> zod_issue list" where
  "issues_of r = (case r of Inl is \<Rightarrow> is | Inr _ \<Rightarrow> [])"

abbreviation value_of :: "'a parsed \<Rightarrow> 'a" where
  "value_of \<equiv> projr"

definition env_text :: "(string \<Rightarrow> zod_issue list) \<Rightarrow> string schema" where
  "env_text = z_string id"

definition set_int :: "(string \<times> jval) list \<Rightarrow> string \<Rightarrow> int \<Rightarrow> int parsed" where
  "set_int fs name d = z_field name (env_int d) fs"

definition set_bool :: "(string \<times> jval) list \<Rightarrow> string \<Rightarrow> bool \<Rightarrow> bool parsed" where
  "set_bool fs name d = z_field name (env_bool d) fs"

definition set_text :: "(string \<times> jval) list \<Rightarrow> string \<Rightarrow> string \<Rightarrow> string parsed" where
  "set_text fs name d = z_field name (z_default (JStr d) (env_text (\<lambda>_. []))) fs"

definition set_checked :: "(string \<times> jval) list \<Rightarrow> string \<Rightarrow> (string \<Rightarrow> bool) \<Rightarrow> string \<Rightarrow> string parsed" where
  "set_checked fs name ok d = z_field name (z_default (JStr d) (env_text (\<lambda>x. check Invalid_string None (ok x)))) fs"

definition set_optional :: "(string \<times> jval) list \<Rightarrow> string \<Rightarrow> string option parsed" where
  "set_optional fs name = z_field name (z_optional (env_text (\<lambda>_. []))) fs"

definition set_name :: "(string \<times> jval) list \<Rightarrow> string \<Rightarrow> string \<Rightarrow> string list \<Rightarrow> string parsed" where
  "set_name fs name d names = z_field name (z_default (JStr d) (z_enum (map (\<lambda>x. (x, x)) names))) fs"

definition set_required :: "(string \<times> jval) list \<Rightarrow> string \<Rightarrow> string \<Rightarrow> string parsed" where
  "set_required fs name message = z_field name (env_text (\<lambda>x. check (Too_small 1) (Some message) (1 \<le> length x))) fs"

definition corsOrigins :: "string \<Rightarrow> string list" where
  "corsOrigins x = filter (\<lambda>w. w \<noteq> []) (map js_trim (split_at (\<lambda>c. c = CHR '','') x))"

text \<open>The settings in the order of the schema: their issues, or the configuration.\<close>

definition envSchema :: "zod \<Rightarrow> (string \<times> string) list \<Rightarrow> app_config parsed" where
  "envSchema z env =
     (let fs = map (\<lambda>(k, v). (k, JStr v)) env;
          i = set_int fs; b = set_bool fs; t = set_text fs; c = set_checked fs; opt = set_optional fs;
          n = set_name fs; r = set_required fs;
          v_NODE_ENV = n ''NODE_ENV'' ''development'' [''development'', ''test'', ''production''];
          v_PORT = i ''PORT'' 3001;
          v_GATEWAY_PORT = i ''GATEWAY_PORT'' 3000;
          v_FRONTEND_PORT = i ''FRONTEND_PORT'' 8080;
          v_LOG_LEVEL = n ''LOG_LEVEL'' ''info'' [''fatal'', ''error'', ''warn'', ''info'', ''debug'', ''trace''];
          v_DATABASE_URL = r ''DATABASE_URL'' ''DATABASE_URL is required'';
          v_DATABASE_POOL_MAX = i ''DATABASE_POOL_MAX'' 10;
          v_REDIS_URL = r ''REDIS_URL'' ''REDIS_URL is required'';
          v_JWT_ISSUER = c ''JWT_ISSUER'' (zod_url z) ''https://auth.local'';
          v_JWT_AUDIENCE = t ''JWT_AUDIENCE'' ''api'';
          v_ACCESS_TOKEN_TTL = i ''ACCESS_TOKEN_TTL'' 900;
          v_REFRESH_TOKEN_TTL = i ''REFRESH_TOKEN_TTL'' 1209600;
          v_AUTHORIZATION_CODE_TTL = i ''AUTHORIZATION_CODE_TTL'' 120;
          v_ID_TOKEN_TTL = i ''ID_TOKEN_TTL'' 3600;
          v_SESSION_TTL = i ''SESSION_TTL'' 2592000;
          v_KMS_PROVIDER = n ''KMS_PROVIDER'' ''local'' [''local'', ''aws-kms'', ''azure-kv'', ''gcp-kms'', ''vault''];
          v_KMS_KEY_DIR = t ''KMS_KEY_DIR'' ''./keys'';
          v_KMS_MASTER_KEY = opt ''KMS_MASTER_KEY'';
          v_PASSWORD_MIN_LENGTH = i ''PASSWORD_MIN_LENGTH'' 12;
          v_BCRYPT_ROUNDS = i ''BCRYPT_ROUNDS'' 12;
          v_EMAIL_PROVIDER = n ''EMAIL_PROVIDER'' ''mock'' [''mock'', ''smtp''];
          v_SMTP_HOST = opt ''SMTP_HOST'';
          v_SMTP_PORT = i ''SMTP_PORT'' 1025;
          v_SMTP_USER = opt ''SMTP_USER'';
          v_SMTP_PASSWORD = opt ''SMTP_PASSWORD'';
          v_SMTP_FROM = t ''SMTP_FROM'' ''no-reply@auth.local'';
          v_EMAIL_SECURE = b ''EMAIL_SECURE'' False;
          v_EMAIL_VERIFICATION_TTL = i ''EMAIL_VERIFICATION_TTL'' 86400;
          v_PASSWORD_RESET_TTL = i ''PASSWORD_RESET_TTL'' 1800;
          v_CORS_ORIGINS = t ''CORS_ORIGINS'' ''http://localhost:3000,http://localhost:8080'';
          v_TRUST_PROXY = b ''TRUST_PROXY'' True;
          v_COOKIE_DOMAIN = opt ''COOKIE_DOMAIN'';
          v_RATE_LIMIT_WINDOW = i ''RATE_LIMIT_WINDOW'' 60;
          v_RATE_LIMIT_LOGIN = i ''RATE_LIMIT_LOGIN'' 5;
          v_RATE_LIMIT_REGISTER = i ''RATE_LIMIT_REGISTER'' 3;
          v_RATE_LIMIT_FORGOT_PASSWORD = i ''RATE_LIMIT_FORGOT_PASSWORD'' 3;
          v_RATE_LIMIT_TOKEN = i ''RATE_LIMIT_TOKEN'' 10;
          v_RATE_LIMIT_AUTHORIZE = i ''RATE_LIMIT_AUTHORIZE'' 10;
          v_RATE_LIMIT_API = i ''RATE_LIMIT_API'' 120;
          v_RISK_FAILED_LOGINS_THRESHOLD = i ''RISK_FAILED_LOGINS_THRESHOLD'' 5;
          v_RISK_LOCKOUT_MINUTES = i ''RISK_LOCKOUT_MINUTES'' 15;
          v_RISK_HIGH_SCORE_ACTION = z_field ''RISK_HIGH_SCORE_ACTION'' (z_default (JStr ''mfa'')
            (z_enum [(''deny'', Action_deny), (''mfa'', Action_mfa), (''allow'', Action_allow)])) fs;
          v_MAX_FAILED_LOGINS = i ''MAX_FAILED_LOGINS'' 5;
          v_LOCKOUT_MINUTES = i ''LOCKOUT_MINUTES'' 15;
          v_MFA_ISSUER = t ''MFA_ISSUER'' ''Identity Platform'';
          v_MFA_CHALLENGE_TTL = i ''MFA_CHALLENGE_TTL'' 300;
          v_AUTH_SERVER_URL = c ''AUTH_SERVER_URL'' (zod_url z) ''http://localhost:3001'';
          v_RESOURCE_API_URL = c ''RESOURCE_API_URL'' (zod_url z) ''http://localhost:3002'';
          v_RESOURCE_PORT = i ''RESOURCE_PORT'' 3002;
          v_GATEWAY_SHARED_SECRET = opt ''GATEWAY_SHARED_SECRET'';
          v_PUBLIC_AUTH_BASE = t ''PUBLIC_AUTH_BASE'' '''';
          v_PUBLIC_API_BASE = t ''PUBLIC_API_BASE'' '''';
          v_ADMIN_EMAIL = c ''ADMIN_EMAIL'' (zod_email z) ''admin@auth.local'';
          v_ADMIN_PASSWORD = opt ''ADMIN_PASSWORD'';
          issues = concat [
            issues_of v_NODE_ENV, issues_of v_PORT, issues_of v_GATEWAY_PORT, issues_of v_FRONTEND_PORT,
            issues_of v_LOG_LEVEL, issues_of v_DATABASE_URL, issues_of v_DATABASE_POOL_MAX,
            issues_of v_REDIS_URL, issues_of v_JWT_ISSUER, issues_of v_JWT_AUDIENCE,
            issues_of v_ACCESS_TOKEN_TTL, issues_of v_REFRESH_TOKEN_TTL, issues_of v_AUTHORIZATION_CODE_TTL,
            issues_of v_ID_TOKEN_TTL, issues_of v_SESSION_TTL, issues_of v_KMS_PROVIDER,
            issues_of v_KMS_KEY_DIR, issues_of v_KMS_MASTER_KEY, issues_of v_PASSWORD_MIN_LENGTH,
            issues_of v_BCRYPT_ROUNDS, issues_of v_EMAIL_PROVIDER, issues_of v_SMTP_HOST,
            issues_of v_SMTP_PORT, issues_of v_SMTP_USER, issues_of v_SMTP_PASSWORD, issues_of v_SMTP_FROM,
            issues_of v_EMAIL_SECURE, issues_of v_EMAIL_VERIFICATION_TTL, issues_of v_PASSWORD_RESET_TTL,
            issues_of v_CORS_ORIGINS, issues_of v_TRUST_PROXY, issues_of v_COOKIE_DOMAIN,
            issues_of v_RATE_LIMIT_WINDOW, issues_of v_RATE_LIMIT_LOGIN, issues_of v_RATE_LIMIT_REGISTER,
            issues_of v_RATE_LIMIT_FORGOT_PASSWORD, issues_of v_RATE_LIMIT_TOKEN,
            issues_of v_RATE_LIMIT_AUTHORIZE, issues_of v_RATE_LIMIT_API,
            issues_of v_RISK_FAILED_LOGINS_THRESHOLD, issues_of v_RISK_LOCKOUT_MINUTES,
            issues_of v_RISK_HIGH_SCORE_ACTION, issues_of v_MAX_FAILED_LOGINS, issues_of v_LOCKOUT_MINUTES,
            issues_of v_MFA_ISSUER, issues_of v_MFA_CHALLENGE_TTL, issues_of v_AUTH_SERVER_URL,
            issues_of v_RESOURCE_API_URL, issues_of v_RESOURCE_PORT, issues_of v_GATEWAY_SHARED_SECRET,
            issues_of v_PUBLIC_AUTH_BASE, issues_of v_PUBLIC_API_BASE, issues_of v_ADMIN_EMAIL,
            issues_of v_ADMIN_PASSWORD] in
      if issues \<noteq> [] then Inl issues
      else Inr \<lparr>
        JWT_ISSUER = value_of v_JWT_ISSUER,
        JWT_AUDIENCE = value_of v_JWT_AUDIENCE,
        ACCESS_TOKEN_TTL = value_of v_ACCESS_TOKEN_TTL,
        REFRESH_TOKEN_TTL = value_of v_REFRESH_TOKEN_TTL,
        AUTHORIZATION_CODE_TTL = value_of v_AUTHORIZATION_CODE_TTL,
        ID_TOKEN_TTL = value_of v_ID_TOKEN_TTL,
        SESSION_TTL = value_of v_SESSION_TTL,
        KMS_MASTER_KEY = value_of v_KMS_MASTER_KEY,
        IS_PRODUCTION = (value_of v_NODE_ENV = ''production''),
        PASSWORD_MIN_LENGTH = value_of v_PASSWORD_MIN_LENGTH,
        EMAIL_VERIFICATION_TTL = value_of v_EMAIL_VERIFICATION_TTL,
        PASSWORD_RESET_TTL = value_of v_PASSWORD_RESET_TTL,
        RATE_LIMIT_WINDOW = value_of v_RATE_LIMIT_WINDOW,
        RATE_LIMIT_LOGIN = value_of v_RATE_LIMIT_LOGIN,
        RATE_LIMIT_REGISTER = value_of v_RATE_LIMIT_REGISTER,
        RATE_LIMIT_FORGOT_PASSWORD = value_of v_RATE_LIMIT_FORGOT_PASSWORD,
        RATE_LIMIT_TOKEN = value_of v_RATE_LIMIT_TOKEN,
        RATE_LIMIT_AUTHORIZE = value_of v_RATE_LIMIT_AUTHORIZE,
        RATE_LIMIT_API = value_of v_RATE_LIMIT_API,
        RISK_FAILED_LOGINS_THRESHOLD = value_of v_RISK_FAILED_LOGINS_THRESHOLD,
        RISK_HIGH_SCORE_ACTION = value_of v_RISK_HIGH_SCORE_ACTION,
        MAX_FAILED_LOGINS = value_of v_MAX_FAILED_LOGINS,
        LOCKOUT_MINUTES = value_of v_LOCKOUT_MINUTES,
        MFA_ISSUER = value_of v_MFA_ISSUER,
        MFA_CHALLENGE_TTL = value_of v_MFA_CHALLENGE_TTL,
        GATEWAY_SHARED_SECRET = value_of v_GATEWAY_SHARED_SECRET,
        NODE_ENV = value_of v_NODE_ENV,
        PORT = value_of v_PORT,
        GATEWAY_PORT = value_of v_GATEWAY_PORT,
        FRONTEND_PORT = value_of v_FRONTEND_PORT,
        LOG_LEVEL = value_of v_LOG_LEVEL,
        DATABASE_URL = value_of v_DATABASE_URL,
        DATABASE_POOL_MAX = value_of v_DATABASE_POOL_MAX,
        REDIS_URL = value_of v_REDIS_URL,
        KMS_PROVIDER = value_of v_KMS_PROVIDER,
        KMS_KEY_DIR = value_of v_KMS_KEY_DIR,
        BCRYPT_ROUNDS = value_of v_BCRYPT_ROUNDS,
        EMAIL_PROVIDER = value_of v_EMAIL_PROVIDER,
        SMTP_HOST = value_of v_SMTP_HOST,
        SMTP_PORT = value_of v_SMTP_PORT,
        SMTP_USER = value_of v_SMTP_USER,
        SMTP_PASSWORD = value_of v_SMTP_PASSWORD,
        SMTP_FROM = value_of v_SMTP_FROM,
        EMAIL_SECURE = value_of v_EMAIL_SECURE,
        CORS_ORIGINS = value_of v_CORS_ORIGINS,
        TRUST_PROXY = value_of v_TRUST_PROXY,
        COOKIE_DOMAIN = value_of v_COOKIE_DOMAIN,
        RISK_LOCKOUT_MINUTES = value_of v_RISK_LOCKOUT_MINUTES,
        AUTH_SERVER_URL = value_of v_AUTH_SERVER_URL,
        RESOURCE_API_URL = value_of v_RESOURCE_API_URL,
        RESOURCE_PORT = value_of v_RESOURCE_PORT,
        PUBLIC_AUTH_BASE = value_of v_PUBLIC_AUTH_BASE,
        PUBLIC_API_BASE = value_of v_PUBLIC_API_BASE,
        ADMIN_EMAIL = value_of v_ADMIN_EMAIL,
        ADMIN_PASSWORD = value_of v_ADMIN_PASSWORD,
        corsOriginsList = corsOrigins (value_of v_CORS_ORIGINS),
        isTest = (value_of v_NODE_ENV = ''test'')\<rparr>)"

section \<open>loadConfig\<close>

text \<open>The first successful call is cached; a failure lists every issue.\<close>

definition config_error :: "zod \<Rightarrow> zod_issue list \<Rightarrow> exn" where
  "config_error z is = JsError (''Invalid environment configuration:'' @ [CHR 0x0A]
     @ join_with [CHR 0x0A] (map (\<lambda>i. ''  - '' @ join_with ''.'' (issue_path i) @ '': '' @ message_of z i) is))"

definition loadConfig :: "zod \<Rightarrow> (string \<times> string) list \<Rightarrow> (app_config option, exn, app_config) action" where
  "loadConfig z env cached = (case cached of
      Some c \<Rightarrow> (Inr c, cached)
    | None \<Rightarrow> (case envSchema z env of
          Inl is \<Rightarrow> (Inl (config_error z is), None)
        | Inr c \<Rightarrow> (Inr c, Some c)))"

definition resetConfigCache :: "(app_config option, exn, unit) action" where
  "resetConfigCache cached = (Inr (), None)"

section \<open>Properties\<close>

lemma map_of_env: "map_of (map (\<lambda>(k, v). (k, JStr v)) env) name = map_option JStr (map_of env name)"
  by (induction env) auto

lemma set_int_value:
  "(map_of env name = None \<or> map_of env name = Some [] \<Longrightarrow>
      projr (set_int (map (\<lambda>(k, v). (k, JStr v)) env) name d) = d)"
  "(map_of env name = Some (int_string n) \<Longrightarrow>
      projr (set_int (map (\<lambda>(k, v). (k, JStr v)) env) name d) = n)"
proof -
  have "int_string n \<noteq> []"
    by (simp add: int_string_def)
  then show "map_of env name = Some (int_string n) \<Longrightarrow>
      projr (set_int (map (\<lambda>(k, v). (k, JStr v)) env) name d) = n"
    by (simp add: set_int_def z_field_def under_def env_int_def map_of_env js_Number_int)
qed (auto simp: set_int_def z_field_def under_def env_int_def map_of_env)

text \<open>What a numeric setting has to be: the number that was written, or the default when nothing was.\<close>

definition int_setting :: "(string \<times> string) list \<Rightarrow> string \<Rightarrow> int \<Rightarrow> int \<Rightarrow> bool" where
  "int_setting env name d v \<longleftrightarrow>
     (\<forall>n. map_of env name = Some (int_string n) \<longrightarrow> v = n) \<and> (map_of env name = None \<or> map_of env name = Some [] \<longrightarrow> v = d)"

lemma int_setting_value: "int_setting env name d (projr (set_int (map (\<lambda>(k, v). (k, JStr v)) env) name d))"
  unfolding int_setting_def using set_int_value by blast

lemma loadConfig_fresh:
  assumes "loadConfig z env None = (Inr c, cached)"
  shows "envSchema z env = Inr c" and "cached = Some c"
  using assms by (auto simp: loadConfig_def split: sum.splits)

lemma if_Inr: "(if b then Inl x else Inr y) = Inr c \<Longrightarrow> c = y"
  by (simp split: if_splits)

lemma envSchema_ints:
  assumes "envSchema z env = Inr c"
  shows "ACCESS_TOKEN_TTL c = projr (set_int (map (\<lambda>(k, v). (k, JStr v)) env) ''ACCESS_TOKEN_TTL'' 900)"
    and "REFRESH_TOKEN_TTL c = projr (set_int (map (\<lambda>(k, v). (k, JStr v)) env) ''REFRESH_TOKEN_TTL'' 1209600)"
    and "SESSION_TTL c = projr (set_int (map (\<lambda>(k, v). (k, JStr v)) env) ''SESSION_TTL'' 2592000)"
    and "RATE_LIMIT_WINDOW c = projr (set_int (map (\<lambda>(k, v). (k, JStr v)) env) ''RATE_LIMIT_WINDOW'' 60)"
    and "RATE_LIMIT_LOGIN c = projr (set_int (map (\<lambda>(k, v). (k, JStr v)) env) ''RATE_LIMIT_LOGIN'' 5)"
    and "MAX_FAILED_LOGINS c = projr (set_int (map (\<lambda>(k, v). (k, JStr v)) env) ''MAX_FAILED_LOGINS'' 5)"
    and "LOCKOUT_MINUTES c = projr (set_int (map (\<lambda>(k, v). (k, JStr v)) env) ''LOCKOUT_MINUTES'' 15)"
    and "PASSWORD_MIN_LENGTH c = projr (set_int (map (\<lambda>(k, v). (k, JStr v)) env) ''PASSWORD_MIN_LENGTH'' 12)"
  unfolding if_Inr [OF assms [unfolded envSchema_def Let_def]] config.select_convs by (rule refl)+

text \<open>
  The settings that guard the accounts are what the operator wrote. After a successful start every
  one of them is the number that was written in its variable, or its default when the variable is unset
  or empty, and later calls return the same configuration whatever the environment has become.
\<close>

theorem config_settings:
  assumes "loadConfig z env None = (Inr c, cached)"
  shows "int_setting env ''ACCESS_TOKEN_TTL'' 900 (ACCESS_TOKEN_TTL c)
    \<and> int_setting env ''REFRESH_TOKEN_TTL'' 1209600 (REFRESH_TOKEN_TTL c)
    \<and> int_setting env ''SESSION_TTL'' 2592000 (SESSION_TTL c)
    \<and> int_setting env ''RATE_LIMIT_WINDOW'' 60 (RATE_LIMIT_WINDOW c)
    \<and> int_setting env ''RATE_LIMIT_LOGIN'' 5 (RATE_LIMIT_LOGIN c)
    \<and> int_setting env ''MAX_FAILED_LOGINS'' 5 (MAX_FAILED_LOGINS c)
    \<and> int_setting env ''LOCKOUT_MINUTES'' 15 (LOCKOUT_MINUTES c)
    \<and> int_setting env ''PASSWORD_MIN_LENGTH'' 12 (PASSWORD_MIN_LENGTH c)
    \<and> loadConfig z env' cached = (Inr c, cached)"
  by (simp add: envSchema_ints [OF loadConfig_fresh(1) [OF assms]] int_setting_value loadConfig_fresh(2) [OF assms] loadConfig_def)

text \<open>An environment with the two required variables and one setting.\<close>

definition sample_process_env :: "(string \<times> string) list" where
  "sample_process_env = [(''DATABASE_URL'', ''postgres://db''), (''REDIS_URL'', ''redis://cache''), (''RATE_LIMIT_LOGIN'', ''7'')]"

theorem config_settings_witness:
  "\<exists>c cached. loadConfig sample_zod sample_process_env None = (Inr c, cached)
     \<and> RATE_LIMIT_LOGIN c = 7 \<and> MAX_FAILED_LOGINS c = 5 \<and> loadConfig sample_zod [] cached = (Inr c, cached)"
proof -
  have "case loadConfig sample_zod sample_process_env None of (Inr _, _) \<Rightarrow> True | _ \<Rightarrow> False"
    by code_simp
  then obtain c cached where run: "loadConfig sample_zod sample_process_env None = (Inr c, cached)"
    by (auto split: prod.splits sum.splits)
  have "map_of sample_process_env ''RATE_LIMIT_LOGIN'' = Some (int_string 7)"
    and "map_of sample_process_env ''MAX_FAILED_LOGINS'' = None"
    by code_simp+
  with config_settings [OF run, of "[]"] run show ?thesis
    unfolding int_setting_def by blast
qed

end
