(* ===== verification/Spa.thy ===== *)
theory Spa
  imports App
begin

text \<open>
  The browser application: the token store (\<^verbatim>\<open>src/apps/frontend/client/tokens.ts\<close>), the API client with
  its refresh on 401 (\<^verbatim>\<open>src/apps/frontend/client/api.ts\<close>), the hash router
  (\<^verbatim>\<open>src/apps/frontend/client/router.ts\<close>, \<^verbatim>\<open>src/apps/frontend/client/main.ts\<close>) and what the views do
  (\<^verbatim>\<open>src/apps/frontend/client/views\<close>) apart from drawing. The network is a parameter, a function
  from requests to responses over its own state; it is the servers of the model in the properties.
\<close>

section \<open>The browser\<close>

text \<open>The two entries of the local storage, the fragment of the location, and what the browser adds to a request.\<close>

record browser =
  b_access :: "string option"
  b_refresh :: "string option"
  b_hash :: string
  b_ip :: "string option"
  b_headers :: headers

definition setTokens :: "string \<Rightarrow> string \<Rightarrow> browser \<Rightarrow> browser" where
  "setTokens accessToken refreshToken b = b\<lparr>b_access := Some accessToken, b_refresh := Some refreshToken\<rparr>"

definition clearTokens :: "browser \<Rightarrow> browser" where
  "clearTokens b = b\<lparr>b_access := None, b_refresh := None\<rparr>"

definition hasAccessToken :: "browser \<Rightarrow> bool" where
  "hasAccessToken b \<longleftrightarrow> b_access b \<noteq> None"

section \<open>The API client\<close>

datatype api = Auth_api | Gateway_api

record request_options =
  op_path :: string
  op_api :: api
  op_method :: string
  op_body :: "jval option"
  op_bearer :: bool
  op_allowRefresh :: bool

text \<open>An \<open>ApiError\<close> has the status and what the body says.\<close>

type_synonym api_result = "(int \<times> jval) + jval"

type_synonym 'w net = "api \<Rightarrow> http_request \<Rightarrow> 'w \<Rightarrow> http_response \<times> 'w"

definition client_request :: "browser \<Rightarrow> string \<Rightarrow> string \<Rightarrow> string option \<Rightarrow> jval option \<Rightarrow> http_request" where
  "client_request b m path token body =
     \<lparr>hq_method = m, hq_path = path, hq_query = [],
      hq_headers = (case token of Some t \<Rightarrow> [(''authorization'', ''Bearer '' @ t)] | None \<Rightarrow> []) @ b_headers b,
      hq_ip = b_ip b, hq_body = (case body of Some v \<Rightarrow> Parsed v | None \<Rightarrow> No_body)\<rparr>"

text \<open>
  One call of \<open>apiRequest\<close> as a thread. JavaScript runs the code between two awaits without a break; the
  states of the thread are the points where it waits: for the server to work on its request, for the
  response to be handled, and the same for the request of \<open>tryRefresh\<close>.
\<close>

datatype thread =
    Ready request_options
  | Sent request_options http_request
  | Received request_options http_response
  | Refresh_sent request_options http_response http_request
  | Refresh_received request_options http_response http_response
  | Finished api_result

definition ok_status :: "http_response \<Rightarrow> bool" where
  "ok_status res \<longleftrightarrow> 200 \<le> hr_status res \<and> hr_status res < 300"

definition send_request :: "request_options \<Rightarrow> browser \<Rightarrow> thread" where
  "send_request opts b = Sent opts (client_request b (op_method opts) (op_path opts)
     (if op_bearer opts then (case b_access b of Some t \<Rightarrow> if t = [] then None else Some t | None \<Rightarrow> None) else None) (op_body opts))"

definition refresh_call :: "browser \<Rightarrow> string \<Rightarrow> http_request" where
  "refresh_call b token = client_request b ''POST'' ''/auth/refresh'' None (Some (JObj [(''refresh_token'', JStr token)]))"

text \<open>\<open>throw new ApiError(status, body)\<close>, and the value of a good response.\<close>

definition settle :: "http_response \<Rightarrow> thread" where
  "settle res = Finished (if ok_status res then Inr (hr_body res) else Inl (hr_status res, hr_body res))"

definition json_text :: "string \<Rightarrow> jval \<Rightarrow> string" where
  "json_text name v = (case v of
      JObj fs \<Rightarrow> (case map_of fs name of Some (JStr x) \<Rightarrow> x | _ \<Rightarrow> ''undefined'')
    | _ \<Rightarrow> ''undefined'')"

fun advance :: "'w net \<Rightarrow> thread \<Rightarrow> browser \<times> 'w \<Rightarrow> thread \<times> (browser \<times> 'w)" where
  "advance net (Ready opts) (b, w) = (send_request opts b, (b, w))"
| "advance net (Sent opts rq) (b, w) = (case net (op_api opts) rq w of (res, w') \<Rightarrow> (Received opts res, (b, w')))"
| "advance net (Received opts res) (b, w) =
     (if hr_status res = 401 \<and> op_allowRefresh opts then
        (if truthy (b_refresh b) then (Refresh_sent opts res (refresh_call b (the (b_refresh b))), (b, w))
         else (Finished (Inl (401, hr_body res)), (clearTokens b, w)))
      else (settle res, (b, w)))"
| "advance net (Refresh_sent opts res rq) (b, w) = (case net Auth_api rq w of (res', w') \<Rightarrow> (Refresh_received opts res res', (b, w')))"
| "advance net (Refresh_received opts res res') (b, w) =
     (if ok_status res' \<and> hr_body res' \<noteq> JNull then
        (let b' = setTokens (json_text ''access_token'' (hr_body res')) (json_text ''refresh_token'' (hr_body res')) b in
         (send_request (opts\<lparr>op_allowRefresh := False\<rparr>) b', (b', w)))
      else (Finished (Inl (401, hr_body res)), (clearTokens b, w)))"
| "advance net (Finished r) st = (Finished r, st)"

fun advances :: "'w net \<Rightarrow> nat \<Rightarrow> thread \<Rightarrow> browser \<times> 'w \<Rightarrow> thread \<times> (browser \<times> 'w)" where
  "advances net 0 t st = (t, st)"
| "advances net (Suc n) t st = (case advance net t st of (t', st') \<Rightarrow> advances net n t' st')"

text \<open>A call on its own: seven steps are enough, as shown below.\<close>

definition apiRequest :: "'w net \<Rightarrow> request_options \<Rightarrow> browser \<times> 'w \<Rightarrow> api_result \<times> (browser \<times> 'w)" where
  "apiRequest net opts st = (case advances net 7 (Ready opts) st of
      (Finished r, st') \<Rightarrow> (r, st')
    | (_, st') \<Rightarrow> (Inl (0, JNull), st'))"

text \<open>Several calls at a time: the schedule says which thread makes the next step.\<close>

fun interleave :: "'w net \<Rightarrow> nat list \<Rightarrow> thread list \<Rightarrow> browser \<times> 'w \<Rightarrow> thread list \<times> (browser \<times> 'w)" where
  "interleave net [] ts st = (ts, st)"
| "interleave net (i # is) ts st =
     (if i < length ts then (case advance net (ts ! i) st of (t', st') \<Rightarrow> interleave net is (ts[i := t']) st')
      else interleave net is ts st)"

section \<open>The calls of the views\<close>

definition auth_post :: "string \<Rightarrow> (string \<times> jval) list \<Rightarrow> bool \<Rightarrow> request_options" where
  "auth_post path body withBearer = \<lparr>op_path = path, op_api = Auth_api, op_method = ''POST'', op_body = Some (JObj body),
     op_bearer = withBearer, op_allowRefresh = True\<rparr>"

text \<open>A property that is \<open>undefined\<close> is left out of the JSON text.\<close>

definition jdefined :: "(string \<times> string option) list \<Rightarrow> (string \<times> jval) list" where
  "jdefined fs = concat (map (\<lambda>(k, v). case v of Some x \<Rightarrow> [(k, JStr x)] | None \<Rightarrow> []) fs)"

definition api_login :: "string option \<Rightarrow> string option \<Rightarrow> request_options" where
  "api_login email password = auth_post ''/auth/login'' (jdefined [(''email'', email), (''password'', password)]) False"

definition api_verifyMfa :: "string \<Rightarrow> string \<Rightarrow> request_options" where
  "api_verifyMfa challengeId code = auth_post ''/mfa/verify'' [(''mfa_challenge_id'', JStr challengeId), (''code'', JStr code)] False"

definition api_register :: "(string \<times> string option) list \<Rightarrow> request_options" where
  "api_register payload = auth_post ''/auth/register'' (jdefined payload) False"

definition api_forgotPassword :: "string option \<Rightarrow> request_options" where
  "api_forgotPassword email = auth_post ''/auth/forgot-password'' (jdefined [(''email'', email)]) False"

definition api_resetPassword :: "string option \<Rightarrow> string option \<Rightarrow> request_options" where
  "api_resetPassword token password =
     auth_post ''/auth/reset-password'' (jdefined [(''token'', token), (''password'', password)]) False"

definition api_logout :: "string \<Rightarrow> request_options" where
  "api_logout refreshToken = auth_post ''/auth/logout'' [(''refresh_token'', JStr refreshToken)] True"

definition api_fetchMe :: request_options where
  "api_fetchMe = \<lparr>op_path = ''/auth/me'', op_api = Auth_api, op_method = ''GET'', op_body = None, op_bearer = True, op_allowRefresh = True\<rparr>"

definition api_fetchGatewayIdentity :: request_options where
  "api_fetchGatewayIdentity =
     \<lparr>op_path = ''/api/v1/me'', op_api = Gateway_api, op_method = ''GET'', op_body = None, op_bearer = True, op_allowRefresh = True\<rparr>"

definition api_enrollTotp :: request_options where
  "api_enrollTotp = auth_post ''/mfa/enroll'' [] True"

definition api_confirmTotp :: "string \<Rightarrow> request_options" where
  "api_confirmTotp code = (auth_post ''/mfa/verify'' [(''code'', JStr code)] True)\<lparr>op_allowRefresh := False\<rparr>"

definition api_disableTotp :: "string \<Rightarrow> request_options" where
  "api_disableTotp code = (auth_post ''/mfa/disable'' [(''code'', JStr code)] True)\<lparr>op_allowRefresh := False\<rparr>"

section \<open>Addresses in the fragment\<close>

text \<open>
  \<open>encodeURIComponent\<close> on the characters below 256: letters, digits and a few marks stay, every other
  character becomes the escapes of its UTF-8 bytes.
\<close>

definition hex_char :: "nat \<Rightarrow> char" where
  "hex_char n = char_of (if n < 10 then 48 + n else 55 + n)"

definition escape_byte :: "nat \<Rightarrow> string" where
  "escape_byte n = [CHR ''%'', hex_char (n div 16), hex_char (n mod 16)]"

definition unreserved :: "char \<Rightarrow> bool" where
  "unreserved c \<longleftrightarrow> js_lower_letter c \<or> js_upper_letter c \<or> js_digit c \<or> c \<in> set ''-_.!~*()'' \<or> c = CHR 0x27"

definition encode_char :: "(char \<Rightarrow> bool) \<Rightarrow> char \<Rightarrow> string" where
  "encode_char keep c = (let n = (of_char c :: nat) in
     if keep c then [c]
     else if n < 128 then escape_byte n
     else escape_byte (192 + n div 64) @ escape_byte (128 + n mod 64))"

definition encodeURIComponent :: "string \<Rightarrow> string" where
  "encodeURIComponent x = concat (map (encode_char unreserved) x)"

text \<open>A value in the text of \<open>URLSearchParams\<close>.\<close>

definition form_encode :: "string \<Rightarrow> string" where
  "form_encode x = concat (map (\<lambda>c. if c = CHR '' '' then ''+''
     else encode_char (\<lambda>c. js_word c \<or> c \<in> set ''*-.'') c) x)"

section \<open>The router\<close>

definition routes :: "string list" where
  "routes = [''/login'', ''/register'', ''/mfa'', ''/reset'', ''/account'']"

definition defaultRoute :: string where
  "defaultRoute = ''/login''"

definition drop_slashes :: "string \<Rightarrow> string" where
  "drop_slashes = dropWhile (\<lambda>c. c = CHR ''/'')"

text \<open>The fragment without the number sign, its path and its query text.\<close>

definition router_parse :: "string \<Rightarrow> string \<times> string" where
  "router_parse hash =
     (let rest = drop_slashes hash; shown = (if rest = [] then defaultRoute else rest);
          parts = split_at (\<lambda>c. c = CHR ''?'') shown;
          path = rev (drop_slashes (rev (hd parts))) in
      (CHR ''/'' # path, (if length parts > 1 then parts ! 1 else [])))"

definition query_param :: "string \<Rightarrow> string \<Rightarrow> string option" where
  "query_param name q = map_of (form_pairs q) name"

text \<open>
  What \<open>render\<close> does: shows a view, or sets the fragment, which renders again. The account view leads a
  visitor without a token back to the login.
\<close>

datatype rendering = Show string | Redirect string

definition render :: "browser \<Rightarrow> rendering" where
  "render b =
     (let path = fst (router_parse (b_hash b)) in
      if path \<notin> set routes then Redirect defaultRoute
      else if path \<in> {''/login'', ''/register''} \<and> hasAccessToken b then Redirect ''/account''
      else if path = ''/account'' \<and> \<not> hasAccessToken b then Redirect ''/login''
      else Show path)"

definition navigate :: "string \<Rightarrow> browser \<Rightarrow> browser" where
  "navigate path b = b\<lparr>b_hash := path\<rparr>"

fun renders :: "nat \<Rightarrow> browser \<Rightarrow> browser \<times> string option" where
  "renders 0 b = (b, None)"
| "renders (Suc n) b = (case render b of Show v \<Rightarrow> (b, Some v) | Redirect h \<Rightarrow> renders n (navigate h b))"

text \<open>\<open>main.ts\<close>: a visitor with a token starts on the dashboard.\<close>

definition boot :: "browser \<Rightarrow> browser" where
  "boot b = (if hasAccessToken b \<and> (b_hash b = [] \<or> b_hash b = ''/login'') then navigate ''/account'' b else b)"

section \<open>The views\<close>

text \<open>\<open>formData\<close>: the fields that are not empty.\<close>

definition field :: "string \<Rightarrow> string option" where
  "field x = (if x = [] then None else Some x)"

text \<open>\<open>/^[^\<backslash>s@]+@[^\<backslash>s@]+\<backslash>.[^\<backslash>s@]+$/\<close>.\<close>

definition email_pattern :: "string \<Rightarrow> bool" where
  "email_pattern x \<longleftrightarrow>
     (case split_at (\<lambda>c. c = CHR ''@'') x of
        [name, host] \<Rightarrow> name \<noteq> [] \<and> list_all (\<lambda>c. \<not> js_ws c) x
          \<and> list_ex (\<lambda>i. 0 < i \<and> Suc i < length host \<and> host ! i = CHR ''.'') [0..<length host]
      | _ \<Rightarrow> False)"

definition email_refused :: "string \<Rightarrow> bool" where
  "email_refused email \<longleftrightarrow> email \<noteq> [] \<and> \<not> email_pattern email"

definition scorePassword :: "string \<Rightarrow> nat" where
  "scorePassword x = min 4
     ((if 12 \<le> length x then 1 else 0) + (if 16 \<le> length x then 1 else 0)
      + (if list_ex js_lower_letter x \<and> list_ex js_upper_letter x then 1 else 0)
      + (if list_ex js_digit x then 1 else 0)
      + (if list_ex (\<lambda>c. \<not> js_lower_letter c \<and> \<not> js_upper_letter c \<and> \<not> js_digit c) x then 1 else 0))"

text \<open>What becomes of a submitted form: an error at a field, an error message, an exception nobody handles, or a way on.\<close>

datatype outcome = Field_error string | Toast_error api_result | Uncaught | Done

text \<open>Tokens of a response are stored, and the dashboard is shown.\<close>

definition sign_in :: "jval \<Rightarrow> browser \<Rightarrow> browser" where
  "sign_in res b = navigate ''/account'' (setTokens (json_text ''access_token'' res) (json_text ''refresh_token'' res) b)"

definition mfa_wanted :: "jval \<Rightarrow> bool" where
  "mfa_wanted res \<longleftrightarrow> (case res of
      JObj fs \<Rightarrow> map_of fs ''mfa_required'' = Some (JBool True)
        \<and> (case map_of fs ''mfa_challenge_id'' of Some (JStr c) \<Rightarrow> c \<noteq> [] | _ \<Rightarrow> False)
    | _ \<Rightarrow> False)"

definition login_submit :: "'w net \<Rightarrow> string \<Rightarrow> string \<Rightarrow> browser \<times> 'w \<Rightarrow> outcome \<times> (browser \<times> 'w)" where
  "login_submit net email password st =
     (if email_refused email then (Field_error ''Enter a valid email address'', st)
      else (case apiRequest net (api_login (field email) (field password)) st of
          (Inl e, st') \<Rightarrow> (Toast_error (Inl e), st')
        | (Inr res, (b, w)) \<Rightarrow>
            if mfa_wanted res
            then (Done, (navigate (''/mfa?challenge='' @ encodeURIComponent (json_text ''mfa_challenge_id'' res)) b, w))
            else (Done, (sign_in res b, w))))"

text \<open>
  The six boxes of the code hold one digit or nothing. Typing keeps the first digit of what a box holds,
  pasting spreads the first six digits; the form is submitted when the last box is filled and, for
  typing, all the others are.
\<close>

definition digits_of :: "string \<Rightarrow> string" where
  "digits_of x = filter js_digit x"

definition otp_input :: "nat \<Rightarrow> string \<Rightarrow> string list \<Rightarrow> string list \<times> bool" where
  "otp_input i x boxes =
     (let boxes' = boxes[i := take 1 (digits_of x)] in
      (boxes', i = length boxes - 1 \<and> boxes' ! i \<noteq> [] \<and> list_all (\<lambda>b. b \<noteq> []) boxes'))"

definition otp_paste :: "string \<Rightarrow> string list \<Rightarrow> string list \<times> bool" where
  "otp_paste x boxes =
     (let ds = take 6 (digits_of x); n = length boxes in
      (map (\<lambda>i. if i < length ds then [ds ! i] else boxes ! i) [0..<n], 0 < n \<and> n \<le> length ds))"

definition mfa_submit :: "'w net \<Rightarrow> string \<Rightarrow> browser \<times> 'w \<Rightarrow> outcome \<times> (browser \<times> 'w)" where
  "mfa_submit net code st =
     (let challenge = (case query_param ''challenge'' (snd (router_parse (b_hash (fst st)))) of Some c \<Rightarrow> c | None \<Rightarrow> []) in
      if length code \<noteq> 6 then (Done, st)
      else (case apiRequest net (api_verifyMfa challenge code) st of
          (Inl e, st') \<Rightarrow> (Toast_error (Inl e), st')
        | (Inr res, (b, w)) \<Rightarrow> (Done, (sign_in res b, w))))"

text \<open>An empty field has no entry in the form data, and \<open>scorePassword(undefined)\<close> throws.\<close>

definition register_submit :: "'w net \<Rightarrow> string \<Rightarrow> string \<Rightarrow> string \<Rightarrow> string \<Rightarrow> browser \<times> 'w \<Rightarrow> outcome \<times> (browser \<times> 'w)" where
  "register_submit net email password given family st =
     (if email_refused email then (Field_error ''Enter a valid email address'', st)
      else if password = [] then (Uncaught, st)
      else if scorePassword password < 2
      then (Field_error ''Password must be at least 12 characters with upper, lower and digits.'', st)
      else (case apiRequest net (api_register [(''email'', field email), (''password'', field password),
                 (''first_name'', field given), (''last_name'', field family)]) st of
          (Inl e, st') \<Rightarrow> (Toast_error (Inl e), st')
        | (Inr _, (b, w)) \<Rightarrow> (Done, (navigate ''/login'' b, w))))"

text \<open>After the request of a reset code the view leads to a fragment with an empty token.\<close>

definition forgot_submit :: "'w net \<Rightarrow> string \<Rightarrow> browser \<times> 'w \<Rightarrow> outcome \<times> (browser \<times> 'w)" where
  "forgot_submit net email st =
     (if email_refused email then (Field_error ''Enter a valid email address'', st)
      else (case apiRequest net (api_forgotPassword (field email)) st of
          (Inl e, st') \<Rightarrow> (Toast_error (Inl e), st')
        | (Inr _, (b, w)) \<Rightarrow> (Done, (navigate (''/reset?token=&email='' @ form_encode (if email = [] then ''undefined'' else email)) b, w))))"

text \<open>The reset view asks for a new password only when the fragment carries a token.\<close>

definition reset_stage :: "browser \<Rightarrow> string option" where
  "reset_stage b = (case query_param ''token'' (snd (router_parse (b_hash b))) of
      Some t \<Rightarrow> if t = [] then None else Some t
    | None \<Rightarrow> None)"

definition reset_submit :: "'w net \<Rightarrow> string \<Rightarrow> string \<Rightarrow> browser \<times> 'w \<Rightarrow> outcome \<times> (browser \<times> 'w)" where
  "reset_submit net token password st =
     (case apiRequest net (api_resetPassword (field token) (field password)) st of
          (Inl e, st') \<Rightarrow> (Toast_error (Inl e), st')
        | (Inr _, (b, w)) \<Rightarrow> (Done, (navigate ''/login'' b, w)))"

text \<open>Signing out clears the tokens whatever the server says.\<close>

definition doLogout :: "'w net \<Rightarrow> browser \<times> 'w \<Rightarrow> browser \<times> 'w" where
  "doLogout net st =
     (let (b, w) = (if truthy (b_refresh (fst st)) then snd (apiRequest net (api_logout (the (b_refresh (fst st)))) st) else st) in
      (navigate ''/login'' (clearTokens b), w))"

text \<open>The second factor on the dashboard: after a change the dashboard is loaded again.\<close>

definition account_change :: "'w net \<Rightarrow> request_options \<Rightarrow> browser \<times> 'w \<Rightarrow> outcome \<times> (browser \<times> 'w)" where
  "account_change net opts st = (case apiRequest net opts st of
      (Inl e, st') \<Rightarrow> (Toast_error (Inl e), st')
    | (Inr _, st') \<Rightarrow> (Done, st'))"

definition disable_submit :: "'w net \<Rightarrow> string \<Rightarrow> browser \<times> 'w \<Rightarrow> outcome \<times> (browser \<times> 'w)" where
  "disable_submit net code = account_change net (api_disableTotp (js_trim code))"

definition enroll_click :: "'w net \<Rightarrow> browser \<times> 'w \<Rightarrow> outcome \<times> (browser \<times> 'w)" where
  "enroll_click net = account_change net api_enrollTotp"

definition confirm_submit :: "'w net \<Rightarrow> string \<Rightarrow> browser \<times> 'w \<Rightarrow> outcome \<times> (browser \<times> 'w)" where
  "confirm_submit net code = account_change net (api_confirmTotp (js_trim code))"

text \<open>The account view loads the profile and the identity at the gateway at the same time.\<close>

definition account_threads :: "thread list" where
  "account_threads = [Ready api_fetchMe, Ready api_fetchGatewayIdentity]"

text \<open>\<open>Promise.all\<close> has failed as soon as one call has: the view clears the tokens and leads to the login.\<close>

definition account_loaded :: "thread list \<Rightarrow> browser \<Rightarrow> browser" where
  "account_loaded ts b =
     (if list_ex (\<lambda>t. case t of Finished (Inl _) \<Rightarrow> True | _ \<Rightarrow> False) ts then navigate ''/login'' (clearTokens b) else b)"

end
