(* ===== verification/Spa_Url.thy ===== *)
theory Spa_Url
  imports Spa
begin

text \<open>
  Values in addresses: what \<^verbatim>\<open>encodeURIComponent\<close> writes is what \<^verbatim>\<open>decodeURIComponent\<close> and
  \<^verbatim>\<open>URLSearchParams\<close> read, so the identifier of a challenge survives its way through the fragment.
\<close>

section \<open>Escapes\<close>

lemma unreserved_plain: "unreserved c \<Longrightarrow> c \<notin> set ''%+&=?/#''"
  by (auto simp: unreserved_def js_lower_letter_def js_upper_letter_def js_digit_def)

lemma unreserved_not [simp]: "\<not> unreserved CHR ''%''" "\<not> unreserved CHR ''+''"
  using unreserved_plain by force+

lemma hex_digits:
  assumes "n < 16"
  shows "hex_value (hex_char n) = Some n" and "unreserved (hex_char n)"
  using assms
  by (auto simp: hex_value_def hex_char_def unreserved_def js_digit_def js_upper_letter_def Let_def of_char_of)

lemma quarters: "128 \<le> n \<Longrightarrow> n < 256 \<Longrightarrow> n div 64 = 2 \<or> n div 64 = 3" for n :: nat
  using div_le_mono [of 128 n 64] less_mult_imp_div_less [of n 4 64] by linarith

lemma hex_byte_escape: "n < 256 \<Longrightarrow> hex_byte (hex_char (n div 16)) (hex_char (n mod 16)) = Some n"
  by (simp add: hex_byte_def hex_digits)

lemma percent_bytes_escape:
  "n < 256 \<Longrightarrow> percent_bytes (escape_byte n @ rest) = map_option (Cons (Inl n)) (percent_bytes rest)"
  by (simp add: escape_byte_def hex_byte_escape)

lemma lenient_bytes_escape: "n < 256 \<Longrightarrow> lenient_bytes (escape_byte n @ rest) = Inl n # lenient_bytes rest"
  by (simp add: escape_byte_def hex_byte_escape)

lemma escape_byte_chars: "n < 256 \<Longrightarrow> c \<in> set (escape_byte n) \<Longrightarrow> c = CHR ''%'' \<or> unreserved c"
  by (auto simp: escape_byte_def hex_digits)

text \<open>The bytes of a character as the two decoders read them.\<close>

definition char_bytes :: "(char \<Rightarrow> bool) \<Rightarrow> char \<Rightarrow> (nat + char) list" where
  "char_bytes keep c = (let n = (of_char c :: nat) in
     if keep c then [Inr c] else if n < 128 then [Inl n] else [Inl (192 + n div 64), Inl (128 + n mod 64)])"

lemma char_cases:
  obtains (kept) "keep c" "encode_char keep c = [c]" "char_bytes keep c = [Inr c]"
  | (one) n where "n < 128" "c = char_of n" "encode_char keep c = escape_byte n" "char_bytes keep c = [Inl n]"
  | (two) n m where "n = 194 \<or> n = 195" "128 \<le> m" "m < 192" "c = char_of (64 * (n - 192) + (m - 128))"
      "encode_char keep c = escape_byte n @ escape_byte m" "char_bytes keep c = [Inl n, Inl m]"
proof -
  let ?n = "of_char c :: nat"
  consider "keep c" | "\<not> keep c" "?n < 128" | "\<not> keep c" "\<not> ?n < 128" by blast
  then show ?thesis
  proof cases
    case 3
    define a where "a = 192 + ?n div 64"
    define b where "b = 128 + ?n mod 64"
    have "?n < 256" by (rule nat_of_char_less_256)
    then have a: "a = 194 \<or> a = 195" using quarters [of ?n] 3(2) by (auto simp: a_def)
    have b: "128 \<le> b" "b < 192" by (simp_all add: b_def)
    have "64 * (a - 192) + (b - 128) = ?n" by (simp add: a_def b_def)
    then have c: "c = char_of (64 * (a - 192) + (b - 128))" by simp
    show ?thesis
      by (rule two [OF a b c]) (use 3 in \<open>simp_all add: encode_char_def char_bytes_def Let_def a_def b_def\<close>)
  qed (use kept one [of ?n] in \<open>simp_all add: encode_char_def char_bytes_def Let_def\<close>)
qed

lemma percent_bytes_char:
  assumes "\<not> keep CHR ''%''" and "percent_bytes rest = Some y"
  shows "percent_bytes (encode_char keep c @ rest) = Some (char_bytes keep c @ y)"
  by (cases keep c rule: char_cases) (use assms in \<open>auto simp: percent_bytes_escape\<close>)

lemma lenient_bytes_char:
  assumes "\<not> keep CHR ''%''" and "\<not> keep CHR ''+''"
  shows "lenient_bytes (encode_char keep c @ rest) = char_bytes keep c @ lenient_bytes rest"
  by (cases keep c rule: char_cases) (use assms in \<open>auto simp: lenient_bytes_escape\<close>)

lemma utf8_low: "n < 128 \<Longrightarrow> utf8_chars (Inl n # rest) = map_option (Cons (char_of n)) (utf8_chars rest)"
proof (cases rest)
  case (Cons b bs)
  then show "n < 128 \<Longrightarrow> ?thesis" by (cases b) auto
qed simp

lemma utf8_char: "utf8_chars (char_bytes keep c @ rest) = map_option (Cons c) (utf8_chars rest)"
  by (cases keep c rule: char_cases) (auto simp: utf8_low)

lemma utf8_chars_of: "utf8_chars (concat (map (char_bytes keep) x)) = Some x"
  by (induction x) (simp_all add: utf8_char)

lemma encode_char_chars: "d \<in> set (encode_char keep c) \<Longrightarrow> keep d \<or> d = CHR ''%'' \<or> unreserved d"
  by (cases keep c rule: char_cases) (auto dest!: escape_byte_chars [rotated])

section \<open>Components of an address\<close>

lemma encodeURIComponent_simps [simp]:
  "encodeURIComponent [] = []" "encodeURIComponent (c # cs) = encode_char unreserved c @ encodeURIComponent cs"
  by (simp_all add: encodeURIComponent_def)

lemma decode_encode: "decodeURIComponent (encodeURIComponent x) = Some x"
proof -
  have "percent_bytes (encodeURIComponent x) = Some (concat (map (char_bytes unreserved) x))"
    by (induction x) (simp_all add: percent_bytes_char)
  then show ?thesis by (simp add: decodeURIComponent_def utf8_chars_of)
qed

lemma form_text_encode: "form_text (encodeURIComponent x) = x"
proof -
  have "lenient_bytes (encodeURIComponent x) = concat (map (char_bytes unreserved) x)"
    by (induction x) (simp_all add: lenient_bytes_char)
  then show ?thesis by (simp add: form_text_def utf8_chars_of)
qed

lemma encoded_chars: "\<forall>d \<in> set (encodeURIComponent x). d \<notin> set ''+&=?/#''"
  using unreserved_plain by (fastforce simp: encodeURIComponent_def dest!: encode_char_chars)

text \<open>What is written into the fragment is read back.\<close>

lemma challenge_encoded:
  "fst (router_parse (''/mfa?challenge='' @ encodeURIComponent x)) = ''/mfa''
   \<and> query_param ''challenge'' (snd (router_parse (''/mfa?challenge='' @ encodeURIComponent x))) = Some x
   \<and> decodeURIComponent (encodeURIComponent x) = Some x"
proof -
  let ?q = "''challenge='' @ encodeURIComponent x"
  have no: "\<forall>c \<in> set ?q. c \<noteq> CHR ''?''" "\<forall>c \<in> set ?q. c \<noteq> CHR ''&''"
    using encoded_chars [of x] by auto
  have "split_at (\<lambda>c. c = CHR ''?'') (''mfa'' @ CHR ''?'' # ?q) = [''mfa'', ?q]"
    using split_at_append_sep [of "''mfa''" "\<lambda>c. c = CHR ''?''" "CHR ''?''" ?q] split_at_no_sep [OF no(1)] by simp
  then have parse: "router_parse (''/mfa?challenge='' @ encodeURIComponent x) = (''/mfa'', ?q)"
    by (simp add: router_parse_def drop_slashes_def Let_def)
  have "form_pairs ?q = [(form_text ''challenge'', form_text (encodeURIComponent x))]"
    using no(2) by (simp add: form_pairs_def words_by_def split_at_no_sep)
  moreover have "form_text ''challenge'' = ''challenge''"
    by code_simp
  ultimately show ?thesis
    by (simp only: parse query_param_def form_text_encode decode_encode) simp
qed

lemma render_mfa:
  assumes "fst (router_parse (b_hash b)) = ''/mfa''"
  shows "snd (renders (Suc n) b) = Some ''/mfa''"
  using assms by (simp add: render_def routes_def)

text \<open>
  The second step of a login is about the challenge of the first. When the server asks for a second
  factor, the login stores no tokens and leads to the view of the code, and a code of six characters
  entered there is sent to the server with exactly the identifier that the server gave, whatever
  characters it has.
\<close>

theorem challenge_roundtrip:
  assumes "\<not> email_refused email" and "apiRequest net (api_login (field email) (field password)) st = (Inr res, (b, w))"
    and "mfa_wanted res" and "length code = 6"
  shows "\<exists>b'. login_submit net email password st = (Done, (b', w)) \<and> b_access b' = b_access b \<and> b_refresh b' = b_refresh b
     \<and> snd (renders 3 b') = Some ''/mfa''
     \<and> mfa_submit net code (b', w) = (case apiRequest net (api_verifyMfa (json_text ''mfa_challenge_id'' res) code) (b', w) of
          (Inl e, st') \<Rightarrow> (Toast_error (Inl e), st')
        | (Inr tokens, (b2, w2)) \<Rightarrow> (Done, (sign_in tokens b2, w2)))"
proof -
  let ?b = "navigate (''/mfa?challenge='' @ encodeURIComponent (json_text ''mfa_challenge_id'' res)) b"
  have "login_submit net email password st = (Done, (?b, w))"
    using assms by (simp add: login_submit_def)
  moreover have "snd (renders 3 ?b) = Some ''/mfa''"
    using render_mfa [of ?b 2] challenge_encoded [of "json_text ''mfa_challenge_id'' res"]
    by (simp add: navigate_def numeral_3_eq_3 numeral_2_eq_2)
  moreover have "query_param ''challenge'' (snd (router_parse (b_hash ?b))) = Some (json_text ''mfa_challenge_id'' res)"
    using challenge_encoded by (simp add: navigate_def)
  ultimately show ?thesis
    using assms(4) by (intro exI [of _ ?b]) (simp add: mfa_submit_def navigate_def)
qed

text \<open>A server that asks for the second factor and gives an identifier with reserved characters.\<close>

definition asking_net :: "nat net" where
  "asking_net a rq n = (\<lparr>hr_status = 200, hr_body =
     (if hq_path rq = ''/auth/login'' then JObj [(''mfa_required'', JBool True), (''mfa_challenge_id'', JStr ''a&b=c?'')]
      else JObj [(''access_token'', JStr ''A''), (''refresh_token'', JStr ''R'')])\<rparr>, Suc n)"

definition new_visitor :: browser where
  "new_visitor = \<lparr>b_access = None, b_refresh = None, b_hash = ''/login'', b_ip = None, b_headers = []\<rparr>"

theorem challenge_roundtrip_witness:
  "\<exists>b'. login_submit asking_net ''ada@example.org'' ''secret'' (new_visitor, 0) = (Done, (b', 1))
     \<and> b_access b' = None \<and> snd (renders 3 b') = Some ''/mfa''
     \<and> fst (mfa_submit asking_net ''123456'' (b', 1)) = Done"
proof -
  obtain res b where login: "apiRequest asking_net (api_login (field ''ada@example.org'') (field ''secret'')) (new_visitor, 0) = (Inr res, (b, 1))"
      "mfa_wanted res" "b_access b = None"
    by (simp add: apiRequest_def numeral_eq_Suc send_request_def client_request_def asking_net_def api_login_def
        auth_post_def new_visitor_def settle_def ok_status_def mfa_wanted_def)
  have "\<not> email_refused ''ada@example.org''" and six: "length ''123456'' = 6"
    by code_simp+
  from challenge_roundtrip [OF this(1) login(1,2) six]
  show ?thesis
    using login(3)
    by (auto simp: apiRequest_def numeral_eq_Suc send_request_def client_request_def asking_net_def api_verifyMfa_def
        auth_post_def settle_def ok_status_def split: prod.split sum.split)
qed

end
