(* ===== verification/Spa_Flow.thy ===== *)
theory Spa_Flow
  imports Spa
begin

text \<open>
  Properties of the browser application: every call ends, the router settles, and what the views do
  with a form.
\<close>

section \<open>A call ends\<close>

lemma advances_Finished [simp]: "advances net n (Finished r) st = (Finished r, st)"
  by (induction n) simp_all

lemma send_request_Sent: "\<exists>rq. send_request opts b = Sent opts rq"
  by (simp add: send_request_def)

lemma advances_settle: "advances net (Suc n) (Received opts res) (b, w) = (settle res, (b, w))"
  if "hr_status res = 401 \<Longrightarrow> \<not> op_allowRefresh opts"
  using that by (auto simp: settle_def)

lemma retry_ends:
  assumes "\<not> op_allowRefresh opts"
  shows "\<exists>r w'. advances net 2 (Sent opts rq) (b, w) = (Finished r, (b, w'))"
  using assms by (auto simp: numeral_2_eq_2 settle_def split: prod.split)

text \<open>
  C26: every call of the API client ends, with at most one refresh. Whatever the servers answer, a call
  is finished after seven steps; the stored tokens are then those from before, or those of one refresh,
  or none; and a call that may not refresh leaves them alone.
\<close>

theorem api_request_ends:
  "\<exists>r b' w'. advances net 7 (Ready opts) (b, w) = (Finished r, (b', w')) \<and> apiRequest net opts (b, w) = (r, (b', w'))
     \<and> (b' = b \<or> b' = clearTokens b \<or> (\<exists>x y. b' = setTokens x y b)) \<and> (op_allowRefresh opts \<or> b' = b)"
proof -
  obtain rq where rq: "send_request opts b = Sent opts rq"
    using send_request_Sent by blast
  obtain res w1 where res: "net (op_api opts) rq w = (res, w1)"
    by (cases "net (op_api opts) rq w")
  have first: "advances net 7 (Ready opts) (b, w) = advances net 5 (Received opts res) (b, w1)"
    by (simp add: numeral_eq_Suc rq res)
  have "\<exists>r b' w'. advances net 5 (Received opts res) (b, w1) = (Finished r, (b', w'))
     \<and> (b' = b \<or> b' = clearTokens b \<or> (\<exists>x y. b' = setTokens x y b)) \<and> (op_allowRefresh opts \<or> b' = b)"
  proof (cases "hr_status res = 401 \<and> op_allowRefresh opts \<and> truthy (b_refresh b)")
    case False
    then show ?thesis by (auto simp: numeral_eq_Suc settle_def)
  next
    case True
    obtain res' w2 where res': "net Auth_api (refresh_call b (the (b_refresh b))) w1 = (res', w2)"
      by (cases "net Auth_api (refresh_call b (the (b_refresh b))) w1")
    have second: "advances net 5 (Received opts res) (b, w1) = advances net 3 (Refresh_received opts res res') (b, w2)"
      using True by (simp add: numeral_eq_Suc res')
    show ?thesis
    proof (cases "ok_status res' \<and> hr_body res' \<noteq> JNull")
      case refused: False
      then have "advances net 3 (Refresh_received opts res res') (b, w2) = (Finished (Inl (401, hr_body res)), (clearTokens b, w2))"
        by (auto simp: numeral_3_eq_3)
      then show ?thesis using True unfolding second by simp
    next
      case refreshed: True
      let ?opts = "opts\<lparr>op_allowRefresh := False\<rparr>"
      let ?b = "setTokens (json_text ''access_token'' (hr_body res')) (json_text ''refresh_token'' (hr_body res')) b"
      obtain rq' where rq': "send_request ?opts ?b = Sent ?opts rq'"
        using send_request_Sent by blast
      obtain r w3 where "advances net 2 (Sent ?opts rq') (?b, w2) = (Finished r, (?b, w3))"
        using retry_ends [of ?opts net rq' ?b w2] by auto
      moreover have "advances net 3 (Refresh_received opts res res') (b, w2) = advances net 2 (Sent ?opts rq') (?b, w2)"
        using refreshed by (simp add: numeral_eq_Suc Let_def rq')
      ultimately show ?thesis using True unfolding second by auto
    qed
  qed
  then obtain r b' w' where "advances net 5 (Received opts res) (b, w1) = (Finished r, (b', w'))"
      "b' = b \<or> b' = clearTokens b \<or> (\<exists>x y. b' = setTokens x y b)" "op_allowRefresh opts \<or> b' = b"
    by blast
  then show ?thesis
    by (intro exI [of _ r] exI [of _ b'] exI [of _ w']) (simp add: first apiRequest_def)
qed

section \<open>The router settles\<close>

lemma parse_route: "v \<in> set routes \<Longrightarrow> fst (router_parse v) = v"
proof -
  have "list_all (\<lambda>v. fst (router_parse v) = v) routes"
    by code_simp
  then show "v \<in> set routes \<Longrightarrow> fst (router_parse v) = v"
    by (simp add: list_all_iff)
qed

lemma render_route:
  assumes "v \<in> set routes" and "b_hash b = v"
  shows "render b = (if v \<in> {''/login'', ''/register''} \<and> hasAccessToken b then Redirect ''/account''
    else if v = ''/account'' \<and> \<not> hasAccessToken b then Redirect ''/login'' else Show v)"
  using assms by (simp add: render_def parse_route Let_def)

lemma in_routes: "''/login'' \<in> set routes" "''/account'' \<in> set routes" "defaultRoute = ''/login''"
  by (simp_all add: routes_def defaultRoute_def)

lemma hasAccessToken_navigate [simp]: "hasAccessToken (navigate h b) = hasAccessToken b" "b_hash (navigate h b) = h"
  by (simp_all add: hasAccessToken_def navigate_def)

text \<open>
  The router comes to rest. From any fragment at most two redirections lead to a view: with a token
  one of the second factor, the recovery and the dashboard, without one any but the dashboard.
\<close>

theorem router_settles:
  "\<exists>v. snd (renders 3 b) = Some v
     \<and> v \<in> (if hasAccessToken b then {''/mfa'', ''/reset'', ''/account''} else {''/login'', ''/register'', ''/mfa'', ''/reset''})"
proof -
  have login: "render (navigate ''/login'' b') = (if hasAccessToken b' then Redirect ''/account'' else Show ''/login'')"
    and account: "render (navigate ''/account'' b') = (if hasAccessToken b' then Show ''/account'' else Redirect ''/login'')" for b'
    using render_route [OF in_routes(1), of "navigate ''/login'' b'"] render_route [OF in_routes(2), of "navigate ''/account'' b'"]
    by simp_all
  let ?v = "fst (router_parse (b_hash b))"
  have start: "render b = (if ?v \<notin> set routes then Redirect ''/login''
      else if ?v \<in> {''/login'', ''/register''} \<and> hasAccessToken b then Redirect ''/account''
      else if ?v = ''/account'' \<and> \<not> hasAccessToken b then Redirect ''/login'' else Show ?v)"
    by (simp add: render_def Let_def in_routes(3))
  consider (unknown) "?v \<notin> set routes" | (signed_in) "?v \<in> set routes" "?v \<in> {''/login'', ''/register''}" "hasAccessToken b"
    | (signed_out) "?v \<in> set routes" "?v = ''/account''" "\<not> hasAccessToken b"
    | (shown) "?v \<in> set routes" "\<not> (?v \<in> {''/login'', ''/register''} \<and> hasAccessToken b)" "\<not> (?v = ''/account'' \<and> \<not> hasAccessToken b)"
    by blast
  then show ?thesis
  proof cases
    case unknown
    then have "render b = Redirect ''/login''" by (simp add: start)
    then show ?thesis using in_routes(1,2) by (cases "hasAccessToken b") (simp_all add: numeral_3_eq_3 login account)
  next
    case signed_in
    then have "render b = Redirect ''/account''" by (simp only: start) simp
    with signed_in(3) show ?thesis using in_routes(1,2) by (simp add: numeral_3_eq_3 account)
  next
    case signed_out
    then have "render b = Redirect ''/login''" by (simp only: start) simp
    with signed_out(3) show ?thesis using in_routes(1,2) by (simp add: numeral_3_eq_3 login)
  next
    case shown
    then have "render b = Show ?v" by (simp only: start) simp
    with shown show ?thesis by (auto simp: numeral_3_eq_3 routes_def)
  qed
qed

section \<open>What the views do with a form\<close>

lemma form_pairs_cons:
  assumes "w \<noteq> []" and "\<forall>c \<in> set w. c \<noteq> CHR ''&''"
  shows "form_pairs (w @ CHR ''&'' # rest) = hd (form_pairs w) # form_pairs rest"
  using assms by (simp add: form_pairs_def words_by_def split_at_append_sep split_at_no_sep)

lemma reset_fragment:
  "fst (router_parse (''/reset?token=&email='' @ e)) = ''/reset''"
  "query_param ''token'' (snd (router_parse (''/reset?token=&email='' @ e))) = Some []"
proof -
  obtain w ws where w: "split_at (\<lambda>c. c = CHR ''?'') e = w # ws"
    using split_at_nonempty by (metis list.exhaust)
  have parse: "router_parse (''/reset?token=&email='' @ e) = (''/reset'', ''token=&email='' @ w)"
    by (simp add: router_parse_def drop_slashes_def Let_def w)
  have "form_pairs (''token='' @ CHR ''&'' # ''email='' @ w) = hd (form_pairs ''token='') # form_pairs (''email='' @ w)"
    by (rule form_pairs_cons) auto
  moreover have "hd (form_pairs ''token='') = (''token'', [])"
    by code_simp
  ultimately show "fst (router_parse (''/reset?token=&email='' @ e)) = ''/reset''"
    and "query_param ''token'' (snd (router_parse (''/reset?token=&email='' @ e))) = Some []"
    unfolding parse by (simp_all add: query_param_def)
qed

text \<open>
  The way through the recovery view ends before the new password. After a reset code was requested
  successfully the view leads to a fragment whose token is empty, so it shows the request form again
  and never the form that takes the code from the mail.
\<close>

theorem reset_dead_end:
  assumes "forgot_submit net email st = (Done, st')"
  shows "render (fst st') = Show ''/reset'' \<and> reset_stage (fst st') = None"
proof -
  obtain e b where "b_hash (fst st') = ''/reset?token=&email='' @ e"
    using assms by (auto simp: forgot_submit_def navigate_def split: if_splits prod.splits sum.splits)
  then show ?thesis
    unfolding render_def reset_stage_def by (simp only: reset_fragment Let_def) (simp add: routes_def)
qed

theorem reset_dead_end_witness:
  "render (fst (snd (forgot_submit (\<lambda>_ _ w. (\<lparr>hr_status = 202, hr_body = JObj []\<rparr>, w)) ''a@b.example''
       (\<lparr>b_access = None, b_refresh = None, b_hash = ''/reset'', b_ip = None, b_headers = []\<rparr>, ())))) = Show ''/reset''"
proof -
  let ?st = "(\<lparr>b_access = None, b_refresh = None, b_hash = ''/reset'', b_ip = None, b_headers = []\<rparr>, ())"
  let ?net = "\<lambda>_ _ w. (\<lparr>hr_status = 202, hr_body = JObj []\<rparr>, w)"
  have "fst (forgot_submit ?net ''a@b.example'' ?st) = Done"
    by code_simp
  then have "forgot_submit ?net ''a@b.example'' ?st = (Done, snd (forgot_submit ?net ''a@b.example'' ?st))"
    by (metis prod.collapse)
  from reset_dead_end [OF this] show ?thesis by simp
qed

text \<open>
  The meter of the registration counts points: a password of sixteen equal letters has as many as the
  form wants, though its message asks for upper case and digits; and the server accepts only what has them.
\<close>

lemma meter_accepts: "scorePassword (replicate 16 (CHR ''a'')) = 2"
  by code_simp

lemma otp_paste_fills:
  assumes "length boxes = 6" and "6 \<le> length (digits_of x)"
  shows "snd (otp_paste x boxes)" and "concat (fst (otp_paste x boxes)) = take 6 (digits_of x)"
proof -
  show "snd (otp_paste x boxes)"
    using assms by (simp add: otp_paste_def Let_def)
  have "fst (otp_paste x boxes) = map (\<lambda>d. [d]) (take 6 (digits_of x))"
    using assms by (intro nth_equalityI) (simp_all add: otp_paste_def Let_def)
  then show "concat (fst (otp_paste x boxes)) = take 6 (digits_of x)"
    by (simp add: concat_map_singleton)
qed

end
