(* ===== verification/Spa_Refresh.thy ===== *)
theory Spa_Refresh
  imports Spa_Flow System
begin

text \<open>
  Two calls of the browser at the same time: both find their access token expired and refresh it. The
  network is the authentication server of the model.
\<close>

section \<open>The request of a refresh\<close>

lemma refresh_path:
  "path_segments ''/auth/refresh'' = [''auth'', ''refresh'']" "js_lower ''auth'' = ''auth''" "js_lower ''refresh'' = ''refresh''"
  by code_simp+

lemma refresh_route_found:
  "find_route (auth_routes pl env cfg) ''POST'' [''auth'', ''refresh''] =
     Some (\<lambda>rq ctx ps. with_body pl refreshSchema rq (\<lambda>t. refresh_route env cfg t ctx), [])"
  by (simp add: auth_routes_def auth_router_def refresh_path js_lower_def js_upper_letter_def)

lemma keeps_core_limit: "keeps_core (route_limit cfg bucket n ip)"
proof -
  have "keeps_core (redis_incr key)" "keeps_core (redis_expire key ttl)" "keeps_core (redis_ttl key)" for key ttl
    by (rule keeps_coreI; auto simp: core_def redis_op_defs split: option.splits rvalue.splits)+
  note op = this
  have "keeps_core (redis_incrementWindow key w)" for key w
    unfolding redis_incrementWindow_def by (intro pres op)
  then show ?thesis
    unfolding route_limit_def rateLimitMiddleware_def Let_def by (intro pres op)
qed

lemma increment_error: "redis_incrementWindow key w s = (Inl e, s') \<Longrightarrow> \<exists>m. e = JsError m"
  by (auto simp: redis_incrementWindow_def bindM_run redis_incr_def redis_expire_def whenM_def
      split: option.splits rvalue.splits if_splits)

lemma limit_error:
  assumes "route_limit cfg bucket n ip s = (Inl e, s')"
  shows "\<not> ok_status (errorHandler e i)" and "hr_status (errorHandler e i) \<noteq> 401"
proof -
  have "(\<exists>m. e = JsError m) \<or> (\<exists>k. e = TooManyRequestsError k)"
    using assms increment_error
    by (auto simp: route_limit_def rateLimitMiddleware_def Let_def bindM_run redis_ttl_def
        split: prod.splits sum.splits if_splits)
  then show "\<not> ok_status (errorHandler e i)" and "hr_status (errorHandler e i) \<noteq> 401"
    by (auto simp: ok_status_def TooManyRequestsError_def)
qed

lemma request_id_run: "\<exists>i s'. requestIdMiddleware env rq s = (Inr i, s') \<and> core s' = core s"
  by (auto simp: requestIdMiddleware_def drawM_def core_def split: option.split)

lemma validate_refresh:
  "validate z (refreshSchema (Some (JObj [(''refresh_token'', JStr token)]))) = Inr token
   \<or> (\<exists>ds. validate z (refreshSchema (Some (JObj [(''refresh_token'', JStr token)]))) = Inl (ValidationError ''Validation failed'' ds))"
  by (auto simp: refreshSchema_def z_object_def z_field_def z_text_def z_string_def under_def z_checks_def min_length_def check_def
      validate_def validationError_def)

lemma refresh_call_cases:
  fixes token b env
  defines "rq \<equiv> refresh_call b token"
  obtains (refused) "\<not> ok_status (fst (auth_server pl env cfg rq s))" "hr_status (fst (auth_server pl env cfg rq s)) \<noteq> 401"
  | (passed) i s2 where "core s2 = core s"
      "auth_server pl env cfg rq s =
         respond (bindM (auth_refresh env cfg token (requestContext i rq))
           (\<lambda>r. ok_json 200 (token_fields r @ [(''scope'', JStr (ls_scope r))]))) i s2"
proof -
  obtain i s1 where rid: "requestIdMiddleware env rq s = (Inr i, s1)" and c1: "core s1 = core s"
    using request_id_run by blast
  let ?ctx = "requestContext i rq"
  have "auth_server pl env cfg rq s = respond (with_body pl refreshSchema rq (\<lambda>t. refresh_route env cfg t ?ctx)) i s1"
    using rid unfolding rq_def
    by (simp add: auth_server_def serve_def dispatch_def refresh_call_def client_request_def refresh_path refresh_route_found)
  moreover have "body_of rq = JObj [(''refresh_token'', JStr token)]"
    by (simp add: rq_def refresh_call_def client_request_def body_of_def)
  ultimately have srv: "auth_server pl env cfg rq s =
      respond (bindM (liftE (validate (pl_zod pl) (refreshSchema (Some (JObj [(''refresh_token'', JStr token)])))))
        (\<lambda>t. refresh_route env cfg t ?ctx)) i s1"
    by (simp add: with_body_def)
  from validate_refresh [of "pl_zod pl" token] show ?thesis
  proof (elim disjE exE)
    fix ds
    assume "validate (pl_zod pl) (refreshSchema (Some (JObj [(''refresh_token'', JStr token)]))) = Inl (ValidationError ''Validation failed'' ds)"
    then show ?thesis
      by (intro refused; simp add: srv respond_def bindM_run liftE_def ValidationError_def ok_status_def)
  next
    assume ok: "validate (pl_zod pl) (refreshSchema (Some (JObj [(''refresh_token'', JStr token)]))) = Inr token"
    obtain r s2 where lim: "route_limit cfg ''token'' (RATE_LIMIT_TOKEN cfg) (rc_ip ?ctx) s1 = (r, s2)"
      by (cases "route_limit cfg ''token'' (RATE_LIMIT_TOKEN cfg) (rc_ip ?ctx) s1")
    have c2: "core s2 = core s"
      using keeps_coreD [OF keeps_core_limit lim] c1 by simp
    show ?thesis
    proof (cases r)
      case (Inl e)
      have "auth_server pl env cfg rq s = (errorHandler e i, s2)"
        using lim Inl ok by (simp add: srv respond_def bindM_run liftE_def refresh_route_def validate_def)
      with limit_error [OF lim [unfolded Inl]] show ?thesis
        by (intro refused) simp_all
    next
      case (Inr u)
      show ?thesis
        by (rule passed [OF c2, of i]) (use lim Inr ok in \<open>simp add: srv respond_def bindM_run liftE_def refresh_route_def validate_def\<close>)
    qed
  qed
qed

section \<open>What a refresh leaves\<close>

lemma catch_after: "P (snd (m s)) \<Longrightarrow> (\<And>e. preserves P (h e)) \<Longrightarrow> P (snd (catchM m h s))"
  by (auto simp: catchM_def split: prod.split sum.split intro: preserves_snd)

lemma bind_after: "m s = (Inr x, s1) \<Longrightarrow> preserves P (f x) \<Longrightarrow> P s1 \<Longrightarrow> P (snd (bindM m f s))"
  by (simp add: preserves_snd)

context world_invariant
begin

lemma auth_refresh_after:
  assumes "refresh_consume env cfg token s = (Inr c, s1)" and "P s1"
  shows "P (snd (auth_refresh env cfg token ctx s))"
  unfolding auth_refresh_def
proof (rule catch_after [where P = P], rule bind_after [where P = P])
  show "refresh_consume env cfg token s = (Inr c, s1)" and "P s1"
    by (rule assms)+
qed (unfold Let_def, (intro pres)+)

end

lemma consume_refused: "refresh_consume env cfg token s = (Inl e, s1) \<Longrightarrow> \<not> ok_status (errorHandler e i)"
  by (cases rule: consume_cases [of env token s cfg]) (auto simp: ok_status_def AppError_def AuthError_def)

lemma good_refresh_consumed:
  assumes "ok_status (fst (auth_server pl env cfg (refresh_call b token) s))" and "refresh_keys_ok s"
  shows "refresh_keys_ok (snd (auth_server pl env cfg (refresh_call b token) s))"
    and "refresh_spent env token (snd (auth_server pl env cfg (refresh_call b token) s))"
    and "List.find (usable_refresh (clock s) (refresh_hash env token)) (t_refresh s) \<noteq> None"
proof -
  have "refresh_keys_ok (snd (auth_server pl env cfg (refresh_call b token) s))
    \<and> refresh_spent env token (snd (auth_server pl env cfg (refresh_call b token) s))
    \<and> List.find (usable_refresh (clock s) (refresh_hash env token)) (t_refresh s) \<noteq> None"
  proof (cases rule: refresh_call_cases [of pl env cfg b token s])
    case refused
    with assms(1) show ?thesis by simp
  next
    case (passed i s2)
    let ?ctx = "requestContext i (refresh_call b token)"
    have keys: "refresh_keys_ok s2"
      using assms(2) coreD(3) [OF passed(1)] by (simp add: refresh_keys_ok_def)
    obtain r s3 where run: "refresh_consume env cfg token s2 = (r, s3)"
      by (cases "refresh_consume env cfg token s2")
    show ?thesis
    proof (cases r)
      case (Inl e)
      from auth_refresh_refused [OF run [unfolded Inl]] have "fst (auth_server pl env cfg (refresh_call b token) s) = errorHandler e i"
        by (simp add: passed(2) respond_def bindM_run split_beta)
      with assms(1) consume_refused [OF run [unfolded Inl]] show ?thesis by simp
    next
      case (Inr c)
      have "refresh_used {refresh_hash env token} s3"
        using consume_keys_ok [OF keys, of env cfg token] consume_spends [OF run [unfolded Inr]] run
        by (simp flip: spent_refresh_iff)
      then have "refresh_used {refresh_hash env token} (snd (auth_refresh env cfg token ?ctx s2))"
        by (rule refresh_inv.auth_refresh_after [OF run [unfolded Inr]])
      then have "refresh_used {refresh_hash env token} (snd (auth_server pl env cfg (refresh_call b token) s))"
        by (auto simp: passed(2) respond_def bindM_run ok_json_def returnM_def split: prod.split sum.split)
      moreover have "List.find (usable_refresh (clock s2) (refresh_hash env token)) (t_refresh s2) \<noteq> None"
        using run Inr rotate_none [of s2] by (cases rule: consume_cases [of env token s2 cfg]) auto
      ultimately show ?thesis
        using coreD [OF passed(1)] by (simp flip: spent_refresh_iff)
    qed
  qed
  then show "refresh_keys_ok (snd (auth_server pl env cfg (refresh_call b token) s))"
    and "refresh_spent env token (snd (auth_server pl env cfg (refresh_call b token) s))"
    and "List.find (usable_refresh (clock s) (refresh_hash env token)) (t_refresh s) \<noteq> None"
    by blast+
qed

lemma good_refresh_body:
  "ok_status (fst (auth_server pl env cfg (refresh_call b token) s)) \<Longrightarrow> hr_body (fst (auth_server pl env cfg (refresh_call b token) s)) \<noteq> JNull"
proof (cases rule: refresh_call_cases [of pl env cfg b token s])
  case (passed i s2)
  have "hr_body (errorHandler e j) \<noteq> JNull" for e j
    by (cases e) simp_all
  then show ?thesis
    by (simp add: passed(2) respond_def bindM_run ok_json_def returnM_def split: prod.split sum.split)
qed simp

text \<open>A spent token is refused; when the limiter lets the request through, its family and its session are gone.\<close>

lemma theft_refresh_run:
  assumes "refresh_consume env cfg token s = (Inl (AppError 401 ''REFRESH_TOKEN_REUSE'' m), theft_response r s)"
  shows "\<exists>s'. auth_refresh env cfg token ctx s = (Inl (AppError 401 ''REFRESH_TOKEN_REUSE'' m), s') \<and> core s' = core (theft_response r s)"
  using assms keeps_coreD [OF keeps_core_audit]
  by (auto simp: auth_refresh_def catchM_def bindM_run whenM_def err_code_def AppError_def core_def)

definition family_dead :: "refresh_row \<Rightarrow> world \<Rightarrow> bool" where
  "family_dead r s \<longleftrightarrow> (\<forall>x \<in> set (t_refresh s). rt_family_id x = rt_family_id r \<longrightarrow> rt_status x = Token_revoked)
     \<and> (\<forall>x \<in> set (t_sessions s). ss_id x = rt_session_id r \<longrightarrow> ss_status x = Session_revoked)"

lemma update_where_elim:
  "x \<in> set (update_where p f t) \<Longrightarrow> (\<And>y. p y \<Longrightarrow> Q (f y)) \<Longrightarrow> (\<And>y. \<not> p y \<Longrightarrow> Q y) \<Longrightarrow> Q x"
  by (auto simp: update_where_def split: if_splits)

lemma theft_dead: "core s' = core (theft_response r s) \<Longrightarrow> family_dead r s'"
proof -
  have "family_dead r (theft_response r s)"
  proof -
    have "rt_family_id x = rt_family_id r \<longrightarrow> rt_status x = Token_revoked" if "x \<in> set (t_refresh (theft_response r s))" for x
    proof (rule update_where_elim [where Q = "\<lambda>x. rt_family_id x = rt_family_id r \<longrightarrow> rt_status x = Token_revoked"])
      show "x \<in> set (update_where (\<lambda>x. rt_family_id x = rt_family_id r \<and> rt_status x \<in> {Token_active, Token_rotated})
          (revoke_refresh (clock s)) (t_refresh s))"
        using that by (simp add: theft_response_def)
      fix y
      assume "\<not> (rt_family_id y = rt_family_id r \<and> rt_status y \<in> {Token_active, Token_rotated})"
      then show "rt_family_id y = rt_family_id r \<longrightarrow> rt_status y = Token_revoked"
        by (cases "rt_status y") simp_all
    qed simp
    moreover have "ss_id x = rt_session_id r \<longrightarrow> ss_status x = Session_revoked" if "x \<in> set (t_sessions (theft_response r s))" for x
    proof (rule update_where_elim [where Q = "\<lambda>x. ss_id x = rt_session_id r \<longrightarrow> ss_status x = Session_revoked"])
      show "x \<in> set (update_where (\<lambda>x. ss_id x = rt_session_id r \<and> ss_status x = Session_active)
          (revoke_session (clock s) ''refresh_token_reuse'') (t_sessions s))"
        using that by (simp add: theft_response_def)
      fix y
      assume "\<not> (ss_id y = rt_session_id r \<and> ss_status y = Session_active)"
      then show "ss_id y = rt_session_id r \<longrightarrow> ss_status y = Session_revoked"
        by (cases "ss_status y") simp_all
    qed simp
    ultimately show ?thesis by (simp add: family_dead_def)
  qed
  then show "core s' = core (theft_response r s) \<Longrightarrow> family_dead r s'"
    using coreD [of s' "theft_response r s"] by (simp add: family_dead_def)
qed

lemma spent_refresh_refused:
  assumes "refresh_keys_ok s" and "refresh_spent env token s"
  obtains r where "r \<in> set (t_refresh s)" "rt_token_hash r = refresh_hash env token"
    "\<not> ok_status (fst (auth_server pl env cfg (refresh_call b token) s))"
    "hr_status (fst (auth_server pl env cfg (refresh_call b token) s)) = 401 \<Longrightarrow>
       family_dead r (snd (auth_server pl env cfg (refresh_call b token) s))"
proof (cases rule: refresh_call_cases [of pl env cfg b token s])
  case refused
  obtain r where "r \<in> set (t_refresh s)" "rt_token_hash r = refresh_hash env token"
    using assms(2) by (auto simp: refresh_spent_def)
  with refused that show ?thesis by blast
next
  case (passed i s2)
  have "refresh_keys_ok s2" "refresh_spent env token s2"
    using assms coreD(3) [OF passed(1)] by (simp_all add: refresh_keys_ok_def refresh_spent_def)
  then obtain r where r: "r \<in> set (t_refresh s2)" "rt_token_hash r = refresh_hash env token"
    and run: "refresh_consume env cfg token s2 =
      (Inl (AppError 401 ''REFRESH_TOKEN_REUSE'' ''Refresh token reuse detected - session revoked''), theft_response r s2)"
    by (rule spent_known)
  obtain s3 where auth: "auth_refresh env cfg token (requestContext i (refresh_call b token)) s2 =
      (Inl (AppError 401 ''REFRESH_TOKEN_REUSE'' ''Refresh token reuse detected - session revoked''), s3)"
    and core: "core s3 = core (theft_response r s2)"
    using theft_refresh_run [OF run] by blast
  show ?thesis
    by (rule that [of r])
      (use r auth theft_dead [OF core] coreD(3) [OF passed(1)] in
        \<open>simp_all add: passed(2) respond_def bindM_run ok_status_def AppError_def\<close>)
qed

section \<open>Two calls at a time\<close>

lemma expired_thread:
  assumes "hr_status res = 401" and "op_allowRefresh opts" and "b_refresh b = Some token" and "token \<noteq> []"
  shows "advance net (Received opts res) (b, w) = (Refresh_sent opts res (refresh_call b token), (b, w))"
  using assms by simp


text \<open>A visitor on the dashboard, with a stored refresh token and an access token that has expired.\<close>

definition long_token :: string where
  "long_token = replicate 32 (CHR ''r'')"

definition long_world :: world where
  "long_world = sample_world\<lparr>t_refresh := [sample_refresh\<lparr>rt_token_hash := refresh_hash sample_env long_token\<rparr>]\<rparr>"

definition visitor :: browser where
  "visitor = \<lparr>b_access = Some ''expired'', b_refresh = Some long_token, b_hash = ''/account'', b_ip = Some ''10.0.0.1'', b_headers = []\<rparr>"

definition sample_net :: "world net" where
  "sample_net a rq w = (case a of Auth_api \<Rightarrow> auth_server sample_platform sample_env sample_cfg rq w
     | Gateway_api \<Rightarrow> (\<lparr>hr_status = 401, hr_body = JNull\<rparr>, w))"


end
