(* ===== verification/Server_Properties.thy ===== *)
theory Server_Properties
  imports System
begin

text \<open>
  Properties of the servers as they are composed: what a request to the administration needs, and what
  the gateway and the resource API guarantee together.
\<close>

section \<open>Requests\<close>

lemma request_id_drawn: "\<exists>i s'. requestIdMiddleware env rq s = (Inr i, s') \<and> drawn s s'"
  by (auto simp: requestIdMiddleware_def drawM_def split: option.split intro: drawnI)

lemma auth_server_run:
  assumes "hq_method rq \<noteq> ''OPTIONS''"
  obtains i s1 where "drawn s s1"
    and "auth_server pl env cfg rq s = respond (dispatch (auth_routes pl env cfg) rq (requestContext i rq) []) i s1"
proof -
  obtain i s1 where "requestIdMiddleware env rq s = (Inr i, s1)" and "drawn s s1"
    using request_id_drawn by blast
  then show thesis
    by (intro that [of s1 i]) (simp_all add: auth_server_def serve_def assms)
qed

lemma find_route_match:
  "find_route table m path = Some (h, ps) \<Longrightarrow> \<exists>pat. (m, pat, h) \<in> set table \<and> match_path pat path = Some ps"
  by (induction table m path rule: find_route.induct) (auto split: if_splits option.splits)

section \<open>The administration\<close>

lemma authenticate_refused:
  assumes "authenticate env cfg header s = (Inl e, s')"
  shows "hr_status (errorHandler e i) = 401"
proof (cases "bearer header")
  case None
  with assms show ?thesis by (auto simp: authenticate_def AuthError_def)
next
  case (Some token)
  with assms have "verifyAccessToken env cfg token s = (Inl e, s')"
    by (auto simp: authenticate_def bindM_run split: prod.splits sum.splits)
  from verify_refused [OF this] show ?thesis by (auto simp: AuthError_def)
qed

lemma requirePermission_refused:
  "requirePermission perms user = Inl e \<Longrightarrow> hr_status (errorHandler e i) = 403"
  by (auto simp: requirePermission_def ForbiddenError_def Let_def split: option.splits if_splits)

lemma guarded_cases:
  assumes "guarded env cfg header perms k s = (r, s')"
  obtains (refused) e where "r = Inl e" "s' = s" "\<And>i. hr_status (errorHandler e i) \<in> {401, 403}"
    | (passed) user where "authenticate env cfg header s = (Inr user, s)"
        "requirePermission perms (Some user) = Inr ()" "k user s = (r, s')"
proof (cases "authenticate env cfg header s")
  case (Pair a s1)
  note st = authenticate_state [OF Pair]
  show ?thesis
  proof (cases a)
    case (Inl e)
    with assms Pair st authenticate_refused show ?thesis by (intro refused) (auto simp: guarded_def bindM_run)
  next
    case (Inr user)
    show ?thesis
    proof (cases "requirePermission perms (Some user)")
      case (Inl e)
      with assms Pair st Inr requirePermission_refused show ?thesis by (intro refused) (auto simp: guarded_def bindM_run)
    next
      case Inr': (Inr u)
      with assms Pair st Inr show ?thesis by (intro passed [of user]) (auto simp: guarded_def bindM_run)
    qed
  qed
qed

text \<open>What the dispatcher does with a request: it answers with an error, or it runs the handler of a matching route.\<close>

lemma dispatch_runs:
  obtains (unparsable) code where "hq_body rq = Unparsable code" "dispatch table rq ctx ps = throwM (HttpError code)"
  | (missing) "dispatch table rq ctx ps = notFoundHandler"
  | (undecodable) "dispatch table rq ctx ps = throwM (HttpError 400)"
  | (handled) pat h raw ps' where "(route_method rq, pat, h) \<in> set table" "match_path pat (path_segments (hq_path rq)) = Some raw"
      "dispatch table rq ctx ps = h rq ctx ps'"
proof (cases "\<exists>code. hq_body rq = Unparsable code")
  case True
  then show thesis using unparsable by (auto simp: dispatch_def)
next
  case parsed: False
  show thesis
  proof (cases "find_route table (route_method rq) (path_segments (hq_path rq))")
    case None
    with parsed missing show thesis by (auto simp: dispatch_def split: http_body.splits)
  next
    case (Some found)
    obtain h raw where found: "found = (h, raw)" by (cases found)
    from find_route_match [OF Some [unfolded found]] obtain pat
      where pat: "(route_method rq, pat, h) \<in> set table" "match_path pat (path_segments (hq_path rq)) = Some raw"
      by blast
    have "dispatch table rq ctx ps = (if list_ex (\<lambda>x. decodeURIComponent x = None) raw then throwM (HttpError 400)
        else h rq ctx (map (\<lambda>x. the (decodeURIComponent x)) raw))"
      using parsed Some found by (auto simp: dispatch_def split: http_body.splits)
    then show thesis using undecodable handled [OF pat] by (auto split: if_splits)
  qed
qed

definition ADMIN_PERMISSIONS :: "(string \<times> seg list \<times> string) list" where
  "ADMIN_PERMISSIONS = [
     (''GET'', [Lit ''admin'', Lit ''roles''], ''roles:read''),
     (''PUT'', [Lit ''admin'', Lit ''roles'', Var, Lit ''permissions''], ''roles:write''),
     (''GET'', [Lit ''admin'', Lit ''permissions''], ''roles:read''),
     (''GET'', [Lit ''admin'', Lit ''scopes''], ''roles:read''),
     (''GET'', [Lit ''admin'', Lit ''users''], ''users:read''),
     (''PUT'', [Lit ''admin'', Lit ''users'', Var, Lit ''roles''], ''users:write''),
     (''PUT'', [Lit ''admin'', Lit ''users'', Var, Lit ''status''], ''users:write''),
     (''GET'', [Lit ''admin'', Lit ''audit''], ''audit:read''),
     (''GET'', [Lit ''admin'', Lit ''clients''], ''clients:read''),
     (''POST'', [Lit ''admin'', Lit ''clients''], ''clients:write''),
     (''POST'', [Lit ''admin'', Lit ''clients'', Var, Lit ''rotate-secret''], ''clients:write''),
     (''PUT'', [Lit ''admin'', Lit ''clients'', Var, Lit ''status''], ''clients:write'')]"

lemma lowered [simp]:
  "js_lower ''auth'' = ''auth''" "js_lower ''mfa'' = ''mfa''" "js_lower ''admin'' = ''admin''" "js_lower ''oauth'' = ''oauth''"
  "js_lower ''.well-known'' = ''.well-known''" "js_lower ''userinfo'' = ''userinfo''" "js_lower ''health'' = ''health''"
  "js_lower ''openapi.json'' = ''openapi.json''"
  by code_simp+

lemma match_head: "match_path (Lit y # pat) (x # xs) = Some ps \<Longrightarrow> js_lower y = js_lower x"
  by (simp split: if_splits)

definition heads :: "handler route_table \<Rightarrow> string list \<Rightarrow> bool" where
  "heads table ys \<longleftrightarrow> (\<forall>(m, pat, h) \<in> set table. \<exists>y rest. pat = Lit y # rest \<and> y \<in> set ys)"

lemma heads_match:
  assumes "heads table ys" and "(m, pat, h) \<in> set table" and "match_path pat (x # xs) = Some ps"
  shows "\<exists>y \<in> set ys. js_lower y = js_lower x"
proof -
  obtain y rest where "pat = Lit y # rest" and "y \<in> set ys"
    using assms(1,2) unfolding heads_def by fast
  with match_head assms(3) show ?thesis by blast
qed

lemma list_all2_member: "list_all2 R xs ys \<Longrightarrow> x \<in> set xs \<Longrightarrow> \<exists>y \<in> set ys. R x y"
  by (induction rule: list_all2_induct) auto

text \<open>The routes before and after those of the administration.\<close>

definition front_routes :: "platform \<Rightarrow> externals \<Rightarrow> config \<Rightarrow> handler route_table" where
  "front_routes pl env cfg = [(''GET'', [Lit ''.well-known'', Lit ''jwks.json''], \<lambda>rq ctx ps. jwks_http pl)]
     @ auth_router pl env cfg @ mfa_router pl env cfg"

definition back_routes :: "platform \<Rightarrow> externals \<Rightarrow> config \<Rightarrow> handler route_table" where
  "back_routes pl env cfg = oauth_router pl env cfg
     @ [(''GET'', [Lit ''.well-known'', Lit ''openid-configuration''], \<lambda>rq ctx ps. discovery_route cfg),
        (''GET'', [Lit ''userinfo''], \<lambda>rq ctx ps. userinfo_route env cfg (auth_header rq)),
        (''GET'', [Lit ''openapi.json''], \<lambda>rq ctx ps. returnM \<lparr>hr_status = 200, hr_body = pl_openapi pl\<rparr>),
        (''GET'', [Lit ''health'', Lit ''live''], \<lambda>rq ctx ps. ok_json 200 [(''status'', JStr ''ok'')]),
        (''GET'', [Lit ''health'', Lit ''ready''], \<lambda>rq ctx ps. health_ready pl env cfg)]"

lemma auth_routes_parts:
  "auth_routes pl env cfg = front_routes pl env cfg @ (admin_router pl env cfg @ clients_router pl env cfg) @ back_routes pl env cfg"
  by (simp add: auth_routes_def front_routes_def back_routes_def)

lemma other_heads:
  "heads (front_routes pl env cfg) [''auth'', ''mfa'', ''.well-known'']"
  "heads (back_routes pl env cfg) [''oauth'', ''.well-known'', ''userinfo'', ''openapi.json'', ''health'']"
  by (simp_all add: heads_def front_routes_def back_routes_def auth_router_def mfa_router_def oauth_router_def)

definition guarded_by :: "externals \<Rightarrow> config \<Rightarrow> handler \<Rightarrow> string \<Rightarrow> bool" where
  "guarded_by env cfg h perm \<longleftrightarrow> (\<forall>rq ctx ps. \<exists>k. h rq ctx ps = guarded env cfg (auth_header rq) [perm] k)"

lemma guarded_by [simp]: "guarded_by env cfg (\<lambda>rq ctx ps. guarded env cfg (auth_header rq) [perm] (k rq ctx ps)) perm"
  by (auto simp: guarded_by_def)

lemma guarded_routes:
  "list_all2 (\<lambda>(m, pat, h) (m', pat', perm). m = m' \<and> pat = pat' \<and> guarded_by env cfg h perm)
     (admin_router pl env cfg @ clients_router pl env cfg) ADMIN_PERMISSIONS"
  unfolding admin_router_def clients_router_def permitted_def admin_roles_route_def admin_permissions_route_def admin_scopes_route_def
    clients_list_route_def ADMIN_PERMISSIONS_def append.simps list_all2_Cons list_all2_Nil prod.case
  by (intro conjI refl TrueI guarded_by)

lemma admin_route:
  assumes "(m, pat, h) \<in> set (auth_routes pl env cfg)" and "match_path pat (x # xs) = Some ps" and "js_lower x = ''admin''"
  obtains perm where "(m, pat, perm) \<in> set ADMIN_PERMISSIONS" "guarded_by env cfg h perm"
proof -
  have other: "(m, pat, h) \<notin> set table" if "heads table ys" "\<forall>y \<in> set ys. js_lower y \<noteq> ''admin''" for table ys
    using heads_match [OF that(1) _ assms(2)] that(2) assms(3) by metis
  have "(m, pat, h) \<in> set (admin_router pl env cfg @ clients_router pl env cfg)"
    using assms(1) other [OF other_heads(1)] other [OF other_heads(2)] by (simp add: auth_routes_parts)
  from list_all2_member [OF guarded_routes this] obtain perm where "(m, pat, perm) \<in> set ADMIN_PERMISSIONS" "guarded_by env cfg h perm"
    by auto
  then show thesis by (rule that)
qed

lemma refused_status: "n \<in> {401, 403} \<Longrightarrow> n \<in> {400, 401, 403, 404}" for n :: int
  by auto

text \<open>
  C23: the administration is closed. A request under \<^verbatim>\<open>/admin\<close>, whatever its method, path and body, changes
  nothing and is answered 400, 401, 403 or 404, or as the body parser refuses its body, or 204 when its method
  is \<open>OPTIONS\<close>, unless it matches one of the listed routes and carries a token whose verification succeeds and
  which has the permission listed for the route.
\<close>

theorem admin_requires_permission:
  assumes "path_segments (hq_path rq) = x # xs" and "js_lower x = ''admin''"
    and "auth_server pl env cfg rq s = (resp, s')"
  shows "(hq_method rq = ''OPTIONS'' \<and> hr_status resp = 204 \<and> s' = s)
    \<or> (hq_method rq \<noteq> ''OPTIONS'' \<and> drawn s s' \<and> (hr_status resp \<in> {400, 401, 403, 404}
         \<or> (\<exists>code. hq_body rq = Unparsable code \<and> hr_status resp = (if code \<noteq> 0 \<and> code < 500 then code else 500))))
    \<or> (\<exists>pat perm ps user s1. (route_method rq, pat, perm) \<in> set ADMIN_PERMISSIONS \<and> match_path pat (x # xs) = Some ps
         \<and> drawn s s1 \<and> authenticate env cfg (auth_header rq) s1 = (Inr user, s1)
         \<and> requirePermission [perm] (Some user) = Inr ())"
proof (cases "hq_method rq = ''OPTIONS''")
  case True
  with assms(3) show ?thesis by (auto simp: auth_server_def cors_preflight_def)
next
  case other: False
  obtain i s1 where drawn: "drawn s s1"
    and run: "(resp, s') = respond (dispatch (auth_routes pl env cfg) rq (requestContext i rq) []) i s1"
    by (rule auth_server_run [OF other, of s pl env cfg]) (use assms(3) in simp)
  have error: ?thesis if "dispatch (auth_routes pl env cfg) rq (requestContext i rq) [] s1 = (Inl e, s1)"
      "hr_status (errorHandler e i) \<in> {400, 401, 403, 404}" for e
    using that run drawn other by (simp add: respond_def)
  show ?thesis
  proof (cases rule: dispatch_runs [of rq "auth_routes pl env cfg" "requestContext i rq" "[]"])
    case unparsable
    then show ?thesis using run drawn other by (simp add: respond_def)
  next
    case missing
    then show ?thesis using run drawn other by (simp add: respond_def notFoundHandler_def ok_json_def)
  next
    case undecodable
    then show ?thesis by (intro error [of "HttpError 400"]) simp_all
  next
    case (handled pat h raw ps')
    have pat: "match_path pat (x # xs) = Some raw" using handled(2) assms(1) by simp
    obtain perm where perm: "(route_method rq, pat, perm) \<in> set ADMIN_PERMISSIONS" "guarded_by env cfg h perm"
      by (rule admin_route [OF handled(1) pat assms(2)])
    then obtain k where g: "dispatch (auth_routes pl env cfg) rq (requestContext i rq) [] = guarded env cfg (auth_header rq) [perm] k"
      using handled(3) unfolding guarded_by_def by metis
    obtain r s2 where r: "guarded env cfg (auth_header rq) [perm] k s1 = (r, s2)"
      by (cases "guarded env cfg (auth_header rq) [perm] k s1")
    then show ?thesis
    proof (cases rule: guarded_cases)
      case (refused e)
      with r g show ?thesis by (intro error [of e] refused_status) simp_all
    next
      case (passed user)
      with perm(1) pat drawn show ?thesis by blast
    qed
  qed
qed

text \<open>A request without a token.\<close>

definition anonymous_admin :: http_request where
  "anonymous_admin = \<lparr>hq_method = ''GET'', hq_path = ''/Admin/roles'', hq_query = [], hq_headers = [], hq_ip = None, hq_body = No_body\<rparr>"

theorem admin_requires_permission_witness:
  "hr_status (fst (auth_server sample_platform sample_env sample_cfg anonymous_admin sample_world)) \<in> {400, 401, 403, 404}"
proof -
  obtain resp s' where run: "auth_server sample_platform sample_env sample_cfg anonymous_admin sample_world = (resp, s')"
    by (cases "auth_server sample_platform sample_env sample_cfg anonymous_admin sample_world")
  have "path_segments (hq_path anonymous_admin) = [''Admin'', ''roles'']" and "js_lower ''Admin'' = ''admin''"
    by code_simp+
  moreover have "authenticate sample_env sample_cfg (auth_header anonymous_admin) s \<noteq> (Inr user, s)" for user s
    by (simp add: anonymous_admin_def auth_header_def header_of_def authenticate_def bearer_def)
  ultimately show ?thesis
    using admin_requires_permission [of anonymous_admin "''Admin''" "[''roles'']", OF _ _ run] run
    by (auto simp: anonymous_admin_def)
qed

section \<open>The gateway in front of the resource API\<close>

lemma documents_kept [pres]:
  "preserves (\<lambda>s. t_documents s = T) (redis_incrementWindow key w)" "preserves (\<lambda>s. t_documents s = T) (redis_ttl key)"
  "preserves (\<lambda>s. t_documents s = T) (isRevoked jti)"
  by (rule preservesI; auto simp: redis_incrementWindow_def isRevoked_def bindM_run redis_op_defs
      split: option.splits rvalue.splits if_splits)+

lemma forward_documents: "preserves (\<lambda>s. t_documents s = T) (gateway_forward remote cfg ip hs)"
  unfolding gateway_forward_def rateLimitMiddleware_def authenticateRemote_def remote_verify_def Let_def
  by (intro pres)

lemma route_error:
  assumes "resource_route env me req s = (Inl e, s')"
  shows "t_documents s' = t_documents s"
  using assms
  by (cases req)
    (auto simp: documents_list_route_def documents_create_route_def documents_delete_route_def documents_create_def documents_remove_def
      documents_findById_def documents_listByOwner_def documents_listAll_def ok_json_def insertM_def insert_row_def bindM_run Let_def drawM_def
      split: option.splits if_splits sum.splits prod.splits)

lemma route_documents:
  assumes "resource_route env me req s = (r, s')" and "distinct (map do_id (t_documents s))"
  shows "t_documents s' = t_documents s \<or> ''api.write'' \<in> set (rid_scopes me)
    \<and> (\<forall>u. rid_userId me = Some u \<longrightarrow> filter (\<lambda>d. do_owner_id d \<notin> {u, js_lower u}) (t_documents s')
         = filter (\<lambda>d. do_owner_id d \<notin> {u, js_lower u}) (t_documents s))"
proof (cases r)
  case (Inl e)
  with assms(1) route_error show ?thesis by blast
next
  case (Inr resp)
  show ?thesis
  proof (cases req)
    case GetMe
    with assms(1) show ?thesis by (auto simp: ok_json_def)
  next
    case GetDocuments
    with assms(1) show ?thesis
      by (auto simp: documents_list_route_def documents_listByOwner_def documents_listAll_def ok_json_def bindM_run
          split: sum.splits option.splits)
  next
    case (PostDocument title content)
    with assms(1) Inr have run: "documents_create_route env me title content s = (Inr resp, s')" by simp
    then have "''api.write'' \<in> set (rid_scopes me)"
      by (auto simp: documents_create_route_def requireResourceScope_def bindM_run split: if_splits)
    with create_Inr [OF run] show ?thesis by auto
  next
    case (DeleteDocument uid)
    with assms(1) Inr have del: "documents_delete_route me uid s = (Inr resp, s')" by simp
    obtain row where row: "''api.write'' \<in> set (rid_scopes me)" "row \<in> set (t_documents s)" "do_id row = js_lower uid"
      and own: "\<And>u. rid_userId me = Some u \<Longrightarrow> do_owner_id row = u"
      and s': "s' = s\<lparr>t_documents := filter (\<lambda>d. do_id d \<noteq> js_lower uid) (t_documents s)\<rparr>"
      by (rule delete_Inr [OF del]) blast
    have "filter (\<lambda>d. do_owner_id d \<notin> {u, js_lower u}) (filter (\<lambda>d. do_id d \<noteq> js_lower uid) (t_documents s))
        = filter (\<lambda>d. do_owner_id d \<notin> {u, js_lower u}) (t_documents s)" if "rid_userId me = Some u" for u
    proof (rule filter_filter_id)
      fix d
      assume "d \<in> set (t_documents s)" and "do_owner_id d \<notin> {u, js_lower u}"
      then show "do_id d \<noteq> js_lower uid"
        using distinct_key_eq [OF assms(2) _ row(2)] own [OF that] row(3) by auto
    qed
    with row(1) show ?thesis
      unfolding s' by simp
  qed
qed

definition served :: "externals \<Rightarrow> resource_identity \<Rightarrow> handler \<Rightarrow> bool" where
  "served env me h \<longleftrightarrow>
     (\<forall>rq ctx ps s r s'. h rq ctx ps s = (r, s') \<longrightarrow> s' = s \<or> (\<exists>req. resource_route env me req s = (r, s')))"

lemma served_route: "served env me (\<lambda>rq ctx ps. resource_route env me (f ps))"
  unfolding served_def by blast

lemma served_post: "served env me (\<lambda>rq ctx ps. bindM (liftE (requireResourceScope [''api.write''] (Some me))) (\<lambda>_.
    with_body pl createDocumentSchema rq (\<lambda>(t, c). resource_route env me (PostDocument t c))))"
  by (auto simp: served_def with_body_def bindM_run liftE_def simp del: resource_route.simps split: sum.splits)

lemma documents_served: "(m, pat, h) \<in> set (documents_router pl env me) \<Longrightarrow> served env me h"
  unfolding documents_router_def by (auto simp del: resource_route.simps intro: served_route served_post)

lemma documents_dispatch:
  assumes "dispatch (documents_router pl env me) rq ctx ps s = (r, s')"
  shows "s' = s \<or> (\<exists>req. resource_route env me req s = (r, s'))"
proof (cases rule: dispatch_runs [of rq "documents_router pl env me" ctx ps])
  case (handled pat h raw ps')
  with assms documents_served [OF handled(1)] show ?thesis unfolding served_def by metis
qed (use assms in \<open>auto simp: notFoundHandler_def ok_json_def\<close>)

lemma resource_handler_run:
  assumes "resource_handler pl env cfg rq ctx s = (r, s')"
  shows "s' = s \<or> (\<exists>me req. requireIdentity (hq_headers rq) = Inr me \<and> resource_route env me req s = (r, s'))"
proof -
  have "s' = s \<or> (\<exists>me. requireIdentity (hq_headers rq) = Inr me \<and> dispatch (documents_router pl env me) rq ctx [] s = (r, s'))"
    using assms by (auto simp: resource_handler_def bindM_run liftE_def throwM_def notFoundHandler_def ok_json_def returnM_def
        split: http_body.splits if_splits sum.splits prod.splits)
  then show ?thesis using documents_dispatch by blast
qed

lemma serve_run:
  obtains i s1 where "drawn s s1" "serve env m rq s = respond (m i) i s1"
  using request_id_drawn [of env rq s] by (auto simp: serve_def)

lemma respond_state: "snd (respond m i s) = snd (m s)"
  by (simp add: respond_def split: prod.split sum.split)

lemma other_paths_documents: "\<not> under_api rq \<Longrightarrow> t_documents (snd (gateway_handler remote pl env cfg rq s)) = t_documents s"
proof -
  assume other: "\<not> under_api rq"
  have kept: "t_documents (snd (rateLimitMiddleware opts who s)) = t_documents s" for opts who
    by (rule preserves_snd [where P = "\<lambda>s'. t_documents s' = t_documents s"])
      (simp_all add: rateLimitMiddleware_def Let_def; intro pres)+
  show ?thesis
    using kept [of "gateway_limit cfg" "case hq_ip rq of Some a \<Rightarrow> a | None \<Rightarrow> ''unknown''"] other
    by (auto simp: gateway_handler_def bindM_run notFoundHandler_def ok_json_def split: prod.split sum.split)
qed

text \<open>A request that was let through the gateway is served with the identity of its token, or changes nothing.\<close>

lemma forwarded_documents:
  assumes "under_api rq" and fwd: "gateway_forward remote cfg (hq_ip rq) (hq_headers rq) s = (Inr out, s2)"
    and "distinct (map do_id (t_documents s))" and s': "s' = snd (gateway_handler remote pl env cfg rq s)"
  shows "t_documents s' = t_documents s
    \<or> (\<exists>me. requireIdentity out = Inr me \<and> ''api.write'' \<in> set (rid_scopes me)
        \<and> (\<forall>u. rid_userId me = Some u \<longrightarrow> filter (\<lambda>d. do_owner_id d \<notin> {u, js_lower u}) (t_documents s')
             = filter (\<lambda>d. do_owner_id d \<notin> {u, js_lower u}) (t_documents s)))"
proof -
  let ?rq = "rq\<lparr>hq_headers := out\<rparr>"
  obtain j s3 where s3: "drawn s2 s3"
    and res: "resource_server pl env cfg ?rq s2 = respond (resource_handler pl env cfg ?rq (requestContext j ?rq)) j s3"
    by (rule serve_run [of s2 env "\<lambda>i. resource_handler pl env cfg ?rq (requestContext i ?rq)" ?rq])
      (simp add: resource_server_def)
  obtain r s4 where h: "resource_handler pl env cfg ?rq (requestContext j ?rq) s3 = (r, s4)"
    by (cases "resource_handler pl env cfg ?rq (requestContext j ?rq) s3")
  have final: "s' = s4"
    using assms h by (simp add: gateway_handler_def res split_beta respond_state)
  have docs: "t_documents s3 = t_documents s"
    using s3 preservesD [OF forward_documents fwd] by simp
  from resource_handler_run [OF h] route_documents [where s = s3] assms(3) show ?thesis
    unfolding final docs [symmetric] by fastforce
qed

text \<open>
  C24: documents are safe behind the gateway. Whatever request reaches the gateway, the documents stay
  what they are unless it carries a bearer token that the key service vouches for, with the scopes
  \<open>api.read\<close> and \<open>api.write\<close>; and then, if the token names a user, the documents of all other owners
  stay what they are, in the same order, whatever headers the client sends.
\<close>

theorem gateway_protects_documents:
  assumes "gateway_server remote pl env cfg rq s = (resp, s')" and "distinct (map do_id (t_documents s))"
  shows "t_documents s' = t_documents s
    \<or> (\<exists>token payload me. bearerToken (hq_headers rq) = Some token \<and> remote token (remote_options cfg) (clock s) = Inr payload
         \<and> ''api.read'' \<in> set (words (au_scope (remote_user payload)))
         \<and> claims_identity payload (header_of ''x-request-id'' (hq_headers rq)) = Inr me \<and> ''api.write'' \<in> set (rid_scopes me)
         \<and> (\<forall>u. rid_userId me = Some u \<longrightarrow> filter (\<lambda>d. do_owner_id d \<notin> {u, js_lower u}) (t_documents s')
              = filter (\<lambda>d. do_owner_id d \<notin> {u, js_lower u}) (t_documents s)))"
proof -
  obtain i s1 where s1: "drawn s s1" and run: "(resp, s') = respond (gateway_handler remote pl env cfg rq) i s1"
    using serve_run [of s env "\<lambda>_. gateway_handler remote pl env cfg rq" rq] assms(1) unfolding gateway_server_def by metis
  have s': "s' = snd (gateway_handler remote pl env cfg rq s1)"
    using respond_state [of "gateway_handler remote pl env cfg rq" i s1] run by (metis snd_conv)
  have same: "t_documents s1 = t_documents s" "clock s1 = clock s" using s1 by simp_all
  obtain fwd s2 where fwd: "gateway_forward remote cfg (hq_ip rq) (hq_headers rq) s1 = (fwd, s2)"
    by (cases "gateway_forward remote cfg (hq_ip rq) (hq_headers rq) s1")
  consider (other) "\<not> under_api rq" | (refused) e where "under_api rq" "fwd = Inl e" | (through) out where "under_api rq" "fwd = Inr out"
    by (cases fwd) auto
  then show ?thesis
  proof cases
    case other
    with same show ?thesis by (simp add: s' other_paths_documents)
  next
    case refused
    with fwd same preservesD [OF forward_documents fwd] show ?thesis by (simp add: s' gateway_handler_def bindM_run)
  next
    case through
    note fwd = fwd [unfolded through(2)]
    obtain token payload where tok: "bearerToken (drop_headers PROTECTED_HEADERS (hq_headers rq)) = Some token"
      and vouched: "remote token (remote_options cfg) (clock s1) = Inr payload" "''api.read'' \<in> set (words (au_scope (remote_user payload)))"
      and out: "out = proxy_headers cfg (remote_user payload) (drop_headers PROTECTED_HEADERS (hq_headers rq))"
      by (rule forward_Inr [OF fwd]) blast
    have "bearerToken (hq_headers rq) = Some token"
      using tok by (simp add: bearerToken_def PROTECTED_HEADERS_def)
    moreover have "requireIdentity out = claims_identity payload (header_of ''x-request-id'' (hq_headers rq))"
      unfolding out by (rule proxied_identity)
    ultimately show ?thesis
      using forwarded_documents [OF through(1) fwd _ s'] assms(2) vouched unfolding same by auto
  qed
qed

definition forging_request :: http_request where
  "forging_request = \<lparr>hq_method = ''DELETE'', hq_path = ''/api/v1/documents/'' @ sample_uuid, hq_query = [],
     hq_headers = forging_headers, hq_ip = Some ''10.0.0.1'', hq_body = No_body\<rparr>"

theorem gateway_protects_documents_witness:
  "filter (\<lambda>d. do_owner_id d \<notin> {sample_uuid, js_lower sample_uuid})
     (t_documents (snd (gateway_server sample_remote sample_platform sample_env sample_cfg forging_request doc_world)))
   = [doc_of ''Ua'' ''U2'']"
proof -
  obtain resp s' where run: "gateway_server sample_remote sample_platform sample_env sample_cfg forging_request doc_world = (resp, s')"
    by (cases "gateway_server sample_remote sample_platform sample_env sample_cfg forging_request doc_world")
  have start: "filter (\<lambda>d. do_owner_id d \<notin> {sample_uuid, js_lower sample_uuid}) (t_documents doc_world) = [doc_of ''Ua'' ''U2'']"
    and "distinct (map do_id (t_documents doc_world))" and uuid: "UUID_RE sample_uuid"
    by code_simp+
  note protected = gateway_protects_documents [OF run this(2)]
  show ?thesis
  proof (cases "t_documents s' = t_documents doc_world")
    case True
    with start run show ?thesis by simp
  next
    case False
    with protected obtain token payload me where
      "sample_remote token (remote_options sample_cfg) (clock doc_world) = Inr payload"
      and me: "claims_identity payload (header_of ''x-request-id'' (hq_headers forging_request)) = Inr me"
      and kept: "\<And>u. rid_userId me = Some u \<Longrightarrow> filter (\<lambda>d. do_owner_id d \<notin> {u, js_lower u}) (t_documents s')
          = filter (\<lambda>d. do_owner_id d \<notin> {u, js_lower u}) (t_documents doc_world)"
      by blast
    then have "payload = sample_claims"
      by (simp add: sample_remote_def split: if_splits)
    moreover have "au_sub (remote_user sample_claims) = sample_uuid"
      by (simp add: remote_user_def sample_claims_def js_string_def)
    ultimately have "rid_userId me = Some sample_uuid"
      using me uuid by (auto simp: claims_identity_def Let_def)
    from kept [OF this] start run show ?thesis by simp
  qed
qed

end
