(* ===== verification/Bootstrap.thy ===== *)
theory Bootstrap
  imports Config Rbac
begin

text \<open>
  What runs before the servers: the migrations (\<^verbatim>\<open>src/infrastructure/database/migrate.ts\<close>), the seed data
  with the first administrator (\<^verbatim>\<open>src/infrastructure/database/seed.ts\<close>) and the transactions of
  \<^verbatim>\<open>src/infrastructure/database/pool.ts\<close>. The effect of a migration file on the schema is a parameter;
  the seeds work on the tables of the model.
\<close>

section \<open>Migrations\<close>

text \<open>
  The database of the migrations: its schema, and the names in \<open>schema_migrations\<close>. A directory is a list
  of file names with their contents; \<open>exec\<close> runs a file, \<open>None\<close> when the database refuses it.
\<close>

record 'd migrated =
  mg_schema :: 'd
  mg_applied :: "string list"

definition sql_file :: "string \<Rightarrow> bool" where
  "sql_file name \<longleftrightarrow> 4 \<le> length name \<and> drop (length name - 4) name = ''.sql''"

text \<open>One file in its transaction: the schema and the name, or nothing.\<close>

definition migrate_one :: "(string \<Rightarrow> 'd \<Rightarrow> 'd option) \<Rightarrow> string \<times> string \<Rightarrow> 'd migrated \<Rightarrow> 'd migrated option" where
  "migrate_one exec file st =
     (case exec (snd file) (mg_schema st) of
        None \<Rightarrow> None
      | Some d \<Rightarrow> if fst file \<in> set (mg_applied st) then None
          else Some \<lparr>mg_schema = d, mg_applied = mg_applied st @ [fst file]\<rparr>)"

text \<open>The loop: the set of applied names is read once; the result names the file that failed, or those that ran.\<close>

fun migrate_loop ::
  "(string \<Rightarrow> 'd \<Rightarrow> 'd option) \<Rightarrow> string set \<Rightarrow> (string \<times> string) list \<Rightarrow> string list \<Rightarrow> 'd migrated \<Rightarrow> (string + string list) \<times> 'd migrated" where
  "migrate_loop exec applied [] executed st = (Inr executed, st)"
| "migrate_loop exec applied (file # files) executed st =
     (if fst file \<in> applied then migrate_loop exec applied files executed st
      else (case migrate_one exec file st of
          None \<Rightarrow> (Inl (fst file), st)
        | Some st' \<Rightarrow> migrate_loop exec applied files (executed @ [fst file]) st'))"

definition runMigrations ::
  "(string \<Rightarrow> 'd \<Rightarrow> 'd option) \<Rightarrow> (string \<times> string) list \<Rightarrow> 'd migrated \<Rightarrow> (string + string list) \<times> 'd migrated" where
  "runMigrations exec dir st =
     migrate_loop exec (set (mg_applied st)) (sort_key fst (filter (\<lambda>f. sql_file (fst f)) dir)) [] st"

text \<open>The specification: the pending files in the order of their names, one after the other.\<close>

definition pending :: "(string \<times> string) list \<Rightarrow> string list \<Rightarrow> (string \<times> string) list" where
  "pending dir applied = filter (\<lambda>f. fst f \<notin> set applied) (sort_key fst (filter (\<lambda>f. sql_file (fst f)) dir))"

fun exec_all :: "(string \<Rightarrow> 'd \<Rightarrow> 'd option) \<Rightarrow> (string \<times> string) list \<Rightarrow> 'd \<Rightarrow> 'd option" where
  "exec_all exec [] d = Some d"
| "exec_all exec (f # fs) d = (case exec (snd f) d of None \<Rightarrow> None | Some d' \<Rightarrow> exec_all exec fs d')"

lemma migrate_loop_spec:
  assumes "distinct (map fst files)" and "\<forall>f \<in> set files. fst f \<in> set (mg_applied st) \<longrightarrow> fst f \<in> applied"
    and "todo = filter (\<lambda>f. fst f \<notin> applied) files"
  shows "(\<exists>d. exec_all exec todo (mg_schema st) = Some d \<and> migrate_loop exec applied files executed st =
        (Inr (executed @ map fst todo), \<lparr>mg_schema = d, mg_applied = mg_applied st @ map fst todo\<rparr>))
    \<or> (\<exists>pre f post d. todo = pre @ f # post \<and> exec_all exec pre (mg_schema st) = Some d \<and> exec (snd f) d = None
      \<and> migrate_loop exec applied files executed st =
        (Inl (fst f), \<lparr>mg_schema = d, mg_applied = mg_applied st @ map fst pre\<rparr>))"
  using assms
proof (induction files arbitrary: executed st todo)
  case Nil
  then show ?case by simp
next
  case (Cons f files)
  let ?rest = "filter (\<lambda>f. fst f \<notin> applied) files"
  show ?case
  proof (cases "fst f \<in> applied")
    case True
    with Cons.IH [of st ?rest executed] Cons.prems show ?thesis by simp
  next
    case False
    have todo: "todo = f # ?rest" using False Cons.prems(3) by simp
    show ?thesis
    proof (cases "exec (snd f) (mg_schema st)")
      case None
      have "migrate_loop exec applied (f # files) executed st = (Inl (fst f), st)"
        using False None by (simp add: migrate_one_def)
      with None todo show ?thesis
        by (intro disjI2 exI [of _ "[]"] exI [of _ f] exI [of _ ?rest] exI [of _ "mg_schema st"]) simp
    next
      case (Some d)
      let ?st = "\<lparr>mg_schema = d, mg_applied = mg_applied st @ [fst f]\<rparr>"
      have run: "migrate_loop exec applied (f # files) executed st = migrate_loop exec applied files (executed @ [fst f]) ?st"
        using False Some Cons.prems(2) by (auto simp: migrate_one_def)
      have "\<forall>g \<in> set files. fst g \<in> set (mg_applied ?st) \<longrightarrow> fst g \<in> applied"
      proof (intro ballI impI)
        fix g
        assume "g \<in> set files" and "fst g \<in> set (mg_applied ?st)"
        moreover have "fst g \<noteq> fst f"
          using Cons.prems(1) imageI [OF \<open>g \<in> set files\<close>, of fst] by (metis list.simps(9) distinct.simps(2) list.set_map)
        ultimately show "fst g \<in> applied"
          using Cons.prems(2) by simp
      qed
      from Cons.IH [OF _ this refl, of "executed @ [fst f]"] Cons.prems(1) consider
          (all) d' where "exec_all exec ?rest d = Some d'"
            "migrate_loop exec applied files (executed @ [fst f]) ?st =
              (Inr (executed @ fst f # map fst ?rest), \<lparr>mg_schema = d', mg_applied = mg_applied st @ fst f # map fst ?rest\<rparr>)"
        | (some) pre g post d' where "?rest = pre @ g # post" "exec_all exec pre d = Some d'" "exec (snd g) d' = None"
            "migrate_loop exec applied files (executed @ [fst f]) ?st =
              (Inl (fst g), \<lparr>mg_schema = d', mg_applied = mg_applied st @ fst f # map fst pre\<rparr>)"
        by auto
      then show ?thesis
      proof cases
        case all
        then show ?thesis unfolding run todo by (intro disjI1 exI [of _ d']) (simp add: Some)
      next
        case some
        then show ?thesis unfolding run todo
          by (intro disjI2 exI [of _ "f # pre"] exI [of _ g] exI [of _ post] exI [of _ d']) (simp add: Some)
      qed
    qed
  qed
qed

lemma distinct_files:
  assumes "distinct (map fst dir)"
  shows "distinct (map fst (filter q (sort_key fst (filter p dir))))"
proof -
  have "inj_on fst (set (filter q (sort_key fst (filter p dir))))"
    using assms by (auto simp: distinct_map intro: inj_on_subset)
  with assms show ?thesis by (simp add: distinct_map)
qed

lemma runMigrations_spec:
  assumes "distinct (map fst dir)" and "todo = pending dir (mg_applied st)"
  shows "(\<exists>d. exec_all exec todo (mg_schema st) = Some d \<and> runMigrations exec dir st =
        (Inr (map fst todo), \<lparr>mg_schema = d, mg_applied = mg_applied st @ map fst todo\<rparr>))
    \<or> (\<exists>pre f post d. todo = pre @ f # post \<and> exec_all exec pre (mg_schema st) = Some d \<and> exec (snd f) d = None
      \<and> runMigrations exec dir st = (Inl (fst f), \<lparr>mg_schema = d, mg_applied = mg_applied st @ map fst pre\<rparr>))"
  using migrate_loop_spec [OF _ _ assms(2) [unfolded pending_def], of st exec "[]"] distinct_files [OF assms(1), of "\<lambda>_. True"]
  by (simp add: runMigrations_def)

lemma pending_prefix:
  assumes "distinct (map fst dir)" and "pending dir applied = pre @ rest"
  shows "pending dir (applied @ map fst pre) = rest"
proof -
  have "pending dir (applied @ map fst pre) = filter (\<lambda>f. fst f \<notin> fst ` set pre) (pending dir applied)"
    unfolding pending_def filter_filter by (rule filter_cong) auto
  moreover have "distinct (map fst (pre @ rest))"
    using distinct_files [OF assms(1), of "\<lambda>f. fst f \<notin> set applied" "\<lambda>f. sql_file (fst f)"] assms(2) by (simp add: pending_def)
  ultimately show ?thesis
    by (auto simp: assms(2) filter_id_conv filter_empty_conv)
qed

lemma exec_all_append: "exec_all exec (pre @ post) d = Option.bind (exec_all exec pre d) (exec_all exec post)"
  by (induction pre arbitrary: d) (auto split: option.split)

text \<open>
  C27: migrations run once, in order, and are resumed where they failed. A run executes exactly the
  pending files in the order of their names and records each; if the database refuses one, the
  files before it are applied and recorded, the refused one has left nothing, and the next run starts
  with it; and after a run without error the next one does nothing.
\<close>

theorem migrations_once_in_order:
  assumes "distinct (map fst dir)" and "todo = pending dir (mg_applied st)"
  shows "(exec_all exec todo (mg_schema st) \<noteq> None \<longrightarrow>
       (\<exists>st'. runMigrations exec dir st = (Inr (map fst todo), st')
          \<and> exec_all exec todo (mg_schema st) = Some (mg_schema st') \<and> mg_applied st' = mg_applied st @ map fst todo
          \<and> runMigrations exec' dir st' = (Inr [], st')))
    \<and> (exec_all exec todo (mg_schema st) = None \<longrightarrow>
       (\<exists>pre f post st'. todo = pre @ f # post \<and> runMigrations exec dir st = (Inl (fst f), st')
          \<and> exec_all exec pre (mg_schema st) = Some (mg_schema st') \<and> mg_applied st' = mg_applied st @ map fst pre
          \<and> pending dir (mg_applied st') = f # post))"
  using runMigrations_spec [OF assms, of exec]
proof (elim disjE exE conjE)
  fix d
  assume all: "exec_all exec todo (mg_schema st) = Some d"
    and run: "runMigrations exec dir st = (Inr (map fst todo), \<lparr>mg_schema = d, mg_applied = mg_applied st @ map fst todo\<rparr>)"
  let ?st = "\<lparr>mg_schema = d, mg_applied = mg_applied st @ map fst todo\<rparr>"
  have "pending dir (mg_applied ?st) = []"
    using pending_prefix [OF assms(1), of "mg_applied st" todo "[]"] assms(2) by simp
  with runMigrations_spec [OF assms(1) refl, where st = ?st and exec = exec'] have "runMigrations exec' dir ?st = (Inr [], ?st)"
    by simp
  with all run show ?thesis by auto
next
  fix pre f post d
  assume split: "todo = pre @ f # post" and pre: "exec_all exec pre (mg_schema st) = Some d" and stop: "exec (snd f) d = None"
    and run: "runMigrations exec dir st = (Inl (fst f), \<lparr>mg_schema = d, mg_applied = mg_applied st @ map fst pre\<rparr>)"
  have "pending dir (mg_applied st @ map fst pre) = f # post"
    using pending_prefix [OF assms(1)] assms(2) split by simp
  with split pre stop run show ?thesis
    by (auto simp: exec_all_append intro!: exI [of _ pre] exI [of _ f])
qed

theorem migrations_once_in_order_witness:
  "runMigrations (\<lambda>sql d. Some (d @ sql)) [(''002_b.sql'', ''B''), (''notes.txt'', ''X''), (''001_a.sql'', ''A'')]
     \<lparr>mg_schema = ''S'', mg_applied = []\<rparr> = (Inr [''001_a.sql'', ''002_b.sql''], \<lparr>mg_schema = ''SAB'', mg_applied = [''001_a.sql'', ''002_b.sql'']\<rparr>)"
proof -
  let ?dir = "[(''002_b.sql'', ''B''), (''notes.txt'', ''X''), (''001_a.sql'', ''A'')]"
  have "pending ?dir [] = [(''001_a.sql'', ''A''), (''002_b.sql'', ''B'')]"
    by code_simp
  then obtain st' where "runMigrations (\<lambda>sql d. Some (d @ sql)) ?dir \<lparr>mg_schema = ''S'', mg_applied = []\<rparr> = (Inr [''001_a.sql'', ''002_b.sql''], st')"
      and "mg_schema st' = ''SAB''" and "mg_applied st' = [''001_a.sql'', ''002_b.sql'']"
    using migrations_once_in_order [of ?dir "pending ?dir []" "\<lparr>mg_schema = ''S'', mg_applied = []\<rparr>" "\<lambda>sql d. Some (d @ sql)"
        "\<lambda>_ _. None"]
    by auto
  then show ?thesis by (cases st') simp
qed

section \<open>Transactions\<close>

text \<open>\<open>ROLLBACK\<close> puts the tables back; everything outside the database stays.\<close>

definition roll_back :: "world \<Rightarrow> world \<Rightarrow> world" where
  "roll_back s s' = s'\<lparr>t_users := t_users s, t_roles := t_roles s, t_permissions := t_permissions s, t_scopes := t_scopes s,
     t_user_roles := t_user_roles s, t_role_permissions := t_role_permissions s, t_clients := t_clients s, t_codes := t_codes s,
     t_sessions := t_sessions s, t_refresh := t_refresh s, t_mfa := t_mfa s, t_email_verifications := t_email_verifications s,
     t_password_resets := t_password_resets s, t_audit := t_audit s, t_risk := t_risk s, t_documents := t_documents s\<rparr>"

definition withTransaction :: "'a act \<Rightarrow> 'a act" where
  "withTransaction m s = (case m s of (Inl e, s') \<Rightarrow> (Inl e, roll_back s s') | (Inr x, s') \<Rightarrow> (Inr x, s'))"

fun each :: "('a \<Rightarrow> unit act) \<Rightarrow> 'a list \<Rightarrow> unit act" where
  "each f [] = returnM ()"
| "each f (x # xs) = bindM (f x) (\<lambda>_. each f xs)"

section \<open>Seed data\<close>

definition SEED_ROLES :: "(string \<times> string) list" where
  "SEED_ROLES = [(''admin'', ''Full administrative access''), (''user'', ''Standard end-user''),
     (''support'', ''Read-only support access to users and audits''), (''service'', ''Machine/service account'')]"

definition SEED_PERMISSIONS :: "string list" where
  "SEED_PERMISSIONS = [''users:read'', ''users:write'', ''users:delete'', ''clients:read'', ''clients:write'',
     ''roles:read'', ''roles:write'', ''audit:read'']"

definition SEED_SCOPES :: "(string \<times> string) list" where
  "SEED_SCOPES = [(''openid'', ''Authenticate via OpenID Connect''), (''profile'', ''Access basic profile claims''),
     (''email'', ''Access email claims''), (''offline_access'', ''Request refresh tokens''),
     (''api.read'', ''Read access to protected APIs''), (''api.write'', ''Write access to protected APIs''),
     (''mfa'', ''Manage own MFA methods'')]"

definition SEED_GRANTS :: "(string \<times> string list) list" where
  "SEED_GRANTS = [(''admin'', SEED_PERMISSIONS), (''support'', [''users:read'', ''audit:read'']), (''service'', [''clients:read''])]"

definition seed_role :: "externals \<Rightarrow> string \<times> string \<Rightarrow> unit act" where
  "seed_role env = (\<lambda>(name, description).
     bindM (drawM (rand_uuid env)) (\<lambda>new_id.
     bindM (getM (\<lambda>s. list_ex (\<lambda>r. ro_name r = name) (t_roles s))) (\<lambda>known.
     if known then modifyM (\<lambda>s. s\<lparr>t_roles := update_where (\<lambda>r. ro_name r = name) (\<lambda>r. r\<lparr>ro_description := Some description\<rparr>) (t_roles s)\<rparr>)
     else bindM (insertM t_roles (\<lambda>t s. s\<lparr>t_roles := t\<rparr>) (\<lambda>r. ro_id r = new_id)
         \<lparr>ro_id = new_id, ro_name = name, ro_description = Some description, ro_is_system = True\<rparr> ''roles_pkey'') (\<lambda>_. returnM ()))))"

definition seed_permission :: "externals \<Rightarrow> string \<Rightarrow> unit act" where
  "seed_permission env name =
     bindM (drawM (rand_uuid env)) (\<lambda>new_id.
     bindM (getM (\<lambda>s. list_ex (\<lambda>p. pe_name p = name) (t_permissions s))) (\<lambda>known.
     if known then returnM ()
     else bindM (insertM t_permissions (\<lambda>t s. s\<lparr>t_permissions := t\<rparr>) (\<lambda>p. pe_id p = new_id)
         \<lparr>pe_id = new_id, pe_name = name\<rparr> ''permissions_pkey'') (\<lambda>_. returnM ())))"

definition seed_scope :: "externals \<Rightarrow> string \<times> string \<Rightarrow> unit act" where
  "seed_scope env = (\<lambda>(name, description).
     bindM (drawM (rand_uuid env)) (\<lambda>new_id.
     bindM (getM (\<lambda>s. list_ex (\<lambda>r. sc_name r = name) (t_scopes s))) (\<lambda>known.
     if known then returnM ()
     else bindM (insertM t_scopes (\<lambda>t s. s\<lparr>t_scopes := t\<rparr>) (\<lambda>r. sc_id r = new_id)
         \<lparr>sc_id = new_id, sc_name = name, sc_description = Some description\<rparr> ''scopes_pkey'') (\<lambda>_. returnM ()))))"

definition seed_grant :: "string \<times> string list \<Rightarrow> unit act" where
  "seed_grant = (\<lambda>(role, perms). modifyM (\<lambda>s. s\<lparr>t_role_permissions := t_role_permissions s @
     [(ro_id r, pe_id p). r \<leftarrow> t_roles s, p \<leftarrow> t_permissions s,
        ro_name r = role \<and> pe_name p \<in> set perms \<and> (ro_id r, pe_id p) \<notin> set (t_role_permissions s)]\<rparr>))"

definition seed_catalog :: "externals \<Rightarrow> unit act" where
  "seed_catalog env =
     bindM (each (seed_role env) SEED_ROLES) (\<lambda>_.
     bindM (each (seed_permission env) SEED_PERMISSIONS) (\<lambda>_.
     bindM (each (seed_scope env) SEED_SCOPES) (\<lambda>_.
     each seed_grant SEED_GRANTS)))"

definition seed_admin :: "externals \<Rightarrow> app_config \<Rightarrow> string \<Rightarrow> unit act" where
  "seed_admin env cfg passwordHash =
     bindM nowM (\<lambda>now.
     bindM (drawM (rand_uuid env)) (\<lambda>new_id.
     bindM (getM (\<lambda>s. list_ex (\<lambda>u. citext_eq (u_email u) (ADMIN_EMAIL cfg)) (t_users s))) (\<lambda>known.
     bindM (if known then returnM ()
       else bindM (insertM t_users (\<lambda>t s. s\<lparr>t_users := t\<rparr>) (\<lambda>u. u_id u = new_id)
         \<lparr>u_id = new_id, u_email = ADMIN_EMAIL cfg, u_password_hash = passwordHash, u_first_name = None, u_last_name = None,
          u_status = User_active, u_failed_login_count = 0, u_locked_until = None, u_mfa_required = False,
          u_last_login_at = None, u_password_changed_at = now, u_created_at = now, u_updated_at = now\<rparr> ''users_pkey'') (\<lambda>_. returnM ())) (\<lambda>_.
     modifyM (\<lambda>s. s\<lparr>t_user_roles := t_user_roles s @
        [(u_id u, ro_id r). u \<leftarrow> t_users s, r \<leftarrow> t_roles s,
           citext_eq (u_email u) (ADMIN_EMAIL cfg) \<and> ro_name r = ''admin'' \<and> (u_id u, ro_id r) \<notin> set (t_user_roles s)]\<rparr>)))))"

text \<open>The result: the address, and the password if one was generated.\<close>

definition runSeeds :: "externals \<Rightarrow> app_config \<Rightarrow> (string \<times> string option) act" where
  "runSeeds env cfg =
     bindM (withTransaction (seed_catalog env)) (\<lambda>_.
     bindM (if truthy (ADMIN_PASSWORD cfg) then returnM (the (ADMIN_PASSWORD cfg), None)
       else bindM (drawM (rand_b64url env 18)) (\<lambda>p. returnM (p, Some p))) (\<lambda>(adminPassword, generatedPassword).
     bindM (hashPassword env adminPassword) (\<lambda>passwordHash.
     bindM (withTransaction (seed_admin env cfg passwordHash)) (\<lambda>_.
     returnM (ADMIN_EMAIL cfg, generatedPassword)))))"

end
