(* ===== verification/Seeds.thy ===== *)
theory Seeds
  imports Bootstrap
begin

text \<open>
  Properties of the seed data: what a run establishes, that running it again changes nothing, and what
  the first administrator may do.
\<close>

section \<open>Loops\<close>

lemma each_keeps:
  assumes "each f xs s = (Inr (), s')" and "P s"
    and "\<And>x s s'. x \<in> set xs \<Longrightarrow> P s \<Longrightarrow> f x s = (Inr (), s') \<Longrightarrow> P s'"
  shows "P s'"
  using assms
proof (induction xs arbitrary: s)
  case (Cons x xs)
  then obtain s1 where "f x s = (Inr (), s1)" and "each f xs s1 = (Inr (), s')"
    by (auto simp: bindM_run split: prod.splits sum.splits)
  with Cons show ?case by (metis list.set_intros)
qed simp

lemma each_establishes:
  assumes "each f xs s = (Inr (), s')"
    and "\<And>x s s'. x \<in> set xs \<Longrightarrow> f x s = (Inr (), s') \<Longrightarrow> Q x s'"
    and "\<And>x y s s'. x \<in> set xs \<Longrightarrow> y \<in> set xs \<Longrightarrow> x \<noteq> y \<Longrightarrow> Q y s \<Longrightarrow> f x s = (Inr (), s') \<Longrightarrow> Q y s'"
  shows "\<forall>x \<in> set xs. Q x s'"
proof -
  have "\<forall>x \<in> set ys. Q x s'" if "each f ys s = (Inr (), s')" "set ys \<subseteq> set xs" for ys s
    using that
  proof (induction ys arbitrary: s)
    case (Cons y ys)
    then obtain s1 where y: "f y s = (Inr (), s1)" and ys: "each f ys s1 = (Inr (), s')"
      by (auto simp: bindM_run split: prod.splits sum.splits)
    have "Q y s1" using assms(2) [OF _ y] Cons.prems(2) by simp
    with ys have "Q y s'"
      by (rule each_keeps [where P = "Q y"]) (use Cons.prems(2) assms(2,3) in \<open>metis insert_subset list.simps(15) subsetD\<close>)
    with Cons.IH [OF ys] Cons.prems(2) show ?case by simp
  qed simp
  from this [OF assms(1)] show ?thesis by simp
qed

text \<open>A loop whose steps only draw random numbers.\<close>

lemma each_drawn:
  assumes "G s" and "\<And>s s'. G s \<Longrightarrow> drawn s s' \<Longrightarrow> G s'"
    and "\<And>x s. x \<in> set xs \<Longrightarrow> G s \<Longrightarrow> \<exists>s'. f x s = (Inr (), s') \<and> drawn s s'"
  shows "\<exists>s'. each f xs s = (Inr (), s') \<and> drawn s s'"
  using assms(1,3)
proof (induction xs arbitrary: s)
  case (Cons x xs)
  obtain s1 where s1: "f x s = (Inr (), s1)" "drawn s s1"
    using Cons.prems by force
  obtain s2 where "each f xs s1 = (Inr (), s2)" "drawn s1 s2"
    using Cons.IH [OF assms(2) [OF Cons.prems(1) s1(2)]] Cons.prems(2) by force
  with s1 show ?case by (auto intro: drawn_trans)
qed simp

section \<open>Seeded tables\<close>

definition role_seeded :: "string \<times> string \<Rightarrow> world \<Rightarrow> bool" where
  "role_seeded x s \<longleftrightarrow> (\<exists>r \<in> set (t_roles s). ro_name r = fst x)
     \<and> (\<forall>r \<in> set (t_roles s). ro_name r = fst x \<longrightarrow> ro_description r = Some (snd x))"

definition grant_seeded :: "string \<times> string list \<Rightarrow> world \<Rightarrow> bool" where
  "grant_seeded x s \<longleftrightarrow> (\<forall>r \<in> set (t_roles s). \<forall>p \<in> set (t_permissions s). ro_name r = fst x \<longrightarrow> pe_name p \<in> set (snd x)
     \<longrightarrow> (ro_id r, pe_id p) \<in> set (t_role_permissions s))"

definition catalog_seeded :: "world \<Rightarrow> bool" where
  "catalog_seeded s \<longleftrightarrow> (\<forall>x \<in> set SEED_ROLES. role_seeded x s) \<and> (\<forall>n \<in> set SEED_PERMISSIONS. \<exists>p \<in> set (t_permissions s). pe_name p = n)
     \<and> (\<forall>x \<in> set SEED_SCOPES. \<exists>r \<in> set (t_scopes s). sc_name r = fst x) \<and> (\<forall>x \<in> set SEED_GRANTS. grant_seeded x s)"

definition admin_seeded :: "app_config \<Rightarrow> world \<Rightarrow> bool" where
  "admin_seeded cfg s \<longleftrightarrow> (\<exists>u \<in> set (t_users s). citext_eq (u_email u) (ADMIN_EMAIL cfg))
     \<and> (\<forall>u \<in> set (t_users s). \<forall>r \<in> set (t_roles s). citext_eq (u_email u) (ADMIN_EMAIL cfg) \<longrightarrow> ro_name r = ''admin''
          \<longrightarrow> (u_id u, ro_id r) \<in> set (t_user_roles s))"

definition seeded :: "app_config \<Rightarrow> world \<Rightarrow> bool" where
  "seeded cfg s \<longleftrightarrow> catalog_seeded s \<and> admin_seeded cfg s"

lemmas seeded_defs = role_seeded_def grant_seeded_def catalog_seeded_def admin_seeded_def

lemma drawn_seeded: "drawn s s' \<Longrightarrow> catalog_seeded s' = catalog_seeded s" "drawn s s' \<Longrightarrow> admin_seeded cfg s' = admin_seeded cfg s"
  unfolding drawn_def seeded_defs by (elim exE; simp)+

lemma catalog_seededD:
  assumes "catalog_seeded s"
  shows "x \<in> set SEED_ROLES \<Longrightarrow> role_seeded x s" and "n \<in> set SEED_PERMISSIONS \<Longrightarrow> \<exists>p \<in> set (t_permissions s). pe_name p = n"
    and "y \<in> set SEED_SCOPES \<Longrightarrow> \<exists>r \<in> set (t_scopes s). sc_name r = fst y" and "z \<in> set SEED_GRANTS \<Longrightarrow> grant_seeded z s"
  using assms by (simp_all add: catalog_seeded_def)

section \<open>The steps\<close>

lemma seed_role_run:
  assumes "seed_role env x s = (Inr (), s')"
  shows "t_permissions s' = t_permissions s" and "t_scopes s' = t_scopes s" and "t_role_permissions s' = t_role_permissions s"
    and "t_roles s' = update_where (\<lambda>r. ro_name r = fst x) (\<lambda>r. r\<lparr>ro_description := Some (snd x)\<rparr>) (t_roles s) \<and> (\<exists>r \<in> set (t_roles s). ro_name r = fst x)
       \<or> (\<exists>r. t_roles s' = t_roles s @ [r] \<and> ro_name r = fst x \<and> ro_description r = Some (snd x)) \<and> (\<forall>r \<in> set (t_roles s). ro_name r \<noteq> fst x)"
  using assms by (auto simp: seed_role_def bindM_run list_ex_iff insertM_Inr split: prod.splits sum.splits if_splits)

lemma seed_permission_run:
  assumes "seed_permission env n s = (Inr (), s')"
  shows "t_roles s' = t_roles s" and "t_scopes s' = t_scopes s" and "t_role_permissions s' = t_role_permissions s"
    and "set (t_permissions s) \<subseteq> set (t_permissions s')" and "\<exists>p \<in> set (t_permissions s'). pe_name p = n"
  using assms by (auto simp: seed_permission_def bindM_run list_ex_iff insertM_Inr split: sum.splits prod.splits if_splits)

lemma seed_scope_run:
  assumes "seed_scope env x s = (Inr (), s')"
  shows "t_roles s' = t_roles s" and "t_permissions s' = t_permissions s" and "t_role_permissions s' = t_role_permissions s"
    and "set (t_scopes s) \<subseteq> set (t_scopes s')" and "\<exists>p \<in> set (t_scopes s'). sc_name p = fst x"
  using assms by (auto simp: seed_scope_def bindM_run list_ex_iff insertM_Inr split: sum.splits prod.splits if_splits)

lemma seed_grant_run:
  assumes "seed_grant x s = (Inr (), s')"
  shows "t_roles s' = t_roles s" and "t_permissions s' = t_permissions s" and "t_scopes s' = t_scopes s"
    and "set (t_role_permissions s) \<subseteq> set (t_role_permissions s')" and "grant_seeded x s'"
  using assms by (cases x; auto simp: seed_grant_def grant_seeded_def)+

lemma seed_role_seeds: "seed_role env x s = (Inr (), s') \<Longrightarrow> role_seeded x s'"
  using seed_role_run(4) [of env x s s'] by (auto simp: role_seeded_def set_update_where)

lemma seed_role_keeps:
  assumes "fst x \<noteq> fst y" and "role_seeded y s" and "seed_role env x s = (Inr (), s')"
  shows "role_seeded y s'"
proof -
  from seed_role_run(4) [OF assms(3)]
  have "r \<in> set (t_roles s') \<and> ro_name r = fst y \<longleftrightarrow> r \<in> set (t_roles s) \<and> ro_name r = fst y" for r
    using assms(1) by (auto simp: set_update_where intro!: bexI [of _ r])
  with assms(2) show ?thesis unfolding role_seeded_def by metis
qed

lemma seed_names: "distinct (map fst SEED_ROLES)"
  by code_simp

lemma seed_catalog_seeds:
  assumes "seed_catalog env s = (Inr (), s')"
  shows "catalog_seeded s'"
proof -
  obtain s1 s2 s3 where roles: "each (seed_role env) SEED_ROLES s = (Inr (), s1)"
    and perms: "each (seed_permission env) SEED_PERMISSIONS s1 = (Inr (), s2)"
    and scopes: "each (seed_scope env) SEED_SCOPES s2 = (Inr (), s3)" and grants: "each seed_grant SEED_GRANTS s3 = (Inr (), s')"
    using assms by (auto simp: seed_catalog_def bindM_run split: prod.splits sum.splits)
  have "\<forall>x \<in> set SEED_ROLES. role_seeded x s1"
  proof (rule each_establishes [OF roles])
    fix x y s s'
    assume "x \<in> set SEED_ROLES" "y \<in> set SEED_ROLES" "x \<noteq> y" "role_seeded y s" "seed_role env x s = (Inr (), s')"
    moreover from this have "fst x \<noteq> fst y"
      using seed_names by (auto simp: distinct_map dest: inj_onD)
    ultimately show "role_seeded y s'" using seed_role_keeps by blast
  qed (rule seed_role_seeds)
  moreover have "t_roles s2 = t_roles s1"
    by (rule each_keeps [OF perms, where P = "\<lambda>s. t_roles s = t_roles s1"]) (auto simp: seed_permission_run)
  moreover have perms2: "\<forall>n \<in> set SEED_PERMISSIONS. \<exists>p \<in> set (t_permissions s2). pe_name p = n"
    by (rule each_establishes [OF perms]) (use seed_permission_run(4,5) in blast)+
  moreover have "t_roles s3 = t_roles s2 \<and> t_permissions s3 = t_permissions s2"
    by (rule each_keeps [OF scopes, where P = "\<lambda>s. t_roles s = t_roles s2 \<and> t_permissions s = t_permissions s2"]) (auto simp: seed_scope_run)
  moreover have "\<forall>x \<in> set SEED_SCOPES. \<exists>r \<in> set (t_scopes s3). sc_name r = fst x"
    by (rule each_establishes [OF scopes]) (use seed_scope_run(4,5) in blast)+
  moreover have "t_roles s' = t_roles s3 \<and> t_permissions s' = t_permissions s3 \<and> t_scopes s' = t_scopes s3"
    by (rule each_keeps [OF grants, where P = "\<lambda>s. t_roles s = t_roles s3 \<and> t_permissions s = t_permissions s3 \<and> t_scopes s = t_scopes s3"])
      (auto simp: seed_grant_run)
  moreover have "\<forall>x \<in> set SEED_GRANTS. grant_seeded x s'"
  proof (rule each_establishes [OF grants])
    fix x y s s'
    assume "grant_seeded y s" "seed_grant x s = (Inr (), s')"
    then show "grant_seeded y s'"
      using seed_grant_run(1,2,4) [of x s s'] unfolding grant_seeded_def by (metis subsetD)
  qed (rule seed_grant_run(5))
  ultimately show ?thesis
    by (simp add: catalog_seeded_def role_seeded_def)
qed

lemma step_users:
  "seed_role env x s = (Inr (), s') \<Longrightarrow> t_users s' = t_users s"
  "seed_permission env n s = (Inr (), s') \<Longrightarrow> t_users s' = t_users s"
  "seed_scope env x s = (Inr (), s') \<Longrightarrow> t_users s' = t_users s"
  "seed_grant y s = (Inr (), s') \<Longrightarrow> t_users s' = t_users s"
  by (auto simp: seed_role_def seed_permission_def seed_scope_def seed_grant_def bindM_run insertM_Inr
      split: sum.splits prod.splits if_splits)

lemma seed_catalog_users: "seed_catalog env s = (Inr (), s') \<Longrightarrow> t_users s' = t_users s"
proof -
  assume run: "seed_catalog env s = (Inr (), s')"
  obtain s1 s2 s3 where roles: "each (seed_role env) SEED_ROLES s = (Inr (), s1)"
    and perms: "each (seed_permission env) SEED_PERMISSIONS s1 = (Inr (), s2)"
    and scopes: "each (seed_scope env) SEED_SCOPES s2 = (Inr (), s3)" and grants: "each seed_grant SEED_GRANTS s3 = (Inr (), s')"
    using run by (auto simp: seed_catalog_def bindM_run split: prod.splits sum.splits)
  note keeps = each_keeps [where P = "\<lambda>t. t_users t = t_users s"]
  have "t_users s1 = t_users s" by (rule keeps [OF roles]) (auto dest: step_users)
  then have "t_users s2 = t_users s" by (rule keeps [OF perms]) (auto dest: step_users)
  then have "t_users s3 = t_users s" by (rule keeps [OF scopes]) (auto dest: step_users)
  then show "t_users s' = t_users s" by (rule keeps [OF grants]) (auto dest: step_users)
qed

lemma seed_admin_run:
  assumes "seed_admin env cfg h s = (Inr (), s')"
  shows "t_roles s' = t_roles s" and "t_permissions s' = t_permissions s" and "t_scopes s' = t_scopes s"
    and "t_role_permissions s' = t_role_permissions s" and "admin_seeded cfg s'"
    and "(\<exists>u \<in> set (t_users s). citext_eq (u_email u) (ADMIN_EMAIL cfg)) \<Longrightarrow> t_users s' = t_users s"
proof -
  have refl: "citext_eq x x" for x by (simp add: citext_eq_def)
  show "t_roles s' = t_roles s" "t_permissions s' = t_permissions s" "t_scopes s' = t_scopes s"
    "t_role_permissions s' = t_role_permissions s"
    "(\<exists>u \<in> set (t_users s). citext_eq (u_email u) (ADMIN_EMAIL cfg)) \<Longrightarrow> t_users s' = t_users s"
    using assms by (auto simp: seed_admin_def bindM_run list_ex_iff insertM_Inr split: sum.splits prod.splits if_splits)
  show "admin_seeded cfg s'"
    using assms by (auto simp: seed_admin_def admin_seeded_def bindM_run list_ex_iff insertM_Inr refl split: sum.splits prod.splits if_splits; blast)
qed

lemma withTransaction_Inr [simp]: "withTransaction m s = (Inr x, s') \<longleftrightarrow> m s = (Inr x, s')"
  by (auto simp: withTransaction_def split: prod.splits sum.splits)

lemma runSeeds_run:
  assumes "runSeeds env cfg s = (Inr res, s')"
  obtains h s1 s2 where "seed_catalog env s = (Inr (), s1)" and "drawn s1 s2" and "seed_admin env cfg h s2 = (Inr (), s')"
    and "fst res = ADMIN_EMAIL cfg" and "truthy (ADMIN_PASSWORD cfg) \<longleftrightarrow> snd res = None"
proof -
  obtain s1 where cat: "seed_catalog env s = (Inr (), s1)"
    using assms by (auto simp: runSeeds_def bindM_run split: prod.splits sum.splits)
  then show ?thesis
    using assms that [OF cat, of "s1\<lparr>draws := Suc (draws s1)\<rparr>"] that [OF cat, of "s1\<lparr>draws := Suc (Suc (draws s1))\<rparr>"]
    by (cases "truthy (ADMIN_PASSWORD cfg)")
      (auto simp: runSeeds_def hashPassword_def bindM_run split: prod.splits sum.splits)
qed

lemma runSeeds_seeds:
  assumes "runSeeds env cfg s = (Inr res, s')"
  shows "seeded cfg s'"
proof -
  obtain h s1 s2 where "seed_catalog env s = (Inr (), s1)" and "drawn s1 s2" and admin: "seed_admin env cfg h s2 = (Inr (), s')"
    by (rule runSeeds_run [OF assms])
  then have "catalog_seeded s2"
    using seed_catalog_seeds drawn_seeded(1) by blast
  with seed_admin_run(1-4) [OF admin] have "catalog_seeded s'"
    by (simp add: catalog_seeded_def role_seeded_def grant_seeded_def)
  with seed_admin_run(5) [OF admin] show ?thesis by (simp add: seeded_def)
qed

section \<open>Running it again\<close>

lemma update_same: "(\<And>r. r \<in> set t \<Longrightarrow> p r \<Longrightarrow> f r = r) \<Longrightarrow> update_where p f t = t"
  by (auto simp: update_where_def intro!: map_idI)

lemma seed_role_again: "role_seeded x s \<Longrightarrow> \<exists>s'. seed_role env x s = (Inr (), s') \<and> drawn s s'"
proof -
  assume x: "role_seeded x s"
  have "update_where (\<lambda>r. ro_name r = fst x) (\<lambda>r. r\<lparr>ro_description := Some (snd x)\<rparr>) (t_roles s) = t_roles s"
    by (rule update_same) (use x in \<open>auto simp: role_seeded_def intro: role_row.equality\<close>)
  with x show ?thesis
    by (auto simp: seed_role_def role_seeded_def bindM_run list_ex_iff split: prod.split)
qed

lemma seed_permission_again: "\<exists>p \<in> set (t_permissions s). pe_name p = n \<Longrightarrow> \<exists>s'. seed_permission env n s = (Inr (), s') \<and> drawn s s'"
  by (auto simp: seed_permission_def bindM_run list_ex_iff)

lemma seed_scope_again: "\<exists>r \<in> set (t_scopes s). sc_name r = fst x \<Longrightarrow> \<exists>s'. seed_scope env x s = (Inr (), s') \<and> drawn s s'"
  by (auto simp: seed_scope_def bindM_run list_ex_iff split: prod.split)

lemma seed_grant_again:
  assumes "grant_seeded x s"
  shows "\<exists>s'. seed_grant x s = (Inr (), s') \<and> drawn s s'"
proof -
  define new where "new = [(ro_id r, pe_id p). r \<leftarrow> t_roles s, p \<leftarrow> t_permissions s,
        ro_name r = fst x \<and> pe_name p \<in> set (snd x) \<and> (ro_id r, pe_id p) \<notin> set (t_role_permissions s)]"
  have "seed_grant x s = (Inr (), s\<lparr>t_role_permissions := t_role_permissions s @ new\<rparr>)"
    by (simp add: seed_grant_def new_def split_beta)
  moreover have "new = []"
    using assms by (auto simp: new_def grant_seeded_def)
  ultimately show ?thesis by simp
qed

lemma seed_catalog_again: "catalog_seeded s \<Longrightarrow> \<exists>s'. seed_catalog env s = (Inr (), s') \<and> drawn s s'"
proof -
  assume s: "catalog_seeded s"
  have step: "\<exists>s'. each f xs t = (Inr (), s') \<and> drawn t s' \<and> catalog_seeded s'"
    if "catalog_seeded t" "\<And>x s. x \<in> set xs \<Longrightarrow> catalog_seeded s \<Longrightarrow> \<exists>s'. f x s = (Inr (), s') \<and> drawn s s'" for f and xs :: "'b list" and t
    using each_drawn [of catalog_seeded t xs f] that drawn_seeded(1) by blast
  obtain s1 where s1: "each (seed_role env) SEED_ROLES s = (Inr (), s1)" "drawn s s1" "catalog_seeded s1"
    using step [OF s, of SEED_ROLES "seed_role env"] seed_role_again unfolding catalog_seeded_def by blast
  obtain s2 where s2: "each (seed_permission env) SEED_PERMISSIONS s1 = (Inr (), s2)" "drawn s1 s2" "catalog_seeded s2"
    using step [OF s1(3), of SEED_PERMISSIONS "seed_permission env"] seed_permission_again unfolding catalog_seeded_def by blast
  obtain s3 where s3: "each (seed_scope env) SEED_SCOPES s2 = (Inr (), s3)" "drawn s2 s3" "catalog_seeded s3"
    using step [OF s2(3), of SEED_SCOPES "seed_scope env"] seed_scope_again unfolding catalog_seeded_def by blast
  obtain s4 where s4: "each seed_grant SEED_GRANTS s3 = (Inr (), s4)" "drawn s3 s4"
    using step [OF s3(3), of SEED_GRANTS seed_grant] seed_grant_again unfolding catalog_seeded_def by blast
  show ?thesis
    using s1(1,2) s2(1,2) s3(1,2) s4 by (auto simp: seed_catalog_def bindM_run intro: drawn_trans)
qed

lemma seed_admin_again: "admin_seeded cfg s \<Longrightarrow> \<exists>s'. seed_admin env cfg h s = (Inr (), s') \<and> drawn s s'"
proof -
  assume s: "admin_seeded cfg s"
  let ?new = "[(u_id u, ro_id r). u \<leftarrow> t_users s, r \<leftarrow> t_roles s,
           citext_eq (u_email u) (ADMIN_EMAIL cfg) \<and> ro_name r = ''admin'' \<and> (u_id u, ro_id r) \<notin> set (t_user_roles s)]"
  have "?new = []"
    using s by (auto simp: admin_seeded_def)
  then have "s\<lparr>draws := Suc (draws s), t_user_roles := t_user_roles s @ ?new\<rparr> = s\<lparr>draws := Suc (draws s)\<rparr>"
    by simp
  with s show ?thesis
    by (auto simp: seed_admin_def admin_seeded_def bindM_run list_ex_iff)
qed

lemma seeded_again:
  assumes "seeded cfg s"
  shows "\<exists>res s'. runSeeds env cfg s = (Inr res, s') \<and> drawn s s'"
proof -
  obtain s1 where cat: "withTransaction (seed_catalog env) s = (Inr (), s1)" and s1: "drawn s s1"
    using seed_catalog_again assms unfolding seeded_def withTransaction_Inr by blast
  have again: "\<exists>s'. withTransaction (seed_admin env cfg h) s2 = (Inr (), s') \<and> drawn s s'" if "drawn s1 s2" for h s2
  proof -
    have "admin_seeded cfg s2"
      using assms drawn_seeded(2) s1 that unfolding seeded_def by blast
    then show ?thesis using seed_admin_again s1 that unfolding withTransaction_Inr by (meson drawn_trans)
  qed
  show ?thesis
  proof (cases "truthy (ADMIN_PASSWORD cfg)")
    case True
    then show ?thesis
      using cat again [of "s1\<lparr>draws := Suc (draws s1)\<rparr>" "argon2_hash env (draws s1) (the (ADMIN_PASSWORD cfg))"]
      by (auto simp: runSeeds_def hashPassword_def bindM_run simp del: withTransaction_Inr)
  next
    case False
    then show ?thesis
      using cat again [of "s1\<lparr>draws := Suc (Suc (draws s1))\<rparr>" "argon2_hash env (Suc (draws s1)) (rand_b64url env 18 (draws s1))"]
      by (auto simp: runSeeds_def hashPassword_def bindM_run simp del: withTransaction_Inr)
  qed
qed

text \<open>
  The seeds are idempotent. After a run, any later run with the same configuration succeeds and
  leaves every table as it was; only random numbers are drawn.
\<close>

theorem seeds_idempotent:
  assumes "runSeeds env cfg s = (Inr res, s')"
  shows "\<exists>res' s''. runSeeds env' cfg (elapse d s') = (Inr res', s'') \<and> drawn (elapse d s') s''"
proof -
  have "seeded cfg (elapse d s')"
    using runSeeds_seeds [OF assms] by (simp add: seeded_def seeded_defs elapse_def)
  then show ?thesis by (rule seeded_again)
qed

text \<open>
  The first administrator. After a run the account with the configured address exists and the
  permissions looked up for it contain every permission of the catalogue, so it passes every guard of
  the administration; if an account with that address existed before, it is the one that becomes the
  administrator, with the password it had, although a password is generated and returned whenever none
  is configured.
\<close>

theorem seeds_make_administrator:
  assumes "runSeeds env cfg s = (Inr res, s')"
  shows "(\<exists>u \<in> set (t_users s'). citext_eq (u_email u) (ADMIN_EMAIL cfg)
      \<and> (\<exists>ps. users_permissionsOf (u_id u) s' = (Inr ps, s') \<and> set SEED_PERMISSIONS \<subseteq> set ps))
    \<and> ((\<exists>u \<in> set (t_users s). citext_eq (u_email u) (ADMIN_EMAIL cfg)) \<longrightarrow>
         t_users s' = t_users s \<and> (\<not> truthy (ADMIN_PASSWORD cfg) \<longrightarrow> snd res \<noteq> None))"
proof -
  obtain h s1 s2 where cat: "seed_catalog env s = (Inr (), s1)" and s2: "drawn s1 s2" and admin: "seed_admin env cfg h s2 = (Inr (), s')"
    and res: "truthy (ADMIN_PASSWORD cfg) \<longleftrightarrow> snd res = None"
    by (rule runSeeds_run [OF assms])
  have seeded: "catalog_seeded s'" "admin_seeded cfg s'"
    using runSeeds_seeds [OF assms] by (simp_all add: seeded_def)
  then obtain u where u: "u \<in> set (t_users s')" "citext_eq (u_email u) (ADMIN_EMAIL cfg)"
    unfolding admin_seeded_def by blast
  obtain ps where ps: "users_permissionsOf (u_id u) s' = (Inr ps, s')" and names: "\<And>name. name \<in> set ps \<longleftrightarrow>
      (\<exists>p \<in> set (t_permissions s'). \<exists>role. pe_name p = name \<and> (role, pe_id p) \<in> set (t_role_permissions s')
         \<and> (u_id u, role) \<in> set (t_user_roles s'))"
    using permissionsOf_spec [of "u_id u" s'] by blast
  have "(''admin'', ''Full administrative access'') \<in> set SEED_ROLES" and grant: "(''admin'', SEED_PERMISSIONS) \<in> set SEED_GRANTS"
    by (simp_all add: SEED_ROLES_def SEED_GRANTS_def)
  then obtain r where r: "r \<in> set (t_roles s')" "ro_name r = ''admin''"
    using catalog_seededD(1) [OF seeded(1)] unfolding role_seeded_def by fastforce
  have granted: "grant_seeded (''admin'', SEED_PERMISSIONS) s'"
    using catalog_seededD(4) [OF seeded(1) grant] .
  have "name \<in> set ps" if "name \<in> set SEED_PERMISSIONS" for name
  proof -
    from catalog_seededD(2) [OF seeded(1) that] obtain p where p: "p \<in> set (t_permissions s')" "pe_name p = name"
      by blast
    have "(ro_id r, pe_id p) \<in> set (t_role_permissions s')"
      using granted r p that unfolding grant_seeded_def by simp
    moreover have "(u_id u, ro_id r) \<in> set (t_user_roles s')"
      using seeded(2) u r unfolding admin_seeded_def by blast
    ultimately show ?thesis using p names by blast
  qed
  then have rights: "set SEED_PERMISSIONS \<subseteq> set ps" by blast
  have "t_users s2 = t_users s1"
    using s2 by (auto simp: drawn_def)
  with seed_catalog_users [OF cat] have users: "t_users s2 = t_users s" by simp
  have "t_users s' = t_users s" if "\<exists>u \<in> set (t_users s). citext_eq (u_email u) (ADMIN_EMAIL cfg)"
    using seed_admin_run(6) [OF admin] that unfolding users .
  with u ps rights res show ?thesis by blast
qed

text \<open>A configuration, and the seeds on an empty database.\<close>

definition seed_config :: app_config where
  "seed_config = (config.extend sample_cfg (app_config.fields ''test'' 3000 3001 3002 ''info'' [] 5 [] ''local'' [] 12 ''mock''
     None 25 None None [] False [] False None 15 [] [] 3003 [] [] ''admin@auth.local'' None [] True))"

definition first_seed :: "(exn + string \<times> string option) \<times> world" where
  "first_seed = runSeeds sample_env seed_config empty_world"

lemma first_seed_run: "\<exists>res. first_seed = (Inr res, snd first_seed)"
proof -
  have "case first_seed of (Inr _, _) \<Rightarrow> True | _ \<Rightarrow> False"
    by code_simp
  then obtain res s' where "first_seed = (Inr res, s')"
    by (auto split: prod.splits sum.splits)
  then show ?thesis by (metis snd_conv)
qed

theorem seeds_idempotent_witness:
  "\<exists>res' s''. runSeeds sample_env seed_config (elapse 1000 (snd first_seed)) = (Inr res', s'') \<and> drawn (elapse 1000 (snd first_seed)) s''"
proof -
  obtain res where "first_seed = (Inr res, snd first_seed)"
    using first_seed_run by blast
  from seeds_idempotent [OF this [unfolded first_seed_def]] show ?thesis
    unfolding first_seed_def .
qed

theorem seeds_make_administrator_witness:
  "\<exists>u \<in> set (t_users (snd first_seed)). citext_eq (u_email u) ''admin@auth.local''
      \<and> (\<exists>ps. users_permissionsOf (u_id u) (snd first_seed) = (Inr ps, snd first_seed) \<and> set SEED_PERMISSIONS \<subseteq> set ps)"
proof -
  obtain res where "first_seed = (Inr res, snd first_seed)"
    using first_seed_run by blast
  moreover have "ADMIN_EMAIL seed_config = ''admin@auth.local''"
    by code_simp
  ultimately show ?thesis
    using seeds_make_administrator [of sample_env seed_config empty_world res "snd first_seed"] unfolding first_seed_def by simp
qed

end
