(* ===== verification/Interleaving.thy ===== *)
theory Interleaving
  imports Redis
begin

text \<open>
  Programs at the grain of their awaits. Between two commands to the database or to Redis a handler of
  the code runs without a break, and commands of other requests may come in between. A program is a
  result, or a command with what follows it; requests that run at the same time are a list of programs,
  and a schedule says whose command comes next and when time passes.
\<close>

section \<open>Programs\<close>

datatype ('s, 'e, 'a) program = Ended "'e + 'a" | Command "'s \<Rightarrow> ('s, 'e, 'a) program \<times> 's"

definition command :: "('s, 'e, 'a) action \<Rightarrow> ('s, 'e, 'a) program" where
  "command m = Command (\<lambda>s. case m s of (r, s') \<Rightarrow> (Ended r, s'))"

primrec andThen :: "('s, 'e, 'a) program \<Rightarrow> ('a \<Rightarrow> ('s, 'e, 'b) program) \<Rightarrow> ('s, 'e, 'b) program" where
  "andThen (Ended r) k = (case r of Inl e \<Rightarrow> Ended (Inl e) | Inr x \<Rightarrow> k x)"
| "andThen (Command f) k = Command (map_prod (\<lambda>p. andThen p k) id \<circ> f)"

text \<open>A program alone, from its start to its end.\<close>

primrec run :: "('s, 'e, 'a) program \<Rightarrow> ('s, 'e, 'a) action" where
  "run (Ended r) = (\<lambda>s. (r, s))"
| "run (Command f) = (\<lambda>s. case (map_prod run id \<circ> f) s of (m, s') \<Rightarrow> m s')"

lemma run_command [simp]: "run (command m) = m"
  by (rule ext) (simp add: command_def split: prod.split)

lemma run_andThen [simp]: "run (andThen p k) = bindM (run p) (\<lambda>x. run (k x))"
proof (induction p)
  case (Ended r)
  then show ?case by (cases r) (simp_all add: bindM_def fun_eq_iff)
next
  case (Command f)
  show ?case
  proof (rule ext)
    fix s
    obtain p' s' where f: "f s = (p', s')" by (cases "f s")
    have "run (andThen p' k) = bindM (run p') (\<lambda>x. run (k x))"
      by (rule Command [of "f s"]) (use f rangeI [of f s] in simp_all)
    with f show "run (andThen (Command f) k) s = bindM (run (Command f)) (\<lambda>x. run (k x)) s"
      by (simp add: bindM_def)
  qed
qed

lemma run_Ended: "run (Ended (Inr x)) = returnM x" "run (Ended (Inl e)) = throwM e"
  by (simp_all add: returnM_def throwM_def)

lemma run_case_sum: "run (case r of Inl e \<Rightarrow> p e | Inr x \<Rightarrow> q x) = (case r of Inl e \<Rightarrow> run (p e) | Inr x \<Rightarrow> run (q x))"
  by (simp split: sum.split)

lemma run_case_option [simp]: "run (case x of None \<Rightarrow> p | Some y \<Rightarrow> q y) = (case x of None \<Rightarrow> run p | Some y \<Rightarrow> run (q y))"
  by (simp split: option.split)

lemma run_case_prod [simp]: "run (case x of (y, z) \<Rightarrow> p y z) = (case x of (y, z) \<Rightarrow> run (p y z))"
  by (simp split: prod.split)

lemma run_if [simp]: "run (if b then p else q) = (if b then run p else run q)"
  by simp

declare run.simps(1) [simp del]
declare run_Ended [simp]

section \<open>Schedules\<close>

fun advance_program :: "('s, 'e, 'a) program \<Rightarrow> 's \<Rightarrow> ('s, 'e, 'a) program \<times> 's" where
  "advance_program (Ended r) s = (Ended r, s)"
| "advance_program (Command f) s = f s"

datatype event = Turn nat | Wait nat

fun schedule :: "event list \<Rightarrow> (world, 'e, 'a) program list \<Rightarrow> world \<Rightarrow> (world, 'e, 'a) program list \<times> world" where
  "schedule [] ts s = (ts, s)"
| "schedule (Turn i # es) ts s =
     (if i < length ts then (case advance_program (ts ! i) s of (p, s') \<Rightarrow> schedule es (ts[i := p]) s')
      else schedule es ts s)"
| "schedule (Wait d # es) ts s = schedule es ts (elapse (int d) s)"


lemma schedule_append: "schedule (es @ es') ts s = (case schedule es ts s of (ts', s') \<Rightarrow> schedule es' ts' s')"
  by (induction es ts s rule: schedule.induct) (simp_all split: prod.split)

section \<open>What the others may rely on\<close>

text \<open>
  A program keeps a property of the state when each of its commands does, whatever the state was at the
  commands before it; so it keeps it under every schedule.
\<close>

primrec keeps :: "('s \<Rightarrow> bool) \<Rightarrow> ('s, 'e, 'a) program \<Rightarrow> bool" where
  "keeps I (Ended r) \<longleftrightarrow> True"
| "keeps I (Command f) \<longleftrightarrow> (\<forall>s. (I s \<longrightarrow> I (snd (f s))) \<and> fst ((map_prod (keeps I) id \<circ> f) s))"

lemma keeps_Command: "keeps I (Command f) \<longleftrightarrow> (\<forall>s. (I s \<longrightarrow> I (snd (f s))) \<and> keeps I (fst (f s)))"
  by simp

declare keeps.simps(2) [simp del]

lemma keeps_command [pres]:
  assumes "preserves I m"
  shows "keeps I (command m)"
  using preserves_snd [OF assms] by (simp add: keeps_Command command_def split_beta)

lemma keeps_andThen [pres]:
  assumes "keeps I p" and "\<And>x. keeps I (k x)"
  shows "keeps I (andThen p k)"
  using assms(1)
proof (induction p)
  case (Ended r)
  with assms(2) show ?case by (cases r) simp_all
next
  case (Command f)
  have "keeps I (andThen (fst (f s)) k)" for s
    by (rule Command.IH [OF rangeI [of f s]]) (use Command.prems in \<open>simp_all add: keeps_Command fsts.intros\<close>)
  with Command.prems show ?case by (simp add: keeps_Command)
qed

lemma keeps_cases [pres]:
  "keeps I p \<Longrightarrow> keeps I q \<Longrightarrow> keeps I (if b then p else q)"
  "keeps I p \<Longrightarrow> (\<And>y. keeps I (g y)) \<Longrightarrow> keeps I (case x of None \<Rightarrow> p | Some y \<Rightarrow> g y)"
  "(\<And>y z. keeps I (h y z)) \<Longrightarrow> keeps I (case pr of (y, z) \<Rightarrow> h y z)"
  by (simp_all split: option.split prod.split)

lemma keeps_Ended [pres]: "keeps I (Ended r)"
  by simp

lemma keeps_advance:
  assumes "keeps I p" and "advance_program p s = (p', s')"
  shows "keeps I p'" and "I s \<longrightarrow> I s'"
proof -
  have "keeps I p' \<and> (I s \<longrightarrow> I s')"
  proof (cases p)
    case (Command f)
    with assms(2) have "f s = (p', s')" by simp
    moreover have "(I s \<longrightarrow> I (snd (f s))) \<and> keeps I (fst (f s))"
      using assms(1) unfolding Command keeps_Command by blast
    ultimately show ?thesis by simp
  qed (use assms in auto)
  then show "keeps I p'" and "I s \<longrightarrow> I s'" by simp_all
qed

text \<open>The steps of a schedule, one by one: an induction rule for what holds along every schedule.\<close>

lemma schedule_induct [consumes 2, case_names turn wait]:
  assumes "schedule es ts s = (ts', s')" and "P ts s"
    and "\<And>ts s i p s1. i < length ts \<Longrightarrow> advance_program (ts ! i) s = (p, s1) \<Longrightarrow> P ts s \<Longrightarrow> P (ts[i := p]) s1"
    and "\<And>ts s d. P ts s \<Longrightarrow> P ts (elapse (int d) s)"
  shows "P ts' s'"
  using assms(1,2)
proof (induction es ts s rule: schedule.induct)
  case (2 i es ts s)
  show ?case
  proof (cases "i < length ts")
    case True
    obtain p s1 where p: "advance_program (ts ! i) s = (p, s1)" by (cases "advance_program (ts ! i) s")
    have "P (ts[i := p]) s1" by (rule assms(3) [OF True p "2.prems"(2)])
    then show ?thesis using "2.IH"(1) [OF True p [symmetric]] "2.prems"(1) p True by simp
  next
    case False
    then show ?thesis using "2.IH"(2) "2.prems" by simp
  qed
next
  case (3 d es ts s)
  have "P ts (elapse (int d) s)" by (rule assms(4) [OF "3.prems"(2)])
  then show ?case using "3.IH" "3.prems"(1) by simp
qed simp

lemma schedule_length: "schedule es ts s = (ts', s') \<Longrightarrow> length ts' = length ts"
  by (rule schedule_induct [where P = "\<lambda>x _. length x = length ts"]) simp_all

lemma schedule_keeps:
  assumes "schedule es ts s = (ts', s')" and "\<And>t. t \<in> set ts \<Longrightarrow> keeps I t" and "\<And>s d. I s \<Longrightarrow> I (elapse d s)" and "I s"
  shows "(\<forall>t \<in> set ts'. keeps I t) \<and> I s'"
proof -
  have "(\<forall>t \<in> set ts. keeps I t) \<and> I s" using assms(2,4) by blast
  with assms(1) show ?thesis
  proof (induction rule: schedule_induct)
    case (turn ts s i p s1)
    then have "keeps I p" and "I s1" using keeps_advance [OF _ turn(2), of I] by auto
    with turn(3) show ?case using set_update_subset_insert [of ts i p] by auto
  next
    case (wait ts s d)
    then show ?case using assms(3) by blast
  qed
qed

section \<open>Answers that an invariant guarantees\<close>

text \<open>A program whose answers satisfy \<open>Q\<close> as long as its commands meet states with \<open>I\<close>.\<close>

primrec ensures :: "('s \<Rightarrow> bool) \<Rightarrow> ('e + 'a \<Rightarrow> bool) \<Rightarrow> ('s, 'e, 'a) program \<Rightarrow> bool" where
  "ensures I Q (Ended r) \<longleftrightarrow> Q r"
| "ensures I Q (Command f) \<longleftrightarrow> (\<forall>s. I s \<longrightarrow> fst ((map_prod (ensures I Q) id \<circ> f) s))"

lemma ensures_Command: "ensures I Q (Command f) \<longleftrightarrow> (\<forall>s. I s \<longrightarrow> ensures I Q (fst (f s)))"
  by simp

declare ensures.simps(2) [simp del]

lemma ensures_command: "(\<And>s. I s \<Longrightarrow> Q (fst (m s))) \<Longrightarrow> ensures I Q (command m)"
  by (simp add: ensures_Command command_def split_beta)

lemma ensures_andThen:
  assumes "ensures I R p" and "\<And>x. R (Inr x) \<Longrightarrow> ensures I Q (k x)" and "\<And>e. R (Inl e) \<Longrightarrow> Q (Inl e)"
  shows "ensures I Q (andThen p k)"
  using assms(1)
proof (induction p)
  case (Ended r)
  with assms(2,3) show ?case by (cases r) simp_all
next
  case (Command f)
  have "ensures I Q (andThen (fst (f s)) k)" if "I s" for s
    by (rule Command.IH [OF rangeI [of f s]]) (use Command.prems that in \<open>simp_all add: ensures_Command fsts.intros\<close>)
  then show ?case by (simp add: ensures_Command)
qed

lemma schedule_ensures:
  assumes "schedule es ts s = (ts', s')" and "\<And>t. t \<in> set ts \<Longrightarrow> keeps I t" and "\<And>s d. I s \<Longrightarrow> I (elapse d s)" and "I s"
    and "i < length ts" and "ensures I Q (ts ! i)"
  shows "ensures I Q (ts' ! i)"
proof -
  have "i < length ts \<and> I s \<and> (\<forall>t \<in> set ts. keeps I t) \<and> ensures I Q (ts ! i)" using assms by blast
  with assms(1) have "i < length ts' \<and> I s' \<and> (\<forall>t \<in> set ts'. keeps I t) \<and> ensures I Q (ts' ! i)"
  proof (induction rule: schedule_induct)
    case (turn ts s j p s1)
    then have "keeps I p" and "I s1" using keeps_advance [OF _ turn(2), of I] by auto
    moreover have "ensures I Q p" if "j = i"
      using turn that by (cases "ts ! i") (auto simp: ensures_Command)
    ultimately show ?case
      using turn(1,3) set_update_subset_insert [of ts j p] by (cases "j = i") auto
  next
    case (wait ts s d)
    then show ?case using assms(3) by blast
  qed
  then show ?thesis by blast
qed

lemma ensures_True [simp]: "ensures I (\<lambda>_. True) p"
  by (induction p) (simp_all add: ensures_Command, metis fsts.intros rangeI)

section \<open>Contention for something that can be taken once\<close>

text \<open>
  \<open>spent\<close> says that the thing is taken. A careful program keeps the invariant and what is spent; the one
  command with which it takes the thing finds it there and leaves it spent, and afterwards it keeps
  both. A program that has taken nothing has not won.
\<close>

primrec careful :: "('s \<Rightarrow> bool) \<Rightarrow> ('s \<Rightarrow> bool) \<Rightarrow> ('e + 'a \<Rightarrow> bool) \<Rightarrow> ('s, 'e, 'a) program \<Rightarrow> bool" where
  "careful I spent won (Ended r) \<longleftrightarrow> \<not> won r"
| "careful I spent won (Command f) \<longleftrightarrow> (\<forall>s. I s \<longrightarrow> I (snd (f s)) \<and> (spent s \<longrightarrow> spent (snd (f s)))
     \<and> (fst ((map_prod (careful I spent won) id \<circ> f) s)
        \<or> \<not> spent s \<and> spent (snd (f s)) \<and> keeps (\<lambda>s. I s \<and> spent s) (fst (f s))))"

lemma careful_Command: "careful I spent won (Command f) \<longleftrightarrow> (\<forall>s. I s \<longrightarrow> I (snd (f s)) \<and> (spent s \<longrightarrow> spent (snd (f s)))
     \<and> (careful I spent won (fst (f s)) \<or> \<not> spent s \<and> spent (snd (f s)) \<and> keeps (\<lambda>s. I s \<and> spent s) (fst (f s))))"
  by simp

declare careful.simps(2) [simp del]

lemma careful_andThen:
  assumes "\<And>s r s'. I s \<Longrightarrow> m s = (r, s') \<Longrightarrow> I s' \<and> (spent s \<longrightarrow> spent s')"
    and "\<And>s e s'. I s \<Longrightarrow> m s = (Inl e, s') \<Longrightarrow> \<not> won (Inl e)"
    and "\<And>s x s'. I s \<Longrightarrow> m s = (Inr x, s') \<Longrightarrow> careful I spent won (k x)
       \<or> \<not> spent s \<and> spent s' \<and> keeps (\<lambda>s. I s \<and> spent s) (k x)"
  shows "careful I spent won (andThen (command m) k)"
proof -
  have "I (snd (m s)) \<and> (spent s \<longrightarrow> spent (snd (m s))) \<and> (careful I spent won (case fst (m s) of Inl e \<Rightarrow> Ended (Inl e) | Inr x \<Rightarrow> k x)
      \<or> \<not> spent s \<and> spent (snd (m s)) \<and> keeps (\<lambda>s. I s \<and> spent s) (case fst (m s) of Inl e \<Rightarrow> Ended (Inl e) | Inr x \<Rightarrow> k x))" if "I s" for s
  proof (cases "m s")
    case (Pair r s')
    show ?thesis
    proof (cases r)
      case (Inl e)
      with Pair that assms(1) [of s "Inl e" s'] assms(2) [of s e s'] show ?thesis by simp
    next
      case (Inr x)
      with Pair that assms(1) [of s "Inr x" s'] assms(3) [of s x s'] show ?thesis by simp
    qed
  qed
  then show ?thesis by (simp add: command_def careful_Command split_beta)
qed

locale contended =
  fixes I :: "world \<Rightarrow> bool"
    and spent :: "world \<Rightarrow> bool"
    and won :: "'e + 'a \<Rightarrow> bool"
    and attempt :: "'c \<Rightarrow> (world, 'e, 'a) program"
  assumes attempt_careful: "careful I spent won (attempt c)"
    and I_elapse: "I s \<Longrightarrow> I (elapse d s)"
    and spent_elapse: "spent s \<Longrightarrow> spent (elapse d s)"
begin

text \<open>At every moment at most one program has taken the thing, and it is spent then.\<close>

definition fair :: "(world, 'e, 'a) program list \<Rightarrow> world \<Rightarrow> bool" where
  "fair ts s \<longleftrightarrow> I s
     \<and> (\<forall>i < length ts. careful I spent won (ts ! i) \<or> spent s \<and> keeps (\<lambda>s. I s \<and> spent s) (ts ! i))
     \<and> (\<forall>i < length ts. \<forall>j < length ts. \<not> careful I spent won (ts ! i) \<longrightarrow> \<not> careful I spent won (ts ! j) \<longrightarrow> i = j)"

lemma fair_turn:
  assumes "fair ts s" and "i < length ts" and "advance_program (ts ! i) s = (p, s1)"
  shows "fair (ts[i := p]) s1"
proof -
  have inv: "I s" and each: "\<And>j. j < length ts \<Longrightarrow> careful I spent won (ts ! j) \<or> spent s \<and> keeps (\<lambda>s. I s \<and> spent s) (ts ! j)"
    and one: "\<And>j k. j < length ts \<Longrightarrow> k < length ts \<Longrightarrow> \<not> careful I spent won (ts ! j) \<Longrightarrow> \<not> careful I spent won (ts ! k) \<Longrightarrow> j = k"
    using assms(1) unfolding fair_def by blast+
  have step: "I s1 \<and> (spent s \<longrightarrow> spent s1)
      \<and> (careful I spent won p \<or> spent s1 \<and> keeps (\<lambda>s. I s \<and> spent s) p \<and> (\<not> careful I spent won (ts ! i) \<or> \<not> spent s))"
  proof (cases "careful I spent won (ts ! i)")
    case True
    show ?thesis
    proof (cases "ts ! i")
      case (Ended r)
      with assms(3) inv True show ?thesis by auto
    next
      case (Command f)
      with assms(3) have "f s = (p, s1)" by simp
      with True [unfolded Command careful_Command] inv show ?thesis by (metis fst_conv snd_conv)
    qed
  next
    case False
    with each [OF assms(2)] have "spent s" "keeps (\<lambda>s. I s \<and> spent s) (ts ! i)" by simp_all
    with keeps_advance [OF _ assms(3)] inv False show ?thesis by blast
  qed
  have other: "careful I spent won (ts ! j) \<or> spent s \<and> keeps (\<lambda>s. I s \<and> spent s) (ts ! j)" if "j < length ts" for j
    using each that by blast
  show ?thesis
    unfolding fair_def
  proof (intro conjI allI impI)
    show "I s1" using step by blast
    fix j assume j: "j < length (ts[i := p])"
    show "careful I spent won (ts[i := p] ! j) \<or> spent s1 \<and> keeps (\<lambda>s. I s \<and> spent s) (ts[i := p] ! j)"
      using step other [of j] j by (cases "j = i") auto
    fix k assume k: "k < length (ts[i := p])"
    assume nj: "\<not> careful I spent won (ts[i := p] ! j)" and nk: "\<not> careful I spent won (ts[i := p] ! k)"
    show "j = k"
    proof (rule ccontr)
      assume "j \<noteq> k"
      have "False" if "a = i" "b \<noteq> i" "b < length ts" "\<not> careful I spent won p" "\<not> careful I spent won (ts ! b)" for a b
        using that step other [of b] one [of b i] assms(2) by blast
      then show False
        using \<open>j \<noteq> k\<close> j k nj nk one [of j k] by (cases "j = i"; cases "k = i") auto
    qed
  qed
qed

lemma at_most_one_winner:
  assumes "schedule es (map attempt cs @ others) s = (ts, s')" and "I s" and "\<And>t. t \<in> set others \<Longrightarrow> careful I spent won t"
    and "i < length ts" and "j < length ts" and "ts ! i = Ended r" and "won r" and "ts ! j = Ended r'" and "won r'"
  shows "i = j" and "spent s'"
proof -
  have "careful I spent won ((map attempt cs @ others) ! k)" if "k < length (map attempt cs @ others)" for k
    using that attempt_careful assms(3) nth_mem [of "k - length cs" others] by (auto simp: nth_append)
  then have "fair (map attempt cs @ others) s"
    using assms(2) unfolding fair_def by blast
  with assms(1) have "fair ts s'"
  proof (induction rule: schedule_induct)
    case (turn ts s i p s1)
    then show ?case using fair_turn by blast
  next
    case (wait ts s d)
    then show ?case using I_elapse spent_elapse unfolding fair_def by blast
  qed
  then show "i = j" and "spent s'"
    using assms(4-) unfolding fair_def by (metis careful.simps(1))+
qed

end

end
