(* ===== verification/Statements.thy ===== *)
theory Statements
  imports Interleaving OAuth Auth
begin

text \<open>
  The operations that several requests may contend for, as programs: a command for every statement they
  send to the database and every command they send to Redis, in the order of the code, with what the
  code computes in between. Run alone, each is the operation of its component.
\<close>

section \<open>Sessions\<close>

definition sessions_loadFresh_program :: "uuid \<Rightarrow> (world, exn, session_row option) program" where
  "sessions_loadFresh_program uid =
     andThen (command (getM (\<lambda>s. session_in s uid))) (\<lambda>row.
     case row of
       None \<Rightarrow> Ended (Inr None)
     | Some r \<Rightarrow> andThen (command (redis_setJson (sess_key uid) (RSession r) (Some 300))) (\<lambda>_. Ended (Inr (Some r))))"

definition sessions_findById_program :: "uuid \<Rightarrow> (world, exn, session_row option) program" where
  "sessions_findById_program uid =
     andThen (command (redis_getJson (sess_key uid))) (\<lambda>cached.
     case cached of
       Some (RSession c) \<Rightarrow>
         if ss_status c \<noteq> Session_active then Ended (Inr (Some c))
         else
           andThen (sessions_loadFresh_program uid) (\<lambda>fresh.
           case fresh of
             None \<Rightarrow> andThen (command (redis_del (sess_key uid))) (\<lambda>_. Ended (Inr None))
           | Some r \<Rightarrow> Ended (Inr (Some r)))
     | _ \<Rightarrow> sessions_loadFresh_program uid)"

definition sessions_revoke_program :: "uuid \<Rightarrow> string \<Rightarrow> (world, exn, unit) program" where
  "sessions_revoke_program uid reason =
     andThen (command (modifyM (\<lambda>s. s\<lparr>t_sessions := update_where (\<lambda>r. ss_id r = uid \<and> ss_status r = Session_active)
              (revoke_session (clock s) reason) (t_sessions s)\<rparr>))) (\<lambda>_.
     andThen (command (modifyM (\<lambda>s. s\<lparr>t_refresh := update_where (\<lambda>r. rt_session_id r = uid \<and> rt_status r = Token_active)
              (revoke_refresh (clock s)) (t_refresh s)\<rparr>))) (\<lambda>_.
     command (redis_del (sess_key uid))))"

section \<open>Authorization codes\<close>

text \<open>\<open>UPDATE ... WHERE id = $1 AND consumed_at IS NULL RETURNING ...\<close> is one statement.\<close>

definition code_flip :: "uuid \<Rightarrow> code_row option act" where
  "code_flip uid = (\<lambda>s.
     let p = (\<lambda>r. ac_id r = uid \<and> ac_consumed_at r = None); f = consume_code (clock s) in
     (Inr (first_row (updated_rows p f (t_codes s))), s\<lparr>t_codes := update_where p f (t_codes s)\<rparr>))"

definition codes_consume_program :: "externals \<Rightarrow> string \<Rightarrow> string \<Rightarrow> string \<Rightarrow> (world, exn, code_row option) program" where
  "codes_consume_program env code clientId redirectUri =
     andThen (command (getM (code_lookup env code))) (\<lambda>found.
     case found of
       None \<Rightarrow> Ended (Inr None)
     | Some (row, client_ref) \<Rightarrow>
         if client_ref \<noteq> clientId \<or> ac_redirect_uri row \<noteq> redirectUri then Ended (Inr None)
         else if ac_consumed_at row \<noteq> None then Ended (Inl (CodeReplayError (ac_user_id row) client_ref))
         else
           andThen (command nowM) (\<lambda>now.
           if ac_expires_at row < now then Ended (Inr None)
           else
             andThen (command (code_flip (ac_id row))) (\<lambda>updated.
             case updated of
               None \<Rightarrow> Ended (Inl (CodeReplayError (ac_user_id row) client_ref))
             | Some r \<Rightarrow> Ended (Inr (Some r)))))"

section \<open>Refresh tokens\<close>

definition refresh_reuse_program :: "string \<Rightarrow> (world, exn, unit) program" where
  "refresh_reuse_program tokenHash =
     andThen (command (getM (\<lambda>s. List.find (\<lambda>r. rt_token_hash r = tokenHash) (t_refresh s)))) (\<lambda>known.
     case known of
       Some knownRow \<Rightarrow>
         andThen (command (refresh_revokeWhere (\<lambda>r. rt_family_id r = rt_family_id knownRow))) (\<lambda>_.
         andThen (command (modifyM (\<lambda>s. s\<lparr>t_sessions := update_where
                  (\<lambda>r. ss_id r = rt_session_id knownRow \<and> ss_status r = Session_active)
                  (revoke_session (clock s) ''refresh_token_reuse'') (t_sessions s)\<rparr>))) (\<lambda>_.
         Ended (Inl (AppError 401 ''REFRESH_TOKEN_REUSE'' ''Refresh token reuse detected - session revoked''))))
     | None \<Rightarrow> Ended (Inr ()))"

definition refresh_consume_program :: "externals \<Rightarrow> config \<Rightarrow> string \<Rightarrow> (world, exn, consumed_refresh) program" where
  "refresh_consume_program env cfg token =
     andThen (command (refresh_rotate (refresh_hash env token))) (\<lambda>row.
     case row of
       None \<Rightarrow>
         andThen (refresh_reuse_program (refresh_hash env token)) (\<lambda>_.
         Ended (Inl (AuthError ''Invalid refresh token'' ''INVALID_REFRESH_TOKEN'')))
     | Some r \<Rightarrow>
         andThen (command (refresh_issue env cfg
            \<lparr>rp_sessionId = rt_session_id r, rp_userId = rt_user_id r, rp_clientId = rt_client_id r,
             rp_scope = rt_scope r, rp_familyId = Some (rt_family_id r), rp_previousTokenId = Some (rt_id r)\<rparr>))
            (\<lambda>(nextToken, expiresAt).
          Ended (Inr \<lparr>cr_row = r, cr_nextToken = nextToken, cr_expiresAt = expiresAt\<rparr>)))"

section \<open>Login challenges\<close>

text \<open>The check of the code is between two awaits; the key service, which only reads, is one command.\<close>

definition mfa_answer_program :: "externals \<Rightarrow> config \<Rightarrow> string \<Rightarrow> mfa_challenge \<Rightarrow> string \<Rightarrow> (world, exn, uuid) program" where
  "mfa_answer_program env cfg key challenge code =
     (if 3 \<le> mc_attempts challenge then
        andThen (command (redis_del key)) (\<lambda>_. Ended (Inl (AuthError ''Too many MFA attempts'' ''MFA_ATTEMPTS_EXCEEDED'')))
      else
        andThen (command (mfa_getActiveMethod env (mc_userId challenge))) (\<lambda>meth.
        andThen (case meth of
                 None \<Rightarrow> Ended (Inr None)
               | Some m \<Rightarrow> andThen (command (mfa_decryptSecret env cfg (mm_secret_encrypted m))) (\<lambda>x. Ended (Inr (Some x)))) (\<lambda>secret.
        andThen (if truthy secret then command (totp_checkM env code (the secret)) else Ended (Inr False)) (\<lambda>good.
        if \<not> good then
          andThen (command (redis_setJson key (RChallenge (challenge\<lparr>mc_attempts := mc_attempts challenge + 1\<rparr>))
                   (Some (MFA_CHALLENGE_TTL cfg)))) (\<lambda>_.
          Ended (Inl (AuthError ''Invalid MFA code'' ''INVALID_MFA_CODE'')))
        else
          andThen (command (modifyM (\<lambda>s. s\<lparr>t_sessions := update_where (\<lambda>r. ss_id r = mc_sessionId challenge)
                   (\<lambda>r. r\<lparr>ss_mfa_passed := True\<rparr>) (t_sessions s)\<rparr>))) (\<lambda>_.
          andThen (command (modifyM (\<lambda>s. s\<lparr>t_mfa := update_where (\<lambda>m. mm_id m = mm_id (the meth))
                   (\<lambda>m. m\<lparr>mm_last_used_at := Some (clock s)\<rparr>) (t_mfa s)\<rparr>))) (\<lambda>_.
          andThen (command (redis_del key)) (\<lambda>_.
          Ended (Inr (mc_sessionId challenge)))))))))"

definition mfa_verify_program :: "externals \<Rightarrow> config \<Rightarrow> string \<Rightarrow> string \<Rightarrow> (world, exn, uuid) program" where
  "mfa_verify_program env cfg challengeId code =
     andThen (command (redis_getJson (mfa_challengeKey challengeId))) (\<lambda>stored.
     case stored of
       Some (RChallenge challenge) \<Rightarrow> mfa_answer_program env cfg (mfa_challengeKey challengeId) challenge code
     | _ \<Rightarrow> Ended (Inl (AuthError ''Invalid or expired MFA challenge'' ''INVALID_MFA_CHALLENGE'')))"

section \<open>Login\<close>

text \<open>What follows an accepted password is one command here: the contention is for the counter of failures.\<close>

definition login_failed_program :: "externals \<Rightarrow> config \<Rightarrow> user_row \<Rightarrow> request_context \<Rightarrow> (world, exn, unit) program" where
  "login_failed_program env cfg user ctx =
     andThen (command (users_recordFailedLogin (u_id user))) (\<lambda>_.
     let failures = u_failed_login_count user + 1 in
     andThen (if MAX_FAILED_LOGINS cfg \<le> failures then
        andThen (command nowM) (\<lambda>now.
        andThen (command (users_lockUntil (u_id user) (now + LOCKOUT_MINUTES cfg * 60000))) (\<lambda>_.
        command (audit_record env (with_meta [(''failures'', JNum failures)]
          (for_user (u_id user) (with_agent ctx (ctx_event ''USER_LOCKED'' ctx)))))))
        else Ended (Inr ())) (\<lambda>_.
     command (audit_record env (with_meta [(''reason'', JStr ''bad_password''), (''failures'', JNum failures)]
       (for_user (u_id user) (with_agent ctx (ctx_event ''USER_LOGIN_FAILED'' ctx)))))))"

definition login_answer_program :: "externals \<Rightarrow> config \<Rightarrow> string \<Rightarrow> request_context \<Rightarrow> user_row \<Rightarrow> (world, exn, login_result) program" where
  "login_answer_program env cfg password ctx user =
     andThen (command nowM) (\<lambda>now.
     case login_gate now user of
       Some e \<Rightarrow> Ended (Inl e)
     | None \<Rightarrow>
         if \<not> verifyPassword env (u_password_hash user) password then
           andThen (login_failed_program env cfg user ctx) (\<lambda>_. Ended (Inl InvalidCredentialsError))
         else if u_status user = User_pending_verification then
           Ended (Inl (AuthError ''Email address not verified'' ''EMAIL_NOT_VERIFIED''))
         else command (login_continue env cfg user ctx))"

definition login_program :: "externals \<Rightarrow> config \<Rightarrow> string \<Rightarrow> string \<Rightarrow> request_context \<Rightarrow> (world, exn, login_result) program" where
  "login_program env cfg email password ctx =
     andThen (command (users_findByEmail email)) (\<lambda>found.
     case found of
       None \<Rightarrow>
         andThen (command (audit_record env (with_meta [(''reason'', JStr ''unknown_email'')]
           (with_agent ctx (ctx_event ''USER_LOGIN_FAILED'' ctx))))) (\<lambda>_. Ended (Inl InvalidCredentialsError))
     | Some user \<Rightarrow> login_answer_program env cfg password ctx user)"

section \<open>Alone\<close>

lemma loadFresh_alone: "run (sessions_loadFresh_program uid) = sessions_loadFresh uid"
  by (rule ext) (simp add: sessions_loadFresh_program_def loadFresh_run bindM_run redis_setJson_def redis_set_run split: option.split)

lemma findById_alone: "run (sessions_findById_program uid) = sessions_findById uid"
  by (rule ext) (simp add: sessions_findById_program_def sessions_findById_def loadFresh_alone bindM_run
      split: option.split rvalue.split sum.split prod.split)

lemma revoke_alone: "run (sessions_revoke_program uid reason) = sessions_revoke uid reason"
  by (simp add: sessions_revoke_program_def sessions_revoke_def)

lemma code_consume_alone: "run (codes_consume_program env code c u) = codes_consume env code c u"
  by (rule ext) (simp add: codes_consume_program_def consume_eq bindM_run code_flip_def Let_def first_row_updated consumed_codes_def
      split: option.split)

lemma reuse_alone: "run (refresh_reuse_program h) = refresh_handleReuseOrInvalid h"
  by (rule ext) (simp add: refresh_reuse_program_def refresh_handleReuseOrInvalid_def bindM_run split: option.split)

lemma refresh_consume_alone: "run (refresh_consume_program env cfg token) = refresh_consume env cfg token"
  by (rule ext) (simp add: refresh_consume_program_def refresh_consume_def Let_def reuse_alone bindM_run split: option.split sum.split prod.split)

lemma mfa_verify_alone: "run (mfa_verify_program env cfg cid code) = mfa_verifyLoginChallenge env cfg cid code"
  by (rule ext) (simp add: mfa_verify_program_def mfa_answer_program_def mfa_verifyLoginChallenge_def Let_def bindM_run
      split: option.split rvalue.split sum.split prod.split)

lemma login_failed_alone: "run (login_failed_program env cfg user ctx) = login_failed env cfg user ctx"
  by (simp add: login_failed_program_def login_failed_def Let_def whenM_def)

lemma login_alone: "run (login_program env cfg email password ctx) = auth_login env cfg email password ctx"
  by (rule ext) (simp add: login_program_def login_answer_program_def auth_login_def login_failed_alone bindM_run if_distrib [of run] split: option.split sum.split prod.split)

end
