(* ===== verification/Single_Winner.thy ===== *)
theory Single_Winner
  imports Statements OAuth_Flow
begin

text \<open>
  What one conditional update takes is taken once: authorization codes and refresh tokens under every
  schedule of the statements of any number of requests.
\<close>

section \<open>Authorization codes\<close>

text \<open>A code is one row, with the identifier \<open>rid\<close> if there is any; it is spent when that row is consumed.\<close>

definition code_is :: "externals \<Rightarrow> string \<Rightarrow> uuid \<Rightarrow> world \<Rightarrow> bool" where
  "code_is env code rid s \<longleftrightarrow> codes_ok s \<and> (\<forall>r \<in> set (t_codes s). ac_code_hash r = code_hash_of env code \<longrightarrow> ac_id r = rid)"

definition code_gone :: "uuid \<Rightarrow> world \<Rightarrow> bool" where
  "code_gone rid s \<longleftrightarrow> (\<exists>r \<in> set (t_codes s). ac_id r = rid \<and> ac_consumed_at r \<noteq> None)"

definition code_won :: "exn + code_row option \<Rightarrow> bool" where
  "code_won x \<longleftrightarrow> (\<exists>r. x = Inr (Some r))"

lemma code_won_simps [simp]: "\<not> code_won (Inl e)" "\<not> code_won (Inr None)" "code_won (Inr (Some r))"
  by (simp_all add: code_won_def)

lemma code_flip_run:
  "code_flip rid s = (Inr (map_option (consume_code (clock s)) (List.find (\<lambda>r. ac_id r = rid \<and> ac_consumed_at r = None) (t_codes s))),
     s\<lparr>t_codes := update_where (\<lambda>r. ac_id r = rid \<and> ac_consumed_at r = None) (consume_code (clock s)) (t_codes s)\<rparr>)"
  by (simp add: code_flip_def Let_def first_row_updated)

lemma code_flip_keeps:
  assumes "code_flip rid' s = (r, s')" and "code_is env code rid s"
  shows "code_is env code rid s'" and "code_gone rid s \<Longrightarrow> code_gone rid s'"
proof -
  have s': "t_codes s' = update_where (\<lambda>r. ac_id r = rid' \<and> ac_consumed_at r = None) (consume_code (clock s)) (t_codes s)"
    using assms(1) by (auto simp: code_flip_run)
  show "code_is env code rid s'"
    using assms(2) by (auto simp: code_is_def codes_ok_def s' map_update_where set_update_where)
  show "code_gone rid s \<Longrightarrow> code_gone rid s'"
    by (auto simp: code_gone_def s' intro!: bexI)
qed

lemma code_flip_wins:
  assumes "code_flip rid s = (Inr (Some r), s')" and "code_is env code rid s"
  shows "\<not> code_gone rid s" and "code_gone rid s'"
proof -
  obtain row where "List.find (\<lambda>r. ac_id r = rid \<and> ac_consumed_at r = None) (t_codes s) = Some row"
    using assms(1) by (auto simp: code_flip_run)
  from find_SomeD [OF this] have row: "row \<in> set (t_codes s)" "ac_id row = rid" "ac_consumed_at row = None" by simp_all
  show "\<not> code_gone rid s"
  proof
    assume "code_gone rid s"
    then obtain x where x: "x \<in> set (t_codes s)" "ac_id x = rid" "ac_consumed_at x \<noteq> None"
      unfolding code_gone_def by blast
    with codes_ok_keys(2) [of s x row] row assms(2) show False by (simp add: code_is_def)
  qed
  have "consume_code (clock s) row \<in> set (t_codes s')"
    using assms(1) row by (auto simp: code_flip_run set_update_where intro!: exI bexI [of _ row] image_eqI [of _ _ row])
  then show "code_gone rid s'"
    using row(2) by (auto simp: code_gone_def intro!: bexI [of _ "consume_code (clock s) row"])
qed

lemma code_consume_careful:
  "careful (code_is env code rid) (code_gone rid) code_won (codes_consume_program env code c u)"
  unfolding codes_consume_program_def
proof (rule careful_andThen)
  fix s found s' assume "code_is env code rid s" and "getM (code_lookup env code) s = (Inr found :: exn + _, s')"
  then have ids: "ac_id row = rid" if "found = Some (row, ref)" for row ref
    using that code_lookup_set [of env code s row ref] by (auto simp: code_is_def)
  have flip: "careful (code_is env code rid) (code_gone rid) code_won (andThen (command (code_flip rid)) (\<lambda>updated.
      case updated of None \<Rightarrow> Ended (Inl (CodeReplayError a b)) | Some r \<Rightarrow> Ended (Inr (Some r))))" for a b
  proof (rule careful_andThen)
    fix s x s' assume "code_is env code rid s" and "code_flip rid s = (Inr x, s')"
    then show "careful (code_is env code rid) (code_gone rid) code_won (case x of None \<Rightarrow> Ended (Inl (CodeReplayError a b)) | Some r \<Rightarrow> Ended (Inr (Some r)))
      \<or> \<not> code_gone rid s \<and> code_gone rid s' \<and> keeps (\<lambda>s. code_is env code rid s \<and> code_gone rid s)
          (case x of None \<Rightarrow> Ended (Inl (CodeReplayError a b)) | Some r \<Rightarrow> Ended (Inr (Some r)))"
      using code_flip_wins by (cases x) auto
  qed (use code_flip_keeps in auto)
  have "careful (code_is env code rid) (code_gone rid) code_won (andThen (command nowM) (\<lambda>now.
      if t < now then Ended (Inr None) else andThen (command (code_flip rid)) (\<lambda>updated.
      case updated of None \<Rightarrow> Ended (Inl (CodeReplayError a b)) | Some r \<Rightarrow> Ended (Inr (Some r)))))" for t a b
    by (rule careful_andThen) (auto simp: flip nowM_def)
  then show "careful (code_is env code rid) (code_gone rid) code_won (case found of
       None \<Rightarrow> Ended (Inr None)
     | Some (row, client_ref) \<Rightarrow>
         if client_ref \<noteq> c \<or> ac_redirect_uri row \<noteq> u then Ended (Inr None)
         else if ac_consumed_at row \<noteq> None then Ended (Inl (CodeReplayError (ac_user_id row) client_ref))
         else
           andThen (command nowM) (\<lambda>now.
           if ac_expires_at row < now then Ended (Inr None)
           else
             andThen (command (code_flip (ac_id row))) (\<lambda>updated.
             case updated of
               None \<Rightarrow> Ended (Inl (CodeReplayError (ac_user_id row) client_ref))
             | Some r \<Rightarrow> Ended (Inr (Some r)))))
    \<or> \<not> code_gone rid s \<and> code_gone rid s' \<and> keeps (\<lambda>s. code_is env code rid s \<and> code_gone rid s) (case found of
       None \<Rightarrow> Ended (Inr None)
     | Some (row, client_ref) \<Rightarrow>
         if client_ref \<noteq> c \<or> ac_redirect_uri row \<noteq> u then Ended (Inr None)
         else if ac_consumed_at row \<noteq> None then Ended (Inl (CodeReplayError (ac_user_id row) client_ref))
         else
           andThen (command nowM) (\<lambda>now.
           if ac_expires_at row < now then Ended (Inr None)
           else
             andThen (command (code_flip (ac_id row))) (\<lambda>updated.
             case updated of
               None \<Rightarrow> Ended (Inl (CodeReplayError (ac_user_id row) client_ref))
             | Some r \<Rightarrow> Ended (Inr (Some r)))))"
    using ids by (auto split: option.split)
qed auto

interpretation code_race: contended "code_is env code rid" "code_gone rid" code_won
    "\<lambda>(c, u). codes_consume_program env code c u" for env code rid
proof
  show "careful (code_is env code rid) (code_gone rid) code_won (case x of (c, u) \<Rightarrow> codes_consume_program env code c u)" for x
    by (cases x) (simp add: code_consume_careful)
qed (simp_all add: code_is_def codes_ok_def code_gone_def elapse_def)

text \<open>
  C28: an authorization code is exchanged once, whatever overlaps. Of any number of requests that present
  the same code at the same time, with whatever clients and redirect URIs, and under every schedule of
  their statements, at most one obtains the row.
\<close>

theorem code_has_one_winner:
  assumes "codes_ok s" and "schedule es (map (\<lambda>(c, u). codes_consume_program env code c u) presented) s = (ts, s')"
    and "i < length ts" and "j < length ts" and "ts ! i = Ended (Inr (Some r))" and "ts ! j = Ended (Inr (Some r'))"
  shows "i = j"
proof -
  obtain rid where "code_is env code rid s"
  proof (cases "\<exists>r \<in> set (t_codes s). ac_code_hash r = code_hash_of env code")
    case True
    then obtain r where "r \<in> set (t_codes s)" "ac_code_hash r = code_hash_of env code" by blast
    with assms(1) that [of "ac_id r"] show thesis
      using codes_ok_keys(1) [of s _ r] by (force simp: code_is_def)
  next
    case False
    with assms(1) that [of "[]"] show thesis by (auto simp: code_is_def)
  qed
  from code_race.at_most_one_winner(1) [OF _ this _ assms(3,4,5) _ assms(6), where others = "[]" and cs = presented and es = es]
  show ?thesis using assms(2) by simp
qed

theorem code_has_one_winner_witness:
  "\<exists>ts s' r. schedule [Turn 0, Turn 1, Turn 1, Turn 0, Turn 1, Turn 0]
       (map (\<lambda>(c, u). codes_consume_program sample_env ''code'' c u) [(''cli'', ''https://app/cb''), (''cli'', ''https://app/cb'')]) code_world = (ts, s')
     \<and> length ts = 2 \<and> ts ! 1 = Ended (Inr (Some r)) \<and> (\<nexists>r'. ts ! 0 = Ended (Inr (Some r')))"
proof -
  let ?ps = "[(''cli'', ''https://app/cb''), (''cli'', ''https://app/cb'')]"
  obtain ts s' where run: "schedule [Turn 0, Turn 1, Turn 1, Turn 0, Turn 1, Turn 0]
       (map (\<lambda>(c, u). codes_consume_program sample_env ''code'' c u) ?ps) code_world = (ts, s')"
    by (cases "schedule [Turn 0, Turn 1, Turn 1, Turn 0, Turn 1, Turn 0]
       (map (\<lambda>(c, u). codes_consume_program sample_env ''code'' c u) ?ps) code_world")
  have ok: "codes_ok code_world" by code_simp
  have "case schedule [Turn 0, Turn 1, Turn 1, Turn 0, Turn 1, Turn 0]
       (map (\<lambda>(c, u). codes_consume_program sample_env ''code'' c u) ?ps) code_world of (ts, _) \<Rightarrow>
      length ts = 2 \<and> (case ts ! 1 of Ended (Inr (Some r)) \<Rightarrow> True | _ \<Rightarrow> False)"
    by code_simp
  then have two: "length ts = 2" and "case ts ! 1 of Ended (Inr (Some r)) \<Rightarrow> True | _ \<Rightarrow> False"
    by (simp_all only: run prod.case)
  then obtain r where r: "ts ! 1 = Ended (Inr (Some r))"
    by (auto split: program.splits sum.splits option.splits)
  have "False" if "ts ! 0 = Ended (Inr (Some r'))" for r'
    using code_has_one_winner [OF ok run, of 0 1, OF _ _ that r] two by simp
  with run two r show ?thesis by blast
qed

section \<open>Refresh tokens\<close>

definition refresh_won :: "exn + consumed_refresh \<Rightarrow> bool" where
  "refresh_won x \<longleftrightarrow> (\<exists>c. x = Inr c)"

lemma refresh_won_simps [simp]: "\<not> refresh_won (Inl e)" "refresh_won (Inr c)"
  by (simp_all add: refresh_won_def)

lemma spent_update:
  assumes "\<And>r. rt_token_hash (f r) = rt_token_hash r" and "\<And>r. rt_status r \<noteq> Token_active \<Longrightarrow> rt_status (f r) \<noteq> Token_active"
    and "t_refresh s' = update_where p f (t_refresh s)"
  shows "refresh_keys_ok s \<Longrightarrow> refresh_keys_ok s'" and "refresh_spent env k s \<Longrightarrow> refresh_spent env k s'"
proof -
  show "refresh_keys_ok s \<Longrightarrow> refresh_keys_ok s'"
    using assms(1) by (simp add: refresh_keys_ok_def assms(3) map_update_where)
  assume "refresh_spent env k s"
  then obtain r where "r \<in> set (t_refresh s)" "rt_token_hash r = refresh_hash env k" "rt_status r \<noteq> Token_active"
    unfolding refresh_spent_def by blast
  then show "refresh_spent env k s'"
    using assms(1,2) by (auto simp: refresh_spent_def assms(3) intro!: bexI [of _ r])
qed

lemma rotate_keeps:
  assumes "refresh_rotate h s = (x, s')"
  shows "refresh_keys_ok s \<Longrightarrow> refresh_keys_ok s'" and "refresh_spent env k s \<Longrightarrow> refresh_spent env k s'"
proof -
  have "t_refresh s' = update_where (usable_refresh (clock s) h) (rotate_refresh (clock s)) (t_refresh s)"
    using assms by (auto simp: refresh_rotate_def)
  from spent_update [OF _ _ this]
  show "refresh_keys_ok s \<Longrightarrow> refresh_keys_ok s'" and "refresh_spent env k s \<Longrightarrow> refresh_spent env k s'" by simp_all
qed

lemma rotate_wins:
  assumes "refresh_rotate (refresh_hash env token) s = (Inr (Some r), s')" and "refresh_keys_ok s"
  shows "\<not> refresh_spent env token s" and "refresh_spent env token s'"
proof -
  obtain row where row: "List.find (usable_refresh (clock s) (refresh_hash env token)) (t_refresh s) = Some row"
    using assms(1) by (auto simp: refresh_rotate_def first_row_updated)
  then show "\<not> refresh_spent env token s"
    using spent_not_usable [OF assms(2)] by force
  have "s' = s\<lparr>t_refresh := rotated_table env token s\<rparr>"
    using assms(1) by (simp add: refresh_rotate_def rotated_table_def)
  with rotated_spent [OF row] show "refresh_spent env token s'"
    by (simp add: refresh_spent_def)
qed

lemma revokeWhere_keeps: "preserves (\<lambda>s. refresh_keys_ok s \<and> refresh_spent env k s) (refresh_revokeWhere p)"
  "preserves refresh_keys_ok (refresh_revokeWhere p)"
proof -
  have "t_refresh (snd (refresh_revokeWhere p s)) =
      update_where (\<lambda>r. p r \<and> rt_status r \<in> {Token_active, Token_rotated}) (revoke_refresh (clock s)) (t_refresh s)" for s
    by (simp add: refresh_revokeWhere_def)
  note step = spent_update [OF _ _ this]
  show "preserves (\<lambda>s. refresh_keys_ok s \<and> refresh_spent env k s) (refresh_revokeWhere p)"
    and "preserves refresh_keys_ok (refresh_revokeWhere p)"
    by (rule preservesI, use step in simp)+
qed

lemma issue_keeps: "preserves (\<lambda>s. refresh_keys_ok s \<and> refresh_spent env k s) (refresh_issue env cfg ps)"
  unfolding refresh_issue_def
  by (intro pres preserves_insertM preserves_draw preserves_now)
    (auto simp: refresh_keys_ok_def refresh_spent_def)

text \<open>After the rotation the winner only inserts the new token; a loser only revokes.\<close>

lemma reuse_keeps:
  "keeps (\<lambda>s. refresh_keys_ok s \<and> refresh_spent env k s) (refresh_reuse_program h)"
  "keeps refresh_keys_ok (refresh_reuse_program h)"
  unfolding refresh_reuse_program_def
  by (intro pres revokeWhere_keeps preserves_modify; simp add: refresh_keys_ok_def refresh_spent_def)+

text \<open>A program that keeps both and whose every answer is an error is careful.\<close>

lemma careful_loser:
  assumes "keeps I p" and "keeps (\<lambda>s. I s \<and> spent s) p" and "ensures I (\<lambda>x. \<not> won x) p"
  shows "careful I spent won p"
  using assms
proof (induction p)
  case (Command f)
  have "careful I spent won (fst (f s))" if "I s" for s
    by (rule Command.IH [OF rangeI [of f s]]) (use Command.prems that in \<open>simp_all add: keeps_Command ensures_Command fsts.intros\<close>)
  then show ?case using Command.prems by (auto simp: careful_Command keeps_Command)
qed simp

lemma refresh_consume_careful:
  "careful refresh_keys_ok (refresh_spent env token) refresh_won (refresh_consume_program env cfg token)"
  unfolding refresh_consume_program_def
proof (rule careful_andThen)
  fix s x s' assume ok: "refresh_keys_ok s" and run: "refresh_rotate (refresh_hash env token) s = (Inr x, s')"
  let ?lose = "andThen (refresh_reuse_program (refresh_hash env token)) (\<lambda>_. Ended (Inl (AuthError ''Invalid refresh token'' ''INVALID_REFRESH_TOKEN'')))"
  have lose: "careful refresh_keys_ok (refresh_spent env token) refresh_won ?lose"
    by (rule careful_loser) (intro pres reuse_keeps ensures_andThen [where R = "\<lambda>_. True"]; simp add: ensures_True)+
  show "careful refresh_keys_ok (refresh_spent env token) refresh_won (case x of None \<Rightarrow> ?lose
     | Some r \<Rightarrow> andThen (command (refresh_issue env cfg
            \<lparr>rp_sessionId = rt_session_id r, rp_userId = rt_user_id r, rp_clientId = rt_client_id r,
             rp_scope = rt_scope r, rp_familyId = Some (rt_family_id r), rp_previousTokenId = Some (rt_id r)\<rparr>))
            (\<lambda>(nextToken, expiresAt). Ended (Inr \<lparr>cr_row = r, cr_nextToken = nextToken, cr_expiresAt = expiresAt\<rparr>)))
    \<or> \<not> refresh_spent env token s \<and> refresh_spent env token s' \<and> keeps (\<lambda>s. refresh_keys_ok s \<and> refresh_spent env token s) (case x of None \<Rightarrow> ?lose
     | Some r \<Rightarrow> andThen (command (refresh_issue env cfg
            \<lparr>rp_sessionId = rt_session_id r, rp_userId = rt_user_id r, rp_clientId = rt_client_id r,
             rp_scope = rt_scope r, rp_familyId = Some (rt_family_id r), rp_previousTokenId = Some (rt_id r)\<rparr>))
            (\<lambda>(nextToken, expiresAt). Ended (Inr \<lparr>cr_row = r, cr_nextToken = nextToken, cr_expiresAt = expiresAt\<rparr>)))"
  proof (cases x)
    case None
    with lose show ?thesis by simp
  next
    case (Some r)
    with rotate_wins [OF run [unfolded Some] ok] show ?thesis
      unfolding Some option.case by (auto intro!: pres issue_keeps)
  qed
qed (use rotate_keeps in \<open>auto simp: refresh_rotate_def\<close>)

interpretation refresh_race: contended refresh_keys_ok "refresh_spent env token" refresh_won
    "\<lambda>_ :: unit. refresh_consume_program env cfg token" for env cfg token
  by unfold_locales (simp_all add: refresh_consume_careful refresh_keys_ok_def refresh_spent_def elapse_def)

text \<open>
  C29: a refresh token is rotated once, whatever overlaps. Of any number of requests that present the
  same token at the same time, under every schedule of their statements, at most one is given a
  successor, and then the token is spent.
\<close>

theorem refresh_has_one_winner:
  assumes "refresh_keys_ok s" and "schedule es (replicate n (refresh_consume_program env cfg token)) s = (ts, s')"
    and "i < length ts" and "j < length ts" and "ts ! i = Ended (Inr c)" and "ts ! j = Ended (Inr c')"
  shows "i = j \<and> refresh_spent env token s'"
proof -
  have "replicate n (refresh_consume_program env cfg token) = map (\<lambda>_ :: unit. refresh_consume_program env cfg token) (replicate n ()) @ []"
    by simp
  with assms(2) have run: "schedule es (map (\<lambda>_ :: unit. refresh_consume_program env cfg token) (replicate n ()) @ []) s = (ts, s')"
    by (simp only:)
  show ?thesis
    using refresh_race.at_most_one_winner [OF run assms(1) _ assms(3,4,5) _ assms(6)] by simp
qed

theorem refresh_has_one_winner_witness:
  "\<exists>ts s' c. schedule [Turn 1, Turn 0, Turn 0, Turn 1] (replicate 2 (refresh_consume_program sample_env sample_cfg ''tok'')) sample_world = (ts, s')
     \<and> ts ! 1 = Ended (Inr c) \<and> refresh_spent sample_env ''tok'' s'"
proof -
  obtain ts s' where run: "schedule [Turn 1, Turn 0, Turn 0, Turn 1] (replicate 2 (refresh_consume_program sample_env sample_cfg ''tok'')) sample_world = (ts, s')"
    by (cases "schedule [Turn 1, Turn 0, Turn 0, Turn 1] (replicate 2 (refresh_consume_program sample_env sample_cfg ''tok'')) sample_world")
  have ok: "refresh_keys_ok sample_world" by code_simp
  have "case schedule [Turn 1, Turn 0, Turn 0, Turn 1] (replicate 2 (refresh_consume_program sample_env sample_cfg ''tok'')) sample_world of (ts, _) \<Rightarrow>
      length ts = 2 \<and> (case ts ! 1 of Ended (Inr _) \<Rightarrow> True | _ \<Rightarrow> False)"
    by code_simp
  then have two: "length ts = 2" and "case ts ! 1 of Ended (Inr _) \<Rightarrow> True | _ \<Rightarrow> False"
    by (simp_all only: run prod.case)
  then obtain c where c: "ts ! 1 = Ended (Inr c)"
    by (auto split: program.splits sum.splits)
  with refresh_has_one_winner [OF ok run, of 1 1] two run show ?thesis by auto
qed

end
