(* ===== verification/Winner_Exists.thy ===== *)
theory Winner_Exists
  imports Single_Winner
begin

text \<open>
  Contention has a winner: requests that get enough turns end, and among those that present a valid code
  one obtains it.
\<close>

section \<open>Programs of bounded length\<close>

text \<open>At most so many commands, whatever the state is.\<close>

primrec within :: "('s, 'e, 'a) program \<Rightarrow> nat \<Rightarrow> bool" where
  "within (Ended r) = (\<lambda>n. True)"
| "within (Command f) = (\<lambda>n. 0 < n \<and> (\<forall>s. fst ((map_prod within id \<circ> f) s) (n - 1)))"

lemma within_Command: "within (Command f) n \<longleftrightarrow> 0 < n \<and> (\<forall>s. within (fst (f s)) (n - 1))"
  by simp

declare within.simps(2) [simp del]

lemma within_Suc: "within (Command f) (Suc n) \<longleftrightarrow> (\<forall>s. within (fst (f s)) n)"
  by (simp add: within_Command)

lemma within_then: "(\<And>x. within (k x) n) \<Longrightarrow> within (andThen (command m) k) (Suc n)"
  by (auto simp: within_Suc command_def split_beta split: sum.split)

lemma within_ended: "within (Ended r) n"
  by simp

lemma within_advance: "within p (Suc n) \<Longrightarrow> within (fst (advance_program p s)) n"
  by (cases p) (simp_all add: within_Suc)

text \<open>A request that gets as many turns as it has commands has ended.\<close>

lemma schedule_within:
  assumes "\<And>i. i < length ts \<Longrightarrow> within (ts ! i) (n i)" and "\<And>i. i < length ts \<Longrightarrow> n i \<le> count_list es (Turn i)"
    and "schedule es ts s = (ts', s')" and "i < length ts'"
  shows "\<exists>r. ts' ! i = Ended r"
  using assms
proof (induction es ts s arbitrary: n rule: schedule.induct)
  case (1 ts s)
  then have "within (ts ! i) 0" by fastforce
  with 1 show ?case by (cases "ts ! i") (simp_all add: within_Command)
next
  case (2 j es ts s)
  show ?case
  proof (cases "j < length ts")
    case True
    obtain p s1 where p: "advance_program (ts ! j) s = (p, s1)" by (cases "advance_program (ts ! j) s")
    have "within p (n j - 1)"
    proof (cases "n j")
      case 0
      with 2(3) [OF True] obtain r where "ts ! j = Ended r" by (cases "ts ! j") (simp_all add: within_Command)
      with p have "p = Ended r" by simp
      then show ?thesis by simp
    next
      case (Suc m)
      with 2(3) [OF True] within_advance [of "ts ! j" m s] p show ?thesis by simp
    qed
    then have "within (ts[j := p] ! k) ((n(j := n j - 1)) k)" if "k < length (ts[j := p])" for k
      using 2(3) [of k] that by (cases "k = j") simp_all
    moreover have "(n(j := n j - 1)) k \<le> count_list es (Turn k)" if "k < length (ts[j := p])" for k
      using 2(4) [of k] that by (cases "k = j") auto
    ultimately show ?thesis
      using "2.IH"(1) [OF True p [symmetric], of "n(j := n j - 1)"] 2(5,6) p True by simp
  next
    case False
    have "n k \<le> count_list es (Turn k)" if "k < length ts" for k
      using 2(4) [of k] that False by (cases "k = j") auto
    then show ?thesis using "2.IH"(2) [OF False, of n] 2(3,5,6) False by simp
  qed
next
  case (3 d es ts s)
  have "schedule es ts (elapse (int d) s) = (ts', s')" using 3(4) by simp
  moreover have "\<And>i. i < length ts \<Longrightarrow> n i \<le> count_list es (Turn i)" using 3(3) by simp
  ultimately show ?case using "3.IH" [of n] 3(2,5) by blast
qed

section \<open>Programs that go on until the thing is taken\<close>

text \<open>While the thing can be taken, every command leaves it so or takes it and wins at once.\<close>

primrec persists :: "('s \<Rightarrow> bool) \<Rightarrow> ('e + 'a \<Rightarrow> bool) \<Rightarrow> ('s, 'e, 'a) program \<Rightarrow> bool" where
  "persists avail won (Ended r) \<longleftrightarrow> won r"
| "persists avail won (Command f) \<longleftrightarrow>
     (\<forall>s. avail s \<longrightarrow> (\<exists>r. fst (f s) = Ended r \<and> won r) \<or> avail (snd (f s)) \<and> fst ((map_prod (persists avail won) id \<circ> f) s))"

lemma persists_Command: "persists avail won (Command f) \<longleftrightarrow>
    (\<forall>s. avail s \<longrightarrow> (\<exists>r. fst (f s) = Ended r \<and> won r) \<or> avail (snd (f s)) \<and> persists avail won (fst (f s)))"
  by simp

declare persists.simps(2) [simp del]

lemma persists_then:
  assumes "\<And>s e s'. avail s \<Longrightarrow> m s \<noteq> (Inl e, s')"
    and "\<And>s x s'. avail s \<Longrightarrow> m s = (Inr x, s') \<Longrightarrow> (\<exists>r. k x = Ended r \<and> won r) \<or> avail s' \<and> persists avail won (k x)"
  shows "persists avail won (andThen (command m) k)"
proof -
  have "(\<exists>r. (case fst (m s) of Inl e \<Rightarrow> Ended (Inl e) | Inr x \<Rightarrow> k x) = Ended r \<and> won r)
      \<or> avail (snd (m s)) \<and> persists avail won (case fst (m s) of Inl e \<Rightarrow> Ended (Inl e) | Inr x \<Rightarrow> k x)" if "avail s" for s
  proof (cases "m s")
    case (Pair r s')
    with assms that show ?thesis by (cases r) auto
  qed
  then show ?thesis by (simp add: command_def persists_Command split_beta)
qed

definition keeps_clock :: "(world, 'e, 'a) program \<Rightarrow> bool" where
  "keeps_clock p \<longleftrightarrow> (\<forall>k. keeps (\<lambda>s. clock s = k) p)"

lemma keeps_clock_advance:
  assumes "keeps_clock p" and "advance_program p s = (p', s')"
  shows "keeps_clock p'" and "clock s' = clock s"
  using keeps_advance [OF _ assms(2)] assms(1) unfolding keeps_clock_def by auto

lemma someone_wins:
  assumes "schedule es ts s = (ts', s')" and "\<And>t. t \<in> set ts \<Longrightarrow> keeps_clock t \<and> persists avail won t" and "avail s"
    and "clock s' \<le> deadline" and "\<And>s d. avail s \<Longrightarrow> clock (elapse (int d) s) \<le> deadline \<Longrightarrow> avail (elapse (int d) s)"
  shows "(\<exists>t \<in> set ts'. \<exists>r. t = Ended r \<and> won r) \<or> avail s' \<and> (\<forall>t \<in> set ts'. persists avail won t)"
proof -
  let ?done = "\<lambda>ts. \<exists>t \<in> set ts. \<exists>r. t = Ended r \<and> won r"
  let ?P = "\<lambda>ts s. (\<forall>t \<in> set ts. keeps_clock t) \<and> (clock s \<le> deadline \<longrightarrow> ?done ts \<or> avail s \<and> (\<forall>t \<in> set ts. persists avail won t))"
  have "?P ts s" using assms(2,3) by blast
  with assms(1) have "?P ts' s'"
  proof (induction rule: schedule_induct)
    case (turn ts s i p s1)
    note clock = keeps_clock_advance [OF _ turn(2)]
    have all: "\<forall>t \<in> set (ts[i := p]). keeps_clock t"
      using turn(1,3) clock(1) set_update_subset_insert [of ts i p] by auto
    have "?done (ts[i := p]) \<or> avail s1 \<and> (\<forall>t \<in> set (ts[i := p]). persists avail won t)" if "clock s1 \<le> deadline"
    proof -
      have "clock s \<le> deadline" using that clock(2) turn(1,3) by simp
      with turn(3) consider (won) t r where "t \<in> set ts" "t = Ended r" "won r" | (left) "avail s" "\<forall>t \<in> set ts. persists avail won t"
        by blast
      then show ?thesis
      proof cases
        case won
        then obtain j where j: "j < length ts" "ts ! j = Ended r" by (auto simp: in_set_conv_nth)
        have "ts[i := p] ! j = Ended r" using turn(1,2) j by (cases "j = i") simp_all
        with j(1) won(3) show ?thesis by (metis length_list_update nth_mem)
      next
        case left
        show ?thesis
        proof (cases "ts ! i")
          case (Ended r)
          then have "won r" using left(2) turn(1) by (metis nth_mem persists.simps(1))
          moreover have "Ended r \<in> set (ts[i := p])" using turn(1,2) Ended by (auto intro: set_update_memI)
          ultimately show ?thesis by blast
        next
          case (Command f)
          have f: "f s = (p, s1)" using turn(2) Command by simp
          have "persists avail won (Command f)" using left(2) turn(1) Command by (metis nth_mem)
          then have "(\<exists>r. p = Ended r \<and> won r) \<or> avail s1 \<and> persists avail won p"
            using left(1) f unfolding persists_Command by (metis fst_conv snd_conv)
          moreover have "p \<in> set (ts[i := p])" using turn(1) by (rule set_update_memI)
          ultimately show ?thesis
            using left(2) set_update_subset_insert [of ts i p] by blast
        qed
      qed
    qed
    with all show ?case by blast
  next
    case (wait ts s d)
    have "?done ts \<or> avail (elapse (int d) s) \<and> (\<forall>t \<in> set ts. persists avail won t)" if soon: "clock (elapse (int d) s) \<le> deadline"
    proof -
      have "clock s \<le> deadline" using soon by (simp add: elapse_def)
      with wait assms(5) [OF _ soon] show ?thesis by blast
    qed
    with wait show ?case by blast
  qed
  with assms(4) show ?thesis by blast
qed

section \<open>The race for a valid code\<close>

definition code_usable :: "externals \<Rightarrow> string \<Rightarrow> code_row \<Rightarrow> string \<Rightarrow> world \<Rightarrow> bool" where
  "code_usable env code row ref s \<longleftrightarrow> codes_ok s \<and> code_lookup env code s = Some (row, ref) \<and> ac_consumed_at row = None \<and> clock s \<le> ac_expires_at row"

lemma code_program_within: "within (codes_consume_program env code c u) 3"
proof -
  have three: "3 = Suc (Suc (Suc 0))" by simp
  have cases: "within (case x of None \<Rightarrow> p | Some y \<Rightarrow> q y) n" if "within p n" "\<And>y. within (q y) n"
    for x n and p :: "('s, 'e, 'a) program" and q :: "'c \<Rightarrow> ('s, 'e, 'a) program"
    using that by (cases x) simp_all
  show ?thesis
    unfolding codes_consume_program_def three
    by (intro within_then) (auto intro!: within_then split: option.split)
qed

lemma code_program_clock: "keeps_clock (codes_consume_program env code c u)"
proof -
  have "keeps (\<lambda>s. clock s = k) (codes_consume_program env code c u)" for k
  proof -
    have "preserves (\<lambda>s. clock s = k) (code_flip rid)" for rid
      by (rule preservesI) (auto simp: code_flip_def Let_def)
    then show ?thesis
      unfolding codes_consume_program_def by (intro pres)
  qed
  then show ?thesis by (simp add: keeps_clock_def)
qed

lemma flip_valid:
  assumes "code_usable env code row ref s"
  shows "\<exists>r s'. code_flip (ac_id row) s = (Inr (Some r), s')"
proof -
  have "row \<in> set (t_codes s)" "ac_consumed_at row = None"
    using assms code_lookup_set [of env code s row ref] by (auto simp: code_usable_def)
  then have "List.find (\<lambda>r. ac_id r = ac_id row \<and> ac_consumed_at r = None) (t_codes s) \<noteq> None"
    by (auto simp: find_None_set)
  then show ?thesis by (auto simp: code_flip_run)
qed

lemma code_program_persists:
  "persists (code_usable env code row ref) code_won (codes_consume_program env code ref (ac_redirect_uri row))"
proof -
  let ?valid = "code_usable env code row ref"
  have flip: "persists ?valid code_won (andThen (command (code_flip (ac_id row))) (\<lambda>updated.
      case updated of None \<Rightarrow> Ended (Inl (CodeReplayError a b)) | Some r \<Rightarrow> Ended (Inr (Some r))))" for a b
    by (rule persists_then) (use flip_valid [of env code row ref] in \<open>fastforce+\<close>)
  have checked: "persists ?valid code_won (andThen (command nowM) (\<lambda>now. if ac_expires_at row < now then Ended (Inr None)
      else andThen (command (code_flip (ac_id row))) (\<lambda>updated.
      case updated of None \<Rightarrow> Ended (Inl (CodeReplayError a b)) | Some r \<Rightarrow> Ended (Inr (Some r)))))" for a b
    by (rule persists_then) (use flip in \<open>auto simp: code_usable_def\<close>)
  show ?thesis
    unfolding codes_consume_program_def
  proof (rule persists_then)
    fix s x s' assume "?valid s" and "getM (code_lookup env code) s = (Inr x :: exn + _, s')"
    then have "x = Some (row, ref)" "s' = s" "?valid s" "ac_consumed_at row = None" by (auto simp: code_usable_def)
    with checked show "(\<exists>r. (case x of None \<Rightarrow> Ended (Inr None)
        | Some (row', client_ref) \<Rightarrow>
            if client_ref \<noteq> ref \<or> ac_redirect_uri row' \<noteq> ac_redirect_uri row then Ended (Inr None)
            else if ac_consumed_at row' \<noteq> None then Ended (Inl (CodeReplayError (ac_user_id row') client_ref))
            else andThen (command nowM) (\<lambda>now. if ac_expires_at row' < now then Ended (Inr None)
              else andThen (command (code_flip (ac_id row'))) (\<lambda>updated. case updated of
                  None \<Rightarrow> Ended (Inl (CodeReplayError (ac_user_id row') client_ref)) | Some r \<Rightarrow> Ended (Inr (Some r))))) = Ended r \<and> code_won r)
      \<or> ?valid s' \<and> persists ?valid code_won (case x of None \<Rightarrow> Ended (Inr None)
        | Some (row', client_ref) \<Rightarrow>
            if client_ref \<noteq> ref \<or> ac_redirect_uri row' \<noteq> ac_redirect_uri row then Ended (Inr None)
            else if ac_consumed_at row' \<noteq> None then Ended (Inl (CodeReplayError (ac_user_id row') client_ref))
            else andThen (command nowM) (\<lambda>now. if ac_expires_at row' < now then Ended (Inr None)
              else andThen (command (code_flip (ac_id row'))) (\<lambda>updated. case updated of
                  None \<Rightarrow> Ended (Inl (CodeReplayError (ac_user_id row') client_ref)) | Some r \<Rightarrow> Ended (Inr (Some r)))))"
      by simp
  qed simp
qed

lemma code_usable_elapse:
  "code_usable env code row ref s \<Longrightarrow> clock (elapse d s) \<le> ac_expires_at row \<Longrightarrow> code_usable env code row ref (elapse d s)"
proof -
  have "code_lookup env code (elapse d s) = code_lookup env code s"
    by (simp add: code_lookup_def elapse_def split: option.split)
  then show "code_usable env code row ref s \<Longrightarrow> clock (elapse d s) \<le> ac_expires_at row \<Longrightarrow> code_usable env code row ref (elapse d s)"
    by (simp add: code_usable_def codes_ok_def)
qed

text \<open>
  C35: the race for a code is won. When any number of requests present a valid code with its client and
  redirect URI at the same time, then under every schedule that gives each of them its three turns
  before the code expires, all requests end and exactly one of them obtains the row.
\<close>

theorem code_race_is_won:
  assumes "code_usable env code row ref s" and "0 < n"
    and "schedule es (replicate n (codes_consume_program env code ref (ac_redirect_uri row))) s = (ts, s')"
    and "\<And>i. i < n \<Longrightarrow> 3 \<le> count_list es (Turn i)" and "clock s' \<le> ac_expires_at row"
  shows "(\<forall>t \<in> set ts. \<exists>r. t = Ended r) \<and> (\<exists>!i. i < n \<and> (\<exists>r. ts ! i = Ended (Inr (Some r))))"
proof -
  let ?p = "codes_consume_program env code ref (ac_redirect_uri row)"
  have len: "length ts = n" using schedule_length [OF assms(3)] by simp
  have ended: "\<exists>r. ts ! i = Ended r" if "i < n" for i
    by (rule schedule_within [where n = "\<lambda>_. 3", OF _ _ assms(3)]) (use assms(4) code_program_within that len in simp_all)
  have "(\<exists>t \<in> set ts. \<exists>r. t = Ended r \<and> code_won r)
      \<or> code_usable env code row ref s' \<and> (\<forall>t \<in> set ts. persists (code_usable env code row ref) code_won t)"
  proof (rule someone_wins [where deadline = "ac_expires_at row" and es = es and s = s])
    show "keeps_clock t \<and> persists (code_usable env code row ref) code_won t" if "t \<in> set (replicate n ?p)" for t
      using that code_program_clock code_program_persists by (simp only: in_set_replicate)
    show "code_usable env code row ref (elapse (int d) u)"
      if "code_usable env code row ref u" "clock (elapse (int d) u) \<le> ac_expires_at row" for u d
      using that by (rule code_usable_elapse)
  qed (fact assms)+
  then obtain t r where "t \<in> set ts" "t = Ended r" "code_won r"
  proof
    assume all: "code_usable env code row ref s' \<and> (\<forall>t \<in> set ts. persists (code_usable env code row ref) code_won t)"
    obtain r where first: "ts ! 0 = Ended r" using ended [OF assms(2)] by blast
    have member: "ts ! 0 \<in> set ts" using assms(2) len by simp
    with all have "persists (code_usable env code row ref) code_won (ts ! 0)" by blast
    with first have "code_won r" by simp
    from that [OF member first this] show thesis .
  qed blast
  then obtain i where "i < length ts" "ts ! i = Ended r" by (metis in_set_conv_nth)
  with len \<open>code_won r\<close> obtain x where i: "i < n" "ts ! i = Ended (Inr (Some x))"
    unfolding code_won_def by auto
  have valid: "codes_ok s" "row \<in> set (t_codes s)" "ac_code_hash row = code_hash_of env code"
    using assms(1) code_lookup_set [of env code s row ref] by (simp_all add: code_usable_def)
  have "r = row" if "r \<in> set (t_codes s)" "ac_code_hash r = code_hash_of env code" for r
    by (rule codes_ok_keys(1) [OF valid(1) that(1) valid(2)]) (simp add: that(2) valid(3))
  with valid(1) have same: "code_is env code (ac_id row) s" by (simp add: code_is_def)
  have run: "schedule es (map (\<lambda>(c, u). codes_consume_program env code c u) (replicate n (ref, ac_redirect_uri row)) @ []) s = (ts, s')"
    using assms(3) by simp
  have "j = i" if "j < n" "ts ! j = Ended (Inr (Some r'))" for j r'
    using code_race.at_most_one_winner(1) [OF run same _ _ _ that(2) _ i(2)] that(1) i(1) len by simp
  moreover have "\<forall>t \<in> set ts. \<exists>r. t = Ended r" using ended len by (auto simp: in_set_conv_nth)
  ultimately show ?thesis using i by blast
qed

text \<open>Three requests, turn by turn, with a pause.\<close>

theorem code_race_is_won_witness:
  "\<exists>!i. i < 3 \<and> (\<exists>r. fst (schedule (concat (replicate 3 [Turn 2, Turn 0, Turn 1]) @ [Wait 5])
     (replicate 3 (codes_consume_program sample_env ''code'' ''cli'' ''https://app/cb'')) code_world) ! i = Ended (Inr (Some r)))"
proof -
  let ?es = "concat (replicate 3 [Turn 2, Turn 0, Turn 1]) @ [Wait 5]"
  let ?run = "schedule ?es (replicate 3 (codes_consume_program sample_env ''code'' ''cli'' ''https://app/cb'')) code_world"
  obtain ts s' where run: "?run = (ts, s')" by (cases ?run)
  obtain row ref where row: "code_lookup sample_env ''code'' code_world = Some (row, ref)"
    and "ac_redirect_uri row = ''https://app/cb''" "ref = ''cli''" "ac_consumed_at row = None" "clock code_world \<le> ac_expires_at row"
      "clock (snd ?run) \<le> ac_expires_at row"
  proof -
    have "case code_lookup sample_env ''code'' code_world of Some (row, ref) \<Rightarrow>
        ac_redirect_uri row = ''https://app/cb'' \<and> ref = ''cli'' \<and> ac_consumed_at row = None \<and> clock code_world \<le> ac_expires_at row
        \<and> clock (snd ?run) \<le> ac_expires_at row | None \<Rightarrow> False"
      by code_simp
    with that show thesis by (auto split: option.splits)
  qed
  moreover have "codes_ok code_world" by code_simp
  ultimately have valid: "code_usable sample_env ''code'' row ''cli'' code_world" "clock s' \<le> ac_expires_at row"
    and program: "?run = schedule ?es (replicate 3 (codes_consume_program sample_env ''code'' ''cli'' (ac_redirect_uri row))) code_world"
    using run by (simp_all add: code_usable_def)
  have turns: "3 \<le> count_list ?es (Turn i)" if "i < 3" for i
  proof -
    have "i = 0 \<or> i = 1 \<or> i = 2" using that by auto
    then show ?thesis by (elim disjE) (simp_all add: numeral_3_eq_3)
  qed
  have three: "0 < (3 :: nat)" by simp
  from code_race_is_won [OF valid(1) three trans [OF program [symmetric] run] turns valid(2)] show ?thesis
    unfolding run fst_conv by (rule conjunct2)
qed

end
