(* ===== verification/Session_Race.thy ===== *)
theory Session_Race
  imports Statements
begin

text \<open>
  Look-ups, revocations and uses of sessions that overlap: the cache may be stale, the answers are not.
\<close>

section \<open>Look-ups and revocations of sessions\<close>

datatype session_call = Look_up uuid | Revoke uuid string | Touch uuid

definition session_program :: "session_call \<Rightarrow> (world, exn, session_row option) program" where
  "session_program c = (case c of
      Look_up uid \<Rightarrow> sessions_findById_program uid
    | Revoke uid reason \<Rightarrow> andThen (sessions_revoke_program uid reason) (\<lambda>_. Ended (Inr None))
    | Touch uid \<Rightarrow> andThen (command (sessions_touch uid)) (\<lambda>_. Ended (Inr None)))"

definition dead_session :: "uuid \<Rightarrow> world \<Rightarrow> bool" where
  "dead_session uid s \<longleftrightarrow> (\<forall>r \<in> set (t_sessions s). ss_id r = uid \<longrightarrow> ss_status r = Session_revoked)"

lemma dead_elapse: "dead_session uid s \<Longrightarrow> dead_session uid (elapse d s)"
  by (simp add: dead_session_def elapse_def)

lemma dead_find: "dead_session uid s \<Longrightarrow> session_in s uid = Some r \<Longrightarrow> ss_status r = Session_revoked"
  using find_SomeD [of "\<lambda>r. ss_id r = uid" "t_sessions s" r] by (auto simp: dead_session_def session_in_def)

lemma dead_frame:
  "dead_session uid (s\<lparr>redis := x\<rparr>) = dead_session uid s" "dead_session uid (s\<lparr>t_refresh := y\<rparr>) = dead_session uid s"
  by (simp_all add: dead_session_def)

lemma dead_update:
  assumes "\<And>r. ss_id (f r) = ss_id r" and "\<And>r. ss_status r = Session_revoked \<Longrightarrow> ss_status (f r) = Session_revoked"
  shows "dead_session uid s \<Longrightarrow> dead_session uid (s\<lparr>t_sessions := update_where p f (t_sessions s)\<rparr>)"
  using assms by (fastforce simp: dead_session_def set_update_where)

lemma dead_redis: "preserves (dead_session uid) (redis_getJson k)" "preserves (dead_session uid) (redis_setJson k v t)"
  "preserves (dead_session uid) (redis_del k)"
  by (rule preservesI, simp add: redis_getJson_def redis_get_def redis_setJson_def redis_set_def redis_del_def dead_frame
      split: option.splits)+

lemma session_program_keeps: "keeps (dead_session uid) (session_program c)"
proof (cases c)
  case (Look_up u)
  have "keeps (dead_session uid) (sessions_loadFresh_program u)" for u
    unfolding sessions_loadFresh_program_def by (intro pres dead_redis)
  then show ?thesis
    unfolding Look_up session_program_def sessions_findById_program_def
    by (auto intro!: pres dead_redis split: option.split rvalue.split)
next
  case (Revoke u reason)
  show ?thesis
    unfolding Revoke session_program_def sessions_revoke_program_def
    by (auto intro!: pres dead_redis preserves_modify dead_update simp: dead_frame)
next
  case (Touch u)
  show ?thesis
    unfolding Touch session_program_def sessions_touch_def
    by (auto intro!: pres preserves_modify dead_update)
qed

definition not_active :: "exn + session_row option \<Rightarrow> bool" where
  "not_active x \<longleftrightarrow> (\<forall>r. x = Inr (Some r) \<longrightarrow> ss_status r \<noteq> Session_active)"

lemma loadFresh_ensures: "ensures (dead_session uid) not_active (sessions_loadFresh_program uid)"
  unfolding sessions_loadFresh_program_def
proof (rule ensures_andThen [where R = "\<lambda>x. case x of Inr row \<Rightarrow> not_active (Inr row) | Inl _ \<Rightarrow> False"])
  show "ensures (dead_session uid) (\<lambda>x. case x of Inr row \<Rightarrow> not_active (Inr row) | Inl _ \<Rightarrow> False) (command (getM (\<lambda>s. session_in s uid)))"
    by (rule ensures_command) (auto simp: not_active_def dest: dead_find)
next
  fix row assume "case Inr row :: exn + session_row option of Inr row \<Rightarrow> not_active (Inr row) | Inl _ \<Rightarrow> False"
  then have row: "not_active (Inr row)" by simp
  show "ensures (dead_session uid) not_active (case row of None \<Rightarrow> Ended (Inr None)
      | Some r \<Rightarrow> andThen (command (redis_setJson (sess_key uid) (RSession r) (Some 300))) (\<lambda>_. Ended (Inr (Some r))))"
  proof (cases row)
    case None
    then show ?thesis by (simp add: not_active_def)
  next
    case (Some r)
    show ?thesis
      unfolding Some option.case
      by (rule ensures_andThen [where R = "\<lambda>x. \<exists>u. x = Inr u"])
        (use row Some in \<open>auto intro!: ensures_command simp: redis_setJson_def redis_set_def\<close>)
  qed
qed simp

lemma findById_ensures: "ensures (dead_session uid) not_active (sessions_findById_program uid)"
  unfolding sessions_findById_program_def
proof (rule ensures_andThen [where R = "\<lambda>x. \<exists>u. x = Inr u"])
  show "ensures (dead_session uid) (\<lambda>x. \<exists>u. x = Inr u) (command (redis_getJson (sess_key uid)))"
    by (rule ensures_command) (auto simp: redis_getJson_def redis_get_def bindM_run split: option.split)
next
  fix cached
  have fresh: "ensures (dead_session uid) not_active (andThen (sessions_loadFresh_program uid) (\<lambda>fresh.
       case fresh of None \<Rightarrow> andThen (command (redis_del (sess_key uid))) (\<lambda>_. Ended (Inr None)) | Some r \<Rightarrow> Ended (Inr (Some r))))"
  proof (rule ensures_andThen [OF loadFresh_ensures])
    fix row assume row: "not_active (Inr row)"
    have "ensures (dead_session uid) not_active (andThen (command (redis_del (sess_key uid))) (\<lambda>_. Ended (Inr None)))"
      by (rule ensures_andThen [where R = "\<lambda>x. \<exists>u. x = Inr u"]) (auto intro!: ensures_command simp: redis_del_def not_active_def)
    with row show "ensures (dead_session uid) not_active (case row of
        None \<Rightarrow> andThen (command (redis_del (sess_key uid))) (\<lambda>_. Ended (Inr None)) | Some r \<Rightarrow> Ended (Inr (Some r)))"
      by (cases row) simp_all
  qed (simp add: not_active_def)
  show "ensures (dead_session uid) not_active (case cached of
       Some (RSession c) \<Rightarrow>
         if ss_status c \<noteq> Session_active then Ended (Inr (Some c))
         else
           andThen (sessions_loadFresh_program uid) (\<lambda>fresh.
           case fresh of
             None \<Rightarrow> andThen (command (redis_del (sess_key uid))) (\<lambda>_. Ended (Inr None))
           | Some r \<Rightarrow> Ended (Inr (Some r)))
     | _ \<Rightarrow> sessions_loadFresh_program uid)"
    using fresh loadFresh_ensures by (auto simp: not_active_def split: option.split rvalue.split)
qed auto

text \<open>
  C30: no look-up that begins after a revocation finds the session active, whatever overlaps. Any number
  of look-ups, revocations and other uses of sessions run interleaved until the row of a session is
  revoked; a look-up of it that begins then, while all the others go on (and may still write what they
  read before into the cache), does not answer with an active session.
\<close>

theorem revoked_session_not_found_active:
  assumes "schedule es (map session_program calls) s = (ts, s1)" and "dead_session uid s1"
    and "schedule es' (ts @ [sessions_findById_program uid]) s1 = (ts', s2)"
    and "last ts' = Ended (Inr (Some r))"
  shows "ss_status r = Session_revoked"
proof -
  have "(\<forall>t \<in> set ts. keeps (dead_session uid) t)"
    using assms(1)
  proof (induction rule: schedule_induct [where P = "\<lambda>ts _. \<forall>t \<in> set ts. keeps (dead_session uid) t", consumes 1, case_names start turn wait])
    case start
    show ?case by (auto simp: session_program_keeps)
  next
    case (turn ts s i p s1)
    then have "keeps (dead_session uid) p" using keeps_advance(1) [OF _ turn(2)] by simp
    with turn(3) show ?case using set_update_subset_insert [of ts i p] by auto
  qed
  moreover have "keeps (dead_session uid) (sessions_findById_program uid)"
    using session_program_keeps [of uid "Look_up uid"] by (simp add: session_program_def)
  ultimately have all: "\<And>t. t \<in> set (ts @ [sessions_findById_program uid]) \<Longrightarrow> keeps (dead_session uid) t" by auto
  have "ensures (dead_session uid) not_active (ts' ! length ts)"
    by (rule schedule_ensures [OF assms(3) all dead_elapse assms(2)]) (simp_all add: findById_ensures)
  moreover have "length ts' = Suc (length ts)"
    using schedule_length [OF assms(3)] by simp
  ultimately have "not_active (Inr (Some r))"
    using assms(4) by (simp add: last_conv_nth flip: length_greater_0_conv)
  then show ?thesis by (cases "ss_status r") (simp_all add: not_active_def)
qed

text \<open>
  A look-up reads the active row; the session is revoked; the look-up files the row it read in the
  cache; a new look-up finds it there and reads the table again.
\<close>

definition stale_start :: "event list" where
  "stale_start = [Turn 0, Turn 0, Turn 1, Turn 1, Turn 1]"

definition stale_rest :: "event list" where
  "stale_rest = [Turn 0, Wait 5, Turn 2, Turn 2, Turn 2]"

theorem revoked_session_not_found_active_witness:
  "\<exists>ts s1 ts' s2 r. schedule stale_start (map session_program [Look_up ''Us'', Revoke ''Us'' ''logout'']) sample_world = (ts, s1)
     \<and> schedule stale_rest (ts @ [sessions_findById_program ''Us'']) s1 = (ts', s2)
     \<and> last ts' = Ended (Inr (Some r)) \<and> ss_status r = Session_revoked"
proof -
  obtain ts s1 where first: "schedule stale_start (map session_program [Look_up ''Us'', Revoke ''Us'' ''logout'']) sample_world = (ts, s1)"
    by (cases "schedule stale_start (map session_program [Look_up ''Us'', Revoke ''Us'' ''logout'']) sample_world")
  obtain ts' s2 where second: "schedule stale_rest (ts @ [sessions_findById_program ''Us'']) s1 = (ts', s2)"
    by (cases "schedule stale_rest (ts @ [sessions_findById_program ''Us'']) s1")
  have "case schedule stale_start (map session_program [Look_up ''Us'', Revoke ''Us'' ''logout'']) sample_world of (ts, s1) \<Rightarrow>
      dead_session ''Us'' s1 \<and> (case schedule stale_rest (ts @ [sessions_findById_program ''Us'']) s1 of (ts', s2) \<Rightarrow>
        (case last ts' of Ended (Inr (Some r)) \<Rightarrow> True | _ \<Rightarrow> False))"
    by code_simp
  then have dead: "dead_session ''Us'' s1" and "case last ts' of Ended (Inr (Some r)) \<Rightarrow> True | _ \<Rightarrow> False"
    by (simp_all only: first second prod.case)
  then obtain r where r: "last ts' = Ended (Inr (Some r))"
    by (auto split: program.splits sum.splits option.splits)
  with first second revoked_session_not_found_active [OF first dead second r] show ?thesis by blast
qed

end
