(* ===== verification/Overlaps.thy ===== *)
theory Overlaps
  imports Session_Race
begin

text \<open>
  What is read first and written later. The attempts of a login challenge and the failures of a login
  are compared with what the request read at its beginning: requests that overlap are not counted
  against each other. And the answer to a stolen refresh token does not reach the successor that the
  thief, or the owner, is about to be given.
\<close>

section \<open>Schedules that read first\<close>

text \<open>A program can be run to its end by its own turns.\<close>

lemma run_to_end:
  assumes "i < length ts" and "ts ! i = p" and "run p s = (r, s')"
  shows "\<exists>es. schedule es ts s = (ts[i := Ended r], s')"
  using assms
proof (induction p arbitrary: ts s)
  case (Ended x)
  then have "x = r" "s = s'" by (simp_all only: run.simps prod.inject)
  with Ended(1,2) have "schedule [] ts s = (ts[i := Ended r], s')" by (metis list_update_id schedule.simps(1))
  then show ?case by blast
next
  case (Command f)
  obtain p s1 where f: "f s = (p, s1)" by (cases "f s")
  have "p \<in> Basic_BNFs.fsts (f s)" using fsts.intros [of "f s"] f by simp
  moreover have "run p s1 = (r, s')" using Command.prems(3) f by simp
  ultimately obtain es where "schedule es (ts[i := p]) s1 = (ts[i := Ended r], s')"
    using Command.IH [OF rangeI [of f s], of p "ts[i := p]" s1] Command.prems(1) by auto
  with Command.prems f have "schedule (Turn i # es) ts s = (ts[i := Ended r], s')" by simp
  then show ?case by blast
qed

lemma all_to_end:
  assumes "\<And>k s. k < length ts \<Longrightarrow> Q k s \<Longrightarrow> \<exists>s'. run (ts ! k) s = (res k, s') \<and> Q (Suc k) s'" and "Q 0 s"
  shows "\<exists>es s'. schedule es ts s = (map (\<lambda>k. Ended (res k)) [0..<length ts], s') \<and> Q (length ts) s'"
proof -
  have "\<exists>es s'. schedule es ts s = (map (\<lambda>k. Ended (res k)) [0..<n] @ drop n ts, s') \<and> Q n s'" if "n \<le> length ts" for n
    using that
  proof (induction n)
    case 0
    have "schedule [] ts s = (ts, s)" by simp
    with assms(2) show ?case by (metis append_Nil drop_0 list.map(1) upt_0)
  next
    case (Suc n)
    then obtain es s1 where one: "schedule es ts s = (map (\<lambda>k. Ended (res k)) [0..<n] @ drop n ts, s1)" "Q n s1" by auto
    let ?ts = "map (\<lambda>k. Ended (res k)) [0..<n] @ drop n ts"
    have nth: "?ts ! n = ts ! n" "n < length ?ts" using Suc.prems by (simp_all add: nth_append)
    obtain s2 where s2: "run (ts ! n) s1 = (res n, s2)" "Q (Suc n) s2" using assms(1) [OF _ one(2)] Suc.prems by auto
    obtain es' where "schedule es' ?ts s1 = (?ts[n := Ended (res n)], s2)"
      using run_to_end [OF nth(2,1) s2(1)] by blast
    moreover have "?ts[n := Ended (res n)] = map (\<lambda>k. Ended (res k)) [0..<Suc n] @ drop (Suc n) ts"
      using Suc.prems by (simp add: list_update_append Cons_nth_drop_Suc [symmetric])
    ultimately have "schedule (es @ es') ts s = (map (\<lambda>k. Ended (res k)) [0..<Suc n] @ drop (Suc n) ts, s2)"
      using one(1) by (simp add: schedule_append)
    with s2(2) show ?case by blast
  qed
  from this [of "length ts"] show ?thesis by simp
qed

lemma advance_read: "m s = (Inr x, s) \<Longrightarrow> advance_program (andThen (command m) k) s = (k x, s)"
  by (simp add: command_def)

lemma all_turn:
  assumes "\<And>c. advance_program (p c) s = (q c, s)"
  shows "schedule (map Turn [0..<length cs]) (map p cs) s = (map q cs, s)"
proof -
  have "schedule (map Turn [0..<n]) (map p cs) s = (map q (take n cs) @ map p (drop n cs), s)" if "n \<le> length cs" for n
    using that
  proof (induction n)
    case (Suc n)
    then have "(map q (take n cs) @ map p (drop n cs)) ! n = p (cs ! n)"
      and "(map q (take n cs) @ map p (drop n cs))[n := q (cs ! n)] = map q (take (Suc n) cs) @ map p (drop (Suc n) cs)"
      by (simp_all add: nth_append list_update_append take_Suc_conv_app_nth Cons_nth_drop_Suc [symmetric] del: drop_Suc)
    with Suc assms [of "cs ! n"] show ?case
      by (simp add: schedule_append)
  qed simp
  from this [of "length cs"] show ?thesis by simp
qed

lemma read_then_end:
  assumes "\<And>c. m c s = (Inr (x c), s)" and "Q 0 s"
    and "\<And>j s. j < length cs \<Longrightarrow> Q j s \<Longrightarrow> \<exists>s'. run (k (cs ! j) (x (cs ! j))) s = (r, s') \<and> Q (Suc j) s'"
  shows "\<exists>es ts s'. schedule es (map (\<lambda>c. andThen (command (m c)) (k c)) cs) s = (ts, s') \<and> length ts = length cs
     \<and> (\<forall>t \<in> set ts. t = Ended r) \<and> Q (length cs) s'"
proof -
  let ?ts = "map (\<lambda>c. k c (x c)) cs"
  obtain es s' where "schedule es ?ts s = (map (\<lambda>_. Ended r) [0..<length ?ts], s')" "Q (length ?ts) s'"
    using all_to_end [where ts = ?ts and Q = Q and res = "\<lambda>_. r", OF _ assms(2)] assms(3) by auto
  moreover have "schedule (map Turn [0..<length cs]) (map (\<lambda>c. andThen (command (m c)) (k c)) cs) s = (?ts, s)"
    by (rule all_turn) (rule advance_read, rule assms(1))
  ultimately have "schedule (map Turn [0..<length cs] @ es) (map (\<lambda>c. andThen (command (m c)) (k c)) cs) s
      = (map (\<lambda>_. Ended r) [0..<length cs], s') \<and> Q (length cs) s'"
    by (simp add: schedule_append)
  then show ?thesis by fastforce
qed

section \<open>The attempts of a login challenge\<close>

text \<open>Once the key service has its master key, decryption depends on nothing else.\<close>

lemma cached_decrypt:
  assumes "master_cache s = Some k" and "master_cache s' = Some k"
  shows "keys_decrypt env cfg e s' = (fst (keys_decrypt env cfg e s), s')"
  using assms by (simp add: keys_decrypt_def keys_dataEncryptionKey_def keys_masterKey_def catchM_def bindM_run
      split: option.split)

lemma stored_cache: "master_cache (redis_store k v t s) = master_cache s"
  by (simp add: redis_store_def redis_set_def)

lemma wrong_answer:
  assumes "mc_attempts c < 3" and "uuid_syntax env (mc_userId c)" and "mfa_method_in s (mc_userId c) Mfa_active = Some m"
    and "keys_decrypt env cfg (mm_secret_encrypted m) s = (Inr secret, s)" and "\<not> totp_check env (clock s) code secret"
  shows "run (mfa_answer_program env cfg k c code) s = (Inl (AuthError ''Invalid MFA code'' ''INVALID_MFA_CODE''),
     redis_store k (RChallenge (c\<lparr>mc_attempts := mc_attempts c + 1\<rparr>)) (MFA_CHALLENGE_TTL cfg) s)"
  using assms by (simp add: mfa_answer_program_def mfa_getActiveMethod_def uuid_param_def mfa_decryptSecret_def totp_checkM_def
      redis_setJson_def redis_set_run bindM_run)

text \<open>
  C31: codes that are presented at the same time can escape the count. On a challenge that has fewer than three
  attempts, of an account with an active method, for any number of wrong codes there is a schedule of their requests
  under which every one of them is checked and answered as wrong, and afterwards the challenge has only one more
  attempt than before. Under other schedules, one request after the other, each is counted.
\<close>

theorem parallel_codes_count_once:
  assumes "redis_lookup (mfa_challengeKey cid) s = Some (RChallenge c)" and "mc_attempts c < 3"
    and "uuid_syntax env (mc_userId c)" and "mfa_method_in s (mc_userId c) Mfa_active = Some m"
    and "master_cache s = Some key" and "fst (keys_decrypt env cfg (mm_secret_encrypted m) s) = Inr secret"
    and "\<And>code. code \<in> set codes \<Longrightarrow> \<not> totp_check env (clock s) code secret"
    and "codes \<noteq> []" and "0 < MFA_CHALLENGE_TTL cfg"
  shows "\<exists>es ts s'. schedule es (map (mfa_verify_program env cfg cid) codes) s = (ts, s') \<and> length ts = length codes
     \<and> (\<forall>t \<in> set ts. t = Ended (Inl (AuthError ''Invalid MFA code'' ''INVALID_MFA_CODE'')))
     \<and> redis_lookup (mfa_challengeKey cid) s' = Some (RChallenge (c\<lparr>mc_attempts := mc_attempts c + 1\<rparr>))"
proof -
  let ?key = "mfa_challengeKey cid" and ?next = "RChallenge (c\<lparr>mc_attempts := mc_attempts c + 1\<rparr>)"
  let ?Q = "\<lambda>n s'. mfa_method_in s' (mc_userId c) Mfa_active = Some m \<and> master_cache s' = Some key \<and> clock s' = clock s
     \<and> (0 < n \<longrightarrow> redis_lookup ?key s' = Some ?next)"
  have step: "\<exists>s2. run (mfa_answer_program env cfg ?key c (codes ! j)) s1 = (Inl (AuthError ''Invalid MFA code'' ''INVALID_MFA_CODE''), s2) \<and> ?Q (Suc j) s2"
    if "j < length codes" "?Q j s1" for j s1
  proof -
    have "keys_decrypt env cfg (mm_secret_encrypted m) s1 = (Inr secret, s1)"
      using cached_decrypt [of s key s1] that(2) assms(5,6) by simp
    from wrong_answer [OF assms(2,3) _ this, of "codes ! j" ?key] that assms(7) [of "codes ! j"]
    have "run (mfa_answer_program env cfg ?key c (codes ! j)) s1 = (Inl (AuthError ''Invalid MFA code'' ''INVALID_MFA_CODE''),
        redis_store ?key ?next (MFA_CHALLENGE_TTL cfg) s1)" by simp
    moreover have "redis_lookup ?key (redis_store ?key ?next (MFA_CHALLENGE_TTL cfg) s1) = Some ?next"
      using assms(9) by (rule redis.lookup_fresh)
    ultimately show ?thesis using that(2) by (simp add: mfa_method_in_def stored_cache)
  qed
  have read: "redis_getJson ?key s = (Inr (Some (RChallenge c)), s)"
    using assms(1) by simp
  obtain es ts s' where "schedule es (map (\<lambda>code. andThen (command (redis_getJson ?key)) (\<lambda>stored. case stored of
        Some (RChallenge challenge) \<Rightarrow> mfa_answer_program env cfg ?key challenge code
      | _ \<Rightarrow> Ended (Inl (AuthError ''Invalid or expired MFA challenge'' ''INVALID_MFA_CHALLENGE'')))) codes) s = (ts, s')"
    "length ts = length codes" "\<forall>t \<in> set ts. t = Ended (Inl (AuthError ''Invalid MFA code'' ''INVALID_MFA_CODE''))" "?Q (length codes) s'"
    using read_then_end [where m = "\<lambda>_. redis_getJson ?key" and s = s and Q = ?Q and cs = codes and x = "\<lambda>_. Some (RChallenge c)"
      and r = "Inl (AuthError ''Invalid MFA code'' ''INVALID_MFA_CODE'')" and k = "\<lambda>code stored. case stored of
        Some (RChallenge challenge) \<Rightarrow> mfa_answer_program env cfg ?key challenge code
      | _ \<Rightarrow> Ended (Inl (AuthError ''Invalid or expired MFA challenge'' ''INVALID_MFA_CHALLENGE''))", OF read] step assms(4,5)
    by auto
  then show ?thesis
    unfolding mfa_verify_program_def [abs_def] using assms(8) by blast
qed

definition challenge_world :: world where
  "challenge_world = redis_store (mfa_challengeKey ''ch'') (RChallenge \<lparr>mc_userId = ''Ua'', mc_sessionId = ''Us'', mc_attempts = 0\<rparr>) 300
     (mfa_world\<lparr>master_cache := Some (replicate 32 (CHR ''K''))\<rparr>)"

theorem parallel_codes_count_once_witness:
  "\<exists>es ts s'. schedule es (map (mfa_verify_program sample_env sample_cfg ''ch'') [''000000'', ''111111'', ''222222'', ''333333'', ''444444'']) challenge_world = (ts, s')
     \<and> length ts = 5 \<and> (\<exists>c. redis_lookup (mfa_challengeKey ''ch'') s' = Some (RChallenge c) \<and> mc_attempts c = 1)"
proof -
  let ?codes = "[''000000'', ''111111'', ''222222'', ''333333'', ''444444'']" and ?c = "\<lparr>mc_userId = ''Ua'', mc_sessionId = ''Us'', mc_attempts = 0\<rparr>"
  have "redis_lookup (mfa_challengeKey ''ch'') challenge_world = Some (RChallenge ?c)" by code_simp
  moreover have "uuid_syntax sample_env (mc_userId ?c)" by code_simp
  moreover have "mfa_method_in challenge_world (mc_userId ?c) Mfa_active = Some sample_mfa" by code_simp
  moreover have "master_cache challenge_world = Some (replicate 32 (CHR ''K''))" by code_simp
  moreover have "fst (keys_decrypt sample_env sample_cfg (mm_secret_encrypted sample_mfa) challenge_world) = Inr ''totpsecret''" by code_simp
  moreover have "list_all (\<lambda>code. \<not> totp_check sample_env (clock challenge_world) code ''totpsecret'') ?codes" by code_simp
  moreover have "0 < MFA_CHALLENGE_TTL sample_cfg" by code_simp
  ultimately show ?thesis
    using parallel_codes_count_once [of "''ch''" challenge_world ?c sample_env sample_mfa _ sample_cfg "''totpsecret''" ?codes]
    by (fastforce simp: list_all_iff)
qed

section \<open>The failures of a login\<close>

lemma wrong_password:
  assumes "login_gate (clock s) user = None" and "\<not> verifyPassword env (u_password_hash user) pw"
    and "u_failed_login_count user + 1 < MAX_FAILED_LOGINS cfg"
  shows "\<exists>s'. run (login_answer_program env cfg pw ctx user) s = (Inl InvalidCredentialsError, s') \<and> clock s' = clock s
     \<and> t_users s' = update_where (\<lambda>u. u_id u = u_id user)
         (\<lambda>u. u\<lparr>u_failed_login_count := u_failed_login_count u + 1, u_updated_at := clock s\<rparr>) (t_users s)"
  using assms by (simp add: login_answer_program_def login_failed_alone login_failed_def users_recordFailedLogin_def
      users_update_def Let_def bindM_run)

text \<open>
  C32: wrong passwords that are tried at the same time can escape the lockout. For an open account that one more
  failure would not lock, and any number of wrong passwords, there is a schedule of their requests under which all of
  them are checked, all failures are recorded, and the account is not locked, although the count may be far
  beyond the limit. With one failure left, the account is locked as it should be.
\<close>

theorem parallel_passwords_escape_lockout:
  assumes "List.find (\<lambda>u. citext_eq (u_email u) (js_lower email)) (t_users s) = Some user"
    and "login_gate (clock s) user = None" and "u_failed_login_count user + 1 < MAX_FAILED_LOGINS cfg"
    and "\<And>pw. pw \<in> set pws \<Longrightarrow> \<not> verifyPassword env (u_password_hash user) pw"
  shows "\<exists>es ts s' user'. schedule es (map (\<lambda>pw. login_program env cfg email pw ctx) pws) s = (ts, s') \<and> length ts = length pws
     \<and> (\<forall>t \<in> set ts. t = Ended (Inl InvalidCredentialsError))
     \<and> users_findByEmail email s' = (Inr (Some user'), s') \<and> u_failed_login_count user' = u_failed_login_count user + int (length pws)
     \<and> login_gate (clock s') user' = None"
proof -
  let ?p = "\<lambda>u. citext_eq (u_email u) (js_lower email)"
  let ?Q = "\<lambda>n s'. clock s' = clock s \<and> (\<exists>u. List.find ?p (t_users s') = Some u \<and> u_id u = u_id user
     \<and> u_failed_login_count u = u_failed_login_count user + int n \<and> u_locked_until u = u_locked_until user \<and> u_status u = u_status user)"
  let ?k = "\<lambda>pw found. case found of
       None \<Rightarrow> andThen (command (audit_record env (with_meta [(''reason'', JStr ''unknown_email'')]
           (with_agent ctx (ctx_event ''USER_LOGIN_FAILED'' ctx))))) (\<lambda>_. Ended (Inl InvalidCredentialsError))
     | Some user \<Rightarrow> login_answer_program env cfg pw ctx user"
  have step: "\<exists>s2. run (?k (pws ! j) (Some user)) s1 = (Inl InvalidCredentialsError, s2) \<and> ?Q (Suc j) s2"
    if "j < length pws" "?Q j s1" for j s1
  proof -
    have bad: "\<not> verifyPassword env (u_password_hash user) (pws ! j)"
      using assms(4) that(1) by simp
    from that(2) obtain u where u: "List.find ?p (t_users s1) = Some u" "u_id u = u_id user"
      "u_failed_login_count u = u_failed_login_count user + int j" "u_locked_until u = u_locked_until user" "u_status u = u_status user"
      and clock: "clock s1 = clock s" by blast
    obtain s2 where s2: "run (login_answer_program env cfg (pws ! j) ctx user) s1 = (Inl InvalidCredentialsError, s2)" "clock s2 = clock s1"
      "t_users s2 = update_where (\<lambda>u. u_id u = u_id user)
         (\<lambda>u. u\<lparr>u_failed_login_count := u_failed_login_count u + 1, u_updated_at := clock s1\<rparr>) (t_users s1)"
      using wrong_password [of s1 user env "pws ! j" cfg ctx] assms(2,3) bad clock by auto
    have "List.find ?p (t_users s2) = Some (u\<lparr>u_failed_login_count := u_failed_login_count u + 1, u_updated_at := clock s1\<rparr>)"
      unfolding s2(3) by (subst find_update_where) (simp_all add: u)
    with s2(1,2) u clock show ?thesis by simp
  qed
  have read: "users_findByEmail email s = (Inr (Some user), s)"
    using assms(1) by (simp add: users_findByEmail_def)
  obtain es ts s' where ended: "schedule es (map (\<lambda>pw. andThen (command (users_findByEmail email)) (?k pw)) pws) s = (ts, s')"
    "length ts = length pws" "\<forall>t \<in> set ts. t = Ended (Inl InvalidCredentialsError)" and Q: "?Q (length pws) s'"
    using read_then_end [where m = "\<lambda>_. users_findByEmail email" and s = s and Q = ?Q and cs = pws and x = "\<lambda>_. Some user"
      and r = "Inl InvalidCredentialsError" and k = ?k, OF read] step assms(1)
    by auto
  from Q obtain u where "List.find ?p (t_users s') = Some u" and count: "u_failed_login_count u = u_failed_login_count user + int (length pws)"
    and same: "u_locked_until u = u_locked_until user" "u_status u = u_status user" "clock s' = clock s" by blast
  then have found: "users_findByEmail email s' = (Inr (Some u), s')" by (simp add: users_findByEmail_def)
  have "login_gate (clock s') u = None"
    using assms(2) unfolding login_gate_def same .
  with ended found count show ?thesis
    unfolding login_program_def by blast
qed

theorem parallel_passwords_escape_lockout_witness:
  "\<exists>es ts s' user'. schedule es (map (\<lambda>pw. login_program sample_env sample_cfg ''a@x'' pw sample_ctx) (replicate 40 ''no'')) sample_world = (ts, s')
     \<and> users_findByEmail ''a@x'' s' = (Inr (Some user'), s') \<and> u_failed_login_count user' = 40 \<and> login_gate (clock s') user' = None"
proof -
  have "List.find (\<lambda>u. citext_eq (u_email u) (js_lower ''a@x'')) (t_users sample_world) = Some sample_user"
    and "login_gate (clock sample_world) sample_user = None" and "u_failed_login_count sample_user + 1 < MAX_FAILED_LOGINS sample_cfg"
    and "u_failed_login_count sample_user = 0" and "\<not> verifyPassword sample_env (u_password_hash sample_user) ''no''"
    by code_simp+
  with parallel_passwords_escape_lockout [of "''a@x''" sample_world sample_user sample_cfg "replicate 40 ''no''" sample_env sample_ctx]
  show ?thesis by fastforce
qed

section \<open>A successor that outruns the answer to a theft\<close>

text \<open>
  The owner's request has rotated the token and not yet stored the successor when the thief's request
  presents the token, finds it rotated and revokes the family and the session.
\<close>

definition outrun :: "event list" where
  "outrun = [Turn 0, Turn 1, Turn 1, Turn 1, Turn 1, Turn 0]"

lemma revoked_hashes:
  "(\<exists>x \<in> set (update_where p (revoke_refresh now) t). rt_id x = a \<or> rt_token_hash x = b) \<longleftrightarrow> (\<exists>x \<in> set t. rt_id x = a \<or> rt_token_hash x = b)"
  by (induction t) (auto simp: revoke_refresh_def)

text \<open>
  C34: the successor of a refresh token can outrun the answer to its theft. When two requests present one
  token that could be rotated, there is a schedule under which one of them is given a successor, the
  other one is answered with \<open>REFRESH_TOKEN_REUSE\<close> and revokes the family and the session, and the
  successor is stored as active in the revoked family afterwards; its session is revoked, though.
\<close>

theorem successor_outruns_revocation:
  assumes "refresh_keys_ok s" and "refresh_consume env cfg token s = (Inr c, s1)"
  shows "\<exists>s' new. schedule outrun [refresh_consume_program env cfg token, refresh_consume_program env cfg token] s
       = ([Ended (Inr c), Ended (Inl (AppError 401 ''REFRESH_TOKEN_REUSE'' ''Refresh token reuse detected - session revoked''))], s')
     \<and> new \<in> set (t_refresh s') \<and> rt_token_hash new = refresh_hash env (cr_nextToken c) \<and> rt_status new = Token_active
     \<and> rt_family_id new = rt_family_id (cr_row c)
     \<and> (\<forall>x \<in> set (t_refresh s'). rt_family_id x = rt_family_id new \<longrightarrow> x \<noteq> new \<longrightarrow> rt_status x = Token_revoked)
     \<and> dead_session (rt_session_id new) s'"
proof -
  obtain r where r: "List.find (usable_refresh (clock s) (refresh_hash env token)) (t_refresh s) = Some r"
    and fresh: "\<forall>x \<in> set (t_refresh s). rt_id x \<noteq> rand_uuid env (Suc (draws s)) \<and> rt_token_hash x \<noteq> refresh_hash env (rand_b64url env 32 (draws s))"
    and c: "c = \<lparr>cr_row = rotate_refresh (clock s) r, cr_nextToken = rand_b64url env 32 (draws s),
              cr_expiresAt = clock s + 1000 * REFRESH_TOKEN_TTL cfg\<rparr>"
    using assms(2) by (cases rule: consume_cases [of env token s cfg]) auto
  let ?s1 = "s\<lparr>t_refresh := rotated_table env token s\<rparr>" and ?h = "refresh_hash env token"
  have first: "refresh_rotate ?h s = (Inr (Some (rotate_refresh (clock s) r)), ?s1)"
    using r by (simp add: refresh_rotate_def first_row_updated rotated_table_def)
  have ok: "refresh_keys_ok ?s1" and spent: "refresh_spent env token ?s1"
    using assms(1) rotated_spent [OF r] by (simp_all add: refresh_keys_ok_def refresh_spent_def)
  have second: "refresh_rotate ?h ?s1 = (Inr None, ?s1)"
    using rotate_none spent_not_usable [OF ok spent] by simp
  have rot: "rotate_refresh (clock s) r \<in> set (t_refresh ?s1)"
    using find_SomeD [OF r] by (auto simp: rotated_table_def set_update_where intro!: bexI [of _ r])
  obtain r' where find: "List.find (\<lambda>r. rt_token_hash r = ?h) (t_refresh ?s1) = Some r'"
    using rot find_SomeD [OF r] by (cases "List.find (\<lambda>r. rt_token_hash r = ?h) (t_refresh ?s1)") (auto simp: find_None_set usable_refresh_def)
  have r': "r' = rotate_refresh (clock s) r"
    using refresh_key_eq [OF ok _ rot] find_SomeD [OF find] find_SomeD [OF r] by (simp add: usable_refresh_def)
  let ?s2 = "theft_response r' ?s1" and ?new = "successor env cfg s r"
  have issue: "refresh_issue env cfg
            \<lparr>rp_sessionId = rt_session_id r, rp_userId = rt_user_id r, rp_clientId = rt_client_id r,
             rp_scope = rt_scope r, rp_familyId = Some (rt_family_id r), rp_previousTokenId = Some (rt_id r)\<rparr> ?s2
      = (Inr (cr_nextToken c, cr_expiresAt c), ?s2\<lparr>t_refresh := t_refresh ?s2 @ [?new], draws := Suc (Suc (draws s))\<rparr>)"
    using fresh by (simp add: refresh_issue_def bindM_run insertM_def insert_row_def list_ex_iff revoked_hashes c successor_def
        theft_response_def rotated_table_def)
  let ?s' = "?s2\<lparr>t_refresh := t_refresh ?s2 @ [?new], draws := Suc (Suc (draws s))\<rparr>"
  have run: "schedule outrun [refresh_consume_program env cfg token, refresh_consume_program env cfg token] s
       = ([Ended (Inr c), Ended (Inl (AppError 401 ''REFRESH_TOKEN_REUSE'' ''Refresh token reuse detected - session revoked''))], ?s')"
    using first second find issue
    by (simp add: outrun_def refresh_consume_program_def refresh_reuse_program_def command_def c refresh_revokeWhere_def theft_response_def)
  have family: "rt_family_id r' = rt_family_id r" "rt_session_id r' = rt_session_id r"
    using r' by (simp_all add: rotate_refresh_def)
  have "rt_status x = Token_revoked" if "x \<in> set (t_refresh ?s')" "rt_family_id x = rt_family_id ?new" "x \<noteq> ?new" for x
    using that family theft_tokens [of x r' ?s1] by (simp add: successor_def)
  moreover have "dead_session (rt_session_id ?new) ?s'"
    using family theft_sessions [of _ r' ?s1] by (auto simp: dead_session_def successor_def)
  ultimately show ?thesis
    by (intro exI [of _ ?s'] exI [of _ ?new] conjI run ballI impI)
      (simp_all add: c successor_def rotate_refresh_def)
qed

theorem successor_outruns_revocation_witness:
  "\<exists>c s' new. schedule outrun [refresh_consume_program sample_env sample_cfg ''tok'', refresh_consume_program sample_env sample_cfg ''tok''] sample_world
       = ([Ended (Inr c), Ended (Inl (AppError 401 ''REFRESH_TOKEN_REUSE'' ''Refresh token reuse detected - session revoked''))], s')
     \<and> new \<in> set (t_refresh s') \<and> rt_status new = Token_active \<and> rt_token_hash new = refresh_hash sample_env ''R''"
proof -
  obtain c s1 where run: "refresh_consume sample_env sample_cfg ''tok'' sample_world = (Inr c, s1)" and "cr_nextToken c = ''R''"
  proof -
    have "case refresh_consume sample_env sample_cfg ''tok'' sample_world of (Inr c, _) \<Rightarrow> cr_nextToken c = ''R'' | _ \<Rightarrow> False"
      by code_simp
    with that show ?thesis by (auto split: prod.splits sum.splits)
  qed
  moreover have "refresh_keys_ok sample_world" by code_simp
  ultimately show ?thesis
    using successor_outruns_revocation [of sample_world sample_env sample_cfg "''tok''" c s1] by metis
qed

end
