(* ===== verification/Rate_Overlaps.thy ===== *)
theory Rate_Overlaps
  imports Rate_Limit Interleaving "HOL-Library.Multiset"
begin

text \<open>
  The rate limiter when requests overlap: its middleware as a program of single Redis commands
  (\<^verbatim>\<open>src/modules/rate-limit/rate-limit.middleware.ts\<close>, \<open>incrementWindow\<close> of
  \<^verbatim>\<open>src/infrastructure/redis/redis.service.ts\<close>). Every \<open>INCR\<close> answers another number, so that no schedule lets
  more requests through than the limit; but the deadline is set by a second command, and when the process
  stops before it, the counter stays for ever.
\<close>

section \<open>The program\<close>

definition limiter_answer :: "rate_limit_options \<Rightarrow> string \<Rightarrow> int \<Rightarrow> (world, exn, int \<times> int) program" where
  "limiter_answer opts key told =
     (if told > ro_limit opts then
        andThen (command (redis_ttl key)) (\<lambda>ttl.
        Ended (Inl (TooManyRequestsError (if ttl > 0 then ttl else ro_windowSeconds opts))))
      else Ended (Inr (ro_limit opts, max 0 (ro_limit opts - told))))"

definition limiter_counted :: "rate_limit_options \<Rightarrow> string \<Rightarrow> int \<Rightarrow> (world, exn, int \<times> int) program" where
  "limiter_counted opts key told =
     andThen (if told = 1 then command (redis_expire key (ro_windowSeconds opts)) else Ended (Inr ())) (\<lambda>_.
     limiter_answer opts key told)"

definition limiter_program :: "rate_limit_options \<Rightarrow> string \<Rightarrow> (world, exn, int \<times> int) program" where
  "limiter_program opts who =
     (let key = redis_key [''rl'', ro_bucket opts, who] in andThen (command (redis_incr key)) (limiter_counted opts key))"

text \<open>A program alone is the middleware of the model.\<close>

lemma limiter_program_run: "run (limiter_program opts who) = rateLimitMiddleware opts who"
  unfolding limiter_program_def limiter_counted_def limiter_answer_def rateLimitMiddleware_def redis_incrementWindow_def Let_def
  by (auto simp: fun_eq_iff bindM_run whenM_def returnM_def split: prod.split sum.split)

section \<open>The counter under every schedule\<close>

text \<open>What is left of a request that was told the number \<open>c\<close>; 0 for one that has not asked yet.\<close>

definition stage :: "rate_limit_options \<Rightarrow> string \<Rightarrow> nat \<Rightarrow> (world, exn, int \<times> int) program \<Rightarrow> bool" where
  "stage opts who c p \<longleftrightarrow> (if c = 0 then p = limiter_program opts who
     else p = limiter_counted opts (rate_key opts who) (int c) \<or> p = limiter_answer opts (rate_key opts who) (int c)
       \<or> ro_limit opts < int c \<and> (\<exists>e. p = Ended (Inl e)))"

definition let_through :: "(world, exn, int \<times> int) program \<Rightarrow> bool" where
  "let_through p \<longleftrightarrow> (case p of Ended (Inr _) \<Rightarrow> True | _ \<Rightarrow> False)"

definition has_ended :: "(world, exn, int \<times> int) program \<Rightarrow> bool" where
  "has_ended p \<longleftrightarrow> (case p of Ended _ \<Rightarrow> True | _ \<Rightarrow> False)"

text \<open>The counter after \<open>k\<close> requests, with no deadline before \<open>T\<close>.\<close>

definition counter :: "string \<Rightarrow> timestamp \<Rightarrow> nat \<Rightarrow> world \<Rightarrow> bool" where
  "counter key T k s \<longleftrightarrow> (if k = 0 then redis_entry (clock s) (redis s) key = None
     else (\<exists>dl. redis_entry (clock s) (redis s) key = Some \<lparr>re_value = RCount (int k), re_expires = dl\<rparr> \<and> (\<forall>t. dl = Some t \<longrightarrow> T \<le> t)))"

lemma counter_incr:
  assumes "counter key T k s" and "clock s < T"
  obtains s' where "redis_incr key s = (Inr (int (Suc k)), s')" and "counter key T (Suc k) s'" and "clock s' = clock s"
  using assms
  by (intro that [of "snd (redis_incr key s)"])
    (auto simp: counter_def redis_incr_def redis_entry_put entry_live_def split: if_splits option.splits)

lemma counter_expire:
  assumes "counter key T k s" and "T \<le> clock s + 1000 * w" and "clock s < T"
  obtains s' where "redis_expire key w s = (Inr (), s')" and "counter key T k s'" and "clock s' = clock s"
  using assms
  by (intro that [of "snd (redis_expire key w s)"])
    (auto simp: counter_def redis_expire_def redis_entry_put entry_live_def split: if_splits option.splits)

lemma counter_wait: "counter key T k s \<Longrightarrow> clock s + int d < T \<Longrightarrow> counter key T k (elapse (int d) s)"
  by (auto simp: counter_def redis_entry_def entry_live_def split: if_splits option.splits)

text \<open>One turn: a request is told the next number, or goes on with its own.\<close>

lemma stage_turn:
  assumes "stage opts who c p" and "advance_program p s = (p', s')" and "counter (rate_key opts who) T k s"
    and "T \<le> clock s + 1000 * ro_windowSeconds opts" and "clock s < T"
  shows "clock s' = clock s
    \<and> (c = 0 \<longrightarrow> stage opts who (Suc k) p' \<and> counter (rate_key opts who) T (Suc k) s')
    \<and> (c \<noteq> 0 \<longrightarrow> stage opts who c p' \<and> counter (rate_key opts who) T k s')"
proof -
  let ?key = "rate_key opts who"
  have answer: "s' = s \<and> stage opts who c p'" if "c \<noteq> 0" "p = limiter_answer opts ?key (int c)"
    using that assms(2) by (auto simp: stage_def limiter_answer_def command_def redis_ttl_def split: if_splits)
  consider (asks) "c = 0" | (counted) "c \<noteq> 0" "p = limiter_counted opts ?key (int c)"
    | (answers) "c \<noteq> 0" "p = limiter_answer opts ?key (int c)" | (over) "c \<noteq> 0" "ro_limit opts < int c" "\<exists>e. p = Ended (Inl e)"
    using assms(1) by (auto simp: stage_def split: if_splits)
  then show ?thesis
  proof cases
    case asks
    obtain s1 where "redis_incr ?key s = (Inr (int (Suc k)), s1)" "counter ?key T (Suc k) s1" "clock s1 = clock s"
      by (rule counter_incr [OF assms(3,5)])
    with asks assms(1,2) show ?thesis
      by (simp add: stage_def limiter_program_def command_def rate_key_def Let_def)
  next
    case counted
    show ?thesis
    proof (cases "c = 1")
      case True
      obtain s1 where "redis_expire ?key (ro_windowSeconds opts) s = (Inr (), s1)" "counter ?key T k s1" "clock s1 = clock s"
        by (rule counter_expire [OF assms(3-5)])
      with True counted assms(2) show ?thesis
        by (auto simp: stage_def limiter_counted_def command_def)
    next
      case False
      with counted have "p = limiter_answer opts ?key (int c)" by (simp add: limiter_counted_def)
      with answer counted(1) assms(3) show ?thesis by simp
    qed
  next
    case answers
    with answer assms(3) show ?thesis by simp
  next
    case over
    with assms(2,3) show ?thesis by (auto simp: stage_def)
  qed
qed

text \<open>The requests and their numbers: those that have asked have the numbers from 1 on, each once.\<close>

definition numbered :: "rate_limit_options \<Rightarrow> string \<Rightarrow> timestamp \<Rightarrow> (world, exn, int \<times> int) program list \<Rightarrow> world \<Rightarrow> bool" where
  "numbered opts who T ts s \<longleftrightarrow> (\<exists>cs k. list_all2 (stage opts who) cs ts \<and> filter_mset ((<) 0) (mset cs) = mset [1..<Suc k]
     \<and> counter (rate_key opts who) T k s)"

lemma numbered_turn:
  assumes "numbered opts who T ts s" and "i < length ts" and "advance_program (ts ! i) s = (p, s1)"
    and "T \<le> clock s + 1000 * ro_windowSeconds opts" and "clock s < T"
  shows "numbered opts who T (ts[i := p]) s1" and "clock s1 = clock s"
proof -
  obtain cs k where cs: "list_all2 (stage opts who) cs ts" "filter_mset ((<) 0) (mset cs) = mset [1..<Suc k]"
    and counter: "counter (rate_key opts who) T k s"
    using assms(1) unfolding numbered_def by blast
  have len: "i < length cs" using cs(1) assms(2) by (simp add: list_all2_lengthD)
  have stage: "stage opts who (cs ! i) (ts ! i)" using list_all2_nthD [OF cs(1) len] .
  note turn = stage_turn [OF stage assms(3) counter assms(4,5)]
  then show "clock s1 = clock s" by simp
  show "numbered opts who T (ts[i := p]) s1"
  proof (cases "cs ! i = 0")
    case True
    have "filter_mset ((<) 0) (mset (cs[i := Suc k])) = mset [1..<Suc (Suc k)]"
      using cs(2) len True by (simp add: mset_update filter_mset_add_mset)
    moreover have "list_all2 (stage opts who) (cs[i := Suc k]) (ts[i := p])"
      using cs(1) turn True by (simp add: list_all2_update_cong)
    ultimately show ?thesis using turn True unfolding numbered_def by blast
  next
    case False
    have "list_all2 (stage opts who) (cs[i := cs ! i]) (ts[i := p])"
      using cs(1) turn False by (intro list_all2_update_cong) simp_all
    then show ?thesis
      using cs(2) turn False unfolding numbered_def by (intro exI [of _ cs] exI [of _ k]) (simp only: list_update_id simp_thms)
  qed
qed

text \<open>The commands of the limiter take no time.\<close>

lemma limiter_keeps_time: "keeps (\<lambda>s. T \<le> clock s) (limiter_program opts who)"
proof -
  have "preserves (\<lambda>s. T \<le> clock s) (redis_incr k)" "preserves (\<lambda>s. T \<le> clock s) (redis_expire k n)" "preserves (\<lambda>s. T \<le> clock s) (redis_ttl k)" for k n
    by (auto simp: preserves_def redis_incr_def redis_expire_def redis_ttl_def split: option.split rvalue.split)
  then show ?thesis
    unfolding limiter_program_def limiter_counted_def limiter_answer_def Let_def by (intro pres)
qed

lemma schedule_numbered:
  assumes "schedule es ts s = (ts', s')" and "numbered opts who T ts s" and "\<forall>t \<in> set ts. keeps (\<lambda>s. T \<le> clock s) t"
    and "T = clock s + 1000 * ro_windowSeconds opts" and "0 < ro_windowSeconds opts" and "clock s' < T"
  shows "numbered opts who T ts' s'"
proof -
  let ?P = "\<lambda>x y. clock s \<le> clock y \<and> (\<forall>t \<in> set x. keeps (\<lambda>s. T \<le> clock s) t) \<and> (clock y < T \<longrightarrow> numbered opts who T x y)"
  have "?P ts s" using assms(2,3) by simp
  with assms(1) have "?P ts' s'"
  proof (induction rule: schedule_induct)
    case (turn ts y i p y1)
    have keep: "keeps (\<lambda>s. T \<le> clock s) p" and late: "T \<le> clock y \<longrightarrow> T \<le> clock y1"
      using keeps_advance [OF _ turn(2), of "\<lambda>s. T \<le> clock s"] turn(1,3) by simp_all
    show ?case
    proof (cases "clock y < T")
      case True
      have "numbered opts who T ts y" and "T \<le> clock y + 1000 * ro_windowSeconds opts"
        using turn(3) True assms(4) by simp_all
      note this = numbered_turn [OF this(1) turn(1,2) this(2) True]
      with turn(3) keep set_update_subset_insert [of ts i p] show ?thesis by auto
    next
      case False
      with turn(3) keep late assms(4,5) set_update_subset_insert [of ts i p] show ?thesis by auto
    qed
  next
    case (wait ts y d)
    then show ?case using counter_wait unfolding numbered_def by fastforce
  qed
  with assms(6) show ?thesis by blast
qed

section \<open>No more than the limit\<close>

lemma stage_let_through: "stage opts who c p \<Longrightarrow> let_through p \<Longrightarrow> 0 < c \<and> int c \<le> ro_limit opts"
  by (auto simp: stage_def let_through_def limiter_program_def limiter_counted_def limiter_answer_def command_def Let_def split: if_splits program.splits sum.splits)

lemma stage_ended: "stage opts who c p \<Longrightarrow> has_ended p \<Longrightarrow> 0 < c \<and> (let_through p \<longleftrightarrow> int c \<le> ro_limit opts)"
  by (auto simp: stage_def let_through_def has_ended_def limiter_program_def limiter_counted_def limiter_answer_def command_def Let_def split: if_splits program.splits sum.splits)

lemma numbers_up_to: "length (filter (\<lambda>c. int c \<le> L) [1..<Suc k]) = min k (nat L)"
  by (induction k) (auto simp: min_def)

lemma count_through:
  assumes "list_all2 (stage opts who) cs ts"
  shows "length (filter let_through ts) \<le> length (filter (\<lambda>c. int c \<le> ro_limit opts) (filter ((<) 0) cs))"
    and "(\<forall>t \<in> set ts. has_ended t) \<Longrightarrow> filter ((<) 0) cs = cs \<and> length (filter let_through ts) = length (filter (\<lambda>c. int c \<le> ro_limit opts) cs)"
  using assms by (induction rule: list_all2_induct) (auto dest: stage_let_through stage_ended)

text \<open>
  C20: however requests overlap, a window lets no more of them through than the limit. Any number of
  requests of one address start at any time in a window that nobody has used before, their Redis commands
  come in any order, and time passes in between, less than the window has; then at most \<open>limit\<close> of them have
  been let through, and when all have their answer, exactly \<open>limit\<close> of them, or all if they are fewer.
\<close>

theorem overlapping_requests_within_limit:
  assumes "schedule es (replicate n (limiter_program opts who)) s = (ts, s')"
    and "redis_lookup (rate_key opts who) s = None" and "0 < ro_windowSeconds opts"
    and "clock s' < clock s + 1000 * ro_windowSeconds opts"
  shows "length (filter let_through ts) \<le> nat (ro_limit opts)
    \<and> ((\<forall>t \<in> set ts. has_ended t) \<longrightarrow> length (filter let_through ts) = min n (nat (ro_limit opts)))"
proof -
  let ?T = "clock s + 1000 * ro_windowSeconds opts" and ?ts = "replicate n (limiter_program opts who)"
  have "list_all2 (stage opts who) (replicate n 0) ?ts" by (simp add: list_all2_conv_all_nth stage_def)
  moreover have "filter_mset ((<) 0) (mset (replicate n 0)) = mset [1..<Suc 0]"
    by (simp add: filter_empty_conv flip: mset_filter)
  moreover have "counter (rate_key opts who) ?T 0 s" using assms(2) by (simp add: counter_def redis_lookup_def)
  ultimately have "numbered opts who ?T ?ts s" unfolding numbered_def by blast
  then have "numbered opts who ?T ts s'"
    using schedule_numbered [OF assms(1)] limiter_keeps_time assms(3,4) by simp
  then obtain cs k where cs: "list_all2 (stage opts who) cs ts" and numbers: "mset (filter ((<) 0) cs) = mset [1..<Suc k]"
    unfolding numbered_def by (auto simp: mset_filter)
  have upto: "length (filter (\<lambda>c. int c \<le> ro_limit opts) (filter ((<) 0) cs)) = min k (nat (ro_limit opts))"
    using numbers numbers_up_to [of "ro_limit opts" k] by (metis mset_filter size_mset)
  have "length ts = n" using schedule_length [OF assms(1)] by simp
  show ?thesis
  proof (intro conjI impI)
    show "length (filter let_through ts) \<le> nat (ro_limit opts)" using count_through(1) [OF cs] upto by simp
    assume "\<forall>t \<in> set ts. has_ended t"
    with count_through(2) [OF cs] have all: "filter ((<) 0) cs = cs"
      and "length (filter let_through ts) = length (filter (\<lambda>c. int c \<le> ro_limit opts) cs)" by simp_all
    moreover have "k = n"
      using numbers \<open>length ts = n\<close> list_all2_lengthD [OF cs] unfolding all by (metis diff_Suc_1 length_upt size_mset One_nat_def)
    ultimately show "length (filter let_through ts) = min n (nat (ro_limit opts))" using upto by simp
  qed
qed

text \<open>Three requests, a limit of two: the second one is told its number first.\<close>

definition rush :: "event list" where
  "rush = [Turn 1, Turn 0, Wait 5, Turn 2, Turn 2, Turn 1, Wait 7]"

theorem overlapping_requests_within_limit_witness:
  "length (filter let_through (fst (schedule rush (replicate 3 (limiter_program sample_limit ''10.0.0.1'')) empty_world))) = 2"
proof -
  let ?run = "schedule rush (replicate 3 (limiter_program sample_limit ''10.0.0.1'')) empty_world"
  obtain ts s' where run: "?run = (ts, s')" by (cases ?run)
  have "list_all has_ended (fst ?run) \<and> clock (snd ?run) < clock empty_world + 60000" by code_simp
  then have ended: "\<forall>t \<in> set ts. has_ended t" and clock: "clock s' < clock empty_world + 60000" by (simp_all add: run list_all_iff)
  have "redis_lookup (rate_key sample_limit ''10.0.0.1'') empty_world = None"
    by (simp add: redis_lookup_def redis_entry_def empty_world_def)
  from overlapping_requests_within_limit [OF run this] ended clock show ?thesis
    unfolding run fst_conv by (simp add: sample_limit_def)
qed

section \<open>A counter without a deadline\<close>

definition stuck :: "string \<Rightarrow> int \<Rightarrow> world \<Rightarrow> bool" where
  "stuck key n s \<longleftrightarrow> redis_entry (clock s) (redis s) key = Some \<lparr>re_value = RCount n, re_expires = None\<rparr>"

lemma stuck_run:
  assumes "stuck (rate_key opts who) n s" and "0 < n"
  shows "fst (request_run opts who ds s) = map (\<lambda>i. n + int i < ro_limit opts) [0..<length ds]"
  using assms
proof (induction ds arbitrary: n s)
  case (Cons d ds)
  have "stuck (rate_key opts who) n (elapse d s)"
    using Cons.prems(1) by (auto simp: stuck_def redis_entry_def entry_live_def split: option.splits if_splits)
  then obtain s' where inc: "redis_incrementWindow (rate_key opts who) (ro_windowSeconds opts) (elapse d s) = (Inr (n + 1), s')"
    and next_stuck: "stuck (rate_key opts who) (n + 1) s'"
    using Cons.prems(2)
    by (simp add: stuck_def redis_incrementWindow_def redis_incr_def redis_entry_put entry_live_def bindM_run whenM_def returnM_def)
  have rest: "fst (request_run opts who ds s') = map (\<lambda>i. n + 1 + int i < ro_limit opts) [0..<length ds]"
    by (rule Cons.IH [OF next_stuck]) (use Cons.prems(2) in simp)
  show ?case
    unfolding request_run_Cons rate_limit_state [OF inc] rest
    by (simp add: map_count_Suc del: upt_Suc) (simp add: add1_zle_eq)
qed simp

text \<open>
  C33: a limiter that stops between its two commands locks the address out for ever. When the process
  ends after the \<open>INCR\<close> of the first request of a window, before the \<open>EXPIRE\<close>, the counter has no deadline:
  of all later requests, at whatever times they come, only the first \<open>limit - 1\<close> are let through.
\<close>

theorem interrupted_limiter_locks_out:
  assumes "redis_lookup (rate_key opts who) s = None"
  shows "fst (request_run opts who ds (snd (advance_program (limiter_program opts who) s)))
    = map (\<lambda>i. 1 + int i < ro_limit opts) [0..<length ds]"
proof (rule stuck_run)
  show "stuck (rate_key opts who) 1 (snd (advance_program (limiter_program opts who) s))"
    using assms by (simp add: stuck_def limiter_program_def rate_key_def command_def redis_incr_def redis_lookup_def redis_entry_put entry_live_def Let_def)
qed simp

theorem interrupted_limiter_locks_out_witness:
  "fst (request_run sample_limit ''10.0.0.1'' [0, 60000, 86400000] (snd (advance_program (limiter_program sample_limit ''10.0.0.1'') empty_world)))
    = [True, False, False]"
proof -
  have "redis_lookup (rate_key sample_limit ''10.0.0.1'') empty_world = None"
    by (simp add: redis_lookup_def redis_entry_def empty_world_def)
  note run = interrupted_limiter_locks_out [OF this, of "[0, 60000, 86400000]"]
  show ?thesis
    unfolding run by (simp add: sample_limit_def upt_rec)
qed

end
