(* ===== verification/Dom.thy ===== *)
theory Dom
  imports Js_Number
begin

text \<open>
  The document of the browser as far as the views need it (\<^verbatim>\<open>src/apps/frontend/client/ui.ts\<close>): a tree of
  elements and texts, built by \<open>el\<close>, searched by selectors, and changed at the places that a search has
  found. A reference to an element is its path from the root. The value an input has now is part of the
  tree, as the attribute \<open>value\<close> is only what it begins with. Characters of the sources outside of the
  Latin-1 range stand in texts as their UTF-8 bytes.
\<close>

section \<open>The tree\<close>

type_synonym attributes = "(string \<times> string) list"

datatype node = Text string | Element string attributes "string option" "node list"

datatype attr_value = AString string | ANumber int | ABool bool | ANull | AUndefined

fun set_attribute :: "string \<Rightarrow> string \<Rightarrow> attributes \<Rightarrow> attributes" where
  "set_attribute k v [] = [(k, v)]"
| "set_attribute k v ((k', v') # as) = (if k' = k then (k, v) # as else (k', v') # set_attribute k v as)"

text \<open>\<open>String(value)\<close>.\<close>

definition attr_text :: "attr_value \<Rightarrow> string" where
  "attr_text v = (case v of
      AString x \<Rightarrow> x | ANumber n \<Rightarrow> int_string n | ABool b \<Rightarrow> (if b then ''true'' else ''false'')
    | ANull \<Rightarrow> ''null'' | AUndefined \<Rightarrow> ''undefined'')"

text \<open>Functions are no attribute values by the type of \<open>el\<close>.\<close>

definition el_attribute :: "string \<times> attr_value \<Rightarrow> attributes \<Rightarrow> attributes" where
  "el_attribute = (\<lambda>(key, v) as.
     if v = ANull \<or> v = AUndefined \<or> v = ABool False then as
     else if key = ''class'' then set_attribute ''class'' (attr_text v) as
     else if key = ''dataset'' then as
     else if v = ABool True then set_attribute key [] as
     else set_attribute key (attr_text v) as)"

text \<open>A child is a node, a string or an array of both.\<close>

datatype child = Node node | Words string | Many "child list"

primrec child_nodes :: "child \<Rightarrow> node list" where
  "child_nodes (Node n) = [n]"
| "child_nodes (Words x) = [Text x]"
| "child_nodes (Many cs) = concat (map child_nodes cs)"

definition el :: "string \<Rightarrow> (string \<times> attr_value) list \<Rightarrow> child list \<Rightarrow> node" where
  "el tag attrs cs = Element tag (fold el_attribute attrs []) None (concat (map child_nodes cs))"

abbreviation sub :: "string \<Rightarrow> (string \<times> attr_value) list \<Rightarrow> child list \<Rightarrow> child" where
  "sub tag attrs cs \<equiv> Node (el tag attrs cs)"

abbreviation cls :: "string \<Rightarrow> (string \<times> attr_value) list" where
  "cls x \<equiv> [(''class'', AString x)]"

fun append_children :: "node list \<Rightarrow> node \<Rightarrow> node" where
  "append_children ns (Element t as v cs) = Element t as v (cs @ ns)"
| "append_children ns (Text x) = Text x"

definition clear :: "node \<Rightarrow> node" where
  "clear n = (case n of Element t as v _ \<Rightarrow> Element t as v [] | Text x \<Rightarrow> Text x)"

section \<open>References\<close>

type_synonym path = "nat list"

fun node_at :: "path \<Rightarrow> node \<Rightarrow> node option" where
  "node_at [] n = Some n"
| "node_at (i # p) (Element t as v cs) = (if i < length cs then node_at p (cs ! i) else None)"
| "node_at (i # p) (Text x) = None"

fun modify_at :: "path \<Rightarrow> (node \<Rightarrow> node) \<Rightarrow> node \<Rightarrow> node" where
  "modify_at [] f n = f n"
| "modify_at (i # p) f (Element t as v cs) =
     Element t as v (if i < length cs then cs[i := modify_at p f (cs ! i)] else cs)"
| "modify_at (i # p) f (Text x) = Text x"

text \<open>The paths of the descendants, in document order.\<close>

fun descendants :: "node \<Rightarrow> path list" and descendants_from :: "nat \<Rightarrow> node list \<Rightarrow> path list" where
  "descendants (Text x) = []"
| "descendants (Element t as v cs) = descendants_from 0 cs"
| "descendants_from i [] = []"
| "descendants_from i (c # cs) = ([i] # map ((#) i) (descendants c)) @ descendants_from (Suc i) cs"

section \<open>Selectors\<close>

datatype simple_selector = Tag string | Class string | Id string | Attr string string

text \<open>A compound selector, with the one of an ancestor if there is any.\<close>

type_synonym selector = "simple_selector list list"

definition attribute :: "string \<Rightarrow> node \<Rightarrow> string option" where
  "attribute k n = (case n of Element _ as _ _ \<Rightarrow> map_of as k | Text _ \<Rightarrow> None)"

definition classes :: "node \<Rightarrow> string list" where
  "classes n = (case attribute ''class'' n of Some x \<Rightarrow> words x | None \<Rightarrow> [])"

definition matches_simple :: "node \<Rightarrow> simple_selector \<Rightarrow> bool" where
  "matches_simple n sel = (case sel of
      Tag t \<Rightarrow> (case n of Element t' _ _ _ \<Rightarrow> t' = t | Text _ \<Rightarrow> False)
    | Class c \<Rightarrow> c \<in> set (classes n)
    | Id x \<Rightarrow> attribute ''id'' n = Some x
    | Attr k x \<Rightarrow> attribute k n = Some x)"

definition matches_compound :: "node option \<Rightarrow> simple_selector list \<Rightarrow> bool" where
  "matches_compound n sels = (case n of
      Some (Element t as v cs) \<Rightarrow> list_all (matches_simple (Element t as v cs)) sels
    | _ \<Rightarrow> False)"

definition matches :: "node \<Rightarrow> selector \<Rightarrow> path \<Rightarrow> bool" where
  "matches root sel p = (case sel of
      [c] \<Rightarrow> matches_compound (node_at p root) c
    | [outer, c] \<Rightarrow> matches_compound (node_at p root) c
        \<and> list_ex (\<lambda>k. matches_compound (node_at (take k p) root) outer) [0..<length p]
    | _ \<Rightarrow> False)"

definition querySelectorAll :: "selector \<Rightarrow> node \<Rightarrow> path list" where
  "querySelectorAll sel root = filter (matches root sel) (descendants root)"

definition querySelector :: "selector \<Rightarrow> node \<Rightarrow> path option" where
  "querySelector sel root = List.find (matches root sel) (descendants root)"

section \<open>Changes\<close>

definition with_attributes :: "(attributes \<Rightarrow> attributes) \<Rightarrow> node \<Rightarrow> node" where
  "with_attributes f n = (case n of Element t as v cs \<Rightarrow> Element t (f as) v cs | Text x \<Rightarrow> Text x)"

definition remove_attribute :: "string \<Rightarrow> attributes \<Rightarrow> attributes" where
  "remove_attribute k as = filter (\<lambda>(k', _). k' \<noteq> k) as"

text \<open>\<open>classList.toggle(name, force)\<close> writes the attribute only when it changes the set of classes.\<close>

definition toggle_class :: "string \<Rightarrow> bool \<Rightarrow> node \<Rightarrow> node" where
  "toggle_class c force n =
     (let ws = fold (\<lambda>w ws. if w \<in> set ws then ws else ws @ [w]) (classes n) [] in
      if (c \<in> set ws) = force then n
      else with_attributes (set_attribute ''class'' (join_with '' '' (if force then ws @ [c] else filter (\<lambda>w. w \<noteq> c) ws))) n)"

definition disableButton :: "path \<Rightarrow> bool \<Rightarrow> node \<Rightarrow> node" where
  "disableButton button busy root =
     (let root = modify_at button (\<lambda>b. toggle_class ''is-busy'' busy
                   (with_attributes (if busy then set_attribute ''disabled'' [] else remove_attribute ''disabled'') b)) root in
      case node_at button root of
        None \<Rightarrow> root
      | Some b \<Rightarrow>
          (case querySelector [[Class ''spinner'']] b of
             None \<Rightarrow> root
           | Some p \<Rightarrow> modify_at (button @ p)
               (with_attributes (set_attribute ''aria-hidden'' (if busy then ''true'' else ''false''))) root))"

definition inputError :: "path \<Rightarrow> string option \<Rightarrow> node \<Rightarrow> node" where
  "inputError input message =
     modify_at input (\<lambda>n. with_attributes (set_attribute ''aria-invalid'' (if message \<noteq> None then ''true'' else ''false''))
       (toggle_class ''input--error'' (message \<noteq> None) n))"

section \<open>Forms\<close>

text \<open>The value of an input: what was typed, or else the attribute.\<close>

definition input_value :: "node \<Rightarrow> string" where
  "input_value n = (case n of
      Element _ as v _ \<Rightarrow> (case v of Some x \<Rightarrow> x | None \<Rightarrow> (case map_of as ''value'' of Some x \<Rightarrow> x | None \<Rightarrow> []))
    | Text _ \<Rightarrow> [])"

definition set_value :: "string \<Rightarrow> node \<Rightarrow> node" where
  "set_value x n = (case n of Element t as _ cs \<Rightarrow> Element t as (Some x) cs | Text y \<Rightarrow> Text y)"

definition type_into :: "selector \<Rightarrow> string \<Rightarrow> node \<Rightarrow> node" where
  "type_into sel x root = (case querySelector sel root of Some p \<Rightarrow> modify_at p (set_value x) root | None \<Rightarrow> root)"

text \<open>The entries of \<open>FormData\<close>: the inputs that have a name and are not disabled.\<close>

definition form_entry :: "node \<Rightarrow> (string \<times> string) list" where
  "form_entry n = (case n of
      Element t as _ _ \<Rightarrow> (case map_of as ''name'' of
          Some k \<Rightarrow> if t = ''input'' \<and> k \<noteq> [] \<and> map_of as ''disabled'' = None then [(k, input_value n)] else []
        | None \<Rightarrow> [])
    | Text _ \<Rightarrow> [])"

definition form_entries :: "node \<Rightarrow> (string \<times> string) list" where
  "form_entries form = concat (map (\<lambda>p. case node_at p form of Some n \<Rightarrow> form_entry n | None \<Rightarrow> []) (descendants form))"

text \<open>\<open>formData\<close>: empty values have no entry; a later entry replaces an earlier one.\<close>

definition formData :: "node \<Rightarrow> string \<Rightarrow> string option" where
  "formData form = map_of (rev (filter (\<lambda>(_, v). v \<noteq> []) (form_entries form)))"

section \<open>Toasts\<close>

datatype toast_kind = Success | Error | Info

text \<open>A toast stays for 4000 milliseconds and takes 350 more to leave.\<close>

record toast =
  to_message :: string
  to_kind :: toast_kind
  to_shown :: int

definition toast_show :: "string \<Rightarrow> toast_kind \<Rightarrow> int \<Rightarrow> toast list \<Rightarrow> toast list" where
  "toast_show message kind now ts = ts @ [\<lparr>to_message = message, to_kind = kind, to_shown = now\<rparr>]"

definition toasts_at :: "int \<Rightarrow> toast list \<Rightarrow> toast list" where
  "toasts_at now ts = filter (\<lambda>t. now < to_shown t + 4350) ts"

definition toast_icon :: "toast_kind \<Rightarrow> string" where
  "toast_icon k = (case k of
      Success \<Rightarrow> [CHR 0xE2, CHR 0x9C, CHR 0x93]
    | Error \<Rightarrow> [CHR 0xE2, CHR 0x9C, CHR 0x95]
    | Info \<Rightarrow> [CHR 0xE2, CHR 0x84, CHR 0xB9])"

definition toast_kind_text :: "toast_kind \<Rightarrow> string" where
  "toast_kind_text k = (case k of Success \<Rightarrow> ''success'' | Error \<Rightarrow> ''error'' | Info \<Rightarrow> ''info'')"

text \<open>The element a toast is shown as, before its animation.\<close>

definition toast_node :: "toast \<Rightarrow> node" where
  "toast_node t = el ''div'' (cls (''toast toast--'' @ toast_kind_text (to_kind t)))
     [sub ''span'' (cls ''toast__icon'') [Words (toast_icon (to_kind t))],
      sub ''span'' (cls ''toast__msg'') [Words (to_message t)]]"

section \<open>References and changes\<close>

lemma node_at_append: "node_at (p @ q) n = (case node_at p n of Some m \<Rightarrow> node_at q m | None \<Rightarrow> None)"
  by (induction p n rule: node_at.induct) simp_all

lemma node_at_modify: "node_at p n = Some m \<Longrightarrow> node_at p (modify_at p f n) = Some (f m)"
  by (induction p f n rule: modify_at.induct) (auto split: if_splits)

lemma modify_outside: "node_at p n = None \<Longrightarrow> modify_at p f n = n"
  by (induction p f n rule: modify_at.induct) (auto split: if_splits)

end
