(* ===== verification/Spa_Views.thy ===== *)
theory Spa_Views
  imports Spa Dom
begin

text \<open>
  The views of the browser application as they stand in the document
  (\<^verbatim>\<open>src/apps/frontend/client/views\<close>): the elements each view builds, the links it wires, and the
  handler of its form, which reads the form, calls the API client and changes the form, the toasts and
  the location.
\<close>

section \<open>The forms\<close>

text \<open>Characters beyond Latin-1 that the sources write: bullet, ellipsis, dash and the mark of the brand.\<close>

definition utf8_bullet :: string where "utf8_bullet = [CHR 0xE2, CHR 0x80, CHR 0xA2]"
definition utf8_ellipsis :: string where "utf8_ellipsis = [CHR 0xE2, CHR 0x80, CHR 0xA6]"
definition utf8_dash :: string where "utf8_dash = [CHR 0xE2, CHR 0x80, CHR 0x94]"
definition utf8_mark :: string where "utf8_mark = [CHR 0xE2, CHR 0x97, CHR 0x88]"

definition form_attributes :: "string \<Rightarrow> (string \<times> attr_value) list" where
  "form_attributes i = [(''class'', AString ''card card--enter''), (''id'', AString i), (''novalidate'', AString [])]"

definition card_brand :: child where
  "card_brand = sub ''div'' (cls ''card__brand'')
     [sub ''span'' (cls ''brand-mark'') [Words utf8_mark], sub ''span'' (cls ''brand-name'') [Words ''Identity Platform'']]"

definition submit_button :: "string \<Rightarrow> child" where
  "submit_button label = sub ''button'' [(''class'', AString ''btn btn--primary btn--block''), (''type'', AString ''submit'')]
     [sub ''span'' [(''class'', AString ''spinner''), (''aria-hidden'', AString ''true'')] [],
      sub ''span'' (cls ''btn__label'') [Words label]]"

definition link_button :: "string \<Rightarrow> child" where
  "link_button label = sub ''button'' [(''class'', AString ''link''), (''type'', AString ''button'')] [Words label]"

definition email_field :: child where
  "email_field = sub ''label'' (cls ''field'')
     [sub ''span'' (cls ''field__label'') [Words ''Email''],
      sub ''input'' [(''class'', AString ''input''), (''type'', AString ''email''), (''name'', AString ''email''),
        (''placeholder'', AString ''you@example.com''), (''required'', AString []), (''autocomplete'', AString ''email'')] []]"

definition login_form :: node where
  "login_form = el ''form'' (form_attributes ''login-form'')
     [card_brand,
      sub ''h1'' (cls ''card__title'') [Words ''Sign in''],
      sub ''p'' (cls ''card__subtitle'') [Words ''Welcome back. Sign in to continue.''],
      email_field,
      sub ''label'' (cls ''field'')
        [sub ''span'' (cls ''field__label'') [Words ''Password''],
         sub ''input'' [(''class'', AString ''input''), (''type'', AString ''password''), (''name'', AString ''password''),
           (''placeholder'', AString (concat (replicate 12 utf8_bullet))), (''required'', AString []),
           (''autocomplete'', AString ''current-password'')] []],
      submit_button ''Sign in'',
      sub ''div'' (cls ''card__footer'') [sub ''span'' [] [Words ''Don't have an account?''], link_button ''Create one''],
      sub ''div'' (cls ''card__footer card__footer--tight'') [link_button ''Forgot password?'']]"

definition METER_LABELS :: "string list" where
  "METER_LABELS = [''Too weak'', ''Weak'', ''Fair'', ''Good'', ''Strong'']"

definition register_form :: node where
  "register_form = el ''form'' (form_attributes ''register-form'')
     [card_brand,
      sub ''h1'' (cls ''card__title'') [Words ''Create your account''],
      sub ''p'' (cls ''card__subtitle'') [Words ''Register to access protected resources.''],
      sub ''div'' (cls ''field-row'')
        [sub ''label'' (cls ''field'')
           [sub ''span'' (cls ''field__label'') [Words ''First name''],
            sub ''input'' [(''class'', AString ''input''), (''type'', AString ''text''), (''name'', AString ''first_name''),
              (''placeholder'', AString ''Ada''), (''autocomplete'', AString ''given-name'')] []],
         sub ''label'' (cls ''field'')
           [sub ''span'' (cls ''field__label'') [Words ''Last name''],
            sub ''input'' [(''class'', AString ''input''), (''type'', AString ''text''), (''name'', AString ''last_name''),
              (''placeholder'', AString ''Lovelace''), (''autocomplete'', AString ''family-name'')] []]],
      email_field,
      sub ''label'' (cls ''field'')
        [sub ''span'' (cls ''field__label'') [Words ''Password''],
         sub ''input'' [(''class'', AString ''input''), (''type'', AString ''password''), (''name'', AString ''password''),
           (''placeholder'', AString ''At least 12 characters''), (''required'', AString []), (''autocomplete'', AString ''new-password'')] [],
         sub ''div'' (cls ''meter'')
           [sub ''div'' [(''class'', AString ''meter__bar''), (''data-level'', AString ''0'')] [],
            sub ''div'' (cls ''meter__label'') [Words (METER_LABELS ! 0)]]],
      submit_button ''Create account'',
      sub ''div'' (cls ''card__footer'') [sub ''span'' [] [Words ''Already have an account?''], link_button ''Sign in'']]"

definition otp_box :: child where
  "otp_box = sub ''input'' [(''class'', AString ''otp__box''), (''type'', AString ''tel''), (''inputmode'', AString ''numeric''),
     (''pattern'', AString ''[0-9]*''), (''maxlength'', AString ''1'')] []"

definition mfa_form :: node where
  "mfa_form = el ''form'' (form_attributes ''mfa-form'')
     [card_brand,
      sub ''h1'' (cls ''card__title'') [Words ''Two-factor authentication''],
      sub ''p'' (cls ''card__subtitle'') [Words ''Enter the 6-digit code from your authenticator app.''],
      sub ''label'' (cls ''field'')
        [sub ''span'' (cls ''field__label'') [Words ''Six-digit code''],
         sub ''div'' (cls ''otp'') (replicate 6 otp_box)],
      submit_button ''Verify'',
      sub ''div'' (cls ''card__footer'') [link_button ''Back to sign in'']]"

definition forgot_form :: node where
  "forgot_form = el ''form'' (form_attributes ''forgot-form'')
     [card_brand,
      sub ''h1'' (cls ''card__title'') [Words ''Reset your password''],
      sub ''p'' (cls ''card__subtitle'') [Words ''Enter your email and we will send you a reset token via email inbox.''],
      email_field,
      submit_button ''Send reset code'',
      sub ''div'' (cls ''card__footer'') [link_button ''Back to sign in'']]"

definition reset_form :: "string \<Rightarrow> node" where
  "reset_form token = el ''form'' (form_attributes ''reset-form'')
     [card_brand,
      sub ''h1'' (cls ''card__title'') [Words ''Choose a new password''],
      sub ''p'' (cls ''card__subtitle'') [Words ''Enter the reset token from your email and choose a new strong password.''],
      sub ''label'' (cls ''field'')
        [sub ''span'' (cls ''field__label'') [Words ''Reset token''],
         sub ''input'' [(''class'', AString ''input''), (''type'', AString ''text''), (''name'', AString ''token''),
           (''value'', AString token), (''required'', AString []), (''autocomplete'', AString ''off'')] []],
      sub ''label'' (cls ''field'')
        [sub ''span'' (cls ''field__label'') [Words ''New password''],
         sub ''input'' [(''class'', AString ''input''), (''type'', AString ''password''), (''name'', AString ''password''),
           (''placeholder'', AString ''At least 12 characters''), (''required'', AString []), (''autocomplete'', AString ''new-password'')] []],
      submit_button ''Reset password'',
      sub ''div'' (cls ''card__footer'') [link_button ''Back to sign in'']]"

text \<open>A view is its form in a container; the recovery view has two stages.\<close>

definition in_container :: "node \<Rightarrow> node" where
  "in_container form = append_children [form] (el ''div'' (cls ''auth'') [])"

definition form_of_view :: "browser \<Rightarrow> string \<Rightarrow> node option" where
  "form_of_view b view =
     (if view = ''/login'' then Some login_form
      else if view = ''/register'' then Some register_form
      else if view = ''/mfa'' then Some mfa_form
      else if view = ''/reset'' then Some (case reset_stage b of None \<Rightarrow> forgot_form | Some token \<Rightarrow> reset_form token)
      else None)"

section \<open>Links\<close>

definition footer_buttons :: "node \<Rightarrow> path list" where
  "footer_buttons form = querySelectorAll [[Class ''card__footer''], [Tag ''button'']] form"

text \<open>The login view wires its first two footer buttons, every other view the first one.\<close>

definition links_of_view :: "string \<Rightarrow> node \<Rightarrow> (path \<times> string) list" where
  "links_of_view view form =
     (if view = ''/login'' then zip (footer_buttons form) [''/register'', ''/reset'']
      else case querySelector [[Class ''card__footer''], [Tag ''button'']] form of
          Some p \<Rightarrow> [(p, ''/login'')]
        | None \<Rightarrow> [])"

section \<open>Handlers\<close>

text \<open>What a handler changes beside the browser: its form and the toasts.\<close>

record screen =
  sc_form :: node
  sc_toasts :: "toast list"
  sc_now :: int

definition email_input :: "node \<Rightarrow> path option" where
  "email_input form = querySelector [[Tag ''input'', Attr ''name'' ''email'']] form"

definition password_input :: "node \<Rightarrow> path option" where
  "password_input form = querySelector [[Tag ''input'', Attr ''name'' ''password'']] form"

definition submit_of :: "node \<Rightarrow> path option" where
  "submit_of form = querySelector [[Tag ''button'', Attr ''type'' ''submit'']] form"

text \<open>\<open>if (input) inputError(input, message)\<close>, \<open>if (button) disableButton(button, busy)\<close> and \<open>toast\<close>.\<close>

definition mark :: "path option \<Rightarrow> string option \<Rightarrow> screen \<Rightarrow> screen" where
  "mark input message sc = (case input of Some p \<Rightarrow> sc\<lparr>sc_form := inputError p message (sc_form sc)\<rparr> | None \<Rightarrow> sc)"

definition set_busy :: "path option \<Rightarrow> bool \<Rightarrow> screen \<Rightarrow> screen" where
  "set_busy button busy sc = (case button of Some p \<Rightarrow> sc\<lparr>sc_form := disableButton p busy (sc_form sc)\<rparr> | None \<Rightarrow> sc)"

definition notify :: "string \<Rightarrow> toast_kind \<Rightarrow> screen \<Rightarrow> screen" where
  "notify message kind sc = sc\<lparr>sc_toasts := toast_show message kind (sc_now sc) (sc_toasts sc)\<rparr>"

text \<open>The message of an \<open>ApiError\<close>: the body's message, its error code, or the status.\<close>

definition json_member :: "string \<Rightarrow> jval \<Rightarrow> string option" where
  "json_member name v = (case v of
      JObj fs \<Rightarrow> (case map_of fs name of Some (JStr x) \<Rightarrow> if x = [] then None else Some x | _ \<Rightarrow> None)
    | _ \<Rightarrow> None)"

definition api_error_message :: "int \<times> jval \<Rightarrow> string" where
  "api_error_message = (\<lambda>(status, body). case json_member ''message'' body of
      Some m \<Rightarrow> m
    | None \<Rightarrow> (case json_member ''error'' body of
          Some m \<Rightarrow> m
        | None \<Rightarrow> ''Request failed ('' @ int_string status @ '')''))"

definition login_handler :: "'w net \<Rightarrow> screen \<times> (browser \<times> 'w) \<Rightarrow> screen \<times> (browser \<times> 'w)" where
  "login_handler net = (\<lambda>(sc, st).
     let data = formData (sc_form sc); input = email_input (sc_form sc); button = submit_of (sc_form sc) in
     if input \<noteq> None \<and> truthy (data ''email'') \<and> \<not> email_pattern (the (data ''email'')) then
       (mark input (Some ''Enter a valid email address'') sc, st)
     else
       (let sc = set_busy button True (mark input None sc) in
        case apiRequest net (api_login (data ''email'') (data ''password'')) st of
          (Inl e, st') \<Rightarrow> (set_busy button False (notify (api_error_message e) Error sc), st')
        | (Inr res, (b, w)) \<Rightarrow>
            if mfa_wanted res then
              (set_busy button False sc, (navigate (''/mfa?challenge='' @ encodeURIComponent (json_text ''mfa_challenge_id'' res)) b, w))
            else
              (set_busy button False (notify ''Signed in successfully'' Success sc), (sign_in res b, w))))"

text \<open>\<open>scorePassword(data.password)\<close> throws when there is no password; nobody handles that.\<close>

definition register_handler :: "'w net \<Rightarrow> screen \<times> (browser \<times> 'w) \<Rightarrow> screen \<times> (browser \<times> 'w)" where
  "register_handler net = (\<lambda>(sc, st).
     let data = formData (sc_form sc); input = email_input (sc_form sc); secret = password_input (sc_form sc);
         button = submit_of (sc_form sc) in
     if input \<noteq> None \<and> truthy (data ''email'') \<and> \<not> email_pattern (the (data ''email'')) then
       (mark input (Some ''Enter a valid email address'') sc, st)
     else
       (let sc = mark input None sc in
        if secret \<noteq> None \<and> data ''password'' = None then (sc, st)
        else if secret \<noteq> None \<and> scorePassword (the (data ''password'')) < 2 then
          (mark secret (Some ''Password must be at least 12 characters with upper, lower and digits.'') sc, st)
        else
          (let sc = set_busy button True (mark secret None sc) in
           case apiRequest net (api_register [(''email'', data ''email''), (''password'', data ''password''),
                  (''first_name'', data ''first_name''), (''last_name'', data ''last_name'')]) st of
             (Inl e, st') \<Rightarrow> (set_busy button False (notify (api_error_message e) Error sc), st')
           | (Inr _, (b, w)) \<Rightarrow>
               (set_busy button False (notify (''Registration submitted '' @ utf8_dash @ '' check your inbox for a verification link'')
                  Success sc), (navigate ''/login'' b, w)))))"

text \<open>The meter: level and label follow the password.\<close>

definition set_text :: "string \<Rightarrow> node \<Rightarrow> node" where
  "set_text x n = (case n of Element t as v _ \<Rightarrow> Element t as v (if x = [] then [] else [Text x]) | Text y \<Rightarrow> Text x)"

definition meter_input :: "screen \<Rightarrow> screen" where
  "meter_input sc =
     (let form = sc_form sc;
          password = (case password_input form of Some p \<Rightarrow> (case node_at p form of Some n \<Rightarrow> input_value n | None \<Rightarrow> []) | None \<Rightarrow> []);
          level = scorePassword password;
          form = (case querySelector [[Class ''meter__bar'']] form of
              Some p \<Rightarrow> modify_at p (with_attributes (set_attribute ''data-level'' (nat_string level))) form
            | None \<Rightarrow> form);
          form = (case querySelector [[Class ''meter__label'']] form of
              Some p \<Rightarrow> modify_at p (set_text (METER_LABELS ! (if password \<noteq> [] then level else 0))) form
            | None \<Rightarrow> form) in
      sc\<lparr>sc_form := form\<rparr>)"

text \<open>The boxes of the code, what typing and pasting make of them, and whether the form is submitted then.\<close>

definition otp_boxes :: "node \<Rightarrow> path list" where
  "otp_boxes form = querySelectorAll [[Class ''otp__box'']] form"

definition box_values :: "node \<Rightarrow> string list" where
  "box_values form = map (\<lambda>p. case node_at p form of Some n \<Rightarrow> input_value n | None \<Rightarrow> []) (otp_boxes form)"

definition set_boxes :: "string list \<Rightarrow> node \<Rightarrow> node" where
  "set_boxes vs form = fold (\<lambda>(p, v). modify_at p (set_value v)) (zip (otp_boxes form) vs) form"

definition box_input :: "nat \<Rightarrow> string \<Rightarrow> screen \<Rightarrow> screen \<times> bool" where
  "box_input i x sc = (case otp_input i x (box_values (sc_form sc)) of (vs, submit) \<Rightarrow> (sc\<lparr>sc_form := set_boxes vs (sc_form sc)\<rparr>, submit))"

definition box_paste :: "string \<Rightarrow> screen \<Rightarrow> screen \<times> bool" where
  "box_paste x sc = (case otp_paste x (box_values (sc_form sc)) of (vs, submit) \<Rightarrow> (sc\<lparr>sc_form := set_boxes vs (sc_form sc)\<rparr>, submit))"

definition mfa_handler :: "'w net \<Rightarrow> screen \<times> (browser \<times> 'w) \<Rightarrow> screen \<times> (browser \<times> 'w)" where
  "mfa_handler net = (\<lambda>(sc, st).
     let challenge = (case query_param ''challenge'' (snd (router_parse (b_hash (fst st)))) of Some c \<Rightarrow> c | None \<Rightarrow> []);
         code = concat (box_values (sc_form sc)); button = submit_of (sc_form sc) in
     if length code \<noteq> 6 then (sc, st)
     else
       (let sc = set_busy button True sc in
        case apiRequest net (api_verifyMfa challenge code) st of
          (Inl e, st') \<Rightarrow>
            (let sc = notify (api_error_message e) Error sc in
             (set_busy button False (sc\<lparr>sc_form := set_boxes (map (\<lambda>_. []) (otp_boxes (sc_form sc))) (sc_form sc)\<rparr>), st'))
        | (Inr res, (b, w)) \<Rightarrow> (set_busy button False (notify ''Authenticated'' Success sc), (sign_in res b, w))))"

definition forgot_handler :: "'w net \<Rightarrow> screen \<times> (browser \<times> 'w) \<Rightarrow> screen \<times> (browser \<times> 'w)" where
  "forgot_handler net = (\<lambda>(sc, st).
     let data = formData (sc_form sc); input = email_input (sc_form sc); button = submit_of (sc_form sc) in
     if input \<noteq> None \<and> truthy (data ''email'') \<and> \<not> email_pattern (the (data ''email'')) then
       (mark input (Some ''Enter a valid email address'') sc, st)
     else
       (let sc = set_busy button True (mark input None sc) in
        case apiRequest net (api_forgotPassword (data ''email'')) st of
          (Inl e, st') \<Rightarrow> (set_busy button False (notify (api_error_message e) Error sc), st')
        | (Inr _, (b, w)) \<Rightarrow>
            (set_busy button False (notify ''If that email exists, a reset code is on its way'' Info sc),
             (navigate (''/reset?token=&email='' @ form_encode (case data ''email'' of Some e \<Rightarrow> e | None \<Rightarrow> ''undefined'')) b, w))))"

definition reset_handler :: "'w net \<Rightarrow> screen \<times> (browser \<times> 'w) \<Rightarrow> screen \<times> (browser \<times> 'w)" where
  "reset_handler net = (\<lambda>(sc, st).
     let data = formData (sc_form sc); button = submit_of (sc_form sc); sc = set_busy button True sc in
     case apiRequest net (api_resetPassword (data ''token'') (data ''password'')) st of
       (Inl e, st') \<Rightarrow> (set_busy button False (notify (api_error_message e) Error sc), st')
     | (Inr _, (b, w)) \<Rightarrow>
         (set_busy button False (notify (''Password reset '' @ utf8_dash @ '' sign in with your new password'') Success sc),
          (navigate ''/login'' b, w)))"

end
