(* ===== verification/Spa_Account.thy ===== *)
theory Spa_Account
  imports Spa_Views
begin

text \<open>
  The dashboard (\<^verbatim>\<open>src/apps/frontend/client/views/account.ts\<close>): the page it builds from the profile and
  from the identity at the gateway, and the card of the second factor with its three handlers.
\<close>

section \<open>What the dashboard reads\<close>

record client_profile =
  me_id :: string
  me_email :: string
  me_first_name :: "string option"
  me_last_name :: "string option"
  me_status :: string
  me_roles :: "string list"
  me_permissions :: "string list"
  me_mfa_enabled :: bool

record gateway_identity =
  gi_userId :: "string option"
  gi_scopes :: "string list"
  gi_roles :: "string list"
  gi_requestId :: "string option"

text \<open>
  The code takes the two bodies for values of its interfaces without looking. These readers do look:
  they are defined exactly when the members have the types of the interfaces.
\<close>

definition member_string :: "string \<Rightarrow> jval \<Rightarrow> string option" where
  "member_string name v = (case v of JObj fs \<Rightarrow> (case map_of fs name of Some (JStr x) \<Rightarrow> Some x | _ \<Rightarrow> None) | _ \<Rightarrow> None)"

definition member_optional :: "string \<Rightarrow> jval \<Rightarrow> string option option" where
  "member_optional name v = (case v of
      JObj fs \<Rightarrow> (case map_of fs name of
          None \<Rightarrow> Some None
        | Some JNull \<Rightarrow> Some None
        | Some (JStr x) \<Rightarrow> Some (Some x)
        | _ \<Rightarrow> None)
    | _ \<Rightarrow> None)"

fun all_strings :: "jval list \<Rightarrow> string list option" where
  "all_strings [] = Some []"
| "all_strings (JStr x # vs) = map_option ((#) x) (all_strings vs)"
| "all_strings (_ # vs) = None"

definition member_strings :: "string \<Rightarrow> jval \<Rightarrow> string list option" where
  "member_strings name v = (case v of JObj fs \<Rightarrow> (case map_of fs name of Some (JArr vs) \<Rightarrow> all_strings vs | _ \<Rightarrow> None) | _ \<Rightarrow> None)"

definition member_bool :: "string \<Rightarrow> jval \<Rightarrow> bool option" where
  "member_bool name v = (case v of JObj fs \<Rightarrow> (case map_of fs name of Some (JBool b) \<Rightarrow> Some b | _ \<Rightarrow> None) | _ \<Rightarrow> None)"

definition read_profile :: "jval \<Rightarrow> client_profile option" where
  "read_profile v =
     (case (member_string ''id'' v, member_string ''email'' v, member_optional ''first_name'' v, member_optional ''last_name'' v,
            member_string ''status'' v, member_strings ''roles'' v, member_strings ''permissions'' v, member_bool ''mfa_enabled'' v) of
        (Some i, Some e, Some f, Some l, Some st, Some rs, Some ps, Some m) \<Rightarrow>
          Some \<lparr>me_id = i, me_email = e, me_first_name = f, me_last_name = l, me_status = st, me_roles = rs,
                me_permissions = ps, me_mfa_enabled = m\<rparr>
      | _ \<Rightarrow> None)"

definition read_identity :: "jval \<Rightarrow> gateway_identity option" where
  "read_identity v =
     (case (member_optional ''userId'' v, member_strings ''scopes'' v, member_strings ''roles'' v, member_optional ''requestId'' v) of
        (Some u, Some ss, Some rs, Some r) \<Rightarrow> Some \<lparr>gi_userId = u, gi_scopes = ss, gi_roles = rs, gi_requestId = r\<rparr>
      | _ \<Rightarrow> None)"

section \<open>The page\<close>

definition js_upper :: "string \<Rightarrow> string" where
  "js_upper = map (\<lambda>c. if js_lower_letter c then char_of ((of_char c :: nat) - 32) else c)"

definition display_name :: "client_profile \<Rightarrow> string" where
  "display_name p =
     (let name = join_with '' '' (map the (filter truthy [me_first_name p, me_last_name p])) in
      if name = [] then me_email p else name)"

definition kv_row :: "string \<Rightarrow> child \<Rightarrow> child" where
  "kv_row label dd = sub ''div'' (cls ''kv__row'') [sub ''dt'' [] [Words label], dd]"

definition chips :: "string \<Rightarrow> string list \<Rightarrow> child" where
  "chips c xs = Many (map (\<lambda>x. sub ''span'' (cls c) [Words x]) xs)"

definition chips_or_none :: "string \<Rightarrow> string list \<Rightarrow> child" where
  "chips_or_none c xs = (if xs = [] then sub ''span'' (cls ''muted'') [Words ''None''] else chips c xs)"

definition account_header :: "client_profile \<Rightarrow> node" where
  "account_header p = el ''header'' (cls ''account__head card--enter'')
     [sub ''div'' (cls ''avatar'') [Words (js_upper (take 2 (me_email p)))],
      sub ''div'' (cls ''account__who'')
        [sub ''h1'' (cls ''account__name'') [Words (display_name p)],
         sub ''p'' (cls ''account__email'') [Words (me_email p)]],
      sub ''div'' (cls ''account__actions'')
        [sub ''button'' [(''class'', AString ''btn btn--ghost''), (''type'', AString ''button''), (''id'', AString ''logout-btn'')]
           [Words ''Sign out'']]]"

definition identity_card :: "client_profile \<Rightarrow> node" where
  "identity_card p = el ''section'' (cls ''card'')
     [sub ''div'' (cls ''card__row'')
        [sub ''h2'' (cls ''card__title'') [Words ''Identity (auth-server)''],
         sub ''span'' (cls (''pill pill--'' @ (if me_status p = ''active'' then ''ok'' else ''warn''))) [Words (me_status p)]],
      sub ''dl'' (cls ''kv'')
        [kv_row ''User ID'' (sub ''dd'' (cls ''mono'') [Words (me_id p)]),
         kv_row ''MFA'' (sub ''dd'' [] [Words (if me_mfa_enabled p then ''Enabled'' else ''Not enrolled'')]),
         kv_row ''Roles'' (sub ''dd'' [] [chips ''chip'' (me_roles p)]),
         kv_row ''Permissions'' (sub ''dd'' [] [chips_or_none ''chip chip--dim'' (me_permissions p)])]]"

definition or_dash :: "string option \<Rightarrow> string" where
  "or_dash x = (case x of Some v \<Rightarrow> v | None \<Rightarrow> utf8_dash)"

definition gateway_card :: "gateway_identity \<Rightarrow> node" where
  "gateway_card g = el ''section'' (cls ''card'')
     [sub ''h2'' (cls ''card__title'') [Words ''Identity via gateway''],
      sub ''p'' (cls ''card__hint'') [Words ''Returned by the zero-trust resource API after gateway token verification.''],
      sub ''dl'' (cls ''kv'')
        [kv_row ''Subject (X-User-Id)'' (sub ''dd'' (cls ''mono'') [Words (or_dash (gi_userId g))]),
         kv_row ''Scopes'' (sub ''dd'' [] [chips ''chip chip--primary'' (gi_scopes g)]),
         kv_row ''Roles'' (sub ''dd'' [] [chips_or_none ''chip'' (gi_roles g)]),
         kv_row ''Request ID'' (sub ''dd'' (cls ''mono'') [Words (or_dash (gi_requestId g))])]]"

definition code_form :: "(string \<times> attr_value) list \<Rightarrow> string \<Rightarrow> child list \<Rightarrow> node" where
  "code_form button_class label hint = el ''form'' [(''class'', AString ''mfa-form''), (''novalidate'', AString [])]
     (hint @
      [sub ''div'' (cls ''field-row'')
         [sub ''label'' (cls ''field'')
            [sub ''span'' (cls ''field__label'') [Words ''Six-digit code''],
             sub ''input'' [(''class'', AString ''input''), (''type'', AString ''tel''), (''name'', AString ''code''),
               (''inputmode'', AString ''numeric''), (''pattern'', AString ''[0-9]*''), (''maxlength'', AString ''6''),
               (''required'', AString [])] []],
          sub ''button'' (button_class @ [(''type'', AString ''submit'')]) [Words label]]])"

text \<open>\<open>renderMfaCard\<close>: what an enrolled and what another visitor gets.\<close>

definition disable_form :: node where
  "disable_form = code_form (cls ''btn btn--danger mfa-ctrl'') ''Disable''
     [sub ''p'' (cls ''card__hint'') [Words ''TOTP is active on this account. To remove it, enter the current code.'']]"

definition enroll_controls :: "node list" where
  "enroll_controls =
     [el ''button'' [(''class'', AString ''btn btn--primary''), (''type'', AString ''button'')] [Words ''Enroll TOTP''],
      el ''p'' (cls ''card__hint'') [Words ''Add an authenticator app for second-factor verification on sign in.'']]"

definition render_mfa_card :: "node \<Rightarrow> client_profile \<Rightarrow> node" where
  "render_mfa_card host p =
     (let host = append_children [el ''h2'' (cls ''card__title'') [Words ''Multi-factor authentication'']] (clear host) in
      append_children (if me_mfa_enabled p then [disable_form] else enroll_controls) host)"

definition mfa_card :: "client_profile \<Rightarrow> node" where
  "mfa_card p = render_mfa_card (el ''section'' (cls ''card'') []) p"

definition account_placeholder :: node where
  "account_placeholder = el ''div'' (cls ''account'')
     [sub ''div'' (cls ''account__placeholder card--enter'')
        [sub ''div'' (cls ''spinner spinner--lg'') [], sub ''p'' [] [Words (''Loading your session'' @ utf8_ellipsis)]]]"

definition account_page :: "client_profile \<Rightarrow> gateway_identity \<Rightarrow> node \<Rightarrow> node" where
  "account_page p g root = append_children [account_header p, identity_card p, gateway_card g, mfa_card p] (clear root)"

section \<open>Handlers\<close>

text \<open>\<open>makeAccount\<close>: without a token the way leads back; otherwise the two calls of \<open>account_threads\<close> start.\<close>

definition make_account :: "browser \<Rightarrow> node \<times> browser \<times> thread list" where
  "make_account b =
     (if \<not> hasAccessToken b then (el ''div'' (cls ''account'') [], navigate ''/login'' b, [])
      else (account_placeholder, b, account_threads))"

definition account_then :: "client_profile \<Rightarrow> gateway_identity \<Rightarrow> screen \<Rightarrow> screen" where
  "account_then p g sc = sc\<lparr>sc_form := account_page p g (sc_form sc)\<rparr>"

definition account_catch :: "int \<times> jval \<Rightarrow> screen \<times> browser \<Rightarrow> screen \<times> browser" where
  "account_catch e = (\<lambda>(sc, b). (notify (api_error_message e) Error sc, navigate ''/login'' (clearTokens b)))"

text \<open>Another load after a change tells of a failure and leaves the page as it is.\<close>

definition reload_catch :: "int \<times> jval \<Rightarrow> screen \<Rightarrow> screen" where
  "reload_catch e sc = notify (api_error_message e) Error sc"

definition logout_click :: "'w net \<Rightarrow> screen \<times> (browser \<times> 'w) \<Rightarrow> screen \<times> (browser \<times> 'w)" where
  "logout_click net = (\<lambda>(sc, (b, w)).
     let (b', w') = (if truthy (b_refresh b) then snd (apiRequest net (api_logout (the (b_refresh b))) (b, w)) else (b, w)) in
     (notify ''Signed out'' Info sc, (navigate ''/login'' (clearTokens b'), w')))"

text \<open>The handlers of the card work on the card; \<open>True\<close> says that the dashboard is loaded again.\<close>

definition code_value :: "node \<Rightarrow> string" where
  "code_value host = js_trim (case querySelector [[Tag ''input'', Attr ''name'' ''code'']] host of
      Some p \<Rightarrow> (case node_at p host of Some n \<Rightarrow> input_value n | None \<Rightarrow> [])
    | None \<Rightarrow> [])"

definition card_submit :: "'w net \<Rightarrow> (string \<Rightarrow> request_options) \<Rightarrow> string \<Rightarrow> screen \<times> (browser \<times> 'w) \<Rightarrow> bool \<times> screen \<times> (browser \<times> 'w)" where
  "card_submit net call done_message = (\<lambda>(sc, st).
     case submit_of (sc_form sc) of
       None \<Rightarrow> (False, sc, st)
     | Some p \<Rightarrow>
         (let code = code_value (sc_form sc); sc = set_busy (Some p) True sc in
          case apiRequest net (call code) st of
            (Inl e, st') \<Rightarrow> (False, set_busy (Some p) False (notify (api_error_message e) Error sc), st')
          | (Inr _, st') \<Rightarrow> (True, notify done_message Success sc, st')))"

definition disable_handler :: "'w net \<Rightarrow> screen \<times> (browser \<times> 'w) \<Rightarrow> bool \<times> screen \<times> (browser \<times> 'w)" where
  "disable_handler net = card_submit net api_disableTotp ''MFA disabled''"

definition confirm_handler :: "'w net \<Rightarrow> screen \<times> (browser \<times> 'w) \<Rightarrow> bool \<times> screen \<times> (browser \<times> 'w)" where
  "confirm_handler net = card_submit net api_confirmTotp ''MFA enabled''"

text \<open>\<open>otpauthUrl.replace(/^otpauth:\<backslash>/\<backslash>/[^?]+\<backslash>?/, '')\<close>.\<close>

definition otpauth_query :: "string \<Rightarrow> string" where
  "otpauth_query url =
     (let rest = drop 10 url; name = takeWhile (\<lambda>c. c \<noteq> CHR ''?'') rest; query = dropWhile (\<lambda>c. c \<noteq> CHR ''?'') rest in
      if starts_with ''otpauth://'' url \<and> name \<noteq> [] \<and> query \<noteq> [] then tl query else url)"

definition render_enroll :: "node \<Rightarrow> string \<Rightarrow> string \<Rightarrow> node" where
  "render_enroll host otpauthUrl qrDataUrl =
     append_children
       [el ''h2'' (cls ''card__title'') [Words ''Scan with your authenticator''],
        el ''img'' [(''class'', AString ''qr''), (''src'', AString qrDataUrl), (''alt'', AString ''TOTP QR code'')] [],
        el ''p'' [(''class'', AString ''card__hint mono''), (''style'', AString ''word-break:break-all;font-size:.78rem'')]
          [Words (otpauth_query otpauthUrl)],
        code_form (cls ''btn btn--primary mfa-ctrl'') ''Verify & enable'' []] (clear host)"

definition enroll_handler :: "'w net \<Rightarrow> path \<Rightarrow> screen \<times> (browser \<times> 'w) \<Rightarrow> screen \<times> (browser \<times> 'w)" where
  "enroll_handler net button = (\<lambda>(sc, st).
     let sc = set_busy (Some button) True sc in
     case apiRequest net api_enrollTotp st of
       (Inl e, st') \<Rightarrow> (set_busy (Some button) False (notify (api_error_message e) Error sc), st')
     | (Inr res, st') \<Rightarrow>
         (sc\<lparr>sc_form := render_enroll (sc_form sc) (json_text ''otpauth_url'' res) (json_text ''qr_data_url'' res)\<rparr>, st'))"

end
