(* ===== verification/Spa_Forms.thy ===== *)
theory Spa_Forms
  imports Spa_Account
begin

text \<open>
  Properties of the views in the document: what a form sends is what was typed into it, a form can be
  submitted again after every submission, and the texts of the servers stay texts.
\<close>

section \<open>What was typed is what is sent\<close>

definition typed :: "(string \<times> string) list \<Rightarrow> node \<Rightarrow> node" where
  "typed values form = fold (\<lambda>(name, x). type_into [[Tag ''input'', Attr ''name'' name]] x) values form"

lemma login_entries:
  "form_entries (typed [(''email'', x), (''password'', y)] login_form) = [(''email'', x), (''password'', y)]"
  "email_input (typed [(''email'', x), (''password'', y)] login_form) \<noteq> None"
  by code_simp+

lemma register_entries:
  "form_entries (typed [(''email'', x), (''password'', y), (''first_name'', f), (''last_name'', l)] register_form)
     = [(''first_name'', f), (''last_name'', l), (''email'', x), (''password'', y)]"
  "email_input (typed [(''email'', x), (''password'', y), (''first_name'', f), (''last_name'', l)] register_form) \<noteq> None"
  "password_input (typed [(''email'', x), (''password'', y), (''first_name'', f), (''last_name'', l)] register_form) \<noteq> None"
  by code_simp+

lemma forgot_entries:
  "form_entries (typed [(''email'', x)] forgot_form) = [(''email'', x)]"
  "email_input (typed [(''email'', x)] forgot_form) \<noteq> None"
  by code_simp+

lemma reset_entries:
  "form_entries (typed [(''password'', y)] (reset_form t)) = [(''token'', t), (''password'', y)]"
  "form_entries (typed [(''token'', x), (''password'', y)] (reset_form t)) = [(''token'', x), (''password'', y)]"
  by code_simp+

lemma mfa_boxes: "box_values (set_boxes [a, b, c, d, e, f] mfa_form) = [a, b, c, d, e, f]"
  by code_simp

text \<open>The data of the forms, field by field.\<close>

lemma formData_of: "form_entries form = es \<Longrightarrow> formData form = map_of (rev (filter (\<lambda>(_, v). v \<noteq> []) es))"
  by (simp add: formData_def)

lemma field_empty: "field x = None \<longleftrightarrow> x = []"
  by (simp add: field_def)

lemma field_refused: "truthy (field x) \<and> \<not> email_pattern (the (field x)) \<longleftrightarrow> email_refused x"
  by (simp add: field_def email_refused_def)

lemma the_field: "x \<noteq> [] \<Longrightarrow> the (field x) = x"
  by (simp add: field_def)

lemma login_data:
  "formData (typed [(''email'', x), (''password'', y)] login_form) ''email'' = field x"
  "formData (typed [(''email'', x), (''password'', y)] login_form) ''password'' = field y"
  by (simp_all add: formData_of [OF login_entries(1)] field_def)

lemma register_data:
  "formData (typed [(''email'', x), (''password'', y), (''first_name'', f), (''last_name'', l)] register_form) ''email'' = field x"
  "formData (typed [(''email'', x), (''password'', y), (''first_name'', f), (''last_name'', l)] register_form) ''password'' = field y"
  "formData (typed [(''email'', x), (''password'', y), (''first_name'', f), (''last_name'', l)] register_form) ''first_name'' = field f"
  "formData (typed [(''email'', x), (''password'', y), (''first_name'', f), (''last_name'', l)] register_form) ''last_name'' = field l"
  by (simp_all add: formData_of [OF register_entries(1)] field_def)

lemma forgot_data: "formData (typed [(''email'', x)] forgot_form) ''email'' = field x"
  by (simp add: formData_of [OF forgot_entries(1)] field_def)

lemma reset_data:
  "formData (typed [(''password'', y)] (reset_form t)) ''token'' = field t"
  "formData (typed [(''password'', y)] (reset_form t)) ''password'' = field y"
  "formData (typed [(''token'', x), (''password'', y)] (reset_form t)) ''token'' = field x"
  "formData (typed [(''token'', x), (''password'', y)] (reset_form t)) ''password'' = field y"
  by (simp_all add: formData_of [OF reset_entries(1)] formData_of [OF reset_entries(2)] field_def)

lemmas form_data = login_data register_data forgot_data reset_data login_entries(2) register_entries(2,3) forgot_entries(2)
  field_empty field_refused

text \<open>
  C38: the forms send what was typed into them. When the inputs of a form were typed into, its handler does
  to the browser and to the servers exactly what the submission of these values means, for the login,
  the registration, the second factor, the request of a reset code and the new password (whose token is
  the one of the fragment unless another one was typed).
\<close>

theorem forms_send_what_was_typed:
  "snd (login_handler net (sc\<lparr>sc_form := typed [(''email'', email), (''password'', password)] login_form\<rparr>, st))
     = snd (login_submit net email password st)
   \<and> snd (register_handler net (sc\<lparr>sc_form := typed [(''email'', email), (''password'', password), (''first_name'', given), (''last_name'', family)]
            register_form\<rparr>, st)) = snd (register_submit net email password given family st)
   \<and> snd (mfa_handler net (sc\<lparr>sc_form := set_boxes [a, b, c, d, e, f] mfa_form\<rparr>, st)) = snd (mfa_submit net (concat [a, b, c, d, e, f]) st)
   \<and> snd (forgot_handler net (sc\<lparr>sc_form := typed [(''email'', email)] forgot_form\<rparr>, st)) = snd (forgot_submit net email st)
   \<and> snd (reset_handler net (sc\<lparr>sc_form := typed [(''password'', password)] (reset_form token)\<rparr>, st)) = snd (reset_submit net token password st)
   \<and> snd (reset_handler net (sc\<lparr>sc_form := typed [(''token'', token'), (''password'', password)] (reset_form token)\<rparr>, st))
       = snd (reset_submit net token' password st)"
proof (intro conjI)
  show "snd (login_handler net (sc\<lparr>sc_form := typed [(''email'', email), (''password'', password)] login_form\<rparr>, st))
     = snd (login_submit net email password st)"
    by (simp add: login_handler_def login_submit_def Let_def form_data mfa_boxes split: sum.split prod.split)
  show "snd (register_handler net (sc\<lparr>sc_form := typed [(''email'', email), (''password'', password), (''first_name'', given), (''last_name'', family)]
            register_form\<rparr>, st)) = snd (register_submit net email password given family st)"
    by (cases "password = []") (simp_all add: register_handler_def register_submit_def Let_def form_data the_field split: sum.split prod.split)
  show "snd (mfa_handler net (sc\<lparr>sc_form := set_boxes [a, b, c, d, e, f] mfa_form\<rparr>, st)) = snd (mfa_submit net (concat [a, b, c, d, e, f]) st)"
    by (simp add: mfa_handler_def mfa_submit_def Let_def form_data mfa_boxes split: sum.split prod.split)
  show "snd (forgot_handler net (sc\<lparr>sc_form := typed [(''email'', email)] forgot_form\<rparr>, st)) = snd (forgot_submit net email st)"
    by (cases "email = []") (simp_all add: forgot_handler_def forgot_submit_def Let_def forgot_data forgot_entries(2) field_def email_refused_def
        split: sum.split prod.split)
  show "snd (reset_handler net (sc\<lparr>sc_form := typed [(''password'', password)] (reset_form token)\<rparr>, st)) = snd (reset_submit net token password st)"
    by (simp add: reset_handler_def reset_submit_def Let_def form_data mfa_boxes split: sum.split prod.split)
  show "snd (reset_handler net (sc\<lparr>sc_form := typed [(''token'', token'), (''password'', password)] (reset_form token)\<rparr>, st))
       = snd (reset_submit net token' password st)"
    by (simp add: reset_handler_def reset_submit_def Let_def form_data mfa_boxes split: sum.split prod.split)
qed

section \<open>A form can be submitted again\<close>

text \<open>Changes of attributes and values leave the elements where they are.\<close>

definition in_place :: "(node \<Rightarrow> node) \<Rightarrow> bool" where
  "in_place f \<longleftrightarrow> (\<forall>t as v cs. \<exists>as' v'. f (Element t as v cs) = Element t as' v' cs) \<and> (\<forall>x. f (Text x) = Text x)"

lemma in_place_with [simp]: "in_place (with_attributes f)"
  by (simp add: in_place_def with_attributes_def)

lemma in_place_value [simp]: "in_place (set_value x)"
  by (simp add: in_place_def set_value_def)

lemma in_place_toggle: "in_place (toggle_class c b)"
  unfolding in_place_def toggle_class_def Let_def by (simp add: with_attributes_def)

lemma in_place_comp: "in_place f \<Longrightarrow> in_place g \<Longrightarrow> in_place (\<lambda>n. f (g n))"
  unfolding in_place_def by metis

definition attribute_at :: "string \<Rightarrow> path \<Rightarrow> node \<Rightarrow> string option" where
  "attribute_at k p n = (case node_at p n of Some m \<Rightarrow> attribute k m | None \<Rightarrow> None)"

lemma attribute_at_modify:
  assumes "in_place f"
  shows "attribute_at k p (modify_at q f n)
     = (if p = q then (case node_at p n of Some m \<Rightarrow> attribute k (f m) | None \<Rightarrow> None) else attribute_at k p n)"
  using assms
proof (induction q f n arbitrary: p rule: modify_at.induct)
  case (1 f n)
  show ?case
  proof (cases "p = []")
    case False
    then obtain i p' where p: "p = i # p'" by (cases p) auto
    show ?thesis
    proof (cases n)
      case (Text x)
      have "f (Text x) = Text x" using 1 unfolding in_place_def by blast
      then show ?thesis by (simp add: Text p attribute_at_def)
    next
      case (Element t as v cs)
      obtain as' v' where "f (Element t as v cs) = Element t as' v' cs" using 1 by (metis in_place_def)
      then show ?thesis by (simp add: Element p attribute_at_def)
    qed
  qed (simp add: attribute_at_def)
next
  case (2 j q f t as v cs)
  show ?case
  proof (cases p)
    case Nil
    then show ?thesis by (simp add: attribute_at_def attribute_def)
  next
    case (Cons i p')
    with 2(1) [of p'] 2(2) show ?thesis
      by (auto simp: attribute_at_def nth_list_update)
  qed
next
  case (3 j q f x)
  then show ?case by (cases p) (simp_all add: attribute_at_def)
qed

text \<open>The attribute \<open>disabled\<close> of an element changes only when the element is a button that is switched.\<close>

lemma attribute_with: "attribute k (with_attributes f (Element t as v cs)) = map_of (f as) k"
  by (simp add: attribute_def with_attributes_def)

lemma map_of_set_attribute: "map_of (set_attribute k v as) = (map_of as)(k \<mapsto> v)"
  by (induction k v as rule: set_attribute.induct) (auto simp: fun_eq_iff)

lemma map_of_remove_attribute: "map_of (remove_attribute k as) k = None"
  by (induction as) (auto simp: remove_attribute_def)

lemma attribute_value: "attribute k (set_value x n) = attribute k n"
  by (cases n) (simp_all add: attribute_def set_value_def)

lemma attribute_set: "k \<noteq> k' \<Longrightarrow> attribute k (with_attributes (set_attribute k' v) n) = attribute k n"
  by (cases n) (simp_all add: attribute_with map_of_set_attribute, simp_all add: attribute_def with_attributes_def)

lemma attribute_toggle: "k \<noteq> ''class'' \<Longrightarrow> attribute k (toggle_class c b n) = attribute k n"
  by (simp add: toggle_class_def Let_def attribute_set)

lemma attribute_at_kept:
  assumes "in_place f" and "\<And>m. attribute k (f m) = attribute k m"
  shows "attribute_at k p (modify_at q f n) = attribute_at k p n"
  by (subst attribute_at_modify [OF assms(1)]) (simp add: assms(2) attribute_at_def split: option.split)

lemma disabled_kept:
  "attribute_at ''disabled'' p (inputError q message form) = attribute_at ''disabled'' p form"
  "attribute_at ''disabled'' p (modify_at q (set_value x) form) = attribute_at ''disabled'' p form"
  unfolding inputError_def
  by (rule attribute_at_kept, rule in_place_comp [OF in_place_with in_place_toggle], simp add: attribute_set attribute_toggle)
    (rule attribute_at_kept, simp_all add: attribute_value)

lemma boxes_kept: "attribute_at ''disabled'' p (set_boxes vs form) = attribute_at ''disabled'' p form"
proof -
  have "attribute_at ''disabled'' p (fold (\<lambda>(p, v). modify_at p (set_value v)) pvs form) = attribute_at ''disabled'' p form" for pvs form
    by (induction pvs arbitrary: form) (simp_all add: disabled_kept split_beta)
  then show ?thesis by (simp add: set_boxes_def)
qed

lemma descendants_nonempty:
  "p \<in> set (descendants n) \<Longrightarrow> p \<noteq> []" "p \<in> set (descendants_from i ns) \<Longrightarrow> p \<noteq> []"
  by (induction n and i ns rule: descendants_descendants_from.induct) auto

lemma querySelector_nonempty: "querySelector sel n = Some p \<Longrightarrow> p \<noteq> []"
  using find_SomeD(1) descendants_nonempty(1) unfolding querySelector_def by metis

lemma button_released: "attribute_at ''disabled'' p (disableButton p False form) = None"
proof -
  have place: "in_place (\<lambda>b. toggle_class c x (with_attributes g b))" for g c x
    by (rule in_place_comp [OF in_place_toggle in_place_with])
  let ?form = "modify_at p (\<lambda>b. toggle_class ''is-busy'' False (with_attributes (remove_attribute ''disabled'') b)) form"
  have first: "attribute_at ''disabled'' p ?form = None"
  proof (cases "node_at p form")
    case (Some m)
    then show ?thesis
      unfolding attribute_at_modify [OF place]
      by (cases m) (simp_all add: attribute_toggle attribute_with map_of_remove_attribute, simp add: attribute_def with_attributes_def)
  qed (simp add: attribute_at_def modify_outside)
  have "attribute_at ''disabled'' p (modify_at (p @ q) (with_attributes (set_attribute ''aria-hidden'' v)) ?form) = None" if "q \<noteq> []" for q v
    using first that by (simp add: attribute_at_modify)
  with first show ?thesis
    by (auto simp: disableButton_def Let_def dest: querySelector_nonempty split: option.split)
qed

definition button_ready :: "path \<Rightarrow> node \<Rightarrow> bool" where
  "button_ready p form \<longleftrightarrow> attribute_at ''disabled'' p form = None"

lemma ready_steps:
  "button_ready p (sc_form (mark input message sc)) = button_ready p (sc_form sc)"
  "button_ready p (sc_form (notify text kind sc)) = button_ready p (sc_form sc)"
  "button_ready p (set_boxes vs form) = button_ready p form"
  "button_ready p (sc_form (set_busy (Some p) False sc))"
  by (simp_all add: button_ready_def mark_def notify_def set_busy_def disabled_kept boxes_kept button_released split: option.split)

text \<open>
  No submission leaves a form that cannot be submitted again. Whatever the servers answer, and also
  when the form was refused before anything was sent, the button that was enabled before a submission
  is enabled when its handler has ended, for every form of the application; the forms of the second
  factor on the dashboard end like that or are replaced.
\<close>

theorem forms_can_be_submitted_again:
  assumes "submit_of (sc_form sc) = Some p" and "button_ready p (sc_form sc)"
  shows "(\<forall>handler \<in> {login_handler net, register_handler net, mfa_handler net, forgot_handler net, reset_handler net}.
       button_ready p (sc_form (fst (handler (sc, st)))))
    \<and> (\<forall>handler \<in> {disable_handler net, confirm_handler net}.
       case handler (sc, st) of (reloaded, sc', _) \<Rightarrow> reloaded \<or> button_ready p (sc_form sc'))"
proof (intro conjI)
  have "button_ready p (sc_form (fst (login_handler net (sc, st))))"
    using assms by (simp add: login_handler_def Let_def ready_steps split: sum.split prod.split)
  moreover have "button_ready p (sc_form (fst (register_handler net (sc, st))))"
    using assms by (simp add: register_handler_def Let_def ready_steps split: sum.split prod.split)
  moreover have "button_ready p (sc_form (fst (mfa_handler net (sc, st))))"
    using assms by (simp add: mfa_handler_def Let_def ready_steps split: sum.split prod.split)
  moreover have "button_ready p (sc_form (fst (forgot_handler net (sc, st))))"
    using assms by (simp add: forgot_handler_def Let_def ready_steps split: sum.split prod.split)
  moreover have "button_ready p (sc_form (fst (reset_handler net (sc, st))))"
    using assms by (simp add: reset_handler_def Let_def ready_steps split: sum.split prod.split)
  ultimately show "\<forall>handler \<in> {login_handler net, register_handler net, mfa_handler net, forgot_handler net, reset_handler net}.
     button_ready p (sc_form (fst (handler (sc, st))))" by blast
  show "\<forall>handler \<in> {disable_handler net, confirm_handler net}.
       case handler (sc, st) of (reloaded, sc', _) \<Rightarrow> reloaded \<or> button_ready p (sc_form sc')"
    using assms by (simp add: disable_handler_def confirm_handler_def card_submit_def Let_def ready_steps split: sum.split prod.split)
qed

text \<open>The login form, and a server that refuses.\<close>

definition fresh_screen :: "node \<Rightarrow> screen" where
  "fresh_screen form = \<lparr>sc_form = form, sc_toasts = [], sc_now = 0\<rparr>"

definition refusing_net :: "unit net" where
  "refusing_net = (\<lambda>_ _ w. (\<lparr>hr_status = 401, hr_body = JObj [(''error'', JStr ''INVALID_CREDENTIALS''), (''message'', JStr ''Invalid credentials'')]\<rparr>, w))"

definition visitor :: browser where
  "visitor = \<lparr>b_access = None, b_refresh = None, b_hash = ''/login'', b_ip = None, b_headers = []\<rparr>"

theorem forms_can_be_submitted_again_witness:
  "\<exists>p. submit_of login_form = Some p \<and> button_ready p (sc_form (fst (login_handler refusing_net (fresh_screen login_form, (visitor, ())))))"
proof -
  have "case submit_of (sc_form (fresh_screen login_form)) of Some p \<Rightarrow> button_ready p (sc_form (fresh_screen login_form)) | None \<Rightarrow> False"
    by code_simp
  then obtain p where "submit_of (sc_form (fresh_screen login_form)) = Some p" "button_ready p (sc_form (fresh_screen login_form))"
    by (auto split: option.splits)
  with forms_can_be_submitted_again [OF this, of refusing_net "(visitor, ())"] show ?thesis
    by (auto simp: fresh_screen_def)
qed

text \<open>
  While a submission runs, the spinner of the button is hidden from assistive technology, and shown to it
  afterwards: \<open>aria-hidden\<close> has the wrong sense.
\<close>

lemma spinner_hidden_while_busy:
  "attribute_at ''aria-hidden'' [5, 0] (disableButton [5] True login_form) = Some ''true''"
  "attribute_at ''aria-hidden'' [5, 0] (disableButton [5] False login_form) = Some ''false''"
  by code_simp+

section \<open>Texts stay texts\<close>

text \<open>The structure of a tree: its elements with their attributes, without the texts.\<close>

primrec shape :: "node \<Rightarrow> node" where
  "shape (Text x) = Text []"
| "shape (Element t as v cs) = Element t as v (map shape cs)"

lemma shape_el: "shape (el t as cs) = Element t (fold el_attribute as []) None (concat (map (map shape \<circ> child_nodes) cs))"
  by (simp add: el_def map_concat)

lemma shape_append: "shape (append_children ns n) = append_children (map shape ns) (shape n)"
  by (cases n) simp_all

lemma shape_clear: "shape (clear n) = clear (shape n)"
  by (cases n) (simp_all add: clear_def)

lemma shape_chips:
  "length xs = length ys \<Longrightarrow> map shape (child_nodes (chips c xs)) = map shape (child_nodes (chips c ys))"
  "length xs = length ys \<Longrightarrow> map shape (child_nodes (chips_or_none c xs)) = map shape (child_nodes (chips_or_none c ys))"
proof -
  show chips: "map shape (child_nodes (chips c xs)) = map shape (child_nodes (chips c ys))" if "length xs = length ys" for xs ys
    using that by (induction xs ys rule: list_induct2) (simp_all add: chips_def shape_el)
  show "map shape (child_nodes (chips_or_none c xs)) = map shape (child_nodes (chips_or_none c ys))" if "length xs = length ys"
    using that chips [OF that] by (auto simp: chips_or_none_def)
qed

text \<open>
  What the servers send never becomes markup. The elements of the dashboard and all their attributes
  are the same for any two profiles and identities with the same number of roles, permissions and
  scopes, the same second factor and both active or both not, whatever their names, addresses, roles
  and permissions say.
\<close>

theorem dashboard_texts_stay_texts:
  assumes "length (me_roles p) = length (me_roles p')" and "length (me_permissions p) = length (me_permissions p')"
    and "me_mfa_enabled p = me_mfa_enabled p'" and "me_status p = ''active'' \<longleftrightarrow> me_status p' = ''active''"
    and "length (gi_scopes g) = length (gi_scopes g')" and "length (gi_roles g) = length (gi_roles g')"
  shows "shape (account_page p g root) = shape (account_page p' g' root)"
proof -
  have "shape (account_header p) = shape (account_header p')"
    by (simp add: account_header_def shape_el)
  moreover have "shape (identity_card p) = shape (identity_card p')"
    using assms(3,4) shape_chips [OF assms(1)] shape_chips [OF assms(2)] by (simp add: identity_card_def kv_row_def shape_el)
  moreover have "shape (gateway_card g) = shape (gateway_card g')"
    using shape_chips [OF assms(5)] shape_chips [OF assms(6)] by (simp add: gateway_card_def kv_row_def shape_el)
  moreover have "mfa_card p = mfa_card p'"
    using assms(3) by (simp add: mfa_card_def render_mfa_card_def disable_form_def enroll_controls_def)
  ultimately show ?thesis
    by (simp add: account_page_def shape_append)
qed

text \<open>A name that looks like markup.\<close>

definition plain_profile :: client_profile where
  "plain_profile = \<lparr>me_id = ''Ua'', me_email = ''ada@x'', me_first_name = Some ''Ada'', me_last_name = None, me_status = ''active'',
     me_roles = [''user''], me_permissions = [], me_mfa_enabled = False\<rparr>"

definition plain_identity :: gateway_identity where
  "plain_identity = \<lparr>gi_userId = Some ''Ua'', gi_scopes = [''api.read''], gi_roles = [], gi_requestId = None\<rparr>"

theorem dashboard_texts_stay_texts_witness:
  "shape (account_page (plain_profile\<lparr>me_first_name := Some ''<img src=x onerror=alert(1)>'', me_roles := [''<script>'']\<rparr>) plain_identity account_placeholder)
     = shape (account_page plain_profile plain_identity account_placeholder)"
  by (rule dashboard_texts_stay_texts) (simp_all add: plain_profile_def)

text \<open>Signing out by the button is the sign-out of the browser model, with a toast.\<close>

lemma logout_click_browser: "snd (logout_click net (sc, st)) = doLogout net st"
  by (cases st) (simp add: logout_click_def doLogout_def Let_def split: prod.split)

lemma card_handlers_browser:
  assumes "submit_of (sc_form sc) = Some p" and "code_value (sc_form sc) = js_trim x"
  shows "snd (snd (disable_handler net (sc, st))) = snd (disable_submit net x st)"
    and "snd (snd (confirm_handler net (sc, st))) = snd (confirm_submit net x st)"
  using assms
  by (simp_all add: disable_handler_def confirm_handler_def card_submit_def disable_submit_def confirm_submit_def account_change_def
      Let_def split: sum.split prod.split)

end
