(* ===== verification/Spa_Page.thy ===== *)
theory Spa_Page
  imports Spa_Forms Spa_Flow
begin

text \<open>
  The page around the views: the input focus among the boxes of the code
  (\<^verbatim>\<open>src/apps/frontend/client/views/mfa.ts\<close>) and the timed exchange of one view for the next
  (\<^verbatim>\<open>src/apps/frontend/client/router.ts\<close>).
\<close>

section \<open>The boxes and the focus\<close>

text \<open>What the boxes hold, which one has the focus, and the codes for which the form was submitted.\<close>

record code_entry =
  ce_boxes :: "string list"
  ce_focus :: "nat option"
  ce_sent :: "string list"

text \<open>The frame callback after the view was built puts the focus into the first box.\<close>

definition code_opened :: code_entry where
  "code_opened = \<lparr>ce_boxes = replicate 6 [], ce_focus = Some 0, ce_sent = []\<rparr>"

definition requestSubmit :: "code_entry \<Rightarrow> code_entry" where
  "requestSubmit ce = ce\<lparr>ce_sent := ce_sent ce @ [concat (ce_boxes ce)]\<rparr>"

definition on_input :: "nat \<Rightarrow> string \<Rightarrow> code_entry \<Rightarrow> code_entry" where
  "on_input i x ce =
     (let (boxes, submit) = otp_input i x (ce_boxes ce);
          ce = ce\<lparr>ce_boxes := boxes\<rparr>;
          ce = (if boxes ! i \<noteq> [] \<and> i < length boxes - 1 then ce\<lparr>ce_focus := Some (i + 1)\<rparr> else ce) in
      if submit then requestSubmit ce else ce)"

definition on_keydown :: "nat \<Rightarrow> string \<Rightarrow> code_entry \<Rightarrow> code_entry" where
  "on_keydown i key ce =
     (if key = ''Backspace'' \<and> ce_boxes ce ! i = [] \<and> 0 < i then ce\<lparr>ce_focus := Some (i - 1)\<rparr> else ce)"

definition paste_char :: "nat \<times> char \<Rightarrow> code_entry \<Rightarrow> code_entry" where
  "paste_char = (\<lambda>(idx, ch) ce. let n = length (ce_boxes ce) in
     if idx < n then
       (let ce = ce\<lparr>ce_boxes := (ce_boxes ce)[idx := [ch]]\<rparr> in
        if idx = n - 1 then requestSubmit ce else ce\<lparr>ce_focus := Some (idx + 1)\<rparr>)
     else ce)"

definition on_paste :: "string \<Rightarrow> code_entry \<Rightarrow> code_entry" where
  "on_paste x ce = fold paste_char (enumerate 0 (take 6 (digits_of x))) ce"

text \<open>After a refused code the boxes are emptied and the first one gets the focus.\<close>

definition code_refused :: "code_entry \<Rightarrow> code_entry" where
  "code_refused ce = ce\<lparr>ce_boxes := map (\<lambda>_. []) (ce_boxes ce), ce_focus := Some 0\<rparr>"

text \<open>A key with a character, pressed in the browser: a box with \<open>maxlength\<close> 1 takes it only when it is empty.\<close>

definition press :: "char \<Rightarrow> code_entry \<Rightarrow> code_entry" where
  "press c ce = (case ce_focus ce of
      None \<Rightarrow> ce
    | Some i \<Rightarrow> if i < length (ce_boxes ce) \<and> ce_boxes ce ! i = [] then on_input i [c] ce else ce)"

section \<open>Typing and pasting\<close>

text \<open>The boxes after the digits \<open>ds\<close>, at most six.\<close>

definition entered :: "string \<Rightarrow> string list \<Rightarrow> code_entry" where
  "entered ds sent = \<lparr>ce_boxes = map (\<lambda>d. [d]) ds @ replicate (6 - length ds) [], ce_focus = Some (min 5 (length ds)),
     ce_sent = sent @ (if length ds = 6 then [ds] else [])\<rparr>"

lemma entered_box: "length ds \<le> 6 \<Longrightarrow> ce_boxes (entered ds sent) ! min 5 (length ds) = (if length ds = 6 then [ds ! 5] else [])"
  by (auto simp: entered_def nth_append)

lemma box_filled: "length ds < 6 \<Longrightarrow> (map (\<lambda>d. [d]) ds @ replicate (6 - length ds) [])[length ds := [d]]
    = map (\<lambda>d. [d]) (ds @ [d]) @ replicate (5 - length ds) []"
  by (simp add: list_update_append flip: Cons_replicate_eq) (cases "6 - length ds"; simp)

lemma boxes_unchanged: "(map (\<lambda>d. [d]) ds @ replicate k [])[length ds := []] = map (\<lambda>d. [d]) ds @ replicate k []"
  by (cases k) (simp_all add: list_update_append list_update_beyond)

lemma all_filled: "length ds < 6 \<Longrightarrow> list_all (\<lambda>b. b \<noteq> []) (map (\<lambda>d. [d]) (ds @ [d]) @ replicate (5 - length ds) []) \<longleftrightarrow> length ds = 5"
  by (auto simp: list_all_iff)

lemma press_entered:
  assumes "length ds \<le> 6"
  shows "press c (entered ds sent) = entered (if js_digit c \<and> length ds < 6 then ds @ [c] else ds) sent"
proof (cases "length ds < 6")
  case False
  with assms entered_box [OF assms, of sent] show ?thesis by (simp add: press_def) (simp add: entered_def)
next
  case True
  then have focus: "min 5 (length ds) = length ds" by simp
  show ?thesis
  proof (cases "js_digit c")
    case False
    then show ?thesis using True entered_box [OF assms, of sent]
      by (simp add: press_def on_input_def otp_input_def digits_of_def focus entered_def boxes_unchanged nth_append Let_def)
  next
    case digit: True
    then show ?thesis using True entered_box [OF assms, of sent] all_filled [OF True, of c]
      by (auto simp: press_def on_input_def otp_input_def digits_of_def focus entered_def box_filled nth_append Let_def requestSubmit_def
          concat_map_singleton)
  qed
qed

lemma typed_entered:
  assumes "length ds \<le> 6"
  shows "fold press x (entered ds sent) = entered (take 6 (ds @ digits_of x)) sent"
  using assms
proof (induction x arbitrary: ds)
  case Nil
  then show ?case by (simp add: digits_of_def)
next
  case (Cons c x)
  show ?case
    using Cons.prems Cons.IH [of ds] Cons.IH [of "ds @ [c]"] by (cases "js_digit c"; cases "length ds = 6") (simp_all add: press_entered digits_of_def)
qed

lemma pasted_entered:
  assumes "length ds + length es \<le> 6"
  shows "fold paste_char (enumerate (length ds) es) (entered ds sent) = entered (ds @ es) sent"
  using assms
proof (induction es arbitrary: ds)
  case Nil
  then show ?case by simp
next
  case (Cons c es)
  have "paste_char (length ds, c) (entered ds sent) = entered (ds @ [c]) sent"
    using Cons.prems by (auto simp: paste_char_def entered_def box_filled Let_def requestSubmit_def concat_map_singleton)
  with Cons.IH [of "ds @ [c]"] Cons.prems show ?case by simp
qed

lemma code_opened_entered: "code_opened = entered [] []"
  by (simp add: code_opened_def entered_def)

text \<open>
  Typing a code and pasting it are the same. Whatever text is typed key by key into the form that was
  just opened, or pasted into it, the boxes hold its first six digits, one each, the focus is in the next
  box, and the form is submitted once, with the six digits, as soon as there are six. After a refused code
  the same holds again.
\<close>

theorem typing_is_pasting:
  "fold press x code_opened = on_paste x code_opened
   \<and> fold press x code_opened = entered (take 6 (digits_of x)) []
   \<and> fold press x (code_refused (on_paste y code_opened)) = entered (take 6 (digits_of x)) (ce_sent (on_paste y code_opened))
   \<and> snd (otp_paste x (replicate 6 [])) = (ce_sent (on_paste x code_opened) \<noteq> [])
   \<and> fst (otp_paste x (replicate 6 [])) = ce_boxes (on_paste x code_opened)"
proof -
  have paste: "on_paste x code_opened = entered (take 6 (digits_of x)) []" for x
    using pasted_entered [of "[]" "take 6 (digits_of x)" "[]"] by (simp add: on_paste_def code_opened_entered)
  have "code_refused (entered ds []) = entered [] (ce_sent (entered ds []))" if "length ds \<le> 6" for ds
    using that by (simp add: code_refused_def entered_def map_replicate_const flip: replicate_add)
  then have refused: "code_refused (on_paste y code_opened) = entered [] (ce_sent (on_paste y code_opened))"
    by (simp add: paste)
  have "fst (otp_paste x (replicate 6 [])) = map (\<lambda>d. [d]) (take 6 (digits_of x)) @ replicate (6 - length (take 6 (digits_of x))) []"
    by (intro nth_equalityI) (auto simp: otp_paste_def Let_def nth_append)
  moreover have "snd (otp_paste x (replicate 6 [])) \<longleftrightarrow> length (take 6 (digits_of x)) = 6"
    by (simp add: otp_paste_def Let_def min_def)
  moreover have "fold press x code_opened = entered (take 6 (digits_of x)) []"
    using typed_entered [of "[]" x "[]"] by (simp add: code_opened_entered)
  moreover have "fold press x (code_refused (on_paste y code_opened)) = entered (take 6 (digits_of x)) (ce_sent (on_paste y code_opened))"
    using typed_entered [of "[]" x] by (simp add: refused)
  ultimately show ?thesis
    unfolding paste [of x] by (auto simp: entered_def)
qed

section \<open>The exchange of the views\<close>

text \<open>The children and the classes of the host, the timers with the views they bring, the frames to wait for, and the time.\<close>

record page =
  pg_host :: "string list"
  pg_classes :: "string list"
  pg_timers :: "(int \<times> string) list"
  pg_frames :: "nat list"
  pg_time :: int

definition add_class :: "string \<Rightarrow> page \<Rightarrow> page" where
  "add_class c pg = (if c \<in> set (pg_classes pg) then pg else pg\<lparr>pg_classes := pg_classes pg @ [c]\<rparr>)"

definition remove_class :: "string \<Rightarrow> page \<Rightarrow> page" where
  "remove_class c pg = pg\<lparr>pg_classes := filter (\<lambda>x. x \<noteq> c) (pg_classes pg)\<rparr>"

text \<open>The view is built; it comes into the page in 180 milliseconds.\<close>

definition show_view :: "string \<Rightarrow> page \<Rightarrow> page" where
  "show_view v pg = (let pg = add_class ''view--leaving'' pg in pg\<lparr>pg_timers := pg_timers pg @ [(pg_time pg + 180, v)]\<rparr>)"

text \<open>The loop over \<open>firstChild\<close> removes all children.\<close>

definition swap_view :: "string \<Rightarrow> page \<Rightarrow> page" where
  "swap_view v pg =
     (let pg = remove_class ''view--leaving'' pg;
          pg = pg\<lparr>pg_host := []\<rparr>;
          pg = pg\<lparr>pg_host := pg_host pg @ [v]\<rparr>;
          pg = add_class ''view--enter'' pg in
      pg\<lparr>pg_frames := pg_frames pg @ [2]\<rparr>)"

text \<open>A frame; the second one after the exchange removes the class.\<close>

definition page_frame :: "page \<Rightarrow> page" where
  "page_frame pg =
     (let pg' = pg\<lparr>pg_frames := map (\<lambda>n. n - 1) (filter (\<lambda>n. 1 < n) (pg_frames pg))\<rparr> in
      if list_ex (\<lambda>n. n \<le> 1) (pg_frames pg) then remove_class ''view--enter'' pg' else pg')"

text \<open>Time passes, and the timers that are due run in their order.\<close>

definition page_wait :: "int \<Rightarrow> page \<Rightarrow> page" where
  "page_wait d pg =
     (let now = pg_time pg + d; due = filter (\<lambda>(t, _). t \<le> now) (pg_timers pg) in
      fold (\<lambda>(_, v). swap_view v) due (pg\<lparr>pg_time := now, pg_timers := filter (\<lambda>(t, _). \<not> t \<le> now) (pg_timers pg)\<rparr>))"

datatype page_event = Show_view string | Wait int | Frame

fun page_step :: "page_event \<Rightarrow> page \<Rightarrow> page" where
  "page_step (Show_view v) pg = show_view v pg"
| "page_step (Wait d) pg = page_wait d pg"
| "page_step Frame pg = page_frame pg"

text \<open>
  A look at an address: an unknown one and one of the wrong kind lead on at once; the dashboard without a
  token leads on as well, but its empty view has been built by then.
\<close>

fun page_renders :: "nat \<Rightarrow> browser \<times> page \<Rightarrow> browser \<times> page" where
  "page_renders 0 st = st"
| "page_renders (Suc n) (b, pg) = (case render b of
      Show v \<Rightarrow> (b, show_view v pg)
    | Redirect h \<Rightarrow> page_renders n (navigate h b, if fst (router_parse (b_hash b)) = ''/account'' then show_view ''/account'' pg else pg))"

text \<open>The view that is in the page, or comes last.\<close>

definition last_view :: "page \<Rightarrow> string option" where
  "last_view pg = (if pg_timers pg \<noteq> [] then Some (snd (last (pg_timers pg))) else if pg_host pg \<noteq> [] then Some (last (pg_host pg)) else None)"

text \<open>The timers are in order, the frames are counted, and the classes are there only while something is to come.\<close>

definition page_ok :: "page \<Rightarrow> bool" where
  "page_ok pg \<longleftrightarrow> length (pg_host pg) \<le> 1 \<and> sorted (map fst (pg_timers pg)) \<and> (\<forall>(t, v) \<in> set (pg_timers pg). t \<le> pg_time pg + 180)
     \<and> set (pg_frames pg) \<subseteq> {1, 2}
     \<and> (pg_timers pg = [] \<longrightarrow> ''view--leaving'' \<notin> set (pg_classes pg)) \<and> (pg_frames pg = [] \<longrightarrow> ''view--enter'' \<notin> set (pg_classes pg))"

lemma class_fields [simp]:
  "pg_host (add_class c pg) = pg_host pg" "pg_timers (add_class c pg) = pg_timers pg" "pg_frames (add_class c pg) = pg_frames pg"
  "pg_time (add_class c pg) = pg_time pg" "set (pg_classes (add_class c pg)) = insert c (set (pg_classes pg))"
  "pg_host (remove_class c pg) = pg_host pg" "pg_timers (remove_class c pg) = pg_timers pg" "pg_frames (remove_class c pg) = pg_frames pg"
  "pg_time (remove_class c pg) = pg_time pg" "set (pg_classes (remove_class c pg)) = set (pg_classes pg) - {c}"
  by (auto simp: add_class_def remove_class_def)

lemma swap_fields [simp]:
  "pg_host (swap_view v pg) = [v]" "pg_timers (swap_view v pg) = pg_timers pg" "pg_time (swap_view v pg) = pg_time pg"
  "pg_frames (swap_view v pg) = pg_frames pg @ [2]"
  "set (pg_classes (swap_view v pg)) = insert ''view--enter'' (set (pg_classes pg) - {''view--leaving''})"
  by (simp_all add: swap_view_def Let_def)

lemma swaps_fields:
  "pg_timers (fold (\<lambda>(_, v). swap_view v) due pg) = pg_timers pg"
  "pg_time (fold (\<lambda>(_, v). swap_view v) due pg) = pg_time pg"
  "pg_host (fold (\<lambda>(_, v). swap_view v) due pg) = (if due = [] then pg_host pg else [snd (last due)])"
  "pg_frames (fold (\<lambda>(_, v). swap_view v) due pg) = pg_frames pg @ map (\<lambda>_. 2) due"
  "set (pg_classes (fold (\<lambda>(_, v). swap_view v) due pg))
     = (if due = [] then set (pg_classes pg) else insert ''view--enter'' (set (pg_classes pg) - {''view--leaving''}))"
  by (induction due arbitrary: pg) (auto split: prod.split)

text \<open>Timers that are in order: when some are not due, the last one is not.\<close>

lemma due_last:
  assumes "sorted (map fst ts)" and "filter (\<lambda>(t, _). \<not> t \<le> now) ts \<noteq> []"
  shows "last (filter (\<lambda>(t, _). \<not> t \<le> (now :: int)) ts) = last ts"
  using assms
proof (induction ts rule: rev_induct)
  case (snoc x ts)
  show ?case
  proof (cases "fst x \<le> now")
    case True
    with snoc.prems(1) have "\<forall>y \<in> set ts. fst y \<le> now" by (fastforce simp: sorted_append)
    with True snoc.prems(2) show ?thesis by (auto simp: filter_empty_conv split: prod.splits)
  qed (simp add: case_prod_beta)
qed simp

lemma page_wait_ok:
  assumes "page_ok pg" and "0 \<le> d"
  shows "page_ok (page_wait d pg)" and "last_view (page_wait d pg) = last_view pg"
proof -
  let ?now = "pg_time pg + d"
  let ?due = "filter (\<lambda>(t, _). t \<le> ?now) (pg_timers pg)" and ?rest = "filter (\<lambda>(t, _). \<not> t \<le> ?now) (pg_timers pg)"
  have sorted: "sorted (map fst ?rest)" using assms(1) by (simp add: page_ok_def sorted_filter)
  have none: "?rest = [] \<Longrightarrow> ?due = pg_timers pg" by (auto simp: filter_empty_conv intro!: filter_True)
  show "page_ok (page_wait d pg)"
    using assms sorted none by (auto simp: page_ok_def page_wait_def Let_def swaps_fields)
  show "last_view (page_wait d pg) = last_view pg"
  proof (cases "?rest = []")
    case True
    then show ?thesis by (simp add: last_view_def page_wait_def Let_def swaps_fields none)
  next
    case False
    then have "pg_timers pg \<noteq> []" by auto
    moreover have "last ?rest = last (pg_timers pg)" using assms(1) False by (intro due_last) (simp_all add: page_ok_def)
    ultimately show ?thesis using False by (simp add: last_view_def page_wait_def Let_def swaps_fields)
  qed
qed

lemma show_view_ok:
  assumes "page_ok pg"
  shows "page_ok (show_view v pg)" and "last_view (show_view v pg) = Some v"
  using assms by (auto simp: page_ok_def show_view_def Let_def last_view_def sorted_append)

lemma page_frame_ok:
  assumes "page_ok pg"
  shows "page_ok (page_frame pg)" and "last_view (page_frame pg) = last_view pg"
proof -
  have "set (map (\<lambda>n. n - 1) (filter (\<lambda>n. 1 < n) (pg_frames pg))) \<subseteq> {1, 2}" using assms by (auto simp: page_ok_def)
  moreover have "list_ex (\<lambda>n. n \<le> 1) (pg_frames pg)" if "filter (\<lambda>n. 1 < n) (pg_frames pg) = []" "pg_frames pg \<noteq> []"
    using that by (cases "pg_frames pg") (auto split: if_splits)
  ultimately show "page_ok (page_frame pg)"
    using assms by (auto simp: page_ok_def page_frame_def Let_def)
  show "last_view (page_frame pg) = last_view pg"
    by (simp add: last_view_def page_frame_def Let_def)
qed

lemma frames_end:
  assumes "page_ok pg"
  shows "''view--enter'' \<notin> set (pg_classes (page_frame (page_frame pg)))"
proof (cases "pg_frames (page_frame pg)")
  case Nil
  then have "''view--enter'' \<notin> set (pg_classes (page_frame pg))" using page_frame_ok(1) [OF assms] by (simp add: page_ok_def)
  then show ?thesis by (auto simp: page_frame_def [of "page_frame pg"] Let_def)
next
  case (Cons n ns)
  have "set (pg_frames (page_frame pg)) \<subseteq> {1}" using assms by (auto simp: page_ok_def page_frame_def Let_def)
  then have "n = 1" by (simp add: Cons)
  then show ?thesis by (simp add: page_frame_def [of "page_frame pg"] Let_def Cons)
qed

lemma waited:
  assumes "page_ok pg" and "180 \<le> d"
  shows "pg_timers (page_wait d pg) = []" and "pg_host (page_wait d pg) = (case last_view pg of None \<Rightarrow> [] | Some v \<Rightarrow> [v])"
    and "''view--leaving'' \<notin> set (pg_classes (page_wait d pg))"
proof -
  have "filter (\<lambda>(t, _). \<not> t \<le> pg_time pg + d) (pg_timers pg) = []"
    using assms by (fastforce simp: page_ok_def filter_empty_conv)
  then show timers: "pg_timers (page_wait d pg) = []" by (simp add: page_wait_def Let_def swaps_fields)
  have ok: "page_ok (page_wait d pg)" and last: "last_view (page_wait d pg) = last_view pg"
    using page_wait_ok [OF assms(1), of d] assms(2) by simp_all
  then show "''view--leaving'' \<notin> set (pg_classes (page_wait d pg))" using timers by (simp add: page_ok_def)
  show "pg_host (page_wait d pg) = (case last_view pg of None \<Rightarrow> [] | Some v \<Rightarrow> [v])"
    using ok unfolding last [symmetric] by (cases "pg_host (page_wait d pg)") (auto simp: last_view_def timers page_ok_def)
qed

fun forward :: "page_event \<Rightarrow> bool" where
  "forward (Wait d) \<longleftrightarrow> 0 \<le> d"
| "forward _ \<longleftrightarrow> True"

text \<open>The view that was asked for last.\<close>

fun wanted :: "page_event list \<Rightarrow> string option \<Rightarrow> string option" where
  "wanted [] x = x"
| "wanted (Show_view v # es) x = wanted es (Some v)"
| "wanted (_ # es) x = wanted es x"

lemma page_run:
  assumes "page_ok pg" and "list_all forward es"
  shows "page_ok (fold page_step es pg)" and "last_view (fold page_step es pg) = wanted es (last_view pg)"
  using assms
proof (induction es arbitrary: pg)
  case (Cons e es)
  {
    case 1
    with Cons show ?case by (cases e) (simp_all add: page_wait_ok show_view_ok page_frame_ok)
  next
    case 2
    with Cons show ?case by (cases e) (simp_all add: page_wait_ok show_view_ok page_frame_ok)
  }
qed simp_all

lemma page_renders_ok:
  assumes "page_ok pg"
  shows "page_ok (snd (page_renders n (b, pg)))" and "fst (page_renders n (b, pg)) = fst (renders n b)"
    and "snd (renders n b) = Some v \<Longrightarrow> last_view (snd (page_renders n (b, pg))) = Some v"
  using assms by (induction n arbitrary: b pg) (auto simp: show_view_ok split: rendering.splits)


definition first_page :: page where
  "first_page = \<lparr>pg_host = [''/login''], pg_classes = [], pg_timers = [], pg_frames = [], pg_time = 0\<rparr>"


end
