(* ===== verification/Spa_Types.thy ===== *)
theory Spa_Types
  imports Spa_Account Spa_Refresh Server_Properties
begin

text \<open>
  The dashboard takes the bodies of two answers for values of its interfaces. They are, whenever the
  servers answer with success.
\<close>

section \<open>Failures are no successes\<close>

text \<open>An action whose exceptions are answered with a status that the browser takes for a failure.\<close>

definition fails_well :: "'a act \<Rightarrow> bool" where
  "fails_well m \<longleftrightarrow> (\<forall>s e s' i. m s = (Inl e, s') \<longrightarrow> \<not> ok_status (errorHandler e i))"

lemma fails_wellD: "fails_well m \<Longrightarrow> m s = (Inl e, s') \<Longrightarrow> \<not> ok_status (errorHandler e i)"
  unfolding fails_well_def by blast

lemma fails_well_bind: "fails_well m \<Longrightarrow> (\<And>x. fails_well (k x)) \<Longrightarrow> fails_well (bindM m k)"
  unfolding fails_well_def by (auto simp: bindM_run split: prod.splits sum.splits)

lemma fails_well_basic:
  "fails_well (returnM r0)" "fails_well (getM f)" "fails_well (ok_json n fs)"
  "(\<And>i. \<not> ok_status (errorHandler e i)) \<Longrightarrow> fails_well (throwM e)"
  "(\<And>e i. r = Inl e \<Longrightarrow> \<not> ok_status (errorHandler e i)) \<Longrightarrow> fails_well (liftE r)"
  "fails_well p \<Longrightarrow> (\<And>y. fails_well (q y)) \<Longrightarrow> fails_well (case v of None \<Rightarrow> p | Some y \<Rightarrow> q y)"
  "fails_well p \<Longrightarrow> fails_well p' \<Longrightarrow> fails_well (if b then p else p')"
  by (auto simp: fails_well_def ok_json_def liftE_def split: option.splits)

lemmas fails_well = fails_well_bind fails_well_basic

lemma bad_statuses:
  "\<not> ok_status (errorHandler (AuthError m c) i)" "\<not> ok_status (errorHandler (DbError m) i)"
  "\<not> ok_status (errorHandler (JsError m) i)" "n = 401 \<or> n = 403 \<Longrightarrow> \<not> ok_status (errorHandler (AppError n c m) i)"
  by (auto simp: ok_status_def AuthError_def AppError_def)

lemma authenticate_fails: "fails_well (authenticate env cfg header)"
  unfolding fails_well_def ok_status_def using authenticate_refused by fastforce

lemma me_route_fails: "fails_well (me_route env cfg header)"
  unfolding me_route_def auth_me_def users_findById_def users_rolesOf_def users_permissionsOf_def mfa_hasActiveMethod_def
    mfa_getActiveMethod_def uuid_param_def
  by (intro fails_well authenticate_fails bad_statuses)

lemma limiter_fails: "fails_well (rateLimitMiddleware opts key)"
proof -
  have window: "fails_well (redis_incrementWindow k w)" for k w
    unfolding fails_well_def using increment_error bad_statuses(3) by metis
  have ttl: "fails_well (redis_ttl k)" for k
    by (simp add: fails_well_def redis_ttl_def split: option.split)
  have refused: "\<not> ok_status (errorHandler (TooManyRequestsError n) i)" for n i
    by (simp add: TooManyRequestsError_def ok_status_def)
  show ?thesis
    unfolding rateLimitMiddleware_def Let_def by (intro fails_well window ttl refused)
qed

lemma fails_well_sum: "(\<And>e. fails_well (p e)) \<Longrightarrow> (\<And>y. fails_well (q y)) \<Longrightarrow> fails_well (case x of Inl e \<Rightarrow> p e | Inr y \<Rightarrow> q y)"
  by (cases x) simp_all

lemma remote_fails: "fails_well (authenticateRemote remote cfg hs)"
proof -
  have revoked: "fails_well (isRevoked jti)" for jti
    unfolding fails_well_def by (simp add: isRevoked_run)
  have now: "fails_well nowM"
    by (simp add: fails_well_def)
  have refused: "\<not> ok_status (errorHandler (remote_error code) i)" for code i
    by (simp add: remote_error_def bad_statuses)
  have missing: "\<not> ok_status (errorHandler (AppError 401 c m) i)" for c m i
    by (simp add: bad_statuses)
  show ?thesis
    unfolding authenticateRemote_def remote_verify_def
    by (intro fails_well fails_well_sum revoked now refused missing bad_statuses(1))
qed

lemma forward_fails: "fails_well (gateway_forward remote cfg ip hs)"
  unfolding gateway_forward_def Let_def
  by (intro fails_well limiter_fails remote_fails) (auto simp: requireScopes_def AppError_def ok_status_def split: if_splits)

section \<open>The answers\<close>

lemma me_paths:
  "path_segments ''/auth/me'' = [''auth'', ''me'']" "path_segments ''/api/v1/me'' = [''api'', ''v1'', ''me'']"
  "js_lower ''auth'' = ''auth''" "js_lower ''me'' = ''me''" "js_lower ''api'' = ''api''" "js_lower ''v1'' = ''v1''"
  by code_simp+

lemma me_route_found:
  "find_route (auth_routes pl env cfg) ''GET'' [''auth'', ''me''] = Some (\<lambda>rq ctx ps. me_route env cfg (auth_header rq), [])"
  by (simp add: auth_routes_def auth_router_def me_paths js_lower_def js_upper_letter_def)

lemma resource_me_found:
  "find_route (documents_router pl env me) ''GET'' [''api'', ''v1'', ''me''] = Some (\<lambda>rq ctx ps. resource_route env me GetMe, [])"
  by (simp add: documents_router_def me_paths)

lemma respond_ok: "respond m i s = (res, s') \<Longrightarrow> ok_status res \<Longrightarrow> fails_well m \<Longrightarrow> m s = (Inr res, s')"
  using fails_wellD [of m s] by (auto simp: respond_def split: prod.splits sum.splits)

lemma all_strings_map [simp]: "all_strings (map JStr xs) = Some xs"
  by (induction xs) simp_all

text \<open>The profile as the tables have it.\<close>

definition stored_profile :: "externals \<Rightarrow> world \<Rightarrow> user_row \<Rightarrow> client_profile \<Rightarrow> bool" where
  "stored_profile env s u p \<longleftrightarrow> me_id p = u_id u \<and> me_email p = u_email u \<and> me_first_name p = u_first_name u
     \<and> me_last_name p = u_last_name u \<and> me_status p = status_name (u_status u)
     \<and> users_rolesOf (u_id u) s = (Inr (me_roles p), s) \<and> users_permissionsOf (u_id u) s = (Inr (me_permissions p), s)
     \<and> mfa_hasActiveMethod env (u_id u) s = (Inr (me_mfa_enabled p), s)"

lemma stored_profile_drawn: "drawn s s1 \<Longrightarrow> stored_profile env s1 u p \<longleftrightarrow> stored_profile env s u p"
  by (auto simp: drawn_def stored_profile_def users_rolesOf_def users_permissionsOf_def mfa_hasActiveMethod_def mfa_getActiveMethod_def
      uuid_param_def bindM_run mfa_method_in_def split: option.splits)

lemma read_me:
  assumes "me_route env cfg header s = (Inr res, s')"
  shows "\<exists>user u p. authenticate env cfg header s = (Inr user, s) \<and> u \<in> set (t_users s) \<and> u_id u = au_sub user
    \<and> read_profile (hr_body res) = Some p \<and> stored_profile env s u p"
proof -
  obtain user s1 where auth: "authenticate env cfg header s = (Inr user, s1)"
    and me: "bindM (auth_me env (au_sub user)) (\<lambda>p. ok_json 200 [(''id'', JStr (pf_id p)), (''email'', JStr (pf_email p)),
       (''first_name'', jopt (pf_first_name p)), (''last_name'', jopt (pf_last_name p)), (''status'', JStr (status_name (pf_status p))),
       (''roles'', jstrs (pf_roles p)), (''permissions'', jstrs (pf_permissions p)), (''mfa_enabled'', JBool (pf_mfa_enabled p))]) s1 = (Inr res, s')"
    using assms unfolding me_route_def by (rule bindM_InrE)
  have "s1 = s" using authenticate_state [of env cfg header s] auth by simp
  note me = me [unfolded this] and auth = auth [unfolded this]
  from me obtain p s2 where p: "auth_me env (au_sub user) s = (Inr p, s2)"
    and res: "hr_body res = JObj [(''id'', JStr (pf_id p)), (''email'', JStr (pf_email p)),
       (''first_name'', jopt (pf_first_name p)), (''last_name'', jopt (pf_last_name p)), (''status'', JStr (status_name (pf_status p))),
       (''roles'', jstrs (pf_roles p)), (''permissions'', jstrs (pf_permissions p)), (''mfa_enabled'', JBool (pf_mfa_enabled p))]"
    by (rule bindM_InrE) (auto simp: ok_json_def)
  obtain u where u: "List.find (\<lambda>u. u_id u = au_sub user) (t_users s) = Some u"
    using p by (auto simp: auth_me_def users_findById_def bindM_run split: if_splits option.splits)
  have uuid: "uuid_syntax env (au_sub user)"
    using p by (auto simp: auth_me_def users_findById_def split: if_splits)
  have "\<exists>q. read_profile (hr_body res) = Some q \<and> stored_profile env s u q"
    using p u uuid find_SomeD [OF u] unfolding res
    by (auto simp: stored_profile_def read_profile_def member_string_def member_optional_def member_strings_def member_bool_def jopt_def jstrs_def
        auth_me_def users_findById_def users_rolesOf_def users_permissionsOf_def mfa_hasActiveMethod_def mfa_getActiveMethod_def uuid_param_def
        bindM_run split: option.split)
  with auth find_SomeD [OF u] show ?thesis by metis
qed

text \<open>The identity as the page reads it.\<close>

definition shown_identity :: "resource_identity \<Rightarrow> gateway_identity" where
  "shown_identity me = \<lparr>gi_userId = rid_userId me, gi_scopes = rid_scopes me, gi_roles = rid_roles me, gi_requestId = rid_requestId me\<rparr>"

lemma read_me_gateway: "read_identity (JObj (identity_json me)) = Some (shown_identity me)"
  by (auto simp: read_identity_def identity_json_def member_optional_def member_strings_def shown_identity_def Let_def split: option.split)

text \<open>The gateway asks the resource API, which answers with the identity it read.\<close>

lemma resource_me:
  assumes "hq_method rq = ''GET''" and "hq_path rq = ''/api/v1/me''" and "hq_body rq = No_body"
  shows "resource_handler pl env cfg rq ctx =
    bindM (liftE (requireGatewaySecret cfg (hq_headers rq))) (\<lambda>_.
    bindM (liftE (requireIdentity (hq_headers rq))) (\<lambda>me. ok_json 200 (identity_json me)))"
proof -
  have "dispatch (documents_router pl env me) rq ctx [] = ok_json 200 (identity_json me)" for me
    using assms by (simp add: dispatch_def me_paths resource_me_found)
  then show ?thesis
    using assms by (simp add: resource_handler_def under_api_def me_paths)
qed

lemma resource_fails:
  assumes "hq_method rq = ''GET''" and "hq_path rq = ''/api/v1/me''" and "hq_body rq = No_body"
  shows "fails_well (resource_handler pl env cfg rq ctx)"
proof -
  have "\<not> ok_status (errorHandler e i)" if "requireGatewaySecret cfg hs = Inl e" for hs e i
    using that by (auto simp: requireGatewaySecret_def bad_statuses split: if_splits)
  moreover have "\<not> ok_status (errorHandler e i)" if "requireIdentity hs = Inl e" for hs e i
    using that by (auto simp: requireIdentity_def Let_def bad_statuses split: if_splits)
  ultimately show ?thesis
    unfolding resource_me [OF assms] by (intro fails_well)
qed

lemma resource_server_me:
  assumes "resource_server pl env cfg rq s = (res, s')" and "ok_status res"
    and "hq_method rq = ''GET''" and "hq_path rq = ''/api/v1/me''" and "hq_body rq = No_body"
  shows "\<exists>me. requireIdentity (hq_headers rq) = Inr me \<and> hr_body res = JObj (identity_json me)"
proof -
  obtain i s1 where "respond (resource_handler pl env cfg rq (requestContext i rq)) i s1 = (res, s')"
    using serve_run [of s env "\<lambda>requestId. resource_handler pl env cfg rq (requestContext requestId rq)" rq] assms(1)
    by (metis resource_server_def)
  then have "resource_handler pl env cfg rq (requestContext i rq) s1 = (Inr res, s')"
    using assms(2) resource_fails [OF assms(3-)] by (rule respond_ok)
  then show ?thesis
    unfolding resource_me [OF assms(3-)] by (elim bindM_InrE) (auto simp: ok_json_def liftE_def)
qed

lemma gateway_server_me:
  assumes "gateway_server remote pl env cfg rq s = (res, s')" and "ok_status res"
    and "hq_method rq = ''GET''" and "hq_path rq = ''/api/v1/me''" and "hq_body rq = No_body"
  shows "\<exists>token payload me. bearerToken (hq_headers rq) = Some token \<and> remote token (remote_options cfg) (clock s) = Inr payload
    \<and> claims_identity payload (header_of ''x-request-id'' (hq_headers rq)) = Inr me \<and> hr_body res = JObj (identity_json me)"
proof -
  obtain i s1 where s1: "drawn s s1" and run: "respond (gateway_handler remote pl env cfg rq) i s1 = (res, s')"
    using serve_run [of s env "\<lambda>_. gateway_handler remote pl env cfg rq" rq] assms(1) by (metis gateway_server_def)
  have handler: "gateway_handler remote pl env cfg rq = bindM (gateway_forward remote cfg (hq_ip rq) (hq_headers rq)) (\<lambda>out.
        (\<lambda>s. case resource_server pl env cfg (rq\<lparr>hq_headers := out\<rparr>) s of (resp, s') \<Rightarrow> (Inr resp, s')))"
    by (simp add: gateway_handler_def under_api_def assms(4) me_paths)
  have "fails_well (gateway_handler remote pl env cfg rq)"
    unfolding handler by (intro fails_well_bind forward_fails) (auto simp: fails_well_def split: prod.splits)
  with run assms(2) have "gateway_handler remote pl env cfg rq s1 = (Inr res, s')"
    by (rule respond_ok)
  then obtain out s2 where forward: "gateway_forward remote cfg (hq_ip rq) (hq_headers rq) s1 = (Inr out, s2)"
    and server: "resource_server pl env cfg (rq\<lparr>hq_headers := out\<rparr>) s2 = (res, s')"
    unfolding handler by (elim bindM_InrE) (auto split: prod.splits)
  obtain token payload where tok: "bearerToken (drop_headers PROTECTED_HEADERS (hq_headers rq)) = Some token"
    and vouched: "remote token (remote_options cfg) (clock s1) = Inr payload"
    and out: "out = proxy_headers cfg (remote_user payload) (drop_headers PROTECTED_HEADERS (hq_headers rq))"
    by (rule forward_Inr [OF forward]) (rule that; assumption)
  have "bearerToken (hq_headers rq) = Some token" using tok by (simp add: bearerToken_def PROTECTED_HEADERS_def)
  moreover have "clock s1 = clock s" using s1 by simp
  moreover have "requireIdentity out = claims_identity payload (header_of ''x-request-id'' (hq_headers rq))"
    unfolding out by (rule proxied_identity)
  moreover obtain me where "requireIdentity out = Inr me" "hr_body res = JObj (identity_json me)"
    using resource_server_me [OF server assms(2)] assms(3-) by auto
  ultimately show ?thesis using vouched by metis
qed

text \<open>
  C40: the dashboard reads what the servers send, of the visitor and nobody else. The two calls of the dashboard
  cast the bodies of their answers to interfaces; whatever token and headers they carry, a successful answer has all
  the members with the types of the interface. The profile is the one of the account that the verified token names,
  with the names, the status, the roles, the permissions and the flag of the second factor that the tables have for
  it; the identity is the one of the token that the key set vouches for.
\<close>

theorem dashboard_reads_answers:
  "(auth_server pl env cfg (client_request b ''GET'' ''/auth/me'' token None) s = (res, s') \<and> ok_status res
      \<longrightarrow> (\<exists>s1 user u p. drawn s s1 \<and> authenticate env cfg (auth_header (client_request b ''GET'' ''/auth/me'' token None)) s1 = (Inr user, s1)
             \<and> u \<in> set (t_users s) \<and> u_id u = au_sub user \<and> read_profile (hr_body res) = Some p \<and> stored_profile env s u p))
   \<and> (gateway_server remote pl env cfg (client_request b ''GET'' ''/api/v1/me'' token None) s = (res, s') \<and> ok_status res
      \<longrightarrow> (\<exists>bearer payload me. bearerToken (hq_headers (client_request b ''GET'' ''/api/v1/me'' token None)) = Some bearer
             \<and> remote bearer (remote_options cfg) (clock s) = Inr payload
             \<and> claims_identity payload (header_of ''x-request-id'' (hq_headers (client_request b ''GET'' ''/api/v1/me'' token None))) = Inr me
             \<and> read_identity (hr_body res) = Some (shown_identity me)))"
proof (intro conjI impI; elim conjE)
  let ?rq = "client_request b ''GET'' ''/auth/me'' token None"
  assume run: "auth_server pl env cfg ?rq s = (res, s')" and ok: "ok_status res"
  obtain i s1 where drawn: "drawn s s1" and "auth_server pl env cfg ?rq s = respond (dispatch (auth_routes pl env cfg) ?rq (requestContext i ?rq) []) i s1"
    by (rule auth_server_run [of ?rq s pl env cfg]) (simp_all add: client_request_def)
  with run have "respond (me_route env cfg (auth_header ?rq)) i s1 = (res, s')"
    by (simp add: dispatch_def client_request_def me_paths me_route_found)
  then have "me_route env cfg (auth_header ?rq) s1 = (Inr res, s')"
    using ok me_route_fails by (rule respond_ok)
  moreover have "t_users s1 = t_users s" using drawn by (auto simp: drawn_def)
  ultimately show "\<exists>s1 user u p. drawn s s1 \<and> authenticate env cfg (auth_header ?rq) s1 = (Inr user, s1)
      \<and> u \<in> set (t_users s) \<and> u_id u = au_sub user \<and> read_profile (hr_body res) = Some p \<and> stored_profile env s u p"
    using read_me [of env cfg "auth_header ?rq" s1 res s'] drawn stored_profile_drawn [OF drawn, of env] by metis
next
  assume "gateway_server remote pl env cfg (client_request b ''GET'' ''/api/v1/me'' token None) s = (res, s')" and "ok_status res"
  from gateway_server_me [OF this] read_me_gateway show "\<exists>bearer payload me. bearerToken (hq_headers (client_request b ''GET'' ''/api/v1/me'' token None)) = Some bearer
             \<and> remote bearer (remote_options cfg) (clock s) = Inr payload
             \<and> claims_identity payload (header_of ''x-request-id'' (hq_headers (client_request b ''GET'' ''/api/v1/me'' token None))) = Inr me
             \<and> read_identity (hr_body res) = Some (shown_identity me)"
    by (fastforce simp: client_request_def)
qed

definition me_visitor :: browser where
  "me_visitor = \<lparr>b_access = Some ''J'', b_refresh = None, b_hash = ''/account'', b_ip = Some ''10.0.0.1'', b_headers = []\<rparr>"

theorem dashboard_reads_answers_witness:
  "\<exists>p. read_profile (hr_body (fst (auth_server sample_platform demo_env sample_cfg
       (client_request me_visitor ''GET'' ''/auth/me'' (Some ''J'') None) sample_world))) = Some p \<and> me_email p = ''a@x''"
proof -
  let ?run = "auth_server sample_platform demo_env sample_cfg (client_request me_visitor ''GET'' ''/auth/me'' (Some ''J'') None) sample_world"
  obtain res s' where run: "?run = (res, s')" by (cases ?run)
  have "ok_status (fst ?run)" by code_simp
  with run have "ok_status res" by simp
  with dashboard_reads_answers [of sample_platform demo_env sample_cfg me_visitor "Some ''J''" sample_world res s'] run
  obtain p u where "read_profile (hr_body res) = Some p" "u \<in> set (t_users sample_world)" "u_email u = me_email p"
    unfolding stored_profile_def by metis
  moreover have "list_all (\<lambda>u. u_email u = ''a@x'') (t_users sample_world)" by code_simp
  ultimately show ?thesis using run by (simp add: list_all_iff)
qed

end
