(* ===== verification/Spa_Errors.thy ===== *)
theory Spa_Errors
  imports Spa_Account Spa_Flow
begin

text \<open>
  The browser application when the network or a server fails. A request that gets no answer makes \<open>fetch\<close>
  throw an error with a message; the client treats it like an answer without success whose body has this
  message, so the network of the model may answer with \<open>network_error\<close>.
\<close>

definition network_error :: "string \<Rightarrow> http_response" where
  "network_error x = \<lparr>hr_status = 0, hr_body = JObj [(''message'', JStr x)]\<rparr>"

text \<open>The toast shows the message of the error, and the call fails without another attempt.\<close>

lemma network_error_message: "x \<noteq> [] \<Longrightarrow> api_error_message (hr_status (network_error x), hr_body (network_error x)) = x"
  by (simp add: network_error_def api_error_message_def json_member_def)

lemma network_error_fails:
  assumes "net (op_api opts) (client_request b (op_method opts) (op_path opts)
     (if op_bearer opts then (case b_access b of Some t \<Rightarrow> if t = [] then None else Some t | None \<Rightarrow> None) else None) (op_body opts)) w
     = (network_error x, w')"
  shows "apiRequest net opts (b, w) = (Inl (0, JObj [(''message'', JStr x)]), (b, w'))"
  using assms by (simp add: apiRequest_def numeral_eq_Suc send_request_def settle_def ok_status_def network_error_def)

text \<open>
  A refresh that fails for whatever reason, and be it that the answer was lost, takes the tokens away: the
  refresh token is forgotten although the server may still accept it.
\<close>

lemma lost_refresh_signs_out:
  assumes "send_request opts b = Sent opts rq" and "net (op_api opts) rq w = (res, w1)" and "hr_status res = 401" and "op_allowRefresh opts"
    and "b_refresh b = Some token" and "token \<noteq> []" and "net Auth_api (refresh_call b token) w1 = (res', w2)" and "\<not> ok_status res'"
  shows "apiRequest net opts (b, w) = (Inl (401, hr_body res), (clearTokens b, w2))"
  using assms by (simp add: apiRequest_def numeral_eq_Suc)

lemma network_error_refused: "\<not> ok_status (network_error x)"
  by (simp add: network_error_def ok_status_def)

text \<open>The dashboard takes them away after any failure of its two calls, refusals by the rate limit and network errors too.\<close>

lemma dashboard_error_signs_out:
  assumes "account_catch e (sc, b) = (sc', b')"
  shows "\<not> hasAccessToken b'" and "b_refresh b' = None" and "b_hash b' = ''/login''"
  using assms by (auto simp: account_catch_def hasAccessToken_def clearTokens_def navigate_def)

text \<open>Another load after a change leaves them.\<close>

lemma reload_error_shows: "sc_form (reload_catch e sc) = sc_form sc"
  by (simp add: reload_catch_def notify_def)

end
