(* ===== verification/Frontend_Server.thy ===== *)
theory Frontend_Server
  imports Config Spa_Url
begin

text \<open>
  The server of the browser application (\<^verbatim>\<open>src/apps/frontend/server.ts\<close>) and the reader of its
  configuration in the page (\<^verbatim>\<open>src/apps/frontend/client/config.ts\<close>). What \<open>express.static\<close> and
  \<open>sendFile\<close> find on the disk is a parameter; the order of the handlers, the texts they write and the
  caching they ask for are the code's.
\<close>

section \<open>The configuration script\<close>

text \<open>\<open>JSON.stringify\<close> of a string.\<close>

definition json_hex :: "nat \<Rightarrow> char" where
  "json_hex n = char_of (if n < 10 then 48 + n else 87 + n)"

definition json_escape :: "char \<Rightarrow> string" where
  "json_escape c = (let n = (of_char c :: nat) in
     if c = CHR 0x22 then [CHR 0x5C, CHR 0x22]
     else if c = CHR 0x5C then [CHR 0x5C, CHR 0x5C]
     else if n = 8 then [CHR 0x5C, CHR ''b'']
     else if n = 9 then [CHR 0x5C, CHR ''t'']
     else if n = 10 then [CHR 0x5C, CHR ''n'']
     else if n = 12 then [CHR 0x5C, CHR ''f'']
     else if n = 13 then [CHR 0x5C, CHR ''r'']
     else if n < 32 then [CHR 0x5C, CHR ''u'', CHR ''0'', CHR ''0'', json_hex (n div 16), json_hex (n mod 16)]
     else [c])"

definition json_quote :: "string \<Rightarrow> string" where
  "json_quote x = CHR 0x22 # concat (map json_escape x) @ [CHR 0x22]"

definition newline :: char where
  "newline = CHR 0x0A"

text \<open>The version is \<open>process.env.npm_package_version ?? 'dev'\<close>.\<close>

definition config_script :: "app_config \<Rightarrow> string option \<Rightarrow> string" where
  "config_script cfg version = join_with [newline]
     [''window.__APP_CONFIG__ = {'',
      ''  authBase: '' @ json_quote (PUBLIC_AUTH_BASE cfg) @ '','',
      ''  apiBase: '' @ json_quote (PUBLIC_API_BASE cfg) @ '','',
      ''  version: '' @ json_quote (case version of Some v \<Rightarrow> v | None \<Rightarrow> ''dev'') @ '','',
      ''};'']"

section \<open>The server\<close>

text \<open>What the static middleware makes of a path: a file, nothing (the next handler goes on), or an error.\<close>

datatype static_outcome = Found string | Absent | Refused int

text \<open>The files below the static directory, and \<open>index.html\<close> for \<open>sendFile\<close>.\<close>

record static_files =
  sf_static :: "string \<Rightarrow> string \<Rightarrow> static_outcome"
  sf_index :: "string option"

datatype front_body = Json jval | Script string | File string

record front_response =
  fr_status :: int
  fr_cache :: "string option"
  fr_body :: front_body

text \<open>Requests have no correlation id here, and a member that is \<open>undefined\<close> is left out of the JSON text.\<close>

definition front_error :: "exn \<Rightarrow> front_response" where
  "front_error e = (let r = errorHandler e [] in
     \<lparr>fr_status = hr_status r, fr_cache = None,
      fr_body = Json (case hr_body r of JObj fs \<Rightarrow> JObj (filter (\<lambda>(k, _). k \<noteq> ''request_id'') fs) | v \<Rightarrow> v)\<rparr>)"

definition reading :: "http_request \<Rightarrow> bool" where
  "reading rq \<longleftrightarrow> hq_method rq = ''GET'' \<or> hq_method rq = ''HEAD''"

definition front_route :: "string list \<Rightarrow> http_request \<Rightarrow> bool" where
  "front_route segs rq \<longleftrightarrow> reading rq \<and> map js_lower (path_segments (hq_path rq)) = segs"

text \<open>The fallback serves the page for every path; without the page there is an error of status 404.\<close>

definition spa_fallback :: "static_files \<Rightarrow> http_request \<Rightarrow> front_response" where
  "spa_fallback files rq =
     (if \<not> reading rq then
        \<lparr>fr_status = 404, fr_cache = None, fr_body = Json (JObj [(''error'', JStr ''NOT_FOUND''), (''message'', JStr ''Route not found'')])\<rparr>
      else case sf_index files of
          Some page \<Rightarrow> \<lparr>fr_status = 200, fr_cache = Some ''public, max-age=0'', fr_body = File page\<rparr>
        | None \<Rightarrow> front_error (HttpError 404))"

definition static_mount :: "static_files \<Rightarrow> string \<Rightarrow> string \<Rightarrow> string \<Rightarrow> http_request \<Rightarrow> front_response \<Rightarrow> front_response" where
  "static_mount files root path cache rq next_response =
     (if \<not> reading rq then next_response
      else case sf_static files root path of
          Found content \<Rightarrow> \<lparr>fr_status = 200, fr_cache = Some cache, fr_body = File content\<rparr>
        | Absent \<Rightarrow> next_response
        | Refused code \<Rightarrow> front_error (HttpError code))"

text \<open>A mounted middleware sees the path without its mount point.\<close>

definition under_app :: "string \<Rightarrow> string option" where
  "under_app path =
     (if js_lower (take 4 path) = ''/app'' \<and> (length path = 4 \<or> path ! 4 = CHR ''/'')
      then Some (if length path = 4 then ''/'' else drop 4 path) else None)"

definition frontend_server :: "static_files \<Rightarrow> app_config \<Rightarrow> string option \<Rightarrow> http_request \<Rightarrow> front_response" where
  "frontend_server files cfg version rq =
     (if front_route [''healthz''] rq then
        \<lparr>fr_status = 200, fr_cache = None, fr_body = Json (JObj [(''status'', JStr ''ok''), (''service'', JStr ''frontend'')])\<rparr>
      else if front_route [''config.js''] rq then
        \<lparr>fr_status = 200, fr_cache = Some ''no-store'', fr_body = Script (config_script cfg version)\<rparr>
      else
        (let pages = static_mount files [] (hq_path rq) ''no-store'' rq (spa_fallback files rq) in
         case under_app (hq_path rq) of
           Some path \<Rightarrow> static_mount files ''app'' path ''public, max-age=31536000, immutable'' rq pages
         | None \<Rightarrow> pages))"

section \<open>The reader in the page\<close>

text \<open>
  What the browser makes of the script: an assignment of an object literal whose members are string
  literals. The escapes are those of JavaScript that the writer uses.
\<close>

fun string_literal :: "string \<Rightarrow> (string \<times> string) option" where
  "string_literal [] = None"
| "string_literal (c # cs) =
     (if c = CHR 0x22 then Some ([], cs)
      else if c = CHR 0x0A \<or> c = CHR 0x0D then None
      else if c = CHR 0x5C then
        (case cs of
           CHR ''u'' # a # b # x # y # r \<Rightarrow>
             (case (hex_byte a b, hex_byte x y) of
                (Some hi, Some lo) \<Rightarrow>
                  if hi = 0 then map_option (\<lambda>(v, r). (char_of lo # v, r)) (string_literal r) else None
              | _ \<Rightarrow> None)
         | e # r \<Rightarrow>
             (case map_of [(CHR 0x22, CHR 0x22), (CHR 0x5C, CHR 0x5C), (CHR ''b'', CHR 0x08), (CHR ''t'', CHR 0x09),
                 (CHR ''n'', CHR 0x0A), (CHR ''f'', CHR 0x0C), (CHR ''r'', CHR 0x0D)] e of
                Some d \<Rightarrow> map_option (\<lambda>(v, r). (d # v, r)) (string_literal r)
              | None \<Rightarrow> None)
         | [] \<Rightarrow> None)
      else map_option (\<lambda>(v, r). (c # v, r)) (string_literal cs))"

definition skip_ws :: "string \<Rightarrow> string" where
  "skip_ws = dropWhile js_ws"

text \<open>One member with its comma, the end of the object, and the members up to there; the fuel bounds their number.\<close>

definition script_member :: "string \<Rightarrow> ((string \<times> string) \<times> string) option" where
  "script_member x =
     (let y = skip_ws x; name = takeWhile js_word y in
      case skip_ws (dropWhile js_word y) of
        d # r1 \<Rightarrow>
          (case skip_ws r1 of
             q # r2 \<Rightarrow>
               if name \<noteq> [] \<and> d = CHR '':'' \<and> q = CHR 0x22 then
                 (case string_literal r2 of
                    Some (v, r3) \<Rightarrow>
                      (let r4 = skip_ws r3 in
                       Some ((name, v), if r4 \<noteq> [] \<and> hd r4 = CHR '','' then tl r4 else r4))
                  | None \<Rightarrow> None)
               else None
           | [] \<Rightarrow> None)
      | [] \<Rightarrow> None)"

definition script_end :: "string \<Rightarrow> bool" where
  "script_end x \<longleftrightarrow> (case skip_ws x of c # r \<Rightarrow> c = CHR ''}'' \<and> skip_ws r = '';'' | [] \<Rightarrow> False)"

fun script_members :: "nat \<Rightarrow> string \<Rightarrow> (string \<times> string) list option" where
  "script_members 0 x = None"
| "script_members (Suc n) x =
     (if script_end x then Some []
      else case script_member x of
          Some (m, rest) \<Rightarrow> map_option (Cons m) (script_members n rest)
        | None \<Rightarrow> None)"

definition eval_script :: "string \<Rightarrow> (string \<times> string) list option" where
  "eval_script x =
     (if starts_with ''window.__APP_CONFIG__ = {'' x
      then script_members (length x) (drop (length ''window.__APP_CONFIG__ = {'') x) else None)"

record client_config =
  cc_authBase :: string
  cc_apiBase :: string
  cc_version :: string

text \<open>\<open>replace(/\<backslash>/+$/, '')\<close>.\<close>

definition strip_slashes :: "string \<Rightarrow> string" where
  "strip_slashes x = rev (drop_slashes (rev x))"

definition readConfig :: "(string \<times> string) list \<Rightarrow> client_config" where
  "readConfig raw =
     (let member = (\<lambda>name default. case map_of raw name of Some v \<Rightarrow> v | None \<Rightarrow> default) in
      \<lparr>cc_authBase = strip_slashes (member ''authBase'' []), cc_apiBase = strip_slashes (member ''apiBase'' []),
       cc_version = member ''version'' ''dev''\<rparr>)"

definition baseFor :: "client_config \<Rightarrow> api \<Rightarrow> string" where
  "baseFor cfg a = (case a of Gateway_api \<Rightarrow> cc_apiBase cfg | Auth_api \<Rightarrow> cc_authBase cfg)"

definition request_url :: "client_config \<Rightarrow> request_options \<Rightarrow> string" where
  "request_url cfg opts = baseFor cfg (op_api opts) @ op_path opts"

section \<open>What the operator wrote reaches the page\<close>

lemma json_hex_value: "n < 16 \<Longrightarrow> hex_value (json_hex n) = Some n"
  by (auto simp: hex_value_def json_hex_def of_char_of Let_def)

lemma json_hex_byte: "n < 32 \<Longrightarrow> hex_byte (json_hex (n div 16)) (json_hex (n mod 16)) = Some n"
  by (simp add: hex_byte_def json_hex_value)

lemma hex_zero: "hex_byte (CHR ''0'') (CHR ''0'') = Some 0"
  by code_simp

lemma control_chars:
  "char_of (8 :: nat) = CHR 0x08" "char_of (9 :: nat) = CHR 0x09" "char_of (10 :: nat) = CHR 0x0A"
  "char_of (12 :: nat) = CHR 0x0C" "char_of (13 :: nat) = CHR 0x0D"
  by code_simp+

lemma literal_escape:
  "string_literal (json_escape c @ rest) = map_option (\<lambda>(v, r). (c # v, r)) (string_literal rest)"
proof -
  let ?n = "of_char c :: nat"
  consider "c = CHR 0x22" | "c = CHR 0x5C" | "?n \<in> {8, 9, 10, 12, 13}"
    | (control) "c \<noteq> CHR 0x22" "c \<noteq> CHR 0x5C" "?n \<notin> {8, 9, 10, 12, 13}" "?n < 32"
    | (plain) "c \<noteq> CHR 0x22" "c \<noteq> CHR 0x5C" "\<not> ?n < 32"
    by (cases "?n < 32") auto
  then show ?thesis
  proof cases
    case 3
    then have "c = char_of ?n" by simp
    with 3 have "c \<in> {CHR 0x08, CHR 0x09, CHR 0x0A, CHR 0x0C, CHR 0x0D}"
      using control_chars by (elim insertE) auto
    then show ?thesis by (elim insertE) (simp_all add: json_escape_def)
  next
    case control
    then show ?thesis by (simp add: json_escape_def Let_def json_hex_byte hex_zero)
  next
    case plain
    then have "c \<noteq> CHR 0x0A" "c \<noteq> CHR 0x0D" by auto
    with plain show ?thesis by (simp add: json_escape_def Let_def)
  qed (simp_all add: json_escape_def)
qed

lemma literal_quote: "string_literal (concat (map json_escape x) @ CHR 0x22 # rest) = Some (x, rest)"
  by (induction x) (simp_all add: literal_escape del: string_literal.simps(2), simp)

lemma word_plain: "js_word c \<Longrightarrow> \<not> js_ws c \<and> c \<noteq> CHR ''}''"
  by (auto simp: js_word_def js_digit_def js_lower_letter_def js_upper_letter_def js_ws_def Let_def)

lemma member_step:
  assumes "list_all js_word name" and "name \<noteq> []"
  shows "script_members (Suc n) (CHR 0x0A # CHR '' '' # CHR '' '' # name @ CHR '':'' # CHR '' '' # json_quote v @ CHR '','' # rest)
     = map_option (Cons (name, v)) (script_members n rest)"
proof -
  obtain c cs where name: "name = c # cs" using assms(2) by (cases name) auto
  have c: "js_word c" "\<not> js_ws c" "c \<noteq> CHR ''}''" and letters: "\<forall>x \<in> set cs. js_word x"
    using assms(1) word_plain [of c] by (auto simp: name list_all_iff)
  have colon: "\<not> js_word (CHR '':'')" "\<not> js_ws (CHR '':'')" "js_ws (CHR 0x0A)" "\<not> js_ws (CHR 0x22)" "\<not> js_ws (CHR '','')"
    by code_simp+
  have "script_member (CHR 0x0A # CHR '' '' # CHR '' '' # name @ CHR '':'' # CHR '' '' # json_quote v @ CHR '','' # rest) = Some ((name, v), rest)"
    using c colon letters by (simp add: script_member_def skip_ws_def json_quote_def literal_quote name)
  moreover have "\<not> script_end (CHR 0x0A # CHR '' '' # CHR '' '' # name @ x)" for x
    using c colon by (simp add: script_end_def skip_ws_def name)
  ultimately show ?thesis by simp
qed

lemma members_end: "script_members (Suc n) (CHR 0x0A # ''};'') = Some []"
proof -
  have "script_end (CHR 0x0A # ''};'')" by code_simp
  then show ?thesis by simp
qed

lemma more_members: "script_members n x = Some ms \<Longrightarrow> n \<le> m \<Longrightarrow> script_members m x = Some ms"
proof (induction n arbitrary: x m ms)
  case (Suc n)
  then obtain m' where m: "m = Suc m'" "n \<le> m'" by (cases m) auto
  show ?case
  proof (cases "script_end x")
    case True
    with Suc.prems m show ?thesis by simp
  next
    case False
    with Suc.prems(1) obtain a rest vs where "script_member x = Some (a, rest)" "script_members n rest = Some vs" "ms = a # vs"
      by (auto split: option.splits)
    with False Suc.IH [OF _ m(2), of rest vs] m(1) show ?thesis by simp
  qed
qed simp

lemma eval_config_script:
  "eval_script (config_script cfg version) = Some [(''authBase'', PUBLIC_AUTH_BASE cfg), (''apiBase'', PUBLIC_API_BASE cfg),
     (''version'', case version of Some v \<Rightarrow> v | None \<Rightarrow> ''dev'')]"
proof -
  let ?start = "''window.__APP_CONFIG__ = {''" and ?v = "case version of Some v \<Rightarrow> v | None \<Rightarrow> ''dev''"
  let ?rest = "CHR 0x0A # CHR '' '' # CHR '' '' # ''authBase'' @ CHR '':'' # CHR '' '' # json_quote (PUBLIC_AUTH_BASE cfg) @ CHR '','' #
     CHR 0x0A # CHR '' '' # CHR '' '' # ''apiBase'' @ CHR '':'' # CHR '' '' # json_quote (PUBLIC_API_BASE cfg) @ CHR '','' #
     CHR 0x0A # CHR '' '' # CHR '' '' # ''version'' @ CHR '':'' # CHR '' '' # json_quote ?v @ CHR '','' # CHR 0x0A # ''};''"
  have names: "list_all js_word ''authBase''" "list_all js_word ''apiBase''" "list_all js_word ''version''"
    "''authBase'' \<noteq> []" "''apiBase'' \<noteq> []" "''version'' \<noteq> []"
    by code_simp+
  have script: "config_script cfg version = ?start @ ?rest"
    by (simp add: config_script_def newline_def)
  have "script_members (Suc (Suc (Suc (Suc 0)))) ?rest = Some [(''authBase'', PUBLIC_AUTH_BASE cfg), (''apiBase'', PUBLIC_API_BASE cfg), (''version'', ?v)]"
    unfolding member_step [OF names(1,4)] member_step [OF names(2,5)] member_step [OF names(3,6)] members_end
    by simp
  moreover have "Suc (Suc (Suc (Suc 0))) \<le> length (?start @ ?rest)" by simp
  ultimately have "script_members (length (?start @ ?rest)) ?rest
      = Some [(''authBase'', PUBLIC_AUTH_BASE cfg), (''apiBase'', PUBLIC_API_BASE cfg), (''version'', ?v)]"
    by (rule more_members)
  then show ?thesis
    unfolding eval_script_def script by (simp add: starts_with_def)
qed

lemma front_paths:
  "path_segments ''/config.js'' = [''config.js'']" "map js_lower [''config.js''] = [''config.js'']"
  by code_simp+

lemma strip_slashes_end: "strip_slashes x = [] \<or> last (strip_slashes x) \<noteq> CHR ''/''"
proof -
  have "drop_slashes y = [] \<or> hd (drop_slashes y) \<noteq> CHR ''/''" for y
    using hd_dropWhile [of "\<lambda>c. c = CHR ''/''" y] by (auto simp: drop_slashes_def)
  then show ?thesis unfolding strip_slashes_def by (metis last_rev rev.simps(1) rev_is_Nil_conv)
qed

text \<open>
  The base URLs reach the page as the operator wrote them. Whatever characters the settings have, the
  script that is served under \<^verbatim>\<open>/config.js\<close>, never from a cache, is one the browser can evaluate, and what
  the page reads from it are the settings without the slashes at their ends.
\<close>

theorem config_reaches_page:
  "\<exists>sc. frontend_server files cfg version (client_request b ''GET'' ''/config.js'' None None)
         = \<lparr>fr_status = 200, fr_cache = Some ''no-store'', fr_body = Script sc\<rparr>
     \<and> map_option readConfig (eval_script sc) = Some \<lparr>cc_authBase = strip_slashes (PUBLIC_AUTH_BASE cfg),
         cc_apiBase = strip_slashes (PUBLIC_API_BASE cfg), cc_version = (case version of Some v \<Rightarrow> v | None \<Rightarrow> ''dev'')\<rparr>"
proof -
  let ?rq = "client_request b ''GET'' ''/config.js'' None None"
  have "front_route [''config.js''] ?rq" and "\<not> front_route [''healthz''] ?rq"
    using front_paths by (simp_all add: front_route_def reading_def client_request_def)
  then have "frontend_server files cfg version ?rq = \<lparr>fr_status = 200, fr_cache = Some ''no-store'', fr_body = Script (config_script cfg version)\<rparr>"
    by (simp add: frontend_server_def)
  then show ?thesis
    by (simp add: eval_config_script readConfig_def Let_def)
qed

text \<open>
  What the server of the browser application answers. A request that does not read is refused and
  changes nothing; a read of a path for which there is no file gets the page; and only files below
  \<^verbatim>\<open>/app\<close> may be kept by caches for good.
\<close>

theorem frontend_answers:
  "(\<not> reading rq \<longrightarrow> fr_status (frontend_server files cfg version rq) = 404)
   \<and> (reading rq \<and> \<not> front_route [''healthz''] rq \<and> \<not> front_route [''config.js''] rq
        \<and> sf_static files [] (hq_path rq) = Absent \<and> (\<forall>path. under_app (hq_path rq) = Some path \<longrightarrow> sf_static files ''app'' path = Absent)
        \<and> sf_index files = Some page
      \<longrightarrow> fr_status (frontend_server files cfg version rq) = 200 \<and> fr_body (frontend_server files cfg version rq) = File page)
   \<and> (fr_cache (frontend_server files cfg version rq) = Some ''public, max-age=31536000, immutable''
      \<longrightarrow> (\<exists>path content. under_app (hq_path rq) = Some path \<and> sf_static files ''app'' path = Found content
            \<and> fr_body (frontend_server files cfg version rq) = File content))"
proof (intro conjI impI)
  assume "\<not> reading rq"
  then show "fr_status (frontend_server files cfg version rq) = 404"
    by (simp add: frontend_server_def front_route_def static_mount_def spa_fallback_def Let_def split: option.split)
next
  assume "reading rq \<and> \<not> front_route [''healthz''] rq \<and> \<not> front_route [''config.js''] rq
        \<and> sf_static files [] (hq_path rq) = Absent \<and> (\<forall>path. under_app (hq_path rq) = Some path \<longrightarrow> sf_static files ''app'' path = Absent)
        \<and> sf_index files = Some page"
  then show "fr_status (frontend_server files cfg version rq) = 200" and "fr_body (frontend_server files cfg version rq) = File page"
    by (simp_all add: frontend_server_def static_mount_def spa_fallback_def Let_def split: option.split)
next
  assume "fr_cache (frontend_server files cfg version rq) = Some ''public, max-age=31536000, immutable''"
  then show "\<exists>path content. under_app (hq_path rq) = Some path \<and> sf_static files ''app'' path = Found content
            \<and> fr_body (frontend_server files cfg version rq) = File content"
    by (auto simp: frontend_server_def static_mount_def spa_fallback_def front_error_def Let_def split: option.splits static_outcome.splits if_splits)
qed

text \<open>A directory with a page and one compiled module, and a deep link.\<close>

definition sample_files :: static_files where
  "sample_files = \<lparr>sf_static = (\<lambda>root path. if root = ''app'' \<and> path = ''/main.js'' then Found ''module'' else Absent), sf_index = Some ''<html>''\<rparr>"

definition deep_link :: http_request where
  "deep_link = client_request \<lparr>b_access = None, b_refresh = None, b_hash = [], b_ip = None, b_headers = []\<rparr> ''GET'' ''/account/settings'' None None"

theorem frontend_answers_witness:
  "fr_body (frontend_server sample_files cfg version deep_link) = File ''<html>''"
proof -
  have "reading deep_link" "\<not> front_route [''healthz''] deep_link" "\<not> front_route [''config.js''] deep_link" "under_app (hq_path deep_link) = None"
    by code_simp+
  with frontend_answers [of deep_link sample_files cfg version "''<html>''"] show ?thesis
    by (simp add: sample_files_def)
qed

text \<open>The address of a request has no double slash where the base ends, as every path begins with one.\<close>

lemma request_url_joined:
  assumes "op_path opts = CHR ''/'' # path" and "op_api opts = a"
    and "baseFor (readConfig raw) a = base"
  shows "request_url (readConfig raw) opts = base @ CHR ''/'' # path" and "base = [] \<or> last base \<noteq> CHR ''/''"
proof -
  show "request_url (readConfig raw) opts = base @ CHR ''/'' # path"
    using assms by (simp add: request_url_def)
  show "base = [] \<or> last base \<noteq> CHR ''/''"
    using assms(3) strip_slashes_end by (cases a) (auto simp: baseFor_def readConfig_def Let_def)
qed

end
