(* ===== verification/Email.thy ===== *)
theory Email
  imports Config Routes
begin

text \<open>
  The choice of the e-mail provider (\<^verbatim>\<open>src/modules/email\<close>), and what a delivery that fails does to the
  request that needs it.
\<close>

section \<open>The factory\<close>

text \<open>The constructor of the SMTP provider gives the transport a user only together with a password.\<close>

record smtp_options =
  so_host :: string
  so_port :: int
  so_secure :: bool
  so_user :: "string option"
  so_password :: "string option"
  so_from :: string

definition SMTPEmailProvider :: "smtp_options \<Rightarrow> email_provider" where
  "SMTPEmailProvider options = Smtp_provider
     \<lparr>tp_host = so_host options, tp_port = so_port options, tp_secure = so_secure options,
      tp_auth = (if truthy (so_user options) \<and> truthy (so_password options)
        then Some (the (so_user options), the (so_password options)) else None)\<rparr> (so_from options)"

text \<open>What the two modules remember: the cached configuration and the provider that was made.\<close>

record modules =
  md_config :: "app_config option"
  md_provider :: "email_provider option"

definition no_modules :: modules where
  "no_modules = \<lparr>md_config = None, md_provider = None\<rparr>"

definition module_config :: "zod \<Rightarrow> (string \<times> string) list \<Rightarrow> (modules, exn, app_config) action" where
  "module_config z env m = (case loadConfig z env (md_config m) of (r, c) \<Rightarrow> (r, m\<lparr>md_config := c\<rparr>))"

definition getEmailProvider :: "zod \<Rightarrow> (string \<times> string) list \<Rightarrow> (modules, exn, email_provider) action" where
  "getEmailProvider z env =
     bindM (getM md_provider) (\<lambda>singleton.
     case singleton of
       Some p \<Rightarrow> returnM p
     | None \<Rightarrow>
         bindM (module_config z env) (\<lambda>cfg.
         let p = (if EMAIL_PROVIDER cfg = ''smtp''
           then SMTPEmailProvider \<lparr>so_host = (case SMTP_HOST cfg of Some h \<Rightarrow> h | None \<Rightarrow> ''localhost''), so_port = SMTP_PORT cfg,
             so_secure = EMAIL_SECURE cfg, so_user = SMTP_USER cfg, so_password = SMTP_PASSWORD cfg, so_from = SMTP_FROM cfg\<rparr>
           else Mock_provider) in
         bindM (modifyM (\<lambda>m. m\<lparr>md_provider := Some p\<rparr>)) (\<lambda>_. returnM p)))"

definition setEmailProvider :: "email_provider option \<Rightarrow> (modules, exn, unit) action" where
  "setEmailProvider p = modifyM (\<lambda>m. m\<lparr>md_provider := p\<rparr>)"

text \<open>Once made, the provider stays, whatever the environment becomes.\<close>

lemma one_provider: "getEmailProvider z env m = (Inr p, m') \<Longrightarrow> getEmailProvider z' env' m' = (Inr p, m')"
  by (auto simp: getEmailProvider_def module_config_def bindM_run Let_def split: option.splits prod.splits sum.splits)

text \<open>No credentials reach the transport unless both parts were configured.\<close>

lemma credentials_configured:
  assumes "getEmailProvider z env no_modules = (Inr (Smtp_provider transport sender), m)" and "tp_auth transport = Some (u, pw)"
  shows "\<exists>cfg. md_config m = Some cfg \<and> SMTP_USER cfg = Some u \<and> SMTP_PASSWORD cfg = Some pw \<and> u \<noteq> [] \<and> pw \<noteq> []"
  using assms
  by (auto simp: getEmailProvider_def module_config_def no_modules_def loadConfig_def SMTPEmailProvider_def bindM_run Let_def
      truthy_def split: option.splits prod.splits sum.splits if_splits)

section \<open>When the delivery fails\<close>

lemma failed_delivery:
  assumes "mailer env = Smtp_provider transport sender" and "\<And>i. nodemailer env i transport sender m = Some e"
  shows "send_mail env m s = (Inl (JsError e), s\<lparr>draws := Suc (draws s)\<rparr>)"
  using assms by (simp add: send_mail_def bindM_run)

text \<open>
  C37: a failing mail server tells accounts apart. While deliveries fail, the request for a password reset is
  answered with status 500 when the address belongs to an account that is not disabled, and with the
  promised status 202 when it belongs to none.
\<close>

theorem mail_failure_tells_accounts:
  assumes "mailer env = Smtp_provider transport sender" and "\<And>i m. nodemailer env i transport sender m = Some e"
    and "route_limit cfg ''forgot-password'' (RATE_LIMIT_FORGOT_PASSWORD cfg) (rc_ip ctx) s = (Inr (), s1)"
    and "users_findByEmail email s1 = (Inr (Some user), s1)" and "u_status user \<noteq> User_disabled"
    and "users_findByEmail other s1 = (Inr None, s1)"
  shows "hr_status (fst (respond (forgotPassword_route env cfg email ctx) rid s)) = 500
    \<and> hr_status (fst (respond (forgotPassword_route env cfg other ctx) rid s)) = 202"
proof
  have "\<exists>x s'. auth_forgotPassword env cfg email ctx s1 = (Inl x, s') \<and> hr_status (errorHandler x rid) = 500"
    using assms(1,2,4,5)
    by (auto simp: auth_forgotPassword_def issuePasswordReset_def emailToken_new_def insertM_def bindM_run failed_delivery
        split: prod.splits sum.splits option.splits)
  then show "hr_status (fst (respond (forgotPassword_route env cfg email ctx) rid s)) = 500"
    using assms(3) by (auto simp: forgotPassword_route_def bindM_run respond_def)
  have "auth_forgotPassword env cfg other ctx s1 = (Inr (), s1)"
    using assms(6) by (simp add: auth_forgotPassword_def bindM_run)
  then show "hr_status (fst (respond (forgotPassword_route env cfg other ctx) rid s)) = 202"
    using assms(3) by (simp add: forgotPassword_route_def bindM_run respond_def ok_json_def)
qed

text \<open>An unreachable mail server, one known and one unknown address.\<close>

definition mailing_env :: externals where
  "mailing_env = sample_env\<lparr>mailer := SMTPEmailProvider \<lparr>so_host = ''localhost'', so_port = 1025, so_secure = False,
     so_user = None, so_password = None, so_from = ''no-reply@auth.local''\<rparr>\<rparr>"

theorem mail_failure_tells_accounts_witness:
  "\<exists>known unknown. hr_status (fst (respond (forgotPassword_route mailing_env sample_cfg known sample_ctx) ''req'' sample_world)) = 500
     \<and> hr_status (fst (respond (forgotPassword_route mailing_env sample_cfg unknown sample_ctx) ''req'' sample_world)) = 202"
proof -
  let ?limit = "route_limit sample_cfg ''forgot-password'' (RATE_LIMIT_FORGOT_PASSWORD sample_cfg) (rc_ip sample_ctx) sample_world"
  let ?known = "u_email sample_user" and ?unknown = "''nobody@x''"
  obtain r s1 where run: "?limit = (r, s1)" by (cases ?limit)
  have "case ?limit of (r, s1) \<Rightarrow> r = Inr () \<and> (case fst (users_findByEmail ?known s1) of Inr (Some u) \<Rightarrow> u_status u \<noteq> User_disabled | _ \<Rightarrow> False)
      \<and> fst (users_findByEmail ?unknown s1) = Inr None"
    by code_simp
  then have found: "r = Inr ()" "case fst (users_findByEmail ?known s1) of Inr (Some u) \<Rightarrow> u_status u \<noteq> User_disabled | _ \<Rightarrow> False"
      "fst (users_findByEmail ?unknown s1) = Inr None"
    unfolding run prod.case by (blast+)
  have "\<exists>user. x = Inr (Some user) \<and> u_status user \<noteq> User_disabled"
    if "case x of Inr (Some u) \<Rightarrow> u_status u \<noteq> User_disabled | _ \<Rightarrow> False" for x :: "exn + user_row option"
    using that by (auto split: sum.splits option.splits)
  from this [OF found(2)] obtain user where user: "fst (users_findByEmail ?known s1) = Inr (Some user)" "u_status user \<noteq> User_disabled"
    by blast
  have limit: "?limit = (Inr (), s1)" using run found(1) by (simp only:)
  have same: "users_findByEmail e s1 = (fst (users_findByEmail e s1), s1)" for e
    by (simp add: users_findByEmail_def)
  have known: "users_findByEmail ?known s1 = (Inr (Some user), s1)" and unknown: "users_findByEmail ?unknown s1 = (Inr None, s1)"
    using same [of ?known] same [of ?unknown] user(1) found(3) by (simp_all only:)
  have provider: "mailer mailing_env = Smtp_provider \<lparr>tp_host = ''localhost'', tp_port = 1025, tp_secure = False, tp_auth = None\<rparr> ''no-reply@auth.local''"
    and refused: "\<And>i transport sender m. nodemailer mailing_env i transport sender m = Some ''connect ECONNREFUSED''"
    by (simp_all add: mailing_env_def SMTPEmailProvider_def sample_env_def)
  from mail_failure_tells_accounts [OF provider refused limit known user(2) unknown] show ?thesis by blast
qed

end
