(* ===== verification/Startup.thy ===== *)
theory Startup
  imports Server_Properties Bootstrap Frontend_Server Email
begin

text \<open>
  The processes of the repository: the entry points of the four servers and the scripts of the deployment. A process reads its configuration, builds its services and listens, or
  exits with a code; what it keeps in memory is lost when it starts again.
\<close>

section \<open>The servers\<close>

text \<open>A process that listens on a port, with its handler, or that has exited with a code.\<close>

datatype 'h process = Exited int | Listening int 'h

text \<open>What the machine answers: whether a port can be listened on, and the text of \<^verbatim>\<open>docs/openapi.yaml\<close>.\<close>

record machine =
  mc_listens :: "int \<Rightarrow> bool"
  mc_openapi :: "jval option"

text \<open>\<open>SIGTERM\<close> and \<open>SIGINT\<close> close the server and its connections.\<close>

definition shutdown :: "'h process \<Rightarrow> 'h process" where
  "shutdown p = (case p of Listening _ _ \<Rightarrow> Exited 0 | Exited n \<Rightarrow> Exited n)"

definition listen :: "machine \<Rightarrow> int \<Rightarrow> 'h \<Rightarrow> 'h process" where
  "listen mc port h = (if mc_listens mc port then Listening port h else Exited 1)"

text \<open>The memory of the key service is the process's own.\<close>

definition new_process :: "world \<Rightarrow> world" where
  "new_process s = s\<lparr>master_cache := None, rotate_seq := 0\<rparr>"

type_synonym server = "http_request \<Rightarrow> world \<Rightarrow> http_response \<times> world"

definition auth_main :: "zod \<Rightarrow> (string \<times> string) list \<Rightarrow> machine \<Rightarrow> platform \<Rightarrow> externals \<Rightarrow> world \<Rightarrow> server process \<times> world" where
  "auth_main z vars mc pl env s =
     (case loadConfig z vars None of
        (Inl _, _) \<Rightarrow> (Exited 1, new_process s)
      | (Inr cfg, c) \<Rightarrow>
          (case getEmailProvider z vars (no_modules\<lparr>md_config := c\<rparr>) of
             (Inl _, _) \<Rightarrow> (Exited 1, new_process s)
           | (Inr provider, _) \<Rightarrow>
               (case keys_getCurrentSigningKey env (config.truncate cfg) (new_process s) of
                  (Inl _, s1) \<Rightarrow> (Exited 1, s1)
                | (Inr signing, s1) \<Rightarrow>
                    (case mc_openapi mc of
                       None \<Rightarrow> (Exited 1, s1)
                     | Some spec \<Rightarrow>
                         (listen mc (PORT cfg) (auth_server (pl\<lparr>pl_openapi := spec\<rparr>) (env\<lparr>mailer := provider\<rparr>) (config.truncate cfg)), s1)))))"

definition gateway_main :: "zod \<Rightarrow> (string \<times> string) list \<Rightarrow> machine \<Rightarrow> remote_check \<Rightarrow> platform \<Rightarrow> externals \<Rightarrow> server process" where
  "gateway_main z vars mc remote pl env = (case fst (loadConfig z vars None) of
      Inl _ \<Rightarrow> Exited 1
    | Inr cfg \<Rightarrow> listen mc (GATEWAY_PORT cfg) (gateway_server remote pl env (config.truncate cfg)))"

definition resource_main :: "zod \<Rightarrow> (string \<times> string) list \<Rightarrow> machine \<Rightarrow> platform \<Rightarrow> externals \<Rightarrow> server process" where
  "resource_main z vars mc pl env = (case fst (loadConfig z vars None) of
      Inl _ \<Rightarrow> Exited 1
    | Inr cfg \<Rightarrow> listen mc (RESOURCE_PORT cfg) (resource_server pl env (config.truncate cfg)))"

definition frontend_main :: "zod \<Rightarrow> (string \<times> string) list \<Rightarrow> machine \<Rightarrow> static_files \<Rightarrow> (http_request \<Rightarrow> front_response) process" where
  "frontend_main z vars mc files = (case fst (loadConfig z vars None) of
      Inl _ \<Rightarrow> Exited 1
    | Inr cfg \<Rightarrow> listen mc (FRONTEND_PORT cfg) (frontend_server files cfg (map_of vars ''npm_package_version'')))"

section \<open>The scripts\<close>

text \<open>Each prints a line and exits with 0, or with 1 after an error.\<close>

definition generate_keys :: "zod \<Rightarrow> (string \<times> string) list \<Rightarrow> externals \<Rightarrow> world \<Rightarrow> (int \<times> string) \<times> world" where
  "generate_keys z vars env s = (case fst (loadConfig z vars None) of
      Inl _ \<Rightarrow> ((1, []), new_process s)
    | Inr cfg \<Rightarrow> (case keys_getCurrentSigningKey env (config.truncate cfg) (new_process s) of
          (Inl _, s1) \<Rightarrow> ((1, []), s1)
        | (Inr current, s1) \<Rightarrow> ((0, ''Signing key ready: kid='' @ sk_kid current), s1)))"

definition migrate_script ::
  "(string \<Rightarrow> 'd \<Rightarrow> 'd option) \<Rightarrow> (string \<times> string) list \<Rightarrow> 'd migrated \<Rightarrow> (int \<times> string) \<times> 'd migrated" where
  "migrate_script exec dir st = (case runMigrations exec dir st of
      (Inl failed, st') \<Rightarrow> ((1, []), st')
    | (Inr applied, st') \<Rightarrow>
        ((0, if applied \<noteq> [] then ''Applied '' @ js_number (int (length applied)) @ '' migration(s).'' else ''Database up to date.''), st'))"

definition seed_script :: "externals \<Rightarrow> app_config \<Rightarrow> world \<Rightarrow> (int \<times> string list) \<times> world" where
  "seed_script env cfg s = (case runSeeds env cfg s of
      (Inl _, s') \<Rightarrow> ((1, []), s')
    | (Inr (adminEmail, generatedPassword), s') \<Rightarrow>
        ((0, (''Seed complete. Admin user: '' @ adminEmail)
           # (if truthy generatedPassword then [''Generated admin password (store it now, shown once): '' @ the generatedPassword] else [])), s'))"

section \<open>A server that listens has its key, and keeps it\<close>

text \<open>Where a new process finds the master key, and a memory that agrees with it.\<close>

definition master_source :: "externals \<Rightarrow> config \<Rightarrow> world \<Rightarrow> string \<Rightarrow> bool" where
  "master_source env cfg s k \<longleftrightarrow> (let fromEnv = (case KMS_MASTER_KEY cfg of None \<Rightarrow> [] | Some v \<Rightarrow> v) in
     if js_trim fromEnv \<noteq> [] then k = base64_decode env fromEnv \<and> length k = 32
     else \<not> IS_PRODUCTION cfg \<and> map_option (\<lambda>c. base64_decode env (js_trim c)) (master_file s) = Some k)"

definition memory_ok :: "externals \<Rightarrow> config \<Rightarrow> world \<Rightarrow> bool" where
  "memory_ok env cfg s \<longleftrightarrow> (case master_cache s of None \<Rightarrow> True | Some k \<Rightarrow> master_source env cfg s k)"

lemma memory_boot [simp]: "memory_ok env cfg (new_process s)"
  by (simp add: memory_ok_def new_process_def)

lemma memory_frame: "master_cache s' = master_cache s \<Longrightarrow> master_file s' = master_file s \<Longrightarrow> memory_ok env cfg s' = memory_ok env cfg s"
  by (simp add: memory_ok_def master_source_def split: option.split)

lemma masterKey_source:
  assumes "keys_masterKey env cfg s = (Inr k, s')" and "memory_ok env cfg s"
  shows "master_source env cfg s' k"
proof (cases "master_cache s")
  case None
  show ?thesis
  proof (cases "master_file s")
    case None
    with \<open>master_cache s = None\<close> assms(1) show ?thesis
      by (auto simp: keys_masterKey_def master_source_def bindM_run Let_def split: if_splits)
  next
    case (Some c)
    with \<open>master_cache s = None\<close> assms(1) show ?thesis
      by (auto simp: keys_masterKey_def master_source_def bindM_run Let_def split: if_splits)
  qed
next
  case (Some c)
  with masterKey_frame(5) [OF assms(1) Some] assms(2) show ?thesis by (simp add: memory_ok_def)
qed

lemma masterKey_memory:
  assumes "keys_masterKey env cfg s = (Inr k, s')" and "memory_ok env cfg s"
  shows "memory_ok env cfg s'"
  using masterKey_source [OF assms] masterKey_frame(4) [OF assms(1) refl] by (simp add: memory_ok_def)

lemma masterKey_boot:
  assumes "master_source env cfg s k"
  shows "keys_masterKey env cfg (new_process s) = (Inr k, (new_process s)\<lparr>master_cache := Some k\<rparr>)"
proof -
  have [simp]: "master_cache (new_process s) = None" "master_file (new_process s) = master_file s" by (simp_all add: new_process_def)
  show ?thesis
  proof (cases "js_trim (case KMS_MASTER_KEY cfg of None \<Rightarrow> [] | Some v \<Rightarrow> v) = []")
    case True
    with assms obtain c where "\<not> IS_PRODUCTION cfg" "master_file s = Some c" "k = base64_decode env (js_trim c)"
      by (auto simp: master_source_def Let_def)
    with True show ?thesis by (simp add: keys_masterKey_def bindM_run Let_def)
  next
    case False
    with assms have "k = base64_decode env (case KMS_MASTER_KEY cfg of None \<Rightarrow> [] | Some v \<Rightarrow> v)" "length k = 32"
      unfolding master_source_def Let_def by (metis (full_types))+
    with False show ?thesis by (auto simp: keys_masterKey_def bindM_run Let_def)
  qed
qed

lemma unwrap_run:
  assumes "keys_unwrapPrivateKey env cfg w s = (Inr priv, s')"
  obtains k where "keys_masterKey env cfg s = (Inr k, s')"
    and "\<And>s1 s2. keys_masterKey env cfg s1 = (Inr k, s2) \<Longrightarrow> keys_unwrapPrivateKey env cfg w s1 = (Inr priv, s2)"
proof (cases "keys_masterKey env cfg s")
  case (Pair r s1)
  with assms obtain k where k: "r = Inr k" "s1 = s'"
    by (cases r) (auto simp: keys_unwrapPrivateKey_def bindM_run split: list.splits if_splits option.splits)
  show thesis
  proof (rule that [of k])
    show "keys_masterKey env cfg s = (Inr k, s')" using Pair k by simp
  next
    fix s1' s2' assume "keys_masterKey env cfg s1' = (Inr k, s2')"
    then show "keys_unwrapPrivateKey env cfg w s1' = (Inr priv, s2')"
      using assms Pair k by (auto simp: keys_unwrapPrivateKey_def bindM_run split: list.splits if_splits option.splits)
  qed
qed

text \<open>With a key on the disk, the current key is the newest one, unwrapped.\<close>

lemma current_key_run:
  assumes "newest_first (key_files s) = f # fs"
  shows "keys_getCurrentSigningKey env cfg s = (case keys_unwrapPrivateKey env cfg (kf_wrappedPrivateKey f) s of
      (Inl e, s') \<Rightarrow> (Inl e, s')
    | (Inr priv, s') \<Rightarrow> (Inr \<lparr>sk_kid = kf_kid f, sk_privateKeyPem = priv, sk_publicKeyPem = kf_publicKeyPem f\<rparr>, s'))"
  by (simp add: keys_getCurrentSigningKey_def numeral_2_eq_2 keys_listSigningKeyFiles_def bindM_run assms split: prod.split sum.split)

text \<open>A rotation leaves a key on the disk and a memory that agrees.\<close>

lemma rotate_memory:
  assumes "keys_rotateSigningKey env cfg s = (Inr kid, s')" and "memory_ok env cfg s"
  shows "memory_ok env cfg s'"
proof -
  let ?s = "s\<lparr>draws := Suc (draws s), rotate_seq := rotate_seq s + 1\<rparr>"
  obtain wrapped s1 where wrap: "keys_wrapPrivateKey env cfg (snd (ed25519_keypair env (draws s)))
             (s\<lparr>draws := Suc (Suc (draws s)), rotate_seq := rotate_seq s + 1\<rparr>) = (Inr wrapped, s1)"
    and s': "master_cache s' = master_cache s1" "master_file s' = master_file s1"
    using assms(1) by (auto simp: rotate_eq split: prod.splits sum.splits if_splits)
  obtain key s0 where key: "keys_masterKey env cfg s0 = (Inr key, s1)" and s0: "master_cache s0 = master_cache s" "master_file s0 = master_file s"
    by (rule wrap_run [OF wrap]) simp
  have "memory_ok env cfg s0" using memory_frame [OF s0] assms(2) by simp
  from masterKey_memory [OF key this] show ?thesis using memory_frame [OF s'] by simp
qed

text \<open>The next process signs with the key that this one signs with.\<close>

lemma current_key_reboot:
  assumes "keys_getCurrentSigningKey env cfg (new_process s) = (Inr key, s')"
  shows "keys_getCurrentSigningKey env cfg (new_process s') = (Inr key, s'\<lparr>rotate_seq := 0\<rparr>)"
    and "keys_getCurrentSigningKey env cfg s' = (Inr key, s')"
    and "\<exists>f \<in> set (key_files s'). kf_kid f = sk_kid key \<and> kf_publicKeyPem f = sk_publicKeyPem key"
    and "\<exists>k. master_source env cfg s' k"
proof -
  obtain s0 f fs where s0: "memory_ok env cfg s0" "newest_first (key_files s0) = f # fs" "keys_getCurrentSigningKey env cfg s0 = (Inr key, s')"
  proof (cases "newest_first (key_files (new_process s))")
    case (Cons f fs)
    show thesis by (rule that [OF memory_boot Cons assms])
  next
    case Nil
    with assms obtain kid s1 where rotate: "keys_rotateSigningKey env cfg (new_process s) = (Inr kid, s1)"
      and rest: "keys_currentSigningKey_fuel env cfg 1 s1 = (Inr key, s')"
      by (auto simp: keys_getCurrentSigningKey_def numeral_2_eq_2 keys_listSigningKeyFiles_def bindM_run
          simp del: newest_first_empty split: prod.splits sum.splits)
    have files: "key_files s1 \<noteq> []" by (rule rotate_leaves_key [OF rotate])
    then obtain f fs where f: "newest_first (key_files s1) = f # fs" by (metis newest_first_empty neq_Nil_conv)
    have "keys_getCurrentSigningKey env cfg s1 = (Inr key, s')"
      using current_key_nonempty [OF files, of env cfg 1] rest by (simp add: keys_getCurrentSigningKey_def numeral_2_eq_2)
    with that [OF rotate_memory [OF rotate memory_boot] f] show thesis by blast
  qed
  obtain priv where unwrap: "keys_unwrapPrivateKey env cfg (kf_wrappedPrivateKey f) s0 = (Inr priv, s')"
    and key: "key = \<lparr>sk_kid = kf_kid f, sk_privateKeyPem = priv, sk_publicKeyPem = kf_publicKeyPem f\<rparr>"
    using s0(3) by (auto simp: current_key_run [OF s0(2)] split: prod.splits sum.splits)
  obtain k where k: "keys_masterKey env cfg s0 = (Inr k, s')"
    and again: "\<And>s1 s2. keys_masterKey env cfg s1 = (Inr k, s2) \<Longrightarrow> keys_unwrapPrivateKey env cfg (kf_wrappedPrivateKey f) s1 = (Inr priv, s2)"
    by (rule unwrap_run [OF unwrap]) blast
  have source: "master_source env cfg s' k" by (rule masterKey_source [OF k s0(1)])
  have cached: "master_cache s' = Some k" by (rule masterKey_frame(4) [OF k refl])
  have f: "newest_first (key_files s') = f # fs" using s0(2) masterKey_frame(1) [OF k] by simp
  then have f': "newest_first (key_files (new_process s')) = f # fs" by (simp add: new_process_def)
  have "(new_process s')\<lparr>master_cache := Some k\<rparr> = s'\<lparr>rotate_seq := 0\<rparr>" using cached by (simp add: new_process_def)
  with again [OF masterKey_boot [OF source]] show "keys_getCurrentSigningKey env cfg (new_process s') = (Inr key, s'\<lparr>rotate_seq := 0\<rparr>)"
    by (simp add: current_key_run [OF f'] key)
  show "keys_getCurrentSigningKey env cfg s' = (Inr key, s')"
    using again [OF masterKey_cached [OF cached]] by (simp add: current_key_run [OF f] key)
  have "f \<in> set (key_files s')" using f set_newest_first [of "key_files s'"] by (metis list.set_intros(1))
  then show "\<exists>f \<in> set (key_files s'). kf_kid f = sk_kid key \<and> kf_publicKeyPem f = sk_publicKeyPem key"
    using key by auto
  show "\<exists>k. master_source env cfg s' k" using source by blast
qed

text \<open>The script makes a key when there is none; a second run makes no other.\<close>

lemma generate_keys_once:
  assumes "generate_keys z vars env s = ((0, line), s')"
  shows "generate_keys z vars env s' = ((0, line), s'\<lparr>rotate_seq := 0\<rparr>)"
  using assms current_key_reboot(1) by (auto simp: generate_keys_def split: prod.splits sum.splits)

text \<open>In production the server does not start without a configured master key.\<close>

lemma production_needs_master_key:
  assumes "fst (loadConfig z vars None) = Inr cfg" and "IS_PRODUCTION cfg" and "case KMS_MASTER_KEY cfg of None \<Rightarrow> True | Some v \<Rightarrow> js_trim v = []"
  shows "fst (auth_main z vars mc pl env s) = Exited 1"
proof -
  obtain c where load: "loadConfig z vars None = (Inr cfg, c)" using assms(1) by (cases "loadConfig z vars None") simp
  have "js_trim [] = []" by (simp add: js_trim_def)
  then have none: "\<not> master_source env (config.truncate cfg) s' k" for s' k
    using assms(2,3) by (auto simp: master_source_def config.truncate_def Let_def split: option.splits)
  have "keys_getCurrentSigningKey env (config.truncate cfg) (new_process s) \<noteq> (Inr key, s')" for key s'
    using current_key_reboot(4) [of env "config.truncate cfg" s key s'] none by blast
  then show ?thesis
    by (auto simp: auth_main_def load split: prod.splits sum.splits)
qed

definition jwks_request :: http_request where
  "jwks_request = \<lparr>hq_method = ''GET'', hq_path = ''/.well-known/jwks.json'', hq_query = [], hq_headers = [], hq_ip = None, hq_body = No_body\<rparr>"

lemma published_keys:
  assumes "f \<in> set (key_files s)"
  obtains keys params where "hr_body (fst (auth_server pl env cfg jwks_request s)) = JObj [(''keys'', JArr keys)]"
    and "JObj (params @ [(''kid'', JStr (kf_kid f)), (''alg'', JStr ''EdDSA''), (''use'', JStr ''sig'')]) \<in> set keys"
proof -
  obtain i s1 where drawn: "drawn s s1"
    and run: "auth_server pl env cfg jwks_request s = respond (dispatch (auth_routes pl env cfg) jwks_request (requestContext i jwks_request) []) i s1"
    by (rule auth_server_run [of jwks_request s pl env cfg]) (simp_all add: jwks_request_def)
  have "path_segments (hq_path jwks_request) = [''.well-known'', ''jwks.json'']" by code_simp
  moreover have "match_path [Lit ''.well-known'', Lit ''jwks.json''] [''.well-known'', ''jwks.json''] = Some []" by simp
  ultimately have "dispatch (auth_routes pl env cfg) jwks_request (requestContext i jwks_request) [] = jwks_http pl"
    by (simp add: dispatch_def auth_routes_def jwks_request_def)
  moreover have "key_files s1 = key_files s" using drawn by (auto simp: drawn_def)
  ultimately have body: "hr_body (fst (auth_server pl env cfg jwks_request s)) = JObj [(''keys'', JArr (map (\<lambda>k. JObj (pl_jwk pl (pk_publicKeyPem k)
      @ [(''kid'', JStr (pk_kid k)), (''alg'', JStr ''EdDSA''), (''use'', JStr ''sig'')]))
        (rev (sort_key (\<lambda>k. (pk_createdAt k, pk_kid k)) (map to_public_key (newest_first (key_files s)))))))]"
    by (simp add: run respond_def jwks_http_def jwks_route_def keys_listPublicKeys_def keys_listSigningKeyFiles_def ok_json_def bindM_run comp_def)
  show thesis
    by (rule that [OF body, of "pl_jwk pl (kf_publicKeyPem f)"]) (use assms in \<open>force simp: to_public_key_def\<close>)
qed

text \<open>
  C36: a server that was started once starts again. If the authorization server listens, then the next
  process with the same configuration listens with the same handler, signs with the same key although
  nothing was kept in memory, and changes nothing on the disk; and the key is published in the key set.
\<close>

theorem restart_keeps_signing_key:
  assumes "auth_main z vars mc pl env s = (Listening port server, s')"
  shows "auth_main z vars mc pl env s' = (Listening port server, s'\<lparr>rotate_seq := 0\<rparr>)
    \<and> (\<exists>cfg key keys params. fst (loadConfig z vars None) = Inr cfg
         \<and> keys_getCurrentSigningKey env (config.truncate cfg) s' = (Inr key, s')
         \<and> hr_body (fst (server jwks_request s')) = JObj [(''keys'', JArr keys)]
         \<and> JObj (params @ [(''kid'', JStr (sk_kid key)), (''alg'', JStr ''EdDSA''), (''use'', JStr ''sig'')]) \<in> set keys)"
proof -
  obtain cfg c where load: "loadConfig z vars None = (Inr cfg, c)"
    using assms by (auto simp: auth_main_def split: prod.splits sum.splits)
  obtain provider m where provider: "getEmailProvider z vars (no_modules\<lparr>md_config := c\<rparr>) = (Inr provider, m)"
    using assms by (auto simp: auth_main_def load split: prod.splits sum.splits)
  obtain key where key: "keys_getCurrentSigningKey env (config.truncate cfg) (new_process s) = (Inr key, s')"
    using assms by (auto simp: auth_main_def load provider split: prod.splits sum.splits option.splits)
  obtain spec where spec: "mc_openapi mc = Some spec" "server = auth_server (pl\<lparr>pl_openapi := spec\<rparr>) (env\<lparr>mailer := provider\<rparr>) (config.truncate cfg)"
    using assms by (auto simp: auth_main_def load provider key listen_def split: option.splits if_splits)
  note again = current_key_reboot [OF key]
  have "auth_main z vars mc pl env s' = (Listening port server, s'\<lparr>rotate_seq := 0\<rparr>)"
    using assms unfolding auth_main_def by (simp add: load provider key again(1) spec(1))
  moreover obtain f where "f \<in> set (key_files s')" "kf_kid f = sk_kid key" using again(3) by blast
  moreover obtain keys params where "hr_body (fst (server jwks_request s')) = JObj [(''keys'', JArr keys)]"
    and "JObj (params @ [(''kid'', JStr (kf_kid f)), (''alg'', JStr ''EdDSA''), (''use'', JStr ''sig'')]) \<in> set keys"
    unfolding spec(2) by (rule published_keys [OF \<open>f \<in> set (key_files s')\<close>]) blast
  ultimately show ?thesis using load again(2) by auto
qed

text \<open>A first start on an empty disk.\<close>

definition sample_machine :: machine where
  "sample_machine = \<lparr>mc_listens = (\<lambda>port. 0 < port), mc_openapi = Some (JObj [(''openapi'', JStr ''3.0.3'')])\<rparr>"

theorem restart_keeps_signing_key_witness:
  "\<exists>s server. auth_main sample_zod sample_process_env sample_machine sample_platform codec_env codec_world = (Listening 3001 server, s)
     \<and> auth_main sample_zod sample_process_env sample_machine sample_platform codec_env s = (Listening 3001 server, s\<lparr>rotate_seq := 0\<rparr>)"
proof -
  have "case auth_main sample_zod sample_process_env sample_machine sample_platform codec_env codec_world of
      (Listening port _, _) \<Rightarrow> port = 3001 | _ \<Rightarrow> False"
    by code_simp
  then obtain server s where run: "auth_main sample_zod sample_process_env sample_machine sample_platform codec_env codec_world = (Listening 3001 server, s)"
    by (auto split: prod.splits process.splits)
  with restart_keeps_signing_key [OF run] show ?thesis by blast
qed

end
