(* ===== verification/Sign_In.thy ===== *)
theory Sign_In
  imports Spa_Types Startup
begin

text \<open>
  From the login form to the dashboard: a visitor who signs in gets a token with which the servers
  answer the dashboard's first call with the visitor's own profile, for as long as the token lives.
\<close>

section \<open>What a login leaves alone\<close>

text \<open>
  The worlds in which the numbers drawn from \<open>s0\<close> on are no revoked identifiers, and that agree with \<open>s0\<close>
  in the time, the signing keys and the names of the accounts.
\<close>

definition names :: "world \<Rightarrow> (uuid \<times> string) list" where
  "names s = map (\<lambda>u. (u_id u, u_email u)) (t_users s)"

definition fresh_jtis :: "externals \<Rightarrow> nat \<Rightarrow> world \<Rightarrow> bool" where
  "fresh_jtis env n s \<longleftrightarrow> (\<forall>i \<ge> n. redis_lookup (jti_key (rand_uuid env i)) s = None)"

definition calm :: "externals \<Rightarrow> world \<Rightarrow> world \<Rightarrow> bool" where
  "calm env s0 s \<longleftrightarrow> draws s0 \<le> draws s \<and> clock s = clock s0 \<and> key_files s = key_files s0 \<and> master_cache s = master_cache s0
     \<and> names s = names s0 \<and> fresh_jtis env (draws s0) s"

lemma calm_refl: "fresh_jtis env (draws s) s \<Longrightarrow> calm env s s"
  by (simp add: calm_def)

lemma calm_tables:
  "calm env s0 s \<Longrightarrow> calm env s0 (s\<lparr>t_sessions := x1\<rparr>)" "calm env s0 s \<Longrightarrow> calm env s0 (s\<lparr>t_refresh := x2\<rparr>)"
  "calm env s0 s \<Longrightarrow> calm env s0 (s\<lparr>t_audit := x3\<rparr>)" "calm env s0 s \<Longrightarrow> calm env s0 (s\<lparr>t_risk := x4\<rparr>)"
  by (auto simp: calm_def names_def fresh_jtis_def redis_lookup_def)

lemma names_update:
  "(\<And>u. u_id (f u) = u_id u \<and> u_email (f u) = u_email u) \<Longrightarrow> names (s\<lparr>t_users := update_where p f (t_users s)\<rparr>) = names s"
  by (simp add: names_def update_where_def)

lemma calm_users:
  "(\<And>u. u_id (f u) = u_id u \<and> u_email (f u) = u_email u) \<Longrightarrow> calm env s0 s \<Longrightarrow> calm env s0 (s\<lparr>t_users := update_where p f (t_users s)\<rparr>)"
  by (auto simp: calm_def names_update fresh_jtis_def redis_lookup_def)

lemma calm_draw [pres]: "preserves (calm env s0) (drawM f)"
  by (auto simp: preserves_def calm_def names_def fresh_jtis_def redis_lookup_def drawM_def)

lemma calm_insert [pres]:
  "preserves (calm env s0) (insertM t_sessions (\<lambda>t s. s\<lparr>t_sessions := t\<rparr>) p1 r1 n1)"
  "preserves (calm env s0) (insertM t_refresh (\<lambda>t s. s\<lparr>t_refresh := t\<rparr>) p2 r2 n2)"
  by (intro preserves_insertM; erule calm_tables)+

lemma calm_audit [pres]: "preserves (calm env s0) (audit_record env' e)"
  by (rule preserves_audit) (rule calm_tables)

text \<open>Keys of Redis that are no entry of the denylist.\<close>

definition other_key :: "string \<Rightarrow> bool" where
  "other_key k \<longleftrightarrow> (\<forall>j. k \<noteq> jti_key j)"

lemma other_keys [pres]:
  "other_key (redis_key [''rl'', a, b])" "other_key (failed_key u)" "other_key (ips_key u)" "other_key (geo_key env u g)"
  "other_key (device_key env u g)" "other_key (mfa_challengeKey c)"
  by (simp_all add: other_key_def jti_key_def redis_key_def failed_key_def ips_key_def geo_key_def device_key_def mfa_challengeKey_def)

lemma calm_put: "calm env s0 s \<Longrightarrow> other_key k \<Longrightarrow> calm env s0 (s\<lparr>redis := redis_put k e (redis s)\<rparr>)"
  by (auto simp: calm_def names_def fresh_jtis_def redis_lookup_def redis_entry_put other_key_def)

lemma calm_redis [pres]:
  "preserves (calm env s0) (redis_get k)"
  "preserves (calm env s0) (redis_setSize k)"
  "preserves (calm env s0) (redis_ttl k)"
  "other_key k \<Longrightarrow> preserves (calm env s0) (redis_set k v t)"
  "other_key k \<Longrightarrow> preserves (calm env s0) (redis_setJson k v t)"
  "other_key k \<Longrightarrow> preserves (calm env s0) (redis_setAdd k m)"
  "other_key k \<Longrightarrow> preserves (calm env s0) (redis_incr k)"
  "other_key k \<Longrightarrow> preserves (calm env s0) (redis_expire k n)"
  "other_key k \<Longrightarrow> preserves (calm env s0) (redis_setExpire k n)"
  by (auto simp: preserves_def redis_op_defs intro: calm_put split: option.split rvalue.split)

lemma calm_limiter [pres]: "preserves (calm env s0) (route_limit cfg bucket n ip)"
  unfolding route_limit_def rateLimitMiddleware_def redis_incrementWindow_def Let_def rate_limit_options.simps by (intro pres)

lemma calm_risk [pres]:
  "preserves (calm env s0) (evaluateLogin env' cfg inp)" "preserves (calm env s0) (riskEvents_record u t ev a ctx)"
proof -
  show "preserves (calm env s0) (evaluateLogin env' cfg inp)"
    unfolding evaluateLogin_def rule_failed_logins_def rule_ip_frequency_def rule_travel_def Let_def by (intro pres)
  show "preserves (calm env s0) (riskEvents_record u t ev a ctx)"
    unfolding riskEvents_record_def by (rule preserves_modify) (rule calm_tables)
qed

lemma calm_users_update [pres]:
  "preserves (calm env s0) (users_setLastLogin uid)" "preserves (calm env s0) (users_clearLockAndFailures uid)"
  "preserves (calm env s0) (users_recordFailedLogin uid)" "preserves (calm env s0) (users_lockUntil uid t)"
  unfolding users_setLastLogin_def users_clearLockAndFailures_def users_recordFailedLogin_def users_lockUntil_def users_update_def
  by (rule preserves_modify, rule calm_users, simp_all)+

lemma calm_reads [pres]:
  "preserves (calm env s0) (users_findById env' uid)" "preserves (calm env s0) (users_findByEmail e)"
  "preserves (calm env s0) (users_rolesOf uid)" "preserves (calm env s0) (users_permissionsOf uid)"
  "preserves (calm env s0) (mfa_hasActiveMethod env' uid)"
  unfolding users_findById_def users_findByEmail_def users_rolesOf_def users_permissionsOf_def mfa_hasActiveMethod_def mfa_getActiveMethod_def
    uuid_param_def
  by (intro pres)+


section \<open>The key that signs\<close>

text \<open>In every world with these key files and this key in memory, the current key is \<open>key\<close> and its public half is listed.\<close>

definition signs_with :: "externals \<Rightarrow> config \<Rightarrow> world \<Rightarrow> signing_key \<Rightarrow> bool" where
  "signs_with env cfg s0 key \<longleftrightarrow> (\<forall>s. key_files s = key_files s0 \<and> master_cache s = master_cache s0 \<longrightarrow>
     keys_getCurrentSigningKey env cfg s = (Inr key, s)
     \<and> (\<exists>pk. keys_getPublicKey (sk_kid key) s = (Inr pk, s) \<and> pk_publicKeyPem pk = sk_publicKeyPem key))"

text \<open>A service that found its key without writing anything has a key on the disk.\<close>

lemma key_on_disk:
  assumes "keys_getCurrentSigningKey env cfg s = (Inr key, s)"
  shows "key_files s \<noteq> []"
proof
  assume none: "key_files s = []"
  obtain kid s1 where rotate: "keys_rotateSigningKey env cfg s = (Inr kid, s1)"
    and rest: "keys_currentSigningKey_fuel env cfg 1 s1 = (Inr key, s)"
    using assms none by (auto simp: keys_getCurrentSigningKey_def numeral_2_eq_2 keys_listSigningKeyFiles_def bindM_run
        split: prod.splits sum.splits list.splits)
  have files: "key_files s1 \<noteq> []" by (rule rotate_leaves_key [OF rotate])
  then obtain f fs where f: "newest_first (key_files s1) = f # fs" by (metis newest_first_empty neq_Nil_conv)
  have "keys_getCurrentSigningKey env cfg s1 = (Inr key, s)"
    using current_key_nonempty [OF files, of env cfg 1] rest by (simp add: keys_getCurrentSigningKey_def numeral_2_eq_2)
  then obtain priv where "keys_unwrapPrivateKey env cfg (kf_wrappedPrivateKey f) s1 = (Inr priv, s)"
    by (auto simp: current_key_run [OF f] split: prod.splits sum.splits)
  then obtain k where "keys_masterKey env cfg s1 = (Inr k, s)" by (rule unwrap_run)
  with masterKey_frame(1) files none show False by metis
qed

lemma signs_withI:
  assumes "keys_getCurrentSigningKey env cfg s0 = (Inr key, s0)"
  shows "signs_with env cfg s0 key"
proof -
  obtain f fs where f: "newest_first (key_files s0) = f # fs"
    using key_on_disk [OF assms] by (metis newest_first_empty neq_Nil_conv)
  obtain priv where unwrap: "keys_unwrapPrivateKey env cfg (kf_wrappedPrivateKey f) s0 = (Inr priv, s0)"
    and key: "key = \<lparr>sk_kid = kf_kid f, sk_privateKeyPem = priv, sk_publicKeyPem = kf_publicKeyPem f\<rparr>"
    using assms by (auto simp: current_key_run [OF f] split: prod.splits sum.splits)
  obtain k where k: "keys_masterKey env cfg s0 = (Inr k, s0)"
    and again: "\<And>s1 s2. keys_masterKey env cfg s1 = (Inr k, s2) \<Longrightarrow> keys_unwrapPrivateKey env cfg (kf_wrappedPrivateKey f) s1 = (Inr priv, s2)"
    by (rule unwrap_run [OF unwrap]) blast
  have cached: "master_cache s0 = Some k" by (rule masterKey_frame(4) [OF k refl])
  show ?thesis
    unfolding signs_with_def
  proof (intro allI impI, elim conjE)
    fix s :: world assume files: "key_files s = key_files s0" and "master_cache s = master_cache s0"
    with cached have "keys_masterKey env cfg s = (Inr k, s)" by (simp add: masterKey_cached)
    then have "keys_getCurrentSigningKey env cfg s = (Inr key, s)"
      using again f files by (simp add: current_key_run key)
    moreover have "keys_getPublicKey (sk_kid key) s = (Inr (to_public_key f), s)"
      by (simp add: keys_getPublicKey_def keys_listSigningKeyFiles_def bindM_run files f key)
    ultimately show "keys_getCurrentSigningKey env cfg s = (Inr key, s)
        \<and> (\<exists>pk. keys_getPublicKey (sk_kid key) s = (Inr pk, s) \<and> pk_publicKeyPem pk = sk_publicKeyPem key)"
      by (simp add: to_public_key_def key)
  qed
qed

lemma calm_key: "signs_with env cfg s0 key \<Longrightarrow> calm env s0 s \<Longrightarrow> keys_getCurrentSigningKey env cfg s = (Inr key, s)"
  by (simp add: signs_with_def calm_def)

section \<open>The login\<close>

lemma calm_login:
  assumes "signs_with env cfg s0 key"
  shows "preserves (calm env s0) (auth_issueSessionTokensForSession env cfg sid uid amr ctx)"
    and "preserves (calm env s0) (login_risk env cfg user ctx)"
    and "preserves (calm env s0) (new_session env cfg uid ctx m)"
    and "preserves (calm env s0) (auth_login env cfg email password ctx)"
proof -
  have sign: "preserves (calm env s0) (signAccessToken env cfg inp ttl)" for inp ttl
    unfolding signAccessToken_def Let_def by (intro pres preservesI) (simp add: calm_key [OF assms])
  have issue: "preserves (calm env s0) (refresh_issue env cfg params)" for params
    unfolding refresh_issue_def by (intro pres)
  show tokens: "preserves (calm env s0) (auth_issueSessionTokensForSession env cfg sid uid amr ctx)" for sid uid amr
    unfolding auth_issueSessionTokensForSession_def Let_def by (intro pres sign issue)
  show new: "preserves (calm env s0) (new_session env cfg uid ctx m)" for uid m
    unfolding new_session_def sessions_create_def by (intro pres)
  show risk: "preserves (calm env s0) (login_risk env cfg user ctx)" for user
    unfolding login_risk_def auth_isKnownDevice_def Let_def by (intro pres)
  show "preserves (calm env s0) (auth_login env cfg email password ctx)"
    unfolding auth_login_def login_failed_def login_continue_def auth_issueSessionTokens_def mfa_createLoginChallenge_def Let_def
    by (intro pres tokens new risk)
qed

text \<open>The token of a login is signed now, for the account, with an identifier drawn during the request.\<close>

definition own_token :: "externals \<Rightarrow> config \<Rightarrow> world \<Rightarrow> signing_key \<Rightarrow> string \<Rightarrow> string \<Rightarrow> bool" where
  "own_token env cfg s0 key uid token \<longleftrightarrow> uuid_syntax env uid \<and> (\<exists>i inp. draws s0 \<le> i \<and> ai_sub inp = uid
     \<and> token = jwt_sign env (sk_privateKeyPem key) (token_header (sk_kid key))
         (access_payload cfg inp (epoch_seconds (clock s0)) (ACCESS_TOKEN_TTL cfg) (rand_uuid env i)))"

lemma session_token:
  assumes "signs_with env cfg s0 key" and "calm env s0 s"
    and "auth_issueSessionTokensForSession env cfg sid uid amr ctx s = (Inr ls, s')"
  shows "own_token env cfg s0 key uid (ls_access_token ls)"
proof -
  note key = calm_key [OF assms(1,2)]
  obtain roles permissions signed s1 where "uuid_syntax env uid" and "ls_access_token ls = it_token signed"
    and "signAccessToken env cfg \<lparr>ai_sub = uid, ai_scope = defaultScopeForRoles roles, ai_roles = roles,
       ai_permissions = permissions, ai_sid = Some sid, ai_client_id = None, ai_amr = Some amr\<rparr> None s = (Inr signed, s1)"
    using assms(3)
    by (auto simp: auth_issueSessionTokensForSession_def users_findById_def users_rolesOf_def users_permissionsOf_def Let_def
        split: option.splits if_splits)
  moreover have "draws s0 \<le> draws s" "clock s = clock s0" using assms(2) by (simp_all add: calm_def)
  ultimately show ?thesis
    unfolding own_token_def
    by (intro conjI exI [of _ "draws s"] exI [of _ "\<lparr>ai_sub = uid, ai_scope = defaultScopeForRoles roles, ai_roles = roles,
       ai_permissions = permissions, ai_sid = Some sid, ai_client_id = None, ai_amr = Some amr\<rparr>"])
      (auto simp: sign_run [OF key] Let_def)
qed

lemma login_token:
  assumes "signs_with env cfg s0 key" and "calm env s0 s"
    and "auth_login env cfg email password ctx s = (Inr (Login_success ls), s')"
  obtains user where "List.find (\<lambda>u. citext_eq (u_email u) (js_lower email)) (t_users s) = Some user"
    and "verifyPassword env (u_password_hash user) password" and "own_token env cfg s0 key (u_id user) (ls_access_token ls)"
proof -
  obtain user where user: "List.find (\<lambda>u. citext_eq (u_email u) (js_lower email)) (t_users s) = Some user"
    "login_gate (clock s) user = None" "verifyPassword env (u_password_hash user) password" "u_status user \<noteq> User_pending_verification"
    by (rule login_Inr [OF assms(3)])
  have continue: "login_continue env cfg user ctx s = (Inr (Login_success ls), s')"
    using assms(3) login_found [OF findByEmail_run [of email s, unfolded user(1)] user(2-4)] by simp
  then obtain action s1 has s2 session s3 where "login_risk env cfg user ctx s = (Inr action, s1)"
    and "mfa_hasActiveMethod env (u_id user) s1 = (Inr has, s2)"
    and "new_session env cfg (u_id user) ctx (''mfa'' \<in> set [''pwd'']) s2 = (Inr session, s3)"
    and tokens: "auth_issueSessionTokensForSession env cfg (ss_id session) (u_id user) [''pwd''] ctx s3 = (Inr ls, s')"
    by (auto simp: login_continue_def auth_issueSessionTokens_def split: if_splits)
  with calm_login(2,3) [OF assms(1)] calm_reads(5) assms(2) have "calm env s0 s3" by (metis preservesD)
  from session_token [OF assms(1) this tokens] that [OF user(1,3)] show ?thesis by blast
qed

section \<open>The profile\<close>

lemma auth_me_run:
  assumes "uuid_syntax env uid" and "List.find (\<lambda>u. u_id u = uid) (t_users s) = Some u"
  obtains pf where "auth_me env uid s = (Inr pf, s)" and "pf_id pf = uid" and "pf_email pf = u_email u"
proof -
  have "u_id u = uid" using assms(2) by (auto dest: find_SomeD)
  obtain b where "mfa_hasActiveMethod env uid s = (Inr b, s)"
    using assms(1) by (auto simp: mfa_hasActiveMethod_def mfa_getActiveMethod_def uuid_param_def bindM_run)
  with assms \<open>u_id u = uid\<close> show thesis
    by (intro that) (auto simp: auth_me_def users_findById_def users_rolesOf_def users_permissionsOf_def bindM_run)
qed

lemma me_route_run:
  assumes "authenticate env cfg header s = (Inr user, s)" and "auth_me env (au_sub user) s = (Inr pf, s)"
  obtains res p where "me_route env cfg header s = (Inr res, s)" and "ok_status res" and "read_profile (hr_body res) = Some p"
    and "me_id p = pf_id pf" and "me_email p = pf_email pf"
proof -
  let ?body = "JObj [(''id'', JStr (pf_id pf)), (''email'', JStr (pf_email pf)),
       (''first_name'', jopt (pf_first_name pf)), (''last_name'', jopt (pf_last_name pf)), (''status'', JStr (status_name (pf_status pf))),
       (''roles'', jstrs (pf_roles pf)), (''permissions'', jstrs (pf_permissions pf)), (''mfa_enabled'', JBool (pf_mfa_enabled pf))]"
  have "me_route env cfg header s = (Inr \<lparr>hr_status = 200, hr_body = ?body\<rparr>, s)"
    using assms by (simp add: me_route_def bindM_run ok_json_def)
  moreover have "\<exists>q. read_profile ?body = Some q \<and> me_id q = pf_id pf \<and> me_email q = pf_email pf"
    by (simp add: read_profile_def member_string_def member_optional_def member_strings_def member_bool_def jopt_def jstrs_def
        split: option.split)
  ultimately show thesis using that by (auto simp: ok_status_def)
qed


section \<open>The requests\<close>

text \<open>A call of a visitor without tokens is one exchange with the server.\<close>

lemma signed_out_call:
  assumes "b_refresh b = None" and "op_bearer opts = False"
  shows "apiRequest net opts (b, w) = (case net (op_api opts) (client_request b (op_method opts) (op_path opts) None (op_body opts)) w of
      (res, w') \<Rightarrow> if hr_status res = 401 \<and> op_allowRefresh opts then (Inl (401, hr_body res), (clearTokens b, w'))
        else (if ok_status res then Inr (hr_body res) else Inl (hr_status res, hr_body res), (b, w')))"
  using assms by (cases "net (op_api opts) (client_request b (op_method opts) (op_path opts) None (op_body opts)) w")
    (auto simp: apiRequest_def eval_nat_numeral send_request_def settle_def)

text \<open>A call with a token that is answered well is one exchange, too.\<close>

lemma signed_in_call:
  assumes "b_access b = Some token" and "token \<noteq> []" and "op_bearer opts"
    and "net (op_api opts) (client_request b (op_method opts) (op_path opts) (Some token) (op_body opts)) w = (res, w')" and "ok_status res"
  shows "apiRequest net opts (b, w) = (Inr (hr_body res), (b, w'))"
proof -
  have "hr_status res \<noteq> 401" using assms(5) by (auto simp: ok_status_def)
  with assms show ?thesis by (simp add: apiRequest_def eval_nat_numeral send_request_def settle_def)
qed

lemma login_path:
  "path_segments ''/auth/login'' = [''auth'', ''login'']" "js_lower ''login'' = ''login''"
  by code_simp+

lemma login_route_found:
  "find_route (auth_routes pl env cfg) ''POST'' [''auth'', ''login'']
     = Some (\<lambda>rq ctx ps. with_body pl (loginSchema (pl_zod pl)) rq (\<lambda>(e, p). login_route env cfg e p ctx), [])"
  by (simp add: auth_routes_def auth_router_def me_paths login_path js_lower_def js_upper_letter_def)

lemma login_body:
  assumes "loginSchema z (Some (JObj (jdefined [(''email'', field email), (''password'', field password)]))) = Inr (e, p)"
  shows "e = js_lower (js_trim email) \<and> p = password"
  using assms
  by (auto simp: loginSchema_def jdefined_def field_def z_accepts z_email_address_def z_text_def split: if_splits)

lemma ok_schema_errors: "validate z r = Inl e \<Longrightarrow> \<not> ok_status (errorHandler e i)"
  by (cases r) (auto simp: validate_def validationError_def ok_status_def AppError_def ValidationError_def)


section \<open>A refused login is no success\<close>

lemma kms_status: "\<not> ok_status (errorHandler (KmsError m) i)"
  by (simp add: ok_status_def)

lemma fails_well_steps:
  "fails_well (modifyM f)" "fails_well (drawM g)" "fails_well nowM" "fails_well (audit_record env e)" "fails_well (redis_get k)"
  "fails_well (redis_set k v t)" "fails_well (redis_setJson k v t)" "fails_well (redis_setExpire k n)"
  "fails_well m \<Longrightarrow> fails_well (whenM b m)"
  by (auto simp: fails_well_def drawM_def redis_op_defs)

lemma fails_well_redis: "fails_well (redis_setAdd k m)" "fails_well (redis_setSize k)"
  by (auto simp: fails_well_def redis_op_defs ok_status_def split: option.splits rvalue.splits)

lemma fails_well_insert: "fails_well (insertM table put clash row c)"
  by (auto simp: fails_well_def insertM_def ok_status_def split: option.splits)

lemma fails_well_cases:
  "(\<And>x y. fails_well (f x y)) \<Longrightarrow> fails_well (case p of (x, y) \<Rightarrow> f x y)"
  "fails_well m \<Longrightarrow> (\<And>x xs. fails_well (g x xs)) \<Longrightarrow> fails_well (case ys of [] \<Rightarrow> m | x # xs \<Rightarrow> g x xs)"
  by (auto split: prod.split list.split)

lemmas fails_well_more = fails_well fails_well_steps fails_well_redis fails_well_insert fails_well_cases bad_statuses kms_status

lemma keys_fail: "fails_well (keys_getCurrentSigningKey env cfg)"
proof -
  have master: "fails_well (keys_masterKey env cfg)"
    unfolding keys_masterKey_def Let_def by (intro fails_well_more)
  have "fails_well (keys_unwrapPrivateKey env cfg w)" for w
    unfolding keys_unwrapPrivateKey_def by (intro fails_well_more master)
  moreover have "fails_well (keys_rotateSigningKey env cfg)"
    unfolding keys_rotateSigningKey_def keys_wrapPrivateKey_def keys_keyFilePath_def Let_def by (intro fails_well_more master)
  ultimately show ?thesis
    unfolding keys_getCurrentSigningKey_def numeral_2_eq_2 keys_currentSigningKey_fuel.simps keys_listSigningKeyFiles_def
    by (intro fails_well_more)
qed

lemma login_fails: "fails_well (login_route env cfg email password ctx)"
proof -
  have gate: "fails_well (case login_gate now user of None \<Rightarrow> p | Some e \<Rightarrow> throwM e)" if "fails_well p" for now user and p :: "login_result act"
    using that by (auto simp: login_gate_def bad_statuses ForbiddenError_def ok_status_def AppError_def fails_well_def split: if_splits option.splits)
  have invalid: "\<not> ok_status (errorHandler InvalidCredentialsError i)" for i
    by (simp add: InvalidCredentialsError_def ok_status_def)
  have reads: "fails_well (users_findById env uid)" "fails_well (users_findByEmail email')" "fails_well (users_rolesOf uid)"
    "fails_well (users_permissionsOf uid)" "fails_well (mfa_hasActiveMethod env uid)" for uid email'
    unfolding users_findById_def users_findByEmail_def users_rolesOf_def users_permissionsOf_def mfa_hasActiveMethod_def
      mfa_getActiveMethod_def uuid_param_def
    by (intro fails_well_more)+
  have writes: "fails_well (users_setLastLogin uid)" "fails_well (users_clearLockAndFailures uid)" "fails_well (users_recordFailedLogin uid)"
    "fails_well (users_lockUntil uid t)" "fails_well (riskEvents_record uid ty ev act ctx)" for uid t ty ev act
    unfolding users_setLastLogin_def users_clearLockAndFailures_def users_recordFailedLogin_def users_lockUntil_def users_update_def riskEvents_record_def
    by (intro fails_well_more)+
  have tokens: "fails_well (signAccessToken env cfg inp ttl)" "fails_well (refresh_issue env cfg params)" for inp ttl params
    unfolding signAccessToken_def refresh_issue_def Let_def by (intro fails_well_more keys_fail)+
  have risk: "fails_well (login_risk env cfg user ctx)" for user
    unfolding login_risk_def auth_isKnownDevice_def evaluateLogin_def rule_failed_logins_def rule_ip_frequency_def rule_travel_def Let_def
    by (intro fails_well_more writes)
  have "fails_well (auth_login env cfg email password ctx)"
    unfolding auth_login_def login_failed_def login_continue_def auth_issueSessionTokens_def auth_issueSessionTokensForSession_def
      mfa_createLoginChallenge_def new_session_def sessions_create_def Let_def
    by (intro gate fails_well_more reads writes tokens risk invalid) (simp_all add: bad_statuses)
  then show ?thesis
    unfolding login_route_def route_limit_def by (auto intro!: fails_well_more limiter_fails split: login_result.split)
qed


section \<open>From the form to the dashboard\<close>

lemma login_server:
  assumes "requestIdMiddleware env (client_request b ''POST'' ''/auth/login'' None (Some v)) s = (Inr i, s1)"
  shows "auth_server pl env cfg (client_request b ''POST'' ''/auth/login'' None (Some v)) s =
    respond (with_body pl (loginSchema (pl_zod pl)) (client_request b ''POST'' ''/auth/login'' None (Some v))
      (\<lambda>(e, p). login_route env cfg e p (requestContext i (client_request b ''POST'' ''/auth/login'' None (Some v))))) i s1"
proof -
  have "hq_body (client_request b ''POST'' ''/auth/login'' None (Some v)) = Parsed v"
    "hq_method (client_request b ''POST'' ''/auth/login'' None (Some v)) = ''POST''"
    "hq_path (client_request b ''POST'' ''/auth/login'' None (Some v)) = ''/auth/login''"
    by (simp_all add: client_request_def)
  then show ?thesis
    using assms by (simp add: auth_server_def serve_def dispatch_def login_path me_paths login_route_found)
qed

text \<open>What the visitor gets: the response of the route, in a world that is calm.\<close>

lemma login_answer:
  assumes "auth_server pl env cfg (client_request b ''POST'' ''/auth/login'' None
      (Some (JObj (jdefined [(''email'', field email), (''password'', field password)])))) s = (res, s')"
    and "ok_status res" and "fresh_jtis env (draws s) s"
  obtains s1 ctx where "drawn s s1" and "calm env s s1"
    and "login_route env cfg (js_lower (js_trim email)) password ctx s1 = (Inr res, s')"
proof -
  let ?rq = "client_request b ''POST'' ''/auth/login'' None (Some (JObj (jdefined [(''email'', field email), (''password'', field password)])))"
  let ?k = "\<lambda>i (e, p). login_route env cfg e p (requestContext i ?rq)"
  obtain i s1 where rid: "requestIdMiddleware env ?rq s = (Inr i, s1)" and drawn: "drawn s s1"
    using request_id_drawn by blast
  have "preserves (calm env s) (requestIdMiddleware env ?rq)"
    unfolding requestIdMiddleware_def by (intro pres)
  then have calm: "calm env s s1" using rid calm_refl [OF assms(3)] by (rule preservesD)
  have "respond (with_body pl (loginSchema (pl_zod pl)) ?rq (?k i)) i s1 = (res, s')"
    using assms(1) login_server [OF rid] by simp
  moreover have "fails_well (with_body pl (loginSchema (pl_zod pl)) ?rq (?k i))"
    unfolding with_body_def by (intro fails_well fails_well_cases login_fails ok_schema_errors)
  ultimately have "with_body pl (loginSchema (pl_zod pl)) ?rq (?k i) s1 = (Inr res, s')"
    using assms(2) respond_ok by blast
  then obtain e p where "loginSchema (pl_zod pl) (Some (JObj (jdefined [(''email'', field email), (''password'', field password)]))) = Inr (e, p)"
    and run: "login_route env cfg e p (requestContext i ?rq) s1 = (Inr res, s')"
    unfolding with_body_def by (elim bindM_InrE) (auto simp: client_request_def liftE_def body_of_def validate_def)
  with login_body have "e = js_lower (js_trim email)" "p = password" by blast+
  with run that [OF drawn calm] show thesis by simp
qed

text \<open>The other way round: a good answer signs in.\<close>

lemma login_submit_run:
  assumes "\<not> email_refused email" and "b_refresh b = None"
    and "net Auth_api (client_request b ''POST'' ''/auth/login'' None
      (Some (JObj (jdefined [(''email'', field email), (''password'', field password)])))) w = (res, w')"
    and "ok_status res" and "\<not> mfa_wanted (hr_body res)"
  shows "login_submit net email password (b, w) = (Done, (sign_in (hr_body res) b, w'))"
proof -
  have "hr_status res \<noteq> 401" using assms(4) by (auto simp: ok_status_def)
  then have "apiRequest net (api_login (field email) (field password)) (b, w) = (Inr (hr_body res), (b, w'))"
    using assms by (subst signed_out_call) (simp_all add: api_login_def auth_post_def)
  then show ?thesis using assms by (simp add: login_submit_def)
qed

lemma challenge_id:
  assumes "auth_login env cfg email password ctx s = (Inr (Login_mfa_required cid), s')"
  shows "\<exists>i. cid = rand_uuid env i"
proof -
  obtain user where user: "List.find (\<lambda>u. citext_eq (u_email u) (js_lower email)) (t_users s) = Some user"
    "login_gate (clock s) user = None" "verifyPassword env (u_password_hash user) password" "u_status user \<noteq> User_pending_verification"
    by (rule login_Inr [OF assms])
  have "login_continue env cfg user ctx s = (Inr (Login_mfa_required cid), s')"
    using assms login_found [OF findByEmail_run [of email s, unfolded user(1)] user(2-4)] by simp
  then show ?thesis
    by (auto simp: login_continue_def mfa_createLoginChallenge_def drawM_def split: if_splits; blast)
qed

lemma login_route_run:
  assumes "login_route env cfg email password ctx s = (Inr res, s')"
  obtains s2 result where "route_limit cfg ''login'' (RATE_LIMIT_LOGIN cfg) (rc_ip ctx) s = (Inr (), s2)"
    and "auth_login env cfg email password ctx s2 = (Inr result, s')"
    and "\<forall>cid. result = Login_mfa_required cid \<longrightarrow> cid \<noteq> [] \<longrightarrow> mfa_wanted (hr_body res)"
    and "\<forall>ls. result = Login_success ls \<longrightarrow> json_text ''access_token'' (hr_body res) = ls_access_token ls"
proof -
  obtain s2 result where "route_limit cfg ''login'' (RATE_LIMIT_LOGIN cfg) (rc_ip ctx) s = (Inr (), s2)"
    and run: "auth_login env cfg email password ctx s2 = (Inr result, s')"
    and "res = (case result of
       Login_mfa_required cid \<Rightarrow> \<lparr>hr_status = 200, hr_body = JObj [(''outcome'', JStr ''mfa_required''), (''mfa_required'', JBool True),
         (''mfa_challenge_id'', JStr cid)]\<rparr>
     | Login_success r \<Rightarrow> \<lparr>hr_status = 200, hr_body = JObj (token_fields r @
         [(''refresh_expires_at'', JNum (ls_refresh_expires_at r)), (''scope'', JStr (ls_scope r)), (''roles'', jstrs (ls_roles r)),
          (''user'', JObj ([(''id'', JStr (ls_user_id r)), (''email'', JStr (ls_user_email r))]
             @ (case ls_user_status r of None \<Rightarrow> [] | Some t \<Rightarrow> [(''status'', JStr (status_name t))])))])\<rparr>)"
    using assms unfolding login_route_def by (elim bindM_InrE) (auto simp: ok_json_def split: login_result.splits)
  then show thesis
    by (intro that [of s2 result]) (auto simp: mfa_wanted_def json_text_def token_fields_def)
qed

text \<open>The whole form: the browser gets a token of the account.\<close>

lemma form_token:
  assumes "login_submit net email password (b, s) = (Done, (b1, s'))" and "b_access b = None" and "b_refresh b = None" and "hasAccessToken b1"
    and "\<And>rq. net Auth_api rq = auth_server pl env cfg rq"
    and "signs_with env cfg s key" and "fresh_jtis env (draws s) s" and "\<And>i. rand_uuid env i \<noteq> []"
  obtains user token where "List.find (\<lambda>u. citext_eq (u_email u) (js_lower (js_lower (js_trim email)))) (t_users s) = Some user"
    and "verifyPassword env (u_password_hash user) password" and "own_token env cfg s key (u_id user) token"
    and "b_access b1 = Some token" and "calm env s s'"
proof -
  let ?rq = "client_request b ''POST'' ''/auth/login'' None (Some (JObj (jdefined [(''email'', field email), (''password'', field password)])))"
  obtain res where ask: "auth_server pl env cfg ?rq s = (res, s')" and ok: "ok_status res"
    and mfa: "\<not> mfa_wanted (hr_body res)" and b1: "b1 = sign_in (hr_body res) b"
  proof (cases "auth_server pl env cfg ?rq s")
    case (Pair res s1)
    have "apiRequest net (api_login (field email) (field password)) (b, s) =
        (if hr_status res = 401 then (Inl (401, hr_body res), (clearTokens b, s1))
         else (if ok_status res then Inr (hr_body res) else Inl (hr_status res, hr_body res), (b, s1)))"
      by (subst signed_out_call) (simp_all add: assms(3,5) api_login_def auth_post_def Pair)
    then show thesis
      using assms(1,2,4) that [of res] Pair
      by (auto simp: login_submit_def hasAccessToken_def navigate_def split: if_splits)
  qed
  obtain s1 ctx where s1: "drawn s s1" "calm env s s1" and route: "login_route env cfg (js_lower (js_trim email)) password ctx s1 = (Inr res, s')"
    by (rule login_answer [OF ask ok assms(7)])
  obtain s2 result where limit: "route_limit cfg ''login'' (RATE_LIMIT_LOGIN cfg) (rc_ip ctx) s1 = (Inr (), s2)"
    and login: "auth_login env cfg (js_lower (js_trim email)) password ctx s2 = (Inr result, s')"
    and res: "\<forall>cid. result = Login_mfa_required cid \<longrightarrow> cid \<noteq> [] \<longrightarrow> mfa_wanted (hr_body res)"
      "\<forall>ls. result = Login_success ls \<longrightarrow> json_text ''access_token'' (hr_body res) = ls_access_token ls"
    by (rule login_route_run [OF route])
  have calm: "calm env s s2" using calm_limiter limit s1(2) by (rule preservesD)
  have users: "t_users s2 = t_users s" using coreD(1) [OF keeps_coreD [OF keeps_core_limit limit]] s1(1) by (auto simp: drawn_def)
  show thesis
  proof (cases result)
    case (Login_mfa_required cid)
    with login challenge_id assms(8) have "cid \<noteq> []" by metis
    with res(1) Login_mfa_required mfa show thesis by blast
  next
    case (Login_success ls)
    with login obtain user where "List.find (\<lambda>u. citext_eq (u_email u) (js_lower (js_lower (js_trim email)))) (t_users s) = Some user"
      "verifyPassword env (u_password_hash user) password" "own_token env cfg s key (u_id user) (ls_access_token ls)"
      using login_token [OF assms(6) calm] by (metis users)
    moreover have "b_access b1 = Some (ls_access_token ls)"
      by (simp add: b1 sign_in_def navigate_def setTokens_def res(2) [rule_format, OF Login_success])
    moreover have "calm env s s'"
      using calm_login(4) [OF assms(6)] login calm by (metis preservesD)
    ultimately show thesis by (rule that)
  qed
qed

text \<open>A token that was signed by this server is accepted while it lives.\<close>

lemma signed_token_accepted:
  assumes "token = jwt_sign env (sk_privateKeyPem key) (token_header (sk_kid key)) p"
    and "p = access_payload cfg inp (epoch_seconds t) (ACCESS_TOKEN_TTL cfg) (rand_uuid env i)" and "signs_with env cfg s0 key" and "sk_kid key \<noteq> []"
    and "\<And>h p. token = jwt_sign env (sk_privateKeyPem key) h p \<Longrightarrow> jose_accepts env (sk_privateKeyPem key) (sk_publicKeyPem key) h p"
    and "key_files s = key_files s0" and "master_cache s = master_cache s0" and "redis_lookup (jti_key (rand_uuid env i)) s = None"
    and "t \<le> clock s" and "clock s < t + ACCESS_TOKEN_TTL cfg * 1000"
  shows "authenticate env cfg (Some (''Bearer '' @ token)) s = (Inr (to_auth_user p), s)"
proof -
  obtain pk where pk: "keys_getPublicKey (sk_kid key) s = (Inr pk, s)" "pk_publicKeyPem pk = sk_publicKeyPem key"
    using assms(3,6,7) unfolding signs_with_def by blast
  have "epoch_seconds t \<le> epoch_seconds (clock s)"
    using assms(9) by (simp add: epoch_seconds_def zdiv_mono1)
  moreover have "epoch_seconds (clock s) \<le> epoch_seconds t + ACCESS_TOKEN_TTL cfg"
    using zdiv_mono1 [of "clock s" "t + ACCESS_TOKEN_TTL cfg * 1000" 1000] assms(10) by (simp add: epoch_seconds_def)
  ultimately have "claims_ok (access_options cfg) (clock s) p"
    by (simp add: assms(2) claims_ok_def access_options_def access_payload_def claim_present_def)
  then have "verifyAccessToken env cfg token s = (Inr p, s)"
    using assms(5) [OF assms(1)] assms(8) unfolding assms(1)
    by (intro verify_accepts [OF _ assms(4) pk]) (simp_all add: assms(2) access_payload_def)
  then show ?thesis
    by (simp add: authenticate_def bearer_def starts_with_def bindM_run)
qed

text \<open>With such a token the route of the profile answers.\<close>

lemma own_token_accepted:
  assumes "own_token env cfg s0 key uid token" and "signs_with env cfg s0 key" and "sk_kid key \<noteq> []"
    and "\<And>h p. token = jwt_sign env (sk_privateKeyPem key) h p \<Longrightarrow> jose_accepts env (sk_privateKeyPem key) (sk_publicKeyPem key) h p"
    and "key_files s = key_files s0" and "master_cache s = master_cache s0" and "fresh_jtis env (draws s0) s"
    and "clock s0 \<le> clock s" and "clock s < clock s0 + ACCESS_TOKEN_TTL cfg * 1000"
  obtains user where "authenticate env cfg (Some (''Bearer '' @ token)) s = (Inr user, s)" and "au_sub user = uid"
proof -
  obtain i inp where i: "draws s0 \<le> i" "ai_sub inp = uid"
    and token: "token = jwt_sign env (sk_privateKeyPem key) (token_header (sk_kid key))
       (access_payload cfg inp (epoch_seconds (clock s0)) (ACCESS_TOKEN_TTL cfg) (rand_uuid env i))"
    using assms(1) by (auto simp: own_token_def)
  let ?p = "access_payload cfg inp (epoch_seconds (clock s0)) (ACCESS_TOKEN_TTL cfg) (rand_uuid env i)"
  have "redis_lookup (jti_key (rand_uuid env i)) s = None"
    using assms(7) i(1) by (simp add: fresh_jtis_def)
  then have "authenticate env cfg (Some (''Bearer '' @ token)) s = (Inr (to_auth_user ?p), s)"
    by (intro signed_token_accepted [OF token refl assms(2-6) _ assms(8,9)])
  moreover have "au_sub (to_auth_user ?p) = uid"
    by (simp add: to_auth_user_def access_payload_def i)
  ultimately show thesis by (rule that)
qed

lemma js_lower_idem [simp]: "js_lower (js_lower x) = js_lower x"
proof -
  let ?f = "\<lambda>c. if js_upper_letter c then char_of ((of_char c :: nat) + 32) else c"
  have "\<not> js_upper_letter (char_of ((of_char c :: nat) + 32))" if "js_upper_letter c" for c
    using that by (simp add: js_upper_letter_def Let_def)
  then show ?thesis by (simp add: js_lower_def comp_def if_distrib cong: if_cong)
qed

lemma find_by_names:
  assumes "names s = names s0" and "distinct (map u_id (t_users s0))" and "u \<in> set (t_users s0)"
  obtains v where "List.find (\<lambda>x. u_id x = u_id u) (t_users s) = Some v" and "u_email v = u_email u"
proof -
  have look: "map_of (map (\<lambda>u. (u_id u, u_email u)) us) i = Some e \<Longrightarrow> \<exists>v. List.find (\<lambda>x. u_id x = i) us = Some v \<and> u_email v = e" for us i e
    by (induction us) (auto split: if_splits)
  have "map_of (names s0) (u_id u) = Some (u_email u)"
    using assms(2,3) by (simp add: names_def comp_def)
  then have "map_of (map (\<lambda>u. (u_id u, u_email u)) (t_users s)) (u_id u) = Some (u_email u)"
    unfolding assms(1) [symmetric] by (simp add: names_def)
  from look [OF this] that show thesis by blast
qed

text \<open>
  C19: whoever signs in sees the own profile. A visitor without tokens submits the login form, and the
  browser has a token afterwards. Then an account with the typed address exists and has the typed password,
  and for as long as the token lives, the call of the dashboard for the profile is answered with success
  at once, without a refresh, and the profile is the one of this account. The server has a signing key, a
  token signed with it verifies under its public half, and the identifiers drawn from now on are not on
  the denylist.
\<close>

theorem sign_in_opens_dashboard:
  assumes "login_submit net email password (b, s) = (Done, (b1, s1))" and "b_access b = None" and "b_refresh b = None" and "hasAccessToken b1"
    and "\<And>rq. net Auth_api rq = auth_server pl env cfg rq"
    and "keys_getCurrentSigningKey env cfg s = (Inr key, s)" and "sk_kid key \<noteq> []"
    and "\<And>h p. b_access b1 = Some (jwt_sign env (sk_privateKeyPem key) h p) \<Longrightarrow> jose_accepts env (sk_privateKeyPem key) (sk_publicKeyPem key) h p"
    and "b_access b1 \<noteq> Some []"
    and "fresh_jtis env (draws s) s" and "\<And>i. rand_uuid env i \<noteq> []" and "distinct (map u_id (t_users s))"
    and "0 \<le> d" and "d < ACCESS_TOKEN_TTL cfg * 1000"
  shows "\<exists>user body p s2. user \<in> set (t_users s) \<and> citext_eq (u_email user) (js_lower (js_trim email))
    \<and> verifyPassword env (u_password_hash user) password
    \<and> apiRequest net api_fetchMe (b1, elapse d s1) = (Inr body, (b1, s2))
    \<and> read_profile body = Some p \<and> me_id p = u_id user \<and> me_email p = u_email user"
proof -
  note signs = signs_withI [OF assms(6)]
  obtain user token where found: "List.find (\<lambda>u. citext_eq (u_email u) (js_lower (js_lower (js_trim email)))) (t_users s) = Some user"
    and pw: "verifyPassword env (u_password_hash user) password" and own: "own_token env cfg s key (u_id user) token"
    and token: "b_access b1 = Some token" and calm: "calm env s s1"
    by (rule form_token [OF assms(1-5) signs assms(10,11)])
  have user: "user \<in> set (t_users s)" "citext_eq (u_email user) (js_lower (js_trim email))"
    using find_SomeD [OF found] by (simp_all add: citext_eq_def)
  let ?rq = "client_request b1 ''GET'' ''/auth/me'' (Some token) None"
  obtain i s2 where drawn: "drawn (elapse d s1) s2"
    and ask: "auth_server pl env cfg ?rq (elapse d s1) = respond (me_route env cfg (Some (''Bearer '' @ token))) i s2"
    by (rule auth_server_run [of ?rq "elapse d s1" pl env cfg])
      (simp_all add: dispatch_def client_request_def me_paths me_route_found auth_header_def header_of_def)
  obtain n where n: "s2 = elapse d s1\<lparr>draws := n\<rparr>" using drawn unfolding drawn_def by blast
  have s2: "key_files s2 = key_files s" "master_cache s2 = master_cache s" "clock s2 = clock s + d" "names s2 = names s"
    using calm unfolding calm_def n names_def elapse_def by simp_all
  have "redis_lookup k s2 = redis_lookup k (elapse d s1)" for k by (simp add: n redis_lookup_def)
  then have fresh: "fresh_jtis env (draws s) s2"
    using calm redis.gone_stays_gone [OF assms(13)] unfolding calm_def fresh_jtis_def by simp
  obtain au where auth: "authenticate env cfg (Some (''Bearer '' @ token)) s2 = (Inr au, s2)" and sub: "au_sub au = u_id user"
    by (rule own_token_accepted [OF own signs assms(7) _ s2(1,2) fresh]) (use assms(8,13,14) s2(3) token in simp_all)
  obtain v where v: "List.find (\<lambda>x. u_id x = u_id user) (t_users s2) = Some v" "u_email v = u_email user"
    by (rule find_by_names [OF s2(4) assms(12) user(1)])
  have "uuid_syntax env (u_id user)" using own by (simp add: own_token_def)
  then obtain pf where "auth_me env (u_id user) s2 = (Inr pf, s2)" and pf: "pf_id pf = u_id user" "pf_email pf = u_email user"
    using auth_me_run v by metis
  then obtain res p where route: "me_route env cfg (Some (''Bearer '' @ token)) s2 = (Inr res, s2)" "ok_status res"
    and p: "read_profile (hr_body res) = Some p" "me_id p = pf_id pf" "me_email p = pf_email pf"
    using me_route_run [OF auth, unfolded sub] by metis
  have "token \<noteq> []" using token assms(9) by simp
  then have "apiRequest net api_fetchMe (b1, elapse d s1) = (Inr (hr_body res), (b1, s2))"
    using signed_in_call [where net = net and opts = api_fetchMe and b = b1 and w = "elapse d s1" and w' = s2, OF token] route ask
    by (simp add: api_fetchMe_def assms(5) respond_def)
  with user pw p pf show ?thesis by metis
qed

text \<open>A library that signs and opens one token.\<close>

definition newcomer_payload :: jwt_payload where
  "newcomer_payload = access_payload sample_cfg \<lparr>ai_sub = ''Ua'', ai_scope = ''openid profile email api.read'', ai_roles = [''user''],
     ai_permissions = [], ai_sid = Some ''U1'', ai_client_id = None, ai_amr = Some [''pwd'']\<rparr> 1 900 ''U11''"

definition newcomer_env :: externals where
  "newcomer_env = sample_env\<lparr>
     jwt_sign := (\<lambda>key h p. if h = token_header ''k1'' \<and> p = newcomer_payload then ''J'' else ''X''),
     jwt_verify := (\<lambda>token key options now. if token = ''J'' \<and> claims_ok options now newcomer_payload then Inr newcomer_payload
        else Inl (Some ''ERR_JWT_EXPIRED''))\<rparr>"

definition newcomer_world :: world where
  "newcomer_world = sample_world\<lparr>t_users := [sample_user\<lparr>u_email := ''a@x.y''\<rparr>], master_cache := Some (replicate 32 (CHR ''K''))\<rparr>"

definition newcomer_net :: "world net" where
  "newcomer_net api rq = auth_server sample_platform newcomer_env sample_cfg rq"

definition newcomer :: browser where
  "newcomer = \<lparr>b_access = None, b_refresh = None, b_hash = ''/login'', b_ip = Some ''10.0.0.1'', b_headers = []\<rparr>"

lemma newcomer_uuid: "rand_uuid newcomer_env i \<noteq> []"
  by (simp add: newcomer_env_def sample_env_def)

lemma newcomer_accepts: "''J'' = jwt_sign newcomer_env k h p \<Longrightarrow> jose_accepts newcomer_env k pub h p"
  by (auto simp: newcomer_env_def jose_accepts_def sample_env_def token_header_def split: if_splits)

theorem sign_in_opens_dashboard_witness:
  "\<exists>b1 s1 body p s2. login_submit newcomer_net ''A@x.y'' ''pw'' (newcomer, newcomer_world) = (Done, (b1, s1))
     \<and> apiRequest newcomer_net api_fetchMe (b1, elapse 899999 s1) = (Inr body, (b1, s2)) \<and> read_profile body = Some p \<and> me_email p = ''a@x.y''"
proof -
  let ?rq = "client_request newcomer ''POST'' ''/auth/login'' None (Some (JObj (jdefined [(''email'', field ''A@x.y''), (''password'', field ''pw'')])))"
  let ?answer = "respond (with_body sample_platform (loginSchema (pl_zod sample_platform)) ?rq
      (\<lambda>(e, p). login_route newcomer_env sample_cfg e p (requestContext ''U'' ?rq))) ''U'' (newcomer_world\<lparr>draws := 1\<rparr>)"
  obtain res s1 where answer: "?answer = (res, s1)" by (cases ?answer)
  have "ok_status (fst ?answer) \<and> \<not> mfa_wanted (hr_body (fst ?answer)) \<and> json_text ''access_token'' (hr_body (fst ?answer)) = ''J''"
    by code_simp
  then have res: "ok_status res" "\<not> mfa_wanted (hr_body res)" "json_text ''access_token'' (hr_body res) = ''J''"
    unfolding answer fst_conv by blast+
  have "requestIdMiddleware newcomer_env ?rq newcomer_world = (Inr ''U'', newcomer_world\<lparr>draws := 1\<rparr>)"
    by code_simp
  then have ask: "newcomer_net Auth_api ?rq newcomer_world = (res, s1)"
    unfolding newcomer_net_def answer [symmetric] by (rule login_server)
  obtain b1 where run: "login_submit newcomer_net ''A@x.y'' ''pw'' (newcomer, newcomer_world) = (Done, (b1, s1))" and token: "b_access b1 = Some ''J''"
  proof -
    have "login_submit newcomer_net ''A@x.y'' ''pw'' (newcomer, newcomer_world) = (Done, (sign_in (hr_body res) newcomer, s1))"
    proof (rule login_submit_run)
      show "\<not> email_refused ''A@x.y''" by code_simp
      show "b_refresh newcomer = None" by (simp add: newcomer_def)
    qed (use ask res in simp_all)
    then show thesis by (rule that) (simp add: sign_in_def navigate_def setTokens_def res)
  qed
  have key: "keys_getCurrentSigningKey newcomer_env sample_cfg newcomer_world
      = (Inr \<lparr>sk_kid = ''k1'', sk_privateKeyPem = ''priv'', sk_publicKeyPem = ''pub''\<rparr>, newcomer_world)"
    by code_simp
  have users: "t_users newcomer_world = [sample_user\<lparr>u_email := ''a@x.y''\<rparr>]" and redis: "redis newcomer_world = []"
    by code_simp+
  obtain user body p s2 where "user \<in> set (t_users newcomer_world)" "me_email p = u_email user"
    "apiRequest newcomer_net api_fetchMe (b1, elapse 899999 s1) = (Inr body, (b1, s2))" "read_profile body = Some p"
  proof -
    have "\<exists>user body p s2. user \<in> set (t_users newcomer_world) \<and> citext_eq (u_email user) (js_lower (js_trim ''A@x.y''))
        \<and> verifyPassword newcomer_env (u_password_hash user) ''pw''
        \<and> apiRequest newcomer_net api_fetchMe (b1, elapse 899999 s1) = (Inr body, (b1, s2))
        \<and> read_profile body = Some p \<and> me_id p = u_id user \<and> me_email p = u_email user"
      by (rule sign_in_opens_dashboard [OF run _ _ _ newcomer_net_def key])
        (simp_all add: newcomer_def token hasAccessToken_def newcomer_accepts fresh_jtis_def redis_lookup_def redis_entry_def redis users
          newcomer_uuid sample_cfg_def)
    then show thesis using that by blast
  qed
  with run users show ?thesis by auto
qed

end
