(* ===== verification/OAuth_Journey.thy ===== *)
theory OAuth_Journey
  imports Sign_In OAuth_Flow
begin

text \<open>
  From the authorization endpoint to the profile: the code that was granted is exchanged, and the access
  token opens \<^verbatim>\<open>/userinfo\<close>.
\<close>

section \<open>The exchange\<close>

lemma granted_lookup:
  assumes "t_codes s = cs @ [row]" and "\<forall>r \<in> set cs. ac_id r \<noteq> ac_id row \<and> ac_code_hash r \<noteq> ac_code_hash row"
    and "ac_code_hash row = code_hash_of env code" and "ac_client_id row = cl_id client" and "client \<in> set (t_clients s)"
    and "distinct (map cl_id (t_clients s))" and "ac_consumed_at row = None"
  shows "code_lookup env code s = Some (row, cl_client_id client)"
    and "List.find (\<lambda>r. ac_id r = ac_id row \<and> ac_consumed_at r = None) (t_codes s) = Some row"
proof -
  have last: "List.find P (xs @ [x]) = Some x" if "\<forall>y \<in> set xs. \<not> P y" "P x" for P and x :: code_row and xs
    using that by (induction xs) auto
  obtain c where c: "List.find (\<lambda>c. cl_id c = ac_client_id row) (t_clients s) = Some c"
    using assms(4,5) by (cases "List.find (\<lambda>c. cl_id c = ac_client_id row) (t_clients s)") (auto simp: find_None_iff)
  then have "c = client"
    using find_SomeD [OF c] assms(4-6) distinct_key_eq [of cl_id "t_clients s" c client] by simp
  with c show "code_lookup env code s = Some (row, cl_client_id client)"
    using assms(1-3) by (simp add: code_lookup_def last)
  show "List.find (\<lambda>r. ac_id r = ac_id row \<and> ac_consumed_at r = None) (t_codes s) = Some row"
    using assms(1,2,7) by (simp add: last)
qed

lemma grantCode_ok:
  assumes "truthy (tf_code form)" and "truthy (tf_redirect_uri form)" and "truthy (tf_code_verifier form)"
    and "client_authenticated env client sec"
    and "code_valid env (the (tf_code form)) clientId (the (tf_redirect_uri form)) s row"
    and "List.find (\<lambda>r. ac_id r = ac_id row \<and> ac_consumed_at r = None) (t_codes s) = Some row"
    and "truthy (ac_code_challenge row)"
    and "pkce_matches env (the (tf_code_verifier form)) (the (ac_code_challenge row)) (ac_code_challenge_method row)"
  shows "oauth_grantCode env cfg form client clientId sec ctx s
    = oauth_issueUserTokens env cfg (ac_user_id row) client (ac_scope row) (ac_nonce row) ctx (s\<lparr>t_codes := consumed_codes row s\<rparr>)"
proof -
  have "codes_peek env (the (tf_code form)) clientId (the (tf_redirect_uri form)) s = (Inr (Some row), s)"
    using assms(5) by (auto simp: codes_peek_def code_valid_def bindM_run)
  moreover have "codes_consume env (the (tf_code form)) clientId (the (tf_redirect_uri form)) s
      = (Inr (Some (consume_code (clock s) row)), s\<lparr>t_codes := consumed_codes row s\<rparr>)"
    using assms(5,6) by (auto simp: consume_eq code_valid_def)
  ultimately show ?thesis
    using assms(1-3,7,8) by (simp add: oauth_grantCode_def clientAuth_ok [OF assms(4)] oauth_onReplay_def catchM_def bindM_run)
qed

text \<open>The identifiers and tokens drawn from now on are in no table.\<close>

definition fresh_rows :: "externals \<Rightarrow> nat \<Rightarrow> world \<Rightarrow> bool" where
  "fresh_rows env n s \<longleftrightarrow> (\<forall>i \<ge> n. (\<forall>r \<in> set (t_sessions s). ss_id r \<noteq> rand_uuid env i)
     \<and> (\<forall>r \<in> set (t_refresh s). rt_id r \<noteq> rand_uuid env i \<and> rt_token_hash r \<noteq> refresh_hash env (rand_b64url env 32 i)))"

lemma issueUserTokens_ok:
  assumes "signs_with env cfg s0 key" and "settled s0 s" and "uuid_syntax env uid" and "fresh_rows env (draws s) s"
  obtains resp s' i inp where "oauth_issueUserTokens env cfg uid client scope nonce ctx s = (Inr resp, s')"
    and "tr_access_token resp = jwt_sign env (sk_privateKeyPem key) (token_header (sk_kid key))
         (access_payload cfg inp (epoch_seconds (clock s)) (ACCESS_TOKEN_TTL cfg) (rand_uuid env i))"
    and "ai_sub inp = uid" and "ai_scope inp = scope" and "draws s \<le> i" and "settled s0 s'" and "clock s' = clock s" and "tr_scope resp = scope"
proof -
  have key: "keys_getCurrentSigningKey env cfg s1 = (Inr key, s1)" if "settled s0 s1" for s1
    using assms(1) that by (simp add: signs_with_def settled_def)
  let ?sp = "\<lparr>sp_userId = uid, sp_clientId = Some (cl_id client), sp_ip = rc_ip ctx, sp_userAgent = rc_userAgent ctx,
      sp_deviceId = None, sp_mfaPassed = True, sp_ttlSeconds = SESSION_TTL cfg\<rparr>"
  obtain session s1 where new: "sessions_create env ?sp s = (Inr session, s1)"
    and s1: "settled s0 s1" "clock s1 = clock s" "t_refresh s1 = t_refresh s" "draws s1 = Suc (draws s)"
    using assms(2,4) by (simp add: sessions_create_def bindM_run insertM_ok fresh_rows_def settled_def)
  obtain roles permissions where reads: "users_rolesOf uid s = (Inr roles, s)" "users_permissionsOf uid s = (Inr permissions, s)"
    by (simp add: users_rolesOf_def users_permissionsOf_def)
  let ?inp = "\<lparr>ai_sub = uid, ai_scope = scope, ai_roles = roles, ai_permissions = permissions, ai_sid = Some (ss_id session),
      ai_client_id = Some (cl_client_id client), ai_amr = Some [''oauth'']\<rparr>"
  obtain signed s2 where sign: "signAccessToken env cfg ?inp None s1 = (Inr signed, s2)"
    and signed: "it_token signed = jwt_sign env (sk_privateKeyPem key) (token_header (sk_kid key))
         (access_payload cfg ?inp (epoch_seconds (clock s)) (ACCESS_TOKEN_TTL cfg) (rand_uuid env (Suc (draws s))))"
    and s2: "settled s0 s2" "clock s2 = clock s" "t_refresh s2 = t_refresh s" "draws s \<le> draws s2"
    using s1 by (simp add: sign_run [OF key [OF s1(1)]] Let_def settled_def)
  let ?rp = "\<lparr>rp_sessionId = ss_id session, rp_userId = uid, rp_clientId = Some (cl_id client), rp_scope = scope,
      rp_familyId = None, rp_previousTokenId = None\<rparr>"
  obtain token expires s3 where issue: "refresh_issue env cfg ?rp s2 = (Inr (token, expires), s3)" and s3: "settled s0 s3" "clock s3 = clock s"
    using s2 assms(4) by (simp add: refresh_issue_def bindM_run insertM_ok fresh_rows_def settled_def)
  obtain idt where idt: "(if contains ''openid'' scope then
        bindM (users_findById env uid) (\<lambda>user.
        bindM (signIdToken env cfg (oauth_id_claims user scope nonce) (cl_client_id client) uid (ID_TOKEN_TTL cfg)) (\<lambda>t.
        returnM (Some t)))
      else returnM None) s3 = (Inr idt, s3)"
    using assms(3) key [OF s3(1)] by (cases "contains ''openid'' scope") (simp_all add: users_findById_def signIdToken_def bindM_run)
  obtain resp s' where "oauth_issueUserTokens env cfg uid client scope nonce ctx s = (Inr resp, s')"
    and "tr_access_token resp = it_token signed" "tr_scope resp = scope" and "settled s0 s'" "clock s' = clock s"
    using s3 by (simp add: oauth_issueUserTokens_def bindM_run reads new sign issue idt settled_def)
  with signed show thesis by (intro that [of resp s' ?inp "Suc (draws s)"]) simp_all
qed

text \<open>The code that was granted is exchanged.\<close>

lemma granted_code_exchanged:
  assumes "oauth_authorize env cfg inp (Some uid) state ctx s = (Inr url, s1)"
    and "signs_with env cfg s key" and "d \<le> 1000 * AUTHORIZATION_CODE_TTL cfg"
    and "token_client_id form basicAuth = Some (az_client_id inp)" and "token_client env form basicAuth s client"
    and "tf_grant_type form = ''authorization_code''" and "tf_code form = Some (rand_b64url env 32 (draws s))"
    and "tf_redirect_uri form = Some (az_redirect_uri inp)"
    and "truthy (tf_code form)" and "truthy (tf_redirect_uri form)" and "truthy (tf_code_verifier form)"
    and "pkce_matches env (the (tf_code_verifier form)) (az_code_challenge inp) (Some (az_code_challenge_method inp))"
    and "fresh_rows env (draws s) s" and "distinct (map cl_id (t_clients s))"
  obtains resp s2 ai i where "oauth_token env cfg form basicAuth ctx' (elapse d s1) = (Inr resp, s2)" and "tr_scope resp = az_scope inp"
    and "ai_sub ai = uid" and "ai_scope ai = az_scope inp" and "draws s \<le> i" and "settled s s2" and "clock s2 = clock s + d"
    and "tr_access_token resp = jwt_sign env (sk_privateKeyPem key) (token_header (sk_kid key))
         (access_payload cfg ai (epoch_seconds (clock s + d)) (ACCESS_TOKEN_TTL cfg) (rand_uuid env i))"
proof -
  let ?s = "elapse d s1" and ?code = "rand_b64url env 32 (draws s)"
  obtain client' row where client': "List.find (\<lambda>c. cl_client_id c = az_client_id inp) (t_clients s) = Some client'"
    and uuid: "uuid_syntax env uid" and challenge: "challenge_ok (az_code_challenge inp)"
    and codes: "t_codes s1 = t_codes s @ [row]" "\<forall>r \<in> set (t_codes s). ac_id r \<noteq> ac_id row \<and> ac_code_hash r \<noteq> ac_code_hash row"
    and row: "row = granted_row env cfg inp uid client' (ac_id row) s"
    and s1: "settled s s1" "clock s1 = clock s" "t_sessions s1 = t_sessions s" "t_refresh s1 = t_refresh s"
    by (rule granted_run [OF assms(1)]) blast
  have "client' = client" using client' assms(4,5) by (simp add: token_client_def)
  note fields = granted_row_fields [of env cfg inp uid client "ac_id row" s, folded row [unfolded this]]
  have s: "t_codes ?s = t_codes s @ [row]" "t_clients ?s = t_clients s" "clock ?s = clock s + d"
    using codes(1) s1 by (simp_all add: settled_def elapse_def)
  have client: "client \<in> set (t_clients s)" "cl_client_id client = az_client_id inp"
    using find_SomeD [OF client'] \<open>client' = client\<close> by simp_all
  note lookup = granted_lookup [OF s(1) codes(2) fields(1,2) _ _ fields(9), unfolded s(2), OF client(1) assms(14)]
  have "az_code_challenge inp \<noteq> []" using challenge by (auto simp: challenge_ok_def)
  then have "truthy (ac_code_challenge row)" by (simp add: fields)
  note grant = grantCode_ok [OF assms(9-11), of env client "token_secret form basicAuth" "az_client_id inp" ?s row cfg ctx', OF _ _ lookup(2) this]
  have "oauth_token env cfg form basicAuth ctx' ?s = oauth_grantCode env cfg form client (az_client_id inp) (token_secret form basicAuth) ctx' ?s"
    using assms(4-6) s(2) by (simp add: token_client_def token_eq)
  also have "\<dots> = oauth_issueUserTokens env cfg uid client (az_scope inp) (ac_nonce row) ctx' (?s\<lparr>t_codes := consumed_codes row ?s\<rparr>)"
    using grant lookup(1) client(2) assms(3,5,7,8,12) fields s(3) by (simp add: token_client_def code_valid_def)
  finally have run: "oauth_token env cfg form basicAuth ctx' ?s = \<dots>" .
  let ?s' = "?s\<lparr>t_codes := consumed_codes row ?s\<rparr>"
  have s': "settled s ?s'" "fresh_rows env (draws ?s') ?s'" "draws s \<le> draws ?s'" "clock ?s' = clock s + d"
    using s1 assms(13) by (auto simp: settled_def fresh_rows_def elapse_def)
  obtain resp s2 i ai where "oauth_issueUserTokens env cfg uid client (az_scope inp) (ac_nonce row) ctx' ?s' = (Inr resp, s2)"
    and "tr_access_token resp = jwt_sign env (sk_privateKeyPem key) (token_header (sk_kid key))
         (access_payload cfg ai (epoch_seconds (clock ?s')) (ACCESS_TOKEN_TTL cfg) (rand_uuid env i))"
    and "ai_sub ai = uid" "ai_scope ai = az_scope inp" "draws ?s' \<le> i" "settled s s2" "clock s2 = clock ?s'" "tr_scope resp = az_scope inp"
    by (rule issueUserTokens_ok [OF assms(2) s'(1) uuid s'(2)])
  then show thesis
    using run s'(3) by (intro that [of resp s2 ai i]) (simp_all add: s'(4))
qed

section \<open>The profile\<close>


text \<open>A library that signs and opens the one token of the exchange.\<close>

definition journey_payload :: jwt_payload where
  "journey_payload = access_payload sample_cfg \<lparr>ai_sub = ''Ua'', ai_scope = ''openid api.read'', ai_roles = [''user''],
     ai_permissions = [], ai_sid = Some ''U11'', ai_client_id = Some ''cli'', ai_amr = Some [''oauth'']\<rparr> 121 900 ''U111''"

definition journey_env :: externals where
  "journey_env = sample_env\<lparr>
     jwt_sign := (\<lambda>key h p. if h = token_header ''k1'' \<and> p = journey_payload then ''J'' else ''X''),
     jwt_verify := (\<lambda>token key options now. if token = ''J'' \<and> claims_ok options now journey_payload then Inr journey_payload
        else Inl (Some ''ERR_JWT_EXPIRED''))\<rparr>"

definition journey_form :: token_form where
  "journey_form = code_form\<lparr>tf_code := Some ''R''\<rparr>"

lemma journey_accepts: "''J'' = jwt_sign journey_env k h p \<Longrightarrow> jose_accepts journey_env k pub h p"
  by (auto simp: journey_env_def jose_accepts_def sample_env_def token_header_def split: if_splits)


end
