(* ===== verification/Spec2Isabelle.thy ===== *)
theory Spec2Isabelle
  imports System Config Spa_Url Spa_Flow Spa_Refresh Server_Properties Bootstrap Seeds
    Winner_Exists Session_Race Overlaps Rate_Overlaps Spa_Forms Spa_Page Spa_Types Spa_Errors Sign_In OAuth_Journey
    Frontend_Server Email Startup
begin

text \<open>
  This library models an identity platform: an authentication server, an OAuth 2.0 provider, an API
  gateway with a resource service behind it, and the browser application that talks to them. The code is
  TypeScript, under \<^verbatim>\<open>src/\<close> of the repository; paths below are relative to that directory.

  \<^bold>\<open>State and effects.\<close> \<open>Schema\<close> has a record per table of the database (\<^verbatim>\<open>infrastructure/database/migrations\<close>)
  and the record \<open>world\<close>: the tables, the Redis store, the key files, the sent messages, the clock, and a
  counter of the random numbers drawn. An operation of the code is an \<open>act\<close>, a function from a world to an
  exception or a result and the next world, and keeps the source's name with the name of its service in
  front (\<open>refresh_consume\<close> is \<open>RefreshTokenService.consume\<close>). \<open>Prelude\<close> has the monad of such functions with
  its rules, \<open>Errors\<close> the exceptions and the envelope of \<open>errorHandler\<close>. The record \<open>externals\<close> holds what
  the code calls and does not contain: argon2, SHA-256, AES-GCM, key generation, jose, TOTP, nodemailer, random
  values; it also names the e-mail provider that the process was started with.

  \<^bold>\<open>Parts, in the order of imports.\<close>
  \<^item> \<open>Redis\<close>, \<open>Rate_Limit\<close>: \<^verbatim>\<open>infrastructure/redis/redis.service.ts\<close>, \<^verbatim>\<open>modules/rate-limit\<close>. Keys with
    deadlines, counters of a window, sets; the limiter lets exactly the first requests of a window through.
  \<^item> \<open>Passwords\<close>, \<open>Audit_Log\<close>, \<open>Users\<close>: \<^verbatim>\<open>modules/users\<close>, \<^verbatim>\<open>modules/audit\<close>. Policy, redaction, repository,
    tokens sent by e-mail, registration.
  \<^item> \<open>Session_Store\<close>, \<open>Refresh_Tokens\<close>: \<^verbatim>\<open>modules/sessions\<close>, \<^verbatim>\<open>modules/tokens/refresh-token.service.ts\<close>. The
    session table with its cache, rotation, detection of reuse, token families.
  \<^item> \<open>Keys\<close>, \<open>Access_Tokens\<close>: \<^verbatim>\<open>modules/keys\<close>, \<^verbatim>\<open>modules/tokens\<close>, \<^verbatim>\<open>common/guards\<close>. Envelopes, signing keys and
    their rotation, issue and verification of access tokens, the denylist, the guards of routes.
  \<^item> \<open>Mfa\<close>, \<open>Risk\<close>, \<open>Auth\<close>: \<^verbatim>\<open>modules/mfa\<close>, \<^verbatim>\<open>modules/risk\<close>, \<^verbatim>\<open>modules/auth\<close>. Enrolment and challenges, the
    score of a login, login with lockout and second factor, refresh, logout, password reset. \<open>Js_Division\<close> is the
    division of JavaScript with the text of its result, which stands in the mail of a reset.
  \<^item> \<open>Clients\<close>, \<open>OAuth\<close>, \<open>Rbac\<close>: \<^verbatim>\<open>modules/clients\<close>, \<^verbatim>\<open>modules/oauth\<close>, \<^verbatim>\<open>modules/roles\<close>. The three grants,
    introspection, revocation, PKCE, and the administration.
  \<^item> \<open>Gateway\<close>, \<open>Resource\<close>: \<^verbatim>\<open>modules/gateway\<close>, \<^verbatim>\<open>modules/resources\<close>. Remote verification, the identity
    headers, the documents.
  \<^item> \<open>Routes\<close>: the handlers of \<^verbatim>\<open>modules/auth\<close>, \<^verbatim>\<open>modules/mfa\<close> and \<^verbatim>\<open>modules/oauth\<close> in the order of their
    middlewares, on bodies that were already parsed.
  \<^item> \<open>Js_Number\<close>, \<open>Zod\<close>, \<open>Schemas\<close>, \<open>Config\<close>: numbers as JavaScript reads them from text, the combinators
    of the validation library that the code uses, the schemas of all requests (\<^verbatim>\<open>common/validation\<close> and the
    \<^verbatim>\<open>*.schemas.ts\<close> files), and the environment (\<^verbatim>\<open>config/index.ts\<close>).
  \<^item> \<open>App\<close>: \<^verbatim>\<open>app.factory.ts\<close>, \<^verbatim>\<open>modules/gateway/gateway.factory.ts\<close>, \<^verbatim>\<open>modules/resources/resource.factory.ts\<close>.
    The three servers as functions from a request and a world to a response and a world: correlation id,
    body, routing table, guard, validation, handler, error envelope, 404. \<open>HEAD\<close> runs the route of \<open>GET\<close>, and the
    authentication server answers every \<open>OPTIONS\<close> in front of its routes, as \<^verbatim>\<open>cors()\<close> does.
  \<^item> \<open>World_Invariant\<close>, \<open>System\<close>: a step is any request to the authentication server or the passing of time;
    reachability, and what no run of the system can undo.
  \<^item> \<open>Server_Properties\<close>: who gets through the administration and through the gateway.
  \<^item> \<open>Interleaving\<close>, \<open>Statements\<close>: requests that overlap. A program is a tree of single commands on the
    database or on Redis, a schedule says whose turn is next and when time passes. \<open>Statements\<close> writes the
    operations that requests contend for as such programs and shows that each, run alone, is the operation
    of its component. \<open>Single_Winner\<close>, \<open>Winner_Exists\<close> and \<open>Session_Race\<close> have what holds under every
    schedule, \<open>Overlaps\<close> what goes wrong under some. \<open>Rate_Overlaps\<close> does the same for the rate limiter, whose
    process can also end between two of its commands.
  \<^item> \<open>Spa\<close> with \<open>Spa_Url\<close>, \<open>Spa_Flow\<close>, \<open>Spa_Refresh\<close>: the browser application (\<^verbatim>\<open>apps/frontend/client\<close>).
    A call of the API client is a thread whose states are its awaits, so that two calls can be
    interleaved; the network is a parameter, instantiated by the authentication server in \<open>Spa_Refresh\<close>.
  \<^item> \<open>Dom\<close>, \<open>Spa_Views\<close>, \<open>Spa_Account\<close>: the elements of the page as trees with attributes, the selectors and
    helpers of \<^verbatim>\<open>client/ui.ts\<close>, the form of every view with its handler, and the dashboard. \<open>Spa_Forms\<close> relates
    the handlers to the submissions of \<open>Spa\<close>, \<open>Spa_Types\<close> the dashboard to the answers of the servers; \<open>Spa_Errors\<close> has
    what failures do to the tokens. \<open>Spa_Page\<close> has what happens in the page over time: the focus among the boxes
    of a code (\<^verbatim>\<open>client/views/mfa.ts\<close>) and the exchange of the views by timers and frames (\<^verbatim>\<open>client/router.ts\<close>).
  \<^item> \<open>Sign_In\<close>, \<open>OAuth_Journey\<close>: the parts together, from the login form to the dashboard and from the
    authorization endpoint to \<^verbatim>\<open>/userinfo\<close>.
  \<^item> \<open>Frontend_Server\<close>: \<^verbatim>\<open>apps/frontend/server.ts\<close> and the reader of its configuration, \<^verbatim>\<open>client/config.ts\<close>.
  \<^item> \<open>Email\<close>, \<open>Startup\<close>: \<^verbatim>\<open>modules/email\<close>, the entry points \<^verbatim>\<open>apps/*/main.ts\<close> and the scripts; a process exits
    with a code or listens with one of the servers above, and keeps only what is stored outside of it.
  \<^item> \<open>Bootstrap\<close> with \<open>Seeds\<close>: migrations, transactions and seed data (\<^verbatim>\<open>infrastructure/database\<close>).

  \<^bold>\<open>Interfaces.\<close> Each locale is interpreted on the definitions of the component that provides it. The locale
  of \<open>Single_Use\<close> states the contract of tokens that work once, with its trace theorem; refresh tokens,
  authorization codes and the tokens sent by e-mail interpret it. The locale \<open>contended\<close> of \<open>Interleaving\<close>
  is its counterpart for overlapping requests: a program that wins only in a command that takes the thing
  away; authorization codes and refresh tokens interpret it in \<open>Single_Winner\<close>. The locales of \<open>Redis\<close> and
  \<open>World_Invariant\<close> state what a store with deadlines promises and what every step keeps. \<open>Frames\<close> has
  the rules for what an operation leaves alone (\<open>preserves\<close>, \<open>drawn\<close>), and every component adds its own
  to the collection, so that an invariant of the world is proved by one application of the rules.
  \<open>Samples\<close> has the concrete world and the concrete externals of the witnesses.

  \<^bold>\<open>What the theorems show.\<close> Tokens and codes: what a successful use needs and gives, that no token, code
  or reset token works twice, that reuse revokes the family or the tokens of the code, and that along
  every run of the system what is spent stays spent. Accounts: the gates of a login, the lockout, the
  bound on the codes that are tried one after another, the effect of logout and password reset. Access tokens: the round trip,
  soundness of verification, the denylist. Boundaries: the administration is closed without the
  permission of the route, an audit row has no value under a credential-like key of its metadata, the identity behind the gateway is the one of the verified token, documents
  are isolated. Overlaps: a code and a refresh token have at most one winner under every schedule, a valid
  code has one, a revoked session is not found active by a look-up that begins later; but wrong codes and
  wrong passwords that are tried at once escape their limits, and a successor can outrun the revocation of
  its family. The rate limiter keeps its limit under every schedule, but a process that ends at the wrong
  moment leaves a counter that never expires. Browser: every call ends, the router settles, the page shows
  the view that was asked for last, a code can be typed or pasted, the challenge survives the fragment, the
  forms send what was typed and can be submitted again, texts of the servers stay texts, the dashboard reads
  what the servers send, and two calls that refresh at the same time sign the visitor out. Together: whoever
  signs in through the form is shown the own profile, for as long as the token lives, and a client that was
  granted a code gets tokens that open the claims of the user. Start: the
  settings are what the operator wrote and reach the page, migrations run once and in order, seeds are
  idempotent, and a server that is started again signs with its key. Theorems about behaviour that the code
  hardly means (the lockout that forgets a missing verification, the second factor that an enrolment
  switches off, the reuse that the token endpoint does not notice, the gap between denylist and
  tolerance, the recovery view that leads back to itself, the mail server whose failure tells accounts
  apart) stand beside the others in the theory of
  their component.

  \<^bold>\<open>Bounds and fuel.\<close> Looking for the signing key has fuel 2: the code generates a key when there is none
  and asks again, and then there is one. A call of the API client takes at most seven steps and the router
  at most three renderings; both are theorems. The reader of the configuration script has as fuel the
  length of the text, of which every member takes a part. Nothing else needs fuel. Times, counters and TTLs are
  integers without bound: JavaScript represents them exactly up to two to the power of 53, and the
  database keeps \<^verbatim>\<open>timestamptz\<close>.

  \<^bold>\<open>Simplifications.\<close> In the components a handler runs at one instant. Overlaps are modelled for the
  operations of \<open>Statements\<close>: there every statement of the database and every call of Redis is a command of
  its own, but the tail of a successful login, the insertion of a successor and the key service are single
  commands. Only in \<open>Rate_Overlaps\<close> a process can end between two commands. PostgreSQL and Redis behave as documented; foreign keys are
  checked where the code can violate them (roles, permissions, user roles, documents); \<open>ORDER BY\<close> compares
  characters and leaves ties in the order of insertion. Strings are of the Latin-1 range, lower case
  and \<^verbatim>\<open>citext\<close> act on ASCII, identifiers are in canonical lower case. Dates in JSON are numbers. The
  guards that run in front of the validation are repeated by the handlers of \<open>Routes\<close>; they only read.
  Fields of type \<^verbatim>\<open>email\<close> keep the blanks around their text, which a browser strips.
  A request of the browser without an answer is one with the answer \<open>network_error\<close>; characters beyond
  Latin-1 in the texts of the page are their UTF-8 bytes.

  \<^bold>\<open>Parameters with documented behaviour.\<close> Digests are assumed to be injective, decryption to invert encryption,
  signature verification to accept what was signed, where a theorem needs it, as hypotheses of that
  theorem; the key set of the gateway, the syntax checks and messages of zod, the export of keys as JWK,
  the effect of an SQL file, the files below a directory and the ports of the machine are arguments.

  \<^bold>\<open>Not modelled.\<close> Response headers other than the caching of the pages, those of CORS and helmet included, cookies, the
  answers of Express to \<open>OPTIONS\<close> at the gateway and the resource interface, the Swagger UI, log lines and their redaction by pino, the SMTP protocol,
  connection pools, the copying of assets, in the browser the classes with which a toast fades, and that an answer to \<open>HEAD\<close> is sent without its body: they are
  I/O or wiring of other libraries.
\<close>

end
